(* ===== verification/AppErrors.thy ===== *)
theory AppErrors
  imports Prelude
begin

text \<open>
  The error values of the backend (pkg/apperrors/errors.go), how they cross a gRPC boundary
  (pkg/grpcerrors/errors.go), and the predicates on them.  The sentinel errors are the constants
  of a datatype; an error value is a sentinel, an apperrors.Error with its kind, message and
  cause, a fmt.Errorf value that wraps another error, a gRPC status error, one of the two errors
  of a context, a not-found answer of the Docker engine, a PostgreSQL error with its code and the
  constraint it names, or an error of some other package, of which only the text is known.
\<close>

datatype sentinel =
    ErrNotFound | ErrAlreadyExists | ErrInvalidCredentials | ErrUnauthorized | ErrForbidden
  | ErrInvalidToken | ErrBadRequest | ErrInternal | ErrResourceExhausted | ErrQuotaExceeded
  | ErrLimitExceeded | ErrHostExhausted | ErrInvalidFileFormat | ErrConflict | ErrResourceInUse
  | ErrTimeout | ErrUnavailable

fun sentinel_text :: "sentinel \<Rightarrow> string" where
  "sentinel_text ErrNotFound = ''not found''"
| "sentinel_text ErrAlreadyExists = ''already exists''"
| "sentinel_text ErrInvalidCredentials = ''invalid credentials''"
| "sentinel_text ErrUnauthorized = ''unauthorized''"
| "sentinel_text ErrForbidden = ''forbidden''"
| "sentinel_text ErrInvalidToken = ''invalid token''"
| "sentinel_text ErrBadRequest = ''bad request''"
| "sentinel_text ErrInternal = ''internal server error''"
| "sentinel_text ErrResourceExhausted = ''server capacity reached, cannot allocate resources''"
| "sentinel_text ErrQuotaExceeded = ''user memory quota exceeded''"
| "sentinel_text ErrLimitExceeded = ''maximum number of resources reached''"
| "sentinel_text ErrHostExhausted = ''host server is out of memory''"
| "sentinel_text ErrInvalidFileFormat = ''invalid file format, allowed: .zip, .tar, .tar.gz''"
| "sentinel_text ErrConflict = ''conflict''"
| "sentinel_text ErrResourceInUse = ''resource is currently in use''"
| "sentinel_text ErrTimeout = ''request timed out''"
| "sentinel_text ErrUnavailable = ''service unavailable''"

datatype code =
    InvalidArgument | Unauthenticated | PermissionDenied | CodeNotFound | CodeAlreadyExists
  | ResourceExhausted | FailedPrecondition | Aborted | DeadlineExceeded | Unavailable
  | Internal | OtherCode

datatype goerr =
    Sentinel sentinel
  | AppErr "goerr option" string "goerr option"
  | Wrapped string goerr
  | StatusErr code string
  | CtxCanceled
  | CtxDeadlineExceeded
  | DockerNotFound string
  | PgError string string
  | OtherErr string

definition mk_err :: "sentinel \<Rightarrow> string \<Rightarrow> goerr" where
  "mk_err kind message = AppErr (Some (Sentinel kind)) message None"

definition wrap_err :: "sentinel \<Rightarrow> string \<Rightarrow> goerr \<Rightarrow> goerr" where
  "wrap_err kind message cause = AppErr (Some (Sentinel kind)) message (Some cause)"

fun error_text :: "goerr \<Rightarrow> string" where
  "error_text (Sentinel s) = sentinel_text s"
| "error_text (AppErr kind message cause) =
     (if message \<noteq> [] then message
      else case kind of Some k \<Rightarrow> error_text k
           | None \<Rightarrow> (case cause of Some c \<Rightarrow> error_text c | None \<Rightarrow> sentinel_text ErrInternal))"
| "error_text (Wrapped message e) = message"
| "error_text (StatusErr c message) = message"
| "error_text CtxCanceled = ''context canceled''"
| "error_text CtxDeadlineExceeded = ''context deadline exceeded''"
| "error_text (DockerNotFound message) = message"
| "error_text (PgError pgcode constraint) = ''pq: '' @ pgcode @ '' '' @ constraint"
| "error_text (OtherErr message) = message"

text \<open>errors.Is with the Is and Unwrap methods of apperrors.Error.\<close>

fun errors_is :: "goerr \<Rightarrow> sentinel \<Rightarrow> bool" where
  "errors_is (Sentinel s) t \<longleftrightarrow> s = t"
| "errors_is (AppErr kind message cause) t \<longleftrightarrow>
     (case kind of Some k \<Rightarrow> errors_is k t | None \<Rightarrow> False)
     \<or> (case cause of Some c \<Rightarrow> errors_is c t | None \<Rightarrow> False)"
| "errors_is (Wrapped message e) t \<longleftrightarrow> errors_is e t"
| "errors_is (StatusErr c message) t \<longleftrightarrow> False"
| "errors_is CtxCanceled t \<longleftrightarrow> False"
| "errors_is CtxDeadlineExceeded t \<longleftrightarrow> False"
| "errors_is (DockerNotFound message) t \<longleftrightarrow> False"
| "errors_is (PgError pgcode constraint) t \<longleftrightarrow> False"
| "errors_is (OtherErr message) t \<longleftrightarrow> False"

text \<open>errors.Is for the two errors of a context, and the not-found test of the Docker client.\<close>

fun is_ctx_error :: "goerr \<Rightarrow> bool" where
  "is_ctx_error CtxCanceled \<longleftrightarrow> True"
| "is_ctx_error CtxDeadlineExceeded \<longleftrightarrow> True"
| "is_ctx_error (AppErr kind message cause) \<longleftrightarrow>
     (case cause of Some c \<Rightarrow> is_ctx_error c
      | None \<Rightarrow> (case kind of Some k \<Rightarrow> is_ctx_error k | None \<Rightarrow> False))"
| "is_ctx_error (Wrapped message e) \<longleftrightarrow> is_ctx_error e"
| "is_ctx_error e \<longleftrightarrow> False"

fun is_docker_not_found :: "goerr \<Rightarrow> bool" where
  "is_docker_not_found (DockerNotFound message) \<longleftrightarrow> True"
| "is_docker_not_found (AppErr kind message cause) \<longleftrightarrow>
     (case cause of Some c \<Rightarrow> is_docker_not_found c
      | None \<Rightarrow> (case kind of Some k \<Rightarrow> is_docker_not_found k | None \<Rightarrow> False))"
| "is_docker_not_found (Wrapped message e) \<longleftrightarrow> is_docker_not_found e"
| "is_docker_not_found e \<longleftrightarrow> False"

text \<open>The code of the PostgreSQL error in the chain, if there is one (errors.As for pq.Error).\<close>

fun pg_error :: "goerr \<Rightarrow> (string \<times> string) option" where
  "pg_error (PgError pgcode constraint) = Some (pgcode, constraint)"
| "pg_error (AppErr kind message cause) =
     (case cause of Some c \<Rightarrow> pg_error c
      | None \<Rightarrow> (case kind of Some k \<Rightarrow> pg_error k | None \<Rightarrow> None))"
| "pg_error (Wrapped message e) = pg_error e"
| "pg_error e = None"

text \<open>errors.As for the type of apperrors.Error: the first such value of the unwrap chain.\<close>

fun as_app_error :: "goerr \<Rightarrow> goerr option" where
  "as_app_error (AppErr kind message cause) = Some (AppErr kind message cause)"
| "as_app_error (Wrapped message e) = as_app_error e"
| "as_app_error e = None"

fun first_match :: "goerr \<Rightarrow> sentinel list \<Rightarrow> sentinel option" where
  "first_match e [] = None"
| "first_match e (s # ss) = (if errors_is e s then Some s else first_match e ss)"

definition safe_order :: "sentinel list" where
  "safe_order = [ErrInternal, ErrBadRequest, ErrInvalidFileFormat, ErrNotFound, ErrAlreadyExists,
     ErrInvalidCredentials, ErrInvalidToken, ErrUnauthorized, ErrForbidden, ErrLimitExceeded,
     ErrQuotaExceeded, ErrHostExhausted, ErrResourceExhausted, ErrResourceInUse, ErrConflict,
     ErrTimeout, ErrUnavailable]"

definition safe_message :: "goerr option \<Rightarrow> string" where
  "safe_message err = (case err of None \<Rightarrow> []
     | Some e \<Rightarrow> (case as_app_error e of Some a \<Rightarrow> error_text a
        | None \<Rightarrow> (case first_match e safe_order of
             Some ErrBadRequest \<Rightarrow> error_text e
           | Some s \<Rightarrow> sentinel_text s
           | None \<Rightarrow> sentinel_text ErrInternal)))"

fun sentinel_code :: "sentinel \<Rightarrow> string" where
  "sentinel_code ErrInvalidCredentials = ''invalid_credentials''"
| "sentinel_code ErrInvalidToken = ''invalid_token''"
| "sentinel_code ErrUnauthorized = ''unauthorized''"
| "sentinel_code ErrForbidden = ''forbidden''"
| "sentinel_code ErrInvalidFileFormat = ''invalid_file_format''"
| "sentinel_code ErrBadRequest = ''bad_request''"
| "sentinel_code ErrNotFound = ''not_found''"
| "sentinel_code ErrAlreadyExists = ''already_exists''"
| "sentinel_code ErrLimitExceeded = ''limit_exceeded''"
| "sentinel_code ErrQuotaExceeded = ''quota_exceeded''"
| "sentinel_code ErrHostExhausted = ''host_exhausted''"
| "sentinel_code ErrResourceExhausted = ''resource_exhausted''"
| "sentinel_code ErrResourceInUse = ''resource_in_use''"
| "sentinel_code ErrConflict = ''conflict''"
| "sentinel_code ErrTimeout = ''timeout''"
| "sentinel_code ErrUnavailable = ''unavailable''"
| "sentinel_code ErrInternal = ''internal''"

definition code_order :: "sentinel list" where
  "code_order = [ErrInvalidCredentials, ErrInvalidToken, ErrUnauthorized, ErrForbidden,
     ErrInvalidFileFormat, ErrBadRequest, ErrNotFound, ErrAlreadyExists, ErrLimitExceeded,
     ErrQuotaExceeded, ErrHostExhausted, ErrResourceExhausted, ErrResourceInUse, ErrConflict,
     ErrTimeout, ErrUnavailable, ErrInternal]"

definition err_code :: "goerr option \<Rightarrow> string" where
  "err_code err = (case err of None \<Rightarrow> ''internal''
     | Some e \<Rightarrow> (case first_match e code_order of Some s \<Rightarrow> sentinel_code s | None \<Rightarrow> ''internal''))"

section \<open>Crossing a gRPC boundary\<close>

definition grpc_code :: "goerr \<Rightarrow> code" where
  "grpc_code e =
    (if errors_is e ErrBadRequest \<or> errors_is e ErrInvalidFileFormat then InvalidArgument
     else if errors_is e ErrInvalidCredentials \<or> errors_is e ErrInvalidToken
             \<or> errors_is e ErrUnauthorized then Unauthenticated
     else if errors_is e ErrForbidden then PermissionDenied
     else if errors_is e ErrNotFound then CodeNotFound
     else if errors_is e ErrAlreadyExists then CodeAlreadyExists
     else if errors_is e ErrLimitExceeded \<or> errors_is e ErrQuotaExceeded
             \<or> errors_is e ErrResourceExhausted \<or> errors_is e ErrHostExhausted then ResourceExhausted
     else if errors_is e ErrConflict \<or> errors_is e ErrResourceInUse then FailedPrecondition
     else if errors_is e ErrTimeout then DeadlineExceeded
     else if errors_is e ErrUnavailable then Unavailable
     else Internal)"

definition to_grpc :: "goerr \<Rightarrow> goerr" where
  "to_grpc e = StatusErr (grpc_code e) (safe_message (Some e))"

definition unauthenticated_kind :: "string \<Rightarrow> sentinel" where
  "unauthenticated_kind message =
    (if message = sentinel_text ErrInvalidCredentials then ErrInvalidCredentials
     else if message = sentinel_text ErrInvalidToken then ErrInvalidToken
     else ErrUnauthorized)"

definition resource_exhausted_kind :: "string \<Rightarrow> sentinel" where
  "resource_exhausted_kind message =
    (if message = sentinel_text ErrLimitExceeded then ErrLimitExceeded
     else if message = sentinel_text ErrHostExhausted then ErrHostExhausted
     else if str_contains (to_lower message) ''quota'' then ErrQuotaExceeded
     else ErrResourceExhausted)"

definition conflict_kind :: "string \<Rightarrow> sentinel" where
  "conflict_kind message =
    (if str_contains (to_lower message) ''used by'' then ErrResourceInUse else ErrConflict)"

fun status_message :: "code \<Rightarrow> string" where
  "status_message InvalidArgument = sentinel_text ErrBadRequest"
| "status_message Unauthenticated = sentinel_text ErrUnauthorized"
| "status_message PermissionDenied = sentinel_text ErrForbidden"
| "status_message CodeNotFound = sentinel_text ErrNotFound"
| "status_message CodeAlreadyExists = sentinel_text ErrAlreadyExists"
| "status_message ResourceExhausted = sentinel_text ErrResourceExhausted"
| "status_message FailedPrecondition = sentinel_text ErrConflict"
| "status_message Aborted = sentinel_text ErrConflict"
| "status_message DeadlineExceeded = sentinel_text ErrTimeout"
| "status_message Unavailable = sentinel_text ErrUnavailable"
| "status_message Internal = sentinel_text ErrInternal"
| "status_message OtherCode = sentinel_text ErrInternal"

fun status_kind :: "code \<Rightarrow> string \<Rightarrow> sentinel option" where
  "status_kind InvalidArgument m = Some ErrBadRequest"
| "status_kind Unauthenticated m = Some (unauthenticated_kind m)"
| "status_kind PermissionDenied m = Some ErrForbidden"
| "status_kind CodeNotFound m = Some ErrNotFound"
| "status_kind CodeAlreadyExists m = Some ErrAlreadyExists"
| "status_kind ResourceExhausted m = Some (resource_exhausted_kind m)"
| "status_kind FailedPrecondition m = Some (conflict_kind m)"
| "status_kind Aborted m = Some (conflict_kind m)"
| "status_kind DeadlineExceeded m = Some ErrTimeout"
| "status_kind Unavailable m = Some ErrUnavailable"
| "status_kind Internal m = None"
| "status_kind OtherCode m = None"

text \<open>
  status.FromError recognises a status error; for any other error of the model it reports that
  the value carries no status.
\<close>

fun from_grpc :: "goerr \<Rightarrow> goerr" where
  "from_grpc (StatusErr c m) =
     (let message = (if m = [] then status_message c else m)
      in case status_kind c message of
           Some k \<Rightarrow> mk_err k message
         | None \<Rightarrow> wrap_err ErrInternal (sentinel_text ErrInternal) (StatusErr c m))"
| "from_grpc e = wrap_err ErrInternal (sentinel_text ErrInternal) e"

section \<open>Laws\<close>

lemma errors_is_mk_err [simp]: "errors_is (mk_err k m) t \<longleftrightarrow> k = t"
  by (simp add: mk_err_def)

lemma errors_is_wrap_err [simp]: "errors_is (wrap_err k m c) t \<longleftrightarrow> k = t \<or> errors_is c t"
  by (simp add: wrap_err_def)

lemma as_app_error_mk_err [simp]: "as_app_error (mk_err k m) = Some (mk_err k m)"
  by (simp add: mk_err_def)

lemma as_app_error_wrap_err [simp]: "as_app_error (wrap_err k m c) = Some (wrap_err k m c)"
  by (simp add: wrap_err_def)

lemma sentinel_text_ne [simp]: "sentinel_text s \<noteq> []"
  by (cases s) auto

lemma error_text_mk_err [simp]:
  "error_text (mk_err k m) = (if m = [] then sentinel_text k else m)"
  by (simp add: mk_err_def)

lemma error_text_wrap_err [simp]:
  "error_text (wrap_err k m c) = (if m = [] then sentinel_text k else m)"
  by (simp add: wrap_err_def)

lemma first_match_SomeD: "first_match e ss = Some s \<Longrightarrow> errors_is e s \<and> s \<in> set ss"
  by (induction ss) (auto split: if_splits)

lemma first_match_None: "first_match e ss = None \<longleftrightarrow> (\<forall>s \<in> set ss. \<not> errors_is e s)"
  by (induction ss) auto

lemma safe_message_mk_err [simp]:
  "safe_message (Some (mk_err k m)) = (if m = [] then sentinel_text k else m)"
  by (simp add: safe_message_def)

lemma code_order_all [simp]: "s \<in> set code_order"
  by (cases s) (simp_all add: code_order_def)

lemma safe_order_all [simp]: "s \<in> set safe_order"
  by (cases s) (simp_all add: safe_order_def)

end
