(* ===== verification/Model.thy ===== *)
theory Model
  imports AppErrors
begin

text \<open>
  The data of the core service (internal/core/model): one datatype per status vocabulary and one
  record per struct.  The empty string, which the code uses for an unset status, is the
  constructor NoStatus.  Optional pointers are option values; env_vars, command, entrypoint and
  healthcheck are kept decoded (the code stores them as JSON and reads back the same values).
\<close>

section \<open>Containers (model/container.go, model/runtime.go)\<close>

datatype cstatus =
    NoStatus | CPending | CCreating | CCreated | CStarting | CRunning | CStopping | CExited
  | CExposing | CError | CMissing | CDeleting | CReconciling

record healthcheck =
  hc_test :: "string list"
  hc_interval :: int
  hc_timeout :: int
  hc_start_period :: int
  hc_retries :: int

record container =
  c_id :: id
  c_owner :: id
  c_project :: "id option"
  c_docker_id :: string
  c_name :: string
  c_image_tag :: string
  c_port :: int
  c_domain :: string
  c_status :: cstatus
  c_desired :: cstatus
  c_ttl :: "instant option"
  c_env :: "(string \<times> string) list"
  c_memory :: int
  c_cpu :: int
  c_observed :: "instant option"
  c_last_error :: "string option"
  c_exit_code :: "int option"
  c_generation :: int
  c_alias :: string
  c_command :: "string list"
  c_entrypoint :: "string list"
  c_restart :: string
  c_health :: "healthcheck option"
  c_created :: instant

record mount_params =
  mp_volume :: id
  mp_volume_name :: string
  mp_path :: string
  mp_ro :: bool

record container_create_params =
  cp_project :: "id option"
  cp_name :: string
  cp_alias :: string
  cp_image_tag :: string
  cp_port :: int
  cp_env :: "(string \<times> string) list"
  cp_mounts :: "mount_params list"
  cp_memory_mb :: int
  cp_domain :: string
  cp_command :: "string list"
  cp_entrypoint :: "string list"
  cp_restart :: string
  cp_health :: "healthcheck option"

record mount_spec =
  ms_volume_name :: string
  ms_target :: string
  ms_ro :: bool

record runtime_spec =
  rs_container :: id
  rs_owner :: id
  rs_project :: "id option"
  rs_generation :: int
  rs_name :: string
  rs_alias :: string
  rs_image :: string
  rs_network :: string
  rs_domain :: string
  rs_port :: int
  rs_env :: "string list"
  rs_memory_limit :: int
  rs_memory_reservation :: int
  rs_memory_swap :: rat
  rs_cpu_shares :: int
  rs_cpu_quota :: int
  rs_cpu_period :: int
  rs_pids_limit :: int
  rs_proxy_network :: string
  rs_mounts :: "mount_spec list"
  rs_command :: "string list"
  rs_entrypoint :: "string list"
  rs_restart :: string
  rs_max_log_size :: string
  rs_max_log_files :: string
  rs_storage_quota :: string
  rs_health :: "healthcheck option"

record container_state =
  st_running :: bool
  st_status :: string
  st_exit_code :: int
  st_oom_killed :: bool
  st_health :: "string option"

record inspection =
  in_name :: string
  in_image :: string
  in_env :: "string list"
  in_command :: "string list"
  in_entrypoint :: "string list"
  in_memory_limit :: int
  in_memory_reservation :: int
  in_cpu_shares :: int
  in_cpu_quota :: int
  in_cpu_period :: int
  in_restart :: string
  in_mounts :: "mount_spec list"
  in_health :: "healthcheck option"
  in_state :: container_state

record resource_update =
  ru_memory_limit :: int
  ru_memory_reservation :: int
  ru_memory_swap :: rat
  ru_cpu_shares :: int
  ru_cpu_quota :: int
  ru_cpu_period :: int

record container_event =
  ev_type :: string
  ev_action :: string
  ev_docker_id :: string
  ev_container :: "id option"
  ev_generation :: int
  ev_exit_code :: "int option"
  ev_oom_killed :: bool

section \<open>Operations and outboxes (model/operation.go)\<close>

datatype res_type = RContainer | RVolume | RImage | RProject | RBuild

datatype op_kind = OpCreate | OpStart | OpStop | OpDelete | OpExpose

datatype op_status = OsPending | OsRunning | OsDone | OsFailed

record operation =
  o_id :: id
  o_rtype :: res_type
  o_rid :: id
  o_owner :: id
  o_kind :: op_kind
  o_status :: op_status
  o_attempts :: int
  o_last_error :: "string option"
  o_created :: instant
  o_updated :: instant

definition op_active :: "operation \<Rightarrow> bool" where
  "op_active op \<longleftrightarrow> o_status op = OsPending \<or> o_status op = OsRunning"

datatype ob_status = ObPending | ObPublishing | ObPublished | ObDiscarded

text \<open>The message of the container queue (pkg/containerqueue/message.go).\<close>

record lifecycle_message =
  m_operation :: id
  m_container :: id
  m_owner :: id
  m_kind :: op_kind
  m_request :: string
  m_created :: instant
  m_domain :: string
  m_port :: int
  m_previous :: cstatus

text \<open>
  The four outbox tables have one shape: a row refers to the operation, build or deployment job it
  announces (ob_ref, unique in its table) and to the resource it concerns.
\<close>

record 'm outbox =
  ob_id :: id
  ob_ref :: id
  ob_resource :: id
  ob_exchange :: string
  ob_key :: string
  ob_payload :: 'm
  ob_status :: ob_status
  ob_attempts :: int
  ob_last_error :: "string option"
  ob_published_at :: "instant option"
  ob_created :: instant
  ob_updated :: instant

section \<open>Volumes, images and builds\<close>

datatype vol_status = VNone | VCreating | VAvailable | VDeleting | VMissing | VError

record volume =
  v_id :: id
  v_owner :: id
  v_project :: "id option"
  v_name :: string
  v_docker_name :: string
  v_status :: vol_status
  v_observed :: "instant option"
  v_last_error :: "string option"
  v_used_bytes :: int
  v_usage_observed :: "instant option"
  v_created :: instant

record mount =
  mt_container :: id
  mt_volume :: id
  mt_path :: string
  mt_ro :: bool

datatype img_status = INone | IBuilding | IAvailable | IDeleting | IMissing | IError

record image =
  i_id :: id
  i_owner :: id
  i_tag :: string
  i_size_mb :: int
  i_metadata :: string
  i_status :: img_status
  i_observed :: "instant option"
  i_last_error :: "string option"
  i_created :: instant

datatype build_status =
    BPending | BRunning | BSuccess | BCanceled | BFailed | BFailedTimeout | BFailedQuotaExceeded
  | BFailedResourceExhausted | BFailedInternal | BOther string

fun is_build_terminal :: "build_status \<Rightarrow> bool" where
  "is_build_terminal BSuccess = True"
| "is_build_terminal BCanceled = True"
| "is_build_terminal BFailed = True"
| "is_build_terminal BFailedTimeout = True"
| "is_build_terminal BFailedQuotaExceeded = True"
| "is_build_terminal BFailedResourceExhausted = True"
| "is_build_terminal BFailedInternal = True"
| "is_build_terminal _ = False"

fun is_build_failed :: "build_status \<Rightarrow> bool" where
  "is_build_failed BFailed = True"
| "is_build_failed BFailedTimeout = True"
| "is_build_failed BFailedQuotaExceeded = True"
| "is_build_failed BFailedResourceExhausted = True"
| "is_build_failed BFailedInternal = True"
| "is_build_failed _ = False"

record build =
  b_id :: id
  b_image :: id
  b_owner :: id
  b_project :: "id option"
  b_service :: string
  b_status :: build_status
  b_log_path :: string
  b_archive :: string
  b_started :: instant
  b_finished :: "instant option"

section \<open>Projects and deployments (model/project.go, model/compose.go)\<close>

datatype proj_status =
    PPending | PBuilding | PDeploying | PCanceling | PCanceled | PStarting | PRunning | PStopping
  | PStopped | PFailed | PDeleting

record project =
  p_id :: id
  p_owner :: id
  p_name :: string
  p_status :: proj_status
  p_error :: "string option"
  p_created :: instant

datatype job_status = JQueued | JRunning | JCanceling | JCanceled | JSucceeded | JFailed

fun is_job_terminal :: "job_status \<Rightarrow> bool" where
  "is_job_terminal JCanceled = True"
| "is_job_terminal JSucceeded = True"
| "is_job_terminal JFailed = True"
| "is_job_terminal _ = False"

datatype dep_condition = CondStarted | CondHealthy | CondCompleted | CondOther string

fun is_valid_condition :: "dep_condition \<Rightarrow> bool" where
  "is_valid_condition CondStarted = True"
| "is_valid_condition CondHealthy = True"
| "is_valid_condition CondCompleted = True"
| "is_valid_condition (CondOther _) = False"

record service_dependency =
  sd_project :: id
  sd_container :: id
  sd_depends_on :: id
  sd_service :: string
  sd_condition :: dep_condition
  sd_optional :: bool

record service_node =
  sn_project :: id
  sn_container :: id
  sn_service :: string
  sn_order :: int
  sn_deps :: "service_dependency list"

datatype source_type = SrcUpload | SrcGit

datatype job_stage = StageNone | StagePlanning | StageBuilding | StageCreating | StageStarting | StageRollingBack

text \<open>
  The plan and the resources of a deployment are stored as JSON; the model keeps the values the
  JSON denotes.  A map of the code is an association list: the order of its entries is the order
  in which Go happens to range over it.
\<close>

record compose_dependency =
  cd_service :: string
  cd_condition :: dep_condition
  cd_optional :: bool

record compose_service =
  cs_name :: string
  cs_image :: string
  cs_context :: string
  cs_dockerfile :: string
  cs_env :: "(string \<times> string) list"
  cs_mounts :: "mount_params list"
  cs_deps :: "compose_dependency list"
  cs_command :: "string list"
  cs_entrypoint :: "string list"
  cs_args :: "(string \<times> string) list"
  cs_restart :: string
  cs_health :: "healthcheck option"
  cs_domain :: string
  cs_port :: int

record compose_volume =
  cv_alias :: string
  cv_name :: string
  cv_external :: bool

record compose_project =
  cj_name :: string
  cj_services :: "compose_service list"
  cj_volumes :: "compose_volume list"

record compose_plan =
  pl_name :: string
  pl_source :: source_type
  pl_services :: "compose_service list"
  pl_volumes :: "compose_volume list"

record compose_resources =
  cr_builds :: "(string \<times> id) list"
  cr_volumes :: "(string \<times> id) list"
  cr_managed :: "(string \<times> bool) list"
  cr_containers :: "(string \<times> id) list"
  cr_started :: "(string \<times> bool) list"
  cr_graph_saved :: bool
  cr_cleanup_status :: "job_status option"
  cr_cleanup_error :: string

record job =
  j_id :: id
  j_project :: id
  j_owner :: id
  j_source_type :: source_type
  j_source_key :: string
  j_compose_file :: string
  j_status :: job_status
  j_attempts :: int
  j_cancel_requested :: bool
  j_error :: "string option"
  j_request :: string
  j_stage :: job_stage
  j_plan :: "compose_plan option"
  j_resources :: "compose_resources option"
  j_created :: instant
  j_updated :: instant
  j_started :: "instant option"
  j_finished :: "instant option"

text \<open>What Docker is asked to create for a volume (model/runtime.go).\<close>

record volume_spec =
  vs_name :: string
  vs_volume :: id
  vs_owner :: id
  vs_project :: "id option"

text \<open>An event of the audit log (model/report.go), without the fields the store fills in.\<close>

record audit_event =
  au_actor :: "id option"
  au_actor_name :: string
  au_actor_scope :: string
  au_action :: string
  au_outcome :: string
  au_rtype :: string
  au_rid :: id
  au_rname :: string
  au_owner :: "id option"
  au_owner_name :: string
  au_request :: string
  au_details :: "(string \<times> string) list"

text \<open>The messages of the resource, build and compose queues (pkg/*queue/message.go).\<close>

record resource_message =
  rm_operation :: id
  rm_resource :: id
  rm_rtype :: res_type
  rm_owner :: id
  rm_kind :: op_kind
  rm_request :: string
  rm_created :: instant

record build_message =
  bm_build :: id
  bm_image :: id
  bm_owner :: id
  bm_tag :: string
  bm_archive :: string
  bm_log :: string
  bm_context_dir :: string
  bm_dockerfile :: string
  bm_args :: "(string \<times> string) list"
  bm_request :: string
  bm_created :: instant

record compose_message =
  cm_job :: id
  cm_project :: id
  cm_owner :: id
  cm_request :: string
  cm_created :: instant

datatype staged_status = StActive | StReleased

record staged =
  so_id :: id
  so_owner :: id
  so_key :: string
  so_kind :: string
  so_bytes :: int
  so_status :: staged_status
  so_created :: instant
  so_updated :: instant
  so_released :: "instant option"

record list_options =
  lo_owner :: "id option"
  lo_project :: "id option"
  lo_limit :: int
  lo_offset :: int

text \<open>Reservations are counted for containers that run or are meant to run.\<close>

definition counts_reserved :: "container \<Rightarrow> bool" where
  "counts_reserved c \<longleftrightarrow> c_status c \<noteq> CMissing \<and> (c_status c = CRunning \<or> c_desired c = CRunning)"

lemma is_build_failed_terminal: "is_build_failed s \<Longrightarrow> is_build_terminal s"
  by (cases s) auto

lemma is_build_terminal_cases:
  "is_build_terminal s \<longleftrightarrow> s = BSuccess \<or> s = BCanceled \<or> is_build_failed s"
  by (cases s) auto

end
