(* ===== verification/Store.thy ===== *)
theory Store
  imports Model
begin

text \<open>
  The relational store behind internal/core/repository: one list of rows per table of
  migrations/core, and the constraints the schema declares on them.  A statement that would
  violate a constraint is refused with the PostgreSQL error the driver reports and changes
  nothing; a transaction is a function on the whole store, whose result is dropped when it fails.
\<close>

record db =
  t_containers :: "container list"
  t_mounts :: "mount list"
  t_ops :: "operation list"
  t_cout :: "lifecycle_message outbox list"
  t_volumes :: "volume list"
  t_pvols :: "(id \<times> id) list"
  t_rout :: "resource_message outbox list"
  t_images :: "image list"
  t_builds :: "build list"
  t_bout :: "build_message outbox list"
  t_projects :: "project list"
  t_nodes :: "service_node list"
  t_jobs :: "job list"
  t_pout :: "compose_message outbox list"
  t_staged :: "staged list"

definition empty_db :: db where
  "empty_db = \<lparr> t_containers = [], t_mounts = [], t_ops = [], t_cout = [], t_volumes = [],
     t_pvols = [], t_rout = [], t_images = [], t_builds = [], t_bout = [], t_projects = [],
     t_nodes = [], t_jobs = [], t_pout = [], t_staged = [] \<rparr>"

section \<open>Unique indexes and checks\<close>

text \<open>A unique index on the rows that satisfy its WHERE clause.\<close>

definition uniq :: "('r \<Rightarrow> 'k) \<Rightarrow> ('r \<Rightarrow> bool) \<Rightarrow> 'r list \<Rightarrow> bool" where
  "uniq k P t \<longleftrightarrow> distinct (map k (filter P t))"

definition unique_violation :: "string" where "unique_violation = ''23505''"
definition foreign_key_violation :: "string" where "foreign_key_violation = ''23503''"
definition check_violation :: "string" where "check_violation = ''23514''"

definition domain_prefix_index :: string where
  "domain_prefix_index = ''idx_containers_domain_prefix''"

definition owner_name_index :: string where
  "owner_name_index = ''idx_containers_owner_name_unique''"

definition container_violation :: "container list \<Rightarrow> goerr option" where
  "container_violation t =
    (if list_ex (\<lambda>c. c_memory c < 0 \<or> c_cpu c < 0 \<or> c_generation c \<le> 0) t
       then Some (PgError check_violation ''containers_check'')
     else if \<not> uniq c_id (\<lambda>_. True) t then Some (PgError unique_violation ''containers_pkey'')
     else if \<not> uniq c_docker_id (\<lambda>c. c_docker_id c \<noteq> []) t
       then Some (PgError unique_violation ''containers_docker_id_key'')
     else if \<not> uniq c_domain (\<lambda>c. c_domain c \<noteq> []) t
       then Some (PgError unique_violation domain_prefix_index)
     else if \<not> uniq (\<lambda>c. (c_owner c, c_name c)) (\<lambda>_. True) t
       then Some (PgError unique_violation owner_name_index)
     else None)"

definition op_violation :: "operation list \<Rightarrow> goerr option" where
  "op_violation t =
    (if list_ex (\<lambda>o'. o_attempts o' < 0) t
       then Some (PgError check_violation ''resource_operations_attempts_check'')
     else if \<not> uniq o_id (\<lambda>_. True) t
       then Some (PgError unique_violation ''resource_operations_pkey'')
     else if \<not> uniq (\<lambda>o'. (o_rtype o', o_rid o')) op_active t
       then Some (PgError unique_violation ''idx_resource_operations_active'')
     else None)"

definition outbox_violation :: "string \<Rightarrow> 'm outbox list \<Rightarrow> goerr option" where
  "outbox_violation name t =
    (if list_ex (\<lambda>r. ob_attempts r < 0) t
       then Some (PgError check_violation (name @ ''_attempts_check''))
     else if \<not> uniq ob_id (\<lambda>_. True) t then Some (PgError unique_violation (name @ ''_pkey''))
     else if \<not> uniq ob_ref (\<lambda>_. True) t then Some (PgError unique_violation (name @ ''_ref_unique''))
     else None)"

definition mount_violation :: "mount list \<Rightarrow> goerr option" where
  "mount_violation t =
    (if \<not> uniq (\<lambda>m. (mt_container m, mt_volume m)) (\<lambda>_. True) t
     then Some (PgError unique_violation ''volume_mounts_pkey'') else None)"

definition volume_violation :: "volume list \<Rightarrow> goerr option" where
  "volume_violation t =
    (if list_ex (\<lambda>v. v_used_bytes v < 0) t
       then Some (PgError check_violation ''volumes_used_bytes_check'')
     else if \<not> uniq v_id (\<lambda>_. True) t then Some (PgError unique_violation ''volumes_pkey'')
     else if \<not> uniq v_docker_name (\<lambda>_. True) t
       then Some (PgError unique_violation ''volumes_docker_name_key'')
     else if \<not> uniq (\<lambda>v. (v_owner v, v_name v)) (\<lambda>_. True) t
       then Some (PgError unique_violation ''idx_volumes_owner_name_unique'')
     else None)"

definition image_violation :: "image list \<Rightarrow> goerr option" where
  "image_violation t =
    (if list_ex (\<lambda>i. i_size_mb i < 0) t
       then Some (PgError check_violation ''images_size_mb_check'')
     else if \<not> uniq i_id (\<lambda>_. True) t then Some (PgError unique_violation ''images_pkey'')
     else if \<not> uniq (\<lambda>i. (i_owner i, i_tag i)) (\<lambda>i. i_status i \<noteq> IBuilding) t
       then Some (PgError unique_violation ''idx_images_owner_tag_available_unique'')
     else if \<not> uniq (\<lambda>i. (i_owner i, i_tag i)) (\<lambda>i. i_status i = IBuilding) t
       then Some (PgError unique_violation ''idx_images_owner_tag_building_unique'')
     else None)"

definition project_violation :: "project list \<Rightarrow> goerr option" where
  "project_violation t =
    (if \<not> uniq p_id (\<lambda>_. True) t then Some (PgError unique_violation ''projects_pkey'')
     else if \<not> uniq (\<lambda>p. (p_owner p, p_name p)) (\<lambda>_. True) t
       then Some (PgError unique_violation ''idx_projects_owner_name_unique'')
     else None)"

definition staged_violation :: "staged list \<Rightarrow> goerr option" where
  "staged_violation t =
    (if list_ex (\<lambda>s. so_bytes s < 0) t
       then Some (PgError check_violation ''staged_object_reservations_bytes_check'')
     else if \<not> uniq so_id (\<lambda>_. True) t then Some (PgError unique_violation ''staged_object_reservations_pkey'')
     else if \<not> uniq so_key (\<lambda>_. True) t
       then Some (PgError unique_violation ''staged_object_reservations_object_key_key'')
     else None)"

text \<open>A write is accepted when the table it produces satisfies the constraints.\<close>

definition accept :: "('t \<Rightarrow> goerr option) \<Rightarrow> 't \<Rightarrow> 'd \<Rightarrow> goerr + 'd" where
  "accept check t d = (case check t of Some e \<Rightarrow> Inl e | None \<Rightarrow> Inr d)"

definition write_containers :: "container list \<Rightarrow> db \<Rightarrow> goerr + db" where
  "write_containers t d = accept container_violation t (d\<lparr>t_containers := t\<rparr>)"

definition write_ops :: "operation list \<Rightarrow> db \<Rightarrow> goerr + db" where
  "write_ops t d = accept op_violation t (d\<lparr>t_ops := t\<rparr>)"

definition write_cout :: "lifecycle_message outbox list \<Rightarrow> db \<Rightarrow> goerr + db" where
  "write_cout t d = accept (outbox_violation ''container_lifecycle_queue_outbox'') t (d\<lparr>t_cout := t\<rparr>)"

definition write_mounts :: "mount list \<Rightarrow> db \<Rightarrow> goerr + db" where
  "write_mounts t d = accept mount_violation t (d\<lparr>t_mounts := t\<rparr>)"

text \<open>
  The deletion of a container takes along the rows that refer to it: its mounts, its outbox rows,
  its node in a service graph and the dependencies on it.
\<close>

definition drop_dependencies_on :: "id \<Rightarrow> service_node \<Rightarrow> service_node" where
  "drop_dependencies_on cid n = n\<lparr>sn_deps := filter (\<lambda>s. sd_depends_on s \<noteq> cid) (sn_deps n)\<rparr>"

definition cascade_container :: "id \<Rightarrow> db \<Rightarrow> db" where
  "cascade_container cid d = d\<lparr>
     t_containers := delete_where (\<lambda>c. c_id c = cid) (t_containers d),
     t_mounts := delete_where (\<lambda>m. mt_container m = cid) (t_mounts d),
     t_cout := delete_where (\<lambda>r. ob_resource r = cid) (t_cout d),
     t_nodes := map (drop_dependencies_on cid) (delete_where (\<lambda>n. sn_container n = cid) (t_nodes d)) \<rparr>"

text \<open>The deletion of a volume takes along its mounts and its links to projects.\<close>

definition cascade_volume :: "id \<Rightarrow> db \<Rightarrow> db" where
  "cascade_volume vid d = d\<lparr>
     t_volumes := delete_where (\<lambda>v. v_id v = vid) (t_volumes d),
     t_mounts := delete_where (\<lambda>m. mt_volume m = vid) (t_mounts d),
     t_pvols := delete_where (\<lambda>l. snd l = vid) (t_pvols d) \<rparr>"

section \<open>The schema invariant\<close>

definition schema_ok :: "db \<Rightarrow> bool" where
  "schema_ok d \<longleftrightarrow> container_violation (t_containers d) = None \<and> op_violation (t_ops d) = None
     \<and> outbox_violation ''container_lifecycle_queue_outbox'' (t_cout d) = None
     \<and> mount_violation (t_mounts d) = None \<and> volume_violation (t_volumes d) = None"

lemma uniq_sublist:
  assumes "uniq k P t"
  shows "uniq k P (delete_where Q t)"
  using assms by (induction t) (auto simp: uniq_def)

lemma uniq_update:
  assumes "uniq k P t" and "\<And>r. Q r \<Longrightarrow> k (f r) = k r" and "\<And>r. Q r \<Longrightarrow> P (f r) \<Longrightarrow> P r"
  shows "uniq k P (update_where Q f t)"
  using assms(1) unfolding uniq_def
proof (induction t)
  case (Cons r t)
  have sub: "k ` {q \<in> set (update_where Q f t). P q} \<subseteq> k ` {q \<in> set t. P q}"
    using assms(2,3) by (force simp: set_update_where split: if_splits)
  show ?case using Cons sub assms(2,3) by (cases "Q r") (auto split: if_splits)
qed simp

lemma uniq_append: "uniq k P (t @ [r]) \<longleftrightarrow> uniq k P t \<and> (P r \<longrightarrow> k r \<notin> k ` {q \<in> set t. P q})"
  by (auto simp: uniq_def)

lemma uniq_eq:
  assumes "uniq k P t" and "a \<in> set t" and "b \<in> set t" and "P a" and "P b" and "k a = k b"
  shows "a = b"
proof -
  have "inj_on k (set (filter P t))" using assms(1) by (simp add: uniq_def distinct_map)
  then show ?thesis using assms by (auto simp: inj_on_def)
qed

lemma accept_Inr [simp]: "accept check t d = Inr d' \<longleftrightarrow> check t = None \<and> d' = d"
  by (auto simp: accept_def split: option.splits)

lemma accept_Inl [simp]: "accept check t d = Inl e \<longleftrightarrow> check t = Some e"
  by (auto simp: accept_def split: option.splits)

lemma container_violation_None:
  "container_violation t = None \<longleftrightarrow>
     (\<forall>c \<in> set t. 0 \<le> c_memory c \<and> 0 \<le> c_cpu c \<and> 0 < c_generation c)
     \<and> uniq c_id (\<lambda>_. True) t \<and> uniq c_docker_id (\<lambda>c. c_docker_id c \<noteq> []) t
     \<and> uniq c_domain (\<lambda>c. c_domain c \<noteq> []) t \<and> uniq (\<lambda>c. (c_owner c, c_name c)) (\<lambda>_. True) t"
  by (auto simp: container_violation_def list_ex_iff not_less not_le)

lemma op_violation_None:
  "op_violation t = None \<longleftrightarrow>
     (\<forall>o' \<in> set t. 0 \<le> o_attempts o') \<and> uniq o_id (\<lambda>_. True) t
     \<and> uniq (\<lambda>o'. (o_rtype o', o_rid o')) op_active t"
  by (simp add: op_violation_def list_ex_iff) (meson not_less)

lemma outbox_violation_None:
  "outbox_violation n t = None \<longleftrightarrow>
     (\<forall>r \<in> set t. 0 \<le> ob_attempts r) \<and> uniq ob_id (\<lambda>_. True) t \<and> uniq ob_ref (\<lambda>_. True) t"
  by (simp add: outbox_violation_def list_ex_iff) (meson not_less)

lemmas violation_None = container_violation_None op_violation_None outbox_violation_None

end
