(* ===== verification/Outbox.thy ===== *)
theory Outbox
  imports Store
begin

text \<open>
  The transactional outboxes.  Every mutation that must be announced on a queue writes a row into
  an outbox table in its own transaction; a publisher leases a batch of rows, publishes them and
  marks them.  The four tables (container, resource, build and compose) have the same leasing and
  marking statements (LeasePending*Outbox and update*OutboxStatus in internal/core/repository),
  defined here once on a list of rows, with the contract a publisher relies on as a locale.
\<close>

definition lease_timeout :: int where
  "lease_timeout = 60 * 1000000000"

text \<open>status = pending OR (status = publishing AND updated_at < NOW() - INTERVAL '1 minute')\<close>

definition leasable :: "instant \<Rightarrow> 'm outbox \<Rightarrow> bool" where
  "leasable t r \<longleftrightarrow> ob_status r = ObPending
     \<or> (ob_status r = ObPublishing \<and> ob_updated r < t - lease_timeout)"

definition lease_next :: "instant \<Rightarrow> nat \<Rightarrow> 'm outbox list \<Rightarrow> 'm outbox list" where
  "lease_next t limit rows = take limit (order_by ob_created (filter (leasable t) rows))"

definition leased :: "instant \<Rightarrow> 'm outbox \<Rightarrow> 'm outbox" where
  "leased t r = r\<lparr>ob_status := ObPublishing, ob_attempts := ob_attempts r + 1, ob_updated := t\<rparr>"

definition lease_rows :: "instant \<Rightarrow> nat \<Rightarrow> 'm outbox list \<Rightarrow> 'm outbox list \<times> 'm outbox list" where
  "lease_rows t limit rows =
    (let next = lease_next t limit rows; ids = map ob_id next
     in (map (leased t) next, update_where (\<lambda>r. List.member ids (ob_id r)) (leased t) rows))"

definition outbox_with_status ::
    "instant \<Rightarrow> ob_status \<Rightarrow> goerr option \<Rightarrow> 'm outbox \<Rightarrow> 'm outbox" where
  "outbox_with_status t s cause r =
    (let r1 = r\<lparr>ob_status := s, ob_last_error := map_option error_text cause, ob_updated := t\<rparr>
     in if s = ObPublished then r1\<lparr>ob_published_at := Some t\<rparr> else r1)"

definition set_outbox_status ::
    "instant \<Rightarrow> id \<Rightarrow> ob_status \<Rightarrow> goerr option \<Rightarrow> 'm outbox list \<Rightarrow> goerr + 'm outbox list" where
  "set_outbox_status t oid s cause rows =
    (if rows_affected (\<lambda>r. ob_id r = oid) rows = 0 then Inl (Sentinel ErrNotFound)
     else Inr (update_where (\<lambda>r. ob_id r = oid) (outbox_with_status t s cause) rows))"

text \<open>UPDATE ... SET status = discarded WHERE operation_id = ... AND status IN (pending, publishing)\<close>

definition discard_by_ref :: "instant \<Rightarrow> id \<Rightarrow> goerr option \<Rightarrow> 'm outbox list \<Rightarrow> 'm outbox list" where
  "discard_by_ref t ref cause rows =
     update_where (\<lambda>r. ob_ref r = ref \<and> (ob_status r = ObPending \<or> ob_status r = ObPublishing))
       (outbox_with_status t ObDiscarded cause) rows"

definition fresh_row :: "instant \<Rightarrow> 'm outbox \<Rightarrow> 'm outbox" where
  "fresh_row t r = r\<lparr>ob_published_at := None, ob_created := t, ob_updated := t\<rparr>"

section \<open>Laws of the table operations\<close>

lemma leased_fields [simp]:
  "ob_id (leased t r) = ob_id r" "ob_ref (leased t r) = ob_ref r"
  "ob_resource (leased t r) = ob_resource r" "ob_status (leased t r) = ObPublishing"
  "ob_attempts (leased t r) = ob_attempts r + 1" "ob_updated (leased t r) = t"
  "ob_payload (leased t r) = ob_payload r" "ob_created (leased t r) = ob_created r"
  by (simp_all add: leased_def)

lemma outbox_with_status_fields [simp]:
  "ob_id (outbox_with_status t s c r) = ob_id r" "ob_ref (outbox_with_status t s c r) = ob_ref r"
  "ob_resource (outbox_with_status t s c r) = ob_resource r"
  "ob_status (outbox_with_status t s c r) = s"
  "ob_attempts (outbox_with_status t s c r) = ob_attempts r"
  "ob_payload (outbox_with_status t s c r) = ob_payload r"
  by (simp_all add: outbox_with_status_def Let_def)

lemma fresh_row_fields [simp]:
  "ob_id (fresh_row t r) = ob_id r" "ob_ref (fresh_row t r) = ob_ref r"
  "ob_resource (fresh_row t r) = ob_resource r" "ob_status (fresh_row t r) = ob_status r"
  "ob_attempts (fresh_row t r) = ob_attempts r"
  by (simp_all add: fresh_row_def)

lemma lease_next_leasable: "r \<in> set (lease_next t limit rows) \<Longrightarrow> r \<in> set rows \<and> leasable t r"
  unfolding lease_next_def by (drule in_set_takeD) simp

lemma length_lease_next: "length (lease_next t limit rows) \<le> limit"
  by (simp add: lease_next_def)

lemma lease_next_distinct:
  assumes "uniq ob_id (\<lambda>_. True) rows"
  shows "distinct (map ob_id (lease_next t limit rows))"
proof -
  have "distinct (map ob_id (filter (leasable t) rows))"
    using assms by (simp add: uniq_def distinct_map_filter)
  then have "distinct (map ob_id (order_by ob_created (filter (leasable t) rows)))"
    by (simp add: distinct_map)
  then show ?thesis unfolding lease_next_def by (metis distinct_take take_map)
qed

text \<open>A row that could be leased and was not is at least as young as every leased row.\<close>

lemma lease_next_oldest:
  assumes "r \<in> set rows" and "leasable t r" and "r \<notin> set (lease_next t limit rows)"
    and "q \<in> set (lease_next t limit rows)"
  shows "ob_created q \<le> ob_created r"
proof -
  let ?s = "order_by ob_created (filter (leasable t) rows)"
  have "r \<in> set ?s" using assms by simp
  then have "r \<in> set (drop limit ?s)"
    using assms(3) unfolding lease_next_def by (metis Un_iff append_take_drop_id set_append)
  moreover have "sorted (map ob_created (take limit ?s) @ map ob_created (drop limit ?s))"
    by (metis append_take_drop_id map_append sorted_sort_key)
  ultimately show ?thesis
    using assms(4) unfolding lease_next_def sorted_append by (metis image_eqI set_map)
qed

lemma lease_rows_ids: "map ob_id (snd (lease_rows t limit rows)) = map ob_id rows"
  by (simp add: lease_rows_def Let_def map_update_where)

lemma lease_rows_mem:
  assumes "uniq ob_id (\<lambda>_. True) rows" and "q \<in> set (fst (lease_rows t limit rows))"
  shows "q \<in> set (snd (lease_rows t limit rows))"
  using assms lease_next_leasable
  by (fastforce simp: lease_rows_def Let_def set_update_where)

lemma lease_rows_other:
  assumes "r \<in> set rows" and "ob_id r \<notin> ob_id ` set (fst (lease_rows t limit rows))"
  shows "r \<in> set (snd (lease_rows t limit rows))"
  using assms by (fastforce simp: lease_rows_def Let_def set_update_where image_image)

lemma outbox_ok_lease:
  assumes "outbox_violation n rows = None"
  shows "outbox_violation n (snd (lease_rows t limit rows)) = None"
  using assms unfolding outbox_violation_None lease_rows_def Let_def
  by (auto intro!: uniq_update simp: set_update_where)

lemma outbox_ok_update:
  assumes "outbox_violation n rows = None" and "\<And>r. ob_id (f r) = ob_id r"
    and "\<And>r. ob_ref (f r) = ob_ref r" and "\<And>r. ob_attempts (f r) = ob_attempts r"
  shows "outbox_violation n (update_where P f rows) = None"
  using assms unfolding outbox_violation_None
  by (auto intro!: uniq_update simp: set_update_where)

lemma outbox_ok_delete:
  "outbox_violation n rows = None \<Longrightarrow> outbox_violation n (delete_where P rows) = None"
  unfolding outbox_violation_None by (auto intro: uniq_sublist)

lemma set_outbox_status_Inr:
  "set_outbox_status t oid s cause rows = Inr rows' \<longleftrightarrow>
     (\<exists>r \<in> set rows. ob_id r = oid)
     \<and> rows' = update_where (\<lambda>r. ob_id r = oid) (outbox_with_status t s cause) rows"
  by (auto simp: set_outbox_status_def rows_affected_0)

section \<open>The contract of a publisher\<close>

text \<open>
  What a publisher relies on: a lease hands out rows that were due, at most as many as asked for,
  each only once, and moves each of them to publishing; nothing else changes.  Marking a row
  changes the status of that row only.
\<close>

locale outbox_store =
  fixes rows :: "'d \<Rightarrow> 'm outbox list"
    and lease :: "instant \<Rightarrow> nat \<Rightarrow> 'd \<Rightarrow> 'm outbox list \<times> 'd"
    and mark :: "instant \<Rightarrow> id \<Rightarrow> ob_status \<Rightarrow> goerr option \<Rightarrow> 'd \<Rightarrow> goerr + 'd"
  assumes lease_fst: "fst (lease t n d) = fst (lease_rows t n (rows d))"
    and lease_snd: "rows (snd (lease t n d)) = snd (lease_rows t n (rows d))"
    and mark_rows: "mark t oid s cause d = Inr d' \<Longrightarrow>
           set_outbox_status t oid s cause (rows d) = Inr (rows d')"
begin

lemma lease_due: "q \<in> set (fst (lease t n d)) \<Longrightarrow> \<exists>r \<in> set (rows d). leasable t r \<and> q = leased t r"
  using lease_next_leasable by (fastforce simp: lease_fst lease_rows_def Let_def)

lemma lease_bounded: "length (fst (lease t n d)) \<le> n"
  by (simp add: lease_fst lease_rows_def Let_def length_lease_next)

lemma lease_once:
  "uniq ob_id (\<lambda>_. True) (rows d) \<Longrightarrow> distinct (map ob_id (fst (lease t n d)))"
  by (simp add: lease_fst lease_rows_def Let_def lease_next_distinct comp_def)

text \<open>Until the lease expires, the rows handed out are not handed out again.\<close>

lemma lease_exclusive:
  assumes u: "uniq ob_id (\<lambda>_. True) (rows d)" and q: "q \<in> set (fst (lease t n d))"
    and t': "t \<le> t'" "t' \<le> t + lease_timeout"
    and r: "r \<in> set (fst (lease t' k (snd (lease t n d))))"
  shows "ob_id r \<noteq> ob_id q"
proof
  assume same: "ob_id r = ob_id q"
  obtain p where p: "p \<in> set (rows (snd (lease t n d)))" "leasable t' p" "r = leased t' p"
    using lease_due[OF r] by blast
  have u': "uniq ob_id (\<lambda>_. True) (rows (snd (lease t n d)))"
    using u by (simp add: uniq_def lease_snd lease_rows_ids)
  have "q \<in> set (rows (snd (lease t n d)))"
    using lease_rows_mem[OF u] q by (simp add: lease_fst lease_snd)
  then have "p = q" using uniq_eq[OF u' p(1)] same p(3) by simp
  moreover have "ob_status q = ObPublishing" "ob_updated q = t"
    using lease_due[OF q] by auto
  ultimately show False using p(2) t' by (simp add: leasable_def)
qed

lemma mark_table:
  assumes "mark t oid s cause d = Inr d'"
  shows "rows d' = update_where (\<lambda>r. ob_id r = oid) (outbox_with_status t s cause) (rows d)"
  using mark_rows[OF assms] by (simp add: set_outbox_status_Inr)

lemma mark_status:
  assumes "mark t oid s cause d = Inr d'" and "r \<in> set (rows d')" and "ob_id r = oid"
  shows "ob_status r = s"
  using assms(2) unfolding mark_table[OF assms(1)]
proof (rule in_update_whereE)
  show "r \<in> set (rows d) \<Longrightarrow> ob_id r \<noteq> oid \<Longrightarrow> ob_status r = s" using assms(3) by blast
qed simp

lemma mark_frame:
  assumes "mark t oid s cause d = Inr d'" and "ob_id r \<noteq> oid"
  shows "r \<in> set (rows d') \<longleftrightarrow> r \<in> set (rows d)"
proof
  assume "r \<in> set (rows d')"
  then show "r \<in> set (rows d)"
    unfolding mark_table[OF assms(1)] by (rule in_update_whereE) (use assms(2) in auto)
next
  assume "r \<in> set (rows d)"
  then show "r \<in> set (rows d')"
    unfolding mark_table[OF assms(1)] using assms(2) by (force simp: set_update_where)
qed

end

end
