(* ===== verification/ContainerRepo.thy ===== *)
theory ContainerRepo
  imports Outbox
begin

text \<open>
  The container repository (internal/core/repository/container.go): containers, their mounts, the
  resource operations and the container outbox.  A method is a function of the time of the call
  and the store; it returns an error, and then the store is as before, or the new store.  A
  method that returns rows returns them whole, although some queries fetch only the columns their
  callers read.
\<close>

section \<open>Error mapping\<close>

definition map_container_violation :: "string \<Rightarrow> goerr \<Rightarrow> goerr" where
  "map_container_violation domain err = (case pg_error err of
       Some (pgcode, constraint) \<Rightarrow>
         if pgcode = unique_violation then
           (if constraint = domain_prefix_index \<and> domain \<noteq> []
              then mk_err ErrAlreadyExists (''subdomain '' @ domain @ '' is already in use'')
            else if constraint = owner_name_index
              then mk_err ErrAlreadyExists ''container name is already in use''
            else Sentinel ErrAlreadyExists)
         else err
     | None \<Rightarrow> err)"

definition map_active_operation :: "goerr \<Rightarrow> goerr" where
  "map_active_operation err = (case pg_error err of
       Some (pgcode, constraint) \<Rightarrow>
         if pgcode = unique_violation
         then mk_err ErrConflict ''resource operation is already in progress'' else err
     | None \<Rightarrow> err)"

definition map_err :: "(goerr \<Rightarrow> goerr) \<Rightarrow> goerr + 'a \<Rightarrow> goerr + 'a" where
  "map_err h r = (case r of Inl e \<Rightarrow> Inl (h e) | Inr x \<Rightarrow> Inr x)"

definition bind_res :: "goerr + 'a \<Rightarrow> ('a \<Rightarrow> goerr + 'b) \<Rightarrow> goerr + 'b" where
  "bind_res r f = (case r of Inl e \<Rightarrow> Inl e | Inr x \<Rightarrow> f x)"

text \<open>UPDATE containers ... WHERE P, with no row affected reported as not found.\<close>

definition update_containers ::
    "(container \<Rightarrow> bool) \<Rightarrow> (container \<Rightarrow> container) \<Rightarrow> db \<Rightarrow> goerr + db" where
  "update_containers P f d =
     bind_res (write_containers (update_where P f (t_containers d)) d)
       (\<lambda>d'. if rows_affected P (t_containers d) = 0 then Inl (Sentinel ErrNotFound) else Inr d')"

definition observed :: "instant \<Rightarrow> container \<Rightarrow> container" where
  "observed t c = c\<lparr>c_observed := Some t, c_last_error := None\<rparr>"

section \<open>Containers\<close>

text \<open>The row an INSERT stores: defaults for the desired status and the generation.\<close>

definition container_row :: "instant \<Rightarrow> container \<Rightarrow> container" where
  "container_row t c = c\<lparr>
     c_desired := (if c_desired c \<noteq> NoStatus then c_desired c
                   else if c_status c \<noteq> NoStatus then c_status c else CCreated),
     c_generation := (if c_generation c \<le> 0 then 1 else c_generation c),
     c_observed := None, c_last_error := None, c_exit_code := None, c_created := t\<rparr>"

definition insert_container :: "instant \<Rightarrow> container \<Rightarrow> db \<Rightarrow> goerr + db" where
  "insert_container t c d = map_err (map_container_violation (c_domain c))
     (bind_res (write_containers (t_containers d @ [container_row t c]) d)
       (\<lambda>d'. case c_project c of
            Some p \<Rightarrow> if exists_row (\<lambda>q. p_id q = p) (t_projects d) then Inr d'
                      else Inl (PgError foreign_key_violation ''containers_project_id_fkey'')
          | None \<Rightarrow> Inr d'))"

definition save_container :: "container \<Rightarrow> instant \<Rightarrow> db \<Rightarrow> goerr + db" where
  "save_container c t d = insert_container t c d"

definition update_routing :: "id \<Rightarrow> string \<Rightarrow> int \<Rightarrow> instant \<Rightarrow> db \<Rightarrow> goerr + db" where
  "update_routing cid domain port t d = map_err (map_container_violation domain)
     (update_containers (\<lambda>c. c_id c = cid) (\<lambda>c. c\<lparr>c_domain := domain, c_port := port\<rparr>) d)"

definition update_docker_routing_generation ::
    "id \<Rightarrow> string \<Rightarrow> string \<Rightarrow> int \<Rightarrow> int \<Rightarrow> instant \<Rightarrow> db \<Rightarrow> goerr + db" where
  "update_docker_routing_generation cid docker domain port gen t d =
     map_err (map_container_violation domain)
       (update_containers (\<lambda>c. c_id c = cid)
         (\<lambda>c. observed t (c\<lparr>c_docker_id := docker, c_domain := domain, c_port := port,
                            c_generation := gen\<rparr>)) d)"

definition update_status :: "id \<Rightarrow> cstatus \<Rightarrow> instant \<Rightarrow> db \<Rightarrow> goerr + db" where
  "update_status cid s t =
     update_containers (\<lambda>c. c_id c = cid) (\<lambda>c. observed t (c\<lparr>c_status := s\<rparr>))"

definition update_status_and_ttl ::
    "id \<Rightarrow> cstatus \<Rightarrow> instant option \<Rightarrow> instant \<Rightarrow> db \<Rightarrow> goerr + db" where
  "update_status_and_ttl cid s ttl t =
     update_containers (\<lambda>c. c_id c = cid) (\<lambda>c. observed t (c\<lparr>c_status := s, c_ttl := ttl\<rparr>))"

definition update_status_by_docker_id :: "string \<Rightarrow> cstatus \<Rightarrow> instant \<Rightarrow> db \<Rightarrow> goerr + db" where
  "update_status_by_docker_id docker s t =
     update_containers (\<lambda>c. docker \<noteq> [] \<and> c_docker_id c = docker)
       (\<lambda>c. observed t (c\<lparr>c_status := s\<rparr>))"

definition update_status_by_generation ::
    "id \<Rightarrow> int \<Rightarrow> cstatus \<Rightarrow> instant \<Rightarrow> db \<Rightarrow> goerr + db" where
  "update_status_by_generation cid gen s t =
     update_containers (\<lambda>c. c_id c = cid \<and> c_generation c = gen)
       (\<lambda>c. observed t (c\<lparr>c_status := s\<rparr>))"

definition observe ::
    "instant \<Rightarrow> cstatus \<Rightarrow> int option \<Rightarrow> cstatus option \<Rightarrow> goerr option \<Rightarrow> container \<Rightarrow> container" where
  "observe t s exit_code desired cause c = c\<lparr>
     c_status := s,
     c_desired := (case desired of Some x \<Rightarrow> x | None \<Rightarrow> c_desired c),
     c_exit_code := exit_code, c_observed := Some t,
     c_last_error := map_option error_text cause\<rparr>"

definition update_observed_status ::
    "id \<Rightarrow> cstatus \<Rightarrow> int option \<Rightarrow> cstatus option \<Rightarrow> goerr option \<Rightarrow> instant \<Rightarrow> db \<Rightarrow> goerr + db" where
  "update_observed_status cid s ex des cause t =
     update_containers (\<lambda>c. c_id c = cid) (observe t s ex des cause)"

definition update_observed_status_by_docker_id ::
    "string \<Rightarrow> cstatus \<Rightarrow> int option \<Rightarrow> cstatus option \<Rightarrow> goerr option \<Rightarrow> instant \<Rightarrow> db \<Rightarrow> goerr + db" where
  "update_observed_status_by_docker_id docker s ex des cause t =
     update_containers (\<lambda>c. docker \<noteq> [] \<and> c_docker_id c = docker) (observe t s ex des cause)"

definition update_observed_status_by_generation ::
    "id \<Rightarrow> int \<Rightarrow> cstatus \<Rightarrow> int option \<Rightarrow> cstatus option \<Rightarrow> goerr option \<Rightarrow> instant \<Rightarrow> db \<Rightarrow> goerr + db" where
  "update_observed_status_by_generation cid gen s ex des cause t =
     update_containers (\<lambda>c. c_id c = cid \<and> c_generation c = gen) (observe t s ex des cause)"

definition update_docker_id :: "id \<Rightarrow> string \<Rightarrow> instant \<Rightarrow> db \<Rightarrow> goerr + db" where
  "update_docker_id cid docker t =
     update_containers (\<lambda>c. c_id c = cid) (\<lambda>c. observed t (c\<lparr>c_docker_id := docker\<rparr>))"

definition update_docker_id_and_status ::
    "id \<Rightarrow> string \<Rightarrow> cstatus \<Rightarrow> instant \<Rightarrow> db \<Rightarrow> goerr + db" where
  "update_docker_id_and_status cid docker s t =
     update_containers (\<lambda>c. c_id c = cid)
       (\<lambda>c. observed t (c\<lparr>c_docker_id := docker, c_status := s, c_desired := s\<rparr>))"

definition set_desired_status :: "id \<Rightarrow> cstatus \<Rightarrow> instant \<Rightarrow> db \<Rightarrow> goerr + db" where
  "set_desired_status cid s t =
     update_containers (\<lambda>c. c_id c = cid) (\<lambda>c. c\<lparr>c_desired := s, c_last_error := None\<rparr>)"

definition mark_status_error :: "id \<Rightarrow> cstatus \<Rightarrow> goerr option \<Rightarrow> instant \<Rightarrow> db \<Rightarrow> goerr + db" where
  "mark_status_error cid s cause t =
     update_containers (\<lambda>c. c_id c = cid)
       (\<lambda>c. c\<lparr>c_status := s, c_last_error := map_option error_text cause, c_observed := Some t\<rparr>)"

definition delete_container :: "id \<Rightarrow> instant \<Rightarrow> db \<Rightarrow> goerr + db" where
  "delete_container cid t d =
     (if rows_affected (\<lambda>c. c_id c = cid) (t_containers d) = 0 then Inl (Sentinel ErrNotFound)
      else Inr (cascade_container cid d))"

section \<open>Queries\<close>

text \<open>SELECT COALESCE(SUM(...), 0), scanned into an int64.\<close>

definition scan_i64 :: "int \<Rightarrow> goerr + int" where
  "scan_i64 x = (if in_i64 x then Inr x else Inl (OtherErr ''sql: value out of range''))"

definition get_user_reserved_memory :: "id \<Rightarrow> db \<Rightarrow> goerr + int" where
  "get_user_reserved_memory owner d =
     scan_i64 (sum_where (\<lambda>c. c_owner c = owner \<and> counts_reserved c) c_memory (t_containers d))"

definition get_user_reserved_cpu :: "id \<Rightarrow> db \<Rightarrow> goerr + int" where
  "get_user_reserved_cpu owner d =
     scan_i64 (sum_where (\<lambda>c. c_owner c = owner \<and> counts_reserved c) c_cpu (t_containers d))"

definition get_total_reserved_memory :: "db \<Rightarrow> goerr + int" where
  "get_total_reserved_memory d = scan_i64 (sum_where counts_reserved c_memory (t_containers d))"

definition get_total_reserved_cpu :: "db \<Rightarrow> goerr + int" where
  "get_total_reserved_cpu d = scan_i64 (sum_where counts_reserved c_cpu (t_containers d))"

definition get_running :: "db \<Rightarrow> goerr + container list" where
  "get_running d = Inr (filter (\<lambda>c. c_status c = CRunning) (t_containers d))"

definition get_running_with_writable_mounts :: "id \<Rightarrow> db \<Rightarrow> goerr + container list" where
  "get_running_with_writable_mounts owner d =
     Inr (filter (\<lambda>c. c_owner c = owner \<and> c_status c = CRunning
            \<and> list_ex (\<lambda>m. mt_container m = c_id c \<and> \<not> mt_ro m) (t_mounts d)) (t_containers d))"

definition find_row :: "('r \<Rightarrow> bool) \<Rightarrow> 'r list \<Rightarrow> goerr + 'r" where
  "find_row P t = (case find P t of None \<Rightarrow> Inl (Sentinel ErrNotFound) | Some r \<Rightarrow> Inr r)"

definition get_container :: "id \<Rightarrow> db \<Rightarrow> goerr + container" where
  "get_container cid d = find_row (\<lambda>c. c_id c = cid) (t_containers d)"

definition get_container_by_docker_id :: "string \<Rightarrow> db \<Rightarrow> goerr + container" where
  "get_container_by_docker_id docker d =
     find_row (\<lambda>c. docker \<noteq> [] \<and> c_docker_id c = docker) (t_containers d)"

definition page :: "int \<Rightarrow> int \<Rightarrow> 'r list \<Rightarrow> 'r list" where
  "page limit offset t = (if limit > 0 then take (nat limit) (drop (nat offset) t) else t)"

definition list_containers :: "list_options \<Rightarrow> db \<Rightarrow> goerr + container list \<times> nat" where
  "list_containers opts d =
    (let sel = filter (\<lambda>c. (case lo_owner opts of Some u \<Rightarrow> c_owner c = u | None \<Rightarrow> True)
                 \<and> (case lo_project opts of Some p \<Rightarrow> c_project c = Some p | None \<Rightarrow> True))
               (t_containers d)
     in Inr (page (lo_limit opts) (lo_offset opts) (order_by (\<lambda>c. - c_created c) sel), length sel))"

definition get_by_project :: "id \<Rightarrow> db \<Rightarrow> goerr + container list" where
  "get_by_project p d = Inr (filter (\<lambda>c. c_project c = Some p) (t_containers d))"

definition get_expired :: "instant \<Rightarrow> db \<Rightarrow> goerr + container list" where
  "get_expired t d = Inr (filter (\<lambda>c. c_status c = CRunning
     \<and> (case c_ttl c of Some deadline \<Rightarrow> deadline < t | None \<Rightarrow> False)) (t_containers d))"

definition count_by_owner :: "id \<Rightarrow> db \<Rightarrow> goerr + int" where
  "count_by_owner owner d = Inr (int (rows_affected (\<lambda>c. c_owner c = owner) (t_containers d)))"

record status_counts =
  sc_total :: nat
  sc_running :: nat
  sc_stopped :: nat
  sc_error :: nat
  sc_missing :: nat

definition get_status_counts :: "db \<Rightarrow> goerr + status_counts" where
  "get_status_counts d = (let t = t_containers d in Inr \<lparr>
     sc_total = length t,
     sc_running = rows_affected (\<lambda>c. c_status c = CRunning) t,
     sc_stopped = rows_affected (\<lambda>c. c_status c = CExited) t,
     sc_error = rows_affected (\<lambda>c. c_status c = CError) t,
     sc_missing = rows_affected (\<lambda>c. c_status c = CMissing) t \<rparr>)"

definition is_image_in_use :: "id \<Rightarrow> string \<Rightarrow> db \<Rightarrow> goerr + bool" where
  "is_image_in_use owner tag d =
     Inr (exists_row (\<lambda>c. c_owner c = owner \<and> c_image_tag c = tag) (t_containers d))"

definition get_non_exited :: "db \<Rightarrow> goerr + container list" where
  "get_non_exited d = Inr (filter (\<lambda>c. c_status c \<noteq> CMissing
     \<and> (List.member [CCreating, CCreated, CStarting, CRunning, CStopping, CDeleting, CReconciling,
                     CExposing, CPending] (c_status c)
        \<or> List.member [CCreated, CRunning, CDeleting] (c_desired c))) (t_containers d))"

definition check_domain_prefix_exists :: "string \<Rightarrow> db \<Rightarrow> goerr + bool" where
  "check_domain_prefix_exists prefix d =
     Inr (exists_row (\<lambda>c. c_domain c = prefix \<and> c_domain c \<noteq> []) (t_containers d))"

definition get_mounts :: "id \<Rightarrow> db \<Rightarrow> goerr + mount_params list" where
  "get_mounts cid d = Inr (concat (map (\<lambda>m. map (\<lambda>v. \<lparr> mp_volume = v_id v,
       mp_volume_name = v_docker_name v, mp_path = mt_path m, mp_ro = mt_ro m \<rparr>)
       (filter (\<lambda>v. v_id v = mt_volume m) (t_volumes d)))
     (filter (\<lambda>m. mt_container m = cid) (t_mounts d))))"

end
