(* ===== verification/OperationRepo.thy ===== *)
theory OperationRepo
  imports ContainerRepo
begin

text \<open>
  The second half of internal/core/repository/container.go: the resource operations and the
  container outbox, and the transactions that write a container, its operation and its outbox row
  together.  An operation is a small state machine (pending, running, done, failed); the unique
  index on the active operations of a resource is what serialises the operations on it.
\<close>

section \<open>Operations\<close>

text \<open>The row an INSERT stores; a missing id is drawn by the caller of the model.\<close>

definition op_row :: "instant \<Rightarrow> operation \<Rightarrow> operation" where
  "op_row t op = op\<lparr>o_created := t, o_updated := t\<rparr>"

definition insert_operation :: "instant \<Rightarrow> operation \<Rightarrow> db \<Rightarrow> goerr + db" where
  "insert_operation t op d =
     map_err map_active_operation (write_ops (t_ops d @ [op_row t op]) d)"

definition create_operation :: "operation \<Rightarrow> instant \<Rightarrow> db \<Rightarrow> goerr + db" where
  "create_operation op t d = insert_operation t op d"

definition op_with_status :: "instant \<Rightarrow> op_status \<Rightarrow> goerr option \<Rightarrow> operation \<Rightarrow> operation" where
  "op_with_status t s cause op =
     op\<lparr>o_status := s, o_last_error := map_option error_text cause, o_updated := t\<rparr>"

definition update_ops :: "(operation \<Rightarrow> bool) \<Rightarrow> (operation \<Rightarrow> operation) \<Rightarrow> db \<Rightarrow> goerr + db" where
  "update_ops P f d = write_ops (update_where P f (t_ops d)) d"

definition update_ops_or_not_found ::
    "(operation \<Rightarrow> bool) \<Rightarrow> (operation \<Rightarrow> operation) \<Rightarrow> db \<Rightarrow> goerr + db" where
  "update_ops_or_not_found P f d = bind_res (update_ops P f d)
     (\<lambda>d'. if rows_affected P (t_ops d) = 0 then Inl (Sentinel ErrNotFound) else Inr d')"

text \<open>The latest active operation of a resource: ORDER BY created_at DESC LIMIT 1.\<close>

definition latest_active :: "res_type \<Rightarrow> id \<Rightarrow> operation list \<Rightarrow> operation option" where
  "latest_active rt rid t =
     (case order_by (\<lambda>op. - o_created op)
             (filter (\<lambda>op. o_rtype op = rt \<and> o_rid op = rid \<and> op_active op) t) of
        [] \<Rightarrow> None | op # _ \<Rightarrow> Some op)"

definition complete_latest_operation ::
    "res_type \<Rightarrow> id \<Rightarrow> op_status \<Rightarrow> goerr option \<Rightarrow> instant \<Rightarrow> db \<Rightarrow> goerr + db" where
  "complete_latest_operation rt rid s cause t d =
     (case latest_active rt rid (t_ops d) of
        None \<Rightarrow> Inr d
      | Some op \<Rightarrow> update_ops (\<lambda>q. o_id q = o_id op) (op_with_status t s cause) d)"

definition get_operation :: "id \<Rightarrow> db \<Rightarrow> goerr + operation" where
  "get_operation oid d = find_row (\<lambda>op. o_id op = oid) (t_ops d)"

definition claimed_op :: "instant \<Rightarrow> operation \<Rightarrow> operation" where
  "claimed_op t op = op\<lparr>o_status := OsRunning, o_attempts := o_attempts op + 1, o_updated := t\<rparr>"

text \<open>A worker claims a pending operation; the flag tells whether the caller is to run it.\<close>

definition claim_pending_operation ::
    "id \<Rightarrow> int \<Rightarrow> instant \<Rightarrow> db \<Rightarrow> goerr + (operation \<times> bool) \<times> db" where
  "claim_pending_operation oid max_attempts t d = bind_res (get_operation oid d) (\<lambda>op.
     if o_status op \<noteq> OsPending then Inr ((op, False), d)
     else if max_attempts > 0 \<and> o_attempts op \<ge> max_attempts then Inr ((op, False), d)
     else bind_res (update_ops (\<lambda>q. o_id q = oid) (claimed_op t) d)
            (\<lambda>d'. Inr ((claimed_op t op, True), d')))"

definition complete_operation :: "id \<Rightarrow> op_status \<Rightarrow> goerr option \<Rightarrow> instant \<Rightarrow> db \<Rightarrow> goerr + db" where
  "complete_operation oid s cause t =
     update_ops_or_not_found (\<lambda>op. o_id op = oid) (op_with_status t s cause)"

definition requeue_operation :: "id \<Rightarrow> goerr option \<Rightarrow> instant \<Rightarrow> db \<Rightarrow> goerr + db" where
  "requeue_operation oid cause t =
     update_ops_or_not_found (\<lambda>op. o_id op = oid \<and> o_status op = OsRunning)
       (op_with_status t OsPending cause)"

definition count_active_creates :: "id \<Rightarrow> db \<Rightarrow> goerr + int" where
  "count_active_creates owner d = Inr (int (rows_affected (\<lambda>op. o_owner op = owner
     \<and> o_rtype op = RContainer \<and> o_kind op = OpCreate \<and> op_active op) (t_ops d)))"

definition has_active_operation :: "res_type \<Rightarrow> id \<Rightarrow> db \<Rightarrow> goerr + bool" where
  "has_active_operation rt rid d =
     Inr (exists_row (\<lambda>op. o_rtype op = rt \<and> o_rid op = rid \<and> op_active op) (t_ops d))"

definition fail_active_operations :: "goerr option \<Rightarrow> instant \<Rightarrow> db \<Rightarrow> goerr + nat \<times> db" where
  "fail_active_operations cause t d =
     bind_res (update_ops op_active (op_with_status t OsFailed cause) d)
       (\<lambda>d'. Inr (rows_affected op_active (t_ops d), d'))"

definition running_create :: "operation \<Rightarrow> bool" where
  "running_create op \<longleftrightarrow> o_rtype op = RContainer \<and> o_kind op = OpCreate \<and> o_status op = OsRunning"

definition pending_create :: "operation \<Rightarrow> bool" where
  "pending_create op \<longleftrightarrow> o_rtype op = RContainer \<and> o_kind op = OpCreate \<and> o_status op = OsPending"

text \<open>
  After a restart: the create operations that were running are pending again, and the outbox rows
  of all pending creates are due again.
\<close>

definition recover_interrupted_creates :: "goerr option \<Rightarrow> instant \<Rightarrow> db \<Rightarrow> goerr + nat \<times> db" where
  "recover_interrupted_creates cause t d =
     bind_res (update_ops running_create (op_with_status t OsPending cause) d) (\<lambda>d1.
     bind_res (write_cout (update_where
         (\<lambda>r. exists_row (\<lambda>op. o_id op = ob_ref r \<and> pending_create op) (t_ops d1))
         (outbox_with_status t ObPending cause) (t_cout d1)) d1) (\<lambda>d2.
     Inr (rows_affected running_create (t_ops d), d2)))"

definition fail_active_non_creates :: "goerr option \<Rightarrow> instant \<Rightarrow> db \<Rightarrow> goerr + nat \<times> db" where
  "fail_active_non_creates cause t d =
    (let P = (\<lambda>op. o_status op = OsRunning \<and> \<not> (o_rtype op = RContainer \<and> o_kind op = OpCreate))
     in bind_res (update_ops P (op_with_status t OsFailed cause) d)
          (\<lambda>d'. Inr (rows_affected P (t_ops d), d')))"

section \<open>The container outbox\<close>

definition insert_container_outbox ::
    "instant \<Rightarrow> lifecycle_message outbox \<Rightarrow> db \<Rightarrow> goerr + db" where
  "insert_container_outbox t r d =
     bind_res (write_cout (t_cout d @ [fresh_row t r]) d) (\<lambda>d'.
       if exists_row (\<lambda>op. o_id op = ob_ref r) (t_ops d)
          \<and> exists_row (\<lambda>c. c_id c = ob_resource r) (t_containers d)
       then Inr d'
       else Inl (PgError foreign_key_violation ''container_lifecycle_queue_outbox_fkey''))"

definition lease_container_outbox ::
    "instant \<Rightarrow> nat \<Rightarrow> db \<Rightarrow> lifecycle_message outbox list \<times> db" where
  "lease_container_outbox t limit d =
     (case lease_rows t limit (t_cout d) of (items, rows) \<Rightarrow> (items, d\<lparr>t_cout := rows\<rparr>))"

definition lease_pending_container_outbox ::
    "nat \<Rightarrow> instant \<Rightarrow> db \<Rightarrow> goerr + lifecycle_message outbox list \<times> db" where
  "lease_pending_container_outbox limit t d = Inr (lease_container_outbox t limit d)"

definition update_container_outbox_status ::
    "instant \<Rightarrow> id \<Rightarrow> ob_status \<Rightarrow> goerr option \<Rightarrow> db \<Rightarrow> goerr + db" where
  "update_container_outbox_status t oid s cause d =
     bind_res (set_outbox_status t oid s cause (t_cout d)) (\<lambda>rows. Inr (d\<lparr>t_cout := rows\<rparr>))"

definition mark_container_published :: "id \<Rightarrow> instant \<Rightarrow> db \<Rightarrow> goerr + db" where
  "mark_container_published oid t = update_container_outbox_status t oid ObPublished None"

definition mark_container_pending :: "id \<Rightarrow> goerr option \<Rightarrow> instant \<Rightarrow> db \<Rightarrow> goerr + db" where
  "mark_container_pending oid cause t = update_container_outbox_status t oid ObPending cause"

definition mark_container_discarded :: "id \<Rightarrow> goerr option \<Rightarrow> instant \<Rightarrow> db \<Rightarrow> goerr + db" where
  "mark_container_discarded oid cause t = update_container_outbox_status t oid ObDiscarded cause"

definition discard_container_outbox :: "id \<Rightarrow> goerr option \<Rightarrow> instant \<Rightarrow> db \<Rightarrow> goerr + db" where
  "discard_container_outbox op_id cause t d =
     Inr (d\<lparr>t_cout := discard_by_ref t op_id cause (t_cout d)\<rparr>)"

section \<open>Transactions\<close>

fun insert_mounts :: "mount list \<Rightarrow> db \<Rightarrow> goerr + db" where
  "insert_mounts [] d = Inr d"
| "insert_mounts (m # ms) d =
     bind_res (write_mounts (t_mounts d @ [m]) d) (\<lambda>d'.
       if exists_row (\<lambda>c. c_id c = mt_container m) (t_containers d)
          \<and> exists_row (\<lambda>v. v_id v = mt_volume m) (t_volumes d)
       then insert_mounts ms d'
       else Inl (PgError foreign_key_violation ''volume_mounts_fkey''))"

definition save_with_mounts_operation_outbox ::
    "container \<Rightarrow> mount list \<Rightarrow> operation \<Rightarrow> lifecycle_message outbox \<Rightarrow> instant \<Rightarrow> db \<Rightarrow> goerr + db" where
  "save_with_mounts_operation_outbox c mounts op r t d =
     bind_res (insert_container t c d) (\<lambda>d1.
     bind_res (insert_mounts mounts d1) (\<lambda>d2.
     bind_res (if o_rid op \<noteq> nil_id then insert_operation t op d2 else Inr d2) (\<lambda>d3.
     if ob_ref r \<noteq> nil_id then insert_container_outbox t r d3 else Inr d3)))"

definition cancel_create_and_delete :: "id \<Rightarrow> goerr option \<Rightarrow> instant \<Rightarrow> db \<Rightarrow> goerr + db" where
  "cancel_create_and_delete cid cause t d =
    (let ids = map o_id (filter (\<lambda>op. o_rtype op = RContainer \<and> o_rid op = cid
                  \<and> o_kind op = OpCreate \<and> op_active op) (t_ops d))
     in bind_res (update_ops (\<lambda>op. List.member ids (o_id op)) (op_with_status t OsFailed cause) d)
          (\<lambda>d1. delete_container cid t
             (d1\<lparr>t_cout := foldl (\<lambda>rows i. discard_by_ref t i cause rows) (t_cout d1) ids\<rparr>)))"

definition create_operation_and_set_desired ::
    "id \<Rightarrow> cstatus \<Rightarrow> operation \<Rightarrow> instant \<Rightarrow> db \<Rightarrow> goerr + db" where
  "create_operation_and_set_desired cid desired op t d =
     bind_res (if o_rid op \<noteq> nil_id then insert_operation t op d else Inr d)
       (set_desired_status cid desired t)"

definition queue_container_operation ::
    "id \<Rightarrow> cstatus \<Rightarrow> cstatus \<Rightarrow> operation \<Rightarrow> lifecycle_message outbox \<Rightarrow> instant \<Rightarrow> db \<Rightarrow> goerr + db" where
  "queue_container_operation cid s desired op r t d =
     bind_res (insert_operation t op d) (\<lambda>d1.
     bind_res (update_containers (\<lambda>c. c_id c = cid)
                (\<lambda>c. observed t (c\<lparr>c_status := s, c_desired := desired\<rparr>)) d1) (\<lambda>d2.
     insert_container_outbox t r d2))"

section \<open>The contract of the publisher\<close>

interpretation cout: outbox_store t_cout lease_container_outbox update_container_outbox_status
  by unfold_locales (auto simp: lease_container_outbox_def update_container_outbox_status_def bind_res_def
      split: prod.splits sum.splits)

end
