(* ===== verification/RepoInv.thy ===== *)
theory RepoInv
  imports OperationRepo
begin

text \<open>
  Invariants of the container store: the schema constraints, the references between tables, and
  the life cycle of operations.  Every write method of the repository is a transition of the
  relation repo_step, so what is invariant under repo_step holds in every state the services can
  reach, whatever the order in which concurrent requests and workers interleave their calls.
\<close>

named_theorems repo_simps \<open>what a successful repository call says\<close>

section \<open>What a successful call says\<close>

lemma bind_res_Inr [repo_simps]: "bind_res r f = Inr y \<longleftrightarrow> (\<exists>x. r = Inr x \<and> f x = Inr y)"
  by (cases r) (auto simp: bind_res_def)

lemma map_err_Inr [repo_simps]: "map_err h r = Inr y \<longleftrightarrow> r = Inr y"
  by (cases r) (auto simp: map_err_def)

lemma write_Inr [repo_simps]:
  "write_containers cs d = Inr d' \<longleftrightarrow> container_violation cs = None \<and> d' = d\<lparr>t_containers := cs\<rparr>"
  "write_ops os d = Inr d' \<longleftrightarrow> op_violation os = None \<and> d' = d\<lparr>t_ops := os\<rparr>"
  "write_cout rs d = Inr d' \<longleftrightarrow>
     outbox_violation ''container_lifecycle_queue_outbox'' rs = None \<and> d' = d\<lparr>t_cout := rs\<rparr>"
  "write_mounts ms d = Inr d' \<longleftrightarrow> mount_violation ms = None \<and> d' = d\<lparr>t_mounts := ms\<rparr>"
  by (simp_all add: write_containers_def write_ops_def write_cout_def write_mounts_def)

lemma update_containers_Inr [repo_simps]:
  "update_containers P f d = Inr d' \<longleftrightarrow>
     container_violation (update_where P f (t_containers d)) = None
     \<and> (\<exists>c \<in> set (t_containers d). P c)
     \<and> d' = d\<lparr>t_containers := update_where P f (t_containers d)\<rparr>"
  by (auto simp: update_containers_def repo_simps rows_affected_0 split: if_splits)

lemma update_ops_Inr [repo_simps]:
  "update_ops P f d = Inr d' \<longleftrightarrow>
     op_violation (update_where P f (t_ops d)) = None \<and> d' = d\<lparr>t_ops := update_where P f (t_ops d)\<rparr>"
  by (auto simp: update_ops_def repo_simps)

lemma update_ops_or_not_found_Inr [repo_simps]:
  "update_ops_or_not_found P f d = Inr d' \<longleftrightarrow>
     op_violation (update_where P f (t_ops d)) = None \<and> (\<exists>op \<in> set (t_ops d). P op)
     \<and> d' = d\<lparr>t_ops := update_where P f (t_ops d)\<rparr>"
  by (auto simp: update_ops_or_not_found_def repo_simps rows_affected_0 split: if_splits)

lemma delete_container_Inr [repo_simps]:
  "delete_container cid t d = Inr d' \<longleftrightarrow>
     (\<exists>c \<in> set (t_containers d). c_id c = cid) \<and> d' = cascade_container cid d"
  by (auto simp: delete_container_def rows_affected_0)

lemma find_row_Inr [repo_simps]: "find_row P t = Inr r \<longleftrightarrow> find P t = Some r"
  by (auto simp: find_row_def split: option.splits)

lemma find_row_Inl [repo_simps]: "find_row P t = Inl e \<longleftrightarrow> find P t = None \<and> e = Sentinel ErrNotFound"
  by (auto simp: find_row_def split: option.splits)

lemma get_operation_mem: "get_operation oid d = Inr op \<Longrightarrow> op \<in> set (t_ops d) \<and> o_id op = oid"
  by (auto simp: get_operation_def repo_simps dest: find_SomeD)

lemma get_container_mem: "get_container cid d = Inr c \<Longrightarrow> c \<in> set (t_containers d) \<and> c_id c = cid"
  by (auto simp: get_container_def repo_simps dest: find_SomeD)

lemma op_with_status_fields [simp]:
  "o_id (op_with_status t s c op) = o_id op" "o_rtype (op_with_status t s c op) = o_rtype op"
  "o_rid (op_with_status t s c op) = o_rid op" "o_owner (op_with_status t s c op) = o_owner op"
  "o_kind (op_with_status t s c op) = o_kind op" "o_status (op_with_status t s c op) = s"
  "o_attempts (op_with_status t s c op) = o_attempts op"
  "o_created (op_with_status t s c op) = o_created op"
  by (simp_all add: op_with_status_def)

lemma claimed_op_fields [simp]:
  "o_id (claimed_op t op) = o_id op" "o_rtype (claimed_op t op) = o_rtype op"
  "o_rid (claimed_op t op) = o_rid op" "o_owner (claimed_op t op) = o_owner op"
  "o_kind (claimed_op t op) = o_kind op" "o_status (claimed_op t op) = OsRunning"
  "o_attempts (claimed_op t op) = o_attempts op + 1"
  by (simp_all add: claimed_op_def)

lemma op_row_fields [simp]:
  "o_id (op_row t op) = o_id op" "o_rtype (op_row t op) = o_rtype op" "o_rid (op_row t op) = o_rid op"
  "o_owner (op_row t op) = o_owner op" "o_kind (op_row t op) = o_kind op"
  "o_status (op_row t op) = o_status op" "o_attempts (op_row t op) = o_attempts op"
  by (simp_all add: op_row_def)

lemma container_row_fields [simp]:
  "c_id (container_row t c) = c_id c" "c_owner (container_row t c) = c_owner c"
  "c_project (container_row t c) = c_project c" "c_docker_id (container_row t c) = c_docker_id c"
  "c_name (container_row t c) = c_name c" "c_domain (container_row t c) = c_domain c"
  "c_status (container_row t c) = c_status c" "c_memory (container_row t c) = c_memory c"
  "c_cpu (container_row t c) = c_cpu c"
  by (simp_all add: container_row_def)

lemma observed_fields [simp]:
  "c_id (observed t c) = c_id c" "c_owner (observed t c) = c_owner c"
  "c_docker_id (observed t c) = c_docker_id c" "c_name (observed t c) = c_name c"
  "c_domain (observed t c) = c_domain c" "c_status (observed t c) = c_status c"
  "c_desired (observed t c) = c_desired c" "c_memory (observed t c) = c_memory c"
  "c_cpu (observed t c) = c_cpu c" "c_generation (observed t c) = c_generation c"
  "c_project (observed t c) = c_project c" "c_ttl (observed t c) = c_ttl c"
  by (simp_all add: observed_def)

lemma observe_fields [simp]:
  "c_id (observe t s ex des cause c) = c_id c" "c_owner (observe t s ex des cause c) = c_owner c"
  "c_docker_id (observe t s ex des cause c) = c_docker_id c"
  "c_status (observe t s ex des cause c) = s" "c_generation (observe t s ex des cause c) = c_generation c"
  by (simp_all add: observe_def)

lemma insert_container_Inr [repo_simps]:
  "insert_container t c d = Inr d' \<longleftrightarrow>
     container_violation (t_containers d @ [container_row t c]) = None
     \<and> (\<forall>p. c_project c = Some p \<longrightarrow> (\<exists>q \<in> set (t_projects d). p_id q = p))
     \<and> d' = d\<lparr>t_containers := t_containers d @ [container_row t c]\<rparr>"
  by (auto simp: insert_container_def repo_simps split: option.splits if_splits)

lemma insert_operation_Inr [repo_simps]:
  "insert_operation t op d = Inr d' \<longleftrightarrow>
     op_violation (t_ops d @ [op_row t op]) = None \<and> d' = d\<lparr>t_ops := t_ops d @ [op_row t op]\<rparr>"
  by (simp add: insert_operation_def repo_simps)

lemma insert_container_outbox_Inr [repo_simps]:
  "insert_container_outbox t r d = Inr d' \<longleftrightarrow>
     outbox_violation ''container_lifecycle_queue_outbox'' (t_cout d @ [fresh_row t r]) = None
     \<and> (\<exists>op \<in> set (t_ops d). o_id op = ob_ref r) \<and> (\<exists>c \<in> set (t_containers d). c_id c = ob_resource r)
     \<and> d' = d\<lparr>t_cout := t_cout d @ [fresh_row t r]\<rparr>"
  unfolding insert_container_outbox_def bind_res_Inr write_Inr exists_row_iff
  by (simp split: if_split) blast

lemma insert_mounts_Inr:
  assumes "insert_mounts ms d = Inr d'"
  shows "d' = d\<lparr>t_mounts := t_mounts d @ ms\<rparr>
    \<and> (mount_violation (t_mounts d) = None \<longrightarrow> mount_violation (t_mounts d') = None)
    \<and> (\<forall>m \<in> set ms. (\<exists>c \<in> set (t_containers d). c_id c = mt_container m)
           \<and> (\<exists>v \<in> set (t_volumes d). v_id v = mt_volume m))"
  using assms
proof (induction ms arbitrary: d)
  case (Cons m ms)
  let ?d1 = "d\<lparr>t_mounts := t_mounts d @ [m]\<rparr>"
  have step: "mount_violation (t_mounts d @ [m]) = None" "insert_mounts ms ?d1 = Inr d'"
    "\<exists>c \<in> set (t_containers d). c_id c = mt_container m" "\<exists>v \<in> set (t_volumes d). v_id v = mt_volume m"
    using Cons.prems by (simp_all add: bind_res_Inr write_Inr split: if_splits)
  then show ?case using Cons.IH[OF step(2)] by auto
qed simp

section \<open>The transitions of the store\<close>

text \<open>
  One rule per write method.  The parameter is the bound on attempts every worker passes when it
  claims; an operation is created with no attempt made, and completed as done or failed.
\<close>

definition op_finished :: "op_status \<Rightarrow> bool" where
  "op_finished s \<longleftrightarrow> s = OsDone \<or> s = OsFailed"

inductive repo_step :: "int \<Rightarrow> db \<Rightarrow> db \<Rightarrow> bool" for m :: int where
  save: "save_container c t d = Inr d' \<Longrightarrow> repo_step m d d'"
| routing: "update_routing cid dmn port t d = Inr d' \<Longrightarrow> repo_step m d d'"
| expose: "update_docker_routing_generation cid dk dmn port g t d = Inr d' \<Longrightarrow> repo_step m d d'"
| status: "update_status cid s t d = Inr d' \<Longrightarrow> repo_step m d d'"
| ttl: "update_status_and_ttl cid s l t d = Inr d' \<Longrightarrow> repo_step m d d'"
| status_docker: "update_status_by_docker_id dk s t d = Inr d' \<Longrightarrow> repo_step m d d'"
| status_gen: "update_status_by_generation cid g s t d = Inr d' \<Longrightarrow> repo_step m d d'"
| obs: "update_observed_status cid s ex des e t d = Inr d' \<Longrightarrow> repo_step m d d'"
| obs_docker: "update_observed_status_by_docker_id dk s ex des e t d = Inr d' \<Longrightarrow> repo_step m d d'"
| obs_gen: "update_observed_status_by_generation cid g s ex des e t d = Inr d' \<Longrightarrow> repo_step m d d'"
| docker_id: "update_docker_id cid dk t d = Inr d' \<Longrightarrow> repo_step m d d'"
| created: "update_docker_id_and_status cid dk s t d = Inr d' \<Longrightarrow> repo_step m d d'"
| desired: "set_desired_status cid s t d = Inr d' \<Longrightarrow> repo_step m d d'"
| error: "mark_status_error cid s e t d = Inr d' \<Longrightarrow> repo_step m d d'"
| delete: "delete_container cid t d = Inr d' \<Longrightarrow> repo_step m d d'"
| create_op: "create_operation op t d = Inr d' \<Longrightarrow> o_attempts op = 0 \<Longrightarrow> repo_step m d d'"
| latest: "complete_latest_operation rt rid s e t d = Inr d' \<Longrightarrow> op_finished s \<Longrightarrow> repo_step m d d'"
| claim: "claim_pending_operation oid m t d = Inr (x, d') \<Longrightarrow> repo_step m d d'"
| complete: "complete_operation oid s e t d = Inr d' \<Longrightarrow> op_finished s \<Longrightarrow> repo_step m d d'"
| requeue: "requeue_operation oid e t d = Inr d' \<Longrightarrow> repo_step m d d'"
| fail_all: "fail_active_operations e t d = Inr (n, d') \<Longrightarrow> repo_step m d d'"
| recover: "recover_interrupted_creates e t d = Inr (n, d') \<Longrightarrow> repo_step m d d'"
| fail_others: "fail_active_non_creates e t d = Inr (n, d') \<Longrightarrow> repo_step m d d'"
| lease: "lease_pending_container_outbox k t d = Inr (x, d') \<Longrightarrow> repo_step m d d'"
| published: "mark_container_published oid t d = Inr d' \<Longrightarrow> repo_step m d d'"
| pending: "mark_container_pending oid e t d = Inr d' \<Longrightarrow> repo_step m d d'"
| discarded: "mark_container_discarded oid e t d = Inr d' \<Longrightarrow> repo_step m d d'"
| discard: "discard_container_outbox oid e t d = Inr d' \<Longrightarrow> repo_step m d d'"
| save_all: "save_with_mounts_operation_outbox c ms op r t d = Inr d' \<Longrightarrow> o_attempts op = 0 \<Longrightarrow>
     repo_step m d d'"
| cancel: "cancel_create_and_delete cid e t d = Inr d' \<Longrightarrow> repo_step m d d'"
| op_desired: "create_operation_and_set_desired cid s op t d = Inr d' \<Longrightarrow> o_attempts op = 0 \<Longrightarrow>
     repo_step m d d'"
| queue: "queue_container_operation cid s s' op r t d = Inr d' \<Longrightarrow> o_attempts op = 0 \<Longrightarrow>
     repo_step m d d'"

inductive reachable :: "int \<Rightarrow> db \<Rightarrow> bool" for m :: int where
  reach_init: "reachable m empty_db"
| reach_step: "reachable m d \<Longrightarrow> repo_step m d d' \<Longrightarrow> reachable m d'"

text \<open>What a transition may do to the table of operations.\<close>

inductive ops_change :: "int \<Rightarrow> operation list \<Rightarrow> operation list \<Rightarrow> bool" for m :: int where
  oc_same: "ops_change m t t"
| oc_insert: "o_attempts op = 0 \<Longrightarrow> op_violation (t @ [op]) = None \<Longrightarrow> ops_change m t (t @ [op])"
| oc_finish: "op_finished s \<Longrightarrow> op_violation (update_where P (op_with_status n s e) t) = None \<Longrightarrow>
     ops_change m t (update_where P (op_with_status n s e) t)"
| oc_requeue: "(\<And>op. P op \<Longrightarrow> o_status op = OsRunning) \<Longrightarrow>
     op_violation (update_where P (op_with_status n OsPending e) t) = None \<Longrightarrow>
     ops_change m t (update_where P (op_with_status n OsPending e) t)"
| oc_claim: "op \<in> set t \<Longrightarrow> o_status op = OsPending \<Longrightarrow> m \<le> 0 \<or> o_attempts op < m \<Longrightarrow>
     op_violation (update_where (\<lambda>q. o_id q = o_id op) (claimed_op n) t) = None \<Longrightarrow>
     ops_change m t (update_where (\<lambda>q. o_id q = o_id op) (claimed_op n) t)"

lemmas container_methods = save_container_def update_routing_def
  update_docker_routing_generation_def update_status_def update_status_and_ttl_def
  update_status_by_docker_id_def update_status_by_generation_def update_observed_status_def
  update_observed_status_by_docker_id_def update_observed_status_by_generation_def
  update_docker_id_def update_docker_id_and_status_def set_desired_status_def mark_status_error_def

lemmas operation_methods = create_operation_def complete_latest_operation_def
  complete_operation_def requeue_operation_def fail_active_operations_def
  recover_interrupted_creates_def fail_active_non_creates_def

lemmas outbox_methods = lease_pending_container_outbox_def lease_container_outbox_def
  mark_container_published_def mark_container_pending_def mark_container_discarded_def
  update_container_outbox_status_def discard_container_outbox_def

lemma claim_cases:
  assumes "claim_pending_operation oid m t d = Inr ((op, b), d')"
  obtains "d' = d" "\<not> b" "get_operation oid d = Inr op"
    | p where "b" "p \<in> set (t_ops d)" "o_id p = oid" "o_status p = OsPending"
        "m \<le> 0 \<or> o_attempts p < m" "op = claimed_op t p"
        "op_violation (update_where (\<lambda>q. o_id q = oid) (claimed_op t) (t_ops d)) = None"
        "d' = d\<lparr>t_ops := update_where (\<lambda>q. o_id q = oid) (claimed_op t) (t_ops d)\<rparr>"
proof -
  obtain p where p: "get_operation oid d = Inr p"
    using assms by (auto simp: claim_pending_operation_def bind_res_Inr)
  show thesis
  proof (cases "o_status p \<noteq> OsPending \<or> (m > 0 \<and> o_attempts p \<ge> m)")
    case True
    then show thesis
      using assms p that(1) by (auto simp: claim_pending_operation_def bind_res_Inr split: if_splits)
  next
    case False
    then show thesis
      using assms p get_operation_mem[OF p] that(2)[of p]
      by (auto simp: claim_pending_operation_def bind_res_Inr update_ops_Inr)
  qed
qed


text \<open>
  The laws of the transition relation repo_step: the schema constraints and the references between
  tables are invariant, and operations only move along their life cycle.
\<close>

section \<open>The schema constraints\<close>

lemma schema_ok_cong:
  assumes "schema_ok d" and "t_volumes d' = t_volumes d"
    and "container_violation (t_containers d') = None" and "op_violation (t_ops d') = None"
    and "outbox_violation ''container_lifecycle_queue_outbox'' (t_cout d') = None"
    and "mount_violation (t_mounts d') = None"
  shows "schema_ok d'"
  using assms by (simp add: schema_ok_def)

lemma container_violation_delete:
  "container_violation t = None \<Longrightarrow> container_violation (delete_where P t) = None"
  unfolding container_violation_None by (auto intro: uniq_sublist)

lemma mount_violation_delete:
  "mount_violation t = None \<Longrightarrow> mount_violation (delete_where P t) = None"
  by (auto simp: mount_violation_def intro: uniq_sublist split: if_splits)

lemma schema_ok_cascade: "schema_ok d \<Longrightarrow> schema_ok (cascade_container cid d)"
  by (simp add: schema_ok_def cascade_container_def container_violation_delete
      mount_violation_delete outbox_ok_delete)

lemma schema_ok_discard:
  "schema_ok d \<Longrightarrow> schema_ok (d\<lparr>t_cout := discard_by_ref t i e (t_cout d)\<rparr>)"
  by (simp add: schema_ok_def discard_by_ref_def outbox_ok_update)

lemma schema_ok_discards:
  "schema_ok d \<Longrightarrow> schema_ok (d\<lparr>t_cout := foldl (\<lambda>rows i. discard_by_ref t i e rows) (t_cout d) ids\<rparr>)"
proof (induction ids arbitrary: d)
  case (Cons i ids)
  then show ?case using Cons.IH[OF schema_ok_discard[OF Cons.prems, of t i e]] by simp
qed simp

lemma schema_ok_lease:
  "schema_ok d \<Longrightarrow> schema_ok (snd (lease_container_outbox t k d))"
  using outbox_ok_lease[of "''container_lifecycle_queue_outbox''" "t_cout d" t k]
  by (auto simp: schema_ok_def lease_container_outbox_def split: prod.splits)

lemma schema_ok_mark:
  "schema_ok d \<Longrightarrow> update_container_outbox_status t i s e d = Inr d' \<Longrightarrow> schema_ok d'"
  by (auto simp: schema_ok_def update_container_outbox_status_def bind_res_Inr
      set_outbox_status_Inr outbox_ok_update)

lemma schema_ok_step: "repo_step m d d' \<Longrightarrow> schema_ok d \<Longrightarrow> schema_ok d'"
proof (induction rule: repo_step.induct)
  case (claim oid t d x d')
  then show ?case by (cases x) (auto elim!: claim_cases simp: schema_ok_def)
next
  case (lease k t d x d')
  then show ?case
    using schema_ok_lease[of d t k] by (simp add: lease_pending_container_outbox_def prod_eq_iff)
next
  case (cancel cid e t d d')
  then show ?case
    by (auto simp: cancel_create_and_delete_def Let_def bind_res_Inr update_ops_Inr delete_container_Inr
        intro!: schema_ok_cascade schema_ok_discards[of "d\<lparr>t_ops := _\<rparr>", simplified])
      (simp add: schema_ok_def)
next
  case (save_all c ms op r t d d')
  then obtain d1 d2 d3 where
    s: "insert_container t c d = Inr d1" "insert_mounts ms d1 = Inr d2"
      "(if o_rid op \<noteq> nil_id then insert_operation t op d2 else Inr d2) = Inr d3"
      "(if ob_ref r \<noteq> nil_id then insert_container_outbox t r d3 else Inr d3) = Inr d'"
    by (auto simp: save_with_mounts_operation_outbox_def bind_res_Inr)
  have "schema_ok d1" using s(1) save_all.prems by (auto simp: insert_container_Inr schema_ok_def)
  then have "schema_ok d2" using insert_mounts_Inr[OF s(2)] by (auto simp: schema_ok_def)
  then have "schema_ok d3" using s(3) by (auto simp: insert_operation_Inr schema_ok_def split: if_splits)
  then show ?case using s(4) by (auto simp: insert_container_outbox_Inr schema_ok_def split: if_splits)
qed (auto simp: container_methods operation_methods outbox_methods repo_simps schema_ok_def
    schema_ok_cascade[unfolded schema_ok_def] outbox_ok_update set_outbox_status_Inr
    create_operation_and_set_desired_def queue_container_operation_def Let_def
    discard_by_ref_def split: option.splits if_splits)

theorem reachable_schema: "reachable m d \<Longrightarrow> schema_ok d"
proof (induction rule: reachable.induct)
  case reach_init
  show ?case by (simp add: schema_ok_def empty_db_def violation_None mount_violation_def
        volume_violation_def uniq_def)
next
  case reach_step
  then show ?case using schema_ok_step by blast
qed

section \<open>The life cycle of operations\<close>

lemma update_where_empty: "update_where (\<lambda>_. False) f t = t"
  by (simp add: update_where_none)

lemma ops_change_step: "repo_step m d d' \<Longrightarrow> schema_ok d \<Longrightarrow> ops_change m (t_ops d) (t_ops d')"
proof (induction rule: repo_step.induct)
  case (claim oid t d x d')
  then show ?case by (cases x) (auto elim!: claim_cases intro: ops_change.intros)
next
  case (cancel cid e t d d')
  let ?ids = "map o_id (filter (\<lambda>op. o_rtype op = RContainer \<and> o_rid op = cid
                  \<and> o_kind op = OpCreate \<and> op_active op) (t_ops d))"
  obtain d1 where d1: "update_ops (\<lambda>op. List.member ?ids (o_id op)) (op_with_status t OsFailed e) d = Inr d1"
      "delete_container cid t (d1\<lparr>t_cout := foldl (\<lambda>rows i. discard_by_ref t i e rows) (t_cout d1) ?ids\<rparr>) = Inr d'"
    using cancel.hyps by (auto simp: cancel_create_and_delete_def Let_def bind_res_Inr)
  have "ops_change m (t_ops d) (t_ops d1)"
    using d1(1) unfolding update_ops_Inr by (auto intro!: oc_finish simp: op_finished_def)
  moreover have "t_ops d' = t_ops d1"
    using d1(2) by (auto simp: delete_container_Inr cascade_container_def)
  ultimately show ?case by simp
next
  case (save_all c ms op r t d d')
  then obtain d1 d2 d3 where
    s: "insert_container t c d = Inr d1" "insert_mounts ms d1 = Inr d2"
      "(if o_rid op \<noteq> nil_id then insert_operation t op d2 else Inr d2) = Inr d3"
      "(if ob_ref r \<noteq> nil_id then insert_container_outbox t r d3 else Inr d3) = Inr d'"
    by (auto simp: save_with_mounts_operation_outbox_def bind_res_Inr)
  have "t_ops d2 = t_ops d" using s(1) insert_mounts_Inr[OF s(2)] by (auto simp: insert_container_Inr)
  then have "ops_change m (t_ops d) (t_ops d3)"
    using s(3) save_all.hyps(2)
    by (auto simp: insert_operation_Inr split: if_splits intro: oc_same intro!: oc_insert)
  moreover have "t_ops d' = t_ops d3"
    using s(4) by (auto simp: insert_container_outbox_Inr split: if_splits)
  ultimately show ?case by simp
next
  case (requeue oid e t d d')
  then show ?case by (auto simp: requeue_operation_def update_ops_or_not_found_Inr intro!: oc_requeue)
next
  case (recover e t d n d')
  then show ?case
    by (auto simp: recover_interrupted_creates_def repo_simps running_create_def intro!: oc_requeue)
next
  case (latest rt rid s e t d d')
  then show ?case
    by (auto simp: complete_latest_operation_def update_ops_Inr intro: oc_same intro!: oc_finish
        split: option.splits)
next
  case (complete oid s e t d d')
  then show ?case by (auto simp: complete_operation_def update_ops_or_not_found_Inr intro!: oc_finish)
next
  case (fail_all e t d n d')
  then show ?case by (auto simp: fail_active_operations_def repo_simps op_finished_def intro!: oc_finish)
next
  case (fail_others e t d n d')
  then show ?case
    by (auto simp: fail_active_non_creates_def repo_simps op_finished_def Let_def intro!: oc_finish)
next
  case (create_op op t d d')
  then show ?case by (auto simp: create_operation_def insert_operation_Inr intro!: oc_insert)
next
  case (op_desired cid s op t d d')
  then show ?case
    by (auto simp: create_operation_and_set_desired_def set_desired_status_def repo_simps
        intro: oc_same intro!: oc_insert split: if_splits)
next
  case (queue cid s s' op r t d d')
  then show ?case by (auto simp: queue_container_operation_def repo_simps intro!: oc_insert)
qed (auto simp: container_methods outbox_methods repo_simps cascade_container_def
    set_outbox_status_Inr intro: oc_same split: prod.splits)

text \<open>Operations are never deleted, and a finished operation never becomes active again.\<close>

lemma ops_change_persist:
  assumes "ops_change m t t'" and "op \<in> set t"
  shows "\<exists>op' \<in> set t'. o_id op' = o_id op \<and> o_rtype op' = o_rtype op \<and> o_rid op' = o_rid op
           \<and> o_owner op' = o_owner op \<and> o_kind op' = o_kind op \<and> o_attempts op \<le> o_attempts op'"
proof -
  have up: "\<exists>q \<in> set (update_where P f t). Q q" if "Q op" "Q (f op)" "op \<in> set t" for P f t and Q :: "operation \<Rightarrow> bool"
    using that by (cases "P op") (force simp: set_update_where)+
  show ?thesis using assms by (induction rule: ops_change.induct) (auto intro!: up)
qed

lemma ops_change_finished:
  assumes "ops_change m t t'" and "op_violation t = None" and "op \<in> set t"
    and "op_finished (o_status op)" and "op' \<in> set t'" and "o_id op' = o_id op"
  shows "op_finished (o_status op')"
  using assms
proof (induction rule: ops_change.induct)
  case (oc_same t)
  then have "op' = op" by (auto simp: op_violation_None dest: uniq_eq)
  then show ?case using oc_same by simp
next
  case (oc_insert q t)
  have "op' = op"
    using oc_insert.prems oc_insert.hyps(2) uniq_eq[of o_id "\<lambda>_. True" "t @ [q]" op' op]
    by (auto simp: op_violation_None)
  then show ?case using oc_insert by simp
next
  case (oc_finish s P n e t)
  then show ?case
    using uniq_eq[of o_id "\<lambda>_. True" t _ op]
    by (fastforce simp: op_violation_None set_update_where split: if_splits)
next
  case (oc_requeue P n e t)
  then show ?case
    using uniq_eq[of o_id "\<lambda>_. True" t _ op]
    by (fastforce simp: op_violation_None set_update_where op_finished_def split: if_splits)
next
  case (oc_claim p t n)
  have "o_id p \<noteq> o_id op"
    using uniq_eq[of o_id "\<lambda>_. True" t p op] oc_claim.hyps oc_claim.prems
    by (auto simp: op_violation_None op_finished_def)
  then have "op' \<in> set t" using oc_claim.prems by (auto simp: set_update_where split: if_splits)
  then have "op' = op" using uniq_eq[of o_id "\<lambda>_. True" t op' op] oc_claim.prems by (auto simp: op_violation_None)
  then show ?case using oc_claim by simp
qed

text \<open>With a positive bound no operation is attempted more often than the bound allows.\<close>

lemma ops_change_attempts:
  assumes "ops_change m t t'" and "m > 0" and "\<forall>op \<in> set t. o_attempts op \<le> m" and "op_violation t = None"
  shows "\<forall>op \<in> set t'. o_attempts op \<le> m"
  using assms
proof (induction rule: ops_change.induct)
  case (oc_claim p t n)
  have "q = p" if "q \<in> set t" "o_id q = o_id p" for q
    using uniq_eq[of o_id "\<lambda>_. True" t q p] that oc_claim by (auto simp: op_violation_None)
  then have "o_attempts q + 1 \<le> m" if "q \<in> set t" "o_id q = o_id p" for q
    using that oc_claim by fastforce
  then show ?case using oc_claim by (auto simp: set_update_where)
qed (auto simp: set_update_where)

lemma reachable_attempts:
  assumes "m > 0"
  shows "reachable m d \<Longrightarrow> \<forall>op \<in> set (t_ops d). o_attempts op \<le> m"
proof (induction rule: reachable.induct)
  case reach_init
  show ?case by (simp add: empty_db_def)
next
  case (reach_step d d')
  have ok: "schema_ok d" using reach_step.hyps(1) by (rule reachable_schema)
  show ?case
    using ops_change_attempts[OF ops_change_step[OF reach_step.hyps(2) ok] assms reach_step.IH] ok
    by (simp add: schema_ok_def)
qed

end
