(* ===== verification/Method.thy ===== *)
theory Method
  imports AppErrors
begin

text \<open>
  The shape of a Go method with a receiver: it returns an error or a value together with the state
  it leaves.  The combinators are the forms in which the code composes calls and treats errors; the
  state is left open, so that every service of the program uses them with its own.
\<close>

type_synonym ('s, 'a) meth = "'s \<Rightarrow> (goerr + 'a) \<times> 's"

definition ret :: "'a \<Rightarrow> ('s, 'a) meth" where
  "ret x w = (Inr x, w)"

definition fail :: "goerr \<Rightarrow> ('s, 'a) meth" where
  "fail e w = (Inl e, w)"

text \<open>x, err := m(); if err != nil { return err }; f(x)\<close>

definition seq :: "('s, 'a) meth \<Rightarrow> ('a \<Rightarrow> ('s, 'b) meth) \<Rightarrow> ('s, 'b) meth" where
  "seq m f w = (case m w of (Inl e, w') \<Rightarrow> (Inl e, w') | (Inr x, w') \<Rightarrow> f x w')"

text \<open>x, err := m(), with the error left to the code that follows.\<close>

definition attempt :: "('s, 'a) meth \<Rightarrow> ('s, goerr + 'a) meth" where
  "attempt m w = (case m w of (r, w') \<Rightarrow> (Inr r, w'))"

text \<open>x, err := m(); if err != nil { return h(err) }\<close>

definition on_error :: "('s, 'a) meth \<Rightarrow> (goerr \<Rightarrow> ('s, 'a) meth) \<Rightarrow> ('s, 'a) meth" where
  "on_error m h w = (case m w of (Inl e, w') \<Rightarrow> h e w' | (Inr x, w') \<Rightarrow> (Inr x, w'))"

text \<open>_ = m(), or an error that is only logged.\<close>

definition ignore :: "('s, 'a) meth \<Rightarrow> ('s, unit) meth" where
  "ignore m w = (case m w of (_, w') \<Rightarrow> (Inr (), w'))"

text \<open>defer func() { if err != nil { h() } }()\<close>

definition on_failure :: "('s, 'a) meth \<Rightarrow> ('s, unit) meth \<Rightarrow> ('s, 'a) meth" where
  "on_failure m h w = (case m w of (Inl e, w') \<Rightarrow> (Inl e, snd (h w')) | (Inr x, w') \<Rightarrow> (Inr x, w'))"

definition check :: "goerr option \<Rightarrow> ('s, unit) meth" where
  "check e = (case e of Some err \<Rightarrow> fail err | None \<Rightarrow> ret ())"

fun for_each :: "('a \<Rightarrow> ('s, unit) meth) \<Rightarrow> 'a list \<Rightarrow> ('s, unit) meth" where
  "for_each f [] = ret ()"
| "for_each f (x # xs) = seq (f x) (\<lambda>_. for_each f xs)"

section \<open>When a composed method returns\<close>

lemma seq_Inr_iff: "seq m f w = (Inr y, w') \<longleftrightarrow>
    (\<exists>x w1. m w = (Inr x, w1) \<and> f x w1 = (Inr y, w'))"
  by (auto simp: seq_def split: prod.splits sum.splits)

lemma on_error_Inr: "on_error m h w = (Inr y, w') \<longleftrightarrow>
    m w = (Inr y, w') \<or> (\<exists>e w1. m w = (Inl e, w1) \<and> h e w1 = (Inr y, w'))"
  by (auto simp: on_error_def split: prod.splits sum.splits)

lemma fail_Inr [simp]: "\<not> fail e w = (Inr y, w')"
  by (simp add: fail_def)

lemma ret_Inr [simp]: "ret x w = (r, w') \<longleftrightarrow> r = Inr x \<and> w' = w"
  by (auto simp: ret_def)

lemma check_Inr: "check e w = (Inr y, w') \<longleftrightarrow> e = None \<and> w' = w"
  by (auto simp: check_def ret_def fail_def split: option.splits)

lemma seq_Inl_iff: "seq m f w = (Inl e, w') \<longleftrightarrow>
    m w = (Inl e, w') \<or> (\<exists>x w1. m w = (Inr x, w1) \<and> f x w1 = (Inl e, w'))"
  by (auto simp: seq_def split: prod.splits sum.splits)

text \<open>A guard that is passed.\<close>

lemma guard_Inr: "(if b then fail e else m) w = (Inr x, w') \<longleftrightarrow> \<not> b \<and> m w = (Inr x, w')"
  by (auto simp: fail_def)

section \<open>Invariants of the state\<close>

text \<open>A method preserves a property of the state when it holds after the method, however it ends.\<close>

named_theorems preserves_intros \<open>rules that compose preserves\<close>

definition preserves :: "('s \<Rightarrow> bool) \<Rightarrow> ('s, 'a) meth \<Rightarrow> bool" where
  "preserves I m \<longleftrightarrow> (\<forall>w. I w \<longrightarrow> I (snd (m w)))"

lemma preservesD: "preserves I m \<Longrightarrow> I w \<Longrightarrow> m w = (r, w') \<Longrightarrow> I w'"
  unfolding preserves_def by (metis snd_conv)

lemma preservesI: "(\<And>w r w'. I w \<Longrightarrow> m w = (r, w') \<Longrightarrow> I w') \<Longrightarrow> preserves I m"
  unfolding preserves_def by (metis prod.collapse)

lemma preserves_pure [preserves_intros]: "preserves I (ret x)" "preserves I (fail e)"
  by (simp_all add: preserves_def ret_def fail_def)

lemma preserves_check [preserves_intros]: "preserves I (check e)"
  by (cases e) (simp_all add: check_def preserves_pure)

lemma preserves_seq [preserves_intros]:
  "preserves I m \<Longrightarrow> (\<And>x. preserves I (f x)) \<Longrightarrow> preserves I (seq m f)"
  by (rule preservesI) (auto simp: seq_def split: prod.splits sum.splits dest: preservesD)

lemma preserves_attempt [preserves_intros]: "preserves I m \<Longrightarrow> preserves I (attempt m)"
  by (rule preservesI) (auto simp: attempt_def split: prod.splits dest: preservesD)

lemma preserves_on_error [preserves_intros]:
  "preserves I m \<Longrightarrow> (\<And>e. preserves I (h e)) \<Longrightarrow> preserves I (on_error m h)"
  by (rule preservesI) (auto simp: on_error_def split: prod.splits sum.splits dest: preservesD)

lemma preserves_ignore [preserves_intros]: "preserves I m \<Longrightarrow> preserves I (ignore m)"
  by (rule preservesI) (auto simp: ignore_def split: prod.splits dest: preservesD)

lemma preserves_on_failure [preserves_intros]:
  "preserves I m \<Longrightarrow> preserves I h \<Longrightarrow> preserves I (on_failure m h)"
  unfolding preserves_def on_failure_def by (auto split: prod.splits sum.splits)

lemma preserves_for_each [preserves_intros]:
  assumes "\<And>x. preserves I (f x)"
  shows "preserves I (for_each f xs)"
  by (induction xs) (simp_all add: preserves_pure preserves_seq assms)

lemma preserves_if [preserves_intros]:
  "preserves I m \<Longrightarrow> preserves I n \<Longrightarrow> preserves I (if b then m else n)"
  by simp

lemma preserves_option [preserves_intros]:
  "preserves I m \<Longrightarrow> (\<And>x. preserves I (f x)) \<Longrightarrow> preserves I (case y of None \<Rightarrow> m | Some x \<Rightarrow> f x)"
  by (cases y) auto

lemma preserves_sum [preserves_intros]:
  "(\<And>e. preserves I (g e)) \<Longrightarrow> (\<And>x. preserves I (f x)) \<Longrightarrow>
     preserves I (case y of Inl e \<Rightarrow> g e | Inr x \<Rightarrow> f x)"
  by (cases y) auto

lemma preserves_prod [preserves_intros]:
  "(\<And>a b. preserves I (f a b)) \<Longrightarrow> preserves I (case y of (a, b) \<Rightarrow> f a b)"
  by (cases y) auto

lemma preserves_let [preserves_intros]:
  "(\<And>x. preserves I (f x)) \<Longrightarrow> preserves I (let x = y in f x)"
  by simp

section \<open>Hoare triples\<close>

text \<open>
  When P holds before the method, Q holds of the value it returns and the state it leaves, and R
  holds of the state when it returns an error.
\<close>

definition triple :: "('s \<Rightarrow> bool) \<Rightarrow> ('s, 'a) meth \<Rightarrow> ('a \<Rightarrow> 's \<Rightarrow> bool) \<Rightarrow> ('s \<Rightarrow> bool) \<Rightarrow> bool" where
  "triple P m Q R \<longleftrightarrow> (\<forall>w. P w \<longrightarrow> (case m w of (Inl e, w') \<Rightarrow> R w' | (Inr x, w') \<Rightarrow> Q x w'))"

lemma triple_preserves: "preserves I m \<longleftrightarrow> triple I m (\<lambda>_. I) I"
  unfolding triple_def preserves_def by (auto split: prod.splits sum.splits) (metis snd_conv sum.exhaust prod.exhaust_sel)+

lemma triple_seq:
  assumes "triple P m Q R" and "\<And>x. triple (Q x) (f x) S R"
  shows "triple P (seq m f) S R"
  using assms unfolding triple_def seq_def by (fastforce split: prod.splits sum.splits)

lemma triple_weaken:
  assumes "triple P' m Q' R'" and "\<And>w. P w \<Longrightarrow> P' w" and "\<And>x w. Q' x w \<Longrightarrow> Q x w" and "\<And>w. R' w \<Longrightarrow> R w"
  shows "triple P m Q R"
  using assms unfolding triple_def by (fastforce split: prod.splits sum.splits)

lemma triple_ret: "triple (Q x) (ret x) Q R"
  by (simp add: triple_def ret_def)

lemma triple_fail: "triple R (fail e) Q R"
  by (simp add: triple_def fail_def)

lemma triple_on_error:
  assumes "triple P m Q R" and "\<And>e. triple R (h e) Q S"
  shows "triple P (on_error m h) Q S"
  using assms unfolding triple_def on_error_def by (fastforce split: prod.splits sum.splits)

end
