(* ===== verification/Access.thy ===== *)
theory Access
  imports AppErrors Method
begin

text \<open>
  Who acts: the access scope carried by a request context (pkg/accessscope/scope.go) and the
  catalogue of administrative permissions (pkg/permissions/permissions.go).  A context is
  represented by the scope value stored in it, if any.
\<close>

datatype scope_kind = KindNone | KindUser | KindAdmin | KindSystem

record scope =
  sc_kind :: scope_kind
  sc_user :: id
  sc_username :: string
  sc_role :: string

definition empty_scope :: scope where
  "empty_scope = \<lparr> sc_kind = KindNone, sc_user = nil_id, sc_username = [], sc_role = [] \<rparr>"

definition user_scope :: "id \<Rightarrow> string \<Rightarrow> string \<Rightarrow> scope" where
  "user_scope u n r = \<lparr> sc_kind = KindUser, sc_user = u, sc_username = n, sc_role = r \<rparr>"

definition admin_scope :: "id \<Rightarrow> string \<Rightarrow> string \<Rightarrow> scope" where
  "admin_scope u n r = \<lparr> sc_kind = KindAdmin, sc_user = u, sc_username = n, sc_role = r \<rparr>"

definition system_scope :: scope where
  "system_scope = \<lparr> sc_kind = KindSystem, sc_user = nil_id, sc_username = [], sc_role = [] \<rparr>"

definition require_scope :: "scope option \<Rightarrow> goerr + scope" where
  "require_scope ctx = (case ctx of
       None \<Rightarrow> Inl (Sentinel ErrUnauthorized)
     | Some s \<Rightarrow> if sc_kind s = KindNone then Inl (Sentinel ErrUnauthorized) else Inr s)"

definition require_user_owner :: "scope option \<Rightarrow> goerr + id" where
  "require_user_owner ctx = (case require_scope ctx of
       Inl e \<Rightarrow> Inl e
     | Inr s \<Rightarrow> if sc_kind s \<noteq> KindUser \<or> sc_user s = nil_id
                then Inl (Wrapped ''forbidden: user scope is required'' (Sentinel ErrForbidden))
                else Inr (sc_user s))"

definition allows_owner :: "scope \<Rightarrow> id \<Rightarrow> bool" where
  "allows_owner s owner = (case sc_kind s of
       KindAdmin \<Rightarrow> True
     | KindUser \<Rightarrow> sc_user s = owner \<and> owner \<noteq> nil_id
     | _ \<Rightarrow> False)"

definition require_owner_access :: "scope option \<Rightarrow> id \<Rightarrow> goerr option" where
  "require_owner_access ctx owner = (case require_scope ctx of
       Inl e \<Rightarrow> Some e
     | Inr s \<Rightarrow> if allows_owner s owner then None else Some (Sentinel ErrNotFound))"

definition owner_filter :: "scope \<Rightarrow> id option" where
  "owner_filter s =
     (if sc_kind s \<noteq> KindUser \<or> sc_user s = nil_id then None else Some (sc_user s))"

text \<open>The permission names, and the set of those that exist.\<close>

definition all_permissions :: "string list" where
  "all_permissions =
    [''system.config.read'', ''system.config.update'', ''system.monitoring.read'',
     ''reports.admin.read'', ''containers.admin.list'', ''containers.admin.action'',
     ''containers.admin.stats'', ''containers.admin.logs'', ''containers.admin.terminal'',
     ''volumes.admin.list'', ''volumes.admin.delete'', ''images.admin.list'',
     ''images.admin.delete'', ''builds.admin.list'', ''builds.admin.delete'',
     ''projects.admin.list'', ''projects.admin.delete'', ''projects.admin.start'',
     ''projects.admin.stop'', ''users.admin.list'', ''users.admin.read'',
     ''users.admin.create'', ''users.admin.update'', ''users.admin.delete'']"

definition permission_exists :: "string \<Rightarrow> bool" where
  "permission_exists p \<longleftrightarrow> List.member all_permissions p"

lemma require_scope_Inr:
  "require_scope ctx = Inr s \<longleftrightarrow> ctx = Some s \<and> sc_kind s \<noteq> KindNone"
  by (auto simp: require_scope_def split: option.splits if_splits)

lemma require_user_owner_Inr:
  "require_user_owner ctx = Inr u \<longleftrightarrow>
     (\<exists>s. ctx = Some s \<and> sc_kind s = KindUser \<and> sc_user s = u \<and> u \<noteq> nil_id)"
  by (auto simp: require_user_owner_def require_scope_def split: option.splits if_splits sum.splits)

lemma require_owner_access_None:
  "require_owner_access ctx owner = None \<longleftrightarrow> (\<exists>s. ctx = Some s \<and> allows_owner s owner)"
  by (auto simp: require_owner_access_def require_scope_def allows_owner_def
      split: option.splits if_splits sum.splits scope_kind.splits)

text \<open>
  A user context reaches exactly the rows of that user; the listing filter it yields selects the
  same rows, so reading one row and listing agree on what is visible.
\<close>

lemma owner_filter_agrees:
  assumes "sc_kind s = KindUser" and "sc_user s \<noteq> nil_id"
  shows "allows_owner s owner \<longleftrightarrow> owner_filter s = Some owner"
  using assms by (auto simp: allows_owner_def owner_filter_def)


text \<open>
  The shape of a gRPC handler (internal/core/grpc, internal/sso/grpc): the check of the caller's
  scope, the parsing of an identifier of the request, and the translation of the error of the
  service.  Every error a handler returns is a gRPC status.
\<close>

section \<open>Scopes (grpc/helpers.go)\<close>

definition require_user_or_admin_scope :: "scope option \<Rightarrow> goerr option" where
  "require_user_or_admin_scope ctx = (case require_scope ctx of
       Inl e \<Rightarrow> Some e
     | Inr s \<Rightarrow> if sc_kind s = KindUser \<or> sc_kind s = KindAdmin then None else Some (Sentinel ErrForbidden))"

definition require_user_scope :: "scope option \<Rightarrow> goerr option" where
  "require_user_scope ctx = (case require_scope ctx of
       Inl e \<Rightarrow> Some e
     | Inr s \<Rightarrow> if sc_kind s = KindUser then None else Some (Sentinel ErrForbidden))"

definition require_admin_scope :: "scope option \<Rightarrow> goerr option" where
  "require_admin_scope ctx = (case require_scope ctx of
       Inl e \<Rightarrow> Some e
     | Inr s \<Rightarrow> if sc_kind s = KindAdmin then None else Some (Sentinel ErrForbidden))"

definition require_system_scope :: "scope option \<Rightarrow> goerr option" where
  "require_system_scope ctx = (case require_scope ctx of
       Inl e \<Rightarrow> Some e
     | Inr s \<Rightarrow> if sc_kind s = KindSystem then None else Some (Sentinel ErrForbidden))"

section \<open>The shape of a handler\<close>

definition invalid_argument :: "string \<Rightarrow> goerr" where
  "invalid_argument text = StatusErr InvalidArgument text"

text \<open>if err := guard(ctx); err != nil { return ToGRPC(err) }\<close>

definition guarded :: "goerr option \<Rightarrow> ('s, 'a) meth \<Rightarrow> ('s, 'a) meth" where
  "guarded g m = (case g of Some e \<Rightarrow> fail (to_grpc e) | None \<Rightarrow> m)"

text \<open>id, err := uuid.Parse(text); if err != nil { return InvalidArgument }\<close>

definition parsed :: "string \<Rightarrow> id option \<Rightarrow> (id \<Rightarrow> ('s, 'a) meth) \<Rightarrow> ('s, 'a) meth" where
  "parsed text i f = (case i of None \<Rightarrow> fail (invalid_argument text) | Some x \<Rightarrow> f x)"

text \<open>x, err := logic(); if err != nil { return ToGRPC(err) }\<close>

definition reply :: "('s, 'a) meth \<Rightarrow> ('s, 'a) meth" where
  "reply m = on_error m (\<lambda>e. fail (to_grpc e))"

section \<open>Errors of a handler\<close>

text \<open>Every error a handler returns is a status.\<close>

definition status_only :: "('s, 'a) meth \<Rightarrow> bool" where
  "status_only m \<longleftrightarrow> (\<forall>w e w'. m w = (Inl e, w') \<longrightarrow> (\<exists>c text. e = StatusErr c text))"

named_theorems status_intros \<open>rules that compose status_only\<close>

lemma status_only_fail [status_intros]:
  "status_only (fail (to_grpc e))" "status_only (fail (invalid_argument t))"
  by (auto simp: status_only_def fail_def to_grpc_def invalid_argument_def)

lemma status_only_ret [status_intros]: "status_only (ret x)"
  by (simp add: status_only_def ret_def)

lemma status_only_reply [status_intros]: "status_only (reply m)"
  by (auto simp: status_only_def reply_def on_error_def fail_def to_grpc_def split: prod.splits sum.splits)

lemma status_only_guarded [status_intros]: "status_only m \<Longrightarrow> status_only (guarded g m)"
  by (cases g) (auto simp: guarded_def intro: status_intros)

lemma status_only_parsed [status_intros]: "(\<And>x. status_only (f x)) \<Longrightarrow> status_only (parsed t i f)"
  by (cases i) (auto simp: parsed_def intro: status_intros)

lemma status_only_if [status_intros]: "status_only m \<Longrightarrow> status_only n \<Longrightarrow> status_only (if b then m else n)"
  by simp

lemma status_only_seq [status_intros]: "status_only m \<Longrightarrow> (\<And>x. status_only (f x)) \<Longrightarrow> status_only (seq m f)"
  unfolding status_only_def seq_def by (force split: prod.splits sum.splits)

end
