(* ===== verification/Validation.thy ===== *)
theory Validation
  imports AppErrors
begin

text \<open>
  The syntactic checks on user input (pkg/validation/validation.go) and the image reference
  helpers (pkg/imageref/imageref.go).  The anchored regular expressions of the source are
  written as the recognisers they denote.  Only the administrator's own forbidden-domain patterns
  go through a regular expression engine, which is the parameter re_match: the result of
  compiling the pattern and matching the text, None when the pattern does not compile.
\<close>

section \<open>Regular expressions of the source\<close>

text \<open>The domain prefix: [a-z0-9]([a-z0-9-]{0,28}[a-z0-9])?\<close>

definition domain_prefix_re :: "string \<Rightarrow> bool" where
  "domain_prefix_re s = (case s of
       [] \<Rightarrow> False
     | c # r \<Rightarrow> is_lower_alnum c \<and>
         (r = [] \<or> (is_lower_alnum (last r) \<and> length (butlast r) \<le> 28
                    \<and> list_all (\<lambda>d. is_lower_alnum d \<or> d = CHR ''-'') (butlast r))))"

text \<open>Resource names: [A-Za-z0-9][A-Za-z0-9_.-]{0,62}\<close>

definition name_char :: "char \<Rightarrow> bool" where
  "name_char c \<longleftrightarrow> is_alnum c \<or> c = CHR ''_'' \<or> c = CHR ''.'' \<or> c = CHR ''-''"

definition resource_name_re :: "string \<Rightarrow> bool" where
  "resource_name_re s = (case s of
       [] \<Rightarrow> False
     | c # r \<Rightarrow> is_alnum c \<and> length r \<le> 62 \<and> list_all name_char r)"

text \<open>Image tags: [a-z0-9]+([._/-][a-z0-9]+)*(:[A-Za-z0-9_.-]{1,128})?\<close>

definition tag_sep :: "char \<Rightarrow> bool" where
  "tag_sep c \<longleftrightarrow> c = CHR ''.'' \<or> c = CHR ''_'' \<or> c = CHR ''/'' \<or> c = CHR ''-''"

definition tag_version :: "string \<Rightarrow> bool" where
  "tag_version s \<longleftrightarrow> 1 \<le> length s \<and> length s \<le> 128 \<and> list_all name_char s"

fun tag_word :: "string \<Rightarrow> bool" and tag_rest :: "string \<Rightarrow> bool" where
  "tag_word [] \<longleftrightarrow> False"
| "tag_word (c # s) \<longleftrightarrow> is_lower_alnum c \<and> tag_rest s"
| "tag_rest [] \<longleftrightarrow> True"
| "tag_rest (c # s) \<longleftrightarrow>
     (if is_lower_alnum c then tag_rest s
      else if tag_sep c then tag_word s
      else c = CHR '':'' \<and> tag_version s)"

definition image_tag_re :: "string \<Rightarrow> bool" where
  "image_tag_re s \<longleftrightarrow> tag_word s"

text \<open>Numbers [1-9][0-9]* and sizes [1-9][0-9]*[kKmMgG].\<close>

definition number_re :: "string \<Rightarrow> bool" where
  "number_re s = (case s of [] \<Rightarrow> False
     | c # r \<Rightarrow> is_digit c \<and> c \<noteq> CHR ''0'' \<and> list_all is_digit r)"

definition size_re :: "string \<Rightarrow> bool" where
  "size_re s \<longleftrightarrow> s \<noteq> [] \<and> number_re (butlast s)
     \<and> List.member [CHR ''k'', CHR ''K'', CHR ''m'', CHR ''M'', CHR ''g'', CHR ''G''] (last s)"

section \<open>The checks\<close>

text \<open>Each check returns the error it reports, or None.\<close>

definition check_domain_prefix :: "string \<Rightarrow> goerr option" where
  "check_domain_prefix prefix =
    (if prefix = [] then None
     else if \<not> domain_prefix_re prefix
       then Some (OtherErr ''domain prefix must be a DNS label: lowercase letters, digits and hyphen only'')
     else None)"

definition reserved_domain_prefix :: "string \<Rightarrow> string list \<Rightarrow> bool" where
  "reserved_domain_prefix prefix reserved =
    (let p = to_lower (trim_space prefix)
     in if p = [] then False
        else list_ex (\<lambda>item. p = to_lower (trim_space item)) reserved)"

definition forbidden_domain_prefix ::
    "(string \<Rightarrow> string \<Rightarrow> bool option) \<Rightarrow> string \<Rightarrow> string list \<Rightarrow> string list \<Rightarrow> bool" where
  "forbidden_domain_prefix re_match prefix reserved patterns =
    (let p = to_lower (trim_space prefix)
     in if p = [] then False
        else if reserved_domain_prefix p reserved then True
        else list_ex (\<lambda>pat. let pattern = trim_space pat
               in pattern \<noteq> [] \<and> re_match (''^(?:'' @ pattern @ '')$'') p = Some True) patterns)"

definition check_resource_name :: "string \<Rightarrow> goerr option" where
  "check_resource_name name =
    (if \<not> resource_name_re name
     then Some (OtherErr ''name must start with a letter or digit and contain only letters, digits, underscore, dot or hyphen'')
     else None)"

definition check_project_name :: "string \<Rightarrow> goerr option" where
  "check_project_name name = check_resource_name name"

definition check_image_tag :: "string \<Rightarrow> goerr option" where
  "check_image_tag tag =
    (if \<not> image_tag_re tag \<or> str_contains tag ''..'' \<or> str_contains tag ''//''
     then Some (OtherErr ''image tag must be a Docker Hub-style image reference without a registry host'')
     else None)"

definition check_mount_path :: "string \<Rightarrow> goerr option" where
  "check_mount_path path =
    (if \<not> has_prefix path ''/'' \<or> List.member path (CHR 0x00)
       then Some (OtherErr ''mount path must be an absolute container path'')
     else let clean = trim_right (\<lambda>c. c = CHR ''/'') path
       in if clean = [] then Some (OtherErr ''mounting a volume to / is not allowed'')
       else if clean = ''/proc'' \<or> has_prefix clean ''/proc/''
         then Some (OtherErr ''mounting a volume to /proc is not allowed'')
       else if clean = ''/sys'' \<or> has_prefix clean ''/sys/''
         then Some (OtherErr ''mounting a volume to /sys is not allowed'')
       else if clean = ''/dev'' \<or> has_prefix clean ''/dev/''
         then Some (OtherErr ''mounting a volume to /dev is not allowed'')
       else if clean = ''/var/run/docker.sock''
         then Some (OtherErr ''mounting over docker.sock is not allowed'')
       else None)"

definition check_docker_size :: "string \<Rightarrow> goerr option" where
  "check_docker_size v =
    (if \<not> size_re v then Some (OtherErr ''size must be a positive Docker size like 10m or 1G'')
     else None)"

definition check_positive_number :: "string \<Rightarrow> goerr option" where
  "check_positive_number v =
    (if \<not> number_re v then Some (OtherErr ''value must be a positive integer'') else None)"

section \<open>Image references\<close>

text \<open>strings.SplitN with limit 2 cuts at the first separator.\<close>

definition parse_tag :: "string \<Rightarrow> string \<times> string" where
  "parse_tag raw = (let base = takeWhile (\<lambda>c. c \<noteq> CHR '':'') raw;
                        rest = dropWhile (\<lambda>c. c \<noteq> CHR '':'') raw
     in case rest of
          [] \<Rightarrow> (base, ''latest'')
        | _ # v \<Rightarrow> if v = [] then (base, ''latest'') else (base, v))"

definition normalize_tag :: "string \<Rightarrow> string" where
  "normalize_tag raw = (case parse_tag raw of (base, v) \<Rightarrow> base @ '':'' @ v)"

text \<open>The owner id is passed in the text form uuid.UUID.String gives it.\<close>

definition custom_repository_name :: "string \<Rightarrow> string \<Rightarrow> string" where
  "custom_repository_name owner base = to_lower (owner @ ''_'' @ base)"

definition custom_full_tag :: "string \<Rightarrow> string \<Rightarrow> string \<Rightarrow> string \<Rightarrow> string" where
  "custom_full_tag registry owner base v =
     registry @ ''/'' @ custom_repository_name owner base @ '':'' @ v"

section \<open>Laws\<close>

lemma parse_tag_base: "CHR '':'' \<notin> set (fst (parse_tag raw))"
  by (auto simp: parse_tag_def Let_def split: list.splits dest: set_takeWhileD)

lemma parse_tag_version_ne: "snd (parse_tag raw) \<noteq> []"
  by (auto simp: parse_tag_def Let_def split: list.splits)

lemma takeWhile_colon:
  "CHR '':'' \<notin> set b \<Longrightarrow> takeWhile (\<lambda>c. c \<noteq> CHR '':'') (b @ CHR '':'' # v) = b"
  "CHR '':'' \<notin> set b \<Longrightarrow> dropWhile (\<lambda>c. c \<noteq> CHR '':'') (b @ CHR '':'' # v) = CHR '':'' # v"
  by (induction b) auto

lemma parse_tag_join:
  assumes "CHR '':'' \<notin> set b" and "v \<noteq> []"
  shows "parse_tag (b @ CHR '':'' # v) = (b, v)"
  using assms by (simp add: parse_tag_def takeWhile_colon)

lemma parse_normalize: "parse_tag (normalize_tag raw) = parse_tag raw"
  using parse_tag_join[OF parse_tag_base parse_tag_version_ne, of raw raw]
  by (simp add: normalize_tag_def split_beta)

lemma mount_path_absolute: "check_mount_path p = None \<Longrightarrow> has_prefix p ''/''"
  by (simp add: check_mount_path_def split: if_splits)

end
