(* ===== verification/SystemConfig.thy ===== *)
theory SystemConfig
  imports Validation
begin

text \<open>
  The configuration of the core service (internal/core/config): the record of config/system.go,
  field by field, and its validation (config/validation.go).  A configuration the administrator
  sends is only stored when it passes; the lemmas at the end say what the services may rely on.
\<close>

section \<open>The record (config/system.go)\<close>

record config =
  g_base_domain :: string
  g_default_memory :: int
  g_reserved_system_memory :: int
  g_overcommit :: rat
  g_max_burst :: int
  g_default_cpu :: int
  g_reserved_system_cpu :: int
  g_cpu_overcommit :: rat
  g_max_cpu_burst :: int
  g_cpu_period :: int
  g_cpu_shares :: int
  g_high_load_shares :: int
  g_high_load_count :: int
  g_stop_timeout :: int
  g_max_log_size :: string
  g_max_log_files :: string
  g_container_disk_quota :: string
  g_reserved_prefixes :: "string list"
  g_blocked_patterns :: "string list"
  g_max_volumes :: int
  g_max_containers :: int
  g_registry_api_url :: string
  g_registry_url :: string
  g_ttl_hours :: int
  g_pids_limit :: int
  g_memory_swap :: rat
  g_proxy_network :: string
  g_registry_container :: string
  g_builds_enabled :: bool
  g_build_memory :: int
  g_build_cpu_quota :: int
  g_build_cpu_period :: int
  g_build_memory_swap :: rat
  g_build_pids_limit :: int
  g_build_network :: string
  g_kaniko_image :: string
  g_max_build_minutes :: int
  g_max_builds :: int
  g_max_upload :: int
  g_max_archive :: int
  g_max_unpacked :: int
  g_max_build_log :: int
  g_build_cancel_poll :: int
  g_ttl_interval :: int
  g_gc_interval :: int
  g_stale_build_minutes :: int
  g_event_sync :: int
  g_event_reconnect :: int
  g_build_outbox_interval :: int
  g_build_outbox_batch :: int
  g_create_workers :: int
  g_max_attempts :: int
  g_create_timeout :: int
  g_max_queued_creates :: int
  g_outbox_interval :: int
  g_outbox_batch :: int
  g_report_interval :: int
  g_max_staged :: int
  g_max_queued_builds :: int
  g_compose_upload_max :: int
  g_compose_timeout :: int
  g_compose_workers :: int
  g_compose_outbox_interval :: int
  g_compose_outbox_batch :: int
  g_compose_max_attempts :: int
  g_max_queued_deploys :: int
  g_compose_build_poll :: int
  g_dependency_timeout :: int
  g_dependency_poll :: int
  g_coordinator_interval :: int
  g_min_free_disk :: int
  g_git_enabled :: bool
  g_git_hosts :: "string list"
  g_git_clone_timeout :: int
  g_git_max_bytes :: int
  g_log_tail_lines :: int
  g_log_streams :: int
  g_terminal_sessions :: int
  g_terminal_idle :: int
  g_terminal_max :: int
  g_exec_commands :: "string list"
  g_command_args :: int
  g_command_arg_bytes :: int
  g_ws_read_limit :: int

definition min_report_interval :: int where "min_report_interval = 60"
definition max_report_interval :: int where "max_report_interval = 86400"

section \<open>Validation (config/validation.go)\<close>

text \<open>A statement of the form if b { return fmt.Errorf(text) }, and a sequence of such checks.\<close>

definition guard :: "bool \<Rightarrow> string \<Rightarrow> goerr option" where
  "guard b text = (if b then Some (OtherErr text) else None)"

fun first_error :: "goerr option list \<Rightarrow> goerr option" where
  "first_error [] = None"
| "first_error (e # es) = (case e of Some err \<Rightarrow> Some err | None \<Rightarrow> first_error es)"

definition contains_any :: "string \<Rightarrow> string \<Rightarrow> bool" where
  "contains_any s chars \<longleftrightarrow> list_ex (List.member chars) s"

text \<open>if err := check; err != nil { return fmt.Errorf(text: %w) }\<close>

definition labelled :: "string \<Rightarrow> goerr option \<Rightarrow> goerr option" where
  "labelled text e = map_option (\<lambda>err. Wrapped (text @ '': '' @ error_text err) err) e"

text \<open>The verb %q, for the bytes strconv.Quote escapes with a letter and those it leaves alone.\<close>

fun quote_char :: "char \<Rightarrow> string" where
  "quote_char c =
    (if c = CHR 0x22 then [CHR 0x5C, CHR 0x22]
     else if c = CHR 0x5C then [CHR 0x5C, CHR 0x5C]
     else if c = CHR 0x07 then [CHR 0x5C, CHR ''a'']
     else if c = CHR 0x08 then [CHR 0x5C, CHR ''b'']
     else if c = CHR 0x0C then [CHR 0x5C, CHR ''f'']
     else if c = CHR 0x0A then [CHR 0x5C, CHR ''n'']
     else if c = CHR 0x0D then [CHR 0x5C, CHR ''r'']
     else if c = CHR 0x09 then [CHR 0x5C, CHR ''t'']
     else if c = CHR 0x0B then [CHR 0x5C, CHR ''v'']
     else [c])"

definition go_quote :: "string \<Rightarrow> string" where
  "go_quote s = [CHR 0x22] @ concat (map quote_char s) @ [CHR 0x22]"

fun validate_reserved_prefixes :: "string list \<Rightarrow> string list \<Rightarrow> goerr option" where
  "validate_reserved_prefixes seen [] = None"
| "validate_reserved_prefixes seen (prefix # rest) =
    (if prefix = [] then Some (OtherErr ''reserved domain prefixes must not contain empty values'')
     else case check_domain_prefix prefix of
       Some e \<Rightarrow> labelled (''invalid reserved domain prefix '' @ go_quote prefix) (Some e)
     | None \<Rightarrow>
         if to_lower prefix \<in> set seen then Some (OtherErr ''reserved domain prefixes must be unique'')
         else validate_reserved_prefixes (to_lower prefix # seen) rest)"

text \<open>The regular expression engine is re_match of theory Validation: None for no compilation.\<close>

definition pattern_compiles :: "(string \<Rightarrow> string \<Rightarrow> bool option) \<Rightarrow> string \<Rightarrow> bool" where
  "pattern_compiles re_match pattern \<longleftrightarrow> re_match (''^(?:'' @ pattern @ '')$'') [] \<noteq> None"

fun validate_blocked_patterns ::
    "(string \<Rightarrow> string \<Rightarrow> bool option) \<Rightarrow> string list \<Rightarrow> string list \<Rightarrow> goerr option" where
  "validate_blocked_patterns re_match seen [] = None"
| "validate_blocked_patterns re_match seen (pattern # rest) =
    (let trimmed = trim_space pattern in
     if trimmed = [] then Some (OtherErr ''blocked domain prefix patterns must not contain empty values'')
     else if \<not> pattern_compiles re_match trimmed
       then Some (OtherErr (''invalid blocked domain prefix pattern '' @ go_quote pattern))
     else if trimmed \<in> set seen
       then Some (OtherErr ''blocked domain prefix patterns must be unique'')
     else validate_blocked_patterns re_match (trimmed # seen) rest)"

fun validate_git_hosts :: "string list \<Rightarrow> string list \<Rightarrow> goerr option" where
  "validate_git_hosts seen [] = None"
| "validate_git_hosts seen (h # rest) =
    (let host = to_lower (trim_space h) in
     if host = [] \<or> contains_any host [CHR '' '', CHR '':'', CHR ''/'', CHR 0x5C, CHR 0x00, CHR 0x0D, CHR 0x0A]
        \<or> has_prefix host ''.'' \<or> has_suffix host ''.''
     then Some (OtherErr ''invalid git allowed host'')
     else if host \<in> set seen then Some (OtherErr ''git allowed hosts must be unique'')
     else validate_git_hosts (host # seen) rest)"

fun validate_exec_commands :: "string list \<Rightarrow> string list \<Rightarrow> goerr option" where
  "validate_exec_commands seen [] = None"
| "validate_exec_commands seen (command # rest) =
    (if command = [] \<or> contains_any command [CHR 0x00, CHR 0x0D, CHR 0x0A]
     then Some (OtherErr ''telemetry allowed exec commands must not contain empty or control values'')
     else if command \<in> set seen then Some (OtherErr ''telemetry allowed exec commands must be unique'')
     else validate_exec_commands (command # seen) rest)"

definition validate_container_settings :: "config \<Rightarrow> goerr option" where
  "validate_container_settings cfg = first_error [
     guard (g_base_domain cfg = [] \<or> contains_any (g_base_domain cfg) [CHR '' '', CHR 0x60, CHR ''/'', CHR 0x5C])
       ''invalid base domain'',
     guard (g_default_memory cfg \<le> 0 \<or> g_reserved_system_memory cfg < 0) ''memory limits must be positive'',
     guard (g_overcommit cfg \<le> 0 \<or> g_overcommit cfg > 10) ''overcommit factor must be between 0 and 10'',
     guard (g_max_burst cfg \<le> 0 \<or> g_max_burst cfg > 10) ''max burst multiplier must be between 1 and 10'',
     guard (g_default_cpu cfg \<le> 0 \<or> g_reserved_system_cpu cfg < 0) ''cpu reservation limits must be positive'',
     guard (g_cpu_overcommit cfg \<le> 0 \<or> g_cpu_overcommit cfg > 10)
       ''cpu overcommit factor must be between 0 and 10'',
     guard (g_max_cpu_burst cfg \<le> 0 \<or> g_max_cpu_burst cfg > 10)
       ''max cpu burst multiplier must be between 1 and 10'',
     guard (g_cpu_period cfg \<le> 0) ''container cpu period must be positive'',
     guard (g_cpu_shares cfg \<le> 0 \<or> g_high_load_shares cfg \<le> 0) ''cpu shares must be positive'',
     guard (g_high_load_count cfg \<le> 0 \<or> g_stop_timeout cfg \<le> 0)
       ''container counters and timeouts must be positive'',
     labelled ''invalid max log size'' (check_docker_size (g_max_log_size cfg)),
     labelled ''invalid max log files'' (check_positive_number (g_max_log_files cfg)),
     labelled ''invalid container disk quota'' (check_docker_size (g_container_disk_quota cfg))]"

definition validate_resource_settings :: "config \<Rightarrow> goerr option" where
  "validate_resource_settings cfg = first_error [
     guard (g_max_volumes cfg \<le> 0 \<or> g_max_containers cfg \<le> 0) ''user resource limits must be positive'',
     guard (g_registry_api_url cfg = [] \<or> g_registry_url cfg = []) ''registry urls are required'',
     guard (g_ttl_hours cfg < 0) ''container ttl must not be negative'',
     guard (g_pids_limit cfg \<le> 0) ''container pids limit must be positive'',
     guard (g_memory_swap cfg < 1 \<or> g_memory_swap cfg > 10)
       ''container memory swap multiplier must be between 1 and 10'',
     guard (g_proxy_network cfg = []) ''proxy network name is required'',
     guard (g_registry_container cfg = []) ''registry container name is required'',
     guard (g_build_memory cfg \<le> 0 \<or> g_build_cpu_quota cfg \<le> 0 \<or> g_build_cpu_period cfg \<le> 0
            \<or> g_build_pids_limit cfg \<le> 0) ''build resource limits must be positive'',
     guard (g_build_memory_swap cfg < 1 \<or> g_build_memory_swap cfg > 10)
       ''build memory swap multiplier must be between 1 and 10'',
     guard (g_build_network cfg = [] \<or> g_kaniko_image cfg = [])
       ''build network name and kaniko image are required'',
     guard (g_max_build_minutes cfg \<le> 0 \<or> g_max_builds cfg \<le> 0)
       ''build time and concurrency must be positive'',
     guard (g_max_upload cfg \<le> 0 \<or> g_max_archive cfg \<le> 0 \<or> g_max_unpacked cfg \<le> 0
            \<or> g_max_build_log cfg \<le> 0) ''build size limits must be positive'',
     guard (g_build_cancel_poll cfg \<le> 0) ''build cancel poll interval must be positive'']"

definition validate_worker_settings :: "config \<Rightarrow> goerr option" where
  "validate_worker_settings cfg = first_error [
     guard (g_ttl_interval cfg \<le> 0 \<or> g_gc_interval cfg \<le> 0 \<or> g_stale_build_minutes cfg \<le> 0)
       ''worker intervals and stale build timeout must be positive'',
     guard (g_event_sync cfg \<le> 0 \<or> g_event_reconnect cfg \<le> 0) ''event worker intervals must be positive'',
     guard (g_build_outbox_interval cfg \<le> 0 \<or> g_build_outbox_batch cfg \<le> 0)
       ''build outbox settings must be positive'',
     guard (g_create_workers cfg \<le> 0 \<or> g_max_attempts cfg \<le> 0 \<or> g_create_timeout cfg \<le> 0)
       ''container create worker settings must be positive'',
     guard (g_max_queued_creates cfg < 0 \<or> g_outbox_interval cfg \<le> 0 \<or> g_outbox_batch cfg \<le> 0)
       ''container create queue settings are invalid'',
     guard (g_report_interval cfg < min_report_interval \<or> g_report_interval cfg > max_report_interval)
       ''reports usage snapshot interval must be between 60 and 86400 seconds'',
     guard (g_max_staged cfg < 0 \<or> g_max_queued_builds cfg < 0 \<or> g_max_queued_deploys cfg < 0
            \<or> g_min_free_disk cfg < 0) ''resource safety limits must not be negative'',
     guard (g_compose_upload_max cfg \<le> 0 \<or> g_compose_timeout cfg \<le> 0)
       ''compose upload and timeout settings must be positive'',
     guard (g_compose_workers cfg \<le> 0 \<or> g_compose_outbox_interval cfg \<le> 0
            \<or> g_compose_outbox_batch cfg \<le> 0 \<or> g_compose_max_attempts cfg \<le> 0)
       ''compose queue and worker settings must be positive'',
     guard (g_compose_build_poll cfg \<le> 0 \<or> g_dependency_timeout cfg \<le> 0 \<or> g_dependency_poll cfg \<le> 0)
       ''compose polling settings must be positive'',
     guard (g_coordinator_interval cfg \<le> 0) ''compose coordinator interval must be positive'',
     guard (g_git_clone_timeout cfg \<le> 0 \<or> g_git_max_bytes cfg \<le> 0) ''git source limits must be positive'',
     guard (g_git_enabled cfg \<and> g_git_hosts cfg = []) ''git allowed hosts are required'']"

definition validate_telemetry_settings :: "config \<Rightarrow> goerr option" where
  "validate_telemetry_settings cfg = first_error [
     guard (g_log_tail_lines cfg \<le> 0 \<or> g_log_streams cfg \<le> 0 \<or> g_terminal_sessions cfg \<le> 0)
       ''telemetry stream limits must be positive'',
     guard (g_terminal_idle cfg \<le> 0 \<or> g_terminal_max cfg \<le> 0) ''telemetry terminal timeouts must be positive'',
     guard (g_exec_commands cfg = []) ''telemetry allowed exec commands are required'',
     validate_exec_commands [] (g_exec_commands cfg),
     guard (g_command_args cfg < 0 \<or> g_command_arg_bytes cfg \<le> 0 \<or> g_ws_read_limit cfg \<le> 0)
       ''telemetry command and websocket limits must be positive'']"

definition validate_system_config :: "(string \<Rightarrow> string \<Rightarrow> bool option) \<Rightarrow> config \<Rightarrow> goerr option" where
  "validate_system_config re_match cfg = first_error [
     validate_container_settings cfg,
     validate_reserved_prefixes [] (g_reserved_prefixes cfg),
     validate_blocked_patterns re_match [] (g_blocked_patterns cfg),
     validate_resource_settings cfg,
     validate_worker_settings cfg,
     validate_git_hosts [] (g_git_hosts cfg),
     validate_telemetry_settings cfg]"

section \<open>What a valid configuration promises\<close>

lemma first_error_None: "first_error es = None \<longleftrightarrow> (\<forall>e \<in> set es. e = None)"
  by (induction es) (auto split: option.splits)

declare first_error.simps [simp del]

lemma guard_None [simp]: "guard b text = None \<longleftrightarrow> \<not> b"
  by (simp add: guard_def)

lemma labelled_None [simp]: "labelled text e = None \<longleftrightarrow> e = None"
  by (simp add: labelled_def)

lemma validate_reserved_prefixes_None:
  "validate_reserved_prefixes seen ps = None \<longleftrightarrow>
     (\<forall>p \<in> set ps. p \<noteq> [] \<and> check_domain_prefix p = None \<and> to_lower p \<notin> set seen)
     \<and> distinct (map to_lower ps)"
  by (induction ps arbitrary: seen) (auto simp: labelled_def image_iff split: option.splits if_splits)

lemma validate_blocked_patterns_None:
  "validate_blocked_patterns re seen ps = None \<longleftrightarrow>
     (\<forall>p \<in> set ps. trim_space p \<noteq> [] \<and> pattern_compiles re (trim_space p) \<and> trim_space p \<notin> set seen)
     \<and> distinct (map trim_space ps)"
  by (induction ps arbitrary: seen) (auto simp: Let_def image_iff split: if_splits)

lemma validate_exec_commands_None:
  "validate_exec_commands seen cs = None \<longleftrightarrow>
     (\<forall>c \<in> set cs. c \<noteq> [] \<and> \<not> contains_any c [CHR 0x00, CHR 0x0D, CHR 0x0A] \<and> c \<notin> set seen)
     \<and> distinct cs"
  by (induction cs arbitrary: seen) (auto split: if_splits)

lemma validate_git_hosts_None:
  assumes "validate_git_hosts seen hs = None"
  shows "(\<forall>h \<in> set hs. to_lower (trim_space h) \<noteq> [] \<and> to_lower (trim_space h) \<notin> set seen)
     \<and> distinct (map (\<lambda>h. to_lower (trim_space h)) hs)"
  using assms
proof (induction hs arbitrary: seen)
  case (Cons h hs)
  let ?h = "to_lower (trim_space h)"
  from Cons.prems have "?h \<noteq> []" "?h \<notin> set seen" "validate_git_hosts (?h # seen) hs = None"
    by (auto simp: Let_def split: if_splits)
  with Cons.IH[of "?h # seen"] show ?case by (auto simp: image_iff)
qed simp

lemma valid_container_settings:
  assumes "validate_system_config re cfg = None"
  shows "0 < g_default_memory cfg" "0 \<le> g_reserved_system_memory cfg" "0 < g_overcommit cfg"
    "g_overcommit cfg \<le> 10" "0 < g_max_burst cfg" "g_max_burst cfg \<le> 10" "0 < g_default_cpu cfg"
    "0 \<le> g_reserved_system_cpu cfg" "0 < g_cpu_overcommit cfg" "g_cpu_overcommit cfg \<le> 10"
    "0 < g_max_cpu_burst cfg" "g_max_cpu_burst cfg \<le> 10" "0 < g_cpu_period cfg" "0 < g_cpu_shares cfg"
    "0 < g_high_load_shares cfg" "0 < g_high_load_count cfg" "0 < g_stop_timeout cfg"
  using assms by (simp_all add: validate_system_config_def validate_container_settings_def first_error_None)

lemma valid_resource_settings:
  assumes "validate_system_config re cfg = None"
  shows "0 < g_max_volumes cfg" "0 < g_max_containers cfg" "0 \<le> g_ttl_hours cfg"
    "1 \<le> g_memory_swap cfg" "g_memory_swap cfg \<le> 10" "0 < g_build_memory cfg"
    "0 < g_build_cpu_quota cfg" "0 < g_build_cpu_period cfg" "0 < g_max_builds cfg"
    "0 < g_max_upload cfg"
  using assms by (simp_all add: validate_system_config_def validate_resource_settings_def first_error_None)

lemma valid_worker_settings:
  assumes "validate_system_config re cfg = None"
  shows "0 < g_max_attempts cfg" "0 < g_outbox_batch cfg" "0 \<le> g_max_queued_creates cfg"
    "0 \<le> g_max_staged cfg" "0 \<le> g_min_free_disk cfg" "0 < g_compose_max_attempts cfg"
  using assms by (simp_all add: validate_system_config_def validate_worker_settings_def first_error_None)

text \<open>No blocked pattern is skipped: each is set, and the engine compiles it.\<close>

lemma valid_blocked_patterns:
  assumes "validate_system_config re cfg = None" and "p \<in> set (g_blocked_patterns cfg)"
  shows "trim_space p \<noteq> [] \<and> pattern_compiles re (trim_space p)"
  using assms by (simp add: validate_system_config_def first_error_None validate_blocked_patterns_None)

end
