(* ===== verification/World.thy ===== *)
theory World
  imports Store Access SystemConfig Method
begin

text \<open>
  The world a service method acts on, and the shape of a Go method.  The world holds the store,
  the log of the calls that reached the Docker engine, the message broker and the other services,
  and a clock of external calls.  Everything the code cannot determine itself is read from the
  environment at that clock: whether a call fails and with which error, the current time, a fresh
  uuid, what the Docker engine, the host and the user service answer.  A theorem that holds for
  every world therefore holds for every pattern of failures and answers.

  A call that fails has no effect; one call of the store is one transaction.
\<close>

text \<open>What the user service answers (core/model/user_info.go).\<close>

record user_info =
  ui_id :: id
  ui_username :: string
  ui_quota_ram_mb :: int
  ui_quota_cpu :: rat
  ui_quota_disk_mb :: int

section \<open>The environment\<close>

record env =
  e_fault :: "nat \<Rightarrow> goerr option"
  e_now :: "nat \<Rightarrow> instant"
  e_uuid :: "nat \<Rightarrow> id"
  e_docker_id :: "nat \<Rightarrow> string"
  e_inspect :: "nat \<Rightarrow> string \<Rightarrow> inspection"
  e_image_exists :: "nat \<Rightarrow> string \<Rightarrow> bool"
  e_user :: "nat \<Rightarrow> id \<Rightarrow> user_info"
  e_total_memory :: "nat \<Rightarrow> int"
  e_cpus :: "nat \<Rightarrow> int"
  e_free_disk :: "nat \<Rightarrow> int"
  e_regex :: "string \<Rightarrow> string \<Rightarrow> bool option"
  e_volume_usage :: "nat \<Rightarrow> string \<Rightarrow> int"
  e_manifest :: "nat \<Rightarrow> string \<Rightarrow> string \<Rightarrow> int \<times> string"
  e_object_size :: "nat \<Rightarrow> string \<Rightarrow> int"
  e_uuid_text :: "id \<Rightarrow> string"
  e_config :: config
  e_request :: string

datatype call =
    DockerEnsureNetwork string
  | DockerRemoveNetwork string
  | DockerPull string
  | DockerCreate string runtime_spec
  | DockerStart string
  | DockerStop string int
  | DockerRemove string
  | DockerUpdate string resource_update
  | DockerRemoveImage string
  | DockerCreateVolume volume_spec
  | DockerRemoveVolume string
  | PublishContainer string string lifecycle_message
  | PublishResource string string resource_message
  | PublishBuild string string build_message
  | PublishCompose string string compose_message
  | DockerPrune
  | RegistryCollect string
  | RegistryDelete string string
  | UploadObject string
  | CopyObject string string
  | DeleteObject string
  | RecordAudit audit_event
  | RequestRebalance
  | RefreshProject id

record world =
  w_env :: env
  w_db :: db
  w_tick :: nat
  w_log :: "call list"

type_synonym 'a act = "(world, 'a) meth"

section \<open>External calls\<close>

definition ext :: "(nat \<Rightarrow> 'a act) \<Rightarrow> 'a act" where
  "ext f w = (let n = w_tick w; w' = w\<lparr>w_tick := Suc n\<rparr> in
     case e_fault (w_env w) n of Some e \<Rightarrow> (Inl e, w') | None \<Rightarrow> f n w')"

definition query :: "(db \<Rightarrow> goerr + 'a) \<Rightarrow> 'a act" where
  "query f = ext (\<lambda>n w. (f (w_db w), w))"

definition query_at :: "(instant \<Rightarrow> db \<Rightarrow> goerr + 'a) \<Rightarrow> 'a act" where
  "query_at f = ext (\<lambda>n w. (f (e_now (w_env w) n) (w_db w), w))"

definition exec :: "(instant \<Rightarrow> db \<Rightarrow> goerr + db) \<Rightarrow> unit act" where
  "exec f = ext (\<lambda>n w. case f (e_now (w_env w) n) (w_db w) of
     Inl e \<Rightarrow> (Inl e, w) | Inr d \<Rightarrow> (Inr (), w\<lparr>w_db := d\<rparr>))"

definition exec_get :: "(instant \<Rightarrow> db \<Rightarrow> goerr + 'a \<times> db) \<Rightarrow> 'a act" where
  "exec_get f = ext (\<lambda>n w. case f (e_now (w_env w) n) (w_db w) of
     Inl e \<Rightarrow> (Inl e, w) | Inr (x, d) \<Rightarrow> (Inr x, w\<lparr>w_db := d\<rparr>))"

definition perform :: "call \<Rightarrow> unit act" where
  "perform c = ext (\<lambda>n w. (Inr (), w\<lparr>w_log := w_log w @ [c]\<rparr>))"

definition ask :: "(env \<Rightarrow> nat \<Rightarrow> 'a) \<Rightarrow> 'a act" where
  "ask f = ext (\<lambda>n w. (Inr (f (w_env w) n), w))"

text \<open>Reading the clock, drawing a uuid and reading the configuration do not fail.\<close>

definition sample :: "(env \<Rightarrow> nat \<Rightarrow> 'a) \<Rightarrow> 'a act" where
  "sample f w = (Inr (f (w_env w) (w_tick w)), w\<lparr>w_tick := Suc (w_tick w)\<rparr>)"

definition fresh :: "id act" where "fresh = sample e_uuid"
definition now :: "instant act" where "now = sample e_now"
definition get_config :: "config act" where "get_config w = (Inr (e_config (w_env w)), w)"
definition get_env :: "env act" where "get_env w = (Inr (w_env w), w)"

definition emit :: "call \<Rightarrow> unit act" where
  "emit c w = (Inr (), w\<lparr>w_log := w_log w @ [c]\<rparr>)"

section \<open>Invariants of the store\<close>

text \<open>A method keeps a property of the store when it holds after the method, however it ends.\<close>

named_theorems keeps_intros \<open>rules that compose keeps\<close>

definition keeps :: "(db \<Rightarrow> bool) \<Rightarrow> 'a act \<Rightarrow> bool" where
  "keeps I m \<longleftrightarrow> (\<forall>w. I (w_db w) \<longrightarrow> I (w_db (snd (m w))))"

lemma keepsD: "keeps I m \<Longrightarrow> I (w_db w) \<Longrightarrow> m w = (r, w') \<Longrightarrow> I (w_db w')"
  unfolding keeps_def by (metis snd_conv)

lemma keepsI: "(\<And>w r w'. I (w_db w) \<Longrightarrow> m w = (r, w') \<Longrightarrow> I (w_db w')) \<Longrightarrow> keeps I m"
  unfolding keeps_def by (metis prod.collapse)

lemma keeps_preserves: "keeps I m \<longleftrightarrow> preserves (\<lambda>w. I (w_db w)) m"
  by (simp add: keeps_def preserves_def)

lemma keeps_pure [keeps_intros]:
  "keeps I (ret x)" "keeps I (fail e)" "keeps I get_config" "keeps I get_env"
  "keeps I fresh" "keeps I now" "keeps I (sample g)" "keeps I (emit c)"
  by (auto simp: keeps_def ret_def fail_def get_config_def get_env_def fresh_def now_def sample_def emit_def)

lemma keeps_check [keeps_intros]: "keeps I (check e)"
  unfolding keeps_preserves by (rule preserves_check)

lemma keeps_seq [keeps_intros]: "keeps I m \<Longrightarrow> (\<And>x. keeps I (f x)) \<Longrightarrow> keeps I (seq m f)"
  unfolding keeps_preserves by (rule preserves_seq)

lemma keeps_attempt [keeps_intros]: "keeps I m \<Longrightarrow> keeps I (attempt m)"
  unfolding keeps_preserves by (rule preserves_attempt)

lemma keeps_on_error [keeps_intros]: "keeps I m \<Longrightarrow> (\<And>e. keeps I (h e)) \<Longrightarrow> keeps I (on_error m h)"
  unfolding keeps_preserves by (rule preserves_on_error)

lemma keeps_ignore [keeps_intros]: "keeps I m \<Longrightarrow> keeps I (ignore m)"
  unfolding keeps_preserves by (rule preserves_ignore)

lemma keeps_on_failure [keeps_intros]: "keeps I m \<Longrightarrow> keeps I h \<Longrightarrow> keeps I (on_failure m h)"
  unfolding keeps_preserves by (rule preserves_on_failure)

lemma keeps_for_each [keeps_intros]:
  assumes "\<And>x. keeps I (f x)"
  shows "keeps I (for_each f xs)"
  using assms unfolding keeps_preserves by (rule preserves_for_each)

lemma keeps_reads [keeps_intros]:
  "keeps I (query q)" "keeps I (query_at p)" "keeps I (ask a)" "keeps I (perform c)"
  by (auto simp: query_def query_at_def ask_def perform_def keeps_def ext_def Let_def
      split: option.splits)

lemma keeps_exec:
  "(\<And>t d d'. I d \<Longrightarrow> f t d = Inr d' \<Longrightarrow> I d') \<Longrightarrow> keeps I (exec f)"
  by (auto simp: exec_def keeps_def ext_def Let_def split: option.splits sum.splits)

lemma keeps_exec_get:
  "(\<And>t d x d'. I d \<Longrightarrow> f t d = Inr (x, d') \<Longrightarrow> I d') \<Longrightarrow> keeps I (exec_get f)"
  by (auto simp: exec_get_def keeps_def ext_def Let_def split: option.splits sum.splits)

lemma keeps_if [keeps_intros]: "keeps I m \<Longrightarrow> keeps I n \<Longrightarrow> keeps I (if b then m else n)"
  by simp

lemma keeps_option [keeps_intros]:
  "keeps I m \<Longrightarrow> (\<And>x. keeps I (f x)) \<Longrightarrow> keeps I (case y of None \<Rightarrow> m | Some x \<Rightarrow> f x)"
  by (cases y) auto

lemma keeps_sum [keeps_intros]:
  "(\<And>e. keeps I (g e)) \<Longrightarrow> (\<And>x. keeps I (f x)) \<Longrightarrow> keeps I (case y of Inl e \<Rightarrow> g e | Inr x \<Rightarrow> f x)"
  by (cases y) auto

lemma keeps_prod [keeps_intros]:
  "(\<And>a b. keeps I (f a b)) \<Longrightarrow> keeps I (case y of (a, b) \<Rightarrow> f a b)"
  by (cases y) auto

lemma keeps_let [keeps_intros]: "(\<And>x. keeps I (f x)) \<Longrightarrow> keeps I (let x = y in f x)"
  by simp

section \<open>Methods that do not touch the store\<close>

definition reads_only :: "'a act \<Rightarrow> bool" where
  "reads_only m \<longleftrightarrow> (\<forall>w. w_db (snd (m w)) = w_db w)"

lemma reads_only_keeps: "reads_only m \<longleftrightarrow> (\<forall>I. keeps I m)"
proof
  show "reads_only m \<Longrightarrow> \<forall>I. keeps I m" by (simp add: reads_only_def keeps_def)
next
  assume k: "\<forall>I. keeps I m"
  show "reads_only m"
    unfolding reads_only_def
  proof
    fix w :: world
    have "keeps (\<lambda>d. d = w_db w) m" using k by blast
    then show "w_db (snd (m w)) = w_db w" by (simp add: keeps_def)
  qed
qed

text \<open>An act that reads leaves the store, the log and the environment as they are.\<close>

named_theorems quiet_intros \<open>rules that compose quiet\<close>

definition quiet :: "'a act \<Rightarrow> bool" where
  "quiet m \<longleftrightarrow> (\<forall>w. w_db (snd (m w)) = w_db w \<and> w_log (snd (m w)) = w_log w \<and> w_env (snd (m w)) = w_env w)"

lemma quietD:
  "quiet m \<Longrightarrow> m w = (x, w') \<Longrightarrow> w_db w' = w_db w \<and> w_log w' = w_log w \<and> w_env w' = w_env w"
  unfolding quiet_def by (metis snd_conv)

lemma quietI:
  "(\<And>w x w'. m w = (x, w') \<Longrightarrow> w_db w' = w_db w \<and> w_log w' = w_log w \<and> w_env w' = w_env w) \<Longrightarrow> quiet m"
  unfolding quiet_def by (metis prod.collapse)

lemma quiet_query [quiet_intros]: "quiet (query f)" "quiet (query_at p)" "quiet (ask a)"
  by (auto simp: quiet_def query_def query_at_def ask_def ext_def Let_def split: option.splits)

lemma quiet_ret [quiet_intros]:
  "quiet (ret x)" "quiet (fail e)" "quiet get_config" "quiet get_env" "quiet fresh" "quiet now"
  by (simp_all add: quiet_def ret_def fail_def get_config_def get_env_def fresh_def now_def sample_def)

lemma quiet_seq [quiet_intros]: "quiet m \<Longrightarrow> (\<And>x. quiet (f x)) \<Longrightarrow> quiet (seq m f)"
  unfolding quiet_def seq_def by (auto split: prod.splits sum.splits) (metis snd_conv)+

lemma quiet_attempt [quiet_intros]: "quiet m \<Longrightarrow> quiet (attempt m)"
  by (rule quietI) (auto simp: attempt_def split: prod.splits dest: quietD)

lemma quiet_ignore [quiet_intros]: "quiet m \<Longrightarrow> quiet (ignore m)"
  by (rule quietI) (auto simp: ignore_def split: prod.splits dest: quietD)

lemma quiet_on_error [quiet_intros]: "quiet m \<Longrightarrow> (\<And>e. quiet (h e)) \<Longrightarrow> quiet (on_error m h)"
  unfolding quiet_def on_error_def by (auto split: prod.splits sum.splits) (metis snd_conv)+

lemma quiet_check [quiet_intros]: "quiet (check e)"
  by (cases e) (auto simp: check_def intro: quiet_ret)

lemma quiet_branches [quiet_intros]:
  "quiet m \<Longrightarrow> quiet n \<Longrightarrow> quiet (if b then m else n)"
  "quiet m \<Longrightarrow> (\<And>x. quiet (f x)) \<Longrightarrow> quiet (case y of None \<Rightarrow> m | Some x \<Rightarrow> f x)"
  "(\<And>e. quiet (g e)) \<Longrightarrow> (\<And>x. quiet (f x)) \<Longrightarrow> quiet (case z of Inl e \<Rightarrow> g e | Inr x \<Rightarrow> f x)"
  "(\<And>a b. quiet (h a b)) \<Longrightarrow> quiet (case u of (a, b) \<Rightarrow> h a b)"
  "(\<And>x. quiet (f x)) \<Longrightarrow> quiet (let x = v in f x)"
  by (auto split: option.splits sum.splits prod.splits)

text \<open>A write that the store refuses.\<close>

lemma exec_refused:
  assumes "\<And>t. f t (w_db w) = Inl e" and "exec f w = (x, w')"
  shows "w_db w' = w_db w \<and> w_log w' = w_log w \<and> w_env w' = w_env w \<and> \<not> is_ok x"
  using assms by (auto simp: exec_def ext_def Let_def is_ok_def split: option.splits)

section \<open>Computation rules\<close>

lemma seq_Inl: "m w = (Inl e, w') \<Longrightarrow> seq m f w = (Inl e, w')"
  by (simp add: seq_def)

lemma seq_Inr: "m w = (Inr x, w') \<Longrightarrow> seq m f w = f x w'"
  by (simp add: seq_def)

text \<open>The answer of a call that reads.\<close>

definition answer :: "world \<Rightarrow> goerr + 'a \<Rightarrow> goerr + 'a" where
  "answer w r = (case e_fault (w_env w) (w_tick w) of Some e \<Rightarrow> Inl e | None \<Rightarrow> r)"

definition tick :: "world \<Rightarrow> world" where
  "tick w = w\<lparr>w_tick := Suc (w_tick w)\<rparr>"

lemma tick_fields [simp]: "w_db (tick w) = w_db w" "w_log (tick w) = w_log w" "w_env (tick w) = w_env w"
  "w_tick (tick w) = Suc (w_tick w)"
  by (simp_all add: tick_def)

lemma seq_attempt_reads:
  "seq (attempt (query f)) g w = g (answer w (f (w_db w))) (tick w)"
  "seq (attempt (query_at p)) g w = g (answer w (p (e_now (w_env w) (w_tick w)) (w_db w))) (tick w)"
  "seq (attempt (ask a)) h w = h (answer w (Inr (a (w_env w) (w_tick w)))) (tick w)"
  by (auto simp: seq_def attempt_def query_def query_at_def ask_def ext_def Let_def answer_def tick_def
      split: option.splits)

lemma answer_Inr [simp]: "answer w r = Inr x \<longleftrightarrow> e_fault (w_env w) (w_tick w) = None \<and> r = Inr x"
  by (auto simp: answer_def split: option.splits)

lemma seq_config: "seq get_config f w = f (e_config (w_env w)) w"
  by (simp add: seq_def get_config_def)

lemmas act_defs = ret_def fail_def seq_def attempt_def on_error_def ignore_def on_failure_def
  check_def ext_def query_def query_at_def exec_def exec_get_def perform_def ask_def sample_def
  fresh_def now_def get_config_def get_env_def emit_def Let_def

end
