(* ===== verification/ImageRepo.thy ===== *)
theory ImageRepo
  imports RepoInv
begin

text \<open>
  Images, builds and staged source archives: internal/core/repository/image.go, build.go and
  staged_object.go.  A build owns an image row in status building; completing the build makes that
  row the available image of its tag and removes the image it replaces, in one transaction.
\<close>

section \<open>Images (repository/image.go)\<close>

definition write_images :: "image list \<Rightarrow> db \<Rightarrow> goerr + db" where
  "write_images t d = accept image_violation t (d\<lparr>t_images := t\<rparr>)"

definition already_exists :: "goerr \<Rightarrow> goerr" where
  "already_exists err = (case pg_error err of
       Some (pgcode, constraint) \<Rightarrow>
         if pgcode = unique_violation then Sentinel ErrAlreadyExists else err
     | None \<Rightarrow> err)"

definition insert_image :: "instant \<Rightarrow> img_status \<Rightarrow> image \<Rightarrow> db \<Rightarrow> goerr + db" where
  "insert_image t dflt i d = map_err already_exists (write_images (t_images d @
     [i\<lparr>i_status := (if i_status i = INone then dflt else i_status i),
        i_observed := None, i_last_error := None, i_created := t\<rparr>]) d)"

definition save_image :: "image \<Rightarrow> instant \<Rightarrow> db \<Rightarrow> goerr + db" where
  "save_image i t d = insert_image t IAvailable i d"

definition get_image :: "id \<Rightarrow> db \<Rightarrow> goerr + image" where
  "get_image iid d = find_row (\<lambda>i. i_id i = iid) (t_images d)"

definition list_images :: "list_options \<Rightarrow> db \<Rightarrow> goerr + image list \<times> nat" where
  "list_images opts d =
    (let sel = filter (\<lambda>i. case lo_owner opts of Some u \<Rightarrow> i_owner i = u | None \<Rightarrow> True) (t_images d)
     in Inr (page (lo_limit opts) (lo_offset opts) (order_by (\<lambda>i. - i_created i) sel), length sel))"

definition count_images :: "db \<Rightarrow> goerr + nat" where
  "count_images d = Inr (length (t_images d))"

definition delete_image :: "id \<Rightarrow> instant \<Rightarrow> db \<Rightarrow> goerr + db" where
  "delete_image iid t d =
     (if rows_affected (\<lambda>i. i_id i = iid) (t_images d) = 0 then Inl (Sentinel ErrNotFound)
      else Inr (d\<lparr>t_images := delete_where (\<lambda>i. i_id i = iid) (t_images d)\<rparr>))"

definition update_images :: "(image \<Rightarrow> bool) \<Rightarrow> (image \<Rightarrow> image) \<Rightarrow> db \<Rightarrow> goerr + db" where
  "update_images P f d = bind_res (write_images (update_where P f (t_images d)) d)
     (\<lambda>d'. if rows_affected P (t_images d) = 0 then Inl (Sentinel ErrNotFound) else Inr d')"

definition update_image_size :: "id \<Rightarrow> int \<Rightarrow> instant \<Rightarrow> db \<Rightarrow> goerr + db" where
  "update_image_size iid mb t = update_images (\<lambda>i. i_id i = iid)
     (\<lambda>i. i\<lparr>i_size_mb := mb, i_observed := Some t, i_last_error := None\<rparr>)"

definition update_image_status :: "id \<Rightarrow> img_status \<Rightarrow> instant \<Rightarrow> db \<Rightarrow> goerr + db" where
  "update_image_status iid s t = update_images (\<lambda>i. i_id i = iid)
     (\<lambda>i. i\<lparr>i_status := s, i_observed := Some t, i_last_error := None\<rparr>)"

definition mark_image_error :: "id \<Rightarrow> img_status \<Rightarrow> goerr option \<Rightarrow> instant \<Rightarrow> db \<Rightarrow> goerr + db" where
  "mark_image_error iid s cause t = update_images (\<lambda>i. i_id i = iid)
     (\<lambda>i. i\<lparr>i_status := s, i_observed := Some t, i_last_error := map_option error_text cause\<rparr>)"

definition get_user_used_disk :: "id \<Rightarrow> db \<Rightarrow> goerr + int" where
  "get_user_used_disk owner d =
     scan_i64 (sum_where (\<lambda>i. i_owner i = owner \<and> i_status i \<noteq> IDeleting) i_size_mb (t_images d))"

definition get_replacement_size :: "id \<Rightarrow> string \<Rightarrow> id \<Rightarrow> db \<Rightarrow> goerr + int" where
  "get_replacement_size owner tag iid d =
     scan_i64 (sum_where (\<lambda>i. i_owner i = owner \<and> i_tag i = tag \<and> i_id i \<noteq> iid
       \<and> i_status i \<noteq> IBuilding \<and> i_status i \<noteq> IDeleting) i_size_mb (t_images d))"

definition get_total_used_disk :: "db \<Rightarrow> goerr + int" where
  "get_total_used_disk d =
     scan_i64 (sum_where (\<lambda>i. i_status i \<noteq> IDeleting) i_size_mb (t_images d))"

text \<open>The guarded status change both completion transactions begin with.\<close>

definition finish_build :: "instant \<Rightarrow> build_status \<Rightarrow> build \<Rightarrow> build" where
  "finish_build t s b = b\<lparr>b_status := s, b_finished := (if is_build_terminal s then Some t else None)\<rparr>"

definition open_build :: "id \<Rightarrow> build \<Rightarrow> bool" where
  "open_build bid b \<longleftrightarrow> b_id b = bid \<and> \<not> is_build_terminal (b_status b)"

definition update_build_and_image_size ::
    "id \<Rightarrow> id \<Rightarrow> build_status \<Rightarrow> int \<Rightarrow> instant \<Rightarrow> db \<Rightarrow> goerr + db" where
  "update_build_and_image_size bid iid s mb t d =
    (let d1 = d\<lparr>t_builds := update_where (open_build bid) (finish_build t s) (t_builds d)\<rparr>
     in if rows_affected (open_build bid) (t_builds d) = 0 then Inr d1
        else let others = (\<lambda>i. i_id i \<noteq> iid
                    \<and> exists_row (\<lambda>j. i_id j = iid \<and> i_owner j = i_owner i \<and> i_tag j = i_tag i) (t_images d1));
                 d2 = d1\<lparr>t_images := delete_where others (t_images d1)\<rparr>
             in write_images (update_where (\<lambda>i. i_id i = iid)
                  (\<lambda>i. i\<lparr>i_size_mb := mb, i_status := IAvailable, i_observed := Some t,
                        i_last_error := None\<rparr>) (t_images d2)) d2)"

definition mark_build_failed_and_delete_image ::
    "id \<Rightarrow> id \<Rightarrow> build_status \<Rightarrow> instant \<Rightarrow> db \<Rightarrow> goerr + db" where
  "mark_build_failed_and_delete_image bid iid s t d =
    (let d1 = d\<lparr>t_builds := update_where (open_build bid) (finish_build t s) (t_builds d)\<rparr>
     in if rows_affected (open_build bid) (t_builds d) = 0 then Inr d1
        else Inr (d1\<lparr>t_images := delete_where (\<lambda>i. i_id i = iid) (t_images d1)\<rparr>))"

section \<open>Builds (repository/build.go)\<close>

definition build_violation :: "build list \<Rightarrow> goerr option" where
  "build_violation t = (if \<not> uniq b_id (\<lambda>_. True) t
     then Some (PgError unique_violation ''builds_pkey'') else None)"

definition insert_build :: "build \<Rightarrow> db \<Rightarrow> goerr + db" where
  "insert_build b d =
     bind_res (accept build_violation (t_builds d @ [b]) (d\<lparr>t_builds := t_builds d @ [b]\<rparr>)) (\<lambda>d'.
       case b_project b of
         Some p \<Rightarrow> if exists_row (\<lambda>q. p_id q = p) (t_projects d) then Inr d'
                   else Inl (PgError foreign_key_violation ''builds_project_id_fkey'')
       | None \<Rightarrow> Inr d')"

definition save_build :: "build \<Rightarrow> instant \<Rightarrow> db \<Rightarrow> goerr + db" where
  "save_build b t d = insert_build b d"

definition insert_build_outbox :: "instant \<Rightarrow> build_message outbox \<Rightarrow> db \<Rightarrow> goerr + db" where
  "insert_build_outbox t r d =
     bind_res (accept (outbox_violation ''build_queue_outbox'') (t_bout d @ [fresh_row t r])
                (d\<lparr>t_bout := t_bout d @ [fresh_row t r]\<rparr>)) (\<lambda>d'.
       if exists_row (\<lambda>b. b_id b = ob_ref r) (t_builds d) then Inr d'
       else Inl (PgError foreign_key_violation ''build_queue_outbox_build_id_fkey''))"

definition create_queued_build ::
    "image \<Rightarrow> build \<Rightarrow> build_message outbox \<Rightarrow> instant \<Rightarrow> db \<Rightarrow> goerr + db" where
  "create_queued_build i b r t d =
     bind_res (insert_image t IBuilding i d) (\<lambda>d1.
     bind_res (insert_build b d1) (insert_build_outbox t r))"

definition update_builds :: "(build \<Rightarrow> bool) \<Rightarrow> (build \<Rightarrow> build) \<Rightarrow> db \<Rightarrow> goerr + db" where
  "update_builds P f d = (if rows_affected P (t_builds d) = 0 then Inl (Sentinel ErrNotFound)
     else Inr (d\<lparr>t_builds := update_where P f (t_builds d)\<rparr>))"

definition update_build_status :: "id \<Rightarrow> build_status \<Rightarrow> instant \<Rightarrow> db \<Rightarrow> goerr + db" where
  "update_build_status bid s t = update_builds (\<lambda>b. b_id b = bid) (finish_build t s)"

definition get_build :: "id \<Rightarrow> db \<Rightarrow> goerr + build" where
  "get_build bid d = find_row (\<lambda>b. b_id b = bid) (t_builds d)"

text \<open>Only a pending build is started; otherwise the row as it is, and False.\<close>

definition start_build :: "id \<Rightarrow> instant \<Rightarrow> db \<Rightarrow> goerr + (build \<times> bool) \<times> db" where
  "start_build bid t d =
    (let P = (\<lambda>b. b_id b = bid \<and> b_status b = BPending);
         f = (\<lambda>b. b\<lparr>b_status := BRunning, b_finished := None\<rparr>)
     in case find P (t_builds d) of
          Some b \<Rightarrow> Inr ((f b, True), d\<lparr>t_builds := update_where P f (t_builds d)\<rparr>)
        | None \<Rightarrow> bind_res (get_build bid d) (\<lambda>b. Inr ((b, False), d)))"

definition get_builds_by_image :: "id \<Rightarrow> db \<Rightarrow> goerr + build list" where
  "get_builds_by_image iid d =
     Inr (order_by (\<lambda>b. - b_started b) (filter (\<lambda>b. b_image b = iid) (t_builds d)))"

definition get_builds_by_project :: "id \<Rightarrow> db \<Rightarrow> goerr + build list" where
  "get_builds_by_project p d =
     Inr (order_by (\<lambda>b. - b_started b) (filter (\<lambda>b. b_project b = Some p) (t_builds d)))"

definition delete_build :: "id \<Rightarrow> instant \<Rightarrow> db \<Rightarrow> goerr + db" where
  "delete_build bid t d =
     (if rows_affected (\<lambda>b. b_id b = bid) (t_builds d) = 0 then Inl (Sentinel ErrNotFound)
      else Inr (d\<lparr>t_builds := delete_where (\<lambda>b. b_id b = bid) (t_builds d),
                  t_bout := delete_where (\<lambda>r. ob_ref r = bid) (t_bout d)\<rparr>))"

definition active_build :: "build \<Rightarrow> bool" where
  "active_build b \<longleftrightarrow> b_status b = BPending \<or> b_status b = BRunning"

definition get_stale_builds :: "instant \<Rightarrow> db \<Rightarrow> goerr + build list" where
  "get_stale_builds threshold d =
     Inr (filter (\<lambda>b. active_build b \<and> b_started b < threshold) (t_builds d))"

definition list_builds :: "list_options \<Rightarrow> db \<Rightarrow> goerr + build list \<times> nat" where
  "list_builds opts d =
    (let sel = filter (\<lambda>b. case lo_owner opts of Some u \<Rightarrow> b_owner b = u | None \<Rightarrow> True) (t_builds d)
     in Inr (page (lo_limit opts) (lo_offset opts) (order_by (\<lambda>b. - b_started b) sel), length sel))"

definition count_builds :: "db \<Rightarrow> goerr + nat" where
  "count_builds d = Inr (length (t_builds d))"

definition count_active_builds_by_owner :: "id \<Rightarrow> db \<Rightarrow> goerr + int" where
  "count_active_builds_by_owner owner d =
     Inr (int (rows_affected (\<lambda>b. b_owner b = owner \<and> active_build b) (t_builds d)))"

definition count_active_builds :: "db \<Rightarrow> goerr + int" where
  "count_active_builds d = Inr (int (rows_affected active_build (t_builds d)))"

definition lease_build_outbox :: "instant \<Rightarrow> nat \<Rightarrow> db \<Rightarrow> build_message outbox list \<times> db" where
  "lease_build_outbox t limit d =
     (case lease_rows t limit (t_bout d) of (items, rows) \<Rightarrow> (items, d\<lparr>t_bout := rows\<rparr>))"

definition mark_build_outbox ::
    "instant \<Rightarrow> id \<Rightarrow> ob_status \<Rightarrow> goerr option \<Rightarrow> db \<Rightarrow> goerr + db" where
  "mark_build_outbox t oid s cause d =
     bind_res (set_outbox_status t oid s cause (t_bout d)) (\<lambda>rows. Inr (d\<lparr>t_bout := rows\<rparr>))"

section \<open>Staged source archives (repository/staged_object.go)\<close>

definition active_bytes :: "id \<Rightarrow> staged list \<Rightarrow> int" where
  "active_bytes owner t = sum_where (\<lambda>s. so_owner s = owner \<and> so_status s = StActive) so_bytes t"

definition write_staged :: "staged list \<Rightarrow> db \<Rightarrow> goerr + db" where
  "write_staged t d = accept staged_violation t (d\<lparr>t_staged := t\<rparr>)"

text \<open>The quota test and the insertion run under the advisory lock of the owner.\<close>

definition reserve_staged :: "staged \<Rightarrow> int \<Rightarrow> instant \<Rightarrow> db \<Rightarrow> goerr + db" where
  "reserve_staged s max_bytes t d =
     bind_res (if max_bytes > 0
               then bind_res (scan_i64 (active_bytes (so_owner s) (t_staged d))) (\<lambda>used.
                      if i64 (used + so_bytes s) > max_bytes
                      then Inl (mk_err ErrQuotaExceeded ''staged source quota exceeded'') else Inr ())
               else Inr ()) (\<lambda>_.
     if exists_row (\<lambda>q. so_key q = so_key s) (t_staged d) then Inr d
     else write_staged (t_staged d @
            [s\<lparr>so_created := t, so_updated := t, so_released := None\<rparr>]) d)"

definition update_staged :: "string \<Rightarrow> (staged \<Rightarrow> staged) \<Rightarrow> db \<Rightarrow> goerr + db" where
  "update_staged key f d =
    (let P = (\<lambda>s. so_key s = key \<and> so_status s = StActive)
     in bind_res (write_staged (update_where P f (t_staged d)) d)
          (\<lambda>d'. if rows_affected P (t_staged d) = 0 then Inl (Sentinel ErrNotFound) else Inr d'))"

definition update_staged_bytes :: "string \<Rightarrow> int \<Rightarrow> instant \<Rightarrow> db \<Rightarrow> goerr + db" where
  "update_staged_bytes key bytes t = update_staged key (\<lambda>s. s\<lparr>so_bytes := bytes, so_updated := t\<rparr>)"

definition release_staged :: "string \<Rightarrow> instant \<Rightarrow> db \<Rightarrow> goerr + db" where
  "release_staged key t = update_staged key
     (\<lambda>s. s\<lparr>so_status := StReleased, so_released := Some t, so_updated := t\<rparr>)"

definition active_bytes_by_owner :: "id \<Rightarrow> db \<Rightarrow> goerr + int" where
  "active_bytes_by_owner owner d = scan_i64 (active_bytes owner (t_staged d))"

definition active_job :: "job \<Rightarrow> bool" where
  "active_job j \<longleftrightarrow> j_status j = JQueued \<or> j_status j = JRunning \<or> j_status j = JCanceling"

definition list_stale_active :: "instant \<Rightarrow> nat \<Rightarrow> db \<Rightarrow> goerr + staged list" where
  "list_stale_active cutoff limit d = Inr (take limit (order_by so_updated (filter (\<lambda>s.
     so_status s = StActive \<and> so_updated s < cutoff
     \<and> \<not> exists_row (\<lambda>b. b_archive b = so_key s \<and> active_build b) (t_builds d)
     \<and> \<not> exists_row (\<lambda>j. j_source_key j = so_key s \<and> active_job j) (t_jobs d)) (t_staged d))))"

section \<open>The contract of the publisher\<close>

interpretation bout: outbox_store t_bout lease_build_outbox mark_build_outbox
  by unfold_locales (auto simp: lease_build_outbox_def mark_build_outbox_def bind_res_def
      split: prod.splits sum.splits)

end
