(* ===== verification/VolumeRepo.thy ===== *)
theory VolumeRepo
  imports ImageRepo
begin

text \<open>
  Volumes and the queued operations on volumes and images: internal/core/repository/volume.go and
  resource_lifecycle.go.
\<close>

section \<open>Volumes (repository/volume.go)\<close>

definition write_volumes :: "volume list \<Rightarrow> db \<Rightarrow> goerr + db" where
  "write_volumes t d = accept volume_violation t (d\<lparr>t_volumes := t\<rparr>)"

definition volume_row :: "instant \<Rightarrow> volume \<Rightarrow> volume" where
  "volume_row t v = v\<lparr>v_status := (if v_status v = VNone then VAvailable else v_status v),
     v_observed := None, v_last_error := None, v_used_bytes := 0, v_usage_observed := None,
     v_created := t\<rparr>"

definition insert_volume :: "instant \<Rightarrow> volume \<Rightarrow> db \<Rightarrow> goerr + db" where
  "insert_volume t v d = map_err already_exists
     (bind_res (write_volumes (t_volumes d @ [volume_row t v]) d) (\<lambda>d'.
       case v_project v of
         Some p \<Rightarrow> if exists_row (\<lambda>q. p_id q = p) (t_projects d) then Inr d'
                   else Inl (PgError foreign_key_violation ''volumes_project_id_fkey'')
       | None \<Rightarrow> Inr d'))"

definition save_volume :: "volume \<Rightarrow> instant \<Rightarrow> db \<Rightarrow> goerr + db" where
  "save_volume v t d = insert_volume t v d"

text \<open>INSERT INTO project_volumes ... ON CONFLICT DO NOTHING\<close>

definition link_project_volume :: "id \<Rightarrow> id \<Rightarrow> instant \<Rightarrow> db \<Rightarrow> goerr + db" where
  "link_project_volume p v t d =
     (if List.member (t_pvols d) (p, v) then Inr d
      else if exists_row (\<lambda>q. p_id q = p) (t_projects d) \<and> exists_row (\<lambda>q. v_id q = v) (t_volumes d)
        then Inr (d\<lparr>t_pvols := t_pvols d @ [(p, v)]\<rparr>)
      else Inl (PgError foreign_key_violation ''project_volumes_fkey''))"

definition unlink_project_volume :: "id \<Rightarrow> id \<Rightarrow> instant \<Rightarrow> db \<Rightarrow> goerr + db" where
  "unlink_project_volume p v t d = Inr (d\<lparr>t_pvols := delete_where (\<lambda>l. l = (p, v)) (t_pvols d)\<rparr>)"

definition is_linked_to_project :: "id \<Rightarrow> id \<Rightarrow> db \<Rightarrow> goerr + bool" where
  "is_linked_to_project p v d = Inr (List.member (t_pvols d) (p, v))"

definition get_volume :: "id \<Rightarrow> db \<Rightarrow> goerr + volume" where
  "get_volume vid d = find_row (\<lambda>v. v_id v = vid) (t_volumes d)"

definition get_volume_by_name :: "id \<Rightarrow> string \<Rightarrow> db \<Rightarrow> goerr + volume" where
  "get_volume_by_name owner name d = find_row (\<lambda>v. v_owner v = owner \<and> v_name v = name) (t_volumes d)"

definition get_reconcile_candidates :: "db \<Rightarrow> goerr + volume list" where
  "get_reconcile_candidates d =
     Inr (filter (\<lambda>v. v_status v = VCreating \<or> v_status v = VAvailable) (t_volumes d))"

definition delete_volume :: "id \<Rightarrow> instant \<Rightarrow> db \<Rightarrow> goerr + db" where
  "delete_volume vid t d =
     (if rows_affected (\<lambda>v. v_id v = vid) (t_volumes d) = 0 then Inl (Sentinel ErrNotFound)
      else Inr (cascade_volume vid d))"

definition update_volumes :: "(volume \<Rightarrow> bool) \<Rightarrow> (volume \<Rightarrow> volume) \<Rightarrow> db \<Rightarrow> goerr + db" where
  "update_volumes P f d = bind_res (write_volumes (update_where P f (t_volumes d)) d)
     (\<lambda>d'. if rows_affected P (t_volumes d) = 0 then Inl (Sentinel ErrNotFound) else Inr d')"

definition volume_with_status :: "instant \<Rightarrow> vol_status \<Rightarrow> goerr option \<Rightarrow> volume \<Rightarrow> volume" where
  "volume_with_status t s cause v =
     v\<lparr>v_status := s, v_observed := Some t, v_last_error := map_option error_text cause\<rparr>"

definition update_volume_status :: "id \<Rightarrow> vol_status \<Rightarrow> instant \<Rightarrow> db \<Rightarrow> goerr + db" where
  "update_volume_status vid s t = update_volumes (\<lambda>v. v_id v = vid) (volume_with_status t s None)"

definition mark_volume_error :: "id \<Rightarrow> vol_status \<Rightarrow> goerr option \<Rightarrow> instant \<Rightarrow> db \<Rightarrow> goerr + db" where
  "mark_volume_error vid s cause t =
     update_volumes (\<lambda>v. v_id v = vid) (volume_with_status t s cause)"

text \<open>A mount that exists already is skipped.\<close>

fun save_mount_rows :: "mount list \<Rightarrow> db \<Rightarrow> goerr + db" where
  "save_mount_rows [] d = Inr d"
| "save_mount_rows (m # ms) d =
     (if exists_row (\<lambda>q. mt_container q = mt_container m \<and> mt_volume q = mt_volume m) (t_mounts d)
      then save_mount_rows ms d
      else bind_res (insert_mounts [m] d) (save_mount_rows ms))"

definition save_mounts :: "mount list \<Rightarrow> instant \<Rightarrow> db \<Rightarrow> goerr + db" where
  "save_mounts ms t d = save_mount_rows ms d"

definition count_volumes_by_owner :: "id \<Rightarrow> db \<Rightarrow> goerr + int" where
  "count_volumes_by_owner owner d =
     Inr (int (rows_affected (\<lambda>v. v_owner v = owner) (t_volumes d)))"

definition count_volumes :: "db \<Rightarrow> goerr + nat" where
  "count_volumes d = Inr (length (t_volumes d))"

definition is_volume_in_use :: "id \<Rightarrow> db \<Rightarrow> goerr + bool" where
  "is_volume_in_use vid d = Inr (exists_row (\<lambda>m. mt_volume m = vid) (t_mounts d))"

definition get_volumes_by_project :: "id \<Rightarrow> db \<Rightarrow> goerr + volume list" where
  "get_volumes_by_project p d = Inr (order_by (\<lambda>v. - v_created v)
     (filter (\<lambda>v. List.member (t_pvols d) (p, v_id v)) (t_volumes d)))"

definition list_volumes :: "list_options \<Rightarrow> db \<Rightarrow> goerr + volume list \<times> nat" where
  "list_volumes opts d =
    (let sel = filter (\<lambda>v. case lo_owner opts of Some u \<Rightarrow> v_owner v = u | None \<Rightarrow> True) (t_volumes d)
     in Inr (page (lo_limit opts) (lo_offset opts) (order_by (\<lambda>v. - v_created v) sel), length sel))"

definition update_volume_usage :: "id \<Rightarrow> int \<Rightarrow> instant \<Rightarrow> db \<Rightarrow> goerr + db" where
  "update_volume_usage vid bytes t = update_volumes (\<lambda>v. v_id v = vid)
     (\<lambda>v. v\<lparr>v_used_bytes := bytes, v_usage_observed := Some t, v_observed := Some t,
           v_last_error := None\<rparr>)"

definition get_user_volume_bytes :: "id \<Rightarrow> db \<Rightarrow> goerr + int" where
  "get_user_volume_bytes owner d =
     scan_i64 (sum_where (\<lambda>v. v_owner v = owner \<and> v_status v \<noteq> VDeleting) v_used_bytes (t_volumes d))"

definition get_total_volume_bytes :: "db \<Rightarrow> goerr + int" where
  "get_total_volume_bytes d =
     scan_i64 (sum_where (\<lambda>v. v_status v \<noteq> VDeleting) v_used_bytes (t_volumes d))"

definition get_owners_with_volumes :: "db \<Rightarrow> goerr + id list" where
  "get_owners_with_volumes d = Inr (remdups (map v_owner (t_volumes d)))"

section \<open>Queued volume and image operations (repository/resource_lifecycle.go)\<close>

definition insert_resource_outbox :: "instant \<Rightarrow> resource_message outbox \<Rightarrow> db \<Rightarrow> goerr + db" where
  "insert_resource_outbox t r d =
    (let row = (fresh_row t r)\<lparr>ob_attempts := 0, ob_last_error := None\<rparr>
     in bind_res (accept (outbox_violation ''resource_lifecycle_queue_outbox'') (t_rout d @ [row])
                   (d\<lparr>t_rout := t_rout d @ [row]\<rparr>)) (\<lambda>d'.
          if exists_row (\<lambda>op. o_id op = ob_ref r) (t_ops d) then Inr d'
          else Inl (PgError foreign_key_violation ''resource_lifecycle_queue_outbox_operation_id_fkey'')))"

definition create_queued_volume ::
    "volume \<Rightarrow> operation \<Rightarrow> resource_message outbox \<Rightarrow> instant \<Rightarrow> db \<Rightarrow> goerr + db" where
  "create_queued_volume v op r t d =
     bind_res (insert_volume t v d) (\<lambda>d1.
     bind_res (case v_project v of Some p \<Rightarrow> link_project_volume p (v_id v) t d1 | None \<Rightarrow> Inr d1) (\<lambda>d2.
     bind_res (insert_operation t op d2) (insert_resource_outbox t r)))"

definition queue_volume_delete ::
    "id \<Rightarrow> operation \<Rightarrow> resource_message outbox \<Rightarrow> instant \<Rightarrow> db \<Rightarrow> goerr + db" where
  "queue_volume_delete vid op r t d =
     bind_res (insert_operation t op d) (\<lambda>d1.
     bind_res (update_volumes (\<lambda>v. v_id v = vid) (volume_with_status t VDeleting None) d1)
       (insert_resource_outbox t r))"

definition queue_image_delete ::
    "id \<Rightarrow> operation \<Rightarrow> resource_message outbox \<Rightarrow> instant \<Rightarrow> db \<Rightarrow> goerr + db" where
  "queue_image_delete iid op r t d =
     bind_res (insert_operation t op d) (\<lambda>d1.
     bind_res (update_images (\<lambda>i. i_id i = iid)
                (\<lambda>i. i\<lparr>i_status := IDeleting, i_observed := Some t, i_last_error := None\<rparr>) d1)
       (insert_resource_outbox t r))"

definition resource_has_active_operation :: "res_type \<Rightarrow> id \<Rightarrow> db \<Rightarrow> goerr + bool" where
  "resource_has_active_operation rt rid d =
     Inr (exists_row (\<lambda>op. o_rtype op = rt \<and> o_rid op = rid \<and> op_active op) (t_ops d))"

definition resource_claim_operation ::
    "id \<Rightarrow> int \<Rightarrow> instant \<Rightarrow> db \<Rightarrow> goerr + (operation \<times> bool) \<times> db" where
  "resource_claim_operation oid max_attempts t d = bind_res (get_operation oid d) (\<lambda>op.
     if o_status op \<noteq> OsPending \<or> (max_attempts > 0 \<and> o_attempts op \<ge> max_attempts)
     then Inr ((op, False), d)
     else bind_res (update_ops (\<lambda>q. o_id q = oid) (claimed_op t) d)
            (\<lambda>d'. Inr ((claimed_op t op, True), d')))"

definition resource_complete_operation ::
    "id \<Rightarrow> op_status \<Rightarrow> goerr option \<Rightarrow> instant \<Rightarrow> db \<Rightarrow> goerr + db" where
  "resource_complete_operation oid s cause t =
     update_ops_or_not_found (\<lambda>op. o_id op = oid) (op_with_status t s cause)"

definition resource_requeue_operation :: "id \<Rightarrow> goerr option \<Rightarrow> instant \<Rightarrow> db \<Rightarrow> goerr + db" where
  "resource_requeue_operation oid cause t =
     update_ops_or_not_found (\<lambda>op. o_id op = oid \<and> o_status op = OsRunning)
       (op_with_status t OsPending cause)"

definition lease_resource_outbox :: "instant \<Rightarrow> nat \<Rightarrow> db \<Rightarrow> resource_message outbox list \<times> db" where
  "lease_resource_outbox t limit d =
     (case lease_rows t limit (t_rout d) of (items, rows) \<Rightarrow> (items, d\<lparr>t_rout := rows\<rparr>))"

definition update_resource_outbox_status ::
    "instant \<Rightarrow> id \<Rightarrow> ob_status \<Rightarrow> goerr option \<Rightarrow> db \<Rightarrow> goerr + db" where
  "update_resource_outbox_status t oid s cause d =
     bind_res (set_outbox_status t oid s cause (t_rout d)) (\<lambda>rows. Inr (d\<lparr>t_rout := rows\<rparr>))"

section \<open>The contract of the publisher\<close>

interpretation rout: outbox_store t_rout lease_resource_outbox update_resource_outbox_status
  by unfold_locales (auto simp: lease_resource_outbox_def update_resource_outbox_status_def bind_res_def
      split: prod.splits sum.splits)

end
