(* ===== verification/GoFloat.thy ===== *)
theory GoFloat
  imports Prelude
begin

text \<open>
  The float64 arithmetic of the admission and rebalancing formulas.  A finite float64 is a rational
  number; the result of a multiplication, a division or a conversion from int64 is the exact
  rational result rounded to 53 significant bits, ties to even (IEEE 754 round to nearest).  The
  quantities that occur are far from the ends of the exponent range, which is not modelled.
  int64(x) truncates.
\<close>

fun bitlen :: "nat \<Rightarrow> nat" where
  "bitlen n = (if n = 0 then 0 else Suc (bitlen (n div 2)))"

declare bitlen.simps [simp del]

definition ilog2 :: "rat \<Rightarrow> int" where
  "ilog2 q = (case quotient_of q of (a, b) \<Rightarrow>
     (let k = int (bitlen (nat a)) - int (bitlen (nat b)) in if 2 powi k \<le> q then k else k - 1))"

definition round_half_even :: "rat \<Rightarrow> int" where
  "round_half_even x = (let f = \<lfloor>x\<rfloor>; r = x - of_int f in
     if r < 1/2 then f else if 1/2 < r then f + 1 else if even f then f else f + 1)"

definition f64_pos :: "rat \<Rightarrow> rat" where
  "f64_pos q = (let e = ilog2 q - 52 in of_int (round_half_even (q / 2 powi e)) * 2 powi e)"

definition f64 :: "rat \<Rightarrow> rat" where
  "f64 q = (if q = 0 then 0 else if 0 < q then f64_pos q else - f64_pos (- q))"

definition f64_of_int :: "int \<Rightarrow> rat" where
  "f64_of_int n = f64 (of_int n)"

definition f64_mul :: "rat \<Rightarrow> rat \<Rightarrow> rat" where
  "f64_mul x y = f64 (x * y)"

definition f64_div :: "rat \<Rightarrow> rat \<Rightarrow> rat" where
  "f64_div x y = f64 (x / y)"

definition f64_to_int :: "rat \<Rightarrow> int" where
  "f64_to_int x = (if 0 \<le> x then \<lfloor>x\<rfloor> else \<lceil>x\<rceil>)"

section \<open>Rounding\<close>

lemma round_half_even_bounds: "\<lfloor>x\<rfloor> \<le> round_half_even x" "round_half_even x \<le> \<lfloor>x\<rfloor> + 1"
  by (auto simp: round_half_even_def Let_def)

lemma round_half_even_mono: "x \<le> y \<Longrightarrow> round_half_even x \<le> round_half_even y"
proof -
  assume le: "x \<le> y"
  show ?thesis
  proof (cases "\<lfloor>x\<rfloor> = \<lfloor>y\<rfloor>")
    case True
    then show ?thesis using le by (auto simp: round_half_even_def Let_def)
  next
    case False
    then have "\<lfloor>x\<rfloor> + 1 \<le> \<lfloor>y\<rfloor>" using floor_mono[OF le] by linarith
    then show ?thesis using round_half_even_bounds[of x] round_half_even_bounds[of y] by linarith
  qed
qed

lemma round_half_even_int [simp]: "round_half_even (of_int n) = n"
  by (simp add: round_half_even_def Let_def)

lemma bitlen_bounds: "0 < n \<Longrightarrow> 2 ^ (bitlen n - 1) \<le> n \<and> n < 2 ^ bitlen n \<and> 0 < bitlen n"
proof (induction n rule: bitlen.induct)
  case (1 n)
  show ?case
  proof (cases "n div 2 = 0")
    case True
    then have "n = 1" using 1(2) by linarith
    then show ?thesis by (simp add: bitlen.simps)
  next
    case False
    then have ih: "2 ^ (bitlen (n div 2) - 1) \<le> n div 2" "n div 2 < 2 ^ bitlen (n div 2)"
      "0 < bitlen (n div 2)" using 1 by auto
    have e: "bitlen n = Suc (bitlen (n div 2))" using 1(2) by (subst bitlen.simps) simp
    obtain k where k: "bitlen (n div 2) = Suc k" using ih(3) gr0_conv_Suc by blast
    have "2 ^ Suc k \<le> n" "n < 2 ^ Suc (Suc k)" using ih(1,2) k by auto
    then show ?thesis by (simp add: e k)
  qed
qed

lemma powi_split: "2 powi (int a - int b) = (2 ^ a / 2 ^ b :: rat)"
  by (simp add: power_int_diff)

lemma ilog2_bounds:
  assumes "0 < q"
  shows "2 powi (ilog2 q) \<le> q \<and> q < 2 powi (ilog2 q + 1)"
proof -
  obtain a b where ab: "quotient_of q = (a, b)" by (cases "quotient_of q") auto
  have b: "0 < b" using quotient_of_denom_pos[OF ab] .
  have q: "q = of_int a / of_int b" using quotient_of_div[OF ab] .
  have a: "0 < a" using assms b unfolding q zero_less_divide_iff by simp
  let ?n = "nat a" and ?m = "nat b" and ?k = "int (bitlen (nat a)) - int (bitlen (nat b))"
  have an: "of_int a = (of_nat ?n :: rat)" "of_int b = (of_nat ?m :: rat)" using a b by simp_all
  have n: "2 ^ (bitlen ?n - 1) \<le> ?n" "?n < 2 ^ bitlen ?n" "0 < bitlen ?n" using bitlen_bounds[of ?n] a by auto
  have m: "2 ^ (bitlen ?m - 1) \<le> ?m" "?m < 2 ^ bitlen ?m" "0 < bitlen ?m" using bitlen_bounds[of ?m] b by auto
  have n1: "(2 ^ (bitlen ?n - 1) :: rat) \<le> of_nat ?n" "of_nat ?n < (2 ^ bitlen ?n :: rat)"
    using n by (metis of_nat_le_iff of_nat_numeral of_nat_power, metis of_nat_less_iff of_nat_numeral of_nat_power)
  have m1: "(2 ^ (bitlen ?m - 1) :: rat) \<le> of_nat ?m" "of_nat ?m < (2 ^ bitlen ?m :: rat)"
    using m by (metis of_nat_le_iff of_nat_numeral of_nat_power, metis of_nat_less_iff of_nat_numeral of_nat_power)
  have mp: "0 < (of_nat ?m :: rat)" using b by simp
  have "q < 2 ^ bitlen ?n / 2 ^ (bitlen ?m - 1)"
    unfolding q an using n1 m1 mp by (intro frac_less) auto
  also have "\<dots> = 2 powi (?k + 1)"
  proof -
    have e: "?k + 1 = int (bitlen ?n) - int (bitlen ?m - 1)" using m(3) by linarith
    show ?thesis by (simp only: e powi_split)
  qed
  finally have up: "q < 2 powi (?k + 1)" .
  have "2 powi (?k - 1) = (2 ^ (bitlen ?n - 1) / 2 ^ bitlen ?m :: rat)"
  proof -
    have e: "?k - 1 = int (bitlen ?n - 1) - int (bitlen ?m)" using n(3) by linarith
    show ?thesis by (simp only: e powi_split)
  qed
  also have "\<dots> \<le> q" unfolding q an using n1 m1 mp by (intro frac_le) auto
  finally have lo: "2 powi (?k - 1) \<le> q" .
  show ?thesis using up lo by (auto simp: ilog2_def ab Let_def)
qed

lemma ilog2_mono: "0 < x \<Longrightarrow> x \<le> y \<Longrightarrow> ilog2 x \<le> ilog2 y"
proof (rule ccontr)
  assume h: "0 < x" "x \<le> y" "\<not> ilog2 x \<le> ilog2 y"
  have "y < 2 powi (ilog2 y + 1)" using ilog2_bounds[of y] h by linarith
  also have "\<dots> \<le> 2 powi (ilog2 x)" using h(3) by (intro power_int_increasing) auto
  also have "\<dots> \<le> x" using ilog2_bounds[OF h(1)] by blast
  finally show False using h(2) by simp
qed

lemma f64_pos_bounds:
  assumes "0 < q"
  shows "2 powi (ilog2 q) \<le> f64_pos q \<and> f64_pos q \<le> 2 powi (ilog2 q + 1)"
proof -
  let ?e = "ilog2 q - 52"
  have p: "(0 :: rat) < 2 powi ?e" by simp
  have s: "(2 :: rat) powi (ilog2 q) = 2 ^ 52 * 2 powi ?e" "(2 :: rat) powi (ilog2 q + 1) = 2 ^ 53 * 2 powi ?e"
    using power_int_add[of "2::rat" 52 ?e] power_int_add[of "2::rat" 53 ?e]
    by (simp_all add: add.commute)
  have "2 ^ 52 \<le> q / 2 powi ?e" "q / 2 powi ?e \<le> 2 ^ 53"
    using ilog2_bounds[OF assms] p unfolding s by (simp_all add: field_simps)
  then have "round_half_even (of_int (2 ^ 52)) \<le> round_half_even (q / 2 powi ?e)"
    "round_half_even (q / 2 powi ?e) \<le> round_half_even (of_int (2 ^ 53))"
    by (auto intro!: round_half_even_mono)
  then have "(2 ^ 52 :: int) \<le> round_half_even (q / 2 powi ?e)" "round_half_even (q / 2 powi ?e) \<le> (2 ^ 53 :: int)"
    unfolding round_half_even_int by simp_all
  then have "(2 ^ 52 :: rat) \<le> of_int (round_half_even (q / 2 powi ?e))"
    "of_int (round_half_even (q / 2 powi ?e)) \<le> (2 ^ 53 :: rat)"
    by (metis of_int_le_iff of_int_numeral of_int_power)+
  then show ?thesis unfolding f64_pos_def Let_def s using p by (simp add: mult_right_mono)
qed

lemma f64_pos_mono:
  assumes "0 < x" and "x \<le> y"
  shows "f64_pos x \<le> f64_pos y"
proof (cases "ilog2 x = ilog2 y")
  case True
  have "x / 2 powi (ilog2 y - 52) \<le> y / 2 powi (ilog2 y - 52)"
    using assms(2) by (simp add: divide_right_mono)
  then show ?thesis
    unfolding f64_pos_def Let_def True by (simp add: mult_right_mono round_half_even_mono)
next
  case False
  then have lt: "ilog2 x + 1 \<le> ilog2 y" using ilog2_mono[OF assms] by linarith
  have "f64_pos x \<le> 2 powi (ilog2 x + 1)" using f64_pos_bounds[OF assms(1)] by blast
  also have "\<dots> \<le> 2 powi (ilog2 y)" using lt by (intro power_int_increasing) auto
  also have "\<dots> \<le> f64_pos y" using f64_pos_bounds[of y] assms by linarith
  finally show ?thesis .
qed

lemma f64_nonneg: "0 \<le> x \<Longrightarrow> 0 \<le> f64 x"
proof -
  assume "0 \<le> x"
  then consider "x = 0" | "0 < x" by fastforce
  then show ?thesis
  proof cases
    case 2
    have "(0 :: rat) \<le> 2 powi ilog2 x" by simp
    also have "\<dots> \<le> f64_pos x" using f64_pos_bounds[OF 2] by blast
    finally show ?thesis using 2 by (simp add: f64_def)
  qed (simp add: f64_def)
qed

lemma f64_mono_nonneg: "0 \<le> x \<Longrightarrow> x \<le> y \<Longrightarrow> f64 x \<le> f64 y"
  using f64_nonneg[of y] f64_pos_mono[of x y] by (cases "x = 0") (auto simp: f64_def)

text \<open>Integers of at most 53 bits are represented exactly.\<close>

lemma f64_of_int_exact:
  assumes "0 \<le> n" and "n < 2 ^ 53"
  shows "f64_of_int n = of_int n"
proof (cases "n = 0")
  case False
  let ?q = "of_int n :: rat"
  have q: "0 < ?q" using assms False by simp
  have "ilog2 ?q < 53"
  proof (rule ccontr)
    assume "\<not> ilog2 ?q < 53"
    then have "(2 :: rat) powi 53 \<le> 2 powi (ilog2 ?q)" by (intro power_int_increasing) auto
    then have "(2 ^ 53 :: rat) \<le> of_int n" using ilog2_bounds[OF q] by simp
    then have "(2 ^ 53 :: int) \<le> n" by (metis of_int_le_iff of_int_numeral of_int_power)
    then show False using assms(2) by simp
  qed
  then obtain k :: nat where k: "ilog2 ?q - 52 = - int k"
    by (metis diff_le_0_iff_le int_ops(2) minus_minus nonneg_int_cases not_le neg_0_le_iff_le zle_diff1_eq
        add_diff_cancel_right' numeral_plus_one semiring_norm(5) one_add_one)
  have "?q / 2 powi (- int k) = of_int (n * 2 ^ k)"
    by (simp add: power_int_minus field_simps)
  then have "round_half_even (?q / 2 powi (- int k)) = n * 2 ^ k" by (simp only: round_half_even_int)
  then show ?thesis using q
    by (simp add: f64_of_int_def f64_def f64_pos_def k power_int_minus field_simps)
qed (simp add: f64_of_int_def f64_def)

lemma f64_to_int_mono: "0 \<le> x \<Longrightarrow> x \<le> y \<Longrightarrow> f64_to_int x \<le> f64_to_int y"
  by (simp add: f64_to_int_def floor_mono)

lemma f64_to_int_of_int [simp]: "f64_to_int (of_int n) = n"
  by (simp add: f64_to_int_def)

text \<open>Scaling by a factor of at least one does not lose anything of a 53-bit integer.\<close>

lemma scale_ge:
  assumes "0 \<le> n" and "n < 2 ^ 53" and "1 \<le> f"
  shows "n \<le> f64_to_int (f64_mul (f64_of_int n) f)"
proof -
  have e: "f64_of_int n = of_int n" using assms by (intro f64_of_int_exact)
  have "(of_int n :: rat) = f64 (of_int n)" using e by (simp add: f64_of_int_def)
  also have "\<dots> \<le> f64 (of_int n * f)"
    using assms by (intro f64_mono_nonneg) (auto simp: mult_le_cancel_left1)
  finally have "(of_int n :: rat) \<le> f64_mul (of_int n) f" by (simp add: f64_mul_def)
  then have "f64_to_int (of_int n) \<le> f64_to_int (f64_mul (of_int n) f)"
    using assms by (intro f64_to_int_mono) auto
  then show ?thesis using e by simp
qed

end
