(* ===== verification/Admission.thy ===== *)
theory Admission
  imports World VolumeRepo GoFloat
begin

text \<open>
  Admission control (internal/core/service/admission.go, container_admission.go, quota.go,
  resource_safety.go, disk_usage.go): whether a request for memory, CPU and disk fits the user's
  quota and the pool of the host.  Sums are int64 sums; the overcommit factors are float64 values.
\<close>

section \<open>The pools of the host (service/admission.go)\<close>

definition host_memory_pool :: "int \<Rightarrow> int \<Rightarrow> rat \<Rightarrow> int" where
  "host_memory_pool totmem reserved factor =
    (if factor \<le> 0 then 0
     else let available = i64 (totmem - reserved)
       in if available \<le> 0 then 0 else f64_to_int (f64_mul (f64_of_int available) factor))"

definition ensure_host_memory_admission :: "int \<Rightarrow> config \<Rightarrow> int \<Rightarrow> int \<Rightarrow> goerr option" where
  "ensure_host_memory_admission totmem cfg reserved requested =
    (let req = (if requested < 0 then 0 else requested);
         pool = host_memory_pool totmem (g_reserved_system_memory cfg) (g_overcommit cfg)
     in if pool \<le> 0 then Some (Sentinel ErrHostExhausted)
        else if i64 (reserved + req) > pool then Some (Sentinel ErrHostExhausted)
        else None)"

definition host_cpu_pool :: "int \<Rightarrow> int \<Rightarrow> rat \<Rightarrow> int" where
  "host_cpu_pool cpus reserved factor =
    (if cpus \<le> 0 \<or> factor \<le> 0 then 0
     else let available = i64 (i64 (cpus * 1000) - reserved)
       in if available \<le> 0 then 0 else f64_to_int (f64_mul (f64_of_int available) factor))"

definition ensure_host_cpu_admission :: "int \<Rightarrow> config \<Rightarrow> int \<Rightarrow> int \<Rightarrow> goerr option" where
  "ensure_host_cpu_admission cpus cfg reserved requested =
    (let req = (if requested < 0 then 0 else requested);
         pool = host_cpu_pool cpus (g_reserved_system_cpu cfg) (g_cpu_overcommit cfg)
     in if pool \<le> 0 then Some (Sentinel ErrHostExhausted)
        else if i64 (reserved + req) > pool then Some (Sentinel ErrHostExhausted)
        else None)"

definition build_cpu_millicores :: "config \<Rightarrow> int" where
  "build_cpu_millicores cfg =
    (if g_build_cpu_quota cfg \<le> 0 \<or> g_build_cpu_period cfg \<le> 0 then 0
     else quot (i64 (g_build_cpu_quota cfg * 1000)) (g_build_cpu_period cfg))"

text \<open>A failure to read the host metrics is reported as an internal error.\<close>

definition ensure_host_memory_capacity :: "config \<Rightarrow> int \<Rightarrow> int \<Rightarrow> unit act" where
  "ensure_host_memory_capacity cfg reserved requested =
     seq (on_error (ask e_total_memory) (\<lambda>_. fail (Sentinel ErrInternal))) (\<lambda>totmem.
     check (ensure_host_memory_admission totmem cfg reserved requested))"

definition ensure_host_cpu_capacity :: "config \<Rightarrow> int \<Rightarrow> int \<Rightarrow> unit act" where
  "ensure_host_cpu_capacity cfg reserved requested =
     seq (on_error (ask e_cpus) (\<lambda>_. fail (Sentinel ErrInternal))) (\<lambda>cpus.
     check (ensure_host_cpu_admission cpus cfg reserved requested))"

section \<open>Disk (service/quota.go, resource_safety.go, disk_usage.go)\<close>

definition bytes_to_mb :: "int \<Rightarrow> int" where
  "bytes_to_mb bytes = (if bytes \<le> 0 then 0 else quot (i64 (i64 (bytes + 1048576) - 1)) 1048576)"

definition staged_bytes_to_mb :: "int \<Rightarrow> int" where
  "staged_bytes_to_mb bytes = bytes_to_mb bytes"

definition used_disk_mb :: "id \<Rightarrow> int act" where
  "used_disk_mb owner =
     seq (query (get_user_used_disk owner)) (\<lambda>used_mb.
     seq (query (get_user_volume_bytes owner)) (\<lambda>used_bytes.
     ret (i64 (used_mb + bytes_to_mb used_bytes))))"

definition ensure_disk_quota_available :: "id \<Rightarrow> unit act" where
  "ensure_disk_quota_available owner =
     seq (ask (\<lambda>e n. e_user e n owner)) (\<lambda>u.
     seq (used_disk_mb owner) (\<lambda>used_mb.
     if used_mb \<ge> ui_quota_disk_mb u
     then fail (mk_err ErrQuotaExceeded ''user disk quota exceeded'') else ret ()))"

definition ensure_host_disk_floor_projected :: "int \<Rightarrow> int \<Rightarrow> unit act" where
  "ensure_host_disk_floor_projected min_free projected =
    (if min_free \<le> 0 then ret ()
     else seq (ask e_free_disk) (\<lambda>free.
       if i64 (free - (if projected < 0 then 0 else projected)) < min_free
       then fail (Sentinel ErrHostExhausted) else ret ()))"

definition ensure_host_disk_floor :: "int \<Rightarrow> unit act" where
  "ensure_host_disk_floor min_free = ensure_host_disk_floor_projected min_free 0"

section \<open>The checks of the container service (service/container_admission.go)\<close>

definition user_memory_quota :: "user_info \<Rightarrow> int" where
  "user_memory_quota u = i64 (i64 (ui_quota_ram_mb u * 1024) * 1024)"

definition user_cpu_quota :: "user_info \<Rightarrow> int" where
  "user_cpu_quota u = f64_to_int (f64_mul (ui_quota_cpu u) 1000)"

definition check_user_quota :: "id \<Rightarrow> int \<Rightarrow> unit act" where
  "check_user_quota owner requested =
     seq (ask (\<lambda>e n. e_user e n owner)) (\<lambda>u.
     seq (query (get_user_reserved_memory owner)) (\<lambda>used.
     if i64 (used + requested) > user_memory_quota u
     then fail (Sentinel ErrQuotaExceeded) else ret ()))"

definition check_user_cpu_quota :: "id \<Rightarrow> int \<Rightarrow> unit act" where
  "check_user_cpu_quota owner requested =
     seq (ask (\<lambda>e n. e_user e n owner)) (\<lambda>u.
     seq (query (get_user_reserved_cpu owner)) (\<lambda>used.
     if i64 (used + requested) > user_cpu_quota u
     then fail (Sentinel ErrQuotaExceeded) else ret ()))"

definition check_user_disk_quota :: "id \<Rightarrow> unit act" where
  "check_user_disk_quota owner = ensure_disk_quota_available owner"

definition check_host_capacity :: "int \<Rightarrow> unit act" where
  "check_host_capacity requested =
     seq (on_error (query get_total_reserved_memory) (\<lambda>_. fail (Sentinel ErrInternal))) (\<lambda>reserved.
     seq get_config (\<lambda>cfg. ensure_host_memory_capacity cfg reserved requested))"

definition check_host_cpu_capacity :: "int \<Rightarrow> unit act" where
  "check_host_cpu_capacity requested =
     seq (on_error (query get_total_reserved_cpu) (\<lambda>_. fail (Sentinel ErrInternal))) (\<lambda>reserved.
     seq get_config (\<lambda>cfg.
     seq (query count_active_builds) (\<lambda>builds.
     ensure_host_cpu_capacity cfg (i64 (reserved + i64 (builds * build_cpu_millicores cfg))) requested)))"

definition check_host_disk_for_write :: "int \<Rightarrow> unit act" where
  "check_host_disk_for_write projected =
     seq get_config (\<lambda>cfg. ensure_host_disk_floor_projected (g_min_free_disk cfg) projected)"

definition check_host_disk :: "unit act" where
  "check_host_disk = check_host_disk_for_write 0"

text \<open>
  The advisory locks of the owner and of the capacity are taken and released around the checks;
  taking them may fail.  They exclude concurrent admissions, so that the checks and the write that
  follows them see the same reservations.
\<close>

definition acquire_owner_capacity_lock :: "id \<Rightarrow> unit act" where
  "acquire_owner_capacity_lock owner = ask (\<lambda>e n. ())"

definition check_capacity :: "id \<Rightarrow> int \<Rightarrow> int \<Rightarrow> int \<Rightarrow> unit act" where
  "check_capacity owner ram cpu disk =
     seq (acquire_owner_capacity_lock owner) (\<lambda>_.
     seq (check_user_quota owner ram) (\<lambda>_.
     seq (check_user_cpu_quota owner cpu) (\<lambda>_.
     seq (check_user_disk_quota owner) (\<lambda>_.
     seq (check_host_capacity ram) (\<lambda>_.
     seq (check_host_cpu_capacity cpu) (\<lambda>_.
     check_host_disk_for_write disk))))))"

section \<open>What a passed check says\<close>

text \<open>
  The checks read the store and change nothing; when one passes, the inequality it tests holds of
  the store it was run on, for some answer of the services it asked.
\<close>

definition passes :: "unit act \<Rightarrow> world \<Rightarrow> bool" where
  "passes m w \<longleftrightarrow> is_ok (fst (m w))"

lemma seq_ok:
  "fst (seq m f w) = Inr y \<longleftrightarrow> (\<exists>x w'. m w = (Inr x, w') \<and> fst (f x w') = Inr y)"
  by (auto simp: seq_def split: prod.splits sum.splits)

lemma ask_Inr: "ask f w = (Inr x, w') \<longleftrightarrow>
    e_fault (w_env w) (w_tick w) = None \<and> x = f (w_env w) (w_tick w) \<and> w' = w\<lparr>w_tick := Suc (w_tick w)\<rparr>"
  by (auto simp: ask_def ext_def Let_def split: option.splits)

lemma query_Inr: "query f w = (Inr x, w') \<longleftrightarrow>
    e_fault (w_env w) (w_tick w) = None \<and> f (w_db w) = Inr x \<and> w' = w\<lparr>w_tick := Suc (w_tick w)\<rparr>"
  by (auto simp: query_def ext_def Let_def split: option.splits)

lemma get_config_Inr: "get_config w = (r, w') \<longleftrightarrow> r = Inr (e_config (w_env w)) \<and> w' = w"
  by (auto simp: get_config_def)

lemmas act_Inr = seq_Inr_iff on_error_Inr ask_Inr query_Inr check_Inr get_config_Inr

lemma scan_i64_Inr: "scan_i64 x = Inr y \<longleftrightarrow> y = x \<and> in_i64 x"
  by (auto simp: scan_i64_def)

lemma check_user_quota_Inr:
  assumes "check_user_quota owner req w = (Inr (), w')"
  shows "w_db w' = w_db w \<and> w_env w' = w_env w \<and> (\<exists>n used. get_user_reserved_memory owner (w_db w) = Inr used
     \<and> i64 (used + req) \<le> user_memory_quota (e_user (w_env w) n owner))"
  using assms unfolding check_user_quota_def act_Inr by (auto simp: not_less split: if_splits)

lemma check_user_cpu_quota_Inr:
  assumes "check_user_cpu_quota owner req w = (Inr (), w')"
  shows "w_db w' = w_db w \<and> w_env w' = w_env w \<and> (\<exists>n used. get_user_reserved_cpu owner (w_db w) = Inr used
     \<and> i64 (used + req) \<le> user_cpu_quota (e_user (w_env w) n owner))"
  using assms unfolding check_user_cpu_quota_def act_Inr by (auto simp: not_less split: if_splits)

lemma ensure_host_memory_admission_None:
  "ensure_host_memory_admission totmem cfg reserved requested = None \<longleftrightarrow>
     0 < host_memory_pool totmem (g_reserved_system_memory cfg) (g_overcommit cfg)
     \<and> i64 (reserved + max 0 requested) \<le> host_memory_pool totmem (g_reserved_system_memory cfg) (g_overcommit cfg)"
  by (auto simp: ensure_host_memory_admission_def Let_def max_def)

lemma ensure_host_cpu_admission_None:
  "ensure_host_cpu_admission cpus cfg reserved requested = None \<longleftrightarrow>
     0 < host_cpu_pool cpus (g_reserved_system_cpu cfg) (g_cpu_overcommit cfg)
     \<and> i64 (reserved + max 0 requested) \<le> host_cpu_pool cpus (g_reserved_system_cpu cfg) (g_cpu_overcommit cfg)"
  by (auto simp: ensure_host_cpu_admission_def Let_def max_def)

lemma check_host_capacity_Inr:
  assumes "check_host_capacity req w = (Inr (), w')"
  shows "w_db w' = w_db w \<and> w_env w' = w_env w \<and> (\<exists>n reserved. get_total_reserved_memory (w_db w) = Inr reserved
     \<and> i64 (reserved + max 0 req) \<le> host_memory_pool (e_total_memory (w_env w) n)
           (g_reserved_system_memory (e_config (w_env w))) (g_overcommit (e_config (w_env w))))"
  using assms unfolding check_host_capacity_def ensure_host_memory_capacity_def act_Inr
  by (auto simp: ensure_host_memory_admission_None)

lemma check_host_cpu_capacity_Inr:
  assumes "check_host_cpu_capacity req w = (Inr (), w')"
  shows "w_db w' = w_db w \<and> w_env w' = w_env w \<and> (\<exists>n reserved builds. get_total_reserved_cpu (w_db w) = Inr reserved
     \<and> count_active_builds (w_db w) = Inr builds
     \<and> i64 (i64 (reserved + i64 (builds * build_cpu_millicores (e_config (w_env w)))) + max 0 req)
         \<le> host_cpu_pool (e_cpus (w_env w) n) (g_reserved_system_cpu (e_config (w_env w)))
             (g_cpu_overcommit (e_config (w_env w))))"
  using assms unfolding check_host_cpu_capacity_def ensure_host_cpu_capacity_def act_Inr
  by (auto simp: ensure_host_cpu_admission_None)

lemma keeps_ensure_host_capacity [keeps_intros]:
  "keeps I (ensure_host_memory_capacity cfg r q)" "keeps I (ensure_host_cpu_capacity cfg r q)"
  by (auto simp: ensure_host_memory_capacity_def ensure_host_cpu_capacity_def intro!: keeps_intros)

lemma keeps_admission [keeps_intros]:
  "keeps I (check_user_quota owner n)" "keeps I (check_user_cpu_quota owner n)"
  "keeps I (check_user_disk_quota owner)" "keeps I (check_host_capacity n)"
  "keeps I (check_host_cpu_capacity n)" "keeps I (check_host_disk_for_write n)"
  "keeps I check_host_disk" "keeps I (acquire_owner_capacity_lock owner)"
  by (auto simp: check_user_quota_def check_user_cpu_quota_def check_user_disk_quota_def
      ensure_disk_quota_available_def used_disk_mb_def check_host_capacity_def
      check_host_cpu_capacity_def check_host_disk_for_write_def ensure_host_disk_floor_projected_def
      check_host_disk_def acquire_owner_capacity_lock_def intro!: keeps_intros)

lemma check_user_disk_quota_frame:
  "check_user_disk_quota owner w = (Inr (), w') \<Longrightarrow> w_db w' = w_db w \<and> w_env w' = w_env w"
  unfolding check_user_disk_quota_def ensure_disk_quota_available_def used_disk_mb_def act_Inr
  by (auto split: if_splits)

lemma check_host_disk_frame:
  "check_host_disk w = (Inr (), w') \<Longrightarrow> w_db w' = w_db w \<and> w_env w' = w_env w"
  unfolding check_host_disk_def check_host_disk_for_write_def ensure_host_disk_floor_projected_def
  by (auto simp: act_Inr split: if_splits)

lemma host_memory_pool_nonneg: "0 \<le> factor \<Longrightarrow> 0 \<le> host_memory_pool totmem reserved factor"
proof (cases "i64 (totmem - reserved) \<le> 0")
  case False
  assume f: "0 \<le> factor"
  have "0 \<le> f64_mul (f64_of_int (i64 (totmem - reserved))) factor"
    using False f f64_nonneg[of "of_int (i64 (totmem - reserved))"]
    by (auto simp: f64_mul_def f64_of_int_def intro!: f64_nonneg mult_nonneg_nonneg)
  then show ?thesis by (auto simp: host_memory_pool_def Let_def f64_to_int_def)
qed (simp add: host_memory_pool_def)

end
