(* ===== verification/ProjectRepo.thy ===== *)
theory ProjectRepo
  imports VolumeRepo
begin

text \<open>
  Projects, their service graphs and the compose deployment jobs
  (internal/core/repository/project.go).  The plan and the resource map of a job are the JSON
  texts the code stores; the dependencies of a service are kept with its node.
\<close>

section \<open>Projects\<close>

definition map_project_violation :: "goerr \<Rightarrow> goerr" where
  "map_project_violation err = (case pg_error err of
       Some (pgcode, constraint) \<Rightarrow>
         if pgcode = unique_violation then
           (if constraint = ''idx_projects_owner_name_unique''
            then mk_err ErrAlreadyExists ''project name is already in use''
            else Sentinel ErrAlreadyExists)
         else err
     | None \<Rightarrow> err)"

definition insert_project :: "instant \<Rightarrow> project \<Rightarrow> db \<Rightarrow> goerr + db" where
  "insert_project t p d = map_err map_project_violation
     (let ps = t_projects d @ [p\<lparr>p_created := t\<rparr>]
      in accept project_violation ps (d\<lparr>t_projects := ps\<rparr>))"

definition save_project :: "project \<Rightarrow> instant \<Rightarrow> db \<Rightarrow> goerr + db" where
  "save_project p t d = insert_project t p d"

definition job_violation :: "job list \<Rightarrow> goerr option" where
  "job_violation t =
    (if list_ex (\<lambda>j. j_attempts j < 0) t
       then Some (PgError check_violation ''compose_deployment_jobs_attempts_check'')
     else if \<not> uniq j_id (\<lambda>_. True) t
       then Some (PgError unique_violation ''compose_deployment_jobs_pkey'')
     else None)"

definition insert_job :: "instant \<Rightarrow> job \<Rightarrow> db \<Rightarrow> goerr + db" where
  "insert_job t j d =
    (let js = t_jobs d @ [j\<lparr>j_created := t, j_updated := t, j_started := None, j_finished := None\<rparr>]
     in bind_res (accept job_violation js (d\<lparr>t_jobs := js\<rparr>)) (\<lambda>d'.
          if exists_row (\<lambda>p. p_id p = j_project j) (t_projects d) then Inr d'
          else Inl (PgError foreign_key_violation ''compose_deployment_jobs_project_id_fkey'')))"

definition insert_compose_outbox :: "instant \<Rightarrow> compose_message outbox \<Rightarrow> db \<Rightarrow> goerr + db" where
  "insert_compose_outbox t r d =
    (let rs = t_pout d @ [fresh_row t r]
     in bind_res (accept (outbox_violation ''compose_deployment_queue_outbox'') rs (d\<lparr>t_pout := rs\<rparr>)) (\<lambda>d'.
          if exists_row (\<lambda>j. j_id j = ob_ref r) (t_jobs d) then Inr d'
          else Inl (PgError foreign_key_violation ''compose_deployment_queue_outbox_job_id_fkey'')))"

definition create_with_deployment_job ::
    "project \<Rightarrow> job \<Rightarrow> compose_message outbox \<Rightarrow> instant \<Rightarrow> db \<Rightarrow> goerr + db" where
  "create_with_deployment_job p j r t d =
     bind_res (insert_project t p d) (\<lambda>d1.
     bind_res (insert_job t j d1) (insert_compose_outbox t r))"

definition get_project :: "id \<Rightarrow> db \<Rightarrow> goerr + project" where
  "get_project pid d = find_row (\<lambda>p. p_id p = pid) (t_projects d)"

definition update_project_status ::
    "id \<Rightarrow> proj_status \<Rightarrow> string option \<Rightarrow> instant \<Rightarrow> db \<Rightarrow> goerr + db" where
  "update_project_status pid s msg t d =
     (if rows_affected (\<lambda>p. p_id p = pid) (t_projects d) = 0 then Inl (Sentinel ErrNotFound)
      else Inr (d\<lparr>t_projects := update_where (\<lambda>p. p_id p = pid)
                   (\<lambda>p. p\<lparr>p_status := s, p_error := msg\<rparr>) (t_projects d)\<rparr>))"

definition set_project :: "id \<Rightarrow> proj_status \<Rightarrow> string option \<Rightarrow> db \<Rightarrow> db" where
  "set_project pid s msg d = d\<lparr>t_projects := update_where (\<lambda>p. p_id p = pid)
     (\<lambda>p. p\<lparr>p_status := s, p_error := msg\<rparr>) (t_projects d)\<rparr>"

definition fail_active_deployments :: "string \<Rightarrow> instant \<Rightarrow> db \<Rightarrow> goerr + db" where
  "fail_active_deployments msg t d = Inr (d\<lparr>t_projects := update_where
     (\<lambda>p. p_status p = PBuilding \<or> p_status p = PDeploying \<or> p_status p = PCanceling)
     (\<lambda>p. p\<lparr>p_status := PFailed, p_error := Some msg\<rparr>) (t_projects d)\<rparr>)"

text \<open>
  The deletion of a project takes along its containers (with what refers to them), its volume
  links, its service graph and its deployment jobs; volumes and builds survive without a project.
\<close>

definition cascade_project :: "id \<Rightarrow> db \<Rightarrow> db" where
  "cascade_project pid d =
    (let cids = map c_id (filter (\<lambda>c. c_project c = Some pid) (t_containers d));
         jids = map j_id (filter (\<lambda>j. j_project j = pid) (t_jobs d));
         d1 = foldl (\<lambda>x cid. cascade_container cid x) d cids
     in d1\<lparr>
       t_projects := delete_where (\<lambda>p. p_id p = pid) (t_projects d1),
       t_pvols := delete_where (\<lambda>l. fst l = pid) (t_pvols d1),
       t_nodes := delete_where (\<lambda>n. sn_project n = pid) (t_nodes d1),
       t_jobs := delete_where (\<lambda>j. j_project j = pid) (t_jobs d1),
       t_pout := delete_where (\<lambda>r. List.member jids (ob_ref r)) (t_pout d1),
       t_volumes := update_where (\<lambda>v. v_project v = Some pid) (\<lambda>v. v\<lparr>v_project := None\<rparr>) (t_volumes d1),
       t_builds := update_where (\<lambda>b. b_project b = Some pid) (\<lambda>b. b\<lparr>b_project := None\<rparr>) (t_builds d1) \<rparr>)"

definition delete_project :: "id \<Rightarrow> instant \<Rightarrow> db \<Rightarrow> goerr + db" where
  "delete_project pid t d =
     (if rows_affected (\<lambda>p. p_id p = pid) (t_projects d) = 0 then Inl (Sentinel ErrNotFound)
      else Inr (cascade_project pid d))"

definition list_projects :: "list_options \<Rightarrow> db \<Rightarrow> goerr + project list \<times> nat" where
  "list_projects opts d =
    (let sel = filter (\<lambda>p. case lo_owner opts of Some u \<Rightarrow> p_owner p = u | None \<Rightarrow> True) (t_projects d)
     in Inr (page (lo_limit opts) (lo_offset opts) (order_by (\<lambda>p. - p_created p) sel), length sel))"

definition list_projects_by_status :: "proj_status list \<Rightarrow> int \<Rightarrow> db \<Rightarrow> goerr + project list" where
  "list_projects_by_status statuses limit d =
     Inr (take (if limit \<le> 0 then 50 else nat limit)
       (order_by p_created (filter (\<lambda>p. List.member statuses (p_status p)) (t_projects d))))"

section \<open>Deployment jobs\<close>

definition get_job :: "id \<Rightarrow> db \<Rightarrow> goerr + job" where
  "get_job jid d = find_row (\<lambda>j. j_id j = jid) (t_jobs d)"

definition get_active_job_by_project :: "id \<Rightarrow> db \<Rightarrow> goerr + job" where
  "get_active_job_by_project pid d =
     (case order_by (\<lambda>j. - j_created j) (filter (\<lambda>j. j_project j = pid \<and> active_job j) (t_jobs d)) of
        [] \<Rightarrow> Inl (Sentinel ErrNotFound) | j # _ \<Rightarrow> Inr j)"

definition interrupted_job :: "job \<Rightarrow> bool" where
  "interrupted_job j \<longleftrightarrow> j_status j = JRunning \<or> j_status j = JCanceling"

definition list_interrupted_jobs :: "db \<Rightarrow> goerr + job list" where
  "list_interrupted_jobs d = Inr (order_by j_updated (filter interrupted_job (t_jobs d)))"

definition started_job :: "instant \<Rightarrow> job \<Rightarrow> job" where
  "started_job t j = j\<lparr>j_status := JRunning, j_attempts := j_attempts j + 1,
     j_started := (case j_started j of Some s \<Rightarrow> Some s | None \<Rightarrow> Some t), j_updated := t\<rparr>"

text \<open>A worker starts a queued job that nobody asked to cancel; the flag tells whether it may run it.\<close>

definition start_job :: "id \<Rightarrow> instant \<Rightarrow> db \<Rightarrow> goerr + (job \<times> bool) \<times> db" where
  "start_job jid t d = bind_res (get_job jid d) (\<lambda>j.
     if is_job_terminal (j_status j) \<or> j_cancel_requested j then Inr ((j, False), d)
     else if j_status j \<noteq> JQueued then Inr ((j, False), d)
     else Inr ((started_job t j, True),
               d\<lparr>t_jobs := update_where (\<lambda>q. j_id q = jid) (started_job t) (t_jobs d)\<rparr>))"

definition update_jobs :: "(job \<Rightarrow> bool) \<Rightarrow> (job \<Rightarrow> job) \<Rightarrow> db \<Rightarrow> goerr + db" where
  "update_jobs P f d = (if rows_affected P (t_jobs d) = 0 then Inl (Sentinel ErrNotFound)
     else Inr (d\<lparr>t_jobs := update_where P f (t_jobs d)\<rparr>))"

definition complete_job :: "id \<Rightarrow> job_status \<Rightarrow> string option \<Rightarrow> instant \<Rightarrow> db \<Rightarrow> goerr + db" where
  "complete_job jid s msg t = update_jobs (\<lambda>j. j_id j = jid)
     (\<lambda>j. j\<lparr>j_status := s, j_error := msg, j_finished := Some t, j_updated := t\<rparr>)"

definition request_job_cancel :: "id \<Rightarrow> instant \<Rightarrow> db \<Rightarrow> goerr + db" where
  "request_job_cancel pid t = update_jobs (\<lambda>j. j_project j = pid \<and> active_job j)
     (\<lambda>j. j\<lparr>j_cancel_requested := True,
            j_status := (if j_status j = JQueued \<or> j_status j = JRunning then JCanceling else j_status j),
            j_updated := t\<rparr>)"

definition count_active_deployments :: "id \<Rightarrow> db \<Rightarrow> goerr + int" where
  "count_active_deployments owner d =
     Inr (int (rows_affected (\<lambda>j. j_owner j = owner \<and> active_job j) (t_jobs d)))"

definition save_deployment_plan ::
    "id \<Rightarrow> job_stage \<Rightarrow> compose_plan option \<Rightarrow> compose_resources option \<Rightarrow> instant \<Rightarrow> db \<Rightarrow> goerr + db" where
  "save_deployment_plan jid stage plan resources t =
     update_jobs (\<lambda>j. j_id j = jid \<and> j_status j = JRunning)
       (\<lambda>j. j\<lparr>j_stage := stage, j_plan := plan, j_resources := resources, j_updated := t\<rparr>)"

definition update_deployment_progress ::
    "id \<Rightarrow> id \<Rightarrow> proj_status option \<Rightarrow> job_stage \<Rightarrow> compose_plan option \<Rightarrow> compose_resources option \<Rightarrow> instant \<Rightarrow> db \<Rightarrow> goerr + db" where
  "update_deployment_progress jid pid status stage plan resources t d =
     bind_res (update_jobs (\<lambda>j. j_id j = jid \<and> interrupted_job j)
       (\<lambda>j. j\<lparr>j_stage := stage, j_plan := plan, j_resources := resources, j_updated := t\<rparr>) d) (\<lambda>d'.
     case status of None \<Rightarrow> Inr d' | Some s \<Rightarrow> Inr (set_project pid s None d'))"

definition list_active_jobs :: "int \<Rightarrow> db \<Rightarrow> goerr + job list" where
  "list_active_jobs limit d = Inr (take (if limit \<le> 0 then 50 else nat limit)
     (order_by j_updated (filter (\<lambda>j. interrupted_job j \<and> j_stage j \<noteq> StageNone) (t_jobs d))))"

definition has_partial_work :: "id \<Rightarrow> db \<Rightarrow> bool" where
  "has_partial_work pid d \<longleftrightarrow> exists_row (\<lambda>c. c_project c = Some pid) (t_containers d)
     \<or> exists_row (\<lambda>l. fst l = pid) (t_pvols d)
     \<or> exists_row (\<lambda>b. b_project b = Some pid) (t_builds d)"

definition recover_job :: "int \<Rightarrow> string \<Rightarrow> instant \<Rightarrow> job \<Rightarrow> db \<Rightarrow> db" where
  "recover_job max_attempts msg t j d =
    (if j_stage j \<noteq> StageNone then d
     else if has_partial_work (j_project j) d \<or> (max_attempts > 0 \<and> j_attempts j \<ge> max_attempts) then
       (let message = (case j_error j of Some m \<Rightarrow> if m \<noteq> [] then m else msg | None \<Rightarrow> msg)
        in set_project (j_project j) PFailed (Some message)
             (d\<lparr>t_jobs := update_where (\<lambda>q. j_id q = j_id j)
                 (\<lambda>q. q\<lparr>j_status := JFailed, j_error := Some message, j_finished := Some t,
                        j_updated := t\<rparr>) (t_jobs d)\<rparr>))
     else
       (let d1 = set_project (j_project j) PBuilding None
             (d\<lparr>t_jobs := update_where (\<lambda>q. j_id q = j_id j)
                 (\<lambda>q. q\<lparr>j_status := JQueued, j_error := None, j_updated := t\<rparr>) (t_jobs d)\<rparr>)
        in d1\<lparr>t_pout := update_where (\<lambda>r. ob_ref r = j_id j)
                (\<lambda>r. r\<lparr>ob_status := ObPending, ob_updated := t, ob_last_error := None\<rparr>) (t_pout d1)\<rparr>))"

definition recover_interrupted_deployments :: "int \<Rightarrow> string \<Rightarrow> instant \<Rightarrow> db \<Rightarrow> goerr + db" where
  "recover_interrupted_deployments max_attempts msg t d =
     Inr (foldl (\<lambda>x j. recover_job max_attempts msg t j x) d (filter interrupted_job (t_jobs d)))"

definition lease_compose_outbox :: "instant \<Rightarrow> nat \<Rightarrow> db \<Rightarrow> compose_message outbox list \<times> db" where
  "lease_compose_outbox t limit d =
     (case lease_rows t limit (t_pout d) of (items, rows) \<Rightarrow> (items, d\<lparr>t_pout := rows\<rparr>))"

definition update_compose_outbox_status ::
    "instant \<Rightarrow> id \<Rightarrow> ob_status \<Rightarrow> goerr option \<Rightarrow> db \<Rightarrow> goerr + db" where
  "update_compose_outbox_status t oid s cause d =
     bind_res (set_outbox_status t oid s cause (t_pout d)) (\<lambda>rows. Inr (d\<lparr>t_pout := rows\<rparr>))"

section \<open>Service graphs\<close>

definition node_violation :: "service_node list \<Rightarrow> goerr option" where
  "node_violation t =
    (if \<not> uniq (\<lambda>n. (sn_project n, sn_container n)) (\<lambda>_. True) t
       then Some (PgError unique_violation ''project_services_pkey'')
     else if \<not> uniq (\<lambda>n. (sn_project n, sn_service n)) (\<lambda>_. True) t
       then Some (PgError unique_violation ''project_services_project_id_service_name_key'')
     else if \<not> uniq (\<lambda>n. (sn_project n, sn_order n)) (\<lambda>_. True) t
       then Some (PgError unique_violation ''project_services_project_id_start_order_key'')
     else if \<not> list_all (\<lambda>n. uniq sd_depends_on (\<lambda>_. True) (sn_deps n)) t
       then Some (PgError unique_violation ''project_service_dependencies_pkey'')
     else None)"

definition stored_dependency :: "id \<Rightarrow> id \<Rightarrow> service_dependency \<Rightarrow> service_dependency" where
  "stored_dependency pid cid s = s\<lparr>sd_project := pid, sd_container := cid, sd_service := []\<rparr>"

definition insert_node :: "id \<Rightarrow> service_node \<Rightarrow> db \<Rightarrow> goerr + db" where
  "insert_node pid n d =
    (let row = n\<lparr>sn_project := pid, sn_deps := map (stored_dependency pid (sn_container n)) (sn_deps n)\<rparr>;
         ns = t_nodes d @ [row]
     in if \<not> list_all (\<lambda>s. is_valid_condition (sd_condition s)) (sn_deps n)
        then Inl (Wrapped ''bad request: invalid compose dependency condition'' (Sentinel ErrBadRequest))
        else if \<not> exists_row (\<lambda>p. p_id p = pid) (t_projects d)
                \<or> \<not> exists_row (\<lambda>c. c_id c = sn_container n) (t_containers d)
                \<or> \<not> list_all (\<lambda>s. exists_row (\<lambda>c. c_id c = sd_depends_on s) (t_containers d)) (sn_deps n)
        then Inl (PgError foreign_key_violation ''project_services_fkey'')
        else accept node_violation ns (d\<lparr>t_nodes := ns\<rparr>))"

fun insert_nodes :: "id \<Rightarrow> service_node list \<Rightarrow> db \<Rightarrow> goerr + db" where
  "insert_nodes pid [] d = Inr d"
| "insert_nodes pid (n # ns) d = bind_res (insert_node pid n d) (insert_nodes pid ns)"

definition save_service_graph :: "id \<Rightarrow> service_node list \<Rightarrow> instant \<Rightarrow> db \<Rightarrow> goerr + db" where
  "save_service_graph pid services t d =
     insert_nodes pid services (d\<lparr>t_nodes := delete_where (\<lambda>n. sn_project n = pid) (t_nodes d)\<rparr>)"

text \<open>The join with project_services fills in the name of the service depended on.\<close>

definition named_dependencies :: "service_node list \<Rightarrow> service_dependency list \<Rightarrow> service_dependency list" where
  "named_dependencies ns deps = concat (map (\<lambda>s. map (\<lambda>n. s\<lparr>sd_service := sn_service n\<rparr>)
     (filter (\<lambda>n. sn_container n = sd_depends_on s) ns)) deps)"

definition get_service_graph :: "id \<Rightarrow> db \<Rightarrow> goerr + service_node list" where
  "get_service_graph pid d =
    (let ns = order_by sn_order (filter (\<lambda>n. sn_project n = pid) (t_nodes d))
     in if ns = [] then Inl (Wrapped ''not found: project service graph not found'' (Sentinel ErrNotFound))
        else Inr (map (\<lambda>n. n\<lparr>sn_deps := named_dependencies ns (sn_deps n)\<rparr>) ns))"

section \<open>The contract of the publisher\<close>

interpretation pout: outbox_store t_pout lease_compose_outbox update_compose_outbox_status
  by unfold_locales (auto simp: lease_compose_outbox_def update_compose_outbox_status_def bind_res_def
      split: prod.splits sum.splits)

end
