(* ===== verification/ProjectStatus.thy ===== *)
theory ProjectStatus
  imports Admission ProjectRepo
begin

text \<open>
  How the status of a project is aggregated from its containers (RefreshProjectStatus in
  internal/core/service/project.go), and the status predicates the project service tests.
\<close>

fun project_status_blocks :: "proj_status \<Rightarrow> bool" where
  "project_status_blocks PBuilding = True"
| "project_status_blocks PDeploying = True"
| "project_status_blocks PCanceling = True"
| "project_status_blocks PStarting = True"
| "project_status_blocks PStopping = True"
| "project_status_blocks PDeleting = True"
| "project_status_blocks _ = False"

fun status_blocks_tick :: "cstatus \<Rightarrow> bool" where
  "status_blocks_tick CPending = True"
| "status_blocks_tick CCreating = True"
| "status_blocks_tick CStarting = True"
| "status_blocks_tick CStopping = True"
| "status_blocks_tick CExposing = True"
| "status_blocks_tick CDeleting = True"
| "status_blocks_tick CReconciling = True"
| "status_blocks_tick _ = False"

fun status_text :: "cstatus \<Rightarrow> string" where
  "status_text NoStatus = []"
| "status_text CPending = ''pending''"
| "status_text CCreating = ''creating''"
| "status_text CCreated = ''created''"
| "status_text CStarting = ''starting''"
| "status_text CRunning = ''running''"
| "status_text CStopping = ''stopping''"
| "status_text CExited = ''exited''"
| "status_text CExposing = ''exposing''"
| "status_text CError = ''error''"
| "status_text CMissing = ''missing''"
| "status_text CDeleting = ''deleting''"
| "status_text CReconciling = ''reconciling''"

text \<open>
  The loop over the containers: the first missing or failed container decides; otherwise the
  flags hasRunning and allStopped decide.  None leaves the status of the project as it is.
\<close>

fun aggregate :: "bool \<Rightarrow> bool \<Rightarrow> container list \<Rightarrow> (proj_status \<times> string option) option" where
  "aggregate has_running all_stopped [] =
     (if has_running then Some (PRunning, None)
      else if all_stopped then Some (PStopped, None) else None)"
| "aggregate has_running all_stopped (c # cs) =
     (if c_status c = CMissing \<or> c_status c = CError
        then Some (PFailed, Some (''container '' @ c_name c @ '' is '' @ status_text (c_status c)))
      else if c_status c = CRunning then aggregate True False cs
      else if c_status c = CCreated \<or> c_status c = CExited then aggregate has_running all_stopped cs
      else aggregate has_running False cs)"

definition refresh_project_status :: "id \<Rightarrow> unit act" where
  "refresh_project_status pid =
     seq (query (get_project pid)) (\<lambda>p.
     if project_status_blocks (p_status p) then ret ()
     else seq (query (get_by_project pid)) (\<lambda>cs.
       if cs = [] then ret ()
       else case aggregate False True cs of
              None \<Rightarrow> ret ()
            | Some (s, msg) \<Rightarrow> exec (update_project_status pid s msg)))"

definition refresh_status_of :: "id option \<Rightarrow> unit act" where
  "refresh_status_of project = (case project of
       None \<Rightarrow> ret () | Some pid \<Rightarrow> ignore (refresh_project_status pid))"

text \<open>What the loop computes, over all containers at once.\<close>

lemma aggregate_spec:
  "aggregate r s cs =
    (case find (\<lambda>c. c_status c = CMissing \<or> c_status c = CError) cs of
       Some c \<Rightarrow> Some (PFailed, Some (''container '' @ c_name c @ '' is '' @ status_text (c_status c)))
     | None \<Rightarrow> if r \<or> (\<exists>c \<in> set cs. c_status c = CRunning) then Some (PRunning, None)
               else if s \<and> (\<forall>c \<in> set cs. c_status c = CCreated \<or> c_status c = CExited)
                 then Some (PStopped, None) else None)"
  by (induction r s cs rule: aggregate.induct) (auto split: option.splits)

end
