(* ===== verification/ContainerService.thy ===== *)
theory ContainerService
  imports ProjectStatus Validation
begin

text \<open>
  The container service (internal/core/service/container.go, container_state.go,
  container_query.go): the requests of users.  Each of them only changes the store; what Docker is
  to do is queued as an operation with an outbox row and done later by the worker.  The record of
  an audit event after Expose and the log lines are not modelled.
\<close>

section \<open>Errors and runtime state (service/container_state.go)\<close>

definition resource_unavailable :: "string \<Rightarrow> goerr" where
  "resource_unavailable resource = mk_err ErrConflict
     ((if resource = [] then ''resource'' else resource) @ '' is missing in Docker and can only be deleted'')"

definition resource_missing :: "string \<Rightarrow> goerr" where
  "resource_missing resource =
     OtherErr ((if resource = [] then ''resource'' else resource) @ '' is missing in Docker; delete it'')"

definition normalize_runtime_error :: "goerr \<Rightarrow> goerr" where
  "normalize_runtime_error err =
     (if is_ctx_error err then wrap_err ErrTimeout (sentinel_text ErrTimeout) err else err)"

definition bad_request :: "string \<Rightarrow> goerr" where
  "bad_request text = Wrapped (''bad request: '' @ text) (Sentinel ErrBadRequest)"

text \<open>fmt.Errorf of ErrBadRequest and the error of a validation.\<close>

definition check_input :: "goerr option \<Rightarrow> unit act" where
  "check_input e = check (map_option (\<lambda>err. bad_request (error_text err)) e)"

definition mark_container_error :: "id \<Rightarrow> cstatus \<Rightarrow> goerr \<Rightarrow> unit act" where
  "mark_container_error cid s cause =
     ignore (exec (mark_status_error cid s (Some (normalize_runtime_error cause))))"

definition mark_volume_missing :: "id \<Rightarrow> unit act" where
  "mark_volume_missing vid =
     ignore (exec (mark_volume_error vid VMissing (Some (resource_missing ''volume''))))"

definition mark_image_missing :: "id \<Rightarrow> unit act" where
  "mark_image_missing iid =
     ignore (exec (mark_image_error iid IMissing (Some (resource_missing ''image''))))"

definition new_operation :: "id \<Rightarrow> res_type \<Rightarrow> id \<Rightarrow> id \<Rightarrow> op_kind \<Rightarrow> operation" where
  "new_operation oid rt rid owner kind = \<lparr> o_id = oid, o_rtype = rt, o_rid = rid, o_owner = owner,
     o_kind = kind, o_status = OsPending, o_attempts = 0, o_last_error = None, o_created = 0,
     o_updated = 0 \<rparr>"

definition new_outbox :: "id \<Rightarrow> id \<Rightarrow> id \<Rightarrow> string \<Rightarrow> string \<Rightarrow> 'm \<Rightarrow> 'm outbox" where
  "new_outbox rid ref resource exchange key payload = \<lparr> ob_id = rid, ob_ref = ref,
     ob_resource = resource, ob_exchange = exchange, ob_key = key, ob_payload = payload,
     ob_status = ObPending, ob_attempts = 0, ob_last_error = None, ob_published_at = None,
     ob_created = 0, ob_updated = 0 \<rparr>"

definition container_exchange :: string where "container_exchange = ''dcm.containers''"
definition container_routing_key :: string where "container_routing_key = ''container.lifecycle''"

definition unix_seconds :: "instant \<Rightarrow> int" where
  "unix_seconds t = t div 1000000000"

definition queue_operation ::
    "container \<Rightarrow> op_kind \<Rightarrow> cstatus \<Rightarrow> cstatus \<Rightarrow> string \<Rightarrow> int \<Rightarrow> cstatus \<Rightarrow> unit act" where
  "queue_operation c kind busy desired domain port previous =
     seq fresh (\<lambda>oid.
     seq get_env (\<lambda>env.
     seq now (\<lambda>t.
     seq fresh (\<lambda>rid.
     let op = new_operation oid RContainer (c_id c) (c_owner c) kind;
         msg = \<lparr> m_operation = oid, m_container = c_id c, m_owner = c_owner c, m_kind = kind,
                 m_request = e_request env, m_created = unix_seconds t, m_domain = domain,
                 m_port = port, m_previous = previous \<rparr>;
         row = new_outbox rid oid (c_id c) container_exchange container_routing_key msg
     in exec (queue_container_operation (c_id c) busy desired op row)))))"

section \<open>The user network\<close>

definition user_network_name :: "env \<Rightarrow> id \<Rightarrow> string" where
  "user_network_name env owner = ''net_user_'' @ e_uuid_text env owner"

definition cleanup_user_network_if_unused :: "id \<Rightarrow> unit act" where
  "cleanup_user_network_if_unused owner =
     seq (query (count_by_owner owner)) (\<lambda>n.
     if n > 0 then ret ()
     else seq get_env (\<lambda>env. perform (DockerRemoveNetwork (user_network_name env owner))))"

definition cleanup_user_network :: "id \<Rightarrow> unit act" where
  "cleanup_user_network owner = ignore (cleanup_user_network_if_unused owner)"

section \<open>Create\<close>

definition domain_full :: "config \<Rightarrow> string \<Rightarrow> string" where
  "domain_full cfg prefix =
    (if prefix = [] then prefix else if g_base_domain cfg = [] then prefix
     else prefix @ ''.'' @ g_base_domain cfg)"

definition domain_in_use_error :: "config \<Rightarrow> string \<Rightarrow> goerr" where
  "domain_in_use_error cfg prefix =
     mk_err ErrAlreadyExists (''subdomain '' @ domain_full cfg prefix @ '' is already in use'')"

definition domain_forbidden_error :: "string \<Rightarrow> goerr" where
  "domain_forbidden_error prefix =
     mk_err ErrBadRequest (''domain prefix '' @ [CHR 0x22] @ prefix @ [CHR 0x22] @ '' is forbidden'')"

definition check_forbidden_domain :: "string \<Rightarrow> unit act" where
  "check_forbidden_domain prefix = seq get_env (\<lambda>env. seq get_config (\<lambda>cfg.
     if forbidden_domain_prefix (e_regex env) prefix (g_reserved_prefixes cfg) (g_blocked_patterns cfg)
     then fail (domain_forbidden_error prefix) else ret ()))"

text \<open>The image of the user with this tag, if the images can be listed and there is one.\<close>

definition find_user_image :: "id \<Rightarrow> string \<Rightarrow> image option act" where
  "find_user_image owner tag =
     seq (attempt (query (list_images \<lparr> lo_owner = Some owner, lo_project = None, lo_limit = 0, lo_offset = 0 \<rparr>)))
       (\<lambda>r. case r of Inl e \<Rightarrow> ret None
                    | Inr (imgs, n) \<Rightarrow> ret (find (\<lambda>i. i_tag i = tag) imgs))"

fun create_mounts :: "id \<Rightarrow> id \<Rightarrow> mount_params list \<Rightarrow> mount list act" where
  "create_mounts owner cid [] = ret []"
| "create_mounts owner cid (vm # vms) =
     seq (check_input (check_mount_path (mp_path vm))) (\<lambda>_.
     seq (query (get_volume (mp_volume vm))) (\<lambda>vol.
     if v_owner vol \<noteq> owner then fail (Sentinel ErrNotFound)
     else if v_status vol = VMissing then fail (resource_unavailable ''volume'')
     else seq (create_mounts owner cid vms) (\<lambda>ms.
       ret (\<lparr> mt_container = cid, mt_volume = v_id vol, mt_path = mp_path vm, mt_ro = mp_ro vm \<rparr> # ms))))"

definition check_create_domain :: "container_create_params \<Rightarrow> unit act" where
  "check_create_domain params =
    (if cp_domain params = [] then ret ()
     else if cp_port params \<le> 0 then fail (Sentinel ErrBadRequest)
     else seq (query (check_domain_prefix_exists (cp_domain params))) (\<lambda>ex. seq get_config (\<lambda>cfg.
       if ex then fail (domain_in_use_error cfg (cp_domain params)) else ret ())))"

definition check_queued_creates :: "id \<Rightarrow> unit act" where
  "check_queued_creates owner = seq get_config (\<lambda>cfg.
     if g_max_queued_creates cfg > 0
     then seq (query (count_active_creates owner)) (\<lambda>queued.
       if queued \<ge> g_max_queued_creates cfg then fail (Sentinel ErrLimitExceeded) else ret ())
     else ret ())"

definition requested_memory :: "config \<Rightarrow> int \<Rightarrow> int" where
  "requested_memory cfg mb =
    (let req = i64 (i64 (mb * 1024) * 1024) in if req \<le> 0 then g_default_memory cfg else req)"

definition admit :: "id \<Rightarrow> int \<Rightarrow> int \<Rightarrow> unit act" where
  "admit owner mem cpu =
     seq (check_user_quota owner mem) (\<lambda>_.
     seq (check_user_cpu_quota owner cpu) (\<lambda>_.
     seq (check_user_disk_quota owner) (\<lambda>_.
     seq (check_host_capacity mem) (\<lambda>_.
     seq (check_host_cpu_capacity cpu) (\<lambda>_.
     check_host_disk)))))"

definition new_container ::
    "id \<Rightarrow> id \<Rightarrow> string \<Rightarrow> int \<Rightarrow> int \<Rightarrow> container_create_params \<Rightarrow> container" where
  "new_container cid owner tag mem cpu params = \<lparr>
     c_id = cid, c_owner = owner, c_project = cp_project params, c_docker_id = [],
     c_name = cp_name params, c_image_tag = tag, c_port = cp_port params,
     c_domain = cp_domain params, c_status = CPending, c_desired = CCreated, c_ttl = None,
     c_env = cp_env params, c_memory = mem, c_cpu = cpu, c_observed = None, c_last_error = None,
     c_exit_code = None, c_generation = 1,
     c_alias = (if cp_alias params = [] then cp_name params else cp_alias params),
     c_command = cp_command params, c_entrypoint = cp_entrypoint params,
     c_restart = cp_restart params, c_health = cp_health params, c_created = 0 \<rparr>"

text \<open>The part of Create that runs under the owner's capacity lock.\<close>

definition create_locked :: "id \<Rightarrow> container_create_params \<Rightarrow> id act" where
  "create_locked owner params =
     seq get_config (\<lambda>cfg.
     seq (query (count_by_owner owner)) (\<lambda>n.
     if n \<ge> g_max_containers cfg then fail (Sentinel ErrLimitExceeded) else
     seq (check_create_domain params) (\<lambda>_.
     seq (check_queued_creates owner) (\<lambda>_.
     let mem = requested_memory cfg (cp_memory_mb params); cpu = g_default_cpu cfg in
     seq (admit owner mem cpu) (\<lambda>_.
     let tag = normalize_tag (cp_image_tag params) in
     seq (find_user_image owner tag) (\<lambda>img.
     if (case img of Some i \<Rightarrow> i_status i \<noteq> IAvailable | None \<Rightarrow> False)
     then fail (resource_unavailable ''image'') else
     seq fresh (\<lambda>cid.
     seq (create_mounts owner cid (cp_mounts params)) (\<lambda>mounts.
     seq fresh (\<lambda>oid.
     seq get_env (\<lambda>env.
     seq now (\<lambda>t.
     seq fresh (\<lambda>rid.
     let c = new_container cid owner tag mem cpu params;
         op = new_operation oid RContainer cid owner OpCreate;
         msg = \<lparr> m_operation = oid, m_container = cid, m_owner = owner, m_kind = OpCreate,
                 m_request = e_request env, m_created = unix_seconds t, m_domain = [],
                 m_port = 0, m_previous = NoStatus \<rparr>;
         row = new_outbox rid oid cid container_exchange container_routing_key msg
     in seq (exec (save_with_mounts_operation_outbox c mounts op row)) (\<lambda>_. ret cid)))))))))))))"

definition create :: "scope option \<Rightarrow> container_create_params \<Rightarrow> id act" where
  "create ctx params = (case require_user_owner ctx of
       Inl e \<Rightarrow> fail e
     | Inr owner \<Rightarrow>
         seq (check_input (check_resource_name (cp_name params))) (\<lambda>_.
         seq (check_input (check_image_tag (cp_image_tag params))) (\<lambda>_.
         if cp_port params < 0 \<or> cp_port params > 65535 then fail (bad_request ''invalid internal port'') else
         seq (check_input (check_domain_prefix (cp_domain params))) (\<lambda>_.
         seq (check_forbidden_domain (cp_domain params)) (\<lambda>_.
         seq (acquire_owner_capacity_lock owner) (\<lambda>_.
         create_locked owner params))))))"

section \<open>Expose, Start, Stop, Delete\<close>

text \<open>The beginning the requests on one container share: load, authorise, refuse the missing.\<close>

definition load_container :: "scope option \<Rightarrow> id \<Rightarrow> container act" where
  "load_container ctx cid =
     seq (query (get_container cid)) (\<lambda>c.
     seq (check (require_owner_access ctx (c_owner c))) (\<lambda>_. ret c))"

definition load_live_container :: "scope option \<Rightarrow> id \<Rightarrow> container act" where
  "load_live_container ctx cid =
     seq (load_container ctx cid) (\<lambda>c.
     if c_status c = CMissing then fail (resource_unavailable ''container'')
     else if c_docker_id c = [] then
       seq (mark_container_error cid CMissing (resource_missing ''container''))
         (\<lambda>_. fail (resource_unavailable ''container''))
     else ret c)"

definition expose :: "scope option \<Rightarrow> id \<Rightarrow> string \<Rightarrow> int \<Rightarrow> unit act" where
  "expose ctx cid domain port =
     seq (load_live_container ctx cid) (\<lambda>c.
     if domain = [] \<or> port \<le> 0 then fail (Sentinel ErrBadRequest)
     else if port > 65535 then fail (bad_request ''invalid internal port'')
     else seq (check_input (check_domain_prefix domain)) (\<lambda>_.
     seq (check_forbidden_domain domain) (\<lambda>_.
     seq (if c_domain c = domain then ret False
          else query (check_domain_prefix_exists domain)) (\<lambda>ex.
     seq get_config (\<lambda>cfg.
     if ex then fail (domain_in_use_error cfg domain) else
     seq check_host_disk (\<lambda>_.
     queue_operation c OpExpose CExposing
       (if c_desired c = NoStatus \<or> c_desired c = CExposing then c_status c else c_desired c)
       domain port (c_status c)))))))"

definition normalize_memory :: "int \<Rightarrow> config \<Rightarrow> int" where
  "normalize_memory v cfg = (if v > 0 then v else g_default_memory cfg)"

definition normalize_cpu :: "int \<Rightarrow> config \<Rightarrow> int" where
  "normalize_cpu v cfg = (if v > 0 then v else g_default_cpu cfg)"

definition start :: "scope option \<Rightarrow> id \<Rightarrow> unit act" where
  "start ctx cid =
     seq (load_live_container ctx cid) (\<lambda>c.
     let owner = c_owner c in
     seq (acquire_owner_capacity_lock owner) (\<lambda>_.
     seq get_config (\<lambda>cfg.
     let mem = normalize_memory (c_memory c) cfg; cpu = normalize_cpu (c_cpu c) cfg in
     seq (check_user_quota owner mem) (\<lambda>_.
     seq (check_user_cpu_quota owner cpu) (\<lambda>_.
     seq (check_host_capacity mem) (\<lambda>_.
     seq (check_host_cpu_capacity cpu) (\<lambda>_.
     seq (check_user_disk_quota owner) (\<lambda>_.
     seq check_host_disk (\<lambda>_.
     queue_operation c OpStart CStarting CRunning [] 0 (c_status c))))))))))"

definition stop :: "scope option \<Rightarrow> id \<Rightarrow> unit act" where
  "stop ctx cid =
     seq (load_live_container ctx cid) (\<lambda>c.
     queue_operation c OpStop CStopping CExited [] 0 (c_status c))"

definition active_operation_error :: goerr where
  "active_operation_error = mk_err ErrConflict ''resource operation is already in progress''"

definition delete :: "scope option \<Rightarrow> id \<Rightarrow> unit act" where
  "delete ctx cid =
     seq (load_container ctx cid) (\<lambda>c.
     if c_docker_id c = [] \<and> (c_status c = CPending \<or> c_status c = CCreating) then
       seq (exec (cancel_create_and_delete cid
              (Some (mk_err ErrConflict ''container create canceled by delete'')))) (\<lambda>_.
       seq (cleanup_user_network (c_owner c)) (\<lambda>_.
       refresh_status_of (c_project c)))
     else
       seq (query (has_active_operation RContainer cid)) (\<lambda>active.
       if active then fail active_operation_error
       else queue_operation c OpDelete CDeleting CDeleting [] 0 (c_status c)))"

section \<open>Queries (service/container_query.go)\<close>

definition action :: "scope option \<Rightarrow> id \<Rightarrow> string \<Rightarrow> unit act" where
  "action ctx cid what =
    (if what = ''start'' then start ctx cid
     else if what = ''stop'' then stop ctx cid
     else if what = ''delete'' then delete ctx cid
     else fail (bad_request ''invalid container action''))"

definition list_all_containers ::
    "scope option \<Rightarrow> int \<Rightarrow> int \<Rightarrow> id option \<Rightarrow> (container list \<times> nat) act" where
  "list_all_containers ctx limit offset project = (case require_scope ctx of
       Inl e \<Rightarrow> fail e
     | Inr s \<Rightarrow> if sc_kind s \<noteq> KindUser \<and> sc_kind s \<noteq> KindAdmin then fail (Sentinel ErrForbidden)
         else query (list_containers \<lparr> lo_owner = owner_filter s, lo_project = project,
                       lo_limit = limit, lo_offset = offset \<rparr>))"

record runtime_target =
  rt_container :: id
  rt_docker_id :: string
  rt_status :: cstatus
  rt_owner :: id
  rt_generation :: int

definition get_runtime_target :: "scope option \<Rightarrow> id \<Rightarrow> runtime_target act" where
  "get_runtime_target ctx cid =
     seq (load_container ctx cid) (\<lambda>c.
     if c_status c = CMissing then fail (resource_unavailable ''container'')
     else if c_docker_id c = [] then fail (Sentinel ErrNotFound)
     else ret \<lparr> rt_container = c_id c, rt_docker_id = c_docker_id c, rt_status = c_status c,
                rt_owner = c_owner c, rt_generation = c_generation c \<rparr>)"

end
