(* ===== verification/ContainerWorker.thy ===== *)
theory ContainerWorker
  imports ContainerService
begin

text \<open>
  The worker of the container queue (internal/core/service/container_create_async.go) and what the
  consumer does with its result (infrastructure/rabbitmq/container_consumer.go).  A message names
  an operation; the worker claims it, drives Docker, and completes, fails or requeues it.  The
  writes the code makes on a context detached from the request are ordinary calls here, which may
  fail like any other.
\<close>

section \<open>Docker calls that answer\<close>

definition docker_create :: "runtime_spec \<Rightarrow> string act" where
  "docker_create spec = ext (\<lambda>n w. let did = e_docker_id (w_env w) n
     in (Inr did, w\<lparr>w_log := w_log w @ [DockerCreate did spec]\<rparr>))"

definition docker_inspect :: "string \<Rightarrow> inspection act" where
  "docker_inspect did = ask (\<lambda>e n. e_inspect e n did)"

definition docker_image_exists :: "string \<Rightarrow> bool act" where
  "docker_image_exists tag = ask (\<lambda>e n. e_image_exists e n tag)"

definition docker_inspect_volume :: "string \<Rightarrow> unit act" where
  "docker_inspect_volume name = ask (\<lambda>e n. ())"

section \<open>Finishing an operation\<close>

definition ensure_operation_running :: "id \<Rightarrow> unit act" where
  "ensure_operation_running oid =
     seq (query (get_operation oid)) (\<lambda>op.
     if o_status op \<noteq> OsRunning
     then fail (mk_err ErrConflict ''container create operation is no longer active'') else ret ())"

definition is_retryable :: "goerr \<Rightarrow> bool" where
  "is_retryable cause \<longleftrightarrow> errors_is cause ErrTimeout \<or> errors_is cause ErrUnavailable"

definition requeue_if_retryable :: "id \<Rightarrow> goerr \<Rightarrow> bool act" where
  "requeue_if_retryable oid cause =
    (if \<not> is_retryable cause then ret False
     else seq (attempt (exec (requeue_operation oid (Some cause)))) (\<lambda>r. ret (is_ok r)))"

definition fail_queued_create :: "id \<Rightarrow> id \<Rightarrow> goerr \<Rightarrow> unit act" where
  "fail_queued_create oid cid cause =
     seq (ignore (exec (mark_status_error cid CError (Some (normalize_runtime_error cause))))) (\<lambda>_.
     ignore (exec (complete_operation oid OsFailed (Some (normalize_runtime_error cause)))))"

fun restored_status :: "cstatus \<Rightarrow> cstatus" where
  "restored_status NoStatus = CError"
| "restored_status CPending = CError"
| "restored_status CCreating = CError"
| "restored_status CStarting = CError"
| "restored_status CStopping = CError"
| "restored_status CExposing = CError"
| "restored_status CDeleting = CError"
| "restored_status s = s"

definition fail_queued_lifecycle :: "id \<Rightarrow> id \<Rightarrow> cstatus \<Rightarrow> goerr \<Rightarrow> unit act" where
  "fail_queued_lifecycle oid cid previous cause =
     seq (ignore (exec (mark_status_error cid (restored_status previous)
            (Some (normalize_runtime_error cause))))) (\<lambda>_.
     ignore (exec (complete_operation oid OsFailed (Some (normalize_runtime_error cause)))))"

text \<open>Fail (or requeue) the operation and return the error.\<close>

definition abort_create :: "id \<Rightarrow> id \<Rightarrow> goerr \<Rightarrow> 'a act" where
  "abort_create oid cid e = seq (fail_queued_create oid cid e) (\<lambda>_. fail e)"

definition retry_or_abort_create :: "id \<Rightarrow> id \<Rightarrow> goerr \<Rightarrow> 'a act" where
  "retry_or_abort_create oid cid e = seq (requeue_if_retryable oid e) (\<lambda>requeued.
     if requeued then fail e else abort_create oid cid e)"

definition abort_lifecycle :: "id \<Rightarrow> id \<Rightarrow> cstatus \<Rightarrow> goerr \<Rightarrow> 'a act" where
  "abort_lifecycle oid cid previous e = seq (fail_queued_lifecycle oid cid previous e) (\<lambda>_. fail e)"

definition retry_or_abort_lifecycle :: "id \<Rightarrow> id \<Rightarrow> cstatus \<Rightarrow> goerr \<Rightarrow> 'a act" where
  "retry_or_abort_lifecycle oid cid previous e = seq (requeue_if_retryable oid e) (\<lambda>requeued.
     if requeued then fail e else abort_lifecycle oid cid previous e)"

definition complete_done :: "id \<Rightarrow> unit act" where
  "complete_done oid = ignore (exec (complete_operation oid OsDone None))"

definition complete_failed :: "id \<Rightarrow> goerr \<Rightarrow> unit act" where
  "complete_failed oid e = ignore (exec (complete_operation oid OsFailed (Some e)))"

section \<open>Create\<close>

fun inspect_volumes :: "mount_params list \<Rightarrow> unit act" where
  "inspect_volumes [] = ret ()"
| "inspect_volumes (m # ms) =
     seq (on_error (docker_inspect_volume (mp_volume_name m)) (\<lambda>e.
            if is_docker_not_found e
            then seq (mark_volume_missing (mp_volume m)) (\<lambda>_. fail (resource_unavailable ''volume''))
            else fail e)) (\<lambda>_. inspect_volumes ms)"

text \<open>The tag Docker pulls, the custom image if it is one, and whether it is one.\<close>

definition resolve_image :: "container \<Rightarrow> (string \<times> image option \<times> bool) act" where
  "resolve_image c =
    (let tag = normalize_tag (c_image_tag c) in
     seq (find_user_image (c_owner c) tag) (\<lambda>img.
     seq get_env (\<lambda>env.
     case img of
       None \<Rightarrow> ret (tag, None, False)
     | Some i \<Rightarrow> if i_status i \<noteq> IAvailable then fail (resource_unavailable ''image'')
         else (case parse_tag (c_image_tag c) of (base, v) \<Rightarrow>
           ret (custom_full_tag (g_registry_url (e_config env)) (e_uuid_text env (c_owner c)) base v,
                Some i, True)))))"

definition pull_error :: "goerr \<Rightarrow> goerr" where
  "pull_error e = (let err = normalize_runtime_error e in
     if errors_is err ErrTimeout then err
     else wrap_err ErrBadRequest ''image could not be pulled'' err)"

text \<open>Makes the image available; the result tells whether a public image was pulled for it.\<close>

definition pull_image :: "id \<Rightarrow> id \<Rightarrow> string \<Rightarrow> image option \<Rightarrow> bool \<Rightarrow> bool act" where
  "pull_image oid cid tag img custom =
    (if custom then
       seq (on_error (perform (DockerPull tag)) (\<lambda>e.
         seq (case img of Some i \<Rightarrow> if is_docker_not_found e then mark_image_missing (i_id i) else ret ()
                        | None \<Rightarrow> ret ())
           (\<lambda>_. retry_or_abort_create oid cid (pull_error e)))) (\<lambda>_. ret False)
     else
       seq (on_error (docker_image_exists tag)
              (\<lambda>e. retry_or_abort_create oid cid (normalize_runtime_error e))) (\<lambda>there.
       if there then ret False
       else seq (on_error check_host_disk (abort_create oid cid)) (\<lambda>_.
         seq (on_error (perform (DockerPull tag)) (\<lambda>e. retry_or_abort_create oid cid (pull_error e)))
           (\<lambda>_. ret True))))"

definition cpu_quota_from_millicores :: "int \<Rightarrow> int \<Rightarrow> int" where
  "cpu_quota_from_millicores millicores period =
    (if millicores \<le> 0 \<or> period \<le> 0 then 0 else quot (i64 (millicores * period)) 1000)"

definition mount_spec_of :: "mount_params \<Rightarrow> mount_spec" where
  "mount_spec_of m = \<lparr> ms_volume_name = mp_volume_name m, ms_target = mp_path m, ms_ro = mp_ro m \<rparr>"

definition create_runtime_spec ::
    "env \<Rightarrow> container \<Rightarrow> mount_params list \<Rightarrow> string \<Rightarrow> string \<Rightarrow> runtime_spec" where
  "create_runtime_spec env c mounts tag network = (let cfg = e_config env in \<lparr>
     rs_container = c_id c, rs_owner = c_owner c, rs_project = c_project c,
     rs_generation = c_generation c, rs_name = ''usr_'' @ take 12 (e_uuid_text env (c_id c)),
     rs_alias = (if c_alias c = [] then c_name c else c_alias c),
     rs_image = tag, rs_network = network,
     rs_domain = (if c_domain c = [] then [] else c_domain c @ ''.'' @ g_base_domain cfg),
     rs_port = c_port c, rs_env = map (\<lambda>(k, v). k @ ''='' @ v) (c_env c),
     rs_memory_limit = c_memory c, rs_memory_reservation = c_memory c,
     rs_memory_swap = g_memory_swap cfg,
     rs_cpu_shares = g_cpu_shares cfg,
     rs_cpu_quota = cpu_quota_from_millicores (normalize_cpu (c_cpu c) cfg) (g_cpu_period cfg),
     rs_cpu_period = g_cpu_period cfg, rs_pids_limit = g_pids_limit cfg,
     rs_proxy_network = g_proxy_network cfg, rs_mounts = map mount_spec_of mounts,
     rs_command = c_command c, rs_entrypoint = c_entrypoint c, rs_restart = c_restart c,
     rs_max_log_size = g_max_log_size cfg, rs_max_log_files = g_max_log_files cfg,
     rs_storage_quota = g_container_disk_quota cfg,
     rs_health = c_health c \<rparr>)"

text \<open>From the pulled image to the created container.\<close>

definition create_in_docker ::
    "id \<Rightarrow> id \<Rightarrow> container \<Rightarrow> mount_params list \<Rightarrow> string \<Rightarrow> string \<Rightarrow> unit act" where
  "create_in_docker oid cid c mounts tag network =
     seq (ensure_operation_running oid) (\<lambda>_.
     seq get_env (\<lambda>env.
     seq (on_error (docker_create (create_runtime_spec env c mounts tag network))
            (\<lambda>e. retry_or_abort_create oid cid (normalize_runtime_error e))) (\<lambda>did.
     seq (on_error (exec (update_docker_id_and_status cid did CCreated)) (\<lambda>e.
            seq (ignore (perform (DockerRemove did))) (\<lambda>_. abort_create oid cid e))) (\<lambda>_.
     complete_done oid))))"

definition remove_pulled_image :: "bool \<Rightarrow> string \<Rightarrow> unit act" where
  "remove_pulled_image pulled tag =
    (if pulled then ignore (perform (DockerRemoveImage tag)) else ret ())"

definition create_with_network ::
    "id \<Rightarrow> id \<Rightarrow> container \<Rightarrow> mount_params list \<Rightarrow> string \<Rightarrow> unit act" where
  "create_with_network oid cid c mounts network =
     seq (on_error (resolve_image c) (abort_create oid cid)) (\<lambda>(tag, img, custom).
     seq (ensure_operation_running oid) (\<lambda>_.
     seq (pull_image oid cid tag img custom) (\<lambda>pulled.
     on_failure (create_in_docker oid cid c mounts tag network) (remove_pulled_image pulled tag))))"

text \<open>What follows a successful claim of a create operation.\<close>

definition run_create :: "id \<Rightarrow> id \<Rightarrow> unit act" where
  "run_create oid cid =
     seq (on_error (exec (update_status cid CCreating))
            (\<lambda>e. seq (ignore (exec (requeue_operation oid (Some e)))) (\<lambda>_. fail e))) (\<lambda>_.
     seq (on_error (query (get_container cid))
            (\<lambda>e. seq (complete_failed oid e) (\<lambda>_. fail e))) (\<lambda>c.
     if c_docker_id c \<noteq> [] then complete_done oid
     else
       seq (on_error (query (get_mounts cid)) (abort_create oid cid)) (\<lambda>mounts.
       seq (ensure_operation_running oid) (\<lambda>_.
       seq (on_error (inspect_volumes mounts) (abort_create oid cid)) (\<lambda>_.
       seq get_env (\<lambda>env.
       let network = user_network_name env (c_owner c) in
       seq (on_error (perform (DockerEnsureNetwork network))
              (\<lambda>e. retry_or_abort_create oid cid (normalize_runtime_error e))) (\<lambda>_.
       on_failure (create_with_network oid cid c mounts network) (cleanup_user_network (c_owner c)))))))))"

definition attempts_exhausted :: "config \<Rightarrow> operation \<Rightarrow> bool" where
  "attempts_exhausted cfg op \<longleftrightarrow> o_status op = OsPending \<and> g_max_attempts cfg > 0
     \<and> o_attempts op \<ge> g_max_attempts cfg"

definition execute_queued_create :: "id \<Rightarrow> id \<Rightarrow> unit act" where
  "execute_queued_create oid cid =
     seq get_config (\<lambda>cfg.
     seq (exec_get (claim_pending_operation oid (g_max_attempts cfg))) (\<lambda>(op, claimed).
     if \<not> claimed then
       (if attempts_exhausted cfg op
        then fail_queued_create oid cid (mk_err ErrTimeout ''container create attempts exhausted'')
        else ret ())
     else if o_rtype op \<noteq> RContainer \<or> o_kind op \<noteq> OpCreate \<or> o_rid op \<noteq> cid then
       (let cause = mk_err ErrBadRequest ''container create message does not match operation''
        in seq (complete_failed oid cause) (\<lambda>_. fail cause))
     else run_create oid cid))"

section \<open>Start, stop and delete\<close>

text \<open>The container of a lifecycle operation; without a row the operation fails.\<close>

definition load_for_operation :: "id \<Rightarrow> id \<Rightarrow> container act" where
  "load_for_operation oid cid =
     on_error (query (get_container cid)) (\<lambda>e. seq (complete_failed oid e) (\<lambda>_. fail e))"

text \<open>Docker does not know the container: it is missing, and the operation fails.\<close>

definition container_vanished :: "id \<Rightarrow> id \<Rightarrow> goerr \<Rightarrow> 'a act" where
  "container_vanished oid cid e =
     seq (mark_container_error cid CMissing (resource_missing ''container'')) (\<lambda>_.
     seq (complete_failed oid e) (\<lambda>_. fail (resource_unavailable ''container'')))"

definition docker_error :: "id \<Rightarrow> id \<Rightarrow> cstatus \<Rightarrow> goerr \<Rightarrow> 'a act" where
  "docker_error oid cid previous e =
    (if is_docker_not_found e then container_vanished oid cid e
     else retry_or_abort_lifecycle oid cid previous (normalize_runtime_error e))"

definition ttl_deadline :: "config \<Rightarrow> instant \<Rightarrow> instant option" where
  "ttl_deadline cfg t = (if g_ttl_hours cfg > 0 then Some (t + i64 (g_ttl_hours cfg * 3600000000000)) else None)"

definition execute_queued_start :: "id \<Rightarrow> id \<Rightarrow> lifecycle_message \<Rightarrow> unit act" where
  "execute_queued_start oid cid msg =
     seq (load_for_operation oid cid) (\<lambda>c.
     if c_docker_id c = [] then abort_lifecycle oid cid (m_previous msg) (resource_unavailable ''container'')
     else
       seq (ensure_operation_running oid) (\<lambda>_.
       seq (on_error (perform (DockerStart (c_docker_id c))) (docker_error oid cid (m_previous msg))) (\<lambda>_.
       seq get_config (\<lambda>cfg.
       seq now (\<lambda>t.
       seq (on_error (exec (update_status_and_ttl cid CRunning (ttl_deadline cfg t)))
              (abort_lifecycle oid cid (m_previous msg))) (\<lambda>_.
       seq (complete_done oid) (\<lambda>_.
       seq (emit RequestRebalance) (\<lambda>_.
       refresh_status_of (c_project c)))))))))"

definition execute_queued_stop :: "id \<Rightarrow> id \<Rightarrow> lifecycle_message \<Rightarrow> unit act" where
  "execute_queued_stop oid cid msg =
     seq (load_for_operation oid cid) (\<lambda>c.
     if c_docker_id c = [] then abort_lifecycle oid cid (m_previous msg) (resource_unavailable ''container'')
     else
       seq (ensure_operation_running oid) (\<lambda>_.
       seq get_config (\<lambda>cfg.
       seq (on_error (perform (DockerStop (c_docker_id c) (g_stop_timeout cfg)))
              (docker_error oid cid (m_previous msg))) (\<lambda>_.
       seq (on_error (exec (update_status cid CExited)) (abort_lifecycle oid cid (m_previous msg))) (\<lambda>_.
       seq (complete_done oid) (\<lambda>_.
       seq (emit RequestRebalance) (\<lambda>_.
       refresh_status_of (c_project c))))))))"

text \<open>A container Docker does not know is removed all the same.\<close>

definition remove_for_delete :: "id \<Rightarrow> id \<Rightarrow> cstatus \<Rightarrow> container \<Rightarrow> unit act" where
  "remove_for_delete oid cid previous c =
    (if c_docker_id c = [] then ret ()
     else on_error (perform (DockerRemove (c_docker_id c))) (\<lambda>e.
       if is_docker_not_found e then ret ()
       else retry_or_abort_lifecycle oid cid previous (normalize_runtime_error e)))"

definition execute_queued_delete :: "id \<Rightarrow> id \<Rightarrow> lifecycle_message \<Rightarrow> unit act" where
  "execute_queued_delete oid cid msg =
     seq (load_for_operation oid cid) (\<lambda>c.
     seq (ensure_operation_running oid) (\<lambda>_.
     seq (remove_for_delete oid cid (m_previous msg) c) (\<lambda>_.
     seq (on_error (exec (delete_container cid)) (abort_lifecycle oid cid (m_previous msg))) (\<lambda>_.
     seq (complete_done oid) (\<lambda>_.
     seq (cleanup_user_network (c_owner c)) (\<lambda>_.
     refresh_status_of (c_project c)))))))"

section \<open>Expose\<close>

definition next_generation :: "int \<Rightarrow> int" where
  "next_generation g = (let n = i64 (g + 1) in if n \<le> 1 then 2 else n)"

definition expose_spec :: "env \<Rightarrow> container \<Rightarrow> inspection \<Rightarrow> string \<Rightarrow> int \<Rightarrow> runtime_spec" where
  "expose_spec env c ins domain port =
    (let cfg = e_config env; gen = next_generation (c_generation c) in \<lparr>
     rs_container = c_id c, rs_owner = c_owner c, rs_project = c_project c, rs_generation = gen,
     rs_name = trim_prefix (in_name ins) ''/'' @ ''_g'' @ nat_text (nat gen),
     rs_alias = (if c_alias c = [] then c_name c else c_alias c),
     rs_image = in_image ins, rs_network = user_network_name env (c_owner c),
     rs_domain = domain @ ''.'' @ g_base_domain cfg, rs_port = port, rs_env = in_env ins,
     rs_memory_limit = in_memory_limit ins, rs_memory_reservation = in_memory_reservation ins,
     rs_memory_swap = g_memory_swap cfg,
     rs_cpu_shares = in_cpu_shares ins, rs_cpu_quota = in_cpu_quota ins,
     rs_cpu_period = in_cpu_period ins, rs_pids_limit = g_pids_limit cfg,
     rs_proxy_network = g_proxy_network cfg, rs_mounts = in_mounts ins,
     rs_command = in_command ins, rs_entrypoint = in_entrypoint ins, rs_restart = in_restart ins,
     rs_max_log_size = g_max_log_size cfg, rs_max_log_files = g_max_log_files cfg,
     rs_storage_quota = g_container_disk_quota cfg,
     rs_health = in_health ins \<rparr>)"

definition expose_target :: "cstatus \<Rightarrow> cstatus" where
  "expose_target previous = (if previous = NoStatus \<or> previous = CExposing then CCreated else previous)"

definition remove_container_quietly :: "string \<Rightarrow> unit act" where
  "remove_container_quietly did = ignore (perform (DockerRemove did))"

text \<open>
  From the created new generation on: start it if the old one runs or is to run, switch the row to
  it, restore the status, remove the old generation.  Any error removes the new generation.
\<close>

definition switch_generation :: "id \<Rightarrow> id \<Rightarrow> lifecycle_message \<Rightarrow> container \<Rightarrow> string \<Rightarrow> unit act" where
  "switch_generation oid cid msg c did =
    (let previous = m_previous msg;
         to_start = previous = CRunning \<or> c_desired c = CRunning in
     seq get_config (\<lambda>cfg.
     seq (if to_start
          then on_error (perform (DockerStart did))
                 (\<lambda>e. retry_or_abort_lifecycle oid cid previous (normalize_runtime_error e))
          else ret ()) (\<lambda>_.
     seq (on_error (exec (update_docker_routing_generation cid did (m_domain msg) (m_port msg)
                           (next_generation (c_generation c)))) (\<lambda>e.
            seq (if to_start then ignore (perform (DockerStop did (g_stop_timeout cfg))) else ret ())
              (\<lambda>_. abort_lifecycle oid cid previous e))) (\<lambda>_.
     seq (on_error (exec (update_status cid (expose_target previous)))
            (abort_lifecycle oid cid previous)) (\<lambda>_.
     seq (remove_container_quietly (c_docker_id c)) (\<lambda>_.
     seq (complete_done oid) (\<lambda>_.
     refresh_status_of (c_project c))))))))"

definition execute_queued_expose :: "id \<Rightarrow> id \<Rightarrow> lifecycle_message \<Rightarrow> unit act" where
  "execute_queued_expose oid cid msg =
     seq (load_for_operation oid cid) (\<lambda>c.
     if c_docker_id c = [] then abort_lifecycle oid cid (m_previous msg) (resource_unavailable ''container'')
     else if m_domain msg = [] \<or> m_port msg \<le> 0 then
       abort_lifecycle oid cid (m_previous msg)
         (mk_err ErrBadRequest ''domain prefix and internal port are required'')
     else
       seq (ensure_operation_running oid) (\<lambda>_.
       seq (on_error (docker_inspect (c_docker_id c)) (docker_error oid cid (m_previous msg))) (\<lambda>ins.
       seq get_env (\<lambda>env.
       seq (on_error (docker_create (expose_spec env c ins (m_domain msg) (m_port msg)))
              (\<lambda>e. retry_or_abort_lifecycle oid cid (m_previous msg) (normalize_runtime_error e))) (\<lambda>did.
       on_failure (switch_generation oid cid msg c did) (remove_container_quietly did))))))"

section \<open>Dispatch\<close>

definition run_lifecycle :: "id \<Rightarrow> operation \<Rightarrow> id \<Rightarrow> lifecycle_message \<Rightarrow> unit act" where
  "run_lifecycle oid op cid msg = (case o_kind op of
       OpStart \<Rightarrow> execute_queued_start oid cid msg
     | OpStop \<Rightarrow> execute_queued_stop oid cid msg
     | OpDelete \<Rightarrow> execute_queued_delete oid cid msg
     | OpExpose \<Rightarrow> execute_queued_expose oid cid msg
     | OpCreate \<Rightarrow> abort_lifecycle oid cid (m_previous msg)
         (mk_err ErrBadRequest ''unsupported container lifecycle operation''))"

definition execute_queued_lifecycle :: "id \<Rightarrow> id \<Rightarrow> lifecycle_message \<Rightarrow> unit act" where
  "execute_queued_lifecycle oid cid msg =
     seq get_config (\<lambda>cfg.
     seq (exec_get (claim_pending_operation oid (g_max_attempts cfg))) (\<lambda>(op, claimed).
     if \<not> claimed then
       (if attempts_exhausted cfg op
        then fail_queued_lifecycle oid cid (m_previous msg)
               (mk_err ErrTimeout ''container lifecycle attempts exhausted'')
        else ret ())
     else if o_rtype op \<noteq> RContainer \<or> o_rid op \<noteq> cid then
       (let cause = mk_err ErrBadRequest ''container lifecycle message does not match operation''
        in seq (complete_failed oid cause) (\<lambda>_. fail cause))
     else run_lifecycle oid op cid msg))"

definition execute_queued_operation :: "lifecycle_message \<Rightarrow> unit act" where
  "execute_queued_operation msg =
     seq (query (get_operation (m_operation msg))) (\<lambda>op.
     if o_kind op = OpCreate then execute_queued_create (m_operation msg) (m_container msg)
     else execute_queued_lifecycle (o_id op) (m_container msg) msg)"

text \<open>The consumer: acknowledge, return to the queue, or drop to the dead-letter queue.\<close>

datatype verdict = Acked | Requeued | DeadLettered

definition is_permanent_error :: "goerr \<Rightarrow> bool" where
  "is_permanent_error e \<longleftrightarrow> errors_is e ErrBadRequest \<or> errors_is e ErrForbidden
     \<or> errors_is e ErrNotFound \<or> errors_is e ErrAlreadyExists \<or> errors_is e ErrConflict
     \<or> errors_is e ErrLimitExceeded"

definition handle_delivery :: "lifecycle_message \<Rightarrow> world \<Rightarrow> verdict \<times> world" where
  "handle_delivery msg w = (case execute_queued_operation msg w of
       (Inr _, w') \<Rightarrow> (Acked, w')
     | (Inl e, w') \<Rightarrow> (if is_permanent_error e then DeadLettered else Requeued, w'))"

end
