(* ===== verification/CoreStep.thy ===== *)
theory CoreStep
  imports RepoInv ContainerWorker
begin

text \<open>
  All transitions of the store, and the fact that the service methods make no others: whatever a
  method does, between two states of the store there is a sequence of repository transactions.
  An invariant of core_step is therefore an invariant of the running system, in which requests and
  workers interleave at the granularity of transactions.
\<close>

section \<open>The transitions\<close>

inductive core_step :: "int \<Rightarrow> db \<Rightarrow> db \<Rightarrow> bool" for m :: int where
  container: "repo_step m d d' \<Longrightarrow> core_step m d d'"
| save_volume: "save_volume v t d = Inr d' \<Longrightarrow> core_step m d d'"
| link: "link_project_volume p v t d = Inr d' \<Longrightarrow> core_step m d d'"
| unlink: "unlink_project_volume p v t d = Inr d' \<Longrightarrow> core_step m d d'"
| delete_volume: "delete_volume vid t d = Inr d' \<Longrightarrow> core_step m d d'"
| volume_status: "update_volume_status vid vs t d = Inr d' \<Longrightarrow> core_step m d d'"
| volume_error: "mark_volume_error vid vs e t d = Inr d' \<Longrightarrow> core_step m d d'"
| volume_usage: "update_volume_usage vid n t d = Inr d' \<Longrightarrow> core_step m d d'"
| mounts: "save_mounts ms t d = Inr d' \<Longrightarrow> core_step m d d'"
| queued_volume: "create_queued_volume v op r t d = Inr d' \<Longrightarrow> o_attempts op = 0 \<Longrightarrow> core_step m d d'"
| volume_delete: "queue_volume_delete vid op r t d = Inr d' \<Longrightarrow> o_attempts op = 0 \<Longrightarrow> core_step m d d'"
| image_delete: "queue_image_delete iid op r t d = Inr d' \<Longrightarrow> o_attempts op = 0 \<Longrightarrow> core_step m d d'"
| resource_claim: "resource_claim_operation oid m t d = Inr (x, d') \<Longrightarrow> core_step m d d'"
| resource_complete: "resource_complete_operation oid s e t d = Inr d' \<Longrightarrow> op_finished s \<Longrightarrow> core_step m d d'"
| resource_requeue: "resource_requeue_operation oid e t d = Inr d' \<Longrightarrow> core_step m d d'"
| resource_lease: "lease_resource_outbox t k d = (items, d') \<Longrightarrow> core_step m d d'"
| resource_mark: "update_resource_outbox_status t i os e d = Inr d' \<Longrightarrow> core_step m d d'"
| save_image: "save_image i t d = Inr d' \<Longrightarrow> core_step m d d'"
| delete_image: "delete_image iid t d = Inr d' \<Longrightarrow> core_step m d d'"
| image_size: "update_image_size iid n t d = Inr d' \<Longrightarrow> core_step m d d'"
| image_status: "update_image_status iid is t d = Inr d' \<Longrightarrow> core_step m d d'"
| image_error: "mark_image_error iid is e t d = Inr d' \<Longrightarrow> core_step m d d'"
| build_done: "update_build_and_image_size bid iid bs n t d = Inr d' \<Longrightarrow> core_step m d d'"
| build_failed: "mark_build_failed_and_delete_image bid iid bs t d = Inr d' \<Longrightarrow> core_step m d d'"
| queued_build: "create_queued_build i b br t d = Inr d' \<Longrightarrow> core_step m d d'"
| build_status: "update_build_status bid bs t d = Inr d' \<Longrightarrow> core_step m d d'"
| start_build: "start_build bid t d = Inr (y, d') \<Longrightarrow> core_step m d d'"
| delete_build: "delete_build bid t d = Inr d' \<Longrightarrow> core_step m d d'"
| build_lease: "lease_build_outbox t k d = (bitems, d') \<Longrightarrow> core_step m d d'"
| build_mark: "mark_build_outbox t i os e d = Inr d' \<Longrightarrow> core_step m d d'"
| reserve: "reserve_staged s n t d = Inr d' \<Longrightarrow> core_step m d d'"
| staged_bytes: "update_staged_bytes key n t d = Inr d' \<Longrightarrow> core_step m d d'"
| release: "release_staged key t d = Inr d' \<Longrightarrow> core_step m d d'"
| project: "create_with_deployment_job p j cr t d = Inr d' \<Longrightarrow> core_step m d d'"
| project_status: "update_project_status pid ps msg t d = Inr d' \<Longrightarrow> core_step m d d'"
| delete_project: "delete_project pid t d = Inr d' \<Longrightarrow> core_step m d d'"
| start_job: "start_job jid t d = Inr (z, d') \<Longrightarrow> core_step m d d'"
| complete_job: "complete_job jid js msg t d = Inr d' \<Longrightarrow> core_step m d d'"
| cancel_job: "request_job_cancel pid t d = Inr d' \<Longrightarrow> core_step m d d'"
| plan: "save_deployment_plan jid st pl rs t d = Inr d' \<Longrightarrow> core_step m d d'"
| progress: "update_deployment_progress jid pid pso st pl rs t d = Inr d' \<Longrightarrow> core_step m d d'"
| recover_jobs: "recover_interrupted_deployments n txt t d = Inr d' \<Longrightarrow> core_step m d d'"
| compose_lease: "lease_compose_outbox t k d = (citems, d') \<Longrightarrow> core_step m d d'"
| compose_mark: "update_compose_outbox_status t i os e d = Inr d' \<Longrightarrow> core_step m d d'"
| graph: "save_service_graph pid ns t d = Inr d' \<Longrightarrow> core_step m d d'"

section \<open>Methods make only such transitions\<close>

named_theorems follows_intros \<open>rules that compose follows\<close>

definition follows :: "(env \<Rightarrow> db \<Rightarrow> db \<Rightarrow> bool) \<Rightarrow> 'a act \<Rightarrow> bool" where
  "follows R m \<longleftrightarrow> (\<forall>w r w'. m w = (r, w') \<longrightarrow>
     w_env w' = w_env w \<and> (R (w_env w))\<^sup>*\<^sup>* (w_db w) (w_db w'))"

lemma followsI:
  "(\<And>w r w'. m w = (r, w') \<Longrightarrow> w_env w' = w_env w \<and> (R (w_env w))\<^sup>*\<^sup>* (w_db w) (w_db w')) \<Longrightarrow> follows R m"
  unfolding follows_def by blast

lemma followsD:
  "follows R m \<Longrightarrow> m w = (r, w') \<Longrightarrow> w_env w' = w_env w \<and> (R (w_env w))\<^sup>*\<^sup>* (w_db w) (w_db w')"
  unfolding follows_def by blast

lemma follows_pure [follows_intros]:
  "follows R (ret x)" "follows R (fail e)" "follows R get_config" "follows R get_env"
  "follows R fresh" "follows R now" "follows R (emit c)"
  by (auto simp: follows_def fail_def get_config_def get_env_def fresh_def now_def
      sample_def emit_def)

lemma follows_check [follows_intros]: "follows R (check e)"
  by (cases e) (auto simp: check_def intro: follows_pure)

lemma follows_seq [follows_intros]:
  assumes "follows R m" and "\<And>x. follows R (f x)"
  shows "follows R (seq m f)"
proof (rule followsI)
  fix w r w' assume s: "seq m f w = (r, w')"
  obtain r1 w1 where m: "m w = (r1, w1)" by (cases "m w") auto
  note 1 = followsD[OF assms(1) m]
  show "w_env w' = w_env w \<and> (R (w_env w))\<^sup>*\<^sup>* (w_db w) (w_db w')"
  proof (cases r1)
    case (Inl e) then show ?thesis using s m 1 by (simp add: seq_def)
  next
    case (Inr x)
    then have "f x w1 = (r, w')" using s m by (simp add: seq_def)
    then show ?thesis using followsD[OF assms(2)[of x]] 1 rtranclp_trans by metis
  qed
qed

lemma follows_attempt [follows_intros]: "follows R m \<Longrightarrow> follows R (attempt m)"
  by (rule followsI) (auto simp: attempt_def split: prod.splits dest: followsD)

lemma follows_ignore [follows_intros]: "follows R m \<Longrightarrow> follows R (ignore m)"
  by (rule followsI) (auto simp: ignore_def split: prod.splits dest: followsD)

lemma follows_on_error [follows_intros]:
  assumes "follows R m" and "\<And>e. follows R (h e)"
  shows "follows R (on_error m h)"
proof (rule followsI)
  fix w r w' assume s: "on_error m h w = (r, w')"
  obtain r1 w1 where m: "m w = (r1, w1)" by (cases "m w") auto
  note 1 = followsD[OF assms(1) m]
  show "w_env w' = w_env w \<and> (R (w_env w))\<^sup>*\<^sup>* (w_db w) (w_db w')"
  proof (cases r1)
    case (Inr x) then show ?thesis using s m 1 by (simp add: on_error_def)
  next
    case (Inl e)
    then have "h e w1 = (r, w')" using s m by (simp add: on_error_def)
    then show ?thesis using followsD[OF assms(2)[of e]] 1 rtranclp_trans by metis
  qed
qed

lemma follows_on_failure [follows_intros]:
  assumes "follows R m" and "follows R h"
  shows "follows R (on_failure m h)"
proof (rule followsI)
  fix w r w' assume s: "on_failure m h w = (r, w')"
  obtain r1 w1 where m: "m w = (r1, w1)" by (cases "m w") auto
  obtain r2 w2 where h: "h w1 = (r2, w2)" by (cases "h w1") auto
  note 1 = followsD[OF assms(1) m] and 2 = followsD[OF assms(2) h]
  show "w_env w' = w_env w \<and> (R (w_env w))\<^sup>*\<^sup>* (w_db w) (w_db w')"
    using s m h 1 2 rtranclp_trans[of "R (w_env w)"] by (cases r1) (auto simp: on_failure_def)
qed

lemma follows_reads [follows_intros]:
  "follows R (query q)" "follows R (query_at p)" "follows R (ask a)" "follows R (perform c)"
  by (auto simp: query_def query_at_def ask_def perform_def follows_def ext_def Let_def
      split: option.splits)

lemma follows_docker_create [follows_intros]: "follows R (docker_create spec)"
  by (auto simp: docker_create_def follows_def ext_def Let_def split: option.splits)

lemma follows_exec:
  "(\<And>env t d d'. f t d = Inr d' \<Longrightarrow> R env d d') \<Longrightarrow> follows R (exec f)"
  by (auto simp: exec_def follows_def ext_def Let_def split: option.splits sum.splits)

lemma follows_if [follows_intros]: "follows R m \<Longrightarrow> follows R n \<Longrightarrow> follows R (if b then m else n)"
  by simp

lemma follows_option [follows_intros]:
  "follows R m \<Longrightarrow> (\<And>x. follows R (f x)) \<Longrightarrow> follows R (case y of None \<Rightarrow> m | Some x \<Rightarrow> f x)"
  by (cases y) auto

lemma follows_sum [follows_intros]:
  "(\<And>e. follows R (g e)) \<Longrightarrow> (\<And>x. follows R (f x)) \<Longrightarrow>
   follows R (case y of Inl e \<Rightarrow> g e | Inr x \<Rightarrow> f x)"
  by (cases y) auto

lemma follows_prod [follows_intros]:
  "(\<And>a b. follows R (f a b)) \<Longrightarrow> follows R (case y of (a, b) \<Rightarrow> f a b)"
  by (cases y) auto

lemma follows_let [follows_intros]: "(\<And>x. follows R (f x)) \<Longrightarrow> follows R (let x = y in f x)"
  by simp

text \<open>The bound on attempts is the one of the configuration.\<close>

definition core :: "env \<Rightarrow> db \<Rightarrow> db \<Rightarrow> bool" where
  "core env = core_step (g_max_attempts (e_config env))"

lemma core_container: "repo_step (g_max_attempts (e_config env)) d d' \<Longrightarrow> core env d d'"
  by (simp add: core_def core_step.container)

lemma follows_writes [follows_intros]:
  "follows core (exec (update_status cid s))"
  "follows core (exec (update_status_and_ttl cid s l))"
  "follows core (exec (update_docker_routing_generation cid dk dmn port g))"
  "follows core (exec (update_docker_id_and_status cid dk s))"
  "follows core (exec (mark_status_error cid s e))"
  "follows core (exec (delete_container cid))"
  "follows core (exec (requeue_operation oid e))"
  "follows core (exec (cancel_create_and_delete cid e))"
  by (auto intro!: follows_exec core_container
      intro: repo_step.intros(3,4,5,12,14,15,20,30))

lemma follows_observed [follows_intros]:
  "follows core (exec (update_observed_status cid s ex des e))"
  "follows core (exec (update_observed_status_by_docker_id dk s ex des e))"
  "follows core (exec (update_observed_status_by_generation cid g s ex des e))"
  "follows core (exec (update_status_by_docker_id dk s))"
  "follows core (exec (update_status_by_generation cid g s))"
  by (auto intro!: follows_exec core_container intro: repo_step.intros)

lemma follows_outbox [follows_intros]:
  "follows core (exec (mark_container_published i))"
  "follows core (exec (mark_container_pending i e))"
  "follows core (exec (mark_container_discarded i e))"
  by (auto intro!: follows_exec core_container intro: repo_step.intros)

lemma follows_others [follows_intros]:
  "follows core (exec (update_project_status pid ps msg))"
  "follows core (exec (mark_volume_error vid vs e))"
  "follows core (exec (update_volume_status vid vs))"
  "follows core (exec (mark_image_error iid is e))"
  by (auto intro!: follows_exec simp: core_def intro: core_step.intros)

lemma follows_complete [follows_intros]:
  "op_finished s \<Longrightarrow> follows core (exec (complete_operation oid s e))"
  by (auto intro!: follows_exec core_container intro: repo_step.intros)

lemma follows_queue [follows_intros]:
  "o_attempts op = 0 \<Longrightarrow> follows core (exec (queue_container_operation cid s s' op r))"
  "o_attempts op = 0 \<Longrightarrow> follows core (exec (save_with_mounts_operation_outbox c ms op r))"
  by (auto intro!: follows_exec core_container intro: repo_step.intros)

lemma op_finished_simps [simp]: "op_finished OsDone" "op_finished OsFailed"
  "\<not> op_finished OsPending" "\<not> op_finished OsRunning"
  by (simp_all add: op_finished_def)

lemma new_operation_attempts [simp]: "o_attempts (new_operation i rt rid owner k) = 0"
  by (simp add: new_operation_def)

text \<open>A claim made with the configured bound.\<close>

lemma claim_core:
  "claim_pending_operation oid m t d = Inr (x, d') \<Longrightarrow> (core_step m)\<^sup>*\<^sup>* d d'"
  by (rule r_into_rtranclp) (rule core_step.container, rule repo_step.claim)

lemma follows_bounded:
  assumes step: "\<And>cfg x. follows core (g cfg x)"
    and "\<And>m t d x d'. cl m t d = Inr (x, d') \<Longrightarrow> (core_step m)\<^sup>*\<^sup>* d d'"
  shows "follows core (seq get_config (\<lambda>cfg. seq (exec_get (cl (g_max_attempts cfg))) (g cfg)))"
proof (rule followsI)
  fix w :: world and r w'
  let ?m = "g_max_attempts (e_config (w_env w))"
  assume s: "seq get_config (\<lambda>cfg. seq (exec_get (cl (g_max_attempts cfg))) (g cfg)) w = (r, w')"
  then have s2: "seq (exec_get (cl ?m)) (g (e_config (w_env w))) w = (r, w')"
    by (simp add: seq_def get_config_def)
  obtain r1 w1 where c: "exec_get (cl ?m) w = (r1, w1)"
    by (cases "exec_get (cl ?m) w") auto
  have 1: "w_env w1 = w_env w \<and> (core (w_env w))\<^sup>*\<^sup>* (w_db w) (w_db w1)"
    using c assms(2) by (auto simp: exec_get_def ext_def Let_def core_def
        split: option.splits sum.splits prod.splits)
  show "w_env w' = w_env w \<and> (core (w_env w))\<^sup>*\<^sup>* (w_db w) (w_db w')"
  proof (cases r1)
    case (Inl e) then show ?thesis using s2 c 1 by (simp add: seq_def)
  next
    case (Inr x)
    then have "g (e_config (w_env w)) x w1 = (r, w')" using s2 c by (simp add: seq_def)
    then show ?thesis using followsD[OF step] 1 rtranclp_trans by metis
  qed
qed

lemma follows_claim:
  assumes "\<And>cfg x. follows core (g cfg x)"
  shows "follows core (seq get_config (\<lambda>cfg.
    seq (exec_get (claim_pending_operation oid (g_max_attempts cfg))) (g cfg)))"
  by (rule follows_bounded[where cl = "claim_pending_operation oid"]) (use assms claim_core in auto)

section \<open>The methods of the container service\<close>

lemma follows_admission [follows_intros]:
  "follows R (check_user_quota owner n)" "follows R (check_user_cpu_quota owner n)"
  "follows R (check_user_disk_quota owner)" "follows R (check_host_capacity n)"
  "follows R (check_host_cpu_capacity n)" "follows R (check_host_disk_for_write n)"
  "follows R check_host_disk" "follows R (acquire_owner_capacity_lock owner)"
  by (auto simp: check_user_quota_def check_user_cpu_quota_def check_user_disk_quota_def
      ensure_disk_quota_available_def used_disk_mb_def check_host_capacity_def
      check_host_cpu_capacity_def check_host_disk_for_write_def ensure_host_disk_floor_projected_def
      ensure_host_memory_capacity_def ensure_host_cpu_capacity_def
      check_host_disk_def acquire_owner_capacity_lock_def intro!: follows_intros)

lemma follows_helpers [follows_intros]:
  "follows core (refresh_status_of p)" "follows core (cleanup_user_network owner)"
  "follows core (check_input e)" "follows core (mark_container_error cid s err)"
  "follows core (mark_volume_missing vid)" "follows core (mark_image_missing iid)"
  "follows core (find_user_image owner tag)" "follows core (check_forbidden_domain dmn)"
  by (auto simp: refresh_status_of_def refresh_project_status_def cleanup_user_network_def
      cleanup_user_network_if_unused_def check_input_def mark_container_error_def
      mark_volume_missing_def mark_image_missing_def find_user_image_def check_forbidden_domain_def
      intro!: follows_intros)

lemma follows_queue_operation [follows_intros]:
  "follows core (queue_operation c k busy des dmn port prev)"
  unfolding queue_operation_def Let_def by (intro follows_intros) simp

lemma follows_create_mounts [follows_intros]: "follows core (create_mounts owner cid vms)"
  by (induction vms) (auto intro!: follows_intros)

lemma follows_create_locked [follows_intros]: "follows core (create_locked owner params)"
  unfolding create_locked_def Let_def check_create_domain_def check_queued_creates_def admit_def
  by (intro follows_intros) simp

lemma follows_load [follows_intros]:
  "follows core (load_container ctx cid)" "follows core (load_live_container ctx cid)"
  by (auto simp: load_live_container_def load_container_def intro!: follows_intros)

lemma follows_create [follows_intros]: "follows core (create ctx params)"
  unfolding create_def by (intro follows_intros)

lemma follows_expose [follows_intros]: "follows core (expose ctx cid dmn port)"
  unfolding expose_def by (intro follows_intros)

lemma follows_start [follows_intros]: "follows core (start ctx cid)"
  unfolding start_def Let_def by (intro follows_intros)

lemma follows_stop [follows_intros]: "follows core (stop ctx cid)"
  unfolding stop_def by (intro follows_intros)

lemma follows_delete [follows_intros]: "follows core (delete ctx cid)"
  unfolding delete_def by (intro follows_intros)

section \<open>The methods of the container worker\<close>

lemma follows_finishing [follows_intros]:
  "follows core (complete_done oid)" "follows core (complete_failed oid e)"
  "follows core (ensure_operation_running oid)" "follows core (requeue_if_retryable oid e)"
  "follows core (fail_queued_create oid cid e)" "follows core (fail_queued_lifecycle oid cid prev e)"
  by (auto simp: complete_done_def complete_failed_def ensure_operation_running_def
      requeue_if_retryable_def fail_queued_create_def fail_queued_lifecycle_def
      intro!: follows_intros)

lemma follows_aborts [follows_intros]:
  "follows core (abort_create oid cid e)" "follows core (retry_or_abort_create oid cid e)"
  "follows core (abort_lifecycle oid cid prev e)" "follows core (retry_or_abort_lifecycle oid cid prev e)"
  "follows core (docker_error oid cid prev e)" "follows core (load_for_operation oid cid)"
  by (auto simp: abort_create_def retry_or_abort_create_def abort_lifecycle_def
      retry_or_abort_lifecycle_def docker_error_def container_vanished_def load_for_operation_def
      intro!: follows_intros)

lemma follows_inspect_volumes [follows_intros]: "follows core (inspect_volumes ms)"
  by (induction ms) (auto simp: docker_inspect_volume_def intro!: follows_intros)

lemma follows_pull_image [follows_intros]: "follows core (pull_image oid cid tag img custom)"
  unfolding pull_image_def docker_image_exists_def by (intro follows_intros)

lemma follows_resolve_image [follows_intros]: "follows core (resolve_image c)"
  unfolding resolve_image_def Let_def by (intro follows_intros)

lemma follows_create_with_network [follows_intros]:
  "follows core (create_with_network oid cid c mounts network)"
  unfolding create_with_network_def create_in_docker_def remove_pulled_image_def
  by (intro follows_intros)

lemma follows_run_create [follows_intros]: "follows core (run_create oid cid)"
  unfolding run_create_def Let_def by (intro follows_intros)

lemma follows_execute_queued_create [follows_intros]: "follows core (execute_queued_create oid cid)"
  unfolding execute_queued_create_def Let_def by (rule follows_claim) (intro follows_intros)

lemma follows_run_lifecycle [follows_intros]: "follows core (run_lifecycle oid op cid msg)"
  unfolding run_lifecycle_def
  by (cases "o_kind op")
    (auto simp: execute_queued_start_def execute_queued_stop_def execute_queued_delete_def
      remove_for_delete_def execute_queued_expose_def docker_inspect_def switch_generation_def
      remove_container_quietly_def Let_def intro!: follows_intros)

lemma follows_execute_queued_lifecycle [follows_intros]:
  "follows core (execute_queued_lifecycle oid cid msg)"
  unfolding execute_queued_lifecycle_def Let_def by (rule follows_claim) (intro follows_intros)

lemma follows_execute_queued_operation [follows_intros]:
  "follows core (execute_queued_operation msg)"
  unfolding execute_queued_operation_def by (intro follows_intros)

lemma follows_handle_delivery:
  assumes "handle_delivery msg w = (v, w')"
  shows "w_env w' = w_env w \<and> (core (w_env w))\<^sup>*\<^sup>* (w_db w) (w_db w')"
  using assms followsD[OF follows_execute_queued_operation[of msg]]
  by (auto simp: handle_delivery_def split: prod.splits sum.splits)


text \<open>
  Invariants of core_step: the schema constraints hold and operations follow their life cycle in
  every state of the store that requests and workers can reach from the empty one.
\<close>

section \<open>What a successful call says\<close>

lemma write_volumes_Inr [repo_simps]:
  "write_volumes vs d = Inr d' \<longleftrightarrow> volume_violation vs = None \<and> d' = d\<lparr>t_volumes := vs\<rparr>"
  by (simp add: write_volumes_def)

lemma write_images_Inr [repo_simps]:
  "write_images vs d = Inr d' \<longleftrightarrow> image_violation vs = None \<and> d' = d\<lparr>t_images := vs\<rparr>"
  by (simp add: write_images_def)

lemma write_staged_Inr [repo_simps]:
  "write_staged vs d = Inr d' \<longleftrightarrow> staged_violation vs = None \<and> d' = d\<lparr>t_staged := vs\<rparr>"
  by (simp add: write_staged_def)

lemma update_volumes_Inr [repo_simps]:
  "update_volumes P f d = Inr d' \<longleftrightarrow>
     volume_violation (update_where P f (t_volumes d)) = None \<and> (\<exists>v \<in> set (t_volumes d). P v)
     \<and> d' = d\<lparr>t_volumes := update_where P f (t_volumes d)\<rparr>"
  by (auto simp: update_volumes_def repo_simps rows_affected_0 split: if_splits)

lemma update_images_Inr [repo_simps]:
  "update_images P f d = Inr d' \<longleftrightarrow>
     image_violation (update_where P f (t_images d)) = None \<and> (\<exists>i \<in> set (t_images d). P i)
     \<and> d' = d\<lparr>t_images := update_where P f (t_images d)\<rparr>"
  by (auto simp: update_images_def repo_simps rows_affected_0 split: if_splits)

lemma insert_volume_Inr [repo_simps]:
  "insert_volume t v d = Inr d' \<longleftrightarrow> volume_violation (t_volumes d @ [volume_row t v]) = None
     \<and> (\<forall>p. v_project v = Some p \<longrightarrow> (\<exists>q \<in> set (t_projects d). p_id q = p))
     \<and> d' = d\<lparr>t_volumes := t_volumes d @ [volume_row t v]\<rparr>"
  by (auto simp: insert_volume_def repo_simps split: option.splits if_splits)

section \<open>Tables a call leaves alone\<close>

text \<open>The tables the invariants are about.\<close>

definition same_core :: "db \<Rightarrow> db \<Rightarrow> bool" where
  "same_core d d' \<longleftrightarrow> t_containers d' = t_containers d \<and> t_ops d' = t_ops d \<and> t_cout d' = t_cout d
     \<and> t_mounts d' = t_mounts d \<and> t_volumes d' = t_volumes d"

lemma schema_ok_same: "same_core d d' \<Longrightarrow> schema_ok d \<Longrightarrow> schema_ok d'"
  by (simp add: same_core_def schema_ok_def)

lemma same_core_refl [simp]: "same_core d d"
  by (simp add: same_core_def)

lemma insert_resource_outbox_same: "insert_resource_outbox t r d = Inr d' \<Longrightarrow> same_core d d'"
  by (auto simp: insert_resource_outbox_def Let_def repo_simps same_core_def split: if_splits)

lemma link_same: "link_project_volume p v t d = Inr d' \<Longrightarrow> same_core d d'"
  by (auto simp: link_project_volume_def same_core_def split: if_splits)

lemma insert_nodes_same: "insert_nodes pid ns d = Inr d' \<Longrightarrow> same_core d d'"
proof (induction ns arbitrary: d)
  case (Cons n ns)
  then obtain d1 where d1: "insert_node pid n d = Inr d1" "insert_nodes pid ns d1 = Inr d'"
    by (auto simp: repo_simps)
  have "same_core d d1"
    using d1(1) by (auto simp: insert_node_def Let_def same_core_def split: if_splits)
  then show ?case using Cons.IH[OF d1(2)] by (simp add: same_core_def)
qed simp

lemma set_project_same [simp]: "same_core d (set_project pid s msg d)"
  by (simp add: set_project_def same_core_def)

lemma recover_job_same: "same_core d (recover_job n msg t j d)"
  by (simp add: recover_job_def Let_def set_project_def same_core_def)

lemma recover_jobs_same: "same_core d (foldl (\<lambda>x j. recover_job n msg t j x) d js)"
proof (induction js arbitrary: d)
  case (Cons j js)
  have "same_core (recover_job n msg t j d) (foldl (\<lambda>x j. recover_job n msg t j x) (recover_job n msg t j d) js)"
    by (rule Cons.IH)
  then show ?case using recover_job_same[of d n msg t j] by (simp add: same_core_def)
qed simp

lemma save_mount_rows_ok:
  "save_mount_rows ms d = Inr d' \<Longrightarrow> t_containers d' = t_containers d \<and> t_ops d' = t_ops d
     \<and> t_cout d' = t_cout d \<and> t_volumes d' = t_volumes d
     \<and> (mount_violation (t_mounts d) = None \<longrightarrow> mount_violation (t_mounts d') = None)"
proof (induction ms arbitrary: d)
  case (Cons m ms)
  show ?case
  proof (cases "exists_row (\<lambda>q. mt_container q = mt_container m \<and> mt_volume q = mt_volume m) (t_mounts d)")
    case True
    then have "save_mount_rows ms d = Inr d'" using Cons.prems by simp
    then show ?thesis by (rule Cons.IH)
  next
    case False
    then have "bind_res (insert_mounts [m] d) (save_mount_rows ms) = Inr d'" 
      using Cons.prems unfolding save_mount_rows.simps by (simp only: False if_False)
    then obtain d1 where d1: "insert_mounts [m] d = Inr d1" "save_mount_rows ms d1 = Inr d'"
      unfolding bind_res_Inr by blast
    show ?thesis using Cons.IH[OF d1(2)] insert_mounts_Inr[OF d1(1)] by auto
  qed
qed simp

lemma volume_violation_delete:
  "volume_violation t = None \<Longrightarrow> volume_violation (delete_where P t) = None"
  by (auto simp: volume_violation_def list_ex_iff intro: uniq_sublist split: if_splits)

lemma schema_ok_cascade_volume: "schema_ok d \<Longrightarrow> schema_ok (cascade_volume vid d)"
  by (simp add: schema_ok_def cascade_volume_def volume_violation_delete mount_violation_delete)

lemma schema_ok_cascades: "schema_ok d \<Longrightarrow> schema_ok (foldl (\<lambda>x cid. cascade_container cid x) d cids)"
  by (induction cids arbitrary: d) (simp_all add: schema_ok_cascade)

lemma volume_violation_update:
  assumes "volume_violation t = None" and "\<And>v. v_id (f v) = v_id v" and "\<And>v. v_docker_name (f v) = v_docker_name v"
    and "\<And>v. v_owner (f v) = v_owner v" and "\<And>v. v_name (f v) = v_name v"
    and "\<And>v. v_used_bytes (f v) = v_used_bytes v"
  shows "volume_violation (update_where P f t) = None"
proof -
  have "uniq v_id (\<lambda>_. True) t" "uniq v_docker_name (\<lambda>_. True) t"
    "uniq (\<lambda>v. (v_owner v, v_name v)) (\<lambda>_. True) t" "\<forall>v \<in> set t. \<not> v_used_bytes v < 0"
    using assms(1) by (auto simp: volume_violation_def list_ex_iff split: if_splits)
  then have "uniq v_id (\<lambda>_. True) (update_where P f t)" "uniq v_docker_name (\<lambda>_. True) (update_where P f t)"
    "uniq (\<lambda>v. (v_owner v, v_name v)) (\<lambda>_. True) (update_where P f t)"
    "\<forall>v \<in> set (update_where P f t). \<not> v_used_bytes v < 0"
    using assms(2-) by (auto intro!: uniq_update simp: set_update_where)
  then show ?thesis by (auto simp: volume_violation_def list_ex_iff)
qed

lemma schema_ok_cascade_project: "schema_ok d \<Longrightarrow> schema_ok (cascade_project pid d)"
  using schema_ok_cascades[of d]
  by (simp add: cascade_project_def Let_def schema_ok_def volume_violation_update)

section \<open>The schema constraints are invariant\<close>


lemma schema_ok_core: "core_step m d d' \<Longrightarrow> schema_ok d \<Longrightarrow> schema_ok d'"
proof (induction rule: core_step.induct)
  case (container d d')
  then show ?case by (rule schema_ok_step)
next
  case (mounts ms t d d')
  then show ?case using save_mount_rows_ok[of ms d d'] by (auto simp: save_mounts_def schema_ok_def)
next
  case (queued_volume v op r t d d')
  then obtain d1 d2 d3 where s: "insert_volume t v d = Inr d1"
    "(case v_project v of Some p \<Rightarrow> link_project_volume p (v_id v) t d1 | None \<Rightarrow> Inr d1) = Inr d2"
    "insert_operation t op d2 = Inr d3" "insert_resource_outbox t r d3 = Inr d'"
    by (auto simp: create_queued_volume_def bind_res_Inr)
  have "schema_ok d1" using s(1) queued_volume.prems by (auto simp: insert_volume_Inr schema_ok_def)
  then have "schema_ok d2" using s(2) by (auto split: option.splits dest: link_same schema_ok_same)
  then have "schema_ok d3" using s(3) by (auto simp: insert_operation_Inr schema_ok_def)
  then show ?case using s(4) insert_resource_outbox_same schema_ok_same by blast
next
  case (volume_delete vid op r t d d')
  then obtain d1 d2 where s: "insert_operation t op d = Inr d1"
    "update_volumes (\<lambda>v. v_id v = vid) (volume_with_status t VDeleting None) d1 = Inr d2"
    "insert_resource_outbox t r d2 = Inr d'"
    by (auto simp: queue_volume_delete_def bind_res_Inr)
  have "schema_ok d2"
    using s(1,2) volume_delete.prems by (auto simp: insert_operation_Inr update_volumes_Inr schema_ok_def)
  then show ?case using s(3) insert_resource_outbox_same schema_ok_same by blast
next
  case (image_delete iid op r t d d')
  then obtain d1 d2 where s: "insert_operation t op d = Inr d1"
    "update_images (\<lambda>i. i_id i = iid) (\<lambda>i. i\<lparr>i_status := IDeleting, i_observed := Some t, i_last_error := None\<rparr>) d1 = Inr d2"
    "insert_resource_outbox t r d2 = Inr d'"
    by (auto simp: queue_image_delete_def bind_res_Inr)
  have "schema_ok d2"
    using s(1,2) image_delete.prems by (auto simp: insert_operation_Inr update_images_Inr schema_ok_def)
  then show ?case using s(3) insert_resource_outbox_same schema_ok_same by blast
next
  case (delete_volume vid t d d')
  then show ?case by (auto simp: delete_volume_def schema_ok_cascade_volume split: if_splits)
next
  case (delete_project pid t d d')
  then show ?case by (auto simp: delete_project_def schema_ok_cascade_project split: if_splits)
next
  case (link p v t d d')
  then show ?case using link_same schema_ok_same by blast
next
  case (recover_jobs n em t d d')
  then show ?case
    using recover_jobs_same schema_ok_same by (fastforce simp: recover_interrupted_deployments_def)
next
  case (graph pid ns t d d')
  let ?d = "d\<lparr>t_nodes := delete_where (\<lambda>n. sn_project n = pid) (t_nodes d)\<rparr>"
  have "schema_ok ?d" using graph.prems by (simp add: schema_ok_def)
  then show ?case using graph.hyps insert_nodes_same schema_ok_same unfolding save_service_graph_def by blast
next
  case (progress jid pid pso st pl rs t d d')
  then show ?case
    by (auto simp: update_deployment_progress_def update_jobs_def bind_res_Inr set_project_def schema_ok_def
        split: option.splits if_splits)
next
  case (resource_claim oid t d x d')
  then show ?case
    by (auto simp: resource_claim_operation_def repo_simps schema_ok_def split: if_splits)
qed (auto simp: save_volume_def unlink_project_volume_def update_volume_status_def mark_volume_error_def
    update_volume_usage_def resource_complete_operation_def resource_requeue_operation_def
    lease_resource_outbox_def update_resource_outbox_status_def save_image_def insert_image_def
    delete_image_def update_image_size_def update_image_status_def mark_image_error_def
    update_build_and_image_size_def mark_build_failed_and_delete_image_def create_queued_build_def
    insert_build_def insert_build_outbox_def update_build_status_def update_builds_def start_build_def
    delete_build_def lease_build_outbox_def mark_build_outbox_def reserve_staged_def
    update_staged_bytes_def release_staged_def update_staged_def create_with_deployment_job_def
    insert_project_def insert_job_def insert_compose_outbox_def update_project_status_def
    start_job_def complete_job_def update_jobs_def request_job_cancel_def save_deployment_plan_def
    lease_compose_outbox_def update_compose_outbox_status_def repo_simps schema_ok_def Let_def
    split: if_splits option.splits prod.splits)

end
