(* ===== verification/Lifecycle.thy ===== *)
theory Lifecycle
  imports CoreStep
begin

text \<open>
  The states of the store requests and workers can reach from the empty one, and what holds in all
  of them: the schema constraints, one active operation per resource, the bound on attempts, and
  that an operation that is done or failed stays so.
\<close>

section \<open>Operations under core_step\<close>

lemma same_core_ops: "same_core d d' \<Longrightarrow> t_ops d' = t_ops d"
  by (simp add: same_core_def)

lemma link_ops: "link_project_volume p v t d = Inr d' \<Longrightarrow> t_ops d' = t_ops d"
  by (rule same_core_ops[OF link_same])

lemma update_jobs_ops: "update_jobs P f d = Inr d' \<Longrightarrow> t_ops d' = t_ops d"
  by (auto simp: update_jobs_def repo_simps split: if_splits)

lemma update_builds_ops: "update_builds P f d = Inr d' \<Longrightarrow> t_ops d' = t_ops d"
  by (auto simp: update_builds_def repo_simps split: if_splits)

lemma cascades_ops: "t_ops (foldl (\<lambda>x cid. cascade_container cid x) d cids) = t_ops d"
  by (induction cids arbitrary: d) (simp_all add: cascade_container_def)

lemma cascade_project_ops: "t_ops (cascade_project pid d) = t_ops d"
  by (simp add: cascade_project_def Let_def cascades_ops)

lemma set_project_ops [simp]: "t_ops (set_project pid s msg d) = t_ops d"
  by (simp add: set_project_def)

lemma ops_change_core: "core_step m d d' \<Longrightarrow> schema_ok d \<Longrightarrow> ops_change m (t_ops d) (t_ops d')"
proof (induction rule: core_step.induct)
  case (container d d')
  then show ?case by (rule ops_change_step)
next
  case (mounts ms t d d')
  then show ?case using save_mount_rows_ok[of ms d d'] by (auto simp: save_mounts_def intro: oc_same)
next
  case (queued_volume v op r t d d')
  then obtain d1 d2 d3 where s: "insert_volume t v d = Inr d1"
    "(case v_project v of Some p \<Rightarrow> link_project_volume p (v_id v) t d1 | None \<Rightarrow> Inr d1) = Inr d2"
    "insert_operation t op d2 = Inr d3" "insert_resource_outbox t r d3 = Inr d'"
    by (auto simp: create_queued_volume_def bind_res_Inr)
  have "t_ops d1 = t_ops d" using s(1) by (auto simp: insert_volume_Inr)
  then have "t_ops d2 = t_ops d" using s(2) by (auto split: option.splits simp: link_ops)
  moreover have "t_ops d' = t_ops d3" using insert_resource_outbox_same[OF s(4)] by (rule same_core_ops)
  ultimately show ?case using s(3) queued_volume.hyps(2) by (auto simp: insert_operation_Inr intro!: oc_insert)
next
  case (volume_delete vid op r t d d')
  then obtain d1 d2 where s: "insert_operation t op d = Inr d1"
    "update_volumes (\<lambda>v. v_id v = vid) (volume_with_status t VDeleting None) d1 = Inr d2"
    "insert_resource_outbox t r d2 = Inr d'"
    by (auto simp: queue_volume_delete_def bind_res_Inr)
  have "t_ops d' = t_ops d1"
    using s(2) same_core_ops[OF insert_resource_outbox_same[OF s(3)]] by (auto simp: update_volumes_Inr)
  then show ?case using s(1) volume_delete.hyps(2) by (auto simp: insert_operation_Inr intro!: oc_insert)
next
  case (image_delete iid op r t d d')
  then obtain d1 d2 where s: "insert_operation t op d = Inr d1"
    "update_images (\<lambda>i. i_id i = iid) (\<lambda>i. i\<lparr>i_status := IDeleting, i_observed := Some t, i_last_error := None\<rparr>) d1 = Inr d2"
    "insert_resource_outbox t r d2 = Inr d'"
    by (auto simp: queue_image_delete_def bind_res_Inr)
  have "t_ops d' = t_ops d1"
    using s(2) same_core_ops[OF insert_resource_outbox_same[OF s(3)]] by (auto simp: update_images_Inr)
  then show ?case using s(1) image_delete.hyps(2) by (auto simp: insert_operation_Inr intro!: oc_insert)
next
  case (resource_claim oid t d x d')
  obtain op where op: "get_operation oid d = Inr op"
    using resource_claim.hyps by (auto simp: resource_claim_operation_def bind_res_Inr)
  show ?case
    using resource_claim.hyps op get_operation_mem[OF op]
    by (auto simp: resource_claim_operation_def bind_res_Inr update_ops_Inr split: if_splits
        intro: oc_same intro!: oc_claim)
next
  case (resource_complete oid s e t d d')
  then show ?case by (auto simp: resource_complete_operation_def update_ops_or_not_found_Inr intro!: oc_finish)
next
  case (resource_requeue oid e t d d')
  then show ?case by (auto simp: resource_requeue_operation_def update_ops_or_not_found_Inr intro!: oc_requeue)
next
  case (link p v t d d')
  then show ?case by (simp add: same_core_ops[OF link_same] oc_same)
next
  case (recover_jobs n em t d d')
  then show ?case
    using same_core_ops[OF recover_jobs_same] by (fastforce simp: recover_interrupted_deployments_def intro: oc_same)
next
  case (graph pid ns t d d')
  then have "same_core (d\<lparr>t_nodes := delete_where (\<lambda>n. sn_project n = pid) (t_nodes d)\<rparr>) d'"
    using insert_nodes_same by (simp add: save_service_graph_def)
  from same_core_ops[OF this] show ?case by (simp add: oc_same)
next
  case (progress jid pid pso st pl rs t d d')
  then show ?case
    by (auto simp: update_deployment_progress_def bind_res_Inr dest!: update_jobs_ops simp: oc_same
        split: option.splits if_splits)
qed (auto simp: save_volume_def unlink_project_volume_def update_volume_status_def mark_volume_error_def
    update_volume_usage_def delete_volume_def cascade_volume_def delete_project_def cascade_project_ops
    lease_resource_outbox_def update_resource_outbox_status_def save_image_def insert_image_def
    delete_image_def update_image_size_def update_image_status_def mark_image_error_def
    update_build_and_image_size_def mark_build_failed_and_delete_image_def create_queued_build_def
    insert_build_def insert_build_outbox_def update_build_status_def update_builds_def start_build_def
    delete_build_def lease_build_outbox_def mark_build_outbox_def reserve_staged_def
    update_staged_bytes_def release_staged_def update_staged_def create_with_deployment_job_def
    insert_project_def insert_job_def insert_compose_outbox_def update_project_status_def
    start_job_def complete_job_def update_jobs_def request_job_cancel_def save_deployment_plan_def
    lease_compose_outbox_def update_compose_outbox_status_def repo_simps Let_def
    intro: oc_same split: if_splits option.splits prod.splits)

section \<open>Reachable stores\<close>

inductive core_reachable :: "int \<Rightarrow> db \<Rightarrow> bool" for m :: int where
  cr_init: "core_reachable m empty_db"
| cr_step: "core_reachable m d \<Longrightarrow> core_step m d d' \<Longrightarrow> core_reachable m d'"

lemma schema_ok_empty: "schema_ok empty_db"
  using reachable_schema[OF reach_init] .

lemma core_reachable_schema: "core_reachable m d \<Longrightarrow> schema_ok d"
  by (induction rule: core_reachable.induct) (auto intro: schema_ok_empty schema_ok_core)

lemma core_steps_schema: "(core_step m)\<^sup>*\<^sup>* d d' \<Longrightarrow> schema_ok d \<Longrightarrow> schema_ok d'"
  by (induction rule: rtranclp_induct) (auto intro: schema_ok_core)

lemma core_reachable_steps: "core_reachable m d \<Longrightarrow> (core_step m)\<^sup>*\<^sup>* d d' \<Longrightarrow> core_reachable m d'"
  by (rotate_tac 1, induction rule: rtranclp_induct) (auto intro: cr_step)

lemma core_reachable_attempts:
  assumes "m > 0"
  shows "core_reachable m d \<Longrightarrow> \<forall>op \<in> set (t_ops d). o_attempts op \<le> m"
proof (induction rule: core_reachable.induct)
  case cr_init
  show ?case by (simp add: empty_db_def)
next
  case (cr_step d d')
  have ok: "schema_ok d" using cr_step.hyps(1) by (rule core_reachable_schema)
  show ?case
    using ops_change_attempts[OF ops_change_core[OF cr_step.hyps(2) ok] assms cr_step.IH] ok
    by (simp add: schema_ok_def)
qed

text \<open>Finished operations, along any number of transitions.\<close>

lemma core_steps_finished:
  assumes "(core_step m)\<^sup>*\<^sup>* d d'" and "schema_ok d" and "op \<in> set (t_ops d)"
    and "op_finished (o_status op)"
  shows "\<exists>op' \<in> set (t_ops d'). o_id op' = o_id op \<and> op_finished (o_status op')"
  using assms(1)
proof (induction rule: rtranclp_induct)
  case base
  then show ?case using assms by blast
next
  case (step d1 d2)
  then obtain q where q: "q \<in> set (t_ops d1)" "o_id q = o_id op" "op_finished (o_status q)" by blast
  have ok: "schema_ok d1" using core_steps_schema[OF step.hyps(1) assms(2)] .
  have ch: "ops_change m (t_ops d1) (t_ops d2)" using ops_change_core[OF step.hyps(2) ok] .
  from ops_change_persist[OF ch q(1)] obtain q' where q': "q' \<in> set (t_ops d2)" "o_id q' = o_id q" by blast
  then have "op_finished (o_status q')"
    using ops_change_finished[OF ch _ q(1,3) q'] ok by (simp add: schema_ok_def)
  then show ?case using q' q(2) by auto
qed

lemma one_active_operation:
  assumes "core_reachable m d" and "a \<in> set (t_ops d)" and "b \<in> set (t_ops d)"
    and "op_active a" and "op_active b" and "o_rtype a = o_rtype b" and "o_rid a = o_rid b"
  shows "a = b"
  using uniq_eq[of "\<lambda>q. (o_rtype q, o_rid q)" op_active "t_ops d" a b] core_reachable_schema[OF assms(1)] assms
  by (simp add: schema_ok_def op_violation_None)


text \<open>
  When the calls a worker makes succeed: in a well-formed store the claim of a pending operation,
  the completion or requeue of an operation and the update of a container that exists are all
  accepted, and the lookups that follow return what was written.
\<close>

section \<open>Lookups after an update\<close>

lemma find_update:
  assumes "\<And>r. k (f r) = k r"
  shows "find (\<lambda>r. k r = i) (update_where (\<lambda>r. k r = i) f t) = map_option f (find (\<lambda>r. k r = i) t)"
  by (induction t) (auto simp: assms)

lemma get_operation_updated [simp]:
  assumes "\<And>op. o_id (f op) = o_id op"
  shows "get_operation oid (d\<lparr>t_ops := update_where (\<lambda>q. o_id q = oid) f (t_ops d)\<rparr>)
    = map_sum id f (get_operation oid d)"
  by (simp add: get_operation_def find_row_def find_update[where k = o_id and f = f, OF assms] split: option.splits)

lemma get_operation_updated_twice [simp]:
  assumes "\<And>op. o_id (f op) = o_id op" and "\<And>op. o_id (g op) = o_id op"
  shows "get_operation oid (d\<lparr>t_ops := update_where (\<lambda>q. o_id q = oid) g
      (update_where (\<lambda>q. o_id q = oid) f (t_ops d))\<rparr>) = map_sum id (\<lambda>op. g (f op)) (get_operation oid d)"
  by (simp add: get_operation_def find_row_def find_update[where k = o_id and f = f, OF assms(1)]
      find_update[where k = o_id and f = g, OF assms(2)] split: option.splits)

lemma get_container_updated [simp]:
  assumes "\<And>c. c_id (f c) = c_id c"
  shows "get_container cid (d\<lparr>t_containers := update_where (\<lambda>c. c_id c = cid) f (t_containers d)\<rparr>)
    = map_sum id f (get_container cid d)"
  by (simp add: get_container_def find_row_def find_update[where k = c_id and f = f, OF assms] split: option.splits)

lemma get_frames [simp]:
  "get_container cid (d\<lparr>t_ops := os\<rparr>) = get_container cid d"
  "get_operation oid (d\<lparr>t_containers := cs\<rparr>) = get_operation oid d"
  "get_operation oid (d\<lparr>t_containers := cs, t_ops := os\<rparr>) = get_operation oid (d\<lparr>t_ops := os\<rparr>)"
  by (simp_all add: get_container_def get_operation_def)

section \<open>Operations\<close>

lemma update_where_cong_on:
  "(\<And>r. r \<in> set t \<Longrightarrow> P r = Q r) \<Longrightarrow> update_where P f t = update_where Q f t"
  by (induction t) auto

text \<open>A status change that does not activate the operation keeps the unique index.\<close>

lemma op_status_change_ok:
  assumes "schema_ok d" and "get_operation oid d = Inr op"
    and f: "\<And>q. o_id (f q) = o_id q" "\<And>q. o_rtype (f q) = o_rtype q" "\<And>q. o_rid (f q) = o_rid q"
      "\<And>q. o_attempts q \<le> o_attempts (f q)"
    and act: "op_active (f op) \<Longrightarrow> op_active op"
  shows "op_violation (update_where (\<lambda>q. o_id q = oid) f (t_ops d)) = None"
proof -
  have u: "uniq o_id (\<lambda>_. True) (t_ops d)" "uniq (\<lambda>q. (o_rtype q, o_rid q)) op_active (t_ops d)"
    "\<forall>q \<in> set (t_ops d). 0 \<le> o_attempts q"
    using assms(1) by (simp_all add: schema_ok_def op_violation_None)
  have op: "op \<in> set (t_ops d)" "o_id op = oid" using get_operation_mem[OF assms(2)] by auto
  have same: "update_where (\<lambda>q. o_id q = oid) f (t_ops d) = update_where (\<lambda>q. q = op) f (t_ops d)"
    using uniq_eq[OF u(1)] op by (intro update_where_cong_on) auto
  have "uniq o_id (\<lambda>_. True) (update_where (\<lambda>q. q = op) f (t_ops d))"
    "uniq (\<lambda>q. (o_rtype q, o_rid q)) op_active (update_where (\<lambda>q. q = op) f (t_ops d))"
    using u f act by (auto intro!: uniq_update)
  moreover have "\<forall>q \<in> set (update_where (\<lambda>q. q = op) f (t_ops d)). 0 \<le> o_attempts q"
    using u(3) f(4) by (auto simp: set_update_where intro: order_trans)
  ultimately show ?thesis unfolding same by (simp add: op_violation_None)
qed

lemma claim_succeeds:
  assumes "schema_ok d" and "get_operation oid d = Inr op" and "o_status op = OsPending"
    and "m \<le> 0 \<or> o_attempts op < m"
  shows "claim_pending_operation oid m t d
    = Inr ((claimed_op t op, True), d\<lparr>t_ops := update_where (\<lambda>q. o_id q = oid) (claimed_op t) (t_ops d)\<rparr>)"
proof -
  have "op_violation (update_where (\<lambda>q. o_id q = oid) (claimed_op t) (t_ops d)) = None"
    using assms(3) by (intro op_status_change_ok[OF assms(1,2)]) (auto simp: op_active_def)
  then show ?thesis
    using assms by (auto simp: claim_pending_operation_def bind_res_def update_ops_def write_ops_def accept_def)
qed

lemma complete_succeeds:
  assumes "schema_ok d" and "get_operation oid d = Inr op" and "op_finished s"
  shows "complete_operation oid s e t d
    = Inr (d\<lparr>t_ops := update_where (\<lambda>q. o_id q = oid) (op_with_status t s e) (t_ops d)\<rparr>)"
proof -
  have "op_violation (update_where (\<lambda>q. o_id q = oid) (op_with_status t s e) (t_ops d)) = None"
    using assms(3) by (intro op_status_change_ok[OF assms(1,2)]) (auto simp: op_active_def op_finished_def)
  then show ?thesis
    using get_operation_mem[OF assms(2)]
    by (auto simp: complete_operation_def update_ops_or_not_found_Inr)
qed

lemma requeue_succeeds:
  assumes "schema_ok d" and "get_operation oid d = Inr op" and "o_status op = OsRunning"
  shows "requeue_operation oid e t d
    = Inr (d\<lparr>t_ops := update_where (\<lambda>q. o_id q = oid) (op_with_status t OsPending e) (t_ops d)\<rparr>)"
proof -
  have op: "op \<in> set (t_ops d)" "o_id op = oid" using get_operation_mem[OF assms(2)] by auto
  have u: "uniq o_id (\<lambda>_. True) (t_ops d)"
    using assms(1) by (simp add: schema_ok_def op_violation_None)
  have same: "update_where (\<lambda>q. o_id q = oid \<and> o_status q = OsRunning) (op_with_status t OsPending e) (t_ops d)
    = update_where (\<lambda>q. o_id q = oid) (op_with_status t OsPending e) (t_ops d)"
    using uniq_eq[OF u] op assms(3) by (intro update_where_cong_on) auto
  have "op_violation (update_where (\<lambda>q. o_id q = oid) (op_with_status t OsPending e) (t_ops d)) = None"
    using assms(3) by (intro op_status_change_ok[OF assms(1,2)]) (auto simp: op_active_def)
  then show ?thesis
    using op assms(3) by (auto simp: requeue_operation_def update_ops_or_not_found_Inr same)
qed

section \<open>Containers\<close>

lemma container_update_ok:
  assumes "schema_ok d"
    and f: "\<And>c. c_id (f c) = c_id c" "\<And>c. c_docker_id (f c) = c_docker_id c" "\<And>c. c_domain (f c) = c_domain c"
      "\<And>c. c_owner (f c) = c_owner c" "\<And>c. c_name (f c) = c_name c" "\<And>c. c_memory (f c) = c_memory c"
      "\<And>c. c_cpu (f c) = c_cpu c" "\<And>c. c_generation (f c) = c_generation c"
  shows "container_violation (update_where P f (t_containers d)) = None"
  using assms unfolding schema_ok_def container_violation_None
  by (auto intro!: uniq_update simp: set_update_where)

lemma container_update_succeeds:
  assumes "schema_ok d" and "get_container cid d = Inr c"
    and "\<And>c. c_id (f c) = c_id c" "\<And>c. c_docker_id (f c) = c_docker_id c" "\<And>c. c_domain (f c) = c_domain c"
      "\<And>c. c_owner (f c) = c_owner c" "\<And>c. c_name (f c) = c_name c" "\<And>c. c_memory (f c) = c_memory c"
      "\<And>c. c_cpu (f c) = c_cpu c" "\<And>c. c_generation (f c) = c_generation c"
  shows "update_containers (\<lambda>c. c_id c = cid) f d
    = Inr (d\<lparr>t_containers := update_where (\<lambda>c. c_id c = cid) f (t_containers d)\<rparr>)"
  using container_update_ok[OF assms(1,3-)] get_container_mem[OF assms(2)]
  by (auto simp: update_containers_Inr)

lemma schema_ok_ops:
  "schema_ok d \<Longrightarrow> op_violation os = None \<Longrightarrow> schema_ok (d\<lparr>t_ops := os\<rparr>)"
  by (simp add: schema_ok_def)

lemma schema_ok_containers:
  "schema_ok d \<Longrightarrow> container_violation cs = None \<Longrightarrow> schema_ok (d\<lparr>t_containers := cs\<rparr>)"
  by (simp add: schema_ok_def)

end
