(* ===== verification/Samples.thy ===== *)
theory Samples
  imports ContainerWorker
begin

text \<open>
  Concrete values on which the properties are exercised: a configuration with the defaults of a
  small installation, an environment in which no call fails, and one row of each kind.
\<close>

definition sample_config :: config where
  "sample_config = \<lparr>
     g_base_domain = ''example.org'',
     g_default_memory = 536870912,
     g_reserved_system_memory = 0,
     g_overcommit = 1,
     g_max_burst = 4,
     g_default_cpu = 250,
     g_reserved_system_cpu = 1000,
     g_cpu_overcommit = 1,
     g_max_cpu_burst = 4,
     g_cpu_period = 100000,
     g_cpu_shares = 1024,
     g_high_load_shares = 512,
     g_high_load_count = 20,
     g_stop_timeout = 10,
     g_max_log_size = ''10m'',
     g_max_log_files = ''3'',
     g_container_disk_quota = ''1g'',
     g_reserved_prefixes = [''admin''],
     g_blocked_patterns = [''api.*''],
     g_max_volumes = 1000,
     g_max_containers = 5,
     g_registry_api_url = ''x'',
     g_registry_url = ''x'',
     g_ttl_hours = 24,
     g_pids_limit = 1000,
     g_memory_swap = 1,
     g_proxy_network = ''x'',
     g_registry_container = ''x'',
     g_builds_enabled = True,
     g_build_memory = 1000,
     g_build_cpu_quota = 1000,
     g_build_cpu_period = 1000,
     g_build_memory_swap = 1,
     g_build_pids_limit = 1000,
     g_build_network = ''x'',
     g_kaniko_image = ''x'',
     g_max_build_minutes = 1000,
     g_max_builds = 1000,
     g_max_upload = 1000,
     g_max_archive = 1000,
     g_max_unpacked = 1000,
     g_max_build_log = 1000,
     g_build_cancel_poll = 1000,
     g_ttl_interval = 1000,
     g_gc_interval = 1000,
     g_stale_build_minutes = 1000,
     g_event_sync = 1000,
     g_event_reconnect = 1000,
     g_build_outbox_interval = 1000,
     g_build_outbox_batch = 1000,
     g_create_workers = 1000,
     g_max_attempts = 3,
     g_create_timeout = 1000,
     g_max_queued_creates = 2,
     g_outbox_interval = 1000,
     g_outbox_batch = 10,
     g_report_interval = 300,
     g_max_staged = 1000,
     g_max_queued_builds = 1000,
     g_compose_upload_max = 1000,
     g_compose_timeout = 1000,
     g_compose_workers = 1000,
     g_compose_outbox_interval = 1000,
     g_compose_outbox_batch = 1000,
     g_compose_max_attempts = 1000,
     g_max_queued_deploys = 1000,
     g_compose_build_poll = 1000,
     g_dependency_timeout = 1000,
     g_dependency_poll = 1000,
     g_coordinator_interval = 1000,
     g_min_free_disk = 0,
     g_git_enabled = True,
     g_git_hosts = [''github.com''],
     g_git_clone_timeout = 1000,
     g_git_max_bytes = 1000,
     g_log_tail_lines = 1000,
     g_log_streams = 1000,
     g_terminal_sessions = 1000,
     g_terminal_idle = 1000,
     g_terminal_max = 1000,
     g_exec_commands = [''/bin/sh''],
     g_command_args = 1000,
     g_command_arg_bytes = 1000,
     g_ws_read_limit = 1000 \<rparr>"

definition sample_state :: container_state where
  "sample_state = \<lparr> st_running = True, st_status = ''running'', st_exit_code = 0,
     st_oom_killed = False, st_health = None \<rparr>"

definition sample_inspection :: inspection where
  "sample_inspection = \<lparr> in_name = ''/usr_1'', in_image = ''nginx:latest'', in_env = [],
     in_command = [], in_entrypoint = [], in_memory_limit = 536870912,
     in_memory_reservation = 536870912, in_cpu_shares = 1024, in_cpu_quota = 25000,
     in_cpu_period = 100000, in_restart = [], in_mounts = [], in_health = None,
     in_state = sample_state \<rparr>"

definition sample_user :: user_info where
  "sample_user = \<lparr> ui_id = 7, ui_username = ''alice'', ui_quota_ram_mb = 2048, ui_quota_cpu = 2,
     ui_quota_disk_mb = 10240 \<rparr>"

definition sample_env :: env where
  "sample_env = \<lparr> e_fault = (\<lambda>n. None), e_now = (\<lambda>n. int n), e_uuid = (\<lambda>n. 100 + n),
     e_docker_id = (\<lambda>n. ''docker''), e_inspect = (\<lambda>n d. sample_inspection),
     e_image_exists = (\<lambda>n t. True), e_user = (\<lambda>n u. sample_user),
     e_total_memory = (\<lambda>n. 17179869184), e_cpus = (\<lambda>n. 8), e_free_disk = (\<lambda>n. 107374182400),
     e_regex = (\<lambda>p t. Some False), e_volume_usage = (\<lambda>n v. 1048576), e_manifest = (\<lambda>n r t. (10485760, ''sha256:0'')),
     e_object_size = (\<lambda>n k. 1024), e_uuid_text = (\<lambda>i. ''00000000-0000''),
     e_config = sample_config, e_request = ''req'' \<rparr>"

definition sample_container :: container where
  "sample_container = \<lparr> c_id = 1, c_owner = 7, c_project = None, c_docker_id = ''d1'',
     c_name = ''web'', c_image_tag = ''nginx:latest'', c_port = 80, c_domain = ''web'',
     c_status = CExited, c_desired = CExited, c_ttl = None, c_env = [], c_memory = 536870912,
     c_cpu = 250, c_observed = None, c_last_error = None, c_exit_code = None, c_generation = 1,
     c_alias = ''web'', c_command = [], c_entrypoint = [], c_restart = [], c_health = None,
     c_created = 0 \<rparr>"

definition sample_operation :: operation where
  "sample_operation = \<lparr> o_id = 5, o_rtype = RContainer, o_rid = 1, o_owner = 7, o_kind = OpStart,
     o_status = OsPending, o_attempts = 0, o_last_error = None, o_created = 0, o_updated = 0 \<rparr>"

definition sample_message :: lifecycle_message where
  "sample_message = \<lparr> m_operation = 5, m_container = 1, m_owner = 7, m_kind = OpStart,
     m_request = ''req'', m_created = 0, m_domain = [], m_port = 0, m_previous = CExited \<rparr>"

definition sample_outbox :: "lifecycle_message outbox" where
  "sample_outbox = new_outbox 9 5 1 container_exchange container_routing_key sample_message"

definition sample_db :: db where
  "sample_db = empty_db\<lparr>t_containers := [sample_container], t_ops := [sample_operation],
     t_cout := [sample_outbox]\<rparr>"

definition sample_world :: world where
  "sample_world = \<lparr> w_env = sample_env, w_db = sample_db, w_tick = 0, w_log = [] \<rparr>"

lemmas sample_defs = sample_state_def sample_inspection_def sample_user_def sample_env_def
  sample_container_def sample_operation_def sample_message_def sample_outbox_def sample_db_def
  sample_world_def new_outbox_def empty_db_def

end
