(* ===== verification/OperationProps.thy ===== *)
theory OperationProps
  imports Lifecycle Samples
begin

text \<open>
  Properties of operations: one active operation per resource, bounded attempts, exclusive claims,
  finished operations that stay finished, and redeliveries that change nothing.
\<close>

section \<open>Stores that are reached\<close>

text \<open>
  C1. In every state of the store that requests and workers can reach, a resource has at most one
  active (pending or running) operation, and with a positive bound on attempts, as the validation of
  the configuration demands, no operation was attempted more often than the bound.
\<close>

theorem one_active_operation_per_resource:
  assumes "core_reachable m d" and "a \<in> set (t_ops d)"
  shows "(\<forall>b \<in> set (t_ops d). op_active a \<longrightarrow> op_active b \<longrightarrow> o_rtype a = o_rtype b \<longrightarrow> o_rid a = o_rid b \<longrightarrow> a = b)
    \<and> (0 < m \<longrightarrow> 0 \<le> o_attempts a \<and> o_attempts a \<le> m)"
  using one_active_operation[OF assms] core_reachable_attempts[OF _ assms(1)] core_reachable_schema[OF assms(1)] assms(2)
  by (auto simp: schema_ok_def op_violation_None)

lemma sample_reached: "core_reachable 3 (empty_db\<lparr>t_ops := [op_row 0 sample_operation]\<rparr>)"
proof (rule cr_step[OF cr_init core_step.container], rule repo_step.create_op)
  show "create_operation sample_operation 0 empty_db = Inr (empty_db\<lparr>t_ops := [op_row 0 sample_operation]\<rparr>)"
    by (simp add: create_operation_def insert_operation_Inr empty_db_def op_violation_None uniq_def
        sample_operation_def)
qed (simp add: sample_operation_def)

theorem one_active_operation_per_resource_witness:
  "\<exists>a. a \<in> set (t_ops (empty_db\<lparr>t_ops := [op_row 0 sample_operation]\<rparr>)) \<and> op_active a \<and> o_attempts a \<le> 3"
  using one_active_operation_per_resource[OF sample_reached]
  by (auto simp: op_active_def sample_operation_def)

text \<open>
  C2. However requests and workers interleave from a well-formed store on, an operation that is
  done or failed is never active again, and its row is never removed.
\<close>

theorem finished_operation_stays:
  assumes "(core_step m)\<^sup>*\<^sup>* d d'" and "schema_ok d" and "op \<in> set (t_ops d)"
    and "op_finished (o_status op)"
  shows "\<exists>op' \<in> set (t_ops d'). o_id op' = o_id op \<and> op_finished (o_status op')"
  using assms by (rule core_steps_finished)

definition done_db :: db where
  "done_db = empty_db\<lparr>t_ops := [sample_operation\<lparr>o_status := OsDone\<rparr>]\<rparr>"

theorem finished_operation_stays_witness:
  "\<exists>d'. complete_operation 5 OsFailed None 1 done_db = Inr d'
     \<and> (\<exists>op' \<in> set (t_ops d'). o_id op' = 5 \<and> op_finished (o_status op'))"
proof -
  obtain d' where d': "complete_operation 5 OsFailed None 1 done_db = Inr d'"
    by (simp add: complete_operation_def update_ops_or_not_found_Inr done_db_def empty_db_def
        sample_operation_def op_violation_None uniq_def op_active_def)
  have "core_step 3 done_db d'" using d' by (blast intro: core_step.container repo_step.complete op_finished_simps)
  moreover have "schema_ok done_db"
    by (simp add: done_db_def empty_db_def sample_operation_def schema_ok_def violation_None
        mount_violation_def volume_violation_def uniq_def op_active_def)
  ultimately show ?thesis
    using finished_operation_stays[of 3 done_db d' "sample_operation\<lparr>o_status := OsDone\<rparr>"] d'
    by (auto simp: done_db_def empty_db_def sample_operation_def)
qed

section \<open>Claims\<close>

text \<open>
  A claim is exclusive: after a worker has claimed an operation, a second claim is refused and
  leaves the store as it is, whatever the bound on attempts and whenever it comes.
\<close>

lemma claim_once:
  assumes "claim_pending_operation oid m t d = Inr ((op, True), d')"
  shows "o_status op = OsRunning
     \<and> claim_pending_operation oid m' t' d' = Inr ((op, False), d')"
proof -
  from assms obtain p where p: "get_operation oid d = Inr p" "op = claimed_op t p"
    "d' = d\<lparr>t_ops := update_where (\<lambda>q. o_id q = oid) (claimed_op t) (t_ops d)\<rparr>"
    by (auto simp: claim_pending_operation_def bind_res_Inr update_ops_Inr split: if_splits)
  have "find (\<lambda>q. o_id q = oid) (update_where (\<lambda>q. o_id q = oid) (claimed_op t) ops)
      = map_option (claimed_op t) (find (\<lambda>q. o_id q = oid) ops)" for ops
    by (induction ops) auto
  then have "get_operation oid d' = Inr op"
    using p by (simp add: get_operation_def find_row_Inr)
  then show ?thesis using p(2) by (simp add: claim_pending_operation_def bind_res_def)
qed


text \<open>
  Properties of the worker of the container queue: what a delivered message does to the store and
  to Docker, for every pattern of failures.
\<close>

section \<open>Every delivery follows the transitions of the store\<close>

text \<open>
  Whatever fails while a message is worked on, the store moves along the transactions of the
  repositories: the constraints of the schema hold afterwards, and operations that were finished
  before are finished afterwards.
\<close>

theorem delivery_keeps_store:
  assumes "schema_ok (w_db w)" and "handle_delivery msg w = (v, w')"
  shows "schema_ok (w_db w') \<and> w_env w' = w_env w
     \<and> (\<forall>op \<in> set (t_ops (w_db w)). op_finished (o_status op) \<longrightarrow>
          (\<exists>op' \<in> set (t_ops (w_db w')). o_id op' = o_id op \<and> op_finished (o_status op')))"
proof -
  have e: "w_env w' = w_env w" and s: "(core_step (g_max_attempts (e_config (w_env w))))\<^sup>*\<^sup>* (w_db w) (w_db w')"
    using follows_handle_delivery[OF assms(2)] by (simp_all add: core_def[abs_def])
  show ?thesis using e core_steps_schema[OF s assms(1)] core_steps_finished[OF s assms(1)] by blast
qed

lemma sample_db_ok: "schema_ok sample_db"
  by (simp add: sample_defs schema_ok_def violation_None mount_violation_def volume_violation_def
      uniq_def op_active_def)

theorem delivery_keeps_store_witness:
  "schema_ok (w_db (snd (handle_delivery sample_message sample_world)))"
  using delivery_keeps_store[of sample_world sample_message "fst (handle_delivery sample_message sample_world)"
      "snd (handle_delivery sample_message sample_world)"] sample_db_ok
  by (simp add: sample_world_def)

section \<open>Redelivery\<close>

text \<open>
  Deliveries are idempotent: a message whose operation is no longer pending (it runs, is done
  or has failed) changes neither the store nor Docker, and is acknowledged unless reading the
  operation fails.
\<close>

theorem redelivery_is_idle:
  assumes "get_operation (m_operation msg) (w_db w) = Inr op" and "o_status op \<noteq> OsPending"
    and "handle_delivery msg w = (v, w')"
  shows "w_db w' = w_db w \<and> w_log w' = w_log w
     \<and> (e_fault (w_env w) (w_tick w) = None \<and> e_fault (w_env w) (Suc (w_tick w)) = None \<longrightarrow> v = Acked)"
proof -
  have "o_id op = m_operation msg" using get_operation_mem[OF assms(1)] by simp
  then have "claim_pending_operation (o_id op) m t (w_db w) = Inr ((op, False), w_db w)"
    "claim_pending_operation (m_operation msg) m t (w_db w) = Inr ((op, False), w_db w)" for m t
    using assms(1,2) by (simp_all add: claim_pending_operation_def bind_res_def)
  then show ?thesis
    using assms
    by (auto simp: handle_delivery_def execute_queued_operation_def execute_queued_create_def
        execute_queued_lifecycle_def attempts_exhausted_def act_defs
        split: option.splits prod.splits sum.splits if_splits)
qed

theorem redelivery_is_idle_witness:
  "\<exists>w'. handle_delivery sample_message (sample_world\<lparr>w_db := sample_db\<lparr>t_ops := [sample_operation\<lparr>o_status := OsDone\<rparr>]\<rparr>\<rparr>)
     = (Acked, w') \<and> w_log w' = []"
proof -
  let ?w = "sample_world\<lparr>w_db := sample_db\<lparr>t_ops := [sample_operation\<lparr>o_status := OsDone\<rparr>]\<rparr>\<rparr>"
  obtain v w' where h: "handle_delivery sample_message ?w = (v, w')" by fastforce
  have "get_operation (m_operation sample_message) (w_db ?w) = Inr (sample_operation\<lparr>o_status := OsDone\<rparr>)"
    by (simp add: sample_defs get_operation_def find_row_def)
  from redelivery_is_idle[OF this _ h] show ?thesis
    using h by (auto simp: sample_operation_def sample_world_def sample_env_def)
qed

section \<open>A start that goes through\<close>

text \<open>After the container, the status of its project is brought up to date; nothing else changes.\<close>

lemma refresh_status_of_frame:
  assumes "refresh_status_of p w = (r, w')"
  shows "r = Inr () \<and> w_log w' = w_log w \<and> t_containers (w_db w') = t_containers (w_db w) \<and> t_ops (w_db w') = t_ops (w_db w)"
  using assms
  by (auto simp: refresh_status_of_def refresh_project_status_def act_defs update_project_status_def
      split: option.splits sum.splits prod.splits if_splits)

lemma aggregate_running:
  assumes "c \<in> set cs" "c_status c = CRunning"
  shows "\<exists>msg. aggregate False True cs
    = Some (if \<exists>k \<in> set cs. c_status k = CMissing \<or> c_status k = CError then PFailed else PRunning, msg)"
proof (cases "find (\<lambda>c. c_status c = CMissing \<or> c_status c = CError) cs")
  case None
  then have "\<forall>k \<in> set cs. c_status k \<noteq> CMissing \<and> c_status k \<noteq> CError" by (simp add: find_None_iff)
  then show ?thesis using assms unfolding aggregate_spec None by auto
next
  case (Some k)
  then have "k \<in> set cs \<and> (c_status k = CMissing \<or> c_status k = CError)" by (auto dest: find_SomeD)
  then show ?thesis unfolding aggregate_spec Some by auto
qed

lemma refresh_status_of_outcome:
  assumes "\<And>n. e_fault (w_env w) n = None" and "refresh_status_of (Some pid) w = (r, w')"
    and p: "get_project pid (w_db w) = Inr p" "\<not> project_status_blocks (p_status p)"
    and c: "c \<in> set (t_containers (w_db w))" "c_project c = Some pid" "c_status c = CRunning"
  shows "\<exists>p'. get_project pid (w_db w') = Inr p' \<and> p_status p'
    = (if \<exists>k \<in> set (t_containers (w_db w)). c_project k = Some pid \<and> (c_status k = CMissing \<or> c_status k = CError)
       then PFailed else PRunning)"
proof -
  let ?cs = "filter (\<lambda>c. c_project c = Some pid) (t_containers (w_db w))"
  obtain msg where a: "aggregate False True ?cs = Some (if \<exists>k \<in> set ?cs. c_status k = CMissing \<or> c_status k = CError then PFailed else PRunning, msg)"
    using aggregate_running[of c ?cs] c by auto
  have "find (\<lambda>p. p_id p = pid) (t_projects (w_db w)) = Some p" using p(1) by (simp add: get_project_def find_row_Inr)
  then have mem: "p \<in> set (t_projects (w_db w)) \<and> p_id p = pid" by (auto dest: find_SomeD)
  then have rows: "rows_affected (\<lambda>p. p_id p = pid) (t_projects (w_db w)) \<noteq> 0" by (auto simp: rows_affected_0)
  have ne: "?cs \<noteq> []" using c by (auto simp: filter_empty_conv)
  have "get_project pid (d\<lparr>t_projects := update_where (\<lambda>p. p_id p = pid) (\<lambda>p. p\<lparr>p_status := s, p_error := m\<rparr>) (t_projects (w_db w))\<rparr>)
      = Inr (p\<lparr>p_status := s, p_error := m\<rparr>)" for s m d
    using p(1) mem by (simp add: find_update_where get_project_def find_row_Inr)
  then have after: "get_project pid (w_db w') = Inr (p\<lparr>p_status := fst (the (aggregate False True ?cs)), p_error := msg\<rparr>)"
    using assms(2) ne a rows
    by (auto simp: refresh_status_of_def refresh_project_status_def act_defs update_project_status_def get_by_project_def assms(1) p)
  show ?thesis using after a by auto
qed

text \<open>
  C3. A start of a container that Docker knows, whose operation is pending and has an attempt left, is
  delivered and no call fails.  Docker starts the container, its row is running and its operation done,
  a rebalance is requested, the message is acknowledged, and the project of the container, if it has
  one whose status is not decided by others, shows whether one of its containers is missing or failed.
\<close>

theorem start_delivery_completes:
  assumes "\<And>n. e_fault (w_env w) n = None" and "schema_ok (w_db w)"
    and op: "get_operation (m_operation msg) (w_db w) = Inr op" "o_kind op = OpStart"
      "o_rtype op = RContainer" "o_rid op = m_container msg" "o_status op = OsPending"
      "g_max_attempts (e_config (w_env w)) \<le> 0 \<or> o_attempts op < g_max_attempts (e_config (w_env w))"
    and c: "get_container (m_container msg) (w_db w) = Inr c" "c_docker_id c \<noteq> []"
  shows "\<exists>w' c' op'. handle_delivery msg w = (Acked, w')
     \<and> w_log w' = w_log w @ [DockerStart (c_docker_id c), RequestRebalance]
     \<and> get_container (m_container msg) (w_db w') = Inr c' \<and> c_status c' = CRunning
     \<and> get_operation (m_operation msg) (w_db w') = Inr op' \<and> o_status op' = OsDone
     \<and> (\<forall>pid p. c_project c = Some pid \<and> get_project pid (w_db w) = Inr p \<and> \<not> project_status_blocks (p_status p) \<longrightarrow>
          (\<exists>p'. get_project pid (w_db w') = Inr p' \<and> p_status p'
            = (if \<exists>k \<in> set (t_containers (w_db w')). c_project k = Some pid \<and> (c_status k = CMissing \<or> c_status k = CError)
               then PFailed else PRunning)))"
proof -
  let ?oid = "m_operation msg" and ?cid = "m_container msg" and ?d = "w_db w"
  let ?m = "g_max_attempts (e_config (w_env w))"
  have oid: "o_id op = ?oid" using get_operation_mem[OF op(1)] by simp
  let ?claimed = "\<lambda>t. ?d\<lparr>t_ops := update_where (\<lambda>q. o_id q = ?oid) (claimed_op t) (t_ops ?d)\<rparr>"
  have claim: "claim_pending_operation ?oid ?m t ?d = Inr ((claimed_op t op, True), ?claimed t)" for t
    by (rule claim_succeeds[OF assms(2) op(1,5,6)])
  have ok1: "schema_ok (?claimed t)" for t
    using schema_ok_core[OF core_step.container[OF repo_step.claim[OF claim]] assms(2)] .
  let ?run = "\<lambda>t t2 l. (?claimed t)\<lparr>t_containers := update_where (\<lambda>c. c_id c = ?cid)
      (\<lambda>c. observed t2 (c\<lparr>c_status := CRunning, c_ttl := l\<rparr>)) (t_containers (?claimed t))\<rparr>"
  have upd: "update_status_and_ttl ?cid CRunning l t2 (?claimed t) = Inr (?run t t2 l)" for l t2 t
    unfolding update_status_and_ttl_def
    using c(1) by (intro container_update_succeeds[OF ok1, where c = c]) simp_all
  have ok2: "schema_ok (?run t t2 l)" for t t2 l
    using schema_ok_core[OF core_step.container[OF repo_step.ttl[OF upd]] ok1] .
  have fin: "complete_operation ?oid OsDone None t3 (?run t t2 l) =
      Inr ((?run t t2 l)\<lparr>t_ops := update_where (\<lambda>q. o_id q = ?oid) (op_with_status t3 OsDone None) (t_ops (?run t t2 l))\<rparr>)"
    for t t2 t3 l
    using op(1) by (intro complete_succeeds[OF ok2, where op = "claimed_op t op"]) simp_all
  have "\<exists>v c' op'. execute_queued_operation msg w = refresh_status_of (c_project c) v
     \<and> w_env v = w_env w \<and> w_log v = w_log w @ [DockerStart (c_docker_id c), RequestRebalance] \<and> t_projects (w_db v) = t_projects ?d
     \<and> get_container ?cid (w_db v) = Inr c' \<and> c_status c' = CRunning \<and> c_project c' = c_project c
     \<and> get_operation ?oid (w_db v) = Inr op' \<and> o_status op' = OsDone"
    using assms(1) op c oid
    apply (simp add: execute_queued_operation_def execute_queued_lifecycle_def
        run_lifecycle_def execute_queued_start_def load_for_operation_def ensure_operation_running_def
        complete_done_def act_defs claim upd fin[simplified])
    apply (rule exI, rule conjI, rule refl)
    by simp
  then obtain v c' op' where v: "execute_queued_operation msg w = refresh_status_of (c_project c) v" "w_env v = w_env w"
      "w_log v = w_log w @ [DockerStart (c_docker_id c), RequestRebalance]" "t_projects (w_db v) = t_projects ?d"
    and c': "get_container ?cid (w_db v) = Inr c'" "c_status c' = CRunning" "c_project c' = c_project c"
    and op': "get_operation ?oid (w_db v) = Inr op'" "o_status op' = OsDone" by blast
  obtain r w' where r: "refresh_status_of (c_project c) v = (r, w')" by fastforce
  note fr = refresh_status_of_frame[OF r]
  have project: "\<exists>p'. get_project pid (w_db w') = Inr p' \<and> p_status p'
      = (if \<exists>k \<in> set (t_containers (w_db w')). c_project k = Some pid \<and> (c_status k = CMissing \<or> c_status k = CError)
         then PFailed else PRunning)"
    if "c_project c = Some pid" "get_project pid ?d = Inr p" "\<not> project_status_blocks (p_status p)" for pid p
    using refresh_status_of_outcome[of v pid r w' p c'] r that assms(1) v(2,4) fr get_container_mem[OF c'(1)] c'(2,3)
    by (simp add: get_project_def)
  have "get_container ?cid (w_db w') = Inr c'" "get_operation ?oid (w_db w') = Inr op'"
    using fr c'(1) op'(1) by (simp_all add: get_container_def get_operation_def)
  moreover have "handle_delivery msg w = (Acked, w')" using v(1) r fr by (simp add: handle_delivery_def)
  moreover have "w_log w' = w_log w @ [DockerStart (c_docker_id c), RequestRebalance]" using v(3) fr by simp
  ultimately show ?thesis using c'(2) op'(2) project by blast
qed

theorem start_delivery_completes_witness:
  "\<exists>w'. handle_delivery sample_message sample_world = (Acked, w')
     \<and> w_log w' = [DockerStart ''d1'', RequestRebalance]"
proof -
  have "get_operation (m_operation sample_message) (w_db sample_world) = Inr sample_operation"
    "get_container (m_container sample_message) (w_db sample_world) = Inr sample_container"
    by (simp_all add: sample_defs get_operation_def get_container_def find_row_def)
  from start_delivery_completes[OF _ _ this(1) _ _ _ _ _ this(2)] sample_db_ok show ?thesis
    by (auto simp: sample_defs sample_config_def)
qed

end
