(* ===== verification/OutboxWorkers.thy ===== *)
theory OutboxWorkers
  imports ProjectStatus "HOL-Library.Sublist"
begin

text \<open>
  The four workers that publish the outboxes (internal/core/service/container_outbox_worker.go,
  resource_outbox_worker.go, build_outbox_worker.go, compose_outbox_worker.go): publishBatch of
  each.  A worker leases a batch of rows; a row whose operation, build or job no longer waits for
  its message is discarded, the message of the others is published, and the row goes back to
  pending when that fails.  The loops around publishBatch only wait for a timer.

  The argument of publish_item is what the workers differ in: how the referenced record is read,
  when it makes the row stale, what else must still exist, the broker call and the marking.  The
  locale outbox_publisher states what a worker relies on; each worker interprets it.
\<close>

section \<open>One row\<close>

text \<open>The row is discarded when what it refers to is gone, and left for a retry otherwise.\<close>

definition give_back :: "(ob_status \<Rightarrow> goerr option \<Rightarrow> unit act) \<Rightarrow> goerr \<Rightarrow> unit act" where
  "give_back mark e = mark (if errors_is e ErrNotFound then ObDiscarded else ObPending) (Some e)"

definition publish_item ::
    "(db \<Rightarrow> goerr + 's) \<Rightarrow> ('s \<Rightarrow> bool) \<Rightarrow> unit act \<Rightarrow> call \<Rightarrow> (ob_status \<Rightarrow> goerr option \<Rightarrow> unit act) \<Rightarrow> unit act" where
  "publish_item fetch stale target announce mark =
     seq (attempt (query fetch)) (\<lambda>r. case r of
       Inl e \<Rightarrow> give_back mark e
     | Inr s \<Rightarrow>
         if stale s then mark ObDiscarded None
         else seq (attempt target) (\<lambda>q. case q of
           Inl e \<Rightarrow> give_back mark e
         | Inr _ \<Rightarrow> seq (attempt (perform announce)) (\<lambda>p. case p of
             Inl e \<Rightarrow> mark ObPending (Some e)
           | Inr _ \<Rightarrow> mark ObPublished None)))"

text \<open>A batch; without a lease nothing is published.\<close>

definition publish_leased ::
    "(instant \<Rightarrow> db \<Rightarrow> goerr + 'm outbox list \<times> db) \<Rightarrow> ('m outbox \<Rightarrow> unit act) \<Rightarrow> unit act" where
  "publish_leased lease item = seq (attempt (exec_get lease)) (\<lambda>r. case r of
       Inl e \<Rightarrow> ret ()
     | Inr items \<Rightarrow> for_each item items)"

section \<open>The container worker\<close>

definition publish_container_item :: "lifecycle_message outbox \<Rightarrow> unit act" where
  "publish_container_item r = publish_item (get_operation (ob_ref r)) (\<lambda>op. o_status op \<noteq> OsPending)
     (seq (query (get_container (ob_resource r))) (\<lambda>_. ret ()))
     (PublishContainer (ob_exchange r) (ob_key r) (ob_payload r))
     (\<lambda>s e. ignore (exec (\<lambda>t. update_container_outbox_status t (ob_id r) s e)))"

definition publish_container_batch :: "unit act" where
  "publish_container_batch = seq get_config (\<lambda>cfg.
     publish_leased (\<lambda>t d. Inr (lease_container_outbox t (nat (g_outbox_batch cfg)) d))
       publish_container_item)"

section \<open>The resource worker\<close>

definition publish_resource_item :: "resource_message outbox \<Rightarrow> unit act" where
  "publish_resource_item r = publish_item (get_operation (ob_ref r)) (\<lambda>op. o_status op \<noteq> OsPending)
     (ret ()) (PublishResource (ob_exchange r) (ob_key r) (ob_payload r))
     (\<lambda>s e. ignore (exec (\<lambda>t. update_resource_outbox_status t (ob_id r) s e)))"

definition publish_resource_batch :: "unit act" where
  "publish_resource_batch = seq get_config (\<lambda>cfg.
     publish_leased (\<lambda>t d. Inr (lease_resource_outbox t (nat (g_outbox_batch cfg)) d))
       publish_resource_item)"

section \<open>The build worker\<close>

definition publish_build_item :: "build_message outbox \<Rightarrow> unit act" where
  "publish_build_item r = publish_item (get_build (ob_ref r)) (\<lambda>b. is_build_terminal (b_status b))
     (ret ()) (PublishBuild (ob_exchange r) (ob_key r) (ob_payload r))
     (\<lambda>s e. ignore (exec (\<lambda>t. mark_build_outbox t (ob_id r) s e)))"

definition publish_build_batch :: "unit act" where
  "publish_build_batch = seq get_config (\<lambda>cfg.
     publish_leased (\<lambda>t d. Inr (lease_build_outbox t (nat (g_build_outbox_batch cfg)) d))
       publish_build_item)"

section \<open>The compose worker\<close>

definition publish_compose_item :: "compose_message outbox \<Rightarrow> unit act" where
  "publish_compose_item r = publish_item (get_job (ob_ref r)) (\<lambda>j. is_job_terminal (j_status j))
     (ret ()) (PublishCompose (ob_exchange r) (ob_key r) (ob_payload r))
     (\<lambda>s e. ignore (exec (\<lambda>t. update_compose_outbox_status t (ob_id r) s e)))"

definition publish_compose_batch :: "unit act" where
  "publish_compose_batch = seq get_config (\<lambda>cfg.
     publish_leased (\<lambda>t d. Inr (lease_compose_outbox t (nat (g_compose_outbox_batch cfg)) d))
       publish_compose_item)"

section \<open>What a worker guarantees\<close>

lemma query_faultless:
  "query f w = (Inr x, w') \<Longrightarrow> f (w_db w) = Inr x"
  by (auto simp: query_def ext_def Let_def split: option.splits)

text \<open>What a marking call leaves: the store as it was, or with the status of the row set.\<close>

definition marked ::
    "(instant \<Rightarrow> id \<Rightarrow> ob_status \<Rightarrow> goerr option \<Rightarrow> db \<Rightarrow> goerr + db) \<Rightarrow> id \<Rightarrow> ob_status set \<Rightarrow> db \<Rightarrow> db \<Rightarrow> bool" where
  "marked mark i S d d' \<longleftrightarrow> d' = d \<or> (\<exists>t s e. s \<in> S \<and> mark t i s e d = Inr d')"

lemma marked_mono: "marked mark i S d d' \<Longrightarrow> S \<subseteq> T \<Longrightarrow> marked mark i T d d'"
  unfolding marked_def by blast

lemma in_subseq: "subseq ps rs \<Longrightarrow> q \<in> set ps \<Longrightarrow> q \<in> set rs"
  by (induction rule: list_emb.induct) auto

locale outbox_publisher = outbox_store rows lease mark
  for rows :: "db \<Rightarrow> 'm outbox list"
    and lease :: "instant \<Rightarrow> nat \<Rightarrow> db \<Rightarrow> 'm outbox list \<times> db"
    and mark :: "instant \<Rightarrow> id \<Rightarrow> ob_status \<Rightarrow> goerr option \<Rightarrow> db \<Rightarrow> goerr + db" +
  fixes fetch :: "'m outbox \<Rightarrow> db \<Rightarrow> goerr + 's"
    and stale :: "'s \<Rightarrow> bool"
    and target :: "'m outbox \<Rightarrow> unit act"
    and announce :: "'m outbox \<Rightarrow> call"
    and item :: "'m outbox \<Rightarrow> unit act"
    and batch :: "unit act"
    and batch_size :: "config \<Rightarrow> int"
  assumes target_quiet: "quiet (target r)"
    and item_eq: "item r = publish_item (fetch r) stale (target r) (announce r)
           (\<lambda>s e. ignore (exec (\<lambda>t. mark t (ob_id r) s e)))"
    and batch_eq: "batch = seq get_config (\<lambda>cfg.
           publish_leased (\<lambda>t d. Inr (lease t (nat (batch_size cfg)) d)) item)"
begin

lemma mark_exec:
  assumes "ignore (exec (\<lambda>t. mark t i s e)) w = (x, w')"
  shows "w_log w' = w_log w \<and> marked mark i {s} (w_db w) (w_db w')"
  using assms
  by (auto simp: ignore_def exec_def ext_def Let_def marked_def split: option.splits sum.splits prod.splits)

lemma give_back_exec:
  assumes "give_back (\<lambda>s e. ignore (exec (\<lambda>t. mark t i s e))) err w = (x, w')"
  shows "w_log w' = w_log w \<and> marked mark i {ObDiscarded, ObPending} (w_db w) (w_db w')"
  using mark_exec[of i "if errors_is err ErrNotFound then ObDiscarded else ObPending" "Some err" w x w'] assms
  by (auto simp: give_back_def elim!: marked_mono)

text \<open>One row: either nothing was announced, or the row was still wanted and was announced.\<close>

lemma item_cases:
  assumes "item r w = (x, w')"
  obtains (kept) "w_log w' = w_log w" "marked mark (ob_id r) {ObDiscarded, ObPending} (w_db w) (w_db w')"
  | (sent) s where "w_log w' = w_log w @ [announce r]" "fetch r (w_db w) = Inr s" "\<not> stale s"
      "marked mark (ob_id r) {ObPublished} (w_db w) (w_db w')"
proof -
  let ?mark = "\<lambda>s e. ignore (exec (\<lambda>t. mark t (ob_id r) s e))"
  obtain q w1 where f: "query (fetch r) w = (q, w1)" by fastforce
  have w1: "w_db w1 = w_db w" "w_log w1 = w_log w" using quietD[OF quiet_query(1) f] by auto
  show thesis
  proof (cases q)
    case (Inl e)
    then have "give_back ?mark e w1 = (x, w')"
      using assms f by (simp add: item_eq publish_item_def seq_def attempt_def)
    from give_back_exec[OF this] show thesis using kept w1 by simp
  next
    case (Inr s)
    have fetched: "fetch r (w_db w) = Inr s" using query_faultless[of "fetch r" w s w1] f Inr by simp
    show thesis
    proof (cases "stale s")
      case True
      then have "?mark ObDiscarded None w1 = (x, w')"
        using assms f Inr by (simp add: item_eq publish_item_def seq_def attempt_def)
      from mark_exec[OF this] show thesis using kept w1 by (auto intro: marked_mono)
    next
      case wanted: False
      obtain q2 w2 where g: "target r w1 = (q2, w2)" by fastforce
      have w2: "w_db w2 = w_db w" "w_log w2 = w_log w" using quietD[OF target_quiet g] w1 by auto
      show thesis
      proof (cases q2)
        case (Inl e)
        then have "give_back ?mark e w2 = (x, w')"
          using assms f Inr wanted g by (simp add: item_eq publish_item_def seq_def attempt_def)
        from give_back_exec[OF this] show thesis using kept w2 by simp
      next
        case ok: (Inr u)
        obtain q3 w3 where p: "perform (announce r) w2 = (q3, w3)" by fastforce
        have w3: "w_db w3 = w_db w" "w_log w3 = (if is_ok q3 then w_log w @ [announce r] else w_log w)"
          using p w2 by (auto simp: perform_def ext_def Let_def is_ok_def split: option.splits)
        have run: "(case q3 of Inl e \<Rightarrow> ?mark ObPending (Some e) | Inr _ \<Rightarrow> ?mark ObPublished None) w3 = (x, w')"
          using assms f Inr wanted g ok p
          by (simp add: item_eq publish_item_def seq_def attempt_def split: sum.splits)
        show thesis
        proof (cases q3)
          case (Inl e)
          with mark_exec[of "ob_id r" ObPending "Some e" w3 x w'] run w3 show thesis
            using kept by (auto simp: is_ok_def intro: marked_mono)
        next
          case (Inr v)
          with mark_exec[of "ob_id r" ObPublished None w3 x w'] run w3 show thesis
            using sent fetched wanted by (simp add: is_ok_def)
        qed
      qed
    qed
  qed
qed

text \<open>Rows that are published afterwards were so before, or have been announced in between.\<close>

lemma marked_published:
  assumes "marked mark i S d d'" and "q \<in> set (rows d')" and "ob_status q = ObPublished"
  shows "q \<in> set (rows d) \<or> (ob_id q = i \<and> ObPublished \<in> S)"
  using assms mark_frame mark_status unfolding marked_def by metis

lemma item_ok:
  assumes "item r w = (y, w1)"
  shows "is_ok y"
  using assms unfolding item_eq publish_item_def give_back_def
  by (auto simp: seq_def attempt_def ignore_def is_ok_def split: prod.splits sum.splits if_splits)

text \<open>A batch announces some of its rows, each at most once, and only announced rows are published.\<close>

lemma items_cases:
  assumes "for_each item rs w = (x, w')"
  obtains ps where "w_log w' = w_log w @ map announce ps" "subseq ps rs"
    "\<forall>q \<in> set (rows (w_db w')). ob_status q = ObPublished \<longrightarrow> q \<in> set (rows (w_db w)) \<or> ob_id q \<in> ob_id ` set ps"
  using assms
proof (induction rs arbitrary: w thesis)
  case Nil
  from Nil.prems(2) have "w' = w" by (simp add: ret_def)
  then show ?case using Nil.prems(1)[of "[]"] by simp
next
  case (Cons r rs)
  obtain y w1 where i: "item r w = (y, w1)" by fastforce
  then have "for_each item rs w1 = (x, w')"
    using Cons.prems(2) item_ok[OF i] by (cases y) (auto simp: seq_def is_ok_def)
  then obtain ps where ps: "w_log w' = w_log w1 @ map announce ps" "subseq ps rs"
    "\<forall>q \<in> set (rows (w_db w')). ob_status q = ObPublished \<longrightarrow> q \<in> set (rows (w_db w1)) \<or> ob_id q \<in> ob_id ` set ps"
    using Cons.IH[of w1] by blast
  from i show ?case
  proof (cases rule: item_cases)
    case kept
    then show ?thesis using Cons.prems(1)[of ps] ps marked_published[OF kept(2)] by fastforce
  next
    case (sent s)
    then show ?thesis using Cons.prems(1)[of "r # ps"] ps marked_published[OF sent(4)] by fastforce
  qed
qed

text \<open>The whole batch, from the lease on.\<close>

lemma batch_cases:
  assumes "batch w = (x, w')"
  obtains (idle) "w_log w' = w_log w" "w_db w' = w_db w"
  | (run) t ps where
      "w_log w' = w_log w @ map announce ps"
      "subseq ps (fst (lease t (nat (batch_size (e_config (w_env w)))) (w_db w)))"
      "\<forall>q \<in> set (rows (w_db w')). ob_status q = ObPublished \<longrightarrow>
         q \<in> set (rows (snd (lease t (nat (batch_size (e_config (w_env w)))) (w_db w)))) \<or> ob_id q \<in> ob_id ` set ps"
proof -
  let ?n = "nat (batch_size (e_config (w_env w)))"
  let ?t = "e_now (w_env w) (w_tick w)"
  let ?items = "fst (lease ?t ?n (w_db w))" and ?d = "snd (lease ?t ?n (w_db w))"
  let ?w1 = "w\<lparr>w_tick := Suc (w_tick w), w_db := ?d\<rparr>"
  show thesis
  proof (cases "e_fault (w_env w) (w_tick w)")
    case (Some e)
    then have "w' = w\<lparr>w_tick := Suc (w_tick w)\<rparr>"
      using assms by (simp add: batch_eq publish_leased_def act_defs)
    then show thesis using idle by simp
  next
    case None
    then have "for_each item ?items ?w1 = (x, w')"
      using assms
      by (cases "lease ?t ?n (w_db w)") (simp add: batch_eq publish_leased_def act_defs)
    then show thesis
      by (rule items_cases) (use run[of _ ?t] in auto)
  qed
qed

lemma batch_bounded:
  assumes "batch w = (x, w')"
  shows "length (w_log w') \<le> length (w_log w) + nat (batch_size (e_config (w_env w)))"
  using assms
proof (cases rule: batch_cases)
  case (run t ps)
  have "length ps \<le> length (fst (lease t (nat (batch_size (e_config (w_env w)))) (w_db w)))"
    using run(2) by (rule list_emb_length)
  then show ?thesis using run(1) lease_bounded[of t _ "w_db w"] by (simp add: order_trans)
qed simp

text \<open>What is announced was due, and a row that becomes published has been announced.\<close>

lemma batch_announces:
  assumes "batch w = (x, w')" and "c \<in> set (drop (length (w_log w)) (w_log w'))"
  shows "\<exists>t. \<exists>r \<in> set (rows (w_db w)). leasable t r \<and> c = announce (leased t r)"
  using assms(1)
proof (cases rule: batch_cases)
  case (run t ps)
  then obtain q where "q \<in> set ps" "c = announce q" using assms(2) by auto
  then have "q \<in> set (fst (lease t (nat (batch_size (e_config (w_env w)))) (w_db w)))"
    using in_subseq[OF run(2)] by simp
  from lease_due[OF this] show ?thesis using \<open>c = announce q\<close> by auto
qed (use assms(2) in simp)

lemma batch_published:
  assumes "batch w = (x, w')" and "q \<in> set (rows (w_db w'))" and "ob_status q = ObPublished"
    and "q \<notin> set (rows (w_db w))"
  shows "\<exists>t. \<exists>r \<in> set (rows (w_db w)). ob_id r = ob_id q \<and> leasable t r
     \<and> announce (leased t r) \<in> set (drop (length (w_log w)) (w_log w'))"
  using assms(1)
proof (cases rule: batch_cases)
  case (run t ps)
  have "q \<notin> set (rows (snd (lease t (nat (batch_size (e_config (w_env w)))) (w_db w))))"
    using assms(3,4) by (auto simp: lease_snd lease_rows_def Let_def set_update_where)
  then obtain p where p: "p \<in> set ps" "ob_id p = ob_id q" using run(3) assms(2,3) by auto
  then have "p \<in> set (fst (lease t (nat (batch_size (e_config (w_env w)))) (w_db w)))"
    using in_subseq[OF run(2)] by simp
  from lease_due[OF this] obtain r where "r \<in> set (rows (w_db w))" "leasable t r" "p = leased t r"
    by blast
  then show ?thesis using p run(1) by auto
qed (use assms in simp)

end

interpretation container_publisher: outbox_publisher t_cout lease_container_outbox
    update_container_outbox_status "\<lambda>r. get_operation (ob_ref r)" "\<lambda>op. o_status op \<noteq> OsPending"
    "\<lambda>r. seq (query (get_container (ob_resource r))) (\<lambda>_. ret ())"
    "\<lambda>r. PublishContainer (ob_exchange r) (ob_key r) (ob_payload r)"
    publish_container_item publish_container_batch g_outbox_batch
  by unfold_locales (simp_all add: publish_container_item_def publish_container_batch_def
      quiet_intros)

interpretation resource_publisher: outbox_publisher t_rout lease_resource_outbox
    update_resource_outbox_status "\<lambda>r. get_operation (ob_ref r)" "\<lambda>op. o_status op \<noteq> OsPending"
    "\<lambda>r. ret ()" "\<lambda>r. PublishResource (ob_exchange r) (ob_key r) (ob_payload r)"
    publish_resource_item publish_resource_batch g_outbox_batch
  by unfold_locales (simp_all add: publish_resource_item_def publish_resource_batch_def quiet_intros)

interpretation build_publisher: outbox_publisher t_bout lease_build_outbox mark_build_outbox
    "\<lambda>r. get_build (ob_ref r)" "\<lambda>b. is_build_terminal (b_status b)"
    "\<lambda>r. ret ()" "\<lambda>r. PublishBuild (ob_exchange r) (ob_key r) (ob_payload r)"
    publish_build_item publish_build_batch g_build_outbox_batch
  by unfold_locales (simp_all add: publish_build_item_def publish_build_batch_def quiet_intros)

interpretation compose_publisher: outbox_publisher t_pout lease_compose_outbox
    update_compose_outbox_status "\<lambda>r. get_job (ob_ref r)" "\<lambda>j. is_job_terminal (j_status j)"
    "\<lambda>r. ret ()" "\<lambda>r. PublishCompose (ob_exchange r) (ob_key r) (ob_payload r)"
    publish_compose_item publish_compose_batch g_compose_outbox_batch
  by unfold_locales (simp_all add: publish_compose_item_def publish_compose_batch_def quiet_intros)

end
