(* ===== verification/EventWorker.thy ===== *)
theory EventWorker
  imports ContainerWorker CoreStep
begin

text \<open>
  The event worker (internal/core/service/event_worker.go): it follows the events of the Docker
  engine and, at intervals, compares every container and volume with what the engine reports.  The
  select loop of Run only chooses which of handle_event and sync_state runs next; waiting,
  reconnecting and the timers are not modelled.  The container id of an event is the uuid label of
  the Docker container, None when the label is missing or no uuid.
\<close>

record observed_state =
  obs_status :: cstatus
  obs_desired :: "cstatus option"
  obs_exit :: "int option"
  obs_cause :: "goerr option"

definition plain_state :: "cstatus \<Rightarrow> observed_state" where
  "plain_state s = \<lparr> obs_status = s, obs_desired = None, obs_exit = None, obs_cause = None \<rparr>"

definition oom_cause :: goerr where
  "oom_cause = OtherErr ''container exited after OOM kill''"

definition nonzero_cause :: goerr where
  "nonzero_cause = OtherErr ''container exited with non-zero code''"

definition observed_from_exit_event :: "container_event \<Rightarrow> observed_state" where
  "observed_from_exit_event ev =
    (let state = (plain_state CExited)\<lparr>obs_exit := ev_exit_code ev\<rparr> in
     if ev_exit_code ev = Some 0 then state\<lparr>obs_desired := Some CExited\<rparr>
     else if ev_oom_killed ev then state\<lparr>obs_status := CError, obs_cause := Some oom_cause\<rparr>
     else if ev_exit_code ev \<noteq> None then state\<lparr>obs_status := CError, obs_cause := Some nonzero_cause\<rparr>
     else state)"

definition expected_exit :: "cstatus \<Rightarrow> bool" where
  "expected_exit desired \<longleftrightarrow> desired = CExited \<or> desired = CDeleting"

definition observed_from_inspect :: "container \<Rightarrow> inspection \<Rightarrow> observed_state" where
  "observed_from_inspect c ins =
    (if st_running (in_state ins) then plain_state CRunning
     else if c_status c = CCreated \<and> st_status (in_state ins) = ''created'' then plain_state CCreated
     else let code = st_exit_code (in_state ins);
              state = (plain_state CExited)\<lparr>obs_exit := Some code\<rparr>
       in if code = 0 then state\<lparr>obs_desired := Some CExited\<rparr>
          else if expected_exit (c_desired c) then state
          else state\<lparr>obs_status := CError,
                 obs_cause := Some (if st_oom_killed (in_state ins) then oom_cause else nonzero_cause)\<rparr>)"

section \<open>Events\<close>

text \<open>A non-zero exit the user asked for is no error.\<close>

definition adjust_expected_exit :: "container_event \<Rightarrow> observed_state \<Rightarrow> observed_state act" where
  "adjust_expected_exit ev state =
    (if obs_cause state = None \<or> ev_docker_id ev = [] then ret state
     else seq (attempt (query (get_container_by_docker_id (ev_docker_id ev)))) (\<lambda>r. case r of
         Inl e \<Rightarrow> ret state
       | Inr c \<Rightarrow> if expected_exit (c_desired c)
                then ret (state\<lparr>obs_status := CExited, obs_cause := None\<rparr>) else ret state))"

definition update_from_event :: "container_event \<Rightarrow> observed_state \<Rightarrow> unit act" where
  "update_from_event ev state0 =
     seq (adjust_expected_exit ev state0) (\<lambda>state.
     on_error (exec (update_observed_status_by_docker_id (ev_docker_id ev) (obs_status state)
                 (obs_exit state) (obs_desired state) (obs_cause state))) (\<lambda>e.
       if \<not> errors_is e ErrNotFound then fail e
       else case ev_container ev of
         None \<Rightarrow> fail e
       | Some cid \<Rightarrow> if ev_generation ev \<le> 0 then fail e
           else exec (update_observed_status_by_generation cid (ev_generation ev) (obs_status state)
                  (obs_exit state) (obs_desired state) (obs_cause state))))"

definition refresh_from_event :: "container_event \<Rightarrow> unit act" where
  "refresh_from_event ev =
     seq (attempt (query (get_container_by_docker_id (ev_docker_id ev)))) (\<lambda>r. case r of
       Inl e \<Rightarrow> ret () | Inr c \<Rightarrow> refresh_status_of (c_project c))"

definition observe_event :: "container_event \<Rightarrow> observed_state \<Rightarrow> unit act" where
  "observe_event ev state =
     seq (ignore (update_from_event ev state)) (\<lambda>_.
     seq (refresh_from_event ev) (\<lambda>_. emit RequestRebalance))"

definition handle_event :: "container_event \<Rightarrow> unit act" where
  "handle_event ev =
    (if ev_type ev \<noteq> ''container'' then ret ()
     else if ev_action ev = ''start'' then observe_event ev (plain_state CRunning)
     else if ev_action ev = ''die'' \<or> ev_action ev = ''stop'' \<or> ev_action ev = ''kill'' \<or> ev_action ev = ''oom''
       then observe_event ev (observed_from_exit_event ev)
     else if ev_action ev = ''destroy''
       then observe_event ev ((plain_state CMissing)\<lparr>obs_cause := Some (resource_missing ''container'')\<rparr>)
     else ret ())"

section \<open>Synchronisation\<close>

fun has_active_lifecycle :: "cstatus \<Rightarrow> bool" where
  "has_active_lifecycle CPending = True"
| "has_active_lifecycle CCreating = True"
| "has_active_lifecycle CStarting = True"
| "has_active_lifecycle CStopping = True"
| "has_active_lifecycle CExposing = True"
| "has_active_lifecycle CDeleting = True"
| "has_active_lifecycle CReconciling = True"
| "has_active_lifecycle _ = False"

definition write_observed :: "id \<Rightarrow> observed_state \<Rightarrow> unit act" where
  "write_observed cid state = ignore (exec (update_observed_status cid (obs_status state)
     (obs_exit state) (obs_desired state) (obs_cause state)))"

definition mark_missing :: "id \<Rightarrow> unit act" where
  "mark_missing cid = ignore (exec (mark_status_error cid CMissing (Some (resource_missing ''container''))))"

text \<open>The body of the loop for a container whose lifecycle is not being worked on; the result
  tells whether the set of running containers may have changed.\<close>

definition sync_settled :: "container \<Rightarrow> bool act" where
  "sync_settled c =
    (if c_docker_id c = [] then
       (if c_status c = CError then ret False
        else seq (attempt (query (has_active_operation RContainer (c_id c)))) (\<lambda>r. case r of
            Inl e \<Rightarrow> ret False
          | Inr active \<Rightarrow> if active then ret False
              else seq (mark_missing (c_id c)) (\<lambda>_. ret False)))
     else seq (attempt (docker_inspect (c_docker_id c))) (\<lambda>r. case r of
         Inl e \<Rightarrow> if is_docker_not_found e
           then seq (mark_missing (c_id c)) (\<lambda>_. seq (refresh_status_of (c_project c)) (\<lambda>_. ret True))
           else ret False
       | Inr ins \<Rightarrow>
           let state = observed_from_inspect c ins in
           if c_status c \<noteq> obs_status state
           then seq (write_observed (c_id c) state) (\<lambda>_.
                seq (refresh_status_of (c_project c)) (\<lambda>_.
                ret (obs_status state = CRunning \<or> c_status c = CRunning)))
           else if obs_desired state \<noteq> None \<and> obs_desired state \<noteq> Some (c_desired c)
           then seq (write_observed (c_id c) state) (\<lambda>_. ret False)
           else ret False))"

definition sync_container :: "container \<Rightarrow> bool act" where
  "sync_container c =
    (if has_active_lifecycle (c_status c)
     then seq (attempt (query (has_active_operation RContainer (c_id c)))) (\<lambda>r. case r of
         Inl e \<Rightarrow> ret False
       | Inr active \<Rightarrow> if active then ret False else sync_settled c)
     else sync_settled c)"

fun sync_each :: "bool \<Rightarrow> container list \<Rightarrow> bool act" where
  "sync_each changed [] = ret changed"
| "sync_each changed (c # cs) = seq (sync_container c) (\<lambda>b. sync_each (changed \<or> b) cs)"

definition sync_containers :: "unit act" where
  "sync_containers = seq (attempt (query get_non_exited)) (\<lambda>r. case r of
       Inl e \<Rightarrow> ret ()
     | Inr cs \<Rightarrow> seq (sync_each False cs) (\<lambda>changed.
         if changed then emit RequestRebalance else ret ()))"

definition sync_volume :: "volume \<Rightarrow> unit act" where
  "sync_volume v =
    (if v_docker_name v = [] then mark_volume_missing (v_id v)
     else seq (attempt (docker_inspect_volume (v_docker_name v))) (\<lambda>r. case r of
         Inl e \<Rightarrow> if is_docker_not_found e then mark_volume_missing (v_id v) else ret ()
       | Inr _ \<Rightarrow> if v_status v = VCreating
           then ignore (exec (update_volume_status (v_id v) VAvailable)) else ret ()))"

definition sync_volumes :: "unit act" where
  "sync_volumes = seq (attempt (query get_reconcile_candidates)) (\<lambda>r. case r of
       Inl e \<Rightarrow> ret () | Inr vs \<Rightarrow> for_each sync_volume vs)"

definition sync_state :: "unit act" where
  "sync_state = seq sync_containers (\<lambda>_. sync_volumes)"

section \<open>The worker makes only transitions of the store\<close>

lemma follows_for_each [follows_intros]:
  assumes "\<And>x. follows R (f x)"
  shows "follows R (for_each f xs)"
  by (induction xs) (simp_all add: follows_pure follows_seq assms)

lemma follows_inspect [follows_intros]: "follows R (docker_inspect did)" "follows R (docker_inspect_volume n)"
  by (simp_all add: docker_inspect_def docker_inspect_volume_def follows_reads)

lemma follows_observe_writes [follows_intros]:
  "follows core (exec (update_observed_status_by_docker_id dk s ex des e))"
  "follows core (exec (update_observed_status_by_generation cid g s ex des e))"
  "follows core (exec (update_observed_status cid s ex des e))"
  by (auto intro!: follows_exec core_container intro: repo_step.intros)

lemma follows_update_from_event [follows_intros]: "follows core (update_from_event ev st)"
  unfolding update_from_event_def adjust_expected_exit_def by (intro follows_intros)

lemma follows_handle_event: "follows core (handle_event ev)"
  unfolding handle_event_def observe_event_def refresh_from_event_def
  by (intro follows_intros)

lemma follows_sync_settled [follows_intros]: "follows core (sync_settled c)"
  unfolding sync_settled_def mark_missing_def write_observed_def Let_def
  by (intro follows_intros)

lemma follows_sync_each [follows_intros]: "follows core (sync_each b cs)"
  by (induction cs arbitrary: b) (auto simp: sync_container_def intro!: follows_intros)

lemma follows_sync_state: "follows core sync_state"
  unfolding sync_state_def sync_containers_def sync_volumes_def sync_volume_def
  by (intro follows_intros)


text \<open>
  The two workers that stop containers on their own: the TTL worker, which stops containers whose
  deadline has passed (internal/core/service/ttl_worker.go), and the volume usage worker, which
  measures volumes and stops the containers that could write to the volumes of an owner who is
  over the disk quota (internal/core/service/volume_usage_worker.go).
\<close>

section \<open>The TTL worker\<close>

definition ttl_queue_stop :: "container \<Rightarrow> unit act" where
  "ttl_queue_stop c = queue_operation c OpStop CStopping CExited [] 0 (c_status c)"

definition process_expired :: "unit act" where
  "process_expired =
     seq get_config (\<lambda>cfg.
     if g_ttl_hours cfg \<le> 0 then ret ()
     else seq (attempt (query_at get_expired)) (\<lambda>r. case r of
         Inl e \<Rightarrow> ret ()
       | Inr cs \<Rightarrow> for_each (\<lambda>c. ignore (ttl_queue_stop c)) cs))"

section \<open>The volume usage worker\<close>

definition refresh_volume_usage :: "volume \<Rightarrow> unit act" where
  "refresh_volume_usage v =
     seq (attempt (ask (\<lambda>e n. e_volume_usage e n (v_docker_name v)))) (\<lambda>r. case r of
         Inl e \<Rightarrow> ret ()
       | Inr used \<Rightarrow> ignore (exec (update_volume_usage (v_id v) used)))"

definition refresh_usage :: "unit act" where
  "refresh_usage = seq (attempt (query get_reconcile_candidates)) (\<lambda>r. case r of
       Inl e \<Rightarrow> ret () | Inr vs \<Rightarrow> for_each refresh_volume_usage vs)"

definition volume_queue_stop :: "container \<Rightarrow> unit act" where
  "volume_queue_stop c =
     seq (query (has_active_operation RContainer (c_id c))) (\<lambda>active.
     if active then fail active_operation_error
     else queue_operation c OpStop CStopping CExited [] 0 (c_status c))"

definition stop_writable_volume_containers :: "id \<Rightarrow> unit act" where
  "stop_writable_volume_containers owner =
     seq (attempt (query (get_running_with_writable_mounts owner))) (\<lambda>r. case r of
         Inl e \<Rightarrow> ret () | Inr cs \<Rightarrow> for_each (\<lambda>c. ignore (volume_queue_stop c)) cs)"

definition enforce_owner_quota :: "id \<Rightarrow> unit act" where
  "enforce_owner_quota owner =
     seq (attempt (ask (\<lambda>e n. e_user e n owner))) (\<lambda>r. case r of Inl e \<Rightarrow> ret () | Inr u \<Rightarrow>
     seq (attempt (query (get_user_used_disk owner))) (\<lambda>r. case r of Inl e \<Rightarrow> ret () | Inr used_mb \<Rightarrow>
     seq (attempt (query (get_user_volume_bytes owner))) (\<lambda>r. case r of Inl e \<Rightarrow> ret () | Inr bytes \<Rightarrow>
     if i64 (used_mb + bytes_to_mb bytes) < ui_quota_disk_mb u then ret ()
     else stop_writable_volume_containers owner)))"

definition enforce_quotas :: "unit act" where
  "enforce_quotas = seq (attempt (query get_owners_with_volumes)) (\<lambda>r. case r of
       Inl e \<Rightarrow> ret () | Inr owners \<Rightarrow> for_each enforce_owner_quota owners)"

definition volume_usage_tick :: "unit act" where
  "volume_usage_tick = seq refresh_usage (\<lambda>_. enforce_quotas)"

section \<open>The workers make only transitions of the store\<close>

lemma follows_update_volume_usage [follows_intros]: "follows core (exec (update_volume_usage v n))"
  by (rule follows_exec) (simp add: core_def core_step.volume_usage)

lemma follows_queue_stop [follows_intros]:
  "follows core (ttl_queue_stop c)" "follows core (volume_queue_stop c)"
  unfolding ttl_queue_stop_def volume_queue_stop_def by (intro follows_intros)+

lemma follows_process_expired: "follows core process_expired"
  unfolding process_expired_def by (intro follows_intros)

lemma follows_volume_usage_tick: "follows core volume_usage_tick"
  unfolding volume_usage_tick_def refresh_usage_def refresh_volume_usage_def enforce_quotas_def
    enforce_owner_quota_def stop_writable_volume_containers_def
  by (intro follows_intros)

end
