(* ===== verification/EventProps.thy ===== *)
theory EventProps
  imports EventWorker Lifecycle Samples
begin

text \<open>Properties of the event worker.\<close>

lemma update_containers_none:
  assumes "\<forall>c \<in> set (t_containers d). \<not> P c" and "schema_ok d"
  shows "update_containers P f d = Inl (Sentinel ErrNotFound)"
proof -
  have "update_where P f (t_containers d) = t_containers d"
    using assms(1) by (intro update_where_none) auto
  moreover have "rows_affected P (t_containers d) = 0" using assms(1) by (simp add: rows_affected_0)
  ultimately show ?thesis
    using assms(2) by (simp add: update_containers_def write_containers_def accept_def bind_res_def schema_ok_def)
qed

lemma quiet_adjust: "quiet (adjust_expected_exit ev st)"
  unfolding adjust_expected_exit_def by (intro quiet_intros)

lemma stale_update:
  assumes "schema_ok (w_db w)"
    and "\<forall>c \<in> set (t_containers (w_db w)). ev_docker_id ev = [] \<or> c_docker_id c \<noteq> ev_docker_id ev"
    and "\<forall>c \<in> set (t_containers (w_db w)). ev_container ev = Some (c_id c) \<longrightarrow> c_generation c \<noteq> ev_generation ev"
    and u: "update_from_event ev st w = (y, x)"
  shows "w_db x = w_db w \<and> w_log x = w_log w"
proof -
  let ?d = "w_db w"
  have u1: "update_observed_status_by_docker_id (ev_docker_id ev) s ex des e t ?d = Inl (Sentinel ErrNotFound)" for s ex des e t
    unfolding update_observed_status_by_docker_id_def
    using assms(2) by (intro update_containers_none[OF _ assms(1)]) auto
  have u2: "update_observed_status_by_generation cid (ev_generation ev) s ex des e t ?d = Inl (Sentinel ErrNotFound)"
    if "ev_container ev = Some cid" for cid s ex des e t
    unfolding update_observed_status_by_generation_def
    using assms(3) that by (intro update_containers_none[OF _ assms(1)]) auto
  obtain q w1 where a: "adjust_expected_exit ev st w = (q, w1)" by fastforce
  have w1: "w_db w1 = ?d" "w_log w1 = w_log w"
    using quietD[OF quiet_adjust a] by auto
  show ?thesis
  proof (cases q)
    case (Inl e)
    then show ?thesis using u a w1 by (simp add: update_from_event_def seq_def)
  next
    case (Inr s)
    obtain q2 w2 where e: "exec (update_observed_status_by_docker_id (ev_docker_id ev) (obs_status s)
        (obs_exit s) (obs_desired s) (obs_cause s)) w1 = (q2, w2)" by fastforce
    from exec_refused[OF _ e] u1 w1 have w2: "w_db w2 = ?d" "w_log w2 = w_log w" "\<not> is_ok q2" by auto
    obtain e2 where q2: "q2 = Inl e2" using w2(3) by (cases q2) (auto simp: is_ok_def)
    show ?thesis
    proof (cases "errors_is e2 ErrNotFound \<and> ev_container ev \<noteq> None \<and> ev_generation ev > 0")
      case False
      then show ?thesis
        using u a Inr e q2 w2
        by (auto simp: update_from_event_def seq_def on_error_def fail_def split: if_splits option.splits)
    next
      case True
      then obtain cid where cid: "ev_container ev = Some cid" by blast
      then have "exec (update_observed_status_by_generation cid (ev_generation ev) (obs_status s)
          (obs_exit s) (obs_desired s) (obs_cause s)) w2 = (y, x)"
        using u a Inr e q2 True by (simp add: update_from_event_def seq_def on_error_def)
      from exec_refused[OF _ this] u2[OF cid] w2 show ?thesis by auto
    qed
  qed
qed

text \<open>
  C4. Events of a superseded generation are ignored: when no container has the Docker id of the
  event and the container the event names is at another generation, no row of the store changes,
  whatever fails; at most a rebalance is requested.
\<close>

theorem stale_event_ignored:
  assumes "schema_ok (w_db w)"
    and "\<forall>c \<in> set (t_containers (w_db w)). ev_docker_id ev = [] \<or> c_docker_id c \<noteq> ev_docker_id ev"
    and "\<forall>c \<in> set (t_containers (w_db w)). ev_container ev = Some (c_id c) \<longrightarrow> c_generation c \<noteq> ev_generation ev"
    and "handle_event ev w = (r, w')"
  shows "w_db w' = w_db w \<and> (w_log w' = w_log w \<or> w_log w' = w_log w @ [RequestRebalance])"
proof -
  let ?d = "w_db w"
  have none: "get_container_by_docker_id (ev_docker_id ev) ?d = Inl (Sentinel ErrNotFound)"
    using assms(2) by (auto simp: get_container_by_docker_id_def find_row_Inl find_None_iff)
  have step: "w_db x = ?d \<and> (w_log x = w_log w \<or> w_log x = w_log w @ [RequestRebalance])"
    if o: "observe_event ev st w = (y, x)" for st y x
  proof -
    obtain q w1 where i: "update_from_event ev st w = (q, w1)" by fastforce
    obtain q2 w2 where f: "refresh_from_event ev w1 = (q2, w2)" by fastforce
    have w1: "w_db w1 = ?d" "w_log w1 = w_log w" using stale_update[OF assms(1-3) i] by auto
    have w2: "w_db w2 = ?d" "w_log w2 = w_log w"
      using f w1 by (auto simp: refresh_from_event_def act_defs none split: option.splits)
    show ?thesis
      using o i f w2 by (auto simp: observe_event_def seq_def ignore_def emit_def split: sum.splits)
  qed
  show ?thesis
    using assms(4) unfolding handle_event_def
    by (auto simp: ret_def split: if_splits dest: step)
qed

definition stale_event :: container_event where
  "stale_event = \<lparr> ev_type = ''container'', ev_action = ''destroy'', ev_docker_id = ''old'',
     ev_container = Some 1, ev_generation = 9, ev_exit_code = None, ev_oom_killed = False \<rparr>"

lemma sample_store_ok: "schema_ok sample_db"
  by (simp add: sample_defs schema_ok_def violation_None mount_violation_def volume_violation_def
      uniq_def op_active_def)

theorem stale_event_ignored_witness: "w_db (snd (handle_event stale_event sample_world)) = sample_db"
proof -
  obtain r w' where h: "handle_event stale_event sample_world = (r, w')" by fastforce
  have db: "w_db sample_world = sample_db" by (simp add: sample_world_def)
  show ?thesis
    using stale_event_ignored[OF _ _ _ h] sample_store_ok h
    by (simp add: db stale_event_def sample_db_def sample_container_def)
qed

lemma adjust_outcome:
  assumes "\<And>n. e_fault (w_env w) n = None"
    and "get_container_by_docker_id (ev_docker_id ev) (w_db w) = Inr c" and "ev_docker_id ev \<noteq> []"
  shows "\<exists>w1. adjust_expected_exit ev st w = (Inr (if obs_cause st \<noteq> None \<and> expected_exit (c_desired c)
           then st\<lparr>obs_status := CExited, obs_cause := None\<rparr> else st), w1)
         \<and> w_db w1 = w_db w \<and> w_env w1 = w_env w"
  using assms by (cases "obs_cause st") (auto simp: adjust_expected_exit_def act_defs)

lemma refresh_from_event_frame:
  assumes "refresh_from_event ev w = (x, w')"
  shows "t_containers (w_db w') = t_containers (w_db w) \<and> is_ok x"
proof
  have "keeps (\<lambda>d. t_containers d = t_containers (w_db w)) (refresh_from_event ev)"
    unfolding refresh_from_event_def refresh_status_of_def refresh_project_status_def
    by (intro keeps_intros keeps_exec)
      (auto simp: update_project_status_def set_project_def split: if_splits)
  from keepsD[OF this _ assms] show "t_containers (w_db w') = t_containers (w_db w)" by simp
  show "is_ok x"
    using assms by (auto simp: refresh_from_event_def refresh_status_of_def seq_def attempt_def ignore_def
        ret_def is_ok_def split: prod.splits sum.splits option.splits)
qed

text \<open>
  C5. When Docker reports that a container the store knows has exited, and no call fails, the row
  records the exit: the container is exited when the exit was clean, unexplained or asked for
  (desired exited or deleting), and in error otherwise; a clean exit also ends the wish to run it.
\<close>

theorem exit_event_outcome:
  assumes "\<And>n. e_fault (w_env w) n = None" and "schema_ok (w_db w)"
    and c: "get_container_by_docker_id (ev_docker_id ev) (w_db w) = Inr c"
    and "ev_type ev = ''container''" and "ev_action ev \<in> {''die'', ''stop'', ''kill'', ''oom''}"
  shows "\<exists>w' c'. handle_event ev w = (Inr (), w') \<and> get_container (c_id c) (w_db w') = Inr c'
     \<and> c_exit_code c' = ev_exit_code ev
     \<and> c_desired c' = (if ev_exit_code ev = Some 0 then CExited else c_desired c)
     \<and> c_status c' = (if ev_exit_code ev = Some 0 \<or> expected_exit (c_desired c)
                         \<or> (ev_exit_code ev = None \<and> \<not> ev_oom_killed ev) then CExited else CError)"
proof -
  let ?did = "ev_docker_id ev" and ?d = "w_db w"
  let ?P = "\<lambda>q. ?did \<noteq> [] \<and> c_docker_id q = ?did"
  have mem: "c \<in> set (t_containers ?d)" "?P c"
    using c by (auto simp: get_container_by_docker_id_def find_row_Inr dest: find_SomeD)
  have u: "uniq c_id (\<lambda>_. True) (t_containers ?d)"
    using assms(2) by (simp add: schema_ok_def container_violation_None)
  have look: "find (\<lambda>q. c_id q = c_id c) (t_containers ?d) = Some c"
    using find_distinct[of c_id "t_containers ?d" c] u mem by (simp add: uniq_def)
  let ?w1 = "\<lambda>w2 s ex des e t. w2\<lparr>w_db := ?d\<lparr>t_containers := update_where ?P (observe t s ex des e) (t_containers ?d)\<rparr>\<rparr>"
  have upd: "update_observed_status_by_docker_id ?did s ex des e t ?d
      = Inr (?d\<lparr>t_containers := update_where ?P (observe t s ex des e) (t_containers ?d)\<rparr>)" for s ex des e t
    unfolding update_observed_status_by_docker_id_def update_containers_Inr
    using mem container_update_ok[OF assms(2), of "observe t s ex des e" ?P]
    by (auto simp: observe_def)
  have after: "get_container (c_id c) (?d\<lparr>t_containers := update_where ?P (observe t s ex des e) (t_containers ?d)\<rparr>)
      = Inr (observe t s ex des e c)" for s ex des e t
    using look mem by (simp add: get_container_def find_row_Inr find_update_where)
  define st where "st = observed_from_exit_event ev"
  have ev: "handle_event ev = observe_event ev st"
    using assms(4,5) by (auto simp: handle_event_def st_def fun_eq_iff)
  have same_desired: "obs_desired st = (if ev_exit_code ev = Some 0 then Some CExited else None)"
    "obs_exit st = ev_exit_code ev" "obs_cause st \<noteq> None \<longleftrightarrow> obs_status st = CError"
    "obs_status st = CExited \<or> obs_status st = CError"
    "obs_status st = CError \<longleftrightarrow> ev_exit_code ev \<noteq> Some 0 \<and> (ev_exit_code ev \<noteq> None \<or> ev_oom_killed ev)"
    by (auto simp: st_def observed_from_exit_event_def plain_state_def Let_def)
  define st2 where "st2 = (if obs_cause st \<noteq> None \<and> expected_exit (c_desired c)
      then st\<lparr>obs_status := CExited, obs_cause := None\<rparr> else st)"
  obtain w1 where w1: "adjust_expected_exit ev st w = (Inr st2, w1)" "w_db w1 = ?d" "w_env w1 = w_env w"
    using adjust_outcome[where st = st, OF assms(1) c] mem unfolding st2_def by auto
  let ?t = "e_now (w_env w) (w_tick w1)"
  let ?w2 = "w1\<lparr>w_tick := Suc (w_tick w1), w_db := ?d\<lparr>t_containers := update_where ?P
      (observe ?t (obs_status st2) (obs_exit st2) (obs_desired st2) (obs_cause st2)) (t_containers ?d)\<rparr>\<rparr>"
  have "update_from_event ev st w = (Inr (), ?w2)"
    using w1 upd assms(1) by (simp add: update_from_event_def seq_def on_error_def exec_def ext_def Let_def)
  moreover obtain q w3 where f: "refresh_from_event ev ?w2 = (q, w3)" by fastforce
  ultimately have h: "handle_event ev w = (Inr (), w3\<lparr>w_log := w_log w3 @ [RequestRebalance]\<rparr>)"
    using refresh_from_event_frame[OF f]
    by (cases q) (simp_all add: ev observe_event_def seq_def ignore_def emit_def is_ok_def)
  have "t_containers (w_db w3) = t_containers (w_db ?w2)" using refresh_from_event_frame[OF f] by simp
  then have "get_container (c_id c) (w_db w3)
      = Inr (observe ?t (obs_status st2) (obs_exit st2) (obs_desired st2) (obs_cause st2) c)"
    using after by (simp add: get_container_def)
  then show ?thesis
    using h same_desired by (auto simp: st2_def observe_def)
qed

theorem exit_event_outcome_witness:
  "\<exists>w' c'. handle_event (stale_event\<lparr>ev_action := ''die'', ev_docker_id := ''d1'', ev_exit_code := Some 137\<rparr>) sample_world
       = (Inr (), w')
     \<and> get_container 1 (w_db w') = Inr c' \<and> c_status c' = CExited \<and> c_exit_code c' = Some 137"
proof -
  let ?ev = "stale_event\<lparr>ev_action := ''die'', ev_docker_id := ''d1'', ev_exit_code := Some 137\<rparr>"
  have w: "w_db sample_world = sample_db" "w_env sample_world = sample_env" by (simp_all add: sample_world_def)
  have c: "get_container_by_docker_id (ev_docker_id ?ev) (w_db sample_world) = Inr sample_container"
    by (simp add: sample_defs get_container_by_docker_id_def find_row_def)
  from exit_event_outcome[OF _ _ c] sample_store_ok show ?thesis
    by (auto simp: w sample_env_def stale_event_def sample_container_def expected_exit_def)
qed

end
