(* ===== verification/StartSteps.thy ===== *)
theory StartSteps
  imports ContainerService RepoInv Lifecycle
begin

text \<open>
  What a successful request on a container went through: the loaded row, the checks that passed and
  the transaction that queued the operation.  All checks leave the store as they found it, so the
  checks and the transaction speak of the same rows.
\<close>

lemma ask_unit_frame: "acquire_owner_capacity_lock owner w = (Inr (), w') \<Longrightarrow> w_db w' = w_db w \<and> w_env w' = w_env w"
  by (auto simp: acquire_owner_capacity_lock_def ask_Inr)

lemma load_container_Inr:
  assumes "load_container ctx cid w = (Inr c, w')"
  shows "get_container cid (w_db w) = Inr c \<and> require_owner_access ctx (c_owner c) = None
     \<and> w_db w' = w_db w \<and> w_env w' = w_env w \<and> w_log w' = w_log w"
  using assms unfolding load_container_def by (auto simp: act_Inr)

lemma load_live_container_Inr:
  assumes "load_live_container ctx cid w = (Inr c, w')"
  shows "get_container cid (w_db w) = Inr c \<and> require_owner_access ctx (c_owner c) = None
     \<and> c_status c \<noteq> CMissing \<and> c_docker_id c \<noteq> [] \<and> w_db w' = w_db w \<and> w_env w' = w_env w \<and> w_log w' = w_log w"
proof -
  obtain c1 w1 where l: "load_container ctx cid w = (Inr c1, w1)"
    using assms by (auto simp: load_live_container_def seq_Inr_iff)
  show ?thesis
    using assms l load_container_Inr[OF l]
    by (auto simp: load_live_container_def seq_def mark_container_error_def ignore_def fail_def
        split: if_splits prod.splits)
qed

lemma exec_Inr: "exec f w = (Inr (), w') \<longleftrightarrow>
    e_fault (w_env w) (w_tick w) = None \<and>
    (\<exists>d. f (e_now (w_env w) (w_tick w)) (w_db w) = Inr d \<and> w' = w\<lparr>w_tick := Suc (w_tick w), w_db := d\<rparr>)"
  by (auto simp: exec_def ext_def Let_def split: option.splits sum.splits)

lemma queue_operation_Inr:
  assumes "queue_operation c kind busy desired dmn port prev w = (Inr (), w')"
  shows "w_env w' = w_env w \<and> w_log w' = w_log w
     \<and> (\<exists>oid rid msg t. queue_container_operation (c_id c) busy desired
          (new_operation oid RContainer (c_id c) (c_owner c) kind)
          (new_outbox rid oid (c_id c) container_exchange container_routing_key msg) t (w_db w) = Inr (w_db w')
        \<and> m_operation msg = oid \<and> m_container msg = c_id c \<and> m_kind msg = kind \<and> m_domain msg = dmn
        \<and> m_port msg = port \<and> m_previous msg = prev)"
  using assms
  by (fastforce simp: queue_operation_def seq_Inr_iff exec_Inr fresh_def now_def sample_def get_env_def Let_def)

text \<open>The transaction itself.\<close>

lemma queue_container_operation_Inr:
  assumes "queue_container_operation cid s des op r t d = Inr d'"
  shows "t_containers d' = update_where (\<lambda>c. c_id c = cid) (\<lambda>c. observed t (c\<lparr>c_status := s, c_desired := des\<rparr>)) (t_containers d)
     \<and> t_ops d' = t_ops d @ [op_row t op] \<and> t_cout d' = t_cout d @ [fresh_row t r]
     \<and> (\<exists>c \<in> set (t_containers d). c_id c = cid)"
  using assms unfolding queue_container_operation_def by (auto simp: repo_simps)

lemma start_Inr:
  assumes "start ctx cid w = (Inr (), w')"
  obtains c mem cpu where "get_container cid (w_db w) = Inr c" "require_owner_access ctx (c_owner c) = None"
    "w_env w' = w_env w"
    "mem = normalize_memory (c_memory c) (e_config (w_env w))" "cpu = normalize_cpu (c_cpu c) (e_config (w_env w))"
    "\<exists>n used. get_user_reserved_memory (c_owner c) (w_db w) = Inr used
        \<and> i64 (used + mem) \<le> user_memory_quota (e_user (w_env w) n (c_owner c))"
    "\<exists>n used. get_user_reserved_cpu (c_owner c) (w_db w) = Inr used
        \<and> i64 (used + cpu) \<le> user_cpu_quota (e_user (w_env w) n (c_owner c))"
    "\<exists>n used. get_total_reserved_memory (w_db w) = Inr used
        \<and> i64 (used + max 0 mem) \<le> host_memory_pool (e_total_memory (w_env w) n)
             (g_reserved_system_memory (e_config (w_env w))) (g_overcommit (e_config (w_env w)))"
    "\<exists>oid rid msg t. queue_container_operation (c_id c) CStarting CRunning
          (new_operation oid RContainer (c_id c) (c_owner c) OpStart)
          (new_outbox rid oid (c_id c) container_exchange container_routing_key msg) t (w_db w) = Inr (w_db w')"
proof -
  from assms obtain c w1 w2 w3 w4 w5 w6 w7 w8 where
    s: "load_live_container ctx cid w = (Inr c, w1)"
      "acquire_owner_capacity_lock (c_owner c) w1 = (Inr (), w2)"
      "check_user_quota (c_owner c) (normalize_memory (c_memory c) (e_config (w_env w2))) w2 = (Inr (), w3)"
      "check_user_cpu_quota (c_owner c) (normalize_cpu (c_cpu c) (e_config (w_env w2))) w3 = (Inr (), w4)"
      "check_host_capacity (normalize_memory (c_memory c) (e_config (w_env w2))) w4 = (Inr (), w5)"
      "check_host_cpu_capacity (normalize_cpu (c_cpu c) (e_config (w_env w2))) w5 = (Inr (), w6)"
      "check_user_disk_quota (c_owner c) w6 = (Inr (), w7)" "check_host_disk w7 = (Inr (), w8)"
      "queue_operation c OpStart CStarting CRunning [] 0 (c_status c) w8 = (Inr (), w')"
    unfolding start_def Let_def seq_Inr_iff get_config_Inr by auto
  note f1 = load_live_container_Inr[OF s(1)] and f2 = ask_unit_frame[OF s(2)]
    and f3 = check_user_quota_Inr[OF s(3)] and f4 = check_user_cpu_quota_Inr[OF s(4)]
    and f5 = check_host_capacity_Inr[OF s(5)] and f6 = check_host_cpu_capacity_Inr[OF s(6)]
    and f7 = check_user_disk_quota_frame[OF s(7)] and f8 = check_host_disk_frame[OF s(8)]
    and f9 = queue_operation_Inr[OF s(9)]
  show thesis
  proof (rule that)
    show "get_container cid (w_db w) = Inr c" "require_owner_access ctx (c_owner c) = None" using f1 by auto
    show "w_env w' = w_env w" using f1 f2 f3 f4 f5 f6 f7 f8 f9 by simp
    show "normalize_memory (c_memory c) (e_config (w_env w2)) = normalize_memory (c_memory c) (e_config (w_env w))"
      "normalize_cpu (c_cpu c) (e_config (w_env w2)) = normalize_cpu (c_cpu c) (e_config (w_env w))"
      using f1 f2 by simp_all
    show "\<exists>n used. get_user_reserved_memory (c_owner c) (w_db w) = Inr used \<and>
        i64 (used + normalize_memory (c_memory c) (e_config (w_env w2))) \<le> user_memory_quota (e_user (w_env w) n (c_owner c))"
      using f1 f2 f3 by simp
    show "\<exists>n used. get_user_reserved_cpu (c_owner c) (w_db w) = Inr used \<and>
        i64 (used + normalize_cpu (c_cpu c) (e_config (w_env w2))) \<le> user_cpu_quota (e_user (w_env w) n (c_owner c))"
      using f1 f2 f3 f4 by simp
    show "\<exists>n used. get_total_reserved_memory (w_db w) = Inr used \<and>
        i64 (used + max 0 (normalize_memory (c_memory c) (e_config (w_env w2)))) \<le> host_memory_pool (e_total_memory (w_env w) n)
          (g_reserved_system_memory (e_config (w_env w))) (g_overcommit (e_config (w_env w)))"
      using f1 f2 f3 f4 f5 by simp
    show "\<exists>oid rid msg t. queue_container_operation (c_id c) CStarting CRunning
          (new_operation oid RContainer (c_id c) (c_owner c) OpStart)
          (new_outbox rid oid (c_id c) container_exchange container_routing_key msg) t (w_db w) = Inr (w_db w')"
      using f1 f2 f3 f4 f5 f6 f7 f8 f9 by auto
  qed
qed

section \<open>Reservations after a start\<close>

text \<open>Queueing a start adds at most the memory (or CPU) of the container to any sum of reservations.\<close>

lemma sum_after_start:
  assumes "schema_ok d" and "get_container cid d = Inr c"
    and q: "queue_container_operation (c_id c) CStarting CRunning op r t d = Inr d'"
    and g: "\<And>x y s t. g (observed t (x\<lparr>c_status := s, c_desired := y\<rparr>)) = g x" and "0 \<le> g c"
    and Q: "\<And>x y s t. Q (observed t (x\<lparr>c_status := s, c_desired := y\<rparr>)) = Q x"
  shows "sum_where (\<lambda>c. Q c \<and> counts_reserved c) g (t_containers d')
    \<le> sum_where (\<lambda>c. Q c \<and> counts_reserved c) g (t_containers d) + g c"
proof -
  have c: "c \<in> set (t_containers d)" using get_container_mem[OF assms(2)] by simp
  have u: "distinct (map c_id (t_containers d))"
    using assms(1) by (simp add: schema_ok_def container_violation_None uniq_def)
  have "t_containers d' = update_where (\<lambda>x. c_id x = c_id c)
      (\<lambda>c. observed t (c\<lparr>c_status := CStarting, c_desired := CRunning\<rparr>)) (t_containers d)"
    using queue_container_operation_Inr[OF q] by simp
  then show ?thesis
    using sum_where_update_one[OF u c, of "\<lambda>c. observed t (c\<lparr>c_status := CStarting, c_desired := CRunning\<rparr>)"
        "\<lambda>c. Q c \<and> counts_reserved c" g] g Q \<open>0 \<le> g c\<close>
    by auto
qed

end
