(* ===== verification/AdmissionProps.thy ===== *)
theory AdmissionProps
  imports StartSteps Samples
begin

text \<open>Properties of admission control: what may be started stays within the quotas and the host.\<close>

lemma scan_Inr: "scan_i64 x = Inr y \<Longrightarrow> y = x \<and> in_i64 x"
  by (simp add: scan_i64_Inr)

definition idle_world :: world where
  "idle_world = sample_world\<lparr>w_db := sample_db\<lparr>t_ops := [], t_cout := []\<rparr>\<rparr>"

definition alice :: scope where
  "alice = user_scope 7 ''alice'' ''user''"

lemma sample_start: "fst (start (Some alice) 1 idle_world) = Inr ()"
  by code_simp

lemma sample_start_run: "start (Some alice) 1 idle_world = (Inr (), snd (start (Some alice) 1 idle_world))"
  using sample_start by (metis prod.collapse)

lemma idle_facts:
  "schema_ok (w_db idle_world)" "get_container 1 (w_db idle_world) = Inr sample_container"
  "t_containers (w_db idle_world) = [sample_container]" "w_env idle_world = sample_env"
  by (simp_all add: idle_world_def sample_defs schema_ok_def violation_None mount_violation_def
      volume_violation_def uniq_def get_container_def find_row_def)

text \<open>
  A start that is accepted keeps its owner within the memory and CPU quota: whatever the
  owner's containers had reserved before, the reservations afterwards are at most the quota the
  user service answered (provided the int64 additions of the check do not wrap).
\<close>

lemma owner_within_quota:
  assumes "start ctx cid w = (Inr (), w')" and "schema_ok (w_db w)"
    and c: "get_container cid (w_db w) = Inr c"
    and "sum_where (\<lambda>c'. c_owner c' = c_owner c \<and> counts_reserved c') c_memory (t_containers (w_db w))
           + normalize_memory (c_memory c) (e_config (w_env w)) < 2 ^ 63"
    and "sum_where (\<lambda>c'. c_owner c' = c_owner c \<and> counts_reserved c') c_cpu (t_containers (w_db w))
           + normalize_cpu (c_cpu c) (e_config (w_env w)) < 2 ^ 63"
    and "0 \<le> g_default_memory (e_config (w_env w))" and "0 \<le> g_default_cpu (e_config (w_env w))"
  shows "\<exists>n k.
     sum_where (\<lambda>c'. c_owner c' = c_owner c \<and> counts_reserved c') c_memory (t_containers (w_db w'))
       \<le> user_memory_quota (e_user (w_env w) n (c_owner c))
     \<and> sum_where (\<lambda>c'. c_owner c' = c_owner c \<and> counts_reserved c') c_cpu (t_containers (w_db w'))
       \<le> user_cpu_quota (e_user (w_env w) k (c_owner c))"
  using assms(1)
proof (rule start_Inr)
  fix c1 mem cpu
  assume c1: "get_container cid (w_db w) = Inr c1"
    and mem: "mem = normalize_memory (c_memory c1) (e_config (w_env w))"
    and cpu: "cpu = normalize_cpu (c_cpu c1) (e_config (w_env w))"
    and m: "\<exists>n used. get_user_reserved_memory (c_owner c1) (w_db w) = Inr used
        \<and> i64 (used + mem) \<le> user_memory_quota (e_user (w_env w) n (c_owner c1))"
    and p: "\<exists>n used. get_user_reserved_cpu (c_owner c1) (w_db w) = Inr used
        \<and> i64 (used + cpu) \<le> user_cpu_quota (e_user (w_env w) n (c_owner c1))"
    and q: "\<exists>oid rid msg t. queue_container_operation (c_id c1) CStarting CRunning
          (new_operation oid RContainer (c_id c1) (c_owner c1) OpStart)
          (new_outbox rid oid (c_id c1) container_exchange container_routing_key msg) t (w_db w) = Inr (w_db w')"
  have [simp]: "c1 = c" using c1 c by simp
  let ?P = "\<lambda>c'. c_owner c' = c_owner c \<and> counts_reserved c'"
  let ?mem = "sum_where ?P c_memory (t_containers (w_db w))" and ?cpu = "sum_where ?P c_cpu (t_containers (w_db w))"
  have nn: "\<forall>x \<in> set (t_containers (w_db w)). 0 \<le> c_memory x \<and> 0 \<le> c_cpu x"
    using assms(2) by (simp add: schema_ok_def container_violation_None)
  have cc: "0 \<le> c_memory c" "0 \<le> c_cpu c" using nn get_container_mem[OF c] by auto
  have le: "c_memory c \<le> mem" "c_cpu c \<le> cpu" "0 \<le> mem" "0 \<le> cpu"
    using cc assms(6,7) by (auto simp: mem cpu normalize_memory_def normalize_cpu_def)
  have "0 \<le> ?mem" "0 \<le> ?cpu" using nn by (auto intro!: sum_where_nonneg)
  then have i: "i64 (?mem + mem) = ?mem + mem" "i64 (?cpu + cpu) = ?cpu + cpu"
    using assms(4,5) le by (auto intro!: i64_id simp: in_i64_def mem cpu)
  from q obtain op r t where qd: "queue_container_operation (c_id c) CStarting CRunning op r t (w_db w) = Inr (w_db w')"
    by auto
  have "sum_where ?P c_memory (t_containers (w_db w')) \<le> ?mem + c_memory c"
    by (rule sum_after_start[OF assms(2) c qd, where Q = "\<lambda>c'. c_owner c' = c_owner c"]) (simp_all add: cc)
  moreover have "sum_where ?P c_cpu (t_containers (w_db w')) \<le> ?cpu + c_cpu c"
    by (rule sum_after_start[OF assms(2) c qd, where Q = "\<lambda>c'. c_owner c' = c_owner c"]) (simp_all add: cc)
  moreover obtain n where "?mem + mem \<le> user_memory_quota (e_user (w_env w) n (c_owner c))"
    using m i by (auto simp: get_user_reserved_memory_def scan_i64_Inr)
  moreover obtain k where "?cpu + cpu \<le> user_cpu_quota (e_user (w_env w) k (c_owner c))"
    using p i by (auto simp: get_user_reserved_cpu_def scan_i64_Inr)
  ultimately show ?thesis using le by (intro exI[of _ n] exI[of _ k]) linarith
qed

text \<open>
  A start that is accepted keeps the host within its memory pool: afterwards the reservations
  of all containers that run or are to run are at most the pool, the memory of the host less the
  reserve of the system times the overcommit factor.
\<close>

lemma host_within_pool:
  assumes "start ctx cid w = (Inr (), w')" and "schema_ok (w_db w)"
    and c: "get_container cid (w_db w) = Inr c"
    and "sum_where counts_reserved c_memory (t_containers (w_db w))
           + normalize_memory (c_memory c) (e_config (w_env w)) < 2 ^ 63"
    and "0 \<le> g_default_memory (e_config (w_env w))"
  shows "\<exists>n. sum_where counts_reserved c_memory (t_containers (w_db w'))
     \<le> host_memory_pool (e_total_memory (w_env w) n)
         (g_reserved_system_memory (e_config (w_env w))) (g_overcommit (e_config (w_env w)))"
  using assms(1)
proof (rule start_Inr)
  fix c1 mem cpu
  assume c1: "get_container cid (w_db w) = Inr c1"
    and mem: "mem = normalize_memory (c_memory c1) (e_config (w_env w))"
    and m: "\<exists>n used. get_total_reserved_memory (w_db w) = Inr used
        \<and> i64 (used + max 0 mem) \<le> host_memory_pool (e_total_memory (w_env w) n)
             (g_reserved_system_memory (e_config (w_env w))) (g_overcommit (e_config (w_env w)))"
    and q: "\<exists>oid rid msg t. queue_container_operation (c_id c1) CStarting CRunning
          (new_operation oid RContainer (c_id c1) (c_owner c1) OpStart)
          (new_outbox rid oid (c_id c1) container_exchange container_routing_key msg) t (w_db w) = Inr (w_db w')"
  have [simp]: "c1 = c" using c1 c by simp
  let ?mem = "sum_where counts_reserved c_memory (t_containers (w_db w))"
  have nn: "\<forall>x \<in> set (t_containers (w_db w)). 0 \<le> c_memory x"
    using assms(2) by (simp add: schema_ok_def container_violation_None)
  have cc: "0 \<le> c_memory c" using nn get_container_mem[OF c] by auto
  have le: "c_memory c \<le> mem" "0 \<le> mem" using cc assms(5) by (auto simp: mem normalize_memory_def)
  have "0 \<le> ?mem" using nn by (auto intro!: sum_where_nonneg)
  then have i: "i64 (?mem + max 0 mem) = ?mem + mem"
    using assms(4) le by (subst i64_id) (auto simp: in_i64_def mem max_def)
  from q obtain op r t where qd: "queue_container_operation (c_id c) CStarting CRunning op r t (w_db w) = Inr (w_db w')"
    by auto
  have "sum_where counts_reserved c_memory (t_containers (w_db w')) \<le> ?mem + c_memory c"
    using sum_after_start[OF assms(2) c qd, where Q = "\<lambda>_. True" and g = c_memory] cc by simp
  moreover obtain n where "?mem + mem \<le> host_memory_pool (e_total_memory (w_env w) n)
      (g_reserved_system_memory (e_config (w_env w))) (g_overcommit (e_config (w_env w)))"
    using m i by (auto simp: get_total_reserved_memory_def scan_i64_Inr)
  ultimately show ?thesis using le by (intro exI[of _ n]) linarith
qed

text \<open>
  C6. A start that is accepted keeps its owner within the memory and CPU quota the user service
  answered, and the host within its memory pool: whatever was reserved before, the reservations
  afterwards are at most these limits (provided the int64 additions of the checks do not wrap).
\<close>

theorem start_respects_quotas:
  assumes "start ctx cid w = (Inr (), w')" and "schema_ok (w_db w)"
    and "get_container cid (w_db w) = Inr c"
    and "sum_where counts_reserved c_memory (t_containers (w_db w))
           + normalize_memory (c_memory c) (e_config (w_env w)) < 2 ^ 63"
    and "sum_where (\<lambda>c'. c_owner c' = c_owner c \<and> counts_reserved c') c_memory (t_containers (w_db w))
           + normalize_memory (c_memory c) (e_config (w_env w)) < 2 ^ 63"
    and "sum_where (\<lambda>c'. c_owner c' = c_owner c \<and> counts_reserved c') c_cpu (t_containers (w_db w))
           + normalize_cpu (c_cpu c) (e_config (w_env w)) < 2 ^ 63"
    and "0 \<le> g_default_memory (e_config (w_env w))" and "0 \<le> g_default_cpu (e_config (w_env w))"
  shows "(\<exists>n k.
       sum_where (\<lambda>c'. c_owner c' = c_owner c \<and> counts_reserved c') c_memory (t_containers (w_db w'))
         \<le> user_memory_quota (e_user (w_env w) n (c_owner c))
       \<and> sum_where (\<lambda>c'. c_owner c' = c_owner c \<and> counts_reserved c') c_cpu (t_containers (w_db w'))
         \<le> user_cpu_quota (e_user (w_env w) k (c_owner c)))
     \<and> (\<exists>n. sum_where counts_reserved c_memory (t_containers (w_db w'))
       \<le> host_memory_pool (e_total_memory (w_env w) n)
           (g_reserved_system_memory (e_config (w_env w))) (g_overcommit (e_config (w_env w))))"
  using owner_within_quota[OF assms(1-3,5-8)] host_within_pool[OF assms(1-4,7)] by blast

theorem start_respects_quotas_witness:
  "sum_where (\<lambda>c'. c_owner c' = 7 \<and> counts_reserved c') c_memory
     (t_containers (w_db (snd (start (Some alice) 1 idle_world)))) \<le> user_memory_quota sample_user
   \<and> sum_where counts_reserved c_memory (t_containers (w_db (snd (start (Some alice) 1 idle_world))))
     \<le> host_memory_pool 17179869184 0 1"
  using start_respects_quotas[OF sample_start_run idle_facts(1,2)]
  by (simp add: idle_facts sample_container_def sample_env_def sample_config_def counts_reserved_def
      normalize_memory_def normalize_cpu_def)

end
