(* ===== verification/ResourceService.thy ===== *)
theory ResourceService
  imports ContainerWorker CoreStep
begin

text \<open>
  Volumes and images: the requests of users (internal/core/service/volume.go, image.go), which
  queue a create or delete operation with its outbox row, and the worker that executes these
  operations (resource_lifecycle_worker.go) together with what the consumer of the queue does with
  its result (infrastructure/rabbitmq/resource_consumer.go).  The message of the queue is the
  decoded one; a message that does not decode is dead-lettered before it reaches the model.
\<close>

section \<open>Queueing an operation\<close>

definition resource_exchange :: string where "resource_exchange = ''dcm.resources''"
definition resource_routing_key :: string where "resource_routing_key = ''resource.lifecycle''"

definition resource_operation_outbox ::
    "res_type \<Rightarrow> id \<Rightarrow> id \<Rightarrow> op_kind \<Rightarrow> (operation \<times> resource_message outbox) act" where
  "resource_operation_outbox rt rid owner kind =
     seq fresh (\<lambda>oid.
     seq get_env (\<lambda>env.
     seq now (\<lambda>t.
     seq fresh (\<lambda>bid.
     let msg = \<lparr> rm_operation = oid, rm_resource = rid, rm_rtype = rt, rm_owner = owner,
                 rm_kind = kind, rm_request = e_request env, rm_created = unix_seconds t \<rparr>
     in ret (new_operation oid rt rid owner kind,
             new_outbox bid oid rid resource_exchange resource_routing_key msg)))))"

section \<open>Volumes\<close>

definition volume_docker_name :: "env \<Rightarrow> id \<Rightarrow> string \<Rightarrow> string" where
  "volume_docker_name env owner name = ''vol_'' @ take 8 (e_uuid_text env owner) @ ''_'' @ name"

definition volume_host_disk_floor :: "unit act" where
  "volume_host_disk_floor = seq get_config (\<lambda>cfg. ensure_host_disk_floor (g_min_free_disk cfg))"

definition create_volume :: "scope option \<Rightarrow> id option \<Rightarrow> string \<Rightarrow> id act" where
  "create_volume ctx project name = (case require_user_owner ctx of
       Inl e \<Rightarrow> fail e
     | Inr owner \<Rightarrow>
         seq (check_input (check_resource_name name)) (\<lambda>_.
         seq (ensure_disk_quota_available owner) (\<lambda>_.
         seq volume_host_disk_floor (\<lambda>_.
         seq (query (count_volumes_by_owner owner)) (\<lambda>n.
         seq get_config (\<lambda>cfg.
         if n \<ge> g_max_volumes cfg then fail (Sentinel ErrLimitExceeded) else
         seq fresh (\<lambda>vid.
         seq get_env (\<lambda>env.
         let v = \<lparr> v_id = vid, v_owner = owner, v_project = project, v_name = name,
                   v_docker_name = volume_docker_name env owner name, v_status = VCreating,
                   v_observed = None, v_last_error = None, v_used_bytes = 0,
                   v_usage_observed = None, v_created = 0 \<rparr> in
         seq (resource_operation_outbox RVolume vid owner OpCreate) (\<lambda>(op, row).
         seq (exec (create_queued_volume v op row)) (\<lambda>_. ret vid))))))))))"

definition volume_not_available :: goerr where
  "volume_not_available = mk_err ErrConflict ''volume is not available''"

definition resolve_by_name :: "scope option \<Rightarrow> string \<Rightarrow> id act" where
  "resolve_by_name ctx name = (case require_user_owner ctx of
       Inl e \<Rightarrow> fail e
     | Inr owner \<Rightarrow>
         seq (check_input (check_resource_name name)) (\<lambda>_.
         seq (query (get_volume_by_name owner name)) (\<lambda>v.
         case v_status v of
           VAvailable \<Rightarrow> ret (v_id v)
         | VMissing \<Rightarrow> fail (resource_unavailable ''volume'')
         | _ \<Rightarrow> fail volume_not_available)))"

text \<open>The volume of a compose project: created when there is none, linked when it is available.\<close>

definition resolve_project_managed :: "scope option \<Rightarrow> id \<Rightarrow> string \<Rightarrow> (id \<times> bool) act" where
  "resolve_project_managed ctx pid name = (case require_user_owner ctx of
       Inl e \<Rightarrow> fail e
     | Inr owner \<Rightarrow>
         seq (check_input (check_resource_name name)) (\<lambda>_.
         seq (attempt (query (get_volume_by_name owner name))) (\<lambda>r. case r of
           Inl e \<Rightarrow> if errors_is e ErrNotFound
                    then seq (create_volume ctx (Some pid) name) (\<lambda>vid. ret (vid, False))
                    else fail e
         | Inr v \<Rightarrow> (case v_status v of
               VAvailable \<Rightarrow> seq (exec (link_project_volume pid (v_id v))) (\<lambda>_. ret (v_id v, True))
             | VCreating \<Rightarrow> seq (query (is_linked_to_project pid (v_id v))) (\<lambda>linked.
                 if linked then ret (v_id v, False) else fail volume_not_available)
             | VMissing \<Rightarrow> fail (resource_unavailable ''volume'')
             | _ \<Rightarrow> fail volume_not_available))))"

definition load_volume :: "scope option \<Rightarrow> id \<Rightarrow> volume act" where
  "load_volume ctx vid =
     seq (query (get_volume vid)) (\<lambda>v.
     seq (check (require_owner_access ctx (v_owner v))) (\<lambda>_. ret v))"

definition unlink_volume :: "scope option \<Rightarrow> id \<Rightarrow> id \<Rightarrow> unit act" where
  "unlink_volume ctx pid vid = seq (load_volume ctx vid) (\<lambda>_. exec (unlink_project_volume pid vid))"

definition request_delete_volume :: "scope option \<Rightarrow> id \<Rightarrow> unit act" where
  "request_delete_volume ctx vid =
     seq (load_volume ctx vid) (\<lambda>v.
     seq (query (is_volume_in_use vid)) (\<lambda>in_use.
     if in_use then fail (mk_err ErrResourceInUse ''volume is currently used by a container'') else
     seq (query (resource_has_active_operation RVolume vid)) (\<lambda>active.
     if active then fail active_operation_error else
     seq (resource_operation_outbox RVolume vid (v_owner v) OpDelete) (\<lambda>(op, row).
     exec (queue_volume_delete vid op row)))))"

definition list_all_volumes :: "scope option \<Rightarrow> int \<Rightarrow> int \<Rightarrow> (volume list \<times> nat) act" where
  "list_all_volumes ctx limit offset = (case require_scope ctx of
       Inl e \<Rightarrow> fail e
     | Inr s \<Rightarrow> if sc_kind s \<noteq> KindUser \<and> sc_kind s \<noteq> KindAdmin then fail (Sentinel ErrForbidden)
         else query (list_volumes \<lparr> lo_owner = owner_filter s, lo_project = None,
                       lo_limit = limit, lo_offset = offset \<rparr>))"

section \<open>The execution of a volume operation\<close>

definition resource_complete :: "id \<Rightarrow> op_status \<Rightarrow> goerr option \<Rightarrow> unit act" where
  "resource_complete oid s cause = ignore (exec (resource_complete_operation oid s cause))"

definition requeue_volume_if_retryable :: "id \<Rightarrow> goerr \<Rightarrow> bool act" where
  "requeue_volume_if_retryable oid cause =
    (if \<not> is_retryable cause then ret False
     else seq (attempt (exec (resource_requeue_operation oid (Some cause)))) (\<lambda>r. ret (is_ok r)))"

definition fail_queued_volume :: "id \<Rightarrow> id \<Rightarrow> vol_status \<Rightarrow> goerr \<Rightarrow> unit act" where
  "fail_queued_volume oid vid s cause =
     seq (ignore (exec (mark_volume_error vid s (Some (normalize_runtime_error cause))))) (\<lambda>_.
     resource_complete oid OsFailed (Some (normalize_runtime_error cause)))"

text \<open>A Docker call on a volume failed: requeue the operation or fail it, and return the error.\<close>

definition volume_docker_error :: "id \<Rightarrow> id \<Rightarrow> goerr \<Rightarrow> unit act" where
  "volume_docker_error oid vid e =
    (let err = normalize_runtime_error e in
     seq (requeue_volume_if_retryable oid err) (\<lambda>requeued.
     if requeued then fail err
     else seq (fail_queued_volume oid vid VError err) (\<lambda>_. fail err)))"

definition execute_volume_create :: "id \<Rightarrow> id \<Rightarrow> unit act" where
  "execute_volume_create oid vid =
     seq (on_error (query (get_volume vid))
            (\<lambda>e. seq (resource_complete oid OsFailed (Some e)) (\<lambda>_. fail e))) (\<lambda>v.
     seq (on_error (perform (DockerCreateVolume \<lparr> vs_name = v_docker_name v, vs_volume = v_id v,
              vs_owner = v_owner v, vs_project = v_project v \<rparr>)) (volume_docker_error oid vid)) (\<lambda>_.
     seq (ignore (exec (update_volume_status vid VAvailable))) (\<lambda>_.
     resource_complete oid OsDone None)))"

definition execute_volume_delete :: "id \<Rightarrow> id \<Rightarrow> unit act" where
  "execute_volume_delete oid vid =
     seq (attempt (query (get_volume vid))) (\<lambda>r. case r of
         Inl e \<Rightarrow> if e = Sentinel ErrNotFound then resource_complete oid OsDone None
                  else seq (resource_complete oid OsFailed (Some e)) (\<lambda>_. fail e)
       | Inr v \<Rightarrow>
           seq (on_error (perform (DockerRemoveVolume (v_docker_name v)))
                  (\<lambda>e. if is_docker_not_found e then ret () else volume_docker_error oid vid e)) (\<lambda>_.
           seq (on_error (exec (delete_volume vid)) (\<lambda>e.
                  if e = Sentinel ErrNotFound then ret ()
                  else seq (fail_queued_volume oid vid VError e) (\<lambda>_. fail e))) (\<lambda>_.
           resource_complete oid OsDone None)))"

definition attempts_spent :: "config \<Rightarrow> operation \<Rightarrow> bool" where
  "attempts_spent cfg op \<longleftrightarrow>
     o_status op = OsPending \<and> g_max_attempts cfg > 0 \<and> o_attempts op \<ge> g_max_attempts cfg"

definition execute_volume_operation :: "id \<Rightarrow> id \<Rightarrow> unit act" where
  "execute_volume_operation oid vid =
     seq get_config (\<lambda>cfg.
     seq (exec_get (resource_claim_operation oid (g_max_attempts cfg))) (\<lambda>(op, claimed).
     if \<not> claimed then
       if attempts_spent cfg op
       then fail_queued_volume oid vid VError (mk_err ErrTimeout ''volume lifecycle attempts exhausted'')
       else ret ()
     else if o_rtype op \<noteq> RVolume \<or> o_rid op \<noteq> vid then
       let cause = mk_err ErrBadRequest ''volume lifecycle message does not match operation'' in
       seq (resource_complete oid OsFailed (Some cause)) (\<lambda>_. fail cause)
     else (case o_kind op of
         OpCreate \<Rightarrow> execute_volume_create oid vid
       | OpDelete \<Rightarrow> execute_volume_delete oid vid
       | _ \<Rightarrow> let cause = mk_err ErrBadRequest ''unsupported volume lifecycle operation'' in
           seq (fail_queued_volume oid vid VError cause) (\<lambda>_. fail cause))))"

section \<open>Images\<close>

definition request_delete_image :: "scope option \<Rightarrow> id \<Rightarrow> unit act" where
  "request_delete_image ctx iid =
     seq (query (get_image iid)) (\<lambda>i.
     seq (check (require_owner_access ctx (i_owner i))) (\<lambda>_.
     seq (query (is_image_in_use (i_owner i) (i_tag i))) (\<lambda>in_use.
     if in_use then fail (mk_err ErrResourceInUse ''image is currently used by a container'')
     else if i_status i \<noteq> IAvailable \<and> i_status i \<noteq> IMissing
       then fail (mk_err ErrConflict ''image is not available'') else
     seq (query (resource_has_active_operation RImage iid)) (\<lambda>active.
     if active then fail active_operation_error else
     seq (resource_operation_outbox RImage iid (i_owner i) OpDelete) (\<lambda>(op, row).
     exec (queue_image_delete iid op row))))))"

definition list_all_images :: "scope option \<Rightarrow> int \<Rightarrow> int \<Rightarrow> (image list \<times> nat) act" where
  "list_all_images ctx limit offset = (case require_scope ctx of
       Inl e \<Rightarrow> fail e
     | Inr s \<Rightarrow> if sc_kind s \<noteq> KindUser \<and> sc_kind s \<noteq> KindAdmin then fail (Sentinel ErrForbidden)
         else query (list_images \<lparr> lo_owner = owner_filter s, lo_project = None,
                       lo_limit = limit, lo_offset = offset \<rparr>))"

definition fail_queued_image :: "id \<Rightarrow> id \<Rightarrow> goerr \<Rightarrow> unit act" where
  "fail_queued_image oid iid cause =
     seq (ignore (exec (mark_image_error iid IError (Some (normalize_runtime_error cause))))) (\<lambda>_.
     resource_complete oid OsFailed (Some (normalize_runtime_error cause)))"

text \<open>The manifest in the registry and the copy in Docker go first; failing to remove them is no error.\<close>

definition remove_from_registry :: "string \<Rightarrow> string \<Rightarrow> unit act" where
  "remove_from_registry repo version =
     seq (attempt (ask (\<lambda>e n. e_manifest e n repo version))) (\<lambda>r. case r of
         Inl e \<Rightarrow> ret ()
       | Inr (bytes, digest) \<Rightarrow>
           if digest \<noteq> [] then ignore (perform (RegistryDelete repo digest)) else ret ())"

definition execute_image_delete :: "id \<Rightarrow> id \<Rightarrow> unit act" where
  "execute_image_delete oid iid =
     seq (attempt (query (get_image iid))) (\<lambda>r. case r of
         Inl e \<Rightarrow> if errors_is e ErrNotFound then resource_complete oid OsDone None
                  else seq (resource_complete oid OsFailed (Some e)) (\<lambda>_. fail e)
       | Inr i \<Rightarrow>
           seq get_env (\<lambda>env.
           case parse_tag (i_tag i) of (base, version) \<Rightarrow>
           let owner = e_uuid_text env (i_owner i) in
           seq (remove_from_registry (custom_repository_name owner base) version) (\<lambda>_.
           seq (ignore (perform (DockerRemoveImage
                  (custom_full_tag (g_registry_url (e_config env)) owner base version)))) (\<lambda>_.
           seq (attempt (exec (delete_image iid))) (\<lambda>r. case r of
               Inr _ \<Rightarrow> resource_complete oid OsDone None
             | Inl e \<Rightarrow>
                 if errors_is e ErrNotFound then resource_complete oid OsDone None
                 else if is_retryable e then
                   seq (attempt (exec (resource_requeue_operation oid (Some e)))) (\<lambda>q.
                   seq (case q of Inl qe \<Rightarrow> fail_queued_image oid iid qe | Inr _ \<Rightarrow> ret ()) (\<lambda>_. fail e))
                 else seq (fail_queued_image oid iid e) (\<lambda>_. fail e))))))"

definition execute_image_operation :: "id \<Rightarrow> id \<Rightarrow> unit act" where
  "execute_image_operation oid iid =
     seq get_config (\<lambda>cfg.
     seq (exec_get (resource_claim_operation oid (g_max_attempts cfg))) (\<lambda>(op, claimed).
     if \<not> claimed then
       if attempts_spent cfg op
       then fail_queued_image oid iid (mk_err ErrTimeout ''image lifecycle attempts exhausted'')
       else ret ()
     else if o_rtype op \<noteq> RImage \<or> o_rid op \<noteq> iid \<or> o_kind op \<noteq> OpDelete then
       let cause = mk_err ErrBadRequest ''image lifecycle message does not match operation'' in
       seq (resource_complete oid OsFailed (Some cause)) (\<lambda>_. fail cause)
     else execute_image_delete oid iid))"

section \<open>The worker\<close>

definition handle_resource_message :: "resource_message \<Rightarrow> unit act" where
  "handle_resource_message msg = (case rm_rtype msg of
       RVolume \<Rightarrow> execute_volume_operation (rm_operation msg) (rm_resource msg)
     | RImage \<Rightarrow> execute_image_operation (rm_operation msg) (rm_resource msg)
     | _ \<Rightarrow> fail (mk_err ErrBadRequest ''unsupported resource type''))"

definition handle_resource_delivery :: "resource_message \<Rightarrow> world \<Rightarrow> verdict \<times> world" where
  "handle_resource_delivery msg w = (case handle_resource_message msg w of
       (Inr _, w') \<Rightarrow> (Acked, w')
     | (Inl e, w') \<Rightarrow> (if is_permanent_error e then DeadLettered else Requeued, w'))"

section \<open>Only transitions of the store\<close>

lemma follows_volume_writes [follows_intros]:
  "follows core (exec (link_project_volume p v))" "follows core (exec (unlink_project_volume p v))"
  "follows core (exec (delete_volume vid))" "follows core (exec (delete_image iid))"
  "follows core (exec (resource_requeue_operation oid e))"
  by (auto intro!: follows_exec simp: core_def intro: core_step.intros)

lemma follows_resource_complete [follows_intros]:
  "op_finished s \<Longrightarrow> follows core (resource_complete oid s e)"
  unfolding resource_complete_def
  by (intro follows_ignore follows_exec) (simp add: core_def core_step.resource_complete)

text \<open>The operation that is queued starts with no attempts.\<close>

lemma seq_resource_operation:
  "seq (resource_operation_outbox rt rid owner kind) f =
     seq fresh (\<lambda>oid. seq get_env (\<lambda>env. seq now (\<lambda>t. seq fresh (\<lambda>bid.
       f (new_operation oid rt rid owner kind,
          new_outbox bid oid rid resource_exchange resource_routing_key
            \<lparr> rm_operation = oid, rm_resource = rid, rm_rtype = rt, rm_owner = owner,
              rm_kind = kind, rm_request = e_request env, rm_created = unix_seconds t \<rparr>)))))"
  by (rule HOL.ext) (simp add: resource_operation_outbox_def act_defs)

lemma follows_queued_resources [follows_intros]:
  "o_attempts op = 0 \<Longrightarrow> follows core (exec (create_queued_volume v op row))"
  "o_attempts op = 0 \<Longrightarrow> follows core (exec (queue_volume_delete vid op row))"
  "o_attempts op = 0 \<Longrightarrow> follows core (exec (queue_image_delete iid op row))"
  by (auto intro!: follows_exec simp: core_def intro: core_step.intros)

lemma follows_disk [follows_intros]:
  "follows R (ensure_disk_quota_available owner)" "follows R volume_host_disk_floor"
  by (auto simp: ensure_disk_quota_available_def used_disk_mb_def volume_host_disk_floor_def
      ensure_host_disk_floor_def ensure_host_disk_floor_projected_def intro!: follows_intros)

lemma follows_create_volume [follows_intros]: "follows core (create_volume ctx p name)"
  unfolding create_volume_def Let_def check_input_def seq_resource_operation prod.case
  by (intro follows_intros) simp

lemma follows_volume_requests:
  "follows core (resolve_by_name ctx name)" "follows core (resolve_project_managed ctx pid name)"
  "follows core (unlink_volume ctx pid vid)" "follows core (request_delete_volume ctx vid)"
  "follows core (request_delete_image ctx iid)"
proof -
  show "follows core (resolve_by_name ctx name)"
    unfolding resolve_by_name_def check_input_def
    by (intro follows_intros) (auto split: vol_status.splits intro!: follows_intros)
  show "follows core (resolve_project_managed ctx pid name)"
    unfolding resolve_project_managed_def check_input_def
    by (intro follows_intros) (auto split: vol_status.splits intro!: follows_intros)
  show "follows core (unlink_volume ctx pid vid)"
    unfolding unlink_volume_def load_volume_def by (intro follows_intros)
  show "follows core (request_delete_volume ctx vid)"
    unfolding request_delete_volume_def load_volume_def seq_resource_operation prod.case
    by (intro follows_intros) simp
  show "follows core (request_delete_image ctx iid)"
    unfolding request_delete_image_def seq_resource_operation prod.case
    by (intro follows_intros) simp
qed

lemma resource_claim_core:
  "resource_claim_operation oid m t d = Inr (x, d') \<Longrightarrow> (core_step m)\<^sup>*\<^sup>* d d'"
  by (rule r_into_rtranclp) (rule core_step.resource_claim)

lemma follows_fail_queued [follows_intros]:
  "follows core (fail_queued_volume oid vid s e)" "follows core (fail_queued_image oid iid e)"
  unfolding fail_queued_volume_def fail_queued_image_def by (auto intro!: follows_intros)

lemma follows_volume_docker_error [follows_intros]: "follows core (volume_docker_error oid vid e)"
  unfolding volume_docker_error_def requeue_volume_if_retryable_def by (intro follows_intros)

lemma follows_volume_executions [follows_intros]:
  "follows core (execute_volume_create oid vid)" "follows core (execute_volume_delete oid vid)"
  "follows core (execute_image_delete oid iid)"
  unfolding execute_volume_create_def execute_volume_delete_def execute_image_delete_def
    remove_from_registry_def Let_def
  by (auto intro!: follows_intros)

lemma follows_volume_operation [follows_intros]: "follows core (execute_volume_operation oid vid)"
  unfolding execute_volume_operation_def Let_def
  by (rule follows_bounded[where cl = "resource_claim_operation oid"])
    (auto split: op_kind.splits intro!: follows_intros resource_claim_core)

lemma follows_image_operation [follows_intros]: "follows core (execute_image_operation oid iid)"
  unfolding execute_image_operation_def Let_def
  by (rule follows_bounded[where cl = "resource_claim_operation oid"])
    (auto intro!: follows_intros resource_claim_core)

lemma follows_handle_resource: "follows core (handle_resource_message msg)"
  unfolding handle_resource_message_def by (auto split: res_type.splits intro!: follows_intros)

end
