(* ===== verification/Commits.thy ===== *)
theory Commits
  imports World
begin

text \<open>
  Acts that do not reach the outside world: they leave the log of external calls as it is, although
  they may change the store.
\<close>

named_theorems silent_intros \<open>rules that compose silent\<close>

definition silent :: "'a act \<Rightarrow> bool" where
  "silent m \<longleftrightarrow> (\<forall>w. w_log (snd (m w)) = w_log w)"

lemma silentD: "silent m \<Longrightarrow> m w = (r, w') \<Longrightarrow> w_log w' = w_log w"
  unfolding silent_def by (metis snd_conv)

lemma silentI: "(\<And>w r w'. m w = (r, w') \<Longrightarrow> w_log w' = w_log w) \<Longrightarrow> silent m"
  unfolding silent_def by (metis prod.collapse)

lemma silent_pure [silent_intros]:
  "silent (ret x)" "silent (fail e)" "silent get_config" "silent get_env" "silent fresh" "silent now"
  by (auto simp: silent_def ret_def fail_def get_config_def get_env_def fresh_def now_def sample_def)

lemma silent_calls [silent_intros]:
  "silent (query f)" "silent (query_at p)" "silent (ask a)" "silent (exec g)" "silent (exec_get h)"
  by (auto simp: silent_def query_def query_at_def ask_def exec_def exec_get_def ext_def Let_def
      split: option.splits sum.splits prod.splits)

lemma silent_check [silent_intros]: "silent (check e)"
  by (cases e) (auto simp: check_def intro: silent_pure)

lemma silent_seq [silent_intros]: "silent m \<Longrightarrow> (\<And>x. silent (f x)) \<Longrightarrow> silent (seq m f)"
  unfolding silent_def seq_def by (auto split: prod.splits sum.splits) (metis snd_conv)+

lemma silent_attempt [silent_intros]: "silent m \<Longrightarrow> silent (attempt m)"
  by (rule silentI) (auto simp: attempt_def split: prod.splits dest: silentD)

lemma silent_ignore [silent_intros]: "silent m \<Longrightarrow> silent (ignore m)"
  by (rule silentI) (auto simp: ignore_def split: prod.splits dest: silentD)

lemma silent_on_error [silent_intros]: "silent m \<Longrightarrow> (\<And>e. silent (h e)) \<Longrightarrow> silent (on_error m h)"
  unfolding silent_def on_error_def by (auto split: prod.splits sum.splits) (metis snd_conv)+

lemma silent_branches [silent_intros]:
  "silent m \<Longrightarrow> silent n \<Longrightarrow> silent (if b then m else n)"
  "silent m \<Longrightarrow> (\<And>x. silent (f x)) \<Longrightarrow> silent (case y of None \<Rightarrow> m | Some x \<Rightarrow> f x)"
  "(\<And>e. silent (g e)) \<Longrightarrow> (\<And>x. silent (f x)) \<Longrightarrow> silent (case z of Inl e \<Rightarrow> g e | Inr x \<Rightarrow> f x)"
  "(\<And>a b. silent (h a b)) \<Longrightarrow> silent (case u of (a, b) \<Rightarrow> h a b)"
  "(\<And>x. silent (f x)) \<Longrightarrow> silent (let x = v in f x)"
  by (auto split: option.splits sum.splits prod.splits)


text \<open>
  Acts seen through some tables of the store: an act may leave them alone (aside), or be all or
  nothing on them (commits): unchanged when it fails, changed as a relation says when it succeeds.
\<close>

definition aside :: "(db \<Rightarrow> 't) \<Rightarrow> 'a act \<Rightarrow> bool" where
  "aside v m \<longleftrightarrow> (\<forall>w. v (w_db (snd (m w))) = v (w_db w))"

definition commits :: "(db \<Rightarrow> 't) \<Rightarrow> ('a \<Rightarrow> 't \<Rightarrow> 't \<Rightarrow> bool) \<Rightarrow> 'a act \<Rightarrow> bool" where
  "commits v Q m \<longleftrightarrow> (\<forall>w r w'. m w = (r, w') \<longrightarrow>
     (case r of Inl e \<Rightarrow> v (w_db w') = v (w_db w) | Inr x \<Rightarrow> Q x (v (w_db w)) (v (w_db w'))))"

lemma asideD: "aside v m \<Longrightarrow> m w = (r, w') \<Longrightarrow> v (w_db w') = v (w_db w)"
  unfolding aside_def by (metis snd_conv)

lemma aside_keeps: "(\<And>T. keeps (\<lambda>d. v d = T) m) \<Longrightarrow> aside v m"
  by (auto simp: keeps_def aside_def)

lemma keeps_aside: "aside v m \<Longrightarrow> keeps (\<lambda>d. v d = T) m"
  by (auto simp: keeps_def aside_def)

lemma aside_seq: "aside v m \<Longrightarrow> (\<And>x. aside v (f x)) \<Longrightarrow> aside v (seq m f)"
  unfolding aside_def seq_def by (auto split: prod.splits sum.splits) (metis snd_conv)+

lemma aside_fail: "aside v (fail e)"
  by (simp add: aside_def fail_def)

lemma aside_on_error: "aside v m \<Longrightarrow> (\<And>e. aside v (h e)) \<Longrightarrow> aside v (on_error m h)"
  unfolding aside_def on_error_def by (auto split: prod.splits sum.splits) (metis snd_conv)+

lemma commits_fail: "commits v Q (fail e)"
  by (simp add: commits_def fail_def)

lemma commits_seq:
  assumes "aside v m" and "\<And>x. commits v Q (f x)"
  shows "commits v Q (seq m f)"
  unfolding commits_def
proof (intro allI impI)
  fix w r w' assume s: "seq m f w = (r, w')"
  obtain r1 w1 where m: "m w = (r1, w1)" by (cases "m w")
  then have same: "v (w_db w1) = v (w_db w)" using asideD[OF assms(1)] by blast
  show "case r of Inl e \<Rightarrow> v (w_db w') = v (w_db w) | Inr x \<Rightarrow> Q x (v (w_db w)) (v (w_db w'))"
  proof (cases r1)
    case (Inl x) then show ?thesis using s m same by (auto simp: seq_def)
  next
    case (Inr x)
    then have "f x w1 = (r, w')" using s m by (simp add: seq_def)
    then show ?thesis using assms(2)[of x] same unfolding commits_def by metis
  qed
qed

text \<open>An error is passed on after a clean-up that leaves the tables alone.\<close>

lemma commits_on_error:
  assumes "commits v Q m" and "\<And>e. aside v (g e)"
  shows "commits v Q (on_error m (\<lambda>e. seq (g e) (\<lambda>_. fail e)))"
  unfolding commits_def
proof (intro allI impI)
  fix w r w' assume s: "on_error m (\<lambda>e. seq (g e) (\<lambda>_. fail e)) w = (r, w')"
  obtain r1 w1 where m: "m w = (r1, w1)" by (cases "m w")
  have q: "case r1 of Inl e \<Rightarrow> v (w_db w1) = v (w_db w) | Inr x \<Rightarrow> Q x (v (w_db w)) (v (w_db w1))"
    using assms(1) m unfolding commits_def by blast
  show "case r of Inl e \<Rightarrow> v (w_db w') = v (w_db w) | Inr y \<Rightarrow> Q y (v (w_db w)) (v (w_db w'))"
  proof (cases r1)
    case (Inr x)
    then show ?thesis using s m q by (auto simp: on_error_def)
  next
    case (Inl e)
    obtain r2 w2 where g: "g e w1 = (r2, w2)" by (cases "g e w1")
    then have "v (w_db w2) = v (w_db w1)" using asideD[OF assms(2)] by blast
    then show ?thesis using s m Inl g q by (cases r2) (auto simp: seq_def on_error_def fail_def)
  qed
qed

lemma commits_fst:
  assumes "commits v Q m"
  shows "commits v (\<lambda>y T T'. \<exists>z. Q (y, z) T T') (seq m (\<lambda>(y, z). ret y))"
  using assms unfolding commits_def seq_def ret_def
  by (auto split: prod.splits sum.splits) blast+

lemma commits_write:
  assumes "\<And>t d d'. f t d = Inr d' \<Longrightarrow> Q x (v d) (v d')"
  shows "commits v Q (seq (exec f) (\<lambda>_. ret x))"
  using assms by (auto simp: commits_def seq_def exec_def ext_def ret_def Let_def
      split: option.splits sum.splits prod.splits)

lemma commits_branches:
  "commits v Q m \<Longrightarrow> commits v Q n \<Longrightarrow> commits v Q (if b then m else n)"
  "(\<And>e. commits v Q (g e)) \<Longrightarrow> (\<And>x. commits v Q (f x)) \<Longrightarrow> commits v Q (case z of Inl e \<Rightarrow> g e | Inr x \<Rightarrow> f x)"
  "commits v Q m \<Longrightarrow> (\<And>x. commits v Q (k x)) \<Longrightarrow> commits v Q (case y of None \<Rightarrow> m | Some x \<Rightarrow> k x)"
  by (auto split: sum.splits option.splits)

lemma aside_pure: "aside v get_config" "aside v get_env" "aside v fresh" "aside v now" "aside v (ret x)"
  by (intro aside_keeps keeps_intros)+

end
