(* ===== verification/RequestProps.thy ===== *)
theory RequestProps
  imports StartSteps Samples EventWorker ResourceService Commits
begin

text \<open>Properties of the requests on containers: authorisation, and what a request may change.\<close>

section \<open>Authorisation\<close>

text \<open>
  C7. A user who does not own a container gets the answer not found (or the failure of the lookup)
  for every request on it, and the request changes nothing: the store and the outside world are as
  before, so the answer does not even reveal that the container exists.
\<close>

theorem other_users_are_refused:
  assumes "get_container cid (w_db w) = Inr c"
    and "sc_kind s = KindUser" and "sc_user s \<noteq> c_owner c"
  shows "start (Some s) cid w = (Inl (case e_fault (w_env w) (w_tick w) of None \<Rightarrow> Sentinel ErrNotFound | Some e \<Rightarrow> e), w\<lparr>w_tick := Suc (w_tick w)\<rparr>)
    \<and> stop (Some s) cid w = (Inl (case e_fault (w_env w) (w_tick w) of None \<Rightarrow> Sentinel ErrNotFound | Some e \<Rightarrow> e), w\<lparr>w_tick := Suc (w_tick w)\<rparr>)
    \<and> delete (Some s) cid w = (Inl (case e_fault (w_env w) (w_tick w) of None \<Rightarrow> Sentinel ErrNotFound | Some e \<Rightarrow> e), w\<lparr>w_tick := Suc (w_tick w)\<rparr>)
    \<and> expose (Some s) cid dmn port w = (Inl (case e_fault (w_env w) (w_tick w) of None \<Rightarrow> Sentinel ErrNotFound | Some e \<Rightarrow> e), w\<lparr>w_tick := Suc (w_tick w)\<rparr>)
    \<and> get_runtime_target (Some s) cid w = (Inl (case e_fault (w_env w) (w_tick w) of None \<Rightarrow> Sentinel ErrNotFound | Some e \<Rightarrow> e), w\<lparr>w_tick := Suc (w_tick w)\<rparr>)"
proof -
  let ?r = "Inl (case e_fault (w_env w) (w_tick w) of None \<Rightarrow> Sentinel ErrNotFound | Some e \<Rightarrow> e)"
  have "load_container (Some s) cid w = (?r, w\<lparr>w_tick := Suc (w_tick w)\<rparr>)"
    using assms by (auto simp: load_container_def require_owner_access_def require_scope_def allows_owner_def
        act_defs split: option.splits)
  then show ?thesis
    by (simp add: start_def stop_def delete_def expose_def get_runtime_target_def load_live_container_def seq_def)
qed

theorem other_users_are_refused_witness:
  "fst (delete (Some (user_scope 8 ''bob'' ''user'')) 1 sample_world) = Inl (Sentinel ErrNotFound)"
proof -
  have c: "get_container 1 (w_db sample_world) = Inr sample_container"
    by (simp add: sample_defs get_container_def find_row_def)
  from other_users_are_refused[OF c, of "user_scope 8 ''bob'' ''user''" "[]" 0] show ?thesis
    by (simp add: sample_container_def user_scope_def sample_world_def sample_env_def)
qed

section \<open>Creation is one transaction\<close>

text \<open>An act that changes neither the store nor the outside world when it returns an error.\<close>

definition all_or_nothing :: "'a act \<Rightarrow> bool" where
  "all_or_nothing m \<longleftrightarrow> (\<forall>w e w'. m w = (Inl e, w') \<longrightarrow> w_db w' = w_db w \<and> w_log w' = w_log w)"

lemma all_or_nothing_quiet: "quiet m \<Longrightarrow> all_or_nothing m"
  by (auto simp: all_or_nothing_def dest: quietD)

lemma all_or_nothing_seq: "quiet m \<Longrightarrow> (\<And>x. all_or_nothing (f x)) \<Longrightarrow> all_or_nothing (seq m f)"
  unfolding all_or_nothing_def seq_def
  by (fastforce split: prod.splits sum.splits dest: quietD)

lemma all_or_nothing_exec: "all_or_nothing (seq (exec f) (\<lambda>_. ret x))"
  by (auto simp: all_or_nothing_def seq_def exec_def ext_def ret_def Let_def split: option.splits sum.splits prod.splits)

lemma all_or_nothing_branches:
  "all_or_nothing m \<Longrightarrow> all_or_nothing n \<Longrightarrow> all_or_nothing (if b then m else n)"
  "(\<And>x. all_or_nothing (f x)) \<Longrightarrow> all_or_nothing (let x = v in f x)"
  by simp_all

lemma quiet_admission [quiet_intros]:
  "quiet (check_user_quota owner n)" "quiet (check_user_cpu_quota owner n)" "quiet (check_user_disk_quota owner)"
  "quiet (check_host_capacity n)" "quiet (check_host_cpu_capacity n)" "quiet check_host_disk"
  "quiet (acquire_owner_capacity_lock owner)"
  unfolding check_user_quota_def check_user_cpu_quota_def check_user_disk_quota_def ensure_disk_quota_available_def
    used_disk_mb_def check_host_capacity_def ensure_host_memory_capacity_def check_host_cpu_capacity_def
    ensure_host_cpu_capacity_def check_host_disk_def check_host_disk_for_write_def
    ensure_host_disk_floor_projected_def acquire_owner_capacity_lock_def Let_def
  by (intro quiet_intros)+

lemma quiet_create_parts [quiet_intros]:
  "quiet (check_input e)" "quiet (check_forbidden_domain dmn)" "quiet (check_create_domain params)"
  "quiet (check_queued_creates owner)" "quiet (admit owner mem cpu)" "quiet (find_user_image owner tag)"
  unfolding check_input_def check_forbidden_domain_def check_create_domain_def check_queued_creates_def
    admit_def find_user_image_def
  by (intro quiet_intros)+

lemma quiet_create_mounts [quiet_intros]: "quiet (create_mounts owner cid vms)"
  by (induction vms) (auto intro!: quiet_intros)

lemma create_locked_fails: "all_or_nothing (create_locked owner params)"
  unfolding create_locked_def Let_def
  by (intro all_or_nothing_seq all_or_nothing_branches all_or_nothing_exec quiet_intros
      all_or_nothing_quiet[OF quiet_ret(2)])

text \<open>Running through an act that only reads.\<close>

definition same_world :: "world \<Rightarrow> world \<Rightarrow> bool" where
  "same_world w w1 \<longleftrightarrow> w_db w1 = w_db w \<and> w_log w1 = w_log w \<and> w_env w1 = w_env w"

lemma create_Inr:
  assumes "create (Some s) params w = (Inr cid, w')"
  obtains w1 where "create_locked (sc_user s) params w1 = (Inr cid, w')" "same_world w w1"
proof -
  obtain owner where o: "require_user_owner (Some s) = Inr owner"
    using assms by (auto simp: create_def split: sum.splits)
  have owner: "owner = sc_user s" using o by (simp add: require_user_owner_Inr)
  obtain w1 w2 w3 w4 w5 where r:
    "check_input (check_resource_name (cp_name params)) w = (Inr (), w1)"
    "check_input (check_image_tag (cp_image_tag params)) w1 = (Inr (), w2)"
    "check_input (check_domain_prefix (cp_domain params)) w2 = (Inr (), w3)"
    "check_forbidden_domain (cp_domain params) w3 = (Inr (), w4)"
    "acquire_owner_capacity_lock owner w4 = (Inr (), w5)" "create_locked owner params w5 = (Inr cid, w')"
    using assms by (auto simp: create_def o seq_Inr_iff split: if_splits)
  have "same_world w w5"
    using quietD[OF quiet_create_parts(1) r(1)] quietD[OF quiet_create_parts(1) r(2)]
      quietD[OF quiet_create_parts(1) r(3)] quietD[OF quiet_create_parts(2) r(4)]
      quietD[OF quiet_admission(7) r(5)] by (simp add: same_world_def)
  then show thesis using that r(6) owner by simp
qed

lemma create_locked_Inr:
  assumes "create_locked owner params w = (Inr cid, w')"
  obtains w1 n k and c :: container and mounts and msg :: lifecycle_message and rid oid where
    "same_world w w1" "cid = e_uuid (w_env w) n" "oid = e_uuid (w_env w) k" "c_id c = cid" "c_owner c = owner"
    "c_status c = CPending" "c_docker_id c = []" "m_operation msg = oid"
    "exec (save_with_mounts_operation_outbox c mounts (new_operation oid RContainer cid owner OpCreate)
       (new_outbox rid oid cid container_exchange container_routing_key msg)) w1 = (Inr (), w')"
proof -
  let ?cfg = "e_config (w_env w)"
  let ?mem = "requested_memory ?cfg (cp_memory_mb params)" and ?cpu = "g_default_cpu ?cfg"
  let ?tag = "normalize_tag (cp_image_tag params)"
  obtain x w1 w2 w3 w4 img w5 w6 mounts w7 oid w8 t w9 rid w10 where r:
    "query (count_by_owner owner) w = (Inr x, w1)" "check_create_domain params w1 = (Inr (), w2)"
    "check_queued_creates owner w2 = (Inr (), w3)" "admit owner ?mem ?cpu w3 = (Inr (), w4)"
    "find_user_image owner ?tag w4 = (Inr img, w5)" "fresh w5 = (Inr cid, w6)"
    "create_mounts owner cid (cp_mounts params) w6 = (Inr mounts, w7)" "fresh w7 = (Inr oid, w8)"
    "now w8 = (Inr t, w9)" "fresh w9 = (Inr rid, w10)"
    "exec (save_with_mounts_operation_outbox (new_container cid owner ?tag ?mem ?cpu params) mounts
       (new_operation oid RContainer cid owner OpCreate)
       (new_outbox rid oid cid container_exchange container_routing_key
         \<lparr> m_operation = oid, m_container = cid, m_owner = owner, m_kind = OpCreate,
           m_request = e_request (w_env w8), m_created = unix_seconds t, m_domain = [],
           m_port = 0, m_previous = NoStatus \<rparr>)) w10 = (Inr (), w')"
    using assms unfolding create_locked_def Let_def
    by (auto simp: seq_Inr_iff get_config_Inr get_env_def split: if_splits)
  have s5: "same_world w w5"
    using quietD[OF quiet_query(1) r(1)] quietD[OF quiet_create_parts(3) r(2)]
      quietD[OF quiet_create_parts(4) r(3)] quietD[OF quiet_create_parts(5) r(4)]
      quietD[OF quiet_create_parts(6) r(5)] by (simp add: same_world_def)
  have s7: "same_world w w7"
    using quietD[OF quiet_ret(5) r(6)] quietD[OF quiet_create_mounts r(7)] s5 by (simp add: same_world_def)
  have s10: "same_world w w10"
    using quietD[OF quiet_ret(5) r(8)] quietD[OF quiet_ret(6) r(9)] quietD[OF quiet_ret(5) r(10)] s7
    by (simp add: same_world_def)
  have "cid = e_uuid (w_env w) (w_tick w5)" "oid = e_uuid (w_env w) (w_tick w7)"
    using r(6,8) s5 s7 by (auto simp: fresh_def sample_def same_world_def)
  then show thesis using that[OF s10 _ _ _ _ _ _ _ r(11)] by (simp add: new_container_def)
qed

text \<open>
  C8. Creating a container is all or nothing: a request that fails leaves the store and the
  outside world as they were, and a request that returns an id has added, in one transaction, the
  pending container of that id and owner, a pending create operation on it and an outbox row that
  announces the operation; nothing reaches Docker before the message is worked on.
\<close>

theorem create_is_atomic:
  assumes "\<And>n. e_uuid (w_env w) n \<noteq> nil_id" and "create (Some s) params w = (r, w')"
  shows "case r of
      Inl e \<Rightarrow> w_db w' = w_db w \<and> w_log w' = w_log w
    | Inr cid \<Rightarrow> w_log w' = w_log w \<and> (\<exists>c op row.
        t_containers (w_db w') = t_containers (w_db w) @ [c] \<and> c_id c = cid \<and> c_owner c = sc_user s
          \<and> c_status c = CPending \<and> c_docker_id c = []
      \<and> t_ops (w_db w') = t_ops (w_db w) @ [op] \<and> o_rtype op = RContainer \<and> o_rid op = cid
          \<and> o_kind op = OpCreate \<and> o_status op = OsPending
      \<and> t_cout (w_db w') = t_cout (w_db w) @ [row] \<and> ob_ref row = o_id op \<and> ob_resource row = cid
          \<and> ob_status row = ObPending \<and> m_operation (ob_payload row) = o_id op)"
proof (cases r)
  case (Inl e)
  have "all_or_nothing (create (Some s) params)"
    unfolding create_def
    by (cases "require_user_owner (Some s)")
      (auto intro!: all_or_nothing_seq all_or_nothing_branches quiet_intros create_locked_fails
        intro: all_or_nothing_quiet)
  then show ?thesis using assms(2) Inl by (simp add: all_or_nothing_def)
next
  case (Inr cid)
  obtain w0 where l: "create_locked (sc_user s) params w0 = (Inr cid, w')" and w0: "same_world w w0"
    using assms(2) Inr by (auto elim: create_Inr)
  from l show ?thesis
  proof (rule create_locked_Inr)
    fix w1 n k and c :: container and mounts and msg :: lifecycle_message and rid oid
    assume a: "same_world w0 w1" "cid = e_uuid (w_env w0) n" "oid = e_uuid (w_env w0) k" "c_id c = cid"
      "c_owner c = sc_user s" "c_status c = CPending" "c_docker_id c = []" "m_operation msg = oid"
    assume x: "exec (save_with_mounts_operation_outbox c mounts (new_operation oid RContainer cid (sc_user s) OpCreate)
       (new_outbox rid oid cid container_exchange container_routing_key msg)) w1 = (Inr (), w')"
    let ?op = "new_operation oid RContainer cid (sc_user s) OpCreate"
      and ?row = "new_outbox rid oid cid container_exchange container_routing_key msg"
    have ids: "cid \<noteq> nil_id" "oid \<noteq> nil_id" using a(2,3) assms(1) w0 by (auto simp: same_world_def)
    obtain d u where d: "save_with_mounts_operation_outbox c mounts ?op ?row u (w_db w1) = Inr d"
      "w_db w' = d" "w_log w' = w_log w1"
      using x by (auto simp: exec_Inr)
    then obtain d1 d2 d3 where t: "insert_container u c (w_db w1) = Inr d1" "insert_mounts mounts d1 = Inr d2"
      "insert_operation u ?op d2 = Inr d3" "insert_container_outbox u ?row d3 = Inr d"
      using ids by (auto simp: save_with_mounts_operation_outbox_def bind_res_Inr new_operation_def new_outbox_def)
    then have "t_containers d = t_containers (w_db w1) @ [container_row u c]"
      "t_ops d = t_ops (w_db w1) @ [op_row u ?op]" "t_cout d = t_cout (w_db w1) @ [fresh_row u ?row]"
      using insert_mounts_Inr[OF t(2)]
      by (auto simp: insert_container_Inr insert_operation_Inr insert_container_outbox_Inr)
    then show ?thesis
      using Inr d a w0 by (simp add: same_world_def new_operation_def new_outbox_def fresh_row_def)
  qed
qed

definition sample_params :: container_create_params where
  "sample_params = \<lparr> cp_project = None, cp_name = ''db'', cp_alias = [], cp_image_tag = ''postgres:16'',
     cp_port = 5432, cp_env = [], cp_mounts = [], cp_memory_mb = 0, cp_domain = ''db'',
     cp_command = [], cp_entrypoint = [], cp_restart = [], cp_health = None \<rparr>"

text \<open>An image tag with a registry host is refused, and nothing happens.\<close>

theorem create_is_atomic_witness:
  "w_db (snd (create (Some (user_scope 7 ''alice'' ''user'')) (sample_params\<lparr>cp_image_tag := ''HOST/x''\<rparr>) sample_world)) = sample_db"
proof -
  let ?p = "sample_params\<lparr>cp_image_tag := ''HOST/x''\<rparr>"
  let ?s = "user_scope 7 ''alice'' ''user''"
  obtain r w' where c: "create (Some ?s) ?p sample_world = (r, w')" by fastforce
  have "\<not> is_ok (fst (create (Some ?s) ?p sample_world))" by code_simp
  then obtain e where r: "r = Inl e" using c by (cases r) (auto simp: is_ok_def)
  have n: "e_uuid (w_env sample_world) n \<noteq> nil_id" for n
    by (simp add: sample_world_def sample_env_def)
  from create_is_atomic[OF n c] c r show ?thesis by (simp add: sample_world_def)
qed


text \<open>Properties of the workers that stop containers.\<close>

section \<open>What a loop of stops leaves\<close>

text \<open>
  Between two stores, some containers of the set S were sent stopping with a pending stop
  operation on them, and every other container row is as it was.
\<close>

definition stopping_row :: "db \<Rightarrow> id set \<Rightarrow> container \<Rightarrow> container \<Rightarrow> bool" where
  "stopping_row d' S c c' \<longleftrightarrow> c' = c \<or>
     c_id c \<in> S \<and> c_id c' = c_id c \<and> c_status c' = CStopping \<and> c_desired c' = CExited
     \<and> (\<exists>op \<in> set (t_ops d'). o_rtype op = RContainer \<and> o_rid op = c_id c \<and> o_kind op = OpStop)"

definition stops :: "id set \<Rightarrow> db \<Rightarrow> db \<Rightarrow> bool" where
  "stops S d d' \<longleftrightarrow> list_all2 (stopping_row d' S) (t_containers d) (t_containers d') \<and> set (t_ops d) \<subseteq> set (t_ops d')"

lemma stopping_rows_refl: "list_all2 (stopping_row d S) t t"
  by (rule list.rel_refl) (simp add: stopping_row_def)

lemma stops_refl: "stops S d d"
  by (simp add: stops_def stopping_rows_refl)

lemma stopping_row_trans:
  assumes "stopping_row d1 S a b" and "stopping_row d2 S b c" and "set (t_ops d1) \<subseteq> set (t_ops d2)"
  shows "stopping_row d2 S a c"
  using assms by (auto simp: stopping_row_def)

lemma stops_trans:
  assumes "stops S d d1" and "stops S d1 d2"
  shows "stops S d d2"
proof -
  have sub: "set (t_ops d1) \<subseteq> set (t_ops d2)" using assms(2) by (simp add: stops_def)
  have rows: "list_all2 (stopping_row d1 S) (t_containers d) (t_containers d1)"
    "list_all2 (stopping_row d2 S) (t_containers d1) (t_containers d2)" using assms by (simp_all add: stops_def)
  have "list_all2 (stopping_row d2 S) (t_containers d) (t_containers d2)"
    by (rule list_all2_trans[OF _ rows]) (rule stopping_row_trans[OF _ _ sub])
  then show ?thesis using assms by (auto simp: stops_def)
qed

lemma stops_queued:
  assumes "queue_container_operation cid CStopping CExited (new_operation oid RContainer cid owner OpStop) row t d = Inr d'"
    and "cid \<in> S"
  shows "stops S d d'"
  using queue_container_operation_Inr[OF assms(1)] assms(2)
  by (auto simp: stops_def stopping_row_def update_where_def list_all2_map2 new_operation_def op_row_def observed_def
      intro!: list.rel_refl_strong)

lemma exec_failed: "exec f w = (Inl e, w') \<Longrightarrow> w_db w' = w_db w"
  by (auto simp: exec_def ext_def Let_def split: option.splits sum.splits)

lemma queue_operation_fails:
  "queue_operation c kind busy desired dmn port prev w = (Inl e, w') \<Longrightarrow> w_db w' = w_db w"
  by (auto simp: queue_operation_def seq_def fresh_def now_def sample_def get_env_def Let_def dest: exec_failed)

lemma stops_step:
  assumes "queue_operation c OpStop CStopping CExited dmn port prev w = (x, w')" and "c_id c \<in> S"
  shows "stops S (w_db w) (w_db w')"
proof (cases x)
  case (Inl e)
  then show ?thesis using assms queue_operation_fails by (simp add: stops_refl)
next
  case (Inr u)
  then have "queue_operation c OpStop CStopping CExited dmn port prev w = (Inr (), w')" using assms by simp
  from queue_operation_Inr[OF this] show ?thesis using assms(2) by (blast intro: stops_queued)
qed

lemma stops_loop:
  assumes "\<And>c w x w'. c \<in> set cs \<Longrightarrow> q c w = (x, w') \<Longrightarrow> stops S (w_db w) (w_db w') \<and> w_env w' = w_env w"
    and "for_each (\<lambda>c. ignore (q c)) cs w = (r, w')"
  shows "stops S (w_db w) (w_db w') \<and> w_env w' = w_env w \<and> r = Inr ()"
  using assms
proof (induction cs arbitrary: w)
  case Nil
  then show ?case by (auto simp: ret_def stops_refl)
next
  case (Cons c cs)
  obtain x w1 where x: "q c w = (x, w1)" by fastforce
  then have "ignore (q c) w = (Inr (), w1)" by (simp add: ignore_def)
  then have "for_each (\<lambda>c. ignore (q c)) cs w1 = (r, w')" using Cons.prems(2) by (simp add: seq_def)
  from Cons.IH[OF Cons.prems(1)[OF list.set_intros(2)] this] Cons.prems(1)[OF _ x]
  show ?case by (auto intro: stops_trans)
qed

section \<open>Deadlines\<close>

text \<open>
  The TTL worker stops only containers whose time is over: after a pass, every container is
  unchanged except running ones whose deadline had passed, which are stopping, to be exited, with a
  stop operation queued; with TTLs switched off a pass changes nothing.
\<close>

theorem ttl_stops_only_expired:
  assumes "process_expired w = (r, w')"
  shows "r = Inr () \<and> (g_ttl_hours (e_config (w_env w)) \<le> 0 \<longrightarrow> w' = w)
    \<and> (\<exists>now. list_all2 (stopping_row (w_db w')
          {c_id c |c. c \<in> set (t_containers (w_db w)) \<and> c_status c = CRunning
             \<and> (\<exists>deadline. c_ttl c = Some deadline \<and> deadline < now)})
        (t_containers (w_db w)) (t_containers (w_db w')))"
proof (cases "g_ttl_hours (e_config (w_env w)) \<le> 0 \<or> e_fault (w_env w) (w_tick w) \<noteq> None")
  case True
  then have "r = Inr () \<and> w_db w' = w_db w \<and> (g_ttl_hours (e_config (w_env w)) \<le> 0 \<longrightarrow> w' = w)"
    using assms by (auto simp: process_expired_def seq_def get_config_def attempt_def query_at_def ext_def Let_def
        ret_def split: if_splits)
  then show ?thesis by (auto simp: stopping_rows_refl)
next
  case False
  let ?now = "e_now (w_env w) (w_tick w)"
  let ?cs = "filter (\<lambda>c. c_status c = CRunning \<and> (case c_ttl c of Some deadline \<Rightarrow> deadline < ?now | None \<Rightarrow> False))
      (t_containers (w_db w))"
  let ?S = "{c_id c |c. c \<in> set (t_containers (w_db w)) \<and> c_status c = CRunning
             \<and> (\<exists>deadline. c_ttl c = Some deadline \<and> deadline < ?now)}"
  have loop: "for_each (\<lambda>c. ignore (ttl_queue_stop c)) ?cs (tick w) = (r, w')"
    using False assms by (simp add: process_expired_def seq_config seq_attempt_reads get_expired_def answer_def)
  have step: "stops ?S (w_db v) (w_db v') \<and> w_env v' = w_env v"
    if "c \<in> set ?cs" "ttl_queue_stop c v = (x, v')" for c v x v'
  proof
    have "c_id c \<in> ?S" using that(1) by (auto split: option.splits)
    then show "stops ?S (w_db v) (w_db v')" using that(2) unfolding ttl_queue_stop_def by (rule stops_step[rotated])
    show "w_env v' = w_env v" using followsD[OF follows_queue_stop(1) that(2)] by blast
  qed
  have "stops ?S (w_db (tick w)) (w_db w') \<and> w_env w' = w_env (tick w) \<and> r = Inr ()"
    by (rule stops_loop[OF _ loop]) (rule step)
  then show ?thesis using False by (auto simp: stops_def)
qed

theorem ttl_stops_only_expired_witness:
  "\<exists>now. list_all2 (stopping_row (w_db (snd (process_expired sample_world)))
          {c_id c |c. c \<in> set [sample_container] \<and> c_status c = CRunning
             \<and> (\<exists>deadline. c_ttl c = Some deadline \<and> deadline < now)})
        [sample_container] (t_containers (w_db (snd (process_expired sample_world))))"
  using ttl_stops_only_expired[of sample_world "fst (process_expired sample_world)" "snd (process_expired sample_world)"]
  by (simp add: sample_world_def sample_db_def)

section \<open>Disk quotas\<close>

text \<open>
  The volume usage worker stops only containers of owners over their disk quota: when it looks
  at an owner, every container is unchanged except running ones of that owner that can write to a
  volume, and only if the images and volumes of the owner take at least the quota (when the int64
  sum does not wrap) that the user service answered.
\<close>

theorem disk_quota_stops_only_writers:
  assumes "enforce_owner_quota owner w = (r, w')"
  shows "list_all2 (stopping_row (w_db w')
          {c_id c |c. c \<in> set (t_containers (w_db w)) \<and> c_status c = CRunning \<and> c_owner c = owner
             \<and> (\<exists>m \<in> set (t_mounts (w_db w)). mt_container m = c_id c \<and> \<not> mt_ro m)})
        (t_containers (w_db w)) (t_containers (w_db w'))
    \<and> (w_db w' \<noteq> w_db w \<longrightarrow> (\<exists>n mb bytes. get_user_used_disk owner (w_db w) = Inr mb
         \<and> get_user_volume_bytes owner (w_db w) = Inr bytes
         \<and> ui_quota_disk_mb (e_user (w_env w) n owner) \<le> i64 (mb + bytes_to_mb bytes)))"
proof -
  let ?S = "{c_id c |c. c \<in> set (t_containers (w_db w)) \<and> c_status c = CRunning \<and> c_owner c = owner
             \<and> (\<exists>m \<in> set (t_mounts (w_db w)). mt_container m = c_id c \<and> \<not> mt_ro m)}"
  let ?over = "\<exists>n mb bytes. get_user_used_disk owner (w_db w) = Inr mb \<and> get_user_volume_bytes owner (w_db w) = Inr bytes
         \<and> ui_quota_disk_mb (e_user (w_env w) n owner) \<le> i64 (mb + bytes_to_mb bytes)"
  have "w_db w' = w_db w \<or> (?over \<and> (\<exists>w1. stop_writable_volume_containers owner w1 = (r, w') \<and> w_db w1 = w_db w))"
    using assms by (auto simp: enforce_owner_quota_def seq_attempt_reads not_less split: sum.splits if_splits)
  then consider (idle) "w_db w' = w_db w"
    | (over) w1 where ?over "stop_writable_volume_containers owner w1 = (r, w')" "w_db w1 = w_db w" by blast
  then show ?thesis
  proof cases
    case idle
    then show ?thesis by (simp add: stopping_rows_refl)
  next
    case over
    note s = over(2,3)
    let ?cs = "filter (\<lambda>c. c_owner c = owner \<and> c_status c = CRunning
            \<and> list_ex (\<lambda>m. mt_container m = c_id c \<and> \<not> mt_ro m) (t_mounts (w_db w))) (t_containers (w_db w))"
    have step: "stops ?S (w_db v) (w_db v') \<and> w_env v' = w_env v"
      if "c \<in> set ?cs" "volume_queue_stop c v = (x, v')" for c v x v'
    proof
      have c: "c_id c \<in> ?S" using that(1) by (auto simp: list_ex_iff)
      have "w_db v' = w_db v \<or> queue_operation c OpStop CStopping CExited [] 0 (c_status c) (tick v) = (x, v')"
        using that(2) by (auto simp: volume_queue_stop_def seq_def query_def ext_def Let_def fail_def tick_def
            split: option.splits sum.splits if_splits)
      then show "stops ?S (w_db v) (w_db v')"
        using stops_step[OF _ c, of "[]" 0 "c_status c" "tick v" x v'] by (auto simp: stops_refl)
      show "w_env v' = w_env v" using followsD[OF follows_queue_stop(2) that(2)] by blast
    qed
    have "w_db w' = w_db w1 \<or> (\<exists>w2. for_each (\<lambda>c. ignore (volume_queue_stop c)) ?cs w2 = (r, w') \<and> w_db w2 = w_db w)"
      using s by (auto simp: stop_writable_volume_containers_def seq_attempt_reads
          get_running_with_writable_mounts_def split: sum.splits)
    then have "stops ?S (w_db w) (w_db w')"
    proof (elim disjE exE conjE)
      fix w2 :: world assume "for_each (\<lambda>c. ignore (volume_queue_stop c)) ?cs w2 = (r, w')" and d: "w_db w2 = w_db w"
      have "stops ?S (w_db w2) (w_db w') \<and> w_env w' = w_env w2 \<and> r = Inr ()"
        by (rule stops_loop[OF _ \<open>for_each _ _ w2 = (r, w')\<close>]) (rule step)
      then show ?thesis using d by simp
    qed (simp add: s(2) stops_refl)
    then show ?thesis using over(1) by (simp add: stops_def)
  qed
qed

theorem disk_quota_stops_only_writers_witness:
  "t_containers (w_db (snd (enforce_owner_quota 7 sample_world))) = [sample_container]"
proof -
  have "t_containers (w_db sample_world) = [sample_container]" "c_status sample_container = CExited"
    by (simp_all add: sample_world_def sample_db_def sample_container_def)
  then show ?thesis
    using disk_quota_stops_only_writers[of 7 sample_world "fst (enforce_owner_quota 7 sample_world)"
        "snd (enforce_owner_quota 7 sample_world)"]
    by (auto simp: list_all2_Cons1 stopping_row_def)
qed


text \<open>Properties of the deletion of volumes and of the worker that executes it.\<close>

section \<open>Accepting a deletion\<close>

lemma load_volume_Inr:
  assumes "load_volume ctx vid w = (Inr v, w')"
  shows "get_volume vid (w_db w) = Inr v \<and> require_owner_access ctx (v_owner v) = None \<and> w_db w' = w_db w"
  using assms unfolding load_volume_def by (auto simp: act_Inr)

lemma resource_operation_outbox_Inr:
  assumes "resource_operation_outbox rt rid owner kind w = (Inr (op, row), w')"
  shows "w_db w' = w_db w \<and> w_env w' = w_env w \<and> o_rtype op = rt \<and> o_rid op = rid \<and> o_kind op = kind
     \<and> o_owner op = owner \<and> o_status op = OsPending \<and> ob_ref row = o_id op"
  using assms
  by (auto simp: resource_operation_outbox_def seq_Inr_iff fresh_def now_def sample_def get_env_def
      new_operation_def new_outbox_def)

lemma queue_volume_delete_Inr:
  assumes "queue_volume_delete vid op r t d = Inr d'"
  shows "t_volumes d' = update_where (\<lambda>v. v_id v = vid) (volume_with_status t VDeleting None) (t_volumes d)
     \<and> t_ops d' = t_ops d @ [op_row t op]
     \<and> t_rout d' = t_rout d @ [(fresh_row t r)\<lparr>ob_attempts := 0, ob_last_error := None\<rparr>]
     \<and> t_mounts d' = t_mounts d"
  using assms unfolding queue_volume_delete_def insert_resource_outbox_def Let_def
  by (auto simp: repo_simps split: if_splits)

text \<open>
  A request to delete a volume is accepted only from its owner (or an administrator), for a
  volume no container row mounts and no operation works on; it then marks the volume as being
  deleted, adds the pending delete operation and the outbox row that announces it, in one
  transaction, and nothing is removed yet.
\<close>

theorem volume_delete_guarded:
  assumes "request_delete_volume ctx vid w = (Inr (), w')"
  shows "\<exists>v op row t. get_volume vid (w_db w) = Inr v \<and> require_owner_access ctx (v_owner v) = None
     \<and> (\<forall>m \<in> set (t_mounts (w_db w)). mt_volume m \<noteq> vid)
     \<and> \<not> (\<exists>q \<in> set (t_ops (w_db w)). o_rtype q = RVolume \<and> o_rid q = vid \<and> op_active q)
     \<and> t_volumes (w_db w') = update_where (\<lambda>v. v_id v = vid) (volume_with_status t VDeleting None) (t_volumes (w_db w))
     \<and> t_ops (w_db w') = t_ops (w_db w) @ [op] \<and> o_kind op = OpDelete \<and> o_rid op = vid \<and> o_status op = OsPending
     \<and> t_rout (w_db w') = t_rout (w_db w) @ [row] \<and> ob_ref row = o_id op"
proof -
  from assms obtain v w1 in_use w2 active w3 op row w4 where
    l: "load_volume ctx vid w = (Inr v, w1)"
    and u: "query (is_volume_in_use vid) w1 = (Inr in_use, w2)" "\<not> in_use"
    and a: "query (resource_has_active_operation RVolume vid) w2 = (Inr active, w3)" "\<not> active"
    and o: "resource_operation_outbox RVolume vid (v_owner v) OpDelete w3 = (Inr (op, row), w4)"
    and q: "exec (queue_volume_delete vid op row) w4 = (Inr (), w')"
    unfolding request_delete_volume_def seq_Inr_iff guard_Inr by (auto simp only: split_paired_Ex prod.case)
  note op = resource_operation_outbox_Inr[OF o]
  have w3: "w_db w1 = w_db w" "w_db w2 = w_db w" "w_db w3 = w_db w"
    using load_volume_Inr[OF l] u a by (auto simp: query_Inr)
  then obtain t where qd: "queue_volume_delete vid op row t (w_db w) = Inr (w_db w')"
    using q op by (auto simp: exec_Inr)
  note e = queue_volume_delete_Inr[OF qd]
  have "\<forall>m \<in> set (t_mounts (w_db w)). mt_volume m \<noteq> vid"
    "\<not> (\<exists>q \<in> set (t_ops (w_db w)). o_rtype q = RVolume \<and> o_rid q = vid \<and> op_active q)"
    using u a w3 by (auto simp: query_Inr is_volume_in_use_def resource_has_active_operation_def)
  then show ?thesis
    using load_volume_Inr[OF l] e op
    by (intro exI[of _ v] exI[of _ "op_row t op"] exI[of _ "(fresh_row t row)\<lparr>ob_attempts := 0, ob_last_error := None\<rparr>"]
        exI[of _ t]) (auto simp: op_row_def fresh_row_def)
qed

definition sample_volume :: volume where
  "sample_volume = \<lparr> v_id = 4, v_owner = 7, v_project = None, v_name = ''data'',
     v_docker_name = ''vol_00000000_data'', v_status = VAvailable, v_observed = None,
     v_last_error = None, v_used_bytes = 0, v_usage_observed = None, v_created = 0 \<rparr>"

definition volume_world :: world where
  "volume_world = sample_world\<lparr>w_db := empty_db\<lparr>t_volumes := [sample_volume]\<rparr>\<rparr>"

theorem volume_delete_guarded_witness:
  "\<exists>op. t_ops (w_db (snd (request_delete_volume (Some (user_scope 7 [] [])) 4 volume_world))) = [op] \<and> o_rid op = 4"
proof -
  let ?r = "request_delete_volume (Some (user_scope 7 [] [])) 4 volume_world"
  have "fst ?r = Inr ()" by code_simp
  then have "?r = (Inr (), snd ?r)" by (metis prod.collapse)
  from volume_delete_guarded[OF this] show ?thesis by (auto simp: volume_world_def empty_db_def)
qed

section \<open>Executing it\<close>

definition has_volume :: "id \<Rightarrow> db \<Rightarrow> bool" where
  "has_volume vid d \<longleftrightarrow> vid \<in> set (map v_id (t_volumes d))"

lemma has_volume_status [simp]:
  "v_id ` set (update_where P (volume_with_status t s e) vs) = v_id ` set vs"
  by (metis (no_types, lifting) map_update_where volume.select_convs(1) volume.surjective
      volume.update_convs(6,7,8) set_map volume_with_status_def)

lemma keeps_volume_writes [keeps_intros]:
  "keeps (has_volume vid) (exec (mark_volume_error k s e))"
  "keeps (has_volume vid) (exec (resource_complete_operation oid os e))"
  "keeps (has_volume vid) (exec (resource_requeue_operation oid e))"
  by (rule keeps_exec; auto simp: mark_volume_error_def resource_complete_operation_def
      resource_requeue_operation_def repo_simps has_volume_def)+

lemma keeps_volume_failures [keeps_intros]:
  "keeps (has_volume vid) (resource_complete oid s e)"
  "keeps (has_volume vid) (fail_queued_volume oid k vs err)"
  "keeps (has_volume vid) (volume_docker_error oid k err)"
  unfolding resource_complete_def fail_queued_volume_def volume_docker_error_def
    requeue_volume_if_retryable_def Let_def
  by (intro keeps_intros)+

text \<open>
  The worker drops the row of a volume only after Docker removed the volume or answered that
  there is none: when the removal fails for another reason, the row stays, so that no volume is
  left behind in Docker that the store has forgotten.
\<close>

theorem volume_row_dropped_after_docker:
  assumes "execute_volume_delete oid vid w = (r, w')"
    and "get_volume vid (w_db w) = Inr v" and "\<not> has_volume vid (w_db w')"
  shows "DockerRemoveVolume (v_docker_name v) \<in> set (w_log w')
     \<or> (\<exists>n e. e_fault (w_env w) n = Some e \<and> is_docker_not_found e)"
proof -
  have here: "has_volume vid (w_db w)"
    using assms(2) find_SomeD[of _ "t_volumes (w_db w)" v]
    by (auto simp: get_volume_def find_row_def has_volume_def split: option.splits)
  obtain r1 w1 where q: "query (get_volume vid) w = (r1, w1)" by fastforce
  have w1: "w_db w1 = w_db w" "w_env w1 = w_env w" using quietD[OF quiet_query(1) q] by auto
  show ?thesis
  proof (cases r1)
    case (Inl e)
    let ?m = "if e = Sentinel ErrNotFound then resource_complete oid OsDone None
              else seq (resource_complete oid OsFailed (Some e)) (\<lambda>_. fail e)"
    have m: "?m w1 = (r, w')"
      using assms(1) q Inl by (simp add: execute_volume_delete_def seq_def attempt_def)
    have "has_volume vid (w_db w')"
      by (rule keepsD[where m = ?m and w = w1, OF _ _ m]) (use here w1 in \<open>auto intro!: keeps_intros\<close>)
    then show ?thesis using assms(3) by simp
  next
    case (Inr v1)
    then have [simp]: "v1 = v" using q assms(2) by (auto simp: query_Inr)
    obtain r2 w2 where p: "perform (DockerRemoveVolume (v_docker_name v)) w1 = (r2, w2)" by fastforce
    show ?thesis
    proof (cases r2)
      case (Inl e)
      then have e: "e_fault (w_env w) (w_tick w1) = Some e" "w_db w2 = w_db w"
        using p w1 by (auto simp: perform_def ext_def Let_def split: option.splits)
      show ?thesis
      proof (cases "is_docker_not_found e")
        case True
        then show ?thesis using e by blast
      next
        case False
        then have m: "(r, w') = (case volume_docker_error oid vid e w2 of
            (Inl e', w3) \<Rightarrow> (Inl e', w3)
          | (Inr _, w3) \<Rightarrow> seq (on_error (exec (delete_volume vid)) (\<lambda>e.
                  if e = Sentinel ErrNotFound then ret ()
                  else seq (fail_queued_volume oid vid VError e) (\<lambda>_. fail e)))
                (\<lambda>_. resource_complete oid OsDone None) w3)"
          using assms(1) q Inr p Inl by (simp add: execute_volume_delete_def seq_def attempt_def on_error_def)
        obtain r3 w3 where v3: "volume_docker_error oid vid e w2 = (r3, w3)" by fastforce
        have "has_volume vid (w_db w3)"
          using keepsD[OF keeps_volume_failures(3) _ v3] here e by simp
        moreover have "\<exists>e'. r3 = Inl e'"
          using v3 by (auto simp: volume_docker_error_def seq_def fail_def Let_def split: prod.splits sum.splits if_splits)
        ultimately show ?thesis using m v3 assms(3) by auto
      qed
    next
      case (Inr u)
      then have l: "DockerRemoveVolume (v_docker_name v) \<in> set (w_log w2)"
        using p by (auto simp: perform_def ext_def Let_def split: option.splits)
      let ?m = "seq (on_error (exec (delete_volume vid)) (\<lambda>e.
                  if e = Sentinel ErrNotFound then ret ()
                  else seq (fail_queued_volume oid vid VError e) (\<lambda>_. fail e)))
                (\<lambda>_. resource_complete oid OsDone None)"
      have "?m w2 = (r, w')"
        using assms(1) q \<open>r1 = Inr v1\<close> p Inr by (simp add: execute_volume_delete_def seq_def attempt_def on_error_def)
      moreover have "silent ?m"
        unfolding resource_complete_def fail_queued_volume_def by (intro silent_intros)
      ultimately have "w_log w' = w_log w2" using silentD by blast
      then show ?thesis using l by simp
    qed
  qed
qed

theorem volume_row_dropped_after_docker_witness:
  "DockerRemoveVolume ''vol_00000000_data'' \<in> set (w_log (snd (execute_volume_delete 5 4 volume_world)))"
proof -
  let ?r = "execute_volume_delete 5 4 volume_world"
  have "get_volume 4 (w_db volume_world) = Inr sample_volume" by code_simp
  moreover have "\<not> has_volume 4 (w_db (snd ?r))" by code_simp
  moreover have "?r = (fst ?r, snd ?r)" by simp
  ultimately show ?thesis
    using volume_row_dropped_after_docker[of 5 4 volume_world "fst ?r" "snd ?r" sample_volume]
    by (simp add: volume_world_def sample_world_def sample_env_def sample_volume_def)
qed

end
