(* ===== verification/Rebalancer.thy ===== *)
theory Rebalancer
  imports ContainerWorker "HOL-Library.Sublist"
begin

text \<open>
  The rebalancer of the container service (internal/core/service/container_rebalancer.go): the
  memory and CPU that no container has reserved are lent to the running ones, in proportion to
  their reservations and up to a multiple of them.
\<close>

section \<open>The limits of one container\<close>

definition burst_factor :: "int \<Rightarrow> int \<Rightarrow> rat" where
  "burst_factor available reserved =
    (if reserved > 0 \<and> available > reserved then f64_div (f64_of_int available) (f64_of_int reserved) else 1)"

definition burst_target :: "int \<Rightarrow> rat \<Rightarrow> int \<Rightarrow> int" where
  "burst_target reservation factor multiplier =
    (let target = f64_to_int (f64_mul (f64_of_int reservation) factor); allowed = i64 (reservation * multiplier)
     in if target > allowed then allowed else target)"

definition cpu_shares_for_reservation :: "int \<Rightarrow> nat \<Rightarrow> config \<Rightarrow> int" where
  "cpu_shares_for_reservation cpu running cfg =
    (let base = (if int running > g_high_load_count cfg then g_high_load_shares cfg else g_cpu_shares cfg);
         base = (if g_default_cpu cfg > 0 \<and> cpu > 0 then quot (i64 (base * cpu)) (g_default_cpu cfg) else base)
     in if base < 2 then 2 else base)"

definition rebalanced :: "config \<Rightarrow> nat \<Rightarrow> rat \<Rightarrow> rat \<Rightarrow> container \<Rightarrow> resource_update" where
  "rebalanced cfg running mem_factor cpu_factor c =
    (let mem = normalize_memory (c_memory c) cfg; cpu = normalize_cpu (c_cpu c) cfg in
     \<lparr> ru_memory_limit = burst_target mem mem_factor (g_max_burst cfg),
       ru_memory_reservation = mem,
       ru_memory_swap = g_memory_swap cfg,
       ru_cpu_shares = cpu_shares_for_reservation cpu running cfg,
       ru_cpu_quota = cpu_quota_from_millicores (burst_target cpu cpu_factor (g_max_cpu_burst cfg)) (g_cpu_period cfg),
       ru_cpu_period = g_cpu_period cfg \<rparr>)"

section \<open>One run\<close>

definition active_build_reservations :: "config \<Rightarrow> (int \<times> int) act" where
  "active_build_reservations cfg = seq (attempt (query count_active_builds)) (\<lambda>r. case r of
       Inl e \<Rightarrow> ret (0, 0)
     | Inr n \<Rightarrow> ret (i64 (n * g_build_memory cfg), i64 (n * build_cpu_millicores cfg)))"

fun total_i64 :: "int \<Rightarrow> int list \<Rightarrow> int" where
  "total_i64 acc [] = acc"
| "total_i64 acc (x # xs) = total_i64 (i64 (acc + x)) xs"

definition update_resources :: "config \<Rightarrow> nat \<Rightarrow> rat \<Rightarrow> rat \<Rightarrow> container \<Rightarrow> unit act" where
  "update_resources cfg running mem_factor cpu_factor c =
    (if c_docker_id c = [] then ret ()
     else ignore (perform (DockerUpdate (c_docker_id c) (rebalanced cfg running mem_factor cpu_factor c))))"

definition burst_memory :: "config \<Rightarrow> int \<Rightarrow> int \<Rightarrow> int" where
  "burst_memory cfg totmem build_mem = i64 (i64 (totmem - g_reserved_system_memory cfg) - build_mem)"

definition rebalance_resources :: "unit act" where
  "rebalance_resources =
     seq get_config (\<lambda>cfg.
     seq (attempt (query get_running)) (\<lambda>r. case r of Inl e \<Rightarrow> ret () | Inr cs \<Rightarrow>
     if cs = [] then ret () else
     seq (attempt (ask e_total_memory)) (\<lambda>r. case r of Inl e \<Rightarrow> ret () | Inr totmem \<Rightarrow>
     seq (attempt (ask e_cpus)) (\<lambda>r. case r of Inl e \<Rightarrow> ret () | Inr cpus \<Rightarrow>
     seq (active_build_reservations cfg) (\<lambda>(build_mem, build_cpu).
     let available = burst_memory cfg totmem build_mem;
         available_cpu = i64 (i64 (i64 (cpus * 1000) - g_reserved_system_cpu cfg) - build_cpu);
         reserved = total_i64 0 (map (\<lambda>c. normalize_memory (c_memory c) cfg) cs);
         reserved_cpu = total_i64 0 (map (\<lambda>c. normalize_cpu (c_cpu c) cfg) cs)
     in for_each (update_resources cfg (length cs)
          (burst_factor available reserved) (burst_factor available_cpu reserved_cpu)) cs)))))"

section \<open>Rounding\<close>

lemma f64_le: "0 \<le> q \<Longrightarrow> f64 q \<le> q * (1 + 1 / 2 ^ 52)"
proof (cases "q = 0")
  case False
  assume "0 \<le> q"
  then have q: "0 < q" using False by simp
  let ?e = "ilog2 q - 52"
  have p: "(0 :: rat) < 2 powi ?e" by simp
  have s: "(2 :: rat) powi (ilog2 q) = 2 ^ 52 * 2 powi ?e"
    using power_int_add[of "2::rat" 52 ?e] by (simp add: add.commute)
  have ulp: "2 powi ?e \<le> q / 2 ^ 52" using ilog2_bounds[OF q] unfolding s by (simp add: field_simps)
  have "of_int (round_half_even (q / 2 powi ?e)) \<le> (of_int (\<lfloor>q / 2 powi ?e\<rfloor> + 1) :: rat)"
    using round_half_even_bounds(2)[of "q / 2 powi ?e"] by (simp only: of_int_le_iff)
  also have "\<dots> \<le> q / 2 powi ?e + 1" by simp
  finally have "f64_pos q \<le> (q / 2 powi ?e + 1) * 2 powi ?e"
    unfolding f64_pos_def Let_def using p by (simp add: mult_right_mono)
  also have "\<dots> = q + 2 powi ?e" using p by (simp add: field_simps)
  also have "\<dots> \<le> q * (1 + 1 / 2 ^ 52)" using ulp by (simp add: field_simps)
  finally show ?thesis using q by (simp add: f64_def)
qed (simp add: f64_def)

lemma f64_to_int_le: "0 \<le> x \<Longrightarrow> of_int (f64_to_int x) \<le> x"
  by (simp add: f64_to_int_def)

lemma f64_to_int_nonneg: "0 \<le> x \<Longrightarrow> 0 \<le> f64_to_int x"
  by (simp add: f64_to_int_def)

lemma burst_factor_ge:
  assumes "0 < reserved" "reserved < 2 ^ 53" "available < 2 ^ 53"
  shows "1 \<le> burst_factor available reserved"
proof -
  { assume lt: "reserved < available"
    then have e: "f64_of_int available = of_int available" "f64_of_int reserved = of_int reserved"
      using assms by (auto intro!: f64_of_int_exact)
    have "f64 1 \<le> f64 (of_int available / of_int reserved)"
      using lt assms by (intro f64_mono_nonneg) (auto simp: field_simps)
    moreover have "f64 1 = 1" using f64_of_int_exact[of 1] by (simp add: f64_of_int_def)
    ultimately have "1 \<le> f64_div (f64_of_int available) (f64_of_int reserved)"
      by (simp add: f64_div_def e) }
  then show ?thesis by (auto simp: burst_factor_def)
qed

lemma burst_factor_le:
  assumes "0 < reserved" "reserved < available" "available < 2 ^ 53"
  shows "burst_factor available reserved \<le> of_int available / of_int reserved * (1 + 1 / 2 ^ 52)"
proof -
  have e: "f64_of_int available = of_int available" "f64_of_int reserved = of_int reserved"
    using assms by (auto intro!: f64_of_int_exact)
  have "burst_factor available reserved = f64 (of_int available / of_int reserved)"
    using assms by (simp add: burst_factor_def f64_div_def e)
  also have "\<dots> \<le> of_int available / of_int reserved * (1 + 1 / 2 ^ 52)"
    using assms by (intro f64_le) simp
  finally show ?thesis .
qed

section \<open>The limits stay within the bounds\<close>

lemma burst_target_ge:
  assumes "0 \<le> r" "r < 2 ^ 53" "1 \<le> f" "1 \<le> m" "in_i64 (r * m)"
  shows "r \<le> burst_target r f m" "burst_target r f m \<le> r * m"
proof -
  have "r \<le> r * m" using assms by (simp add: mult_le_cancel_left1)
  then show "r \<le> burst_target r f m" "burst_target r f m \<le> r * m"
    using scale_ge[OF assms(1-3)] i64_id[OF assms(5)] by (auto simp: burst_target_def Let_def)
qed

lemma burst_target_le:
  assumes "0 \<le> r" "r < 2 ^ 53" "0 \<le> f"
  shows "of_int (burst_target r f m) \<le> of_int r * f * (1 + 1 / 2 ^ 52)"
proof -
  have "f64_of_int r = of_int r" using assms by (intro f64_of_int_exact)
  moreover have p: "0 \<le> of_int r * f" using assms by simp
  ultimately have "of_int (f64_to_int (f64_mul (f64_of_int r) f)) \<le> f64 (of_int r * f)"
    by (simp add: f64_mul_def f64_to_int_le f64_nonneg)
  also have "\<dots> \<le> of_int r * f * (1 + 1 / 2 ^ 52)" using f64_le[OF p] .
  finally have t: "of_int (f64_to_int (f64_mul (f64_of_int r) f)) \<le> of_int r * f * (1 + 1 / 2 ^ 52)" .
  have "burst_target r f m \<le> f64_to_int (f64_mul (f64_of_int r) f)"
    by (simp add: burst_target_def Let_def)
  then have "(of_int (burst_target r f m) :: rat) \<le> of_int (f64_to_int (f64_mul (f64_of_int r) f))"
    by (simp only: of_int_le_iff)
  then show ?thesis using t by linarith
qed

lemma burst_target_no_burst:
  assumes "0 \<le> r" "r < 2 ^ 53"
  shows "burst_target r 1 m \<le> r"
proof -
  have "f64_of_int r = of_int r" using assms by (intro f64_of_int_exact)
  then have "f64_to_int (f64_mul (f64_of_int r) 1) = r" by (simp add: f64_mul_def f64_of_int_def)
  then show ?thesis by (simp add: burst_target_def Let_def)
qed

text \<open>The two roundings of a limit lose less than one byte over all containers.\<close>

lemma sum_targets_le:
  assumes "\<forall>r \<in> set rs. 0 \<le> r \<and> r < 2 ^ 53" and "0 \<le> f"
  shows "of_int (sum_list (map (\<lambda>r. burst_target r f m) rs)) \<le> of_int (sum_list rs) * f * (1 + 1 / 2 ^ 52)"
  using assms
proof (induction rs)
  case (Cons r rs)
  have "of_int (burst_target r f m) \<le> of_int r * f * (1 + 1 / 2 ^ 52)"
    using Cons.prems by (intro burst_target_le) auto
  then show ?case using Cons by (simp add: algebra_simps)
qed simp

lemma sum_targets_fit:
  assumes "\<forall>r \<in> set rs. 0 \<le> r \<and> r < 2 ^ 53" and "0 < sum_list rs" and "available < 2 ^ 50"
    and "sum_list rs < 2 ^ 50"
  shows "sum_list (map (\<lambda>r. burst_target r (burst_factor available (sum_list rs)) m) rs)
    \<le> max available (sum_list rs)"
proof (cases "sum_list rs < available")
  case True
  let ?s = "sum_list rs" and ?f = "burst_factor available (sum_list rs)"
  let ?t = "sum_list (map (\<lambda>r. burst_target r ?f m) rs)"
  have f: "?f \<le> of_int available / of_int ?s * (1 + 1 / 2 ^ 52)" "1 \<le> ?f"
    using burst_factor_le[of ?s available] burst_factor_ge[of ?s available] assms True by auto
  have "of_int ?t \<le> of_int ?s * ?f * (1 + 1 / 2 ^ 52)" using assms(1) f by (intro sum_targets_le) auto
  also have "\<dots> \<le> of_int ?s * (of_int available / of_int ?s * (1 + 1 / 2 ^ 52)) * (1 + 1 / 2 ^ 52)"
    using f assms(2) by (intro mult_right_mono mult_left_mono) auto
  also have "\<dots> = of_int available * ((1 + 1 / 2 ^ 52) * (1 + 1 / 2 ^ 52))" using assms(2) by simp
  also have "\<dots> = of_int available + of_int available * (2 / 2 ^ 52 + 1 / 2 ^ 104)" by (simp add: algebra_simps)
  also have "\<dots> < of_int available + 1"
  proof -
    have "(of_int available :: rat) < 2 ^ 50" using assms(3) by (metis of_int_less_iff of_int_numeral of_int_power)
    then have "of_int available * (2 / 2 ^ 52 + 1 / 2 ^ 104) \<le> (2 ^ 50 :: rat) * (2 / 2 ^ 52 + 1 / 2 ^ 104)"
      by (intro mult_right_mono) auto
    also have "\<dots> < 1" by simp
    finally show ?thesis by simp
  qed
  finally have "?t < available + 1" by (metis of_int_add of_int_less_iff of_int_1)
  then show ?thesis by simp
next
  case False
  then have "burst_factor available (sum_list rs) = 1" by (simp add: burst_factor_def)
  moreover have "sum_list (map (\<lambda>r. burst_target r 1 m) rs) \<le> sum_list rs"
    using assms(1) burst_target_no_burst by (induction rs) (auto simp: add_mono)
  ultimately show ?thesis by simp
qed

section \<open>What a run does\<close>

lemma total_i64_sum:
  "\<forall>x \<in> set xs. 0 \<le> x \<Longrightarrow> 0 \<le> acc \<Longrightarrow> acc + sum_list xs < 2 ^ 63 \<Longrightarrow> total_i64 acc xs = acc + sum_list xs"
proof (induction xs arbitrary: acc)
  case (Cons x xs)
  have "0 \<le> sum_list xs" using Cons.prems(1) by (auto intro: sum_list_nonneg)
  then have "i64 (acc + x) = acc + x" using Cons.prems by (intro i64_id) (auto simp: in_i64_def)
  then show ?case using Cons by auto
qed simp

lemma sum_list_subseq_le:
  "subseq ys xs \<Longrightarrow> \<forall>x \<in> set xs. (0 :: int) \<le> f x \<Longrightarrow> sum_list (map f ys) \<le> sum_list (map f xs)"
  by (induction rule: list_emb.induct) (auto intro!: sum_list_nonneg add_increasing)

lemma update_resources_run:
  "update_resources cfg n mf cf c w = (r, w') \<Longrightarrow> r = Inr () \<and> w_db w' = w_db w \<and> w_env w' = w_env w
     \<and> (w_log w' = w_log w \<or> c_docker_id c \<noteq> []
         \<and> w_log w' = w_log w @ [DockerUpdate (c_docker_id c) (rebalanced cfg n mf cf c)])"
  by (auto simp: update_resources_def ignore_def ret_def perform_def ext_def Let_def
      split: if_splits option.splits)

lemma update_loop:
  "for_each (update_resources cfg n mf cf) cs w = (r, w') \<Longrightarrow>
   w_db w' = w_db w \<and> w_env w' = w_env w
     \<and> (\<exists>us. subseq us (filter (\<lambda>c. c_docker_id c \<noteq> []) cs)
         \<and> w_log w' = w_log w @ map (\<lambda>c. DockerUpdate (c_docker_id c) (rebalanced cfg n mf cf c)) us)"
proof (induction cs arbitrary: w)
  case Nil
  then show ?case by (auto simp: ret_def)
next
  case (Cons c cs)
  let ?u = "DockerUpdate (c_docker_id c) (rebalanced cfg n mf cf c)"
  obtain x w1 where u: "update_resources cfg n mf cf c w = (x, w1)" by fastforce
  note w1 = update_resources_run[OF u]
  then have rest: "for_each (update_resources cfg n mf cf) cs w1 = (r, w')"
    using Cons.prems u by (simp add: seq_def)
  from Cons.IH[OF rest] obtain us where us: "w_db w' = w_db w1" "w_env w' = w_env w1"
    "subseq us (filter (\<lambda>c. c_docker_id c \<noteq> []) cs)"
    "w_log w' = w_log w1 @ map (\<lambda>c. DockerUpdate (c_docker_id c) (rebalanced cfg n mf cf c)) us" by blast
  show ?case
  proof (cases "w_log w1 = w_log w")
    case True
    then show ?thesis using w1 us by (intro conjI exI[of _ us]) auto
  next
    case False
    then show ?thesis using w1 us by (intro conjI exI[of _ "c # us"]) auto
  qed
qed

definition running_rows :: "db \<Rightarrow> container list" where
  "running_rows d = filter (\<lambda>c. c_status c = CRunning) (t_containers d)"

lemma subseq_filter_right: "subseq us (filter P cs) \<Longrightarrow> subseq us cs"
  by (rule subseq_order.order_trans) auto

lemma rebalance_run:
  fixes w :: world
  assumes "rebalance_resources w = (r, w')"
  defines "cfg \<equiv> e_config (w_env w)"
  shows "w_db w' = w_db w \<and> w_env w' = w_env w \<and> (w_log w' = w_log w \<or>
    (\<exists>us n b cf. running_rows (w_db w) \<noteq> [] \<and> subseq us (running_rows (w_db w))
      \<and> (b = 0 \<or> (\<exists>x. count_active_builds (w_db w) = Inr x \<and> b = i64 (x * g_build_memory cfg)))
      \<and> w_log w' = w_log w @ map (\<lambda>c. DockerUpdate (c_docker_id c) (rebalanced cfg (length (running_rows (w_db w)))
          (burst_factor (burst_memory cfg (e_total_memory (w_env w) n) b)
            (total_i64 0 (map (\<lambda>c. normalize_memory (c_memory c) cfg) (running_rows (w_db w))))) cf c)) us))"
proof -
  let ?cs = "running_rows (w_db w)"
  let ?idle = "w_db w' = w_db w \<and> w_env w' = w_env w \<and> w_log w' = w_log w"
  have "?idle \<or> (\<exists>n b cf w1. for_each (update_resources cfg (length ?cs)
          (burst_factor (burst_memory cfg (e_total_memory (w_env w) n) b)
            (total_i64 0 (map (\<lambda>c. normalize_memory (c_memory c) cfg) ?cs))) cf) ?cs w1 = (r, w')
      \<and> ?cs \<noteq> [] \<and> w_db w1 = w_db w \<and> w_env w1 = w_env w \<and> w_log w1 = w_log w
      \<and> (b = 0 \<or> (\<exists>x. count_active_builds (w_db w) = Inr x \<and> b = i64 (x * g_build_memory cfg))))"
    using assms(1) unfolding rebalance_resources_def active_build_reservations_def cfg_def
    by (simp add: seq_def get_config_def attempt_def query_def ask_def ext_def ret_def Let_def
        get_running_def running_rows_def[symmetric] split: option.splits if_splits sum.splits)
      ((rule disjI2, intro exI conjI, assumption, simp_all)[1] | (auto)[1])+
  then consider "?idle" | (loop) n b cf w1 where "for_each (update_resources cfg (length ?cs)
          (burst_factor (burst_memory cfg (e_total_memory (w_env w) n) b)
            (total_i64 0 (map (\<lambda>c. normalize_memory (c_memory c) cfg) ?cs))) cf) ?cs w1 = (r, w')"
      "?cs \<noteq> []" "w_db w1 = w_db w" "w_env w1 = w_env w" "w_log w1 = w_log w"
      "b = 0 \<or> (\<exists>x. count_active_builds (w_db w) = Inr x \<and> b = i64 (x * g_build_memory cfg))"
    by blast
  then show ?thesis
  proof cases
    case loop
    note a = loop(2-6)
    from update_loop[OF loop(1)] obtain us where us: "w_db w' = w_db w1" "w_env w' = w_env w1"
      "subseq us ?cs" "w_log w' = w_log w1 @ map (\<lambda>c. DockerUpdate (c_docker_id c) (rebalanced cfg (length ?cs)
          (burst_factor (burst_memory cfg (e_total_memory (w_env w) n) b)
            (total_i64 0 (map (\<lambda>c. normalize_memory (c_memory c) cfg) ?cs))) cf c)) us"
      by (blast dest: subseq_filter_right)
    show ?thesis
      by (rule conjI, simp add: us a, rule conjI, simp add: us a, rule disjI2, rule exI[of _ us],
          rule exI[of _ n], rule exI[of _ b], rule exI[of _ cf]) (use us a in simp)
  qed simp
qed

end
