(* ===== verification/SystemService.thy ===== *)
theory SystemService
  imports Rebalancer
begin

text \<open>
  The configuration manager (internal/core/config/manager.go) and the system service
  (internal/core/service/system.go): the configuration is validated, written to a temporary file
  that is renamed over the old one, and only then published to the services; a change of a resource
  setting asks for a rebalance.  The file holds the value its JSON denotes.
\<close>

section \<open>The manager\<close>

record manager =
  mg_config :: config
  mg_file :: "config option"
  mg_temps :: nat

text \<open>
  The steps of writing the file that may fail.  A temporary file that was created is removed when
  writing, closing or changing its mode fails, and stays behind when the rename does.
\<close>

datatype save_step = SaveCreate | SaveWrite | SaveClose | SaveChmod | SaveRename

definition save_to_file :: "(save_step \<Rightarrow> goerr option) \<Rightarrow> config \<Rightarrow> manager \<Rightarrow> goerr option \<times> manager" where
  "save_to_file fault cfg m =
    (case fault SaveCreate of Some e \<Rightarrow> (Some e, m) | None \<Rightarrow>
     (case fault SaveWrite of Some e \<Rightarrow> (Some e, m) | None \<Rightarrow>
     (case fault SaveClose of Some e \<Rightarrow> (Some e, m) | None \<Rightarrow>
     (case fault SaveChmod of Some e \<Rightarrow> (Some e, m) | None \<Rightarrow>
     (case fault SaveRename of Some e \<Rightarrow> (Some e, m\<lparr>mg_temps := Suc (mg_temps m)\<rparr>)
      | None \<Rightarrow> (None, m\<lparr>mg_file := Some cfg\<rparr>))))))"

definition manager_update ::
    "(string \<Rightarrow> string \<Rightarrow> bool option) \<Rightarrow> (save_step \<Rightarrow> goerr option) \<Rightarrow> config \<Rightarrow> manager \<Rightarrow> goerr option \<times> manager" where
  "manager_update re fault new m =
    (case validate_system_config re new of Some e \<Rightarrow> (Some e, m) | None \<Rightarrow>
     (case save_to_file fault new m of
        (Some e, m') \<Rightarrow> (Some e, m')
      | (None, m') \<Rightarrow> (None, m'\<lparr>mg_config := new\<rparr>)))"

section \<open>Reading the file of an older version\<close>

text \<open>
  The values of the raw JSON object: integers, which the old key container_ttl holds as
  nanoseconds, and the text of anything else.
\<close>

datatype raw_value = RawInt int | RawText string

type_synonym raw_config = "(string \<times> raw_value) list"

definition raw_get :: "string \<Rightarrow> raw_config \<Rightarrow> raw_value option" where
  "raw_get k raw = map_of raw k"

definition raw_delete :: "string \<Rightarrow> raw_config \<Rightarrow> raw_config" where
  "raw_delete k raw = filter (\<lambda>(k', v). k' \<noteq> k) raw"

text \<open>Duration.Hours of package time, and its conversion to int64.\<close>

definition duration_hours :: "int \<Rightarrow> int" where
  "duration_hours nanos = f64_to_int (f64 (of_int (nanos div 3600000000000)
     + f64_div (f64_of_int (nanos mod 3600000000000)) 3600000000000))"

definition backfill_legacy_ttl :: "raw_config \<Rightarrow> raw_config" where
  "backfill_legacy_ttl raw =
    (if raw_get ''container_ttl_hours'' raw \<noteq> None then raw
     else case raw_get ''container_ttl'' raw of
       Some (RawInt nanos) \<Rightarrow>
         if 0 \<le> nanos \<and> in_i64 nanos then (''container_ttl_hours'', RawInt (duration_hours nanos)) # raw else raw
     | _ \<Rightarrow> raw)"

fun backfill_defaults :: "raw_config \<Rightarrow> raw_config \<Rightarrow> raw_config" where
  "backfill_defaults [] raw = raw"
| "backfill_defaults ((k, v) # defaults) raw =
     backfill_defaults defaults (if raw_get k raw = None then (k, v) # raw else raw)"

definition backfill_config_json :: "raw_config \<Rightarrow> raw_config \<Rightarrow> raw_config" where
  "backfill_config_json defaults raw =
     backfill_defaults defaults (raw_delete ''container_ttl'' (backfill_legacy_ttl raw))"

text \<open>
  The manager at start: the configuration of the file, completed by the defaults, or the defaults
  when there is no file; encode and decode are those of encoding/json.
\<close>

definition new_manager ::
    "(string \<Rightarrow> string \<Rightarrow> bool option) \<Rightarrow> (config \<Rightarrow> raw_config) \<Rightarrow> (raw_config \<Rightarrow> goerr + config)
     \<Rightarrow> (save_step \<Rightarrow> goerr option) \<Rightarrow> raw_config option \<Rightarrow> config \<Rightarrow> goerr + manager" where
  "new_manager re encode decode fault stored dflt =
    (case (case stored of None \<Rightarrow> Inr dflt
           | Some raw \<Rightarrow> decode (backfill_config_json (encode dflt) raw)) of
       Inl e \<Rightarrow> Inl e
     | Inr cfg \<Rightarrow>
       (case save_to_file fault cfg \<lparr>mg_config = cfg, mg_file = None, mg_temps = 0\<rparr> of
          (Some e, m) \<Rightarrow> Inl e
        | (None, m) \<Rightarrow>
          (case validate_system_config re cfg of
             Some e \<Rightarrow> Inl (Wrapped (''invalid system config: '' @ error_text e) e)
           | None \<Rightarrow> Inr m)))"

section \<open>The system service\<close>

definition resource_config_changed :: "config \<Rightarrow> config \<Rightarrow> bool" where
  "resource_config_changed old new \<longleftrightarrow>
     g_default_memory old \<noteq> g_default_memory new \<or>
     g_reserved_system_memory old \<noteq> g_reserved_system_memory new \<or>
     g_max_burst old \<noteq> g_max_burst new \<or>
     g_memory_swap old \<noteq> g_memory_swap new \<or>
     g_default_cpu old \<noteq> g_default_cpu new \<or>
     g_reserved_system_cpu old \<noteq> g_reserved_system_cpu new \<or>
     g_cpu_overcommit old \<noteq> g_cpu_overcommit new \<or>
     g_max_cpu_burst old \<noteq> g_max_cpu_burst new \<or>
     g_cpu_period old \<noteq> g_cpu_period new \<or>
     g_cpu_shares old \<noteq> g_cpu_shares new \<or>
     g_high_load_shares old \<noteq> g_high_load_shares new \<or>
     g_high_load_count old \<noteq> g_high_load_count new \<or>
     g_build_memory old \<noteq> g_build_memory new \<or>
     g_build_cpu_quota old \<noteq> g_build_cpu_quota new \<or>
     g_build_cpu_period old \<noteq> g_build_cpu_period new"

text \<open>The error of the update, the manager after it, and whether a rebalance was requested.\<close>

definition update_config ::
    "(string \<Rightarrow> string \<Rightarrow> bool option) \<Rightarrow> (save_step \<Rightarrow> goerr option) \<Rightarrow> config \<Rightarrow> manager
     \<Rightarrow> goerr option \<times> manager \<times> bool" where
  "update_config re fault new m =
    (let old = mg_config m in
     case validate_system_config re new of
       Some e \<Rightarrow> (Some (Wrapped (''bad request: '' @ error_text e) (Sentinel ErrBadRequest)), m, False)
     | None \<Rightarrow>
       (case manager_update re fault new m of
          (Some e, m') \<Rightarrow> (Some (Wrapped (''failed to update system config: '' @ error_text e) e), m', False)
        | (None, m') \<Rightarrow> (None, m', resource_config_changed old new)))"

section \<open>What the manager promises\<close>

definition manager_ok :: "(string \<Rightarrow> string \<Rightarrow> bool option) \<Rightarrow> manager \<Rightarrow> bool" where
  "manager_ok re m \<longleftrightarrow> validate_system_config re (mg_config m) = None \<and> mg_file m = Some (mg_config m)"

lemma save_to_file_cases:
  "save_to_file fault cfg m = (e, m') \<Longrightarrow>
     mg_config m' = mg_config m \<and> (if e = None then mg_file m' = Some cfg else mg_file m' = mg_file m)"
  by (auto simp: save_to_file_def split: option.splits)

lemma manager_update_ok: "manager_ok re m \<Longrightarrow> manager_update re fault new m = (e, m') \<Longrightarrow> manager_ok re m'
    \<and> mg_config m' = (if e = None then new else mg_config m)"
  using save_to_file_cases[of fault new m]
  by (auto simp: manager_update_def manager_ok_def split: option.splits prod.splits)

lemma new_manager_ok:
  "new_manager re encode decode fault stored dflt = Inr m \<Longrightarrow> manager_ok re m"
  by (auto simp: new_manager_def manager_ok_def split: sum.splits option.splits prod.splits
      dest!: save_to_file_cases)

lemma update_config_ok: "manager_ok re m \<Longrightarrow> update_config re fault new m = (e, m', b) \<Longrightarrow> manager_ok re m'
    \<and> mg_config m' = (if e = None then new else mg_config m)
    \<and> (b \<longleftrightarrow> e = None \<and> resource_config_changed (mg_config m) new)"
  using manager_update_ok[of re m fault new]
  by (auto simp: update_config_def Let_def split: option.splits prod.splits)

text \<open>The settings the rebalancer reads are among those whose change is noticed.\<close>

lemma rebalanced_unchanged:
  assumes "\<not> resource_config_changed old new"
  shows "rebalanced old n mf cf c = rebalanced new n mf cf c"
    "normalize_memory x old = normalize_memory x new" "normalize_cpu x old = normalize_cpu x new"
    "burst_memory old t b = burst_memory new t b" "build_cpu_millicores old = build_cpu_millicores new"
  using assms
  by (simp_all add: resource_config_changed_def rebalanced_def normalize_memory_def normalize_cpu_def
      burst_memory_def build_cpu_millicores_def cpu_shares_for_reservation_def Let_def)

section \<open>Acts that do not read the configuration\<close>

definition with_config :: "config \<Rightarrow> world \<Rightarrow> world" where
  "with_config cfg w = w\<lparr>w_env := (w_env w)\<lparr>e_config := cfg\<rparr>\<rparr>"

named_theorems config_free_intros \<open>rules that compose config_free\<close>

definition config_free :: "'a act \<Rightarrow> bool" where
  "config_free m \<longleftrightarrow> (\<forall>cfg w. m (with_config cfg w) = (case m w of (r, w') \<Rightarrow> (r, with_config cfg w')))"

lemma config_free_basic [config_free_intros]:
  "config_free (ret x)" "config_free (query f)" "config_free (perform c)"
  "config_free (ask e_total_memory)" "config_free (ask e_cpus)"
  by (auto simp: config_free_def ret_def query_def perform_def ask_def ext_def with_config_def Let_def
      split: option.splits)

lemma config_free_seq [config_free_intros]:
  "config_free m \<Longrightarrow> (\<And>x. config_free (f x)) \<Longrightarrow> config_free (seq m f)"
  by (auto simp: config_free_def seq_def split: prod.splits sum.splits)

lemma config_free_attempt [config_free_intros]:
  "config_free m \<Longrightarrow> config_free (attempt m)" "config_free m \<Longrightarrow> config_free (ignore m)"
  by (auto simp: config_free_def attempt_def ignore_def split: prod.splits)

lemma config_free_for_each [config_free_intros]:
  assumes "\<And>x. config_free (f x)"
  shows "config_free (for_each f xs)"
  by (induction xs) (simp_all add: config_free_basic config_free_seq assms)

lemma config_free_branches [config_free_intros]:
  "config_free m \<Longrightarrow> config_free n \<Longrightarrow> config_free (if b then m else n)"
  "(\<And>e. config_free (g e)) \<Longrightarrow> (\<And>x. config_free (f x)) \<Longrightarrow> config_free (case z of Inl e \<Rightarrow> g e | Inr x \<Rightarrow> f x)"
  "(\<And>a b. config_free (h a b)) \<Longrightarrow> config_free (case u of (a, b) \<Rightarrow> h a b)"
  "(\<And>x. config_free (f x)) \<Longrightarrow> config_free (let x = v in f x)"
  by (auto split: sum.splits prod.splits)

section \<open>What completing a file keeps\<close>

lemma raw_get_delete [simp]: "raw_get k (raw_delete k' raw) = (if k = k' then None else raw_get k raw)"
  by (induction raw) (auto simp: raw_get_def raw_delete_def)

lemma raw_get_Cons [simp]: "raw_get k ((k', v) # raw) = (if k = k' then Some v else raw_get k raw)"
  by (simp add: raw_get_def)

lemma raw_get_defaults:
  "raw_get k (backfill_defaults defaults raw) =
     (case raw_get k raw of Some v \<Rightarrow> Some v | None \<Rightarrow> raw_get k defaults)"
  by (induction defaults raw rule: backfill_defaults.induct) (auto simp: raw_get_def split: option.splits)

lemma raw_get_legacy:
  "raw_get k (backfill_legacy_ttl raw) =
    (if k = ''container_ttl_hours'' \<and> raw_get k raw = None then
       (case raw_get ''container_ttl'' raw of
          Some (RawInt nanos) \<Rightarrow> if 0 \<le> nanos \<and> in_i64 nanos then Some (RawInt (duration_hours nanos)) else None
        | _ \<Rightarrow> None)
     else raw_get k raw)"
  by (auto simp: backfill_legacy_ttl_def split: option.splits raw_value.splits)

end
