(* ===== verification/SystemProps.thy ===== *)
theory SystemProps
  imports Rebalancer Samples SystemService
begin

text \<open>Properties of the distribution of the resources of the host.\<close>

section \<open>Memory lent to the running containers\<close>






text \<open>Properties of the configuration of the system.\<close>

section \<open>The configuration in force\<close>

text \<open>
  C10. Whatever sequence of updates is attempted on a manager that started, and wherever writing
  the file fails, the configuration in force is valid and is the one the file holds.
\<close>

theorem configuration_stays_valid:
  assumes "new_manager re encode decode fault stored dflt = Inr m"
  shows "manager_ok re (foldl (\<lambda>m (fault, new). fst (snd (update_config re fault new m))) m updates)"
proof -
  have step: "manager_ok re x \<Longrightarrow> manager_ok re (fst (snd (update_config re f new x)))" for f new x
    using update_config_ok[of re x f new] by (cases "update_config re f new x") auto
  have "manager_ok re m" using new_manager_ok[OF assms] .
  then show ?thesis by (induction updates arbitrary: m) (auto intro: step)
qed

theorem configuration_stays_valid_witness:
  "manager_ok (\<lambda>p t. Some False)
     (fst (snd (update_config (\<lambda>p t. Some False) (\<lambda>s. if s = SaveRename then Some (OtherErr ''disk full'') else None)
       (sample_config\<lparr>g_ttl_hours := 1\<rparr>) \<lparr>mg_config = sample_config, mg_file = Some sample_config, mg_temps = 0\<rparr>)))"
proof -
  have "new_manager (\<lambda>p t. Some False) (\<lambda>c. []) (\<lambda>r. Inr sample_config) (\<lambda>s. None) None sample_config
      = Inr \<lparr>mg_config = sample_config, mg_file = Some sample_config, mg_temps = 0\<rparr>"
    by code_simp
  from configuration_stays_valid[OF this, where updates = "[((\<lambda>s. if s = SaveRename then Some (OtherErr ''disk full'') else None),
      sample_config\<lparr>g_ttl_hours := 1\<rparr>)]"]
  show ?thesis by simp
qed

section \<open>Rebalancing after a change\<close>

text \<open>
  C11. An update that requests no rebalance needs none: for every store, host and pattern of
  failures, the rebalancer sends Docker under the new configuration exactly the limits it sends
  under the old one.
\<close>

theorem unnoticed_change_is_harmless:
  assumes "update_config re fault new m = (None, m', False)" and "e_config (w_env w) = mg_config m"
    and "mg_config m' = new"
  shows "rebalance_resources (with_config new w)
    = (case rebalance_resources w of (r, w') \<Rightarrow> (r, with_config new w'))"
proof -
  let ?old = "e_config (w_env w)"
  have u: "\<not> resource_config_changed ?old new"
    using assms(1,2) by (auto simp: update_config_def Let_def split: option.splits prod.splits)
  define body where "body cfg =
     seq (attempt (query get_running)) (\<lambda>r. case r of Inl e \<Rightarrow> ret () | Inr cs \<Rightarrow>
     if cs = [] then ret () else
     seq (attempt (ask e_total_memory)) (\<lambda>r. case r of Inl e \<Rightarrow> ret () | Inr totmem \<Rightarrow>
     seq (attempt (ask e_cpus)) (\<lambda>r. case r of Inl e \<Rightarrow> ret () | Inr cpus \<Rightarrow>
     seq (active_build_reservations cfg) (\<lambda>(build_mem, build_cpu).
     let available = burst_memory cfg totmem build_mem;
         available_cpu = i64 (i64 (i64 (cpus * 1000) - g_reserved_system_cpu cfg) - build_cpu);
         reserved = total_i64 0 (map (\<lambda>c. normalize_memory (c_memory c) cfg) cs);
         reserved_cpu = total_i64 0 (map (\<lambda>c. normalize_cpu (c_cpu c) cfg) cs)
     in for_each (update_resources cfg (length cs)
          (burst_factor available reserved) (burst_factor available_cpu reserved_cpu)) cs))))" for cfg
  have run: "rebalance_resources v = body (e_config (w_env v)) v" for v
    by (simp add: rebalance_resources_def body_def seq_def get_config_def)
  have fields: "g_build_memory ?old = g_build_memory new" "g_reserved_system_cpu ?old = g_reserved_system_cpu new"
    using u by (simp_all add: resource_config_changed_def)
  have "body new = body ?old"
    unfolding body_def active_build_reservations_def update_resources_def rebalanced_unchanged[OF u] fields
    by (rule refl)
  moreover have "config_free (body ?old)"
    unfolding body_def active_build_reservations_def update_resources_def
    by (intro config_free_intros)
  ultimately show ?thesis by (simp add: run config_free_def) (simp add: with_config_def)
qed

theorem unnoticed_change_is_harmless_witness:
  "rebalance_resources (with_config (sample_config\<lparr>g_ttl_hours := 1\<rparr>) sample_world)
    = (case rebalance_resources sample_world of (r, w') \<Rightarrow> (r, with_config (sample_config\<lparr>g_ttl_hours := 1\<rparr>) w'))"
proof -
  let ?m = "\<lparr>mg_config = sample_config, mg_file = Some sample_config, mg_temps = 0\<rparr>"
  have v: "validate_system_config (\<lambda>p t. Some False) (sample_config\<lparr>g_ttl_hours := 1\<rparr>) = None" by code_simp
  have "update_config (\<lambda>p t. Some False) (\<lambda>s. None) (sample_config\<lparr>g_ttl_hours := 1\<rparr>) ?m
      = (None, ?m\<lparr>mg_config := sample_config\<lparr>g_ttl_hours := 1\<rparr>, mg_file := Some (sample_config\<lparr>g_ttl_hours := 1\<rparr>)\<rparr>, False)"
    by (simp add: update_config_def manager_update_def save_to_file_def v resource_config_changed_def)
  from unnoticed_change_is_harmless[OF this, of sample_world] show ?thesis
    by (simp add: sample_world_def sample_env_def)
qed

end
