(* ===== verification/ProjectService.thy ===== *)
theory ProjectService
  imports ContainerWorker CoreStep
begin

text \<open>
  The project service (internal/core/service/project.go) with the test of a compose dependency
  (internal/core/dependencywait/wait.go) and the cancellation of a deployment it calls
  (requestCancel in internal/core/service/compose/orchestrator.go).  The requests only set the
  status of the project; the lifecycle coordinator then advances each starting, stopping or
  deleting project by one container per tick.  The timer of the coordinator and the log lines are
  not modelled; a container of a service is started, stopped and deleted through the container
  service, under the scope of the owner of the project.
\<close>

section \<open>Dependencies\<close>

fun condition_text :: "dep_condition \<Rightarrow> string" where
  "condition_text CondStarted = ''service_started''"
| "condition_text CondHealthy = ''service_healthy''"
| "condition_text CondCompleted = ''service_completed_successfully''"
| "condition_text (CondOther s) = s"

definition no_healthcheck_error :: goerr where
  "no_healthcheck_error =
     mk_err ErrBadRequest ''service_healthy requested, but no healthcheck defined for container''"

definition evaluate :: "container_state \<Rightarrow> dep_condition \<Rightarrow> goerr + bool" where
  "evaluate s cond = (case cond of
       CondHealthy \<Rightarrow> (case st_health s of
           None \<Rightarrow> Inl no_healthcheck_error
         | Some h \<Rightarrow>
             if h = ''healthy'' then Inr True
             else if h = ''unhealthy'' then Inl (mk_err ErrConflict ''dependency became unhealthy'')
             else if \<not> st_running s \<and> st_exit_code s \<noteq> 0
               then Inl (mk_err ErrConflict ''dependency exited before becoming healthy'')
             else Inr False)
     | CondCompleted \<Rightarrow>
         if \<not> st_running s \<and> st_status s = ''exited'' then
           if st_exit_code s = 0 then Inr True
           else Inl (mk_err ErrConflict ''dependency exited with non-zero code'')
         else Inr False
     | CondStarted \<Rightarrow>
         if st_running s then Inr True
         else if \<not> st_running s \<and> st_exit_code s \<noteq> 0
           then Inl (mk_err ErrConflict ''dependency failed to start'')
         else Inr False
     | CondOther _ \<Rightarrow> Inl (mk_err ErrBadRequest ''unsupported dependency condition''))"

definition evaluate_inspection :: "inspection \<Rightarrow> dep_condition \<Rightarrow> goerr + bool" where
  "evaluate_inspection ins cond =
    (if cond \<noteq> CondHealthy then evaluate (in_state ins) cond
     else if in_health ins = None \<and> st_health (in_state ins) = None then Inl no_healthcheck_error
     else if in_health ins \<noteq> None \<and> st_health (in_state ins) = None then Inr False
     else evaluate (in_state ins) cond)"

section \<open>Cancelling a deployment\<close>

definition request_cancel :: "scope option \<Rightarrow> id \<Rightarrow> bool \<Rightarrow> unit act" where
  "request_cancel ctx pid from_build =
     seq (query (get_project pid)) (\<lambda>p.
     seq (check (require_owner_access ctx (p_owner p))) (\<lambda>_.
     if p_status p = PBuilding \<or> p_status p = PDeploying \<or> p_status p = PCanceling then
       seq (exec (update_project_status pid PCanceling None)) (\<lambda>_.
       on_error (exec (request_job_cancel pid)) (\<lambda>e.
         if errors_is e ErrNotFound then ret () else fail e))
     else if p_status p = PCanceled then ret ()
     else if from_build then ret ()
     else fail (mk_err ErrConflict ''compose deployment is not active'')))"

definition cancel_deployment :: "scope option \<Rightarrow> id \<Rightarrow> unit act" where
  "cancel_deployment ctx pid = request_cancel ctx pid False"

definition cancel_deployment_for_build :: "scope option \<Rightarrow> id \<Rightarrow> unit act" where
  "cancel_deployment_for_build ctx pid = request_cancel ctx pid True"

section \<open>Requests\<close>

definition operation_in_progress :: goerr where
  "operation_in_progress = mk_err ErrConflict ''project operation is already in progress''"

text \<open>The beginning the requests share: load, authorise, refuse a busy project.\<close>

definition load_project :: "scope option \<Rightarrow> id \<Rightarrow> project act" where
  "load_project ctx pid =
     seq (query (get_project pid)) (\<lambda>p.
     seq (check (require_owner_access ctx (p_owner p))) (\<lambda>_. ret p))"

definition load_idle_project :: "scope option \<Rightarrow> id \<Rightarrow> project act" where
  "load_idle_project ctx pid =
     seq (load_project ctx pid) (\<lambda>p.
     if project_status_blocks (p_status p) then fail operation_in_progress else ret p)"

text \<open>The memory and the CPU of the containers a start would add, as int64 sums.\<close>

fun start_demand :: "config \<Rightarrow> int \<Rightarrow> int \<Rightarrow> container list \<Rightarrow> int \<times> int" where
  "start_demand cfg ram cpu [] = (ram, cpu)"
| "start_demand cfg ram cpu (c # cs) =
    (if c_status c = CRunning \<or> c_status c = CStarting \<or> c_status c = CMissing \<or> c_status c = CError
     then start_demand cfg ram cpu cs
     else start_demand cfg
       (i64 (ram + (if c_memory c \<le> 0 then g_default_memory cfg else c_memory c)))
       (i64 (cpu + (if c_cpu c \<le> 0 then g_default_cpu cfg else c_cpu c))) cs)"

definition ensure_start_capacity :: "project \<Rightarrow> unit act" where
  "ensure_start_capacity p =
     seq (query (get_by_project (p_id p))) (\<lambda>cs.
     seq get_config (\<lambda>cfg.
     case start_demand cfg 0 0 cs of (ram, cpu) \<Rightarrow>
       if ram \<le> 0 \<and> cpu \<le> 0 then ret () else check_capacity (p_owner p) ram cpu 0))"

definition start_project :: "scope option \<Rightarrow> id \<Rightarrow> unit act" where
  "start_project ctx pid =
     seq (load_idle_project ctx pid) (\<lambda>p.
     seq (ensure_start_capacity p) (\<lambda>_.
     exec (update_project_status (p_id p) PStarting None)))"

definition stop_project :: "scope option \<Rightarrow> id \<Rightarrow> unit act" where
  "stop_project ctx pid =
     seq (load_idle_project ctx pid) (\<lambda>p. exec (update_project_status (p_id p) PStopping None))"

definition request_delete_project :: "scope option \<Rightarrow> id \<Rightarrow> unit act" where
  "request_delete_project ctx pid =
     seq (load_idle_project ctx pid) (\<lambda>p. exec (update_project_status (p_id p) PDeleting None))"

definition cancel_project :: "scope option \<Rightarrow> id \<Rightarrow> unit act" where
  "cancel_project ctx pid = seq (load_project ctx pid) (\<lambda>p. cancel_deployment ctx pid)"

definition list_all_projects :: "scope option \<Rightarrow> int \<Rightarrow> int \<Rightarrow> (project list \<times> nat) act" where
  "list_all_projects ctx limit offset = (case require_scope ctx of
       Inl e \<Rightarrow> fail e
     | Inr s \<Rightarrow> if sc_kind s \<noteq> KindUser \<and> sc_kind s \<noteq> KindAdmin then fail (Sentinel ErrForbidden)
         else query (list_projects \<lparr> lo_owner = owner_filter s, lo_project = None,
                       lo_limit = limit, lo_offset = offset \<rparr>))"

section \<open>One tick of the coordinator\<close>

definition missing_graph :: "goerr \<Rightarrow> goerr" where
  "missing_graph e =
     wrap_err ErrConflict ''project service graph is missing; redeploy the compose project'' e"

definition service_graph_of :: "id \<Rightarrow> service_node list act" where
  "service_graph_of pid = on_error (query (get_service_graph pid)) (\<lambda>e. fail (missing_graph e))"

definition project_dependency_ready :: "service_dependency \<Rightarrow> bool act" where
  "project_dependency_ready d =
     seq (query (get_container (sd_depends_on d))) (\<lambda>c.
     if c_docker_id c = [] then ret False
     else seq (docker_inspect (c_docker_id c)) (\<lambda>ins.
       case evaluate_inspection ins (sd_condition d) of Inl e \<Rightarrow> fail e | Inr b \<Rightarrow> ret b))"

definition dependency_failed :: "service_dependency \<Rightarrow> goerr \<Rightarrow> goerr" where
  "dependency_failed d e = Wrapped (''dependency '' @ sd_service d @ '' failed condition ''
     @ condition_text (sd_condition d) @ '': '' @ error_text e) e"

fun dependencies_ready :: "service_dependency list \<Rightarrow> bool act" where
  "dependencies_ready [] = ret True"
| "dependencies_ready (d # ds) =
     seq (attempt (project_dependency_ready d)) (\<lambda>r. case r of
         Inl e \<Rightarrow> if sd_optional d then dependencies_ready ds else fail (dependency_failed d e)
       | Inr ready \<Rightarrow> if ready then dependencies_ready ds else ret False)"

definition in_service :: "string \<Rightarrow> string \<Rightarrow> goerr \<Rightarrow> goerr" where
  "in_service what service e = Wrapped (''failed to '' @ what @ '' service '' @ service @ '': '' @ error_text e) e"

fun start_next :: "scope option \<Rightarrow> id \<Rightarrow> service_node list \<Rightarrow> unit act" where
  "start_next ctx pid [] = exec (update_project_status pid PRunning None)"
| "start_next ctx pid (n # ns) =
     seq (query (get_container (sn_container n))) (\<lambda>c.
     if c_status c = CRunning then start_next ctx pid ns
     else if c_status c = CMissing \<or> c_status c = CError then
       fail (OtherErr (''service '' @ sn_service n @ '' container is '' @ status_text (c_status c)))
     else if status_blocks_tick (c_status c) then ret ()
     else seq (dependencies_ready (sn_deps n)) (\<lambda>ready.
       if \<not> ready then ret ()
       else on_error (start ctx (sn_container n)) (\<lambda>e. fail (in_service ''start'' (sn_service n) e))))"

definition advance_project_start :: "scope option \<Rightarrow> project \<Rightarrow> unit act" where
  "advance_project_start ctx p =
     seq (service_graph_of (p_id p)) (\<lambda>graph. start_next ctx (p_id p) graph)"

fun stop_next :: "scope option \<Rightarrow> id \<Rightarrow> service_node list \<Rightarrow> unit act" where
  "stop_next ctx pid [] = exec (update_project_status pid PStopped None)"
| "stop_next ctx pid (n # ns) =
     seq (query (get_container (sn_container n))) (\<lambda>c.
     if c_status c = CCreated \<or> c_status c = CExited \<or> c_status c = CMissing then stop_next ctx pid ns
     else if status_blocks_tick (c_status c) then ret ()
     else on_error (stop ctx (sn_container n)) (\<lambda>e. fail (in_service ''stop'' (sn_service n) e)))"

definition advance_project_stop :: "scope option \<Rightarrow> project \<Rightarrow> unit act" where
  "advance_project_stop ctx p =
     seq (service_graph_of (p_id p)) (\<lambda>graph. stop_next ctx (p_id p) (rev graph))"

definition advance_project_delete :: "scope option \<Rightarrow> project \<Rightarrow> unit act" where
  "advance_project_delete ctx p =
     seq (on_error (cancel_deployment ctx (p_id p)) (\<lambda>e.
       if errors_is e ErrConflict \<or> errors_is e ErrNotFound then ret () else fail e)) (\<lambda>_.
     seq (query (get_by_project (p_id p))) (\<lambda>cs. case cs of
         [] \<Rightarrow> seq (exec (delete_project (p_id p))) (\<lambda>_. cleanup_user_network (p_owner p))
       | c # _ \<Rightarrow>
           if c_status c = CDeleting then ret ()
           else on_error (delete ctx (c_id c)) (\<lambda>e.
             if errors_is e ErrNotFound \<or> is_docker_not_found e then ret ()
             else fail (Wrapped (''failed to remove container '' @ c_name c @ '': '' @ error_text e) e))))"

definition fail_project :: "id \<Rightarrow> goerr \<Rightarrow> unit act" where
  "fail_project pid cause = ignore (exec (update_project_status pid PFailed (Some (safe_message (Some cause)))))"

definition advance_project :: "project \<Rightarrow> unit act" where
  "advance_project p =
    (let ctx = Some (user_scope (p_owner p) [] []) in
     on_error (case p_status p of
         PStarting \<Rightarrow> advance_project_start ctx p
       | PStopping \<Rightarrow> advance_project_stop ctx p
       | PDeleting \<Rightarrow> advance_project_delete ctx p
       | _ \<Rightarrow> ret ()) (fail_project (p_id p)))"

definition advance_lifecycle_projects :: "unit act" where
  "advance_lifecycle_projects =
     seq (attempt (query (list_projects_by_status [PStarting, PStopping, PDeleting] 50))) (\<lambda>r. case r of
         Inl e \<Rightarrow> ret ()
       | Inr ps \<Rightarrow> for_each advance_project ps)"

section \<open>Only transitions of the store\<close>

lemma follows_job_cancel [follows_intros]: "follows core (exec (request_job_cancel pid))"
  by (rule follows_exec) (simp add: core_def core_step.cancel_job)

lemma follows_delete_project [follows_intros]: "follows core (exec (delete_project pid))"
  by (rule follows_exec) (simp add: core_def core_step.delete_project)

lemma follows_cancel_deployment [follows_intros]:
  "follows core (request_cancel ctx pid b)" "follows core (cancel_deployment ctx pid)"
  "follows core (cancel_deployment_for_build ctx pid)"
  unfolding cancel_deployment_def cancel_deployment_for_build_def request_cancel_def
  by (intro follows_intros)+

lemma follows_check_capacity [follows_intros]: "follows R (check_capacity owner ram cpu disk)"
  unfolding check_capacity_def by (intro follows_intros)

lemma follows_project_requests:
  "follows core (start_project ctx pid)" "follows core (stop_project ctx pid)"
  "follows core (request_delete_project ctx pid)" "follows core (cancel_project ctx pid)"
  unfolding start_project_def stop_project_def request_delete_project_def cancel_project_def
    load_idle_project_def load_project_def ensure_start_capacity_def
  by (intro follows_intros)+

lemma follows_dependencies [follows_intros]: "follows R (dependencies_ready ds)"
proof (induction ds)
  case Nil
  then show ?case by (simp add: follows_intros)
next
  case (Cons d ds)
  then show ?case
    unfolding dependencies_ready.simps project_dependency_ready_def docker_inspect_def
    by (intro follows_intros)
qed

lemma follows_next [follows_intros]:
  "follows core (start_next ctx pid ns)" "follows core (stop_next ctx pid ns)"
proof (induction ns)
  case Nil
  { case 1 show ?case unfolding start_next.simps by (intro follows_intros) }
  { case 2 show ?case unfolding stop_next.simps by (intro follows_intros) }
next
  case (Cons n ns)
  { case 1 show ?case using Cons.IH(1) unfolding start_next.simps by (intro follows_intros) }
  { case 2 show ?case using Cons.IH(2) unfolding stop_next.simps by (intro follows_intros) }
qed

lemma follows_advance_project [follows_intros]: "follows core (advance_project p)"
proof -
  have "follows core (advance_project_start ctx p)" "follows core (advance_project_stop ctx p)" for ctx
    unfolding advance_project_start_def advance_project_stop_def service_graph_of_def by (intro follows_intros)+
  moreover have "follows core (advance_project_delete ctx p)" for ctx
    unfolding advance_project_delete_def by (intro follows_intros) (auto split: list.splits intro!: follows_intros)
  ultimately show ?thesis
    unfolding advance_project_def Let_def fail_project_def
    by (intro follows_on_error) (auto split: proj_status.splits intro!: follows_intros)
qed

end
