(* ===== verification/ProjectProps.thy ===== *)
theory ProjectProps
  imports ProjectService StartSteps Samples
begin

text \<open>Properties of the lifecycle of compose projects.\<close>

section \<open>Starting in the order of the dependencies\<close>

text \<open>Docker reports the state the dependency asks for.\<close>

definition dependency_met :: "env \<Rightarrow> db \<Rightarrow> service_dependency \<Rightarrow> bool" where
  "dependency_met env d dep \<longleftrightarrow> (\<exists>k b. get_container (sd_depends_on dep) d = Inr b \<and> c_docker_id b \<noteq> []
     \<and> evaluate_inspection (e_inspect env k (c_docker_id b)) (sd_condition dep) = Inr True)"

lemma quiet_dependency_ready [quiet_intros]: "quiet (project_dependency_ready d)"
  unfolding project_dependency_ready_def docker_inspect_def by (intro quiet_intros)

lemma quiet_dependencies_ready [quiet_intros]: "quiet (dependencies_ready ds)"
proof (induction ds)
  case (Cons d ds)
  then show ?case unfolding dependencies_ready.simps by (intro quiet_intros)
qed (simp add: quiet_intros)

lemma dependency_ready_met:
  "project_dependency_ready d w = (Inr True, w') \<Longrightarrow> dependency_met (w_env w) (w_db w) d"
  unfolding project_dependency_ready_def docker_inspect_def dependency_met_def
  by (auto simp: act_Inr split: if_splits sum.splits)

lemma dependencies_ready_met:
  "dependencies_ready ds w = (Inr True, w') \<Longrightarrow> d \<in> set ds \<Longrightarrow> sd_optional d \<or> dependency_met (w_env w) (w_db w) d"
proof (induction ds arbitrary: w)
  case (Cons d1 ds)
  obtain r w1 where r: "project_dependency_ready d1 w = (r, w1)" by fastforce
  note q = quietD[OF quiet_dependency_ready r]
  have tail: "(case r of Inl e \<Rightarrow> if sd_optional d1 then dependencies_ready ds else fail (dependency_failed d1 e)
       | Inr ready \<Rightarrow> if ready then dependencies_ready ds else ret False) w1 = (Inr True, w')"
    using Cons.prems(1) r by (simp add: seq_def attempt_def)
  show ?case
  proof (cases r)
    case (Inl e)
    then have "sd_optional d1" "dependencies_ready ds w1 = (Inr True, w')"
      using tail by (auto split: if_splits)
    then show ?thesis using Cons.IH[of w1] Cons.prems(2) q by auto
  next
    case (Inr ready)
    then have "ready" "dependencies_ready ds w1 = (Inr True, w')" using tail by (auto split: if_splits)
    then show ?thesis using Cons.IH[of w1] Cons.prems(2) q dependency_ready_met[of d1 w w1] r Inr by auto
  qed
qed simp

lemma update_project_status_containers:
  "update_project_status pid s msg t d = Inr d' \<Longrightarrow> t_containers d' = t_containers d"
  by (auto simp: update_project_status_def split: if_splits)

lemma start_next_Inr:
  assumes "start_next ctx pid ns w = (Inr (), w')" and "t_containers (w_db w') \<noteq> t_containers (w_db w)"
  shows "\<exists>pre n post c w2. ns = pre @ n # post
     \<and> (\<forall>m \<in> set pre. \<exists>b. get_container (sn_container m) (w_db w) = Inr b \<and> c_status b = CRunning)
     \<and> get_container (sn_container n) (w_db w) = Inr c \<and> \<not> status_blocks_tick (c_status c)
     \<and> (\<forall>d \<in> set (sn_deps n). sd_optional d \<or> dependency_met (w_env w) (w_db w) d)
     \<and> w_db w2 = w_db w \<and> start ctx (sn_container n) w2 = (Inr (), w')"
  using assms
proof (induction ns arbitrary: w)
  case Nil
  then show ?case by (auto simp: exec_Inr update_project_status_containers)
next
  case (Cons n ns)
  from Cons.prems(1) obtain c w1 where c: "query (get_container (sn_container n)) w = (Inr c, w1)"
    and rest: "(if c_status c = CRunning then start_next ctx pid ns
     else if c_status c = CMissing \<or> c_status c = CError then
       fail (OtherErr (''service '' @ sn_service n @ '' container is '' @ status_text (c_status c)))
     else if status_blocks_tick (c_status c) then ret ()
     else seq (dependencies_ready (sn_deps n)) (\<lambda>ready.
       if \<not> ready then ret ()
       else on_error (start ctx (sn_container n)) (\<lambda>e. fail (in_service ''start'' (sn_service n) e)))) w1 = (Inr (), w')"
    unfolding start_next.simps seq_Inr_iff by blast
  have q: "w_db w1 = w_db w" "w_env w1 = w_env w" and gc: "get_container (sn_container n) (w_db w) = Inr c"
    using c by (auto simp: query_Inr)
  show ?case
  proof (cases "c_status c = CRunning")
    case True
    then have "start_next ctx pid ns w1 = (Inr (), w')" using rest by simp
    from Cons.IH[OF this] Cons.prems(2) q obtain pre m post b w2 where
      h: "ns = pre @ m # post" "\<forall>m \<in> set pre. \<exists>b. get_container (sn_container m) (w_db w) = Inr b \<and> c_status b = CRunning"
        "get_container (sn_container m) (w_db w) = Inr b" "\<not> status_blocks_tick (c_status b)"
        "\<forall>d \<in> set (sn_deps m). sd_optional d \<or> dependency_met (w_env w) (w_db w) d"
        "w_db w2 = w_db w" "start ctx (sn_container m) w2 = (Inr (), w')"
      by auto
    have "\<forall>x \<in> set (n # pre). \<exists>b. get_container (sn_container x) (w_db w) = Inr b \<and> c_status b = CRunning"
      using h(2) gc True by auto
    moreover have "n # ns = (n # pre) @ m # post" using h(1) by simp
    ultimately show ?thesis using h(3-7) by blast
  next
    case False
    then have nb: "\<not> status_blocks_tick (c_status c)" and "seq (dependencies_ready (sn_deps n)) (\<lambda>ready.
       if \<not> ready then ret ()
       else on_error (start ctx (sn_container n)) (\<lambda>e. fail (in_service ''start'' (sn_service n) e))) w1 = (Inr (), w')"
      using rest Cons.prems(2) q by (auto split: if_splits)
    then obtain ready w2 where r: "dependencies_ready (sn_deps n) w1 = (Inr ready, w2)"
      and s: "(if \<not> ready then ret ()
       else on_error (start ctx (sn_container n)) (\<lambda>e. fail (in_service ''start'' (sn_service n) e))) w2 = (Inr (), w')"
      unfolding seq_Inr_iff by blast
    have q2: "w_db w2 = w_db w" using quietD[OF quiet_dependencies_ready r] q by simp
    have ready: "ready" "start ctx (sn_container n) w2 = (Inr (), w')"
      using s Cons.prems(2) q2 by (auto simp: on_error_Inr split: if_splits)
    have deps: "\<forall>d \<in> set (sn_deps n). sd_optional d \<or> dependency_met (w_env w) (w_db w) d"
      using dependencies_ready_met[of "sn_deps n" w1 w2] r ready q by auto
    have "n # ns = [] @ n # ns" "\<forall>x \<in> set ([]::service_node list). \<exists>b. get_container (sn_container x) (w_db w) = Inr b \<and> c_status b = CRunning"
      by simp_all
    then show ?thesis using gc nb deps q2 ready by blast
  qed
qed

lemma start_effect:
  assumes "start ctx cid w = (Inr (), w')"
  shows "\<exists>t. t_containers (w_db w') = update_where (\<lambda>x. c_id x = cid)
     (\<lambda>x. observed t (x\<lparr>c_status := CStarting, c_desired := CRunning\<rparr>)) (t_containers (w_db w))
     \<and> t_projects (w_db w') = t_projects (w_db w)"
  using assms
proof (rule start_Inr)
  fix c assume c: "get_container cid (w_db w) = Inr c"
    and q: "\<exists>oid rid msg t. queue_container_operation (c_id c) CStarting CRunning
          (new_operation oid RContainer (c_id c) (c_owner c) OpStart)
          (new_outbox rid oid (c_id c) container_exchange container_routing_key msg) t (w_db w) = Inr (w_db w')"
  then have "c_id c = cid" using get_container_mem by blast
  moreover have "queue_container_operation cid cs des op r t d = Inr d' \<Longrightarrow> t_projects d' = t_projects d"
    for cid cs des op r t d d'
    by (auto simp: queue_container_operation_def repo_simps)
  ultimately show ?thesis using q queue_container_operation_Inr by metis
qed

text \<open>
  C12. When a tick of a starting project starts a service, all services before it in the stored
  order are running, each of its dependencies that is not optional is in the state its condition
  asks for according to Docker, and only the container of this one service is touched.
\<close>

theorem start_in_dependency_order:
  assumes "advance_project_start ctx p w = (Inr (), w')"
    and "t_containers (w_db w') \<noteq> t_containers (w_db w)"
  shows "\<exists>pre n post t. get_service_graph (p_id p) (w_db w) = Inr (pre @ n # post)
     \<and> (\<forall>m \<in> set pre. \<exists>b. get_container (sn_container m) (w_db w) = Inr b \<and> c_status b = CRunning)
     \<and> (\<forall>d \<in> set (sn_deps n). sd_optional d \<or> dependency_met (w_env w) (w_db w) d)
     \<and> t_containers (w_db w') = update_where (\<lambda>x. c_id x = sn_container n)
          (\<lambda>x. observed t (x\<lparr>c_status := CStarting, c_desired := CRunning\<rparr>)) (t_containers (w_db w))"
proof -
  from assms(1) obtain graph w1 where g: "query (get_service_graph (p_id p)) w = (Inr graph, w1)"
    and s: "start_next ctx (p_id p) graph w1 = (Inr (), w')"
    unfolding advance_project_start_def service_graph_of_def seq_Inr_iff on_error_Inr by auto
  have q: "w_db w1 = w_db w" "w_env w1 = w_env w" "get_service_graph (p_id p) (w_db w) = Inr graph"
    using g by (auto simp: query_Inr)
  from start_next_Inr[OF s] assms(2) q obtain pre n post c w2 where
    h: "graph = pre @ n # post" "\<forall>m \<in> set pre. \<exists>b. get_container (sn_container m) (w_db w) = Inr b \<and> c_status b = CRunning"
      "\<forall>d \<in> set (sn_deps n). sd_optional d \<or> dependency_met (w_env w) (w_db w) d"
      "w_db w2 = w_db w" "start ctx (sn_container n) w2 = (Inr (), w')"
    by auto
  show ?thesis using h q start_effect[OF h(5)] by auto
qed

text \<open>A project of two services, the second of which waits for the first to run.\<close>

definition web_service :: service_node where
  "web_service = \<lparr> sn_project = 3, sn_container = 2, sn_service = ''web'', sn_order = 1,
     sn_deps = [\<lparr> sd_project = 3, sd_container = 2, sd_depends_on = 1, sd_service = ''db'',
                  sd_condition = CondStarted, sd_optional = False \<rparr>] \<rparr>"

definition db_service :: service_node where
  "db_service = \<lparr> sn_project = 3, sn_container = 1, sn_service = ''db'', sn_order = 0, sn_deps = [] \<rparr>"

definition sample_project :: project where
  "sample_project = \<lparr> p_id = 3, p_owner = 7, p_name = ''shop'', p_status = PStarting, p_error = None, p_created = 0 \<rparr>"

definition project_world :: "cstatus \<Rightarrow> world" where
  "project_world s = sample_world\<lparr>w_db := empty_db\<lparr>
     t_projects := [sample_project],
     t_nodes := [db_service, web_service],
     t_containers := [sample_container\<lparr>c_project := Some 3, c_status := s\<rparr>,
       sample_container\<lparr>c_id := 2, c_name := ''shop-web'', c_project := Some 3, c_docker_id := ''d2'', c_domain := []\<rparr>]\<rparr>\<rparr>"

theorem start_in_dependency_order_witness:
  "\<exists>pre n post. get_service_graph 3 (w_db (project_world CRunning)) = Inr (pre @ n # post)
     \<and> (\<forall>d \<in> set (sn_deps n). sd_optional d \<or> dependency_met sample_env (w_db (project_world CRunning)) d)"
proof -
  let ?w = "project_world CRunning" and ?s = "Some (user_scope 7 [] [])"
  let ?r = "advance_project_start ?s sample_project ?w"
  have "fst ?r = Inr ()" by code_simp
  then have r: "?r = (Inr (), snd ?r)" by (metis prod.collapse)
  have "map c_status (t_containers (w_db (snd ?r))) \<noteq> map c_status (t_containers (w_db ?w))" by code_simp
  then have "t_containers (w_db (snd ?r)) \<noteq> t_containers (w_db ?w)" by auto
  from start_in_dependency_order[OF r this] show ?thesis
    by (fastforce simp: sample_project_def project_world_def sample_world_def)
qed

section \<open>Deleting only what is empty\<close>

definition has_project :: "id \<Rightarrow> db \<Rightarrow> bool" where
  "has_project pid d \<longleftrightarrow> pid \<in> set (map p_id (t_projects d))"

lemma has_project_status [simp]:
  "p_id ` set (update_where Q (\<lambda>p. p\<lparr>p_status := s, p_error := msg\<rparr>) ps) = p_id ` set ps"
  by (metis (no_types, lifting) map_update_where project.select_convs(1) project.surjective project.update_convs(4,5) set_map)

lemma keeps_project_writes [keeps_intros]:
  "keeps (has_project pid) (exec (update_project_status q s msg))"
  "keeps (has_project pid) (exec (cancel_create_and_delete cid e))"
  "keeps (has_project pid) (exec (queue_container_operation cid cs des op r))"
proof -
  show "keeps (has_project pid) (exec (update_project_status q s msg))"
    by (rule keeps_exec) (auto simp: update_project_status_def has_project_def split: if_splits)
  show "keeps (has_project pid) (exec (queue_container_operation cid cs des op r))"
    by (rule keeps_exec) (auto simp: queue_container_operation_def repo_simps has_project_def)
  show "keeps (has_project pid) (exec (cancel_create_and_delete cid e))"
    by (rule keeps_exec) (auto simp: cancel_create_and_delete_def repo_simps has_project_def
        cascade_container_def Let_def split: if_splits)
qed

lemma keeps_project_delete_request [keeps_intros]: "keeps (has_project pid) (delete ctx cid)"
  unfolding delete_def load_container_def cleanup_user_network_def cleanup_user_network_if_unused_def
    refresh_status_of_def refresh_project_status_def queue_operation_def Let_def
  by (intro keeps_intros)

lemma keeps_project_cancel [keeps_intros]: "keeps (has_project pid) (cancel_deployment ctx q)"
proof -
  have "keeps (has_project pid) (exec (request_job_cancel q))"
    by (rule keeps_exec) (auto simp: request_job_cancel_def update_jobs_def has_project_def split: if_splits)
  then show ?thesis unfolding cancel_deployment_def request_cancel_def by (intro keeps_intros)
qed

lemma cancel_deployment_containers: "keeps (\<lambda>d. t_containers d = cs) (cancel_deployment ctx pid)"
proof -
  have "keeps (\<lambda>d. t_containers d = cs) (exec (update_project_status pid s msg))" for s msg
    by (rule keeps_exec) (auto simp: update_project_status_def split: if_splits)
  moreover have "keeps (\<lambda>d. t_containers d = cs) (exec (request_job_cancel pid))"
    by (rule keeps_exec) (auto simp: request_job_cancel_def update_jobs_def split: if_splits)
  ultimately show ?thesis unfolding cancel_deployment_def request_cancel_def by (intro keeps_intros)
qed

text \<open>
  The row of a project under deletion goes away only in a tick that finds no container of it
  in the store: whatever fails on the way, the deletion never drops a container row that has not
  been deleted through the container service, which removes the Docker container first.
\<close>

theorem project_deleted_only_when_empty:
  assumes "advance_project_delete ctx p w = (r, w')"
    and "has_project (p_id p) (w_db w)" and "\<not> has_project (p_id p) (w_db w')"
  shows "\<forall>c \<in> set (t_containers (w_db w)). c_project c \<noteq> Some (p_id p)"
proof -
  let ?I = "has_project (p_id p)"
  let ?m = "on_error (cancel_deployment ctx (p_id p)) (\<lambda>e.
       if errors_is e ErrConflict \<or> errors_is e ErrNotFound then ret () else fail e)"
  obtain r1 w1 where m: "?m w = (r1, w1)" by fastforce
  have k: "?I (w_db w1)"
    by (rule keepsD[where I = ?I and m = ?m and w = w, OF _ assms(2) m]) (intro keeps_intros)
  have same: "t_containers (w_db w1) = t_containers (w_db w)"
    by (rule keepsD[where I = "\<lambda>d. t_containers d = t_containers (w_db w)" and m = ?m and w = w, OF _ refl m])
      (intro keeps_on_error cancel_deployment_containers keeps_if keeps_pure)
  obtain u where r1: "r1 = Inr u" using m assms k by (cases r1) (auto simp: advance_project_delete_def seq_def)
  obtain r2 w2 where q: "query (get_by_project (p_id p)) w1 = (r2, w2)" by fastforce
  have w2: "w_db w2 = w_db w1" using quietD[OF quiet_query(1) q] by simp
  obtain cs where r2: "r2 = Inr cs"
    using m r1 q w2 assms k by (cases r2) (auto simp: advance_project_delete_def seq_def)
  have g: "get_by_project (p_id p) (w_db w1) = Inr cs" using q r2 by (auto simp: query_Inr)
  have "cs = []"
  proof (rule ccontr)
    assume "cs \<noteq> []"
    then obtain c cs' where "cs = c # cs'" by (cases cs) auto
    let ?n = "if c_status c = CDeleting then ret ()
           else on_error (delete ctx (c_id c)) (\<lambda>e.
             if errors_is e ErrNotFound \<or> is_docker_not_found e then ret ()
             else fail (Wrapped (''failed to remove container '' @ c_name c @ '': '' @ error_text e) e))"
    have e: "?n w2 = (r, w')"
      using \<open>cs = c # cs'\<close> assms(1) m r1 q r2 by (simp add: advance_project_delete_def seq_def)
    have "?I (w_db w')"
      by (rule keepsD[where I = ?I and m = ?n and w = w2, OF _ _ e]) (use k w2 in \<open>auto intro!: keeps_intros\<close>)
    then show False using assms(3) by simp
  qed
  then show ?thesis using g same by (auto simp: get_by_project_def filter_empty_conv)
qed

text \<open>The same world, with a project under deletion that has no containers left.\<close>

definition empty_project_world :: world where
  "empty_project_world = sample_world\<lparr>w_db := empty_db\<lparr>t_projects := [sample_project\<lparr>p_status := PDeleting\<rparr>]\<rparr>\<rparr>"

theorem project_deleted_only_when_empty_witness:
  "list_all (\<lambda>c. c_project c \<noteq> Some 3) (t_containers (w_db empty_project_world))
     \<and> \<not> has_project 3 (w_db (snd (advance_project_delete (Some (user_scope 7 [] []))
         (sample_project\<lparr>p_status := PDeleting\<rparr>) empty_project_world)))"
proof -
  let ?r = "advance_project_delete (Some (user_scope 7 [] [])) (sample_project\<lparr>p_status := PDeleting\<rparr>) empty_project_world"
  have h: "has_project (p_id (sample_project\<lparr>p_status := PDeleting\<rparr>)) (w_db empty_project_world)" by code_simp
  have n: "\<not> has_project (p_id (sample_project\<lparr>p_status := PDeleting\<rparr>)) (w_db (snd ?r))" by code_simp
  have "?r = (fst ?r, snd ?r)" by simp
  from project_deleted_only_when_empty[OF this h n] n show ?thesis by (simp add: sample_project_def list_all_iff)
qed

section \<open>The status of a project\<close>

text \<open>What the status of a project is meant to be, given its containers and the present status.\<close>

definition expected_status :: "proj_status \<Rightarrow> container list \<Rightarrow> proj_status" where
  "expected_status s cs =
    (if project_status_blocks s \<or> cs = [] then s
     else if \<exists>c \<in> set cs. c_status c = CMissing \<or> c_status c = CError then PFailed
     else if \<exists>c \<in> set cs. c_status c = CRunning then PRunning
     else if \<forall>c \<in> set cs. c_status c = CCreated \<or> c_status c = CExited then PStopped
     else s)"

lemma get_project_after:
  assumes "get_project pid d = Inr p"
  shows "get_project pid (d\<lparr>t_projects := update_where (\<lambda>p. p_id p = pid)
    (\<lambda>p. p\<lparr>p_status := s, p_error := msg\<rparr>) (t_projects d)\<rparr>) = Inr (p\<lparr>p_status := s, p_error := msg\<rparr>)"
  using assms find_SomeD[of "\<lambda>p. p_id p = pid" "t_projects d" p]
  by (auto simp: get_project_def find_row_def find_update_where split: option.splits)

lemma update_project_status_Inr:
  assumes "update_project_status pid s msg t d = Inr d'" and "get_project pid d = Inr p"
  shows "get_project pid d' = Inr (p\<lparr>p_status := s, p_error := msg\<rparr>)"
  using assms get_project_after[OF assms(2)] by (auto simp: update_project_status_def split: if_splits)

lemma aggregate_expected:
  assumes "\<not> project_status_blocks s" and "cs \<noteq> []"
  shows "expected_status s cs = (case aggregate False True cs of None \<Rightarrow> s | Some (t, msg) \<Rightarrow> t)"
proof (cases "find (\<lambda>c. c_status c = CMissing \<or> c_status c = CError) cs")
  case None
  then have "\<forall>c \<in> set cs. \<not> (c_status c = CMissing \<or> c_status c = CError)" by (simp add: find_None_iff)
  then show ?thesis using assms None by (simp add: expected_status_def aggregate_spec) blast
next
  case (Some c)
  then have "c \<in> set cs \<and> (c_status c = CMissing \<or> c_status c = CError)" by (rule find_SomeD)
  then show ?thesis using assms Some by (auto simp: expected_status_def aggregate_spec)
qed

text \<open>
  C13. The loop that aggregates the status of a project implements its specification: when the
  refresh succeeds, the project is failed if a container is missing or in error, otherwise running
  if one runs, otherwise stopped if all are created or exited, and unchanged in every other case,
  in particular while an operation on the project is under way.
\<close>

theorem project_status_refines_spec:
  assumes "refresh_project_status pid w = (Inr (), w')"
    and "get_project pid (w_db w) = Inr p"
  shows "\<exists>p'. get_project pid (w_db w') = Inr p'
     \<and> p_status p' = expected_status (p_status p) (filter (\<lambda>c. c_project c = Some pid) (t_containers (w_db w)))"
proof -
  let ?cs = "filter (\<lambda>c. c_project c = Some pid) (t_containers (w_db w))"
  from assms(1) obtain q w1 where q: "query (get_project pid) w = (Inr q, w1)"
    and rest: "(if project_status_blocks (p_status q) then ret ()
     else seq (query (get_by_project pid)) (\<lambda>cs.
       if cs = [] then ret ()
       else case aggregate False True cs of None \<Rightarrow> ret ()
            | Some (s, msg) \<Rightarrow> exec (update_project_status pid s msg))) w1 = (Inr (), w')"
    unfolding refresh_project_status_def seq_Inr_iff by blast
  have w1: "w_db w1 = w_db w" "q = p" using q assms(2) by (auto simp: query_Inr)
  show ?thesis
  proof (cases "project_status_blocks (p_status p) \<or> ?cs = []")
    case True
    then have "w_db w' = w_db w"
      using rest w1 by (auto simp: act_Inr get_by_project_def split: if_splits)
    moreover have "expected_status (p_status p) ?cs = p_status p"
      using True by (simp only: expected_status_def if_True)
    ultimately show ?thesis using assms(2) by auto
  next
    case False
    then obtain w2 where w2: "w_db w2 = w_db w" "(case aggregate False True ?cs of None \<Rightarrow> ret ()
            | Some (s, msg) \<Rightarrow> exec (update_project_status pid s msg)) w2 = (Inr (), w')"
      using rest w1 that[of "w1\<lparr>w_tick := Suc (w_tick w1)\<rparr>"]
      by (auto simp: seq_Inr_iff query_Inr get_by_project_def)
    have e: "expected_status (p_status p) ?cs = (case aggregate False True ?cs of None \<Rightarrow> p_status p | Some (t, msg) \<Rightarrow> t)"
      using False by (intro aggregate_expected) auto
    show ?thesis
      using w2 e assms(2) by (cases "aggregate False True ?cs")
        (auto simp: exec_Inr dest!: update_project_status_Inr)
  qed
qed

theorem project_status_refines_spec_witness:
  "\<exists>p'. get_project 3 (w_db (snd (refresh_project_status 3 (project_world CRunning)))) = Inr p' \<and> p_status p' = PStarting"
proof -
  let ?w = "project_world CRunning"
  have f: "fst (refresh_project_status 3 ?w) = Inr ()" by code_simp
  have r: "refresh_project_status 3 ?w = (Inr (), snd (refresh_project_status 3 ?w))"
    using f by (metis prod.collapse)
  have p: "get_project 3 (w_db ?w) = Inr sample_project" by code_simp
  from project_status_refines_spec[OF r p] show ?thesis
    by (simp add: expected_status_def sample_project_def)
qed

section \<open>Services that run to completion\<close>

text \<open>
  A tick of a starting project asks whether the container of a service runs, not whether the
  service has done its work: the first service, once it has exited, is started again, with exit
  code 0 as well, and the project goes on starting.  A project whose other services wait for the
  completion of such a service is not started by ticks that see the container exited.
\<close>

theorem completed_service_started_again:
  assumes "advance_project_start ctx p w = (Inr (), w')"
    and "get_service_graph (p_id p) (w_db w) = Inr (n # ns)" and "sn_deps n = []"
    and "get_container (sn_container n) (w_db w) = Inr c" and "c_status c = CExited"
  shows "\<exists>t. t_containers (w_db w') = update_where (\<lambda>x. c_id x = sn_container n)
     (\<lambda>x. observed t (x\<lparr>c_status := CStarting, c_desired := CRunning\<rparr>)) (t_containers (w_db w))
     \<and> t_projects (w_db w') = t_projects (w_db w)"
proof -
  from assms(1) obtain graph w1 where g: "query (get_service_graph (p_id p)) w = (Inr graph, w1)"
    and s: "start_next ctx (p_id p) graph w1 = (Inr (), w')"
    unfolding advance_project_start_def service_graph_of_def seq_Inr_iff on_error_Inr by auto
  have w1: "w_db w1 = w_db w" "graph = n # ns" using g assms(2) by (auto simp: query_Inr)
  obtain b w2 where b: "query (get_container (sn_container n)) w1 = (Inr b, w2)"
    and "(if c_status b = CRunning then start_next ctx (p_id p) ns
     else if c_status b = CMissing \<or> c_status b = CError then
       fail (OtherErr (''service '' @ sn_service n @ '' container is '' @ status_text (c_status b)))
     else if status_blocks_tick (c_status b) then ret ()
     else seq (dependencies_ready (sn_deps n)) (\<lambda>ready.
       if \<not> ready then ret ()
       else on_error (start ctx (sn_container n)) (\<lambda>e. fail (in_service ''start'' (sn_service n) e)))) w2 = (Inr (), w')"
    using s unfolding w1 start_next.simps seq_Inr_iff by blast
  moreover have "w_db w2 = w_db w" "b = c" using b w1 assms(4) by (auto simp: query_Inr)
  ultimately have "w_db w2 = w_db w" "start ctx (sn_container n) w2 = (Inr (), w')"
    using assms(3,5) by (auto simp: act_Inr)
  then show ?thesis using start_effect by metis
qed

theorem completed_service_started_again_witness:
  "t_projects (w_db (snd (advance_project_start (Some (user_scope 7 [] [])) sample_project (project_world CExited)))) = [sample_project]"
proof -
  let ?w = "project_world CExited"
  let ?r = "advance_project_start (Some (user_scope 7 [] [])) sample_project ?w"
  have "fst ?r = Inr ()" by code_simp
  then have r: "?r = (Inr (), snd ?r)" by (metis prod.collapse)
  have g: "get_service_graph (p_id sample_project) (w_db ?w)
      = Inr (db_service # [web_service])"
    by code_simp
  have c: "get_container (sn_container db_service) (w_db ?w) = Inr (sample_container\<lparr>c_project := Some 3\<rparr>)"
    by code_simp
  from completed_service_started_again[OF r g _ c] show ?thesis
    by (auto simp: db_service_def sample_container_def project_world_def)
qed

end
