(* ===== verification/GitSource.thy ===== *)
theory GitSource
  imports World Validation
begin

text \<open>
  Paths, references and sizes of the sources users hand in (pkg/gitsource/gitsource.go,
  pkg/buildobjects/keys.go) and the reader that bounds an upload (maxBytesReader in
  internal/core/service/build.go; the compose orchestrator has the same one).  The functions of
  path/filepath the code uses (Clean, Ext, Dir on a Unix system) are modelled on byte strings.
  Running git and writing the zip archive is a parameter of the definitions that need it: the
  outcome of cloning a repository and archiving its working tree.
\<close>

section \<open>path/filepath\<close>

text \<open>The elements that remain, the last one first; an element .. removes the one before it.\<close>

fun clean_elements :: "bool \<Rightarrow> string list \<Rightarrow> string list \<Rightarrow> string list" where
  "clean_elements rooted out [] = out"
| "clean_elements rooted out (e # es) =
     (if e = [] \<or> e = ''.'' then clean_elements rooted out es
      else if e = ''..'' then
        (if out \<noteq> [] \<and> hd out \<noteq> ''..'' then clean_elements rooted (tl out) es
         else if rooted then clean_elements rooted out es
         else clean_elements rooted (''..'' # out) es)
      else clean_elements rooted (e # out) es)"

definition clean_path :: "string \<Rightarrow> string" where
  "clean_path p =
    (let rooted = has_prefix p ''/'';
         body = join_with ''/'' (rev (clean_elements rooted [] (split_on (CHR ''/'') p)))
     in if rooted then CHR ''/'' # body else if body = [] then ''.'' else body)"

definition path_ext :: "string \<Rightarrow> string" where
  "path_ext p =
    (let r = rev p; t = takeWhile (\<lambda>c. c \<noteq> CHR ''.'' \<and> c \<noteq> CHR ''/'') r
     in case drop (length t) r of
          [] \<Rightarrow> [] | c # _ \<Rightarrow> if c = CHR ''.'' then CHR ''.'' # rev t else [])"

definition path_dir :: "string \<Rightarrow> string" where
  "path_dir p = clean_path (rev (dropWhile (\<lambda>c. c \<noteq> CHR ''/'') (rev p)))"

definition is_control :: "char \<Rightarrow> bool" where
  "is_control c \<longleftrightarrow> c < CHR 0x20 \<or> c = CHR 0x7F"

section \<open>Relative paths\<close>

definition backslash :: char where "backslash = CHR 0x5C"

definition bad_path :: "string \<Rightarrow> goerr" where
  "bad_path text = mk_err ErrBadRequest text"

definition validate_relative_path :: "string \<Rightarrow> goerr option" where
  "validate_relative_path raw =
    (let p = trim_space raw; c = clean_path p in
     if p = [] \<or> p = ''.'' then None
     else if has_prefix p ''/'' then Some (bad_path ''absolute paths are not allowed'')
     else if str_contains p [backslash] then Some (bad_path ''backslash paths are not allowed'')
     else if list_ex is_control p then Some (bad_path ''path contains control characters'')
     else if c = ''..'' \<or> has_prefix c ''../''
       then Some (bad_path ''parent directory traversal is not allowed'')
     else None)"

definition clean_relative_path :: "string \<Rightarrow> goerr + string" where
  "clean_relative_path raw =
    (let p = trim_space raw in
     case validate_relative_path p of
       Some e \<Rightarrow> Inl e
     | None \<Rightarrow> if p = [] then Inr [] else Inr (clean_path p))"

section \<open>Repositories and references\<close>

text \<open>What url.Parse reports of a URL: u_unescaped is None when PathUnescape fails.\<close>

record parsed_url =
  pu_scheme :: string
  pu_user :: bool
  pu_query :: string
  pu_fragment :: string
  pu_host :: string
  pu_port :: string
  pu_escaped :: string
  pu_unescaped :: "string option"

record repo_info =
  ri_url :: string
  ri_host :: string
  ri_path :: string
  ri_ref :: string

fun host_allowed :: "string \<Rightarrow> string list \<Rightarrow> bool" where
  "host_allowed host [] = False"
| "host_allowed host (item # items) =
     (if host = to_lower (trim_space item) then True else host_allowed host items)"

definition validate_repo_path :: "string \<Rightarrow> goerr option" where
  "validate_repo_path p =
    (if p = [] then Some (bad_path ''git repository path is required'')
     else if str_contains p ''//'' \<or> str_contains p [backslash] then Some (bad_path ''git repository path is invalid'')
     else if list_ex (\<lambda>c. is_space c \<or> is_control c) p then Some (bad_path ''git repository path is invalid'')
     else if list_ex (\<lambda>s. s = [] \<or> s = ''.'' \<or> s = ''..'') (split_on (CHR ''/'') p)
       then Some (bad_path ''git repository path is invalid'')
     else None)"

definition validate_repo_url ::
    "(string \<Rightarrow> parsed_url option) \<Rightarrow> string \<Rightarrow> string list \<Rightarrow> goerr + repo_info" where
  "validate_repo_url parse raw0 hosts =
    (let raw = trim_space raw0 in
     if raw = [] then Inl (bad_path ''git repository url is required'') else
     case parse raw of
       None \<Rightarrow> Inl (bad_path ''git repository url must use https'')
     | Some u \<Rightarrow>
         if pu_scheme u \<noteq> ''https'' then Inl (bad_path ''git repository url must use https'')
         else if pu_user u then Inl (bad_path ''git repository url must not contain credentials'')
         else if pu_query u \<noteq> [] \<or> pu_fragment u \<noteq> []
           then Inl (bad_path ''git repository url must not contain query or fragment'')
         else let host = to_lower (pu_host u) in
         if host = [] then Inl (bad_path ''git repository host is required'')
         else if pu_port u \<noteq> [] \<and> pu_port u \<noteq> ''443'' then Inl (bad_path ''git repository url port is not allowed'')
         else if \<not> host_allowed host hosts then Inl (bad_path ''git repository host is not allowed'')
         else case pu_unescaped u of
           None \<Rightarrow> Inl (bad_path ''git repository path is invalid'')
         | Some path \<Rightarrow> let rp = trim_prefix path ''/'' in
             (case validate_repo_path rp of
                Some e \<Rightarrow> Inl e
              | None \<Rightarrow> Inr \<lparr> ri_url = ''https://'' @ (if pu_port u = ''443'' then host @ '':443'' else host) @ pu_escaped u,
                  ri_host = host, ri_path = rp, ri_ref = [] \<rparr>))"

definition validate_ref :: "string \<Rightarrow> goerr option" where
  "validate_ref raw =
    (let r = trim_space raw; invalid = Some (bad_path ''git ref is invalid'') in
     if r = [] then None
     else if length r > 256 then Some (bad_path ''git ref is too long'')
     else if has_prefix r ''-'' \<or> str_contains r ''..'' \<or> str_contains r [CHR ''@'', CHR 0x7B] \<or> has_suffix r ''.lock'' then invalid
     else if r = ''@'' \<or> list_ex (\<lambda>c. c = backslash \<or> c = CHR '':'' \<or> c = CHR ''?'' \<or> c = CHR ''*'' \<or> c = CHR ''['') r
       then invalid
     else if list_ex (\<lambda>c. is_space c \<or> is_control c) r then invalid
     else None)"

section \<open>Object keys\<close>

definition archive_object_ext :: "string \<Rightarrow> string" where
  "archive_object_ext p =
    (if has_suffix (to_lower p) ''.tar.gz'' then ''.tar.gz''
     else if path_ext p = [] then ''.archive'' else path_ext p)"

definition archive_object_key :: "string \<Rightarrow> string \<Rightarrow> string" where
  "archive_object_key file_id path = ''build-archives/'' @ file_id @ archive_object_ext path"

definition log_object_key :: "string \<Rightarrow> string" where
  "log_object_key file_id = ''build-logs/'' @ file_id @ ''.log''"

section \<open>Bounded readers\<close>

text \<open>
  A reader is the list of the chunks it still has to deliver: one Read returns at most the asked
  number of bytes of the first chunk, and the end of file once there is none.
\<close>

datatype read_end = More | EndOfFile | ReadFailed goerr

fun source_read :: "nat \<Rightarrow> string list \<Rightarrow> string \<times> read_end \<times> string list" where
  "source_read k [] = ([], EndOfFile, [])"
| "source_read k (c # cs) =
     (if length c \<le> k then (c, More, cs) else (take k c, More, drop k c # cs))"

record limited_reader =
  lr_source :: "string list"
  lr_remaining :: int

definition max_bytes_read :: "nat \<Rightarrow> limited_reader \<Rightarrow> string \<times> read_end \<times> limited_reader" where
  "max_bytes_read k r =
    (if lr_remaining r \<le> 0 then
       (case source_read 1 (lr_source r) of (d, e, cs) \<Rightarrow>
          (if d \<noteq> [] then ([], ReadFailed (Sentinel ErrBadRequest), r\<lparr>lr_source := cs\<rparr>)
           else ([], e, r\<lparr>lr_source := cs\<rparr>)))
     else
       (case source_read (if int k > lr_remaining r then nat (lr_remaining r) else k) (lr_source r) of
          (d, e, cs) \<Rightarrow> (d, e, r\<lparr>lr_source := cs, lr_remaining := lr_remaining r - int (length d)\<rparr>)))"

text \<open>io.Copy and io.ReadAll: read with a buffer of k + 1 bytes until the end or a failure.\<close>

definition weight :: "string list \<Rightarrow> nat" where
  "weight cs = length cs + length (concat cs)"

lemma source_read_weight:
  "source_read (Suc k) cs = (d, More, cs') \<Longrightarrow> weight cs' < weight cs"
  by (cases cs) (auto simp: weight_def split: if_splits)

lemma max_bytes_read_weight:
  assumes "max_bytes_read (Suc k) r = (d, More, r')"
  shows "weight (lr_source r') < weight (lr_source r)"
proof (cases "lr_remaining r \<le> 0")
  case True
  then show ?thesis
    using assms source_read_weight[of 0 "lr_source r"]
    by (auto simp: max_bytes_read_def split: prod.splits if_splits)
next
  case False
  then have "0 < nat (lr_remaining r)" by simp
  then obtain n where n: "nat (lr_remaining r) = Suc n" by (cases "nat (lr_remaining r)") auto
  then show ?thesis
    using assms False source_read_weight[of n "lr_source r"] source_read_weight[of k "lr_source r"]
    by (auto simp: max_bytes_read_def split: prod.splits if_splits)
qed

function drain :: "nat \<Rightarrow> limited_reader \<Rightarrow> string \<times> goerr option" where
  "drain k r = (case max_bytes_read (Suc k) r of
       (d, EndOfFile, r') \<Rightarrow> (d, None)
     | (d, ReadFailed e, r') \<Rightarrow> (d, Some e)
     | (d, More, r') \<Rightarrow> (case drain k r' of (d', e) \<Rightarrow> (d @ d', e)))"
  by pat_completeness auto
termination
  by (relation "measure (\<lambda>(k, r). weight (lr_source r))") (auto dest: max_bytes_read_weight[OF sym])

declare drain.simps [simp del]

text \<open>The writer that bounds the archive of a repository.\<close>

record limit_writer =
  lw_max :: int
  lw_written :: int
  lw_data :: string

definition limit_write :: "string \<Rightarrow> limit_writer \<Rightarrow> (goerr + nat) \<times> limit_writer" where
  "limit_write p w =
    (if lw_max w > 0 \<and> lw_written w + int (length p) > lw_max w
     then (Inl (bad_path ''git source archive exceeds configured size limit''), w)
     else (Inr (length p), w\<lparr>lw_written := lw_written w + int (length p), lw_data := lw_data w @ p\<rparr>))"

section \<open>Laws\<close>

lemma clean_elements_dots:
  assumes "\<exists>ns k. out = ns @ replicate k ''..'' \<and> (\<forall>e \<in> set ns. e \<noteq> ''..'' \<and> e \<noteq> ''.'' \<and> e \<noteq> [])"
  shows "\<exists>ns k. clean_elements rooted out es = ns @ replicate k ''..''
    \<and> (\<forall>e \<in> set ns. e \<noteq> ''..'' \<and> e \<noteq> ''.'' \<and> e \<noteq> [])"
  using assms
proof (induction rooted out es rule: clean_elements.induct)
  case (2 rooted out e es)
  from "2.prems" obtain ns k where out: "out = ns @ replicate k ''..''"
    and ns: "\<forall>e \<in> set ns. e \<noteq> ''..'' \<and> e \<noteq> ''.'' \<and> e \<noteq> []" by blast
  consider "e = [] \<or> e = ''.''" | "e = ''..''" "out \<noteq> []" "hd out \<noteq> ''..''"
    | "e = ''..''" "out = [] \<or> hd out = ''..''" | "e \<noteq> []" "e \<noteq> ''.''" "e \<noteq> ''..''" by blast
  then show ?case
  proof cases
    case 1
    then show ?thesis using "2.IH"(1) "2.prems" by simp
  next
    case 2
    then obtain m ms where "ns = m # ms" using out by (cases ns; cases k) auto
    then have "\<exists>ns k. tl out = ns @ replicate k ''..'' \<and> (\<forall>e \<in> set ns. e \<noteq> ''..'' \<and> e \<noteq> ''.'' \<and> e \<noteq> [])"
      using out ns by (intro exI[of _ ms] exI[of _ k]) auto
    then show ?thesis using "2.IH"(2) 2 by simp
  next
    case 3
    have "ns = []" using 3 out ns by (cases ns) auto
    then have "''..'' # out = [] @ replicate (Suc k) ''..''" using out by simp
    then have "\<exists>ns k. ''..'' # out = ns @ replicate k ''..'' \<and> (\<forall>e \<in> set ns. e \<noteq> ''..'' \<and> e \<noteq> ''.'' \<and> e \<noteq> [])"
      by (intro exI[of _ "[]"] exI[of _ "Suc k"]) auto
    then show ?thesis using "2.IH"(3,4) 3 "2.prems" by auto
  next
    case 4
    have "\<exists>ns k. e # out = ns @ replicate k ''..'' \<and> (\<forall>e \<in> set ns. e \<noteq> ''..'' \<and> e \<noteq> ''.'' \<and> e \<noteq> [])"
      using out ns 4 by (intro exI[of _ "e # ns"] exI[of _ k]) auto
    then show ?thesis using "2.IH"(5) 4 by simp
  qed
qed simp

lemma clean_elements_no_slash:
  "\<forall>e \<in> set out. d \<notin> set e \<Longrightarrow> \<forall>e \<in> set es. d \<notin> set e \<Longrightarrow> CHR ''.'' \<noteq> d
    \<Longrightarrow> \<forall>e \<in> set (clean_elements rooted out es). d \<notin> set e"
proof (induction rooted out es rule: clean_elements.induct)
  case (2 rooted out e es)
  have t: "\<forall>x \<in> set (tl out). d \<notin> set x" using "2.prems"(1) by (cases out) auto
  show ?case using "2.IH" "2.prems" t by simp
qed simp

lemma split_join:
  assumes "\<forall>w \<in> set ws. d \<notin> set w" and "ws \<noteq> []"
  shows "split_on d (join_with [d] ws) = ws"
  using assms
proof (induction ws)
  case (Cons w ws)
  have sp: "split_on d (w @ d # s) = w # split_on d s" if "d \<notin> set w" for s
    using that by (induction w) auto
  show ?case
  proof (cases ws)
    case Nil
    then show ?thesis using Cons.prems by (simp add: split_on_no_delim)
  next
    case (Cons v vs)
    then have "join_with [d] (w # ws) = w @ d # join_with [d] ws" by simp
    then show ?thesis using sp Cons.IH Cons.prems Cons by simp
  qed
qed simp

end
