(* ===== verification/SourceProps.thy ===== *)
theory SourceProps
  imports GitSource
begin

text \<open>Properties of the sources users hand in: paths, repositories and upload limits.\<close>

section \<open>Paths\<close>

lemma trim_space_idem [simp]: "trim_space (trim_space s) = trim_space s"
proof -
  define r where "r = dropWhile is_space s"
  have hd: "r = [] \<or> \<not> is_space (hd r)" using hd_dropWhile[of is_space s] by (auto simp: r_def)
  have t: "trim_space s = rev (dropWhile is_space (rev r))" by (simp add: trim_space_def trim_right_def r_def)
  obtain q where q: "r = rev (dropWhile is_space (rev r)) @ q"
    by (metis rev_append rev_rev_ident takeWhile_dropWhile_id)
  let ?x = "rev (dropWhile is_space (rev r))"
  have nospace: "x = [] \<or> \<not> is_space (hd x) \<Longrightarrow> dropWhile is_space x = x" for x
    by (cases x) auto
  have "?x = [] \<or> \<not> is_space (hd ?x)"
  proof (cases "?x = []")
    case False
    then have "hd r = hd ?x" "r \<noteq> []" using q by (metis hd_append2, metis Nil_is_append_conv)
    then show ?thesis using hd by simp
  qed blast
  then have "dropWhile is_space ?x = ?x" by (rule nospace)
  then show ?thesis unfolding t by (simp add: trim_space_def trim_right_def dropWhile_idem o_def)
qed

lemma clean_path_relative:
  assumes "\<not> has_prefix p ''/''" and "clean_path p \<noteq> ''..''" and "\<not> has_prefix (clean_path p) ''../''"
  shows "clean_path p = ''.'' \<or> (\<forall>e \<in> set (split_on (CHR ''/'') (clean_path p)). e \<noteq> [] \<and> e \<noteq> ''.'' \<and> e \<noteq> ''..'')"
proof -
  let ?out = "clean_elements False [] (split_on (CHR ''/'') p)"
  let ?body = "join_with ''/'' (rev ?out)"
  have cp: "clean_path p = (if ?body = [] then ''.'' else ?body)"
    using assms(1) by (simp add: clean_path_def)
  obtain ns k where out: "?out = ns @ replicate k ''..''"
    and ns: "\<forall>e \<in> set ns. e \<noteq> ''..'' \<and> e \<noteq> ''.'' \<and> e \<noteq> []"
  proof -
    have "\<exists>ns k. ([] :: string list) = ns @ replicate k ''..'' \<and> (\<forall>e \<in> set ns. e \<noteq> ''..'' \<and> e \<noteq> ''.'' \<and> e \<noteq> [])"
      by (intro exI[of _ "[]"] exI[of _ 0]) simp
    from clean_elements_dots[OF this, of False "split_on (CHR ''/'') p"] show thesis using that by blast
  qed
  have slash: "\<forall>e \<in> set (rev ?out). CHR ''/'' \<notin> set e"
    using clean_elements_no_slash[of "[]" "CHR ''/''" "split_on (CHR ''/'') p" False] split_on_parts by auto
  show ?thesis
  proof (cases "?body = []")
    case False
    have k: "k = 0"
    proof (rule ccontr)
      assume "k \<noteq> 0"
      then obtain j where "k = Suc j" by (cases k) auto
      then have r: "rev ?out = ''..'' # (replicate j ''..'' @ rev ns)"
        using out by (simp add: replicate_append_same)
      show False
      proof (cases "replicate j ''..'' @ rev ns")
        case Nil
        then show False using r cp assms(2) by simp
      next
        case (Cons v vs)
        then have "?body = ''../'' @ join_with ''/'' (v # vs)" using r by simp
        then have "has_prefix ?body ''../''" by (simp add: has_prefix_iff)
        then show False using cp assms(3) False by simp
      qed
    qed
    then have "rev ?out = rev ns" using out by simp
    moreover have "rev ?out \<noteq> []" using False by auto
    ultimately have "split_on (CHR ''/'') ?body = rev ns" using split_join[OF slash] by simp
    then show ?thesis using cp False ns by simp
  qed (simp add: cp)
qed

text \<open>
  C14. The path of a build context, a Dockerfile or a compose file that passes CleanRelativePath
  stays inside the directory it is joined to: it is empty, the directory itself, or a relative path
  whose elements are all proper names, with no parent directory among them.
\<close>

theorem relative_path_stays_inside:
  assumes "clean_relative_path raw = Inr p"
  shows "p = [] \<or> p = ''.'' \<or> (\<forall>e \<in> set (split_on (CHR ''/'') p). e \<noteq> [] \<and> e \<noteq> ''.'' \<and> e \<noteq> ''..'')"
proof (cases "trim_space raw = [] \<or> trim_space raw = ''.''")
  case True
  have "clean_path ''.'' = ''.''" by code_simp
  then show ?thesis using assms True by (auto simp: clean_relative_path_def Let_def split: option.splits if_splits)
next
  case False
  then have v: "validate_relative_path (trim_space raw) = None" and p: "p = clean_path (trim_space raw)"
    using assms by (auto simp: clean_relative_path_def Let_def split: option.splits if_splits)
  have "\<not> has_prefix (trim_space raw) ''/''" "clean_path (trim_space raw) \<noteq> ''..''"
    "\<not> has_prefix (clean_path (trim_space raw)) ''../''"
    using v False by (auto simp: validate_relative_path_def Let_def split: if_splits)
  then show ?thesis using clean_path_relative p by blast
qed

theorem relative_path_stays_inside_witness:
  "clean_relative_path '' a/./b/../c// '' = Inr ''a/c''
   \<and> list_all (\<lambda>e. e \<noteq> [] \<and> e \<noteq> ''.'' \<and> e \<noteq> ''..'') (split_on (CHR ''/'') ''a/c'')"
proof -
  have c: "clean_relative_path '' a/./b/../c// '' = Inr ''a/c''" by code_simp
  then show ?thesis using relative_path_stays_inside[OF c] by (simp add: list_all_iff)
qed

section \<open>Repositories\<close>

lemma host_allowed_iff: "host_allowed h hosts \<longleftrightarrow> (\<exists>i \<in> set hosts. h = to_lower (trim_space i))"
  by (induction hosts) auto

text \<open>
  A repository is cloned only over https, from a host of the configured list on the standard
  port, without credentials, and under a path whose segments are proper names.
\<close>

theorem accepted_repository_is_allowed:
  assumes "validate_repo_url parse raw hosts = Inr info"
  shows "\<exists>u. parse (trim_space raw) = Some u \<and> pu_scheme u = ''https'' \<and> \<not> pu_user u
     \<and> (pu_port u = [] \<or> pu_port u = ''443'')
     \<and> has_prefix (ri_url info) (''https://'' @ ri_host info)
     \<and> (\<exists>i \<in> set hosts. ri_host info = to_lower (trim_space i))
     \<and> (\<forall>s \<in> set (split_on (CHR ''/'') (ri_path info)). s \<noteq> [] \<and> s \<noteq> ''.'' \<and> s \<noteq> ''..'')"
proof -
  obtain u where u: "parse (trim_space raw) = Some u"
    using assms by (auto simp: validate_repo_url_def Let_def split: if_splits option.splits)
  have c: "pu_scheme u = ''https''" "\<not> pu_user u" "pu_port u = [] \<or> pu_port u = ''443''"
    "host_allowed (to_lower (pu_host u)) hosts"
    using assms u by (auto simp: validate_repo_url_def Let_def split: if_splits option.splits)
  obtain path where p: "pu_unescaped u = Some path" "validate_repo_path (trim_prefix path ''/'') = None"
    and i: "info = \<lparr> ri_url = ''https://'' @ (if pu_port u = ''443'' then to_lower (pu_host u) @ '':443''
        else to_lower (pu_host u)) @ pu_escaped u,
        ri_host = to_lower (pu_host u), ri_path = trim_prefix path ''/'', ri_ref = [] \<rparr>"
    using assms u c by (auto simp: validate_repo_url_def Let_def split: if_splits option.splits)
  have "\<forall>s \<in> set (split_on (CHR ''/'') (ri_path info)). s \<noteq> [] \<and> s \<noteq> ''.'' \<and> s \<noteq> ''..''"
    using p i by (auto simp: validate_repo_path_def list_ex_iff split: if_splits)
  then show ?thesis using u c i by (auto simp: host_allowed_iff)
qed

definition sample_url :: parsed_url where
  "sample_url = \<lparr> pu_scheme = ''https'', pu_user = False, pu_query = [], pu_fragment = [],
     pu_host = ''GitHub.com'', pu_port = [], pu_escaped = ''/team/app.git'',
     pu_unescaped = Some ''/team/app.git'' \<rparr>"

theorem accepted_repository_is_allowed_witness:
  "\<exists>info. validate_repo_url (\<lambda>s. Some sample_url) ''https://GitHub.com/team/app.git'' [''github.com''] = Inr info
     \<and> ri_host info = to_lower (trim_space ''github.com'')"
proof -
  let ?r = "validate_repo_url (\<lambda>s. Some sample_url) ''https://GitHub.com/team/app.git'' [''github.com'']"
  obtain info where i: "?r = Inr info"
  proof -
    have "is_ok ?r" by code_simp
    then show thesis using that by (cases ?r) auto
  qed
  from accepted_repository_is_allowed[OF i] show ?thesis using i by auto
qed

section \<open>Upload limits\<close>

lemma drain_exact:
  "0 \<le> lr_remaining r \<Longrightarrow> drain k r =
     (let body = concat (lr_source r); m = nat (lr_remaining r)
      in if length body \<le> m then (body, None) else (take m body, Some (Sentinel ErrBadRequest)))"
proof (induction k r rule: drain.induct)
  case (1 k r)
  show ?case
  proof (cases "lr_source r")
    case Nil
    then show ?thesis by (subst drain.simps) (simp add: max_bytes_read_def)
  next
    case (Cons c cs)
    show ?thesis
    proof (cases "lr_remaining r = 0")
      case zero: True
      show ?thesis
      proof (cases c)
        case Nil
        let ?r = "r\<lparr>lr_source := cs\<rparr>"
        have m: "max_bytes_read (Suc k) r = ([], More, ?r)"
          using Cons zero Nil by (simp add: max_bytes_read_def)
        have "drain k ?r = (let body = concat cs in if length body \<le> 0 then (body, None) else ([], Some (Sentinel ErrBadRequest)))"
          using "1.IH"[OF m[symmetric] refl refl] zero by (simp add: Let_def)
        then show ?thesis using m Cons zero Nil by (subst drain.simps) (auto simp: Let_def)
      next
        case (Cons a as)
        then have "max_bytes_read (Suc k) r = ([], ReadFailed (Sentinel ErrBadRequest), r\<lparr>lr_source := (if as = [] then cs else as # cs)\<rparr>)"
          using \<open>lr_source r = c # cs\<close> zero by (cases as) (simp_all add: max_bytes_read_def)
        then show ?thesis using \<open>lr_source r = c # cs\<close> Cons zero by (subst drain.simps) (simp add: Let_def)
      qed
    next
      case False
      then have pos: "0 < lr_remaining r" using "1.prems" by simp
      define n where "n = (if int (Suc k) > lr_remaining r then nat (lr_remaining r) else Suc k)"
      have n: "0 < n" "int n \<le> lr_remaining r" using pos by (auto simp: n_def)
      define d where "d = take n c"
      define cs' where "cs' = (if length c \<le> n then cs else drop n c # cs)"
      let ?r = "r\<lparr>lr_source := cs', lr_remaining := lr_remaining r - int (length d)\<rparr>"
      have m: "max_bytes_read (Suc k) r = (d, More, ?r)"
        using Cons pos unfolding max_bytes_read_def n_def[symmetric] by (auto simp: d_def cs'_def)
      have body: "concat (lr_source r) = d @ concat cs'" using Cons by (auto simp: d_def cs'_def)
      have le: "int (length d) \<le> lr_remaining r" using n by (auto simp: d_def)
      then have "drain k ?r = (let body = concat cs'; q = nat (lr_remaining r - int (length d))
          in if length body \<le> q then (body, None) else (take q body, Some (Sentinel ErrBadRequest)))"
        using "1.IH"[OF m[symmetric] refl refl] by simp
      then show ?thesis using m body le
        by (subst drain.simps) (auto simp: Let_def nat_diff_distrib le_nat_iff nat_le_iff)
    qed
  qed
qed

text \<open>
  C15. Reading an upload through the limiting reader ends, whatever sizes the underlying reads
  return; an upload of at most the limit is delivered whole, a longer one is cut at the limit and
  reported as a bad request.
\<close>

theorem upload_limit_exact:
  assumes "0 \<le> limit"
  shows "drain k \<lparr> lr_source = chunks, lr_remaining = limit \<rparr> =
    (if int (length (concat chunks)) \<le> limit then (concat chunks, None)
     else (take (nat limit) (concat chunks), Some (Sentinel ErrBadRequest)))"
  using drain_exact[of "\<lparr> lr_source = chunks, lr_remaining = limit \<rparr>" k] assms
  by (auto simp: Let_def nat_le_iff le_nat_iff)

theorem upload_limit_exact_witness:
  "drain 1 \<lparr> lr_source = [''abc'', [], ''de''], lr_remaining = 4 \<rparr> = (''abcd'', Some (Sentinel ErrBadRequest))"
  using upload_limit_exact[of 4 1 "[''abc'', [], ''de'']"] by simp

end
