(* ===== verification/InternalAuth.thy ===== *)
theory InternalAuth
  imports Access Validation
begin

text \<open>
  The identity that crosses from one service of the program to another
  (internal/internalauth/auth.go): the internal token and the access scope of the caller, as gRPC
  metadata and as HTTP headers.  A header is a map from canonical names to the list of its values,
  the empty list where the name is absent (net/http, gRPC metadata).  The text of an identifier and
  its parsing belong to a library (google/uuid) and are parameters.
\<close>

section \<open>Headers (net/http, net/textproto)\<close>

type_synonym headers = "string \<Rightarrow> string list"

definition header_get :: "headers \<Rightarrow> string \<Rightarrow> string" where
  "header_get h k = (case h k of [] \<Rightarrow> [] | v # _ \<Rightarrow> v)"

definition header_set :: "string \<Rightarrow> string \<Rightarrow> headers \<Rightarrow> headers" where
  "header_set k v h = h(k := [v])"

definition header_del :: "string \<Rightarrow> headers \<Rightarrow> headers" where
  "header_del k h = h(k := [])"

definition upper_char :: "char \<Rightarrow> char" where
  "upper_char c = (if CHR ''a'' \<le> c \<and> c \<le> CHR ''z'' then char_of (of_char c - (32 :: nat)) else c)"

definition token_char :: "char \<Rightarrow> bool" where
  "token_char c \<longleftrightarrow> is_alnum c \<or> List.member ''!#$%&*+-.^_`|~'' c \<or> c = CHR 0x27"

fun canonical_from :: "bool \<Rightarrow> string \<Rightarrow> string" where
  "canonical_from start [] = []"
| "canonical_from start (c # cs) = (if start then upper_char c else lower_char c) # canonical_from (c = CHR ''-'') cs"

text \<open>textproto.CanonicalMIMEHeaderKey\<close>

definition canonical_key :: "string \<Rightarrow> string" where
  "canonical_key k = (if list_all token_char k then canonical_from True k else k)"

section \<open>The scope as text\<close>

fun kind_text :: "scope_kind \<Rightarrow> string" where
  "kind_text KindNone = []"
| "kind_text KindUser = ''user''"
| "kind_text KindAdmin = ''admin''"
| "kind_text KindSystem = ''system''"

definition scope_context :: "(string \<Rightarrow> id option) \<Rightarrow> string \<Rightarrow> string \<Rightarrow> string \<Rightarrow> string \<Rightarrow> goerr + scope" where
  "scope_context parse kind uid name role =
    (if kind = ''user'' then
       (case parse uid of None \<Rightarrow> Inl (Sentinel ErrUnauthorized) | Some u \<Rightarrow> Inr (user_scope u name role))
     else if kind = ''admin'' then
       (case parse uid of None \<Rightarrow> Inl (Sentinel ErrUnauthorized) | Some u \<Rightarrow> Inr (admin_scope u name role))
     else if kind = ''system'' then Inr system_scope
     else Inl (Sentinel ErrUnauthorized))"

section \<open>gRPC metadata\<close>

definition metadata_append :: "string \<Rightarrow> string \<Rightarrow> headers \<Rightarrow> headers" where
  "metadata_append k v md = md(k := md k @ [v])"

definition append_scope_metadata :: "(id \<Rightarrow> string) \<Rightarrow> scope option \<Rightarrow> headers \<Rightarrow> headers" where
  "append_scope_metadata txt ctx md = (case ctx of None \<Rightarrow> md
     | Some s \<Rightarrow>
         let md1 = metadata_append ''x-actor-scope'' (kind_text (sc_kind s)) md;
             md2 = (if sc_user s \<noteq> nil_id then metadata_append ''x-user-id'' (txt (sc_user s)) md1 else md1);
             md3 = (if sc_username s \<noteq> [] then metadata_append ''x-username'' (sc_username s) md2 else md2)
         in if sc_role s \<noteq> [] then metadata_append ''x-user-role'' (sc_role s) md3 else md3)"

definition scope_from_metadata :: "(string \<Rightarrow> id option) \<Rightarrow> headers \<Rightarrow> goerr + scope" where
  "scope_from_metadata parse md =
    (if header_get md ''x-actor-scope'' = [] then Inr system_scope
     else scope_context parse (header_get md ''x-actor-scope'') (header_get md ''x-user-id'')
            (header_get md ''x-username'') (header_get md ''x-user-role''))"

definition unary_client_interceptor :: "string \<Rightarrow> (id \<Rightarrow> string) \<Rightarrow> scope option \<Rightarrow> headers \<Rightarrow> headers" where
  "unary_client_interceptor token txt ctx md =
     append_scope_metadata txt ctx (metadata_append ''x-internal-token'' token md)"

text \<open>The scope under which the handler runs, or the status the call is refused with.\<close>

definition unary_server_interceptor :: "string \<Rightarrow> (string \<Rightarrow> id option) \<Rightarrow> headers \<Rightarrow> goerr + scope" where
  "unary_server_interceptor token parse md =
    (if token = [] then Inl (StatusErr Unauthenticated ''internal token is not configured'')
     else if md ''x-internal-token'' = [] \<or> hd (md ''x-internal-token'') \<noteq> token
     then Inl (StatusErr Unauthenticated ''invalid internal token'')
     else case scope_from_metadata parse md of
       Inl e \<Rightarrow> Inl (StatusErr Unauthenticated ''invalid actor scope'')
     | Inr s \<Rightarrow> Inr s)"

section \<open>HTTP headers\<close>

definition set_scope_headers :: "(id \<Rightarrow> string) \<Rightarrow> scope option \<Rightarrow> headers \<Rightarrow> headers" where
  "set_scope_headers txt ctx h = (case ctx of None \<Rightarrow> h
     | Some s \<Rightarrow>
         let h1 = header_set ''X-Actor-Scope'' (kind_text (sc_kind s)) h;
             h2 = (if sc_user s \<noteq> nil_id then header_set ''X-User-Id'' (txt (sc_user s)) h1 else h1);
             h3 = (if sc_username s \<noteq> [] then header_set ''X-Username'' (sc_username s) h2 else h2)
         in if sc_role s \<noteq> [] then header_set ''X-User-Role'' (sc_role s) h3 else h3)"

definition scope_from_headers :: "(string \<Rightarrow> id option) \<Rightarrow> headers \<Rightarrow> goerr + scope" where
  "scope_from_headers parse h =
    (if header_get h ''X-Actor-Scope'' = [] then Inr system_scope
     else scope_context parse (header_get h ''X-Actor-Scope'') (header_get h ''X-User-Id'')
            (header_get h ''X-Username'') (header_get h ''X-User-Role''))"

text \<open>The scope under which the request goes on, or the error that is answered.\<close>

definition internal_middleware :: "string \<Rightarrow> (string \<Rightarrow> id option) \<Rightarrow> headers \<Rightarrow> goerr + scope" where
  "internal_middleware token parse h =
    (if token = [] \<or> header_get h ''X-Internal-Token'' \<noteq> token then Inl (Sentinel ErrUnauthorized)
     else scope_from_headers parse h)"

section \<open>What arrives\<close>

text \<open>
  What the receiver makes of a scope.  A user or an administrator without an identifier is refused;
  no scope at all arrives as the system.
\<close>

definition received_scope :: "scope option \<Rightarrow> goerr + scope" where
  "received_scope ctx = (case ctx of None \<Rightarrow> Inr system_scope
     | Some s \<Rightarrow> (case sc_kind s of
           KindUser \<Rightarrow> if sc_user s = nil_id then Inl (Sentinel ErrUnauthorized) else Inr s
         | KindAdmin \<Rightarrow> if sc_user s = nil_id then Inl (Sentinel ErrUnauthorized) else Inr s
         | _ \<Rightarrow> Inr system_scope))"

lemma scope_of_user: "sc_kind s = KindUser \<Longrightarrow> user_scope (sc_user s) (sc_username s) (sc_role s) = s"
  and scope_of_admin: "sc_kind s = KindAdmin \<Longrightarrow> admin_scope (sc_user s) (sc_username s) (sc_role s) = s"
  by (simp_all add: user_scope_def admin_scope_def)

lemma scope_context_received:
  assumes "\<And>u. u \<noteq> nil_id \<Longrightarrow> parse (txt u) = Some u" and "parse [] = None" and "sc_kind s \<noteq> KindNone"
  shows "scope_context parse (kind_text (sc_kind s)) (if sc_user s \<noteq> nil_id then txt (sc_user s) else [])
     (sc_username s) (sc_role s) = received_scope (Some s)"
  using assms by (cases "sc_kind s") (auto simp: scope_context_def received_scope_def scope_of_user scope_of_admin)

lemma metadata_received:
  assumes "\<And>u. u \<noteq> nil_id \<Longrightarrow> parse (txt u) = Some u" and "parse [] = None"
  shows "scope_from_metadata parse (unary_client_interceptor token txt ctx (\<lambda>_. [])) = received_scope ctx"
proof (cases ctx)
  case None
  then show ?thesis
    by (simp add: scope_from_metadata_def unary_client_interceptor_def append_scope_metadata_def metadata_append_def
        header_get_def received_scope_def)
next
  case (Some s)
  let ?md = "unary_client_interceptor token txt ctx (\<lambda>_. [])"
  have md: "header_get ?md ''x-actor-scope'' = kind_text (sc_kind s)" "header_get ?md ''x-username'' = sc_username s"
    "header_get ?md ''x-user-role'' = sc_role s"
    "header_get ?md ''x-user-id'' = (if sc_user s \<noteq> nil_id then txt (sc_user s) else [])"
    using Some by (simp_all add: unary_client_interceptor_def append_scope_metadata_def metadata_append_def header_get_def Let_def)
  show ?thesis
  proof (cases "sc_kind s = KindNone")
    case True
    then show ?thesis using md(1) Some by (simp add: scope_from_metadata_def received_scope_def)
  next
    case False
    then have "kind_text (sc_kind s) \<noteq> []" by (cases "sc_kind s") auto
    then show ?thesis using scope_context_received[OF assms False] md Some
      by (simp add: scope_from_metadata_def)
  qed
qed

lemma set_scope_headers_at:
  assumes "h ''X-Actor-Scope'' = []" "h ''X-User-Id'' = []" "h ''X-Username'' = []" "h ''X-User-Role'' = []"
  shows "header_get (set_scope_headers txt (Some s) h) ''X-Actor-Scope'' = kind_text (sc_kind s)"
    "header_get (set_scope_headers txt (Some s) h) ''X-User-Id'' = (if sc_user s \<noteq> nil_id then txt (sc_user s) else [])"
    "header_get (set_scope_headers txt (Some s) h) ''X-Username'' = sc_username s"
    "header_get (set_scope_headers txt (Some s) h) ''X-User-Role'' = sc_role s"
  using assms by (simp_all add: set_scope_headers_def header_set_def header_get_def Let_def)

end
