(* ===== verification/Encoding.thy ===== *)
theory Encoding
  imports Prelude
begin

text \<open>
  Go strings that hold text beyond ASCII: ranging over a string decodes UTF-8 the way unicode/utf8
  does, an invalid byte being read as U+FFFD, and strings.Builder encodes runes back.  Which runes
  above ASCII are letters or digits and what their lower case is are the tables of package unicode,
  passed as a parameter; the ASCII part is written out.
\<close>

type_synonym rune = nat

record unicode =
  un_letter :: "rune \<Rightarrow> bool"
  un_digit :: "rune \<Rightarrow> bool"
  un_lower :: "rune \<Rightarrow> rune"

definition rune_error :: rune where "rune_error = 0xFFFD"

definition continuation :: "nat \<Rightarrow> bool" where
  "continuation b \<longleftrightarrow> 0x80 \<le> b \<and> b \<le> 0xBF"

text \<open>utf8.DecodeRune: the rune, its width and whether the bytes were valid.\<close>

fun decode_rune :: "nat list \<Rightarrow> rune \<times> nat \<times> bool" where
  "decode_rune [] = (rune_error, 0, False)"
| "decode_rune (a # bs) =
    (if a < 0x80 then (a, 1, True)
     else if 0xC2 \<le> a \<and> a \<le> 0xDF then
       (case bs of b # _ \<Rightarrow> if continuation b then ((a mod 0x20) * 0x40 + b mod 0x40, 2, True) else (rune_error, 1, False)
        | _ \<Rightarrow> (rune_error, 1, False))
     else if 0xE0 \<le> a \<and> a \<le> 0xEF then
       (case bs of b # c # _ \<Rightarrow>
          if continuation b \<and> continuation c \<and> (a = 0xE0 \<longrightarrow> 0xA0 \<le> b) \<and> (a = 0xED \<longrightarrow> b \<le> 0x9F)
          then ((a mod 0x10) * 0x1000 + (b mod 0x40) * 0x40 + c mod 0x40, 3, True) else (rune_error, 1, False)
        | _ \<Rightarrow> (rune_error, 1, False))
     else if 0xF0 \<le> a \<and> a \<le> 0xF4 then
       (case bs of b # c # d # _ \<Rightarrow>
          if continuation b \<and> continuation c \<and> continuation d \<and> (a = 0xF0 \<longrightarrow> 0x90 \<le> b) \<and> (a = 0xF4 \<longrightarrow> b \<le> 0x8F)
          then ((a mod 8) * 0x40000 + (b mod 0x40) * 0x1000 + (c mod 0x40) * 0x40 + d mod 0x40, 4, True)
          else (rune_error, 1, False)
        | _ \<Rightarrow> (rune_error, 1, False))
     else (rune_error, 1, False))"

function decode_all :: "nat list \<Rightarrow> (rune \<times> bool) list" where
  "decode_all [] = []"
| "decode_all (a # bs) = (case decode_rune (a # bs) of (r, n, ok) \<Rightarrow> (r, ok) # decode_all (drop (n - 1) bs))"
  by pat_completeness auto
termination by (relation "measure length") auto

definition encode_rune :: "rune \<Rightarrow> nat list" where
  "encode_rune r0 =
    (let r = (if r0 > 0x10FFFF \<or> (0xD800 \<le> r0 \<and> r0 \<le> 0xDFFF) then rune_error else r0) in
     if r < 0x80 then [r]
     else if r < 0x800 then [0xC0 + r div 0x40, 0x80 + r mod 0x40]
     else if r < 0x10000 then [0xE0 + r div 0x1000, 0x80 + r div 0x40 mod 0x40, 0x80 + r mod 0x40]
     else [0xF0 + r div 0x40000, 0x80 + r div 0x1000 mod 0x40, 0x80 + r div 0x40 mod 0x40, 0x80 + r mod 0x40])"

definition bytes_of :: "string \<Rightarrow> nat list" where "bytes_of s = map of_char s"

definition runes_of :: "string \<Rightarrow> rune list" where
  "runes_of s = map fst (decode_all (bytes_of s))"

definition string_of_runes :: "rune list \<Rightarrow> string" where
  "string_of_runes rs = map char_of (concat (map encode_rune rs))"

definition valid_utf8 :: "string \<Rightarrow> bool" where
  "valid_utf8 s \<longleftrightarrow> list_all snd (decode_all (bytes_of s))"

definition is_letter :: "unicode \<Rightarrow> rune \<Rightarrow> bool" where
  "is_letter u r \<longleftrightarrow> (if r < 0x80 then (0x41 \<le> r \<and> r \<le> 0x5A) \<or> (0x61 \<le> r \<and> r \<le> 0x7A) else un_letter u r)"

definition is_number :: "unicode \<Rightarrow> rune \<Rightarrow> bool" where
  "is_number u r \<longleftrightarrow> (if r < 0x80 then 0x30 \<le> r \<and> r \<le> 0x39 else un_digit u r)"

definition lower_rune :: "unicode \<Rightarrow> rune \<Rightarrow> rune" where
  "lower_rune u r = (if r < 0x80 then (if 0x41 \<le> r \<and> r \<le> 0x5A then r + 0x20 else r) else un_lower u r)"

text \<open>strings.ToLower\<close>

definition lower_text :: "unicode \<Rightarrow> string \<Rightarrow> string" where
  "lower_text u s = string_of_runes (map (lower_rune u) (runes_of s))"

text \<open>Text that is ASCII stays what it was.\<close>

definition ascii :: "string \<Rightarrow> bool" where
  "ascii s \<longleftrightarrow> list_all (\<lambda>c. (of_char c :: nat) < 0x80) s"

lemma decode_ascii: "list_all (\<lambda>b. b < 0x80) bs \<Longrightarrow> decode_all bs = map (\<lambda>b. (b, True)) bs"
  by (induction bs) simp_all

lemma runes_of_ascii: "ascii s \<Longrightarrow> runes_of s = bytes_of s"
  by (simp add: runes_of_def bytes_of_def ascii_def decode_ascii list_all_iff comp_def)

lemma ascii_valid: "ascii s \<Longrightarrow> valid_utf8 s"
  by (simp add: valid_utf8_def bytes_of_def ascii_def decode_ascii list_all_iff)

lemma encode_ascii: "list_all (\<lambda>r. r < 0x80) rs \<Longrightarrow> concat (map encode_rune rs) = rs"
  by (induction rs) (simp_all add: encode_rune_def)

lemma string_of_ascii: "ascii s \<Longrightarrow> string_of_runes (bytes_of s) = s"
  by (induction s) (simp_all add: string_of_runes_def bytes_of_def ascii_def encode_rune_def)


text \<open>
  The encodings of Go's standard library the sign-on service uses: base64.RawURLEncoding,
  hex.EncodeToString and url.QueryEscape.
\<close>

section \<open>Base64 without padding, URL alphabet\<close>

definition b64_char :: "nat \<Rightarrow> char" where
  "b64_char n = char_of
    (if n < 26 then 0x41 + n else if n < 52 then 0x61 + (n - 26) else if n < 62 then 0x30 + (n - 52)
     else if n = 62 then 0x2D else 0x5F)"

definition b64_value :: "char \<Rightarrow> nat option" where
  "b64_value c = (let b = of_char c :: nat in
     if 0x41 \<le> b \<and> b \<le> 0x5A then Some (b - 0x41)
     else if 0x61 \<le> b \<and> b \<le> 0x7A then Some (b - 0x61 + 26)
     else if 0x30 \<le> b \<and> b \<le> 0x39 then Some (b - 0x30 + 52)
     else if b = 0x2D then Some 62 else if b = 0x5F then Some 63 else None)"

fun b64_encode_bytes :: "nat list \<Rightarrow> nat list" where
  "b64_encode_bytes [] = []"
| "b64_encode_bytes [a] = [a div 4, a mod 4 * 16]"
| "b64_encode_bytes [a, b] = [a div 4, a mod 4 * 16 + b div 16, b mod 16 * 4]"
| "b64_encode_bytes (a # b # c # r) =
     [a div 4, a mod 4 * 16 + b div 16, b mod 16 * 4 + c div 64, c mod 64] @ b64_encode_bytes r"

definition b64_encode :: "string \<Rightarrow> string" where
  "b64_encode s = map b64_char (b64_encode_bytes (bytes_of s))"

text \<open>Trailing bits of the last group are ignored; a group of one character is malformed.\<close>

fun b64_decode_values :: "nat list \<Rightarrow> nat list option" where
  "b64_decode_values [] = Some []"
| "b64_decode_values [v] = None"
| "b64_decode_values [v, x] = Some [v * 4 + x div 16]"
| "b64_decode_values [v, x, y] = Some [v * 4 + x div 16, x mod 16 * 16 + y div 4]"
| "b64_decode_values (v # x # y # z # r) =
     map_option (\<lambda>t. [v * 4 + x div 16, x mod 16 * 16 + y div 4, y mod 4 * 64 + z] @ t) (b64_decode_values r)"

text \<open>The decoder skips line breaks.\<close>

definition b64_decode :: "string \<Rightarrow> nat list option" where
  "b64_decode s =
    (let vs = map b64_value (filter (\<lambda>c. c \<noteq> CHR 0x0A \<and> c \<noteq> CHR 0x0D) s) in
     if None \<in> set vs then None else b64_decode_values (map the vs))"

lemma b64_value_char: "n < 64 \<Longrightarrow> b64_value (b64_char n) = Some n"
  by (auto simp: b64_value_def b64_char_def Let_def)

lemma b64_char_visible: "n < 64 \<Longrightarrow> b64_char n \<noteq> CHR 0x0A \<and> b64_char n \<noteq> CHR 0x0D"
  using b64_value_char[of n] by (auto simp: b64_value_def)

lemma b64_encode_small: "list_all (\<lambda>b. b < 256) bs \<Longrightarrow> list_all (\<lambda>v. v < 64) (b64_encode_bytes bs)"
  by (induction bs rule: b64_encode_bytes.induct) auto

lemma b64_values_of_bytes: "list_all (\<lambda>b. b < 256) bs \<Longrightarrow> b64_decode_values (b64_encode_bytes bs) = Some bs"
  by (induction bs rule: b64_encode_bytes.induct) (auto simp: algebra_simps)

lemma bytes_small: "list_all (\<lambda>b. b < 256) (bytes_of s)"
  by (simp add: bytes_of_def list_all_iff)

text \<open>Decoding gives back the bytes that were encoded.\<close>

lemma b64_decode_encode: "b64_decode (b64_encode s) = Some (bytes_of s)"
proof -
  let ?vs = "b64_encode_bytes (bytes_of s)"
  have small: "\<forall>v \<in> set ?vs. v < 64" using b64_encode_small[OF bytes_small] by (simp add: list_all_iff)
  have f: "filter (\<lambda>c. c \<noteq> CHR 0x0A \<and> c \<noteq> CHR 0x0D) (b64_encode s) = b64_encode s"
    using small b64_char_visible by (auto simp: b64_encode_def filter_id_conv)
  have m: "map b64_value (b64_encode s) = map Some ?vs"
    using small b64_value_char by (simp add: b64_encode_def)
  have n: "None \<notin> set (map Some ?vs)" by auto
  have t: "map the (map Some ?vs) = ?vs" by (simp add: comp_def)
  show ?thesis unfolding b64_decode_def Let_def f m using n t b64_values_of_bytes[OF bytes_small] by auto
qed

section \<open>Hexadecimal and percent encoding\<close>

definition hex_digit :: "nat \<Rightarrow> char" where
  "hex_digit n = char_of (if n < 10 then 0x30 + n else 0x61 + (n - 10))"

definition hex_encode :: "string \<Rightarrow> string" where
  "hex_encode s = concat (map (\<lambda>b. [hex_digit (b div 16), hex_digit (b mod 16)]) (bytes_of s))"

definition upper_hex :: "nat \<Rightarrow> char" where
  "upper_hex n = char_of (if n < 10 then 0x30 + n else 0x41 + (n - 10))"

definition query_escape :: "string \<Rightarrow> string" where
  "query_escape s = concat (map (\<lambda>c.
     if is_alnum c \<or> c \<in> set ''-_.~'' then [c]
     else if c = CHR '' '' then ''+''
     else [CHR ''%'', upper_hex (of_char c div 16), upper_hex (of_char c mod 16)]) s)"

text \<open>url.Values.Encode of the pairs, given in the order of their keys.\<close>

definition encode_values :: "(string \<times> string) list \<Rightarrow> string" where
  "encode_values ps = join_with ''&'' (map (\<lambda>(k, v). query_escape k @ ''='' @ query_escape v) ps)"

end
