(* ===== verification/Tickets.thy ===== *)
theory Tickets
  imports Method Access Encoding
begin

text \<open>
  The tickets of the telemetry streams (internal/gateway/service/telemetry_ticket.go): a browser
  cannot send its access token when it opens a stream or a web socket, so it first obtains a ticket
  for one stream of one container.  The store maps tokens to what they were issued for; the context,
  the clock and the random bytes of a call are its arguments.
\<close>

record ticket_claims =
  tc_container :: string
  tc_stream :: string
  tc_admin :: bool
  tc_scope :: scope
  tc_expires :: instant

record ticket_store =
  ts_tickets :: "string \<rightharpoonup> ticket_claims"
  ts_ttl :: int

definition new_ticket_store :: "int \<Rightarrow> ticket_store" where
  "new_ticket_store ttl = \<lparr> ts_tickets = (\<lambda>_. None), ts_ttl = (if ttl \<le> 0 then 60000000000 else ttl) \<rparr>"

definition cleanup_locked :: "instant \<Rightarrow> ticket_store \<Rightarrow> ticket_store" where
  "cleanup_locked now st = st\<lparr>ts_tickets := (\<lambda>t. case ts_tickets st t of
       Some c \<Rightarrow> if tc_expires c > now then Some c else None
     | None \<Rightarrow> None)\<rparr>"

text \<open>The random source answers with 32 bytes or with an error of its own, which is none of the program's errors.\<close>

definition random_ticket_token :: "goerr + string \<Rightarrow> goerr + string" where
  "random_ticket_token drawn = (case drawn of
       Inl e \<Rightarrow> Inl (Wrapped (sentinel_text ErrInternal @ [CHR 0x0A] @ error_text e) (Sentinel ErrInternal))
     | Inr bytes \<Rightarrow> Inr (b64_encode bytes))"

definition valid_ticket_token :: "string \<Rightarrow> bool" where
  "valid_ticket_token token = (case b64_decode token of Some bs \<Rightarrow> length bs = 32 | None \<Rightarrow> False)"

definition issue_ticket ::
    "goerr option \<Rightarrow> goerr + string \<Rightarrow> instant \<Rightarrow> ticket_claims \<Rightarrow> (ticket_store, string \<times> instant) meth" where
  "issue_ticket ctx_err drawn now claims =
     seq (check ctx_err) (\<lambda>_. \<lambda>st.
     case random_ticket_token drawn of
       Inl e \<Rightarrow> (Inl e, st)
     | Inr token \<Rightarrow>
         let c = claims\<lparr>tc_expires := now + ts_ttl st\<rparr>; st' = cleanup_locked now st
         in (Inr (token, tc_expires c), st'\<lparr>ts_tickets := (ts_tickets st')(token \<mapsto> c)\<rparr>))"

definition consume_ticket ::
    "goerr option \<Rightarrow> instant \<Rightarrow> string \<Rightarrow> string \<Rightarrow> string \<Rightarrow> bool \<Rightarrow> (ticket_store, ticket_claims) meth" where
  "consume_ticket ctx_err now token container stream admin =
     seq (check ctx_err) (\<lambda>_. \<lambda>st.
     if \<not> valid_ticket_token token then (Inl (Sentinel ErrUnauthorized), st) else
     let found = ts_tickets st token;
         st' = cleanup_locked now (st\<lparr>ts_tickets := (ts_tickets st)(token := None)\<rparr>)
     in case found of
          None \<Rightarrow> (Inl (Sentinel ErrUnauthorized), st')
        | Some c \<Rightarrow>
            if \<not> tc_expires c > now then (Inl (Sentinel ErrUnauthorized), st')
            else if tc_container c \<noteq> container \<or> tc_stream c \<noteq> stream \<or> tc_admin c \<noteq> admin
            then (Inl (Sentinel ErrForbidden), st')
            else (Inr c, st'))"

section \<open>Histories\<close>

text \<open>The calls a store serves, one after another, and what they answer.\<close>

datatype ticket_call =
    IssueTicket "goerr option" "goerr + string" instant ticket_claims
  | ConsumeTicket "goerr option" instant string string string bool

datatype ticket_answer = Issued "goerr + string \<times> instant" | Consumed "goerr + ticket_claims"

fun serve_ticket :: "ticket_call \<Rightarrow> ticket_store \<Rightarrow> ticket_answer \<times> ticket_store" where
  "serve_ticket (IssueTicket e drawn now c) st = (case issue_ticket e drawn now c st of (r, st') \<Rightarrow> (Issued r, st'))"
| "serve_ticket (ConsumeTicket e now token container stream admin) st =
     (case consume_ticket e now token container stream admin st of (r, st') \<Rightarrow> (Consumed r, st'))"

fun serve_tickets :: "ticket_call list \<Rightarrow> ticket_store \<Rightarrow> (ticket_call \<times> ticket_answer) list \<times> ticket_store" where
  "serve_tickets [] st = ([], st)"
| "serve_tickets (c # cs) st =
     (case serve_ticket c st of (a, st1) \<Rightarrow> case serve_tickets cs st1 of (l, st2) \<Rightarrow> ((c, a) # l, st2))"

text \<open>The token a step issued, and the token it was used up with.\<close>

fun issued_token :: "ticket_call \<times> ticket_answer \<Rightarrow> string option" where
  "issued_token (IssueTicket e drawn now c, Issued (Inr (token, t))) = Some token"
| "issued_token _ = None"

fun used_token :: "ticket_call \<times> ticket_answer \<Rightarrow> string option" where
  "used_token (ConsumeTicket e now token container stream admin, Consumed (Inr c)) = Some token"
| "used_token _ = None"

definition times_issued :: "string \<Rightarrow> (ticket_call \<times> ticket_answer) list \<Rightarrow> nat" where
  "times_issued token l = length (filter (\<lambda>x. issued_token x = Some token) l)"

definition times_used :: "string \<Rightarrow> (ticket_call \<times> ticket_answer) list \<Rightarrow> nat" where
  "times_used token l = length (filter (\<lambda>x. used_token x = Some token) l)"

section \<open>Laws\<close>

definition held :: "string \<Rightarrow> ticket_store \<Rightarrow> nat" where
  "held token st = (case ts_tickets st token of None \<Rightarrow> 0 | Some _ \<Rightarrow> 1)"

lemma cleanup_held: "held token (cleanup_locked now st) \<le> held token st"
  by (auto simp: held_def cleanup_locked_def split: option.splits)

lemma serve_balance:
  assumes "serve_ticket c st = (a, st')"
  shows "held token st' + (if used_token (c, a) = Some token then 1 else 0)
    \<le> held token st + (if issued_token (c, a) = Some token then 1 else 0)"
  using assms
  by (cases c) (auto simp: issue_ticket_def consume_ticket_def seq_def check_def ret_def fail_def held_def
      cleanup_locked_def Let_def split: option.splits sum.splits if_splits prod.splits)

lemma tickets_balance:
  "serve_tickets cs st = (l, st') \<Longrightarrow> held token st' + times_used token l \<le> held token st + times_issued token l"
proof (induction cs arbitrary: st l)
  case Nil
  then show ?case by (simp add: times_used_def times_issued_def)
next
  case (Cons c cs)
  obtain a st1 where s: "serve_ticket c st = (a, st1)" by fastforce
  obtain l2 where r: "serve_tickets cs st1 = (l2, st')" and l: "l = (c, a) # l2"
    using Cons.prems s by (auto split: prod.splits)
  show ?case using Cons.IH[OF r] serve_balance[OF s, of token] l
    by (simp add: times_used_def times_issued_def split: if_splits)
qed

text \<open>Every ticket in the store was issued, and what it says was said then.\<close>

definition issued_in :: "(ticket_call \<times> ticket_answer) list \<Rightarrow> string \<Rightarrow> ticket_claims \<Rightarrow> int \<Rightarrow> bool" where
  "issued_in l token c ttl \<longleftrightarrow> (\<exists>e drawn now c0 t. (IssueTicket e drawn now c0, Issued (Inr (token, t))) \<in> set l
     \<and> c = c0\<lparr>tc_expires := now + ttl\<rparr>)"

definition known :: "(ticket_call \<times> ticket_answer) list \<Rightarrow> int \<Rightarrow> ticket_store \<Rightarrow> bool" where
  "known l ttl st \<longleftrightarrow> ts_ttl st = ttl \<and> (\<forall>token c. ts_tickets st token = Some c \<longrightarrow> issued_in l token c ttl)"

lemma issued_in_more: "issued_in l token c ttl \<Longrightarrow> issued_in (l @ l') token c ttl"
  unfolding issued_in_def by auto blast

lemma cleanup_known: "known l ttl st \<Longrightarrow> known l ttl (cleanup_locked now st)"
  by (auto simp: known_def cleanup_locked_def split: option.splits if_splits)

lemma known_more: "known l ttl st \<Longrightarrow> known (l @ l') ttl st"
  by (auto simp: known_def intro: issued_in_more)

lemma serve_known:
  assumes "serve_ticket c st = (a, st')" and "known l ttl st"
  shows "known (l @ [(c, a)]) ttl st'"
proof (cases c)
  case (IssueTicket e drawn now c0)
  have k: "known (l @ [(c, a)]) ttl (cleanup_locked now st)" by (intro known_more cleanup_known assms(2))
  show ?thesis
  proof (cases "e = None \<and> (\<exists>x. drawn = Inr x)")
    case True
    then obtain x where x: "drawn = Inr x" "e = None" by blast
    let ?c = "c0\<lparr>tc_expires := now + ttl\<rparr>"
    have t: "ts_ttl st = ttl" using assms(2) by (simp add: known_def)
    have a: "a = Issued (Inr (b64_encode x, now + ttl))"
      and st': "st' = (cleanup_locked now st)\<lparr>ts_tickets := (ts_tickets (cleanup_locked now st))(b64_encode x \<mapsto> ?c)\<rparr>"
      using assms(1) IssueTicket x t
      by (auto simp: issue_ticket_def seq_def check_def ret_def random_ticket_token_def Let_def)
    have "issued_in (l @ [(c, a)]) (b64_encode x) ?c ttl"
      using a IssueTicket unfolding issued_in_def
      by (intro exI[of _ e] exI[of _ drawn] exI[of _ now] exI[of _ c0] exI[of _ "now + ttl"]) simp
    then show ?thesis using k st' by (auto simp: known_def)
  next
    case False
    then have "st' = st" using assms(1) IssueTicket
      by (auto simp: issue_ticket_def seq_def check_def ret_def fail_def random_ticket_token_def split: option.splits sum.splits)
    then show ?thesis using assms(2) by (simp add: known_more)
  qed
next
  case (ConsumeTicket e now token co s ad)
  have "known l ttl (st\<lparr>ts_tickets := (ts_tickets st)(token := None)\<rparr>)" using assms(2) by (simp add: known_def)
  then have "known (l @ [(c, a)]) ttl (cleanup_locked now (st\<lparr>ts_tickets := (ts_tickets st)(token := None)\<rparr>))"
    by (intro known_more cleanup_known)
  moreover have "st' = st \<or> st' = cleanup_locked now (st\<lparr>ts_tickets := (ts_tickets st)(token := None)\<rparr>)"
    using assms(1) ConsumeTicket
    by (auto simp: consume_ticket_def seq_def check_def ret_def fail_def Let_def split: option.splits if_splits prod.splits)
  ultimately show ?thesis using assms(2) by (auto intro: known_more)
qed

lemma consume_ticket_Inr:
  assumes "consume_ticket e now token container stream admin st = (Inr c, st')"
  shows "ts_tickets st token = Some c \<and> now < tc_expires c \<and> tc_container c = container \<and> tc_stream c = stream
    \<and> tc_admin c = admin"
  using assms
  by (auto simp: consume_ticket_def seq_def check_def ret_def fail_def Let_def split: option.splits if_splits)

end
