(* ===== verification/ComposeParser.thy ===== *)
theory ComposeParser
  imports GitSource ContainerService
begin

text \<open>
  Compose files (internal/core/service/compose/parser.go): the file a user hands in is loaded by
  compose-go, stripped of every key the platform does not support, checked for directives that
  would reach the host, and translated to the services and volumes of a project.  compose-go is a
  parameter: load answers the untyped model of the YAML text, to_project the typed project of a
  model, with the services in the order ForEachService visits them (a service after the services it
  depends on).  A map of the code is an association list whose order is the order in which Go ranges
  over it.
\<close>

section \<open>The untyped model\<close>

datatype yaml = YMap "(string \<times> yaml) list" | YSeq "yaml list" | YStr string | YScalar string

definition supported_service_keys :: "string list" where
  "supported_service_keys = [''build'', ''command'', ''depends_on'', ''entrypoint'', ''environment'',
     ''healthcheck'', ''image'', ''labels'', ''name'', ''network_mode'', ''pid'', ''privileged'',
     ''profiles'', ''restart'', ''volumes'']"

definition supported_build_keys :: "string list" where
  "supported_build_keys = [''args'', ''context'', ''dockerfile'']"

definition supported_volume_keys :: "string list" where
  "supported_volume_keys = [''external'', ''name'']"

definition as_string_map :: "yaml option \<Rightarrow> (string \<times> yaml) list option" where
  "as_string_map v = (case v of Some (YMap m) \<Rightarrow> Some m | _ \<Rightarrow> None)"

definition prune_string_map :: "string list \<Rightarrow> (string \<times> yaml) list \<Rightarrow> (string \<times> yaml) list" where
  "prune_string_map allowed m = filter (\<lambda>(k, v). List.member allowed k) m"

text \<open>Applying f to the map stored under a key; a value that is no map stays.\<close>

definition in_map :: "((string \<times> yaml) list \<Rightarrow> (string \<times> yaml) list) \<Rightarrow> yaml \<Rightarrow> yaml" where
  "in_map f v = (case as_string_map (Some v) of Some m \<Rightarrow> YMap (f m) | None \<Rightarrow> v)"

definition under :: "string \<Rightarrow> (yaml \<Rightarrow> yaml) \<Rightarrow> (string \<times> yaml) list \<Rightarrow> (string \<times> yaml) list" where
  "under key f m = map (\<lambda>(k, v). (k, if k = key then f v else v)) m"

definition each_value :: "(yaml \<Rightarrow> yaml) \<Rightarrow> (string \<times> yaml) list \<Rightarrow> (string \<times> yaml) list" where
  "each_value f m = map (\<lambda>(k, v). (k, f v)) m"

fun condition_of :: "string \<Rightarrow> dep_condition" where
  "condition_of s = (if s = ''service_started'' then CondStarted else if s = ''service_healthy'' then CondHealthy
     else if s = ''service_completed_successfully'' then CondCompleted else CondOther s)"

definition sanitize_condition :: "yaml \<Rightarrow> yaml" where
  "sanitize_condition v = (case v of
       YStr s \<Rightarrow> if s \<noteq> [] \<and> \<not> is_valid_condition (condition_of s) then YStr ''service_started'' else v
     | _ \<Rightarrow> v)"

definition sanitize_dependency :: "(string \<times> yaml) list \<Rightarrow> (string \<times> yaml) list" where
  "sanitize_dependency d = under ''condition'' sanitize_condition (filter (\<lambda>(k, v). k \<noteq> ''restart'') d)"

definition sanitize_service_build :: "(string \<times> yaml) list \<Rightarrow> (string \<times> yaml) list" where
  "sanitize_service_build s = under ''build'' (in_map (prune_string_map supported_build_keys)) s"

definition sanitize_service_depends_on :: "(string \<times> yaml) list \<Rightarrow> (string \<times> yaml) list" where
  "sanitize_service_depends_on s = under ''depends_on'' (in_map (each_value (in_map sanitize_dependency))) s"

definition sanitize_services :: "(string \<times> yaml) list \<Rightarrow> (string \<times> yaml) list" where
  "sanitize_services = each_value (in_map (\<lambda>s. sanitize_service_depends_on
     (sanitize_service_build (prune_string_map supported_service_keys s))))"

definition sanitize_volumes :: "(string \<times> yaml) list \<Rightarrow> (string \<times> yaml) list" where
  "sanitize_volumes = each_value (in_map (prune_string_map supported_volume_keys))"

definition sanitize_model :: "(string \<times> yaml) list \<Rightarrow> (string \<times> yaml) list" where
  "sanitize_model m =
     under ''volumes'' (in_map sanitize_volumes) (under ''services'' (in_map sanitize_services)
       (prune_string_map [''name'', ''services'', ''volumes''] m))"

section \<open>The typed project\<close>

record volume_config =
  vc_name :: string
  vc_external :: bool
  vc_driver :: string
  vc_driver_opts :: "(string \<times> string) list"

datatype mount_type = MountBind | MountVolume | MountOther string

record service_volume =
  sv_type :: mount_type
  sv_source :: string
  sv_target :: string
  sv_ro :: bool

record build_config =
  bd_context :: string
  bd_dockerfile :: string
  bd_args :: "(string \<times> string option) list"

record health_config =
  hk_test :: "string list"
  hk_retries :: "int option"
  hk_interval :: "int option"
  hk_timeout :: "int option"
  hk_start_period :: "int option"
  hk_disable :: bool

record depends_config =
  dc_condition :: string
  dc_required :: bool

record service_config =
  sf_name :: string
  sf_image :: string
  sf_build :: "build_config option"
  sf_env :: "(string \<times> string option) list"
  sf_command :: "string list"
  sf_entrypoint :: "string list"
  sf_restart :: string
  sf_health :: "health_config option"
  sf_volumes :: "service_volume list"
  sf_depends :: "(string \<times> depends_config) list"
  sf_labels :: "(string \<times> string) list"
  sf_network_mode :: string
  sf_privileged :: bool
  sf_pid :: string

record typed_project =
  tp_services :: "service_config list"
  tp_volumes :: "(string \<times> volume_config) list"

section \<open>Directives that reach the host\<close>

fun check_service_volumes :: "service_volume list \<Rightarrow> goerr option" where
  "check_service_volumes [] = None"
| "check_service_volumes (v # vs) =
     (if sv_type v = MountBind \<and> has_prefix (sv_source v) ''/''
      then Some (bad_request (''absolute bind mounts are not allowed: '' @ sv_source v))
      else check_service_volumes vs)"

fun validate_security :: "service_config list \<Rightarrow> goerr option" where
  "validate_security [] = None"
| "validate_security (s # ss) =
     (if sf_network_mode s = ''host'' then Some (bad_request ''network_mode: host is not allowed'')
      else if sf_privileged s then Some (bad_request ''privileged mode is not allowed'')
      else if sf_pid s = ''host'' then Some (bad_request ''pid: host is not allowed'')
      else case check_service_volumes (sf_volumes s) of
             Some e \<Rightarrow> Some e | None \<Rightarrow> validate_security ss)"

section \<open>Paths\<close>

definition validate_compose_path :: "string \<Rightarrow> goerr option" where
  "validate_compose_path p =
    (let c = clean_path p in
     if p = [] \<or> p = ''.'' then None
     else if has_prefix p ''/'' then Some (OtherErr ''absolute paths are not allowed'')
     else if c = ''..'' \<or> has_prefix c ''../'' \<or> str_contains c [CHR 0x00]
       then Some (OtherErr ''parent directory traversal is not allowed'')
     else None)"

definition clean_base_dir :: "string \<Rightarrow> goerr + string" where
  "clean_base_dir p =
    (if p = [] \<or> p = ''.'' then Inr []
     else case validate_compose_path p of
            Some e \<Rightarrow> Inl e
          | None \<Rightarrow> if clean_path p = ''.'' then Inr [] else Inr (clean_path p))"

definition join_path :: "string \<Rightarrow> string \<Rightarrow> string" where
  "join_path a b =
    (if a = [] then (if b = [] then [] else clean_path b)
     else if b = [] then clean_path a else clean_path (a @ ''/'' @ b))"

definition normalize_build_context :: "string \<Rightarrow> string \<Rightarrow> goerr + string" where
  "normalize_build_context base p = (case validate_compose_path p of
       Some e \<Rightarrow> Inl e
     | None \<Rightarrow>
         if base = [] then (if p = [] then Inr ''.'' else Inr (clean_path p))
         else if p = [] \<or> p = ''.'' then Inr base
         else let joined = clean_path (join_path base p) in
           if joined = ''..'' \<or> has_prefix joined ''../''
           then Inl (OtherErr ''build context escapes repository root'') else Inr joined)"

section \<open>Translation\<close>

text \<open>fmt.Errorf of ErrBadRequest, a text and the error that follows a colon.\<close>

definition bad_compose :: "string \<Rightarrow> goerr \<Rightarrow> goerr" where
  "bad_compose text e = bad_request (text @ '': '' @ error_text e)"

definition require :: "(goerr \<Rightarrow> goerr) \<Rightarrow> goerr option \<Rightarrow> goerr + unit" where
  "require wrap e = (case e of Some err \<Rightarrow> Inl (wrap err) | None \<Rightarrow> Inr ())"

definition translate_volume :: "string \<Rightarrow> string \<Rightarrow> volume_config \<Rightarrow> goerr + compose_volume" where
  "translate_volume project name v =
     bind_res (require (bad_compose (''volume '' @ name @ '' has invalid name'')) (check_resource_name name)) (\<lambda>_.
     if vc_external v then
       let display = (if vc_name v = [] then name else vc_name v) in
       bind_res (require (bad_compose (''external volume '' @ name @ '' has invalid name'')) (check_resource_name display)) (\<lambda>_.
       Inr \<lparr> cv_alias = name, cv_name = display, cv_external = True \<rparr>)
     else if vc_driver v \<noteq> [] then Inl (bad_request ''custom volume drivers are not allowed'')
     else if vc_driver_opts v \<noteq> [] then Inl (bad_request ''volume driver options are not allowed'')
     else Inr \<lparr> cv_alias = name, cv_name = project @ ''_'' @ name, cv_external = False \<rparr>)"

fun translate_volumes :: "string \<Rightarrow> (string \<times> volume_config) list \<Rightarrow> goerr + compose_volume list" where
  "translate_volumes project [] = Inr []"
| "translate_volumes project ((name, v) # vs) =
     bind_res (translate_volume project name v) (\<lambda>cv.
     bind_res (translate_volumes project vs) (\<lambda>rest. Inr (cv # rest)))"

fun set_values :: "(string \<times> string option) list \<Rightarrow> (string \<times> string) list" where
  "set_values [] = []"
| "set_values ((k, v) # m) = (case v of Some x \<Rightarrow> (k, x) # set_values m | None \<Rightarrow> set_values m)"

text \<open>The source of the image: the build context and the Dockerfile, or neither.\<close>

definition translate_source :: "string \<Rightarrow> string \<Rightarrow> service_config \<Rightarrow> goerr + string \<times> string \<times> string" where
  "translate_source project base s = (case sf_build s of
       Some b \<Rightarrow>
         bind_res (case normalize_build_context base (bd_context b) of
                  Inl e \<Rightarrow> Inl (bad_compose (''invalid build context for service '' @ sf_name s) e)
                | Inr c \<Rightarrow> Inr c) (\<lambda>context.
         bind_res (require (bad_compose (''invalid dockerfile path for service '' @ sf_name s))
                  (if bd_dockerfile b \<noteq> [] then validate_compose_path (bd_dockerfile b) else None)) (\<lambda>_.
         Inr (context, if bd_dockerfile b = [] then ''Dockerfile'' else bd_dockerfile b,
              if sf_image s = [] then to_lower (project @ ''_'' @ sf_name s @ '':latest'') else sf_image s)))
     | None \<Rightarrow>
         if sf_image s = []
         then Inl (bad_request (''service '' @ sf_name s @ '' must have either image or build''))
         else Inr ([], [], sf_image s))"

fun is_supported_restart_policy :: "string \<Rightarrow> bool" where
  "is_supported_restart_policy p \<longleftrightarrow> p = ''no'' \<or> p = ''on-failure''"

definition translate_health :: "health_config option \<Rightarrow> goerr + healthcheck option" where
  "translate_health h = (case h of None \<Rightarrow> Inr None | Some c \<Rightarrow>
     if hk_disable c then Inr None
     else if (case hk_interval c of Some i \<Rightarrow> i < 5000000000 | None \<Rightarrow> False)
       then Inl (bad_request ''healthcheck interval must be at least 5s'')
     else if (case hk_timeout c of Some i \<Rightarrow> i < 2000000000 | None \<Rightarrow> False)
       then Inl (bad_request ''healthcheck timeout must be at least 2s'')
     else let value = (\<lambda>x. case x of Some i \<Rightarrow> i | None \<Rightarrow> 0) in
       Inr (Some \<lparr> hc_test = hk_test c, hc_interval = value (hk_interval c), hc_timeout = value (hk_timeout c),
         hc_start_period = value (hk_start_period c), hc_retries = value (hk_retries c) \<rparr>))"

fun translate_mounts :: "string \<Rightarrow> string list \<Rightarrow> service_volume list \<Rightarrow> goerr + mount_params list" where
  "translate_mounts service defined [] = Inr []"
| "translate_mounts service defined (v # vs) = (case sv_type v of
       MountVolume \<Rightarrow>
         if \<not> List.member defined (sv_source v)
         then Inl (bad_request (''service '' @ service @ '' references undefined volume '' @ sv_source v))
         else
           bind_res (require (bad_compose (''invalid mount path for service '' @ service)) (check_mount_path (sv_target v))) (\<lambda>_.
           bind_res (translate_mounts service defined vs) (\<lambda>rest.
           Inr (\<lparr> mp_volume = nil_id, mp_volume_name = sv_source v, mp_path = sv_target v, mp_ro = sv_ro v \<rparr> # rest)))
     | MountBind \<Rightarrow> Inl (bad_request (''bind mounts are temporarily disabled in this PaaS for path: '' @ sv_source v))
     | MountOther _ \<Rightarrow> translate_mounts service defined vs)"

definition translate_dependency :: "string \<times> depends_config \<Rightarrow> compose_dependency" where
  "translate_dependency d = (case d of (name, c) \<Rightarrow>
     \<lparr> cd_service = name,
       cd_condition = (let cond = condition_of (dc_condition c)
                       in if dc_condition c = [] \<or> \<not> is_valid_condition cond then CondStarted else cond),
       cd_optional = \<not> dc_required c \<rparr>)"

text \<open>sort.Slice by service name; the names are the distinct keys of a map.\<close>

fun name_le :: "string \<Rightarrow> string \<Rightarrow> bool" where
  "name_le [] t = True"
| "name_le (c # s) [] = False"
| "name_le (c # s) (d # t) = (c < d \<or> c = d \<and> name_le s t)"

fun insert_dependency :: "compose_dependency \<Rightarrow> compose_dependency list \<Rightarrow> compose_dependency list" where
  "insert_dependency d [] = [d]"
| "insert_dependency d (e # es) =
     (if name_le (cd_service d) (cd_service e) then d # e # es else e # insert_dependency d es)"

definition translate_depends :: "(string \<times> depends_config) list \<Rightarrow> compose_dependency list" where
  "translate_depends ds = foldr insert_dependency (map translate_dependency ds) []"

definition atoi :: "string \<Rightarrow> int option" where
  "atoi s =
    (let neg = has_prefix s ''-'';
         ds = (if has_prefix s ''-'' \<or> has_prefix s ''+'' then tl s else s);
         n = foldl (\<lambda>a c. a * 10 + (int (of_char c) - 48)) 0 ds;
         v = (if neg then - n else n)
     in if ds = [] \<or> \<not> list_all is_digit ds \<or> \<not> in_i64 v then None else Some v)"

text \<open>The two labels that expose a service; seen are the prefixes earlier services took.\<close>

definition translate_labels ::
    "(string \<Rightarrow> bool) \<Rightarrow> (string \<times> string) list \<Rightarrow> service_config \<Rightarrow> goerr + (string \<times> int) option" where
  "translate_labels forbidden seen s =
    (case (map_of (sf_labels s) ''dcm.domain_prefix'', map_of (sf_labels s) ''dcm.internal_port'') of
       (None, None) \<Rightarrow> Inr None
     | (Some prefix, Some port) \<Rightarrow>
         bind_res (require (bad_compose (''invalid domain prefix for service '' @ sf_name s)) (check_domain_prefix prefix)) (\<lambda>_.
         if forbidden prefix then Inl (domain_forbidden_error prefix) else
         (case atoi port of
            None \<Rightarrow> Inl (bad_request (''invalid dcm.internal_port for service '' @ sf_name s))
          | Some n \<Rightarrow>
              if n \<le> 0 \<or> n > 65535 then Inl (bad_request (''invalid dcm.internal_port for service '' @ sf_name s))
              else (case map_of seen prefix of
                 Some other \<Rightarrow> Inl (mk_err ErrAlreadyExists (''subdomain '' @ prefix @ '' is used by both services ''
                    @ other @ '' and '' @ sf_name s))
               | None \<Rightarrow> Inr (Some (prefix, n)))))
     | _ \<Rightarrow> Inl (bad_request (''service '' @ sf_name s
         @ '' must have BOTH dcm.domain_prefix and dcm.internal_port labels to be exposed'')))"

definition translate_service ::
    "string \<Rightarrow> string \<Rightarrow> string list \<Rightarrow> (string \<Rightarrow> bool) \<Rightarrow> (string \<times> string) list \<Rightarrow> service_config
      \<Rightarrow> goerr + compose_service \<times> (string \<times> int) option" where
  "translate_service project base defined forbidden seen s =
     bind_res (require (bad_compose (''service '' @ sf_name s @ '' has invalid name'')) (check_resource_name (sf_name s))) (\<lambda>_.
     bind_res (translate_source project base s) (\<lambda>(context, dockerfile, tag).
     bind_res (require (bad_compose (''invalid image tag for service '' @ sf_name s)) (check_image_tag tag)) (\<lambda>_.
     bind_res (translate_health (sf_health s)) (\<lambda>health.
     bind_res (translate_mounts (sf_name s) defined (sf_volumes s)) (\<lambda>mounts.
     bind_res (translate_labels forbidden seen s) (\<lambda>route.
     Inr (\<lparr> cs_name = sf_name s, cs_image = tag, cs_context = context, cs_dockerfile = dockerfile,
       cs_env = set_values (sf_env s), cs_mounts = mounts, cs_deps = translate_depends (sf_depends s),
       cs_command = sf_command s, cs_entrypoint = sf_entrypoint s,
       cs_args = (case sf_build s of Some b \<Rightarrow> set_values (bd_args b) | None \<Rightarrow> []),
       cs_restart = (if is_supported_restart_policy (sf_restart s) then sf_restart s else []),
       cs_health = health,
       cs_domain = (case route of Some (prefix, n) \<Rightarrow> prefix | None \<Rightarrow> []),
       cs_port = (case route of Some (prefix, n) \<Rightarrow> n | None \<Rightarrow> 0) \<rparr>, route)))))))"

fun translate_services ::
    "string \<Rightarrow> string \<Rightarrow> string list \<Rightarrow> (string \<Rightarrow> bool) \<Rightarrow> (string \<times> string) list \<Rightarrow> service_config list
      \<Rightarrow> goerr + compose_service list" where
  "translate_services project base defined forbidden seen [] = Inr []"
| "translate_services project base defined forbidden seen (s # ss) =
     bind_res (translate_service project base defined forbidden seen s) (\<lambda>(c, route).
     bind_res (translate_services project base defined forbidden
              (case route of Some (prefix, n) \<Rightarrow> (prefix, cs_name c) # seen | None \<Rightarrow> seen) ss) (\<lambda>rest.
     Inr (c # rest)))"

definition translate_to_domain ::
    "string \<Rightarrow> typed_project \<Rightarrow> (string \<Rightarrow> bool) \<Rightarrow> string \<Rightarrow> goerr + compose_project" where
  "translate_to_domain project tp forbidden base =
     bind_res (translate_volumes project (tp_volumes tp)) (\<lambda>vols.
     bind_res (translate_services project base (map cv_alias vols) forbidden [] (tp_services tp)) (\<lambda>svcs.
     Inr \<lparr> cj_name = project, cj_services = svcs, cj_volumes = vols \<rparr>))"

record compose_kit =
  ck_load :: "string \<Rightarrow> string \<Rightarrow> goerr + (string \<times> yaml) list"
  ck_project :: "string \<Rightarrow> (string \<times> yaml) list \<Rightarrow> goerr + typed_project"

definition load_compose_project :: "compose_kit \<Rightarrow> string \<Rightarrow> string \<Rightarrow> goerr + typed_project" where
  "load_compose_project kit project text =
     bind_res (ck_load kit project text) (\<lambda>m. ck_project kit project (sanitize_model m))"

definition parse_and_validate ::
    "compose_kit \<Rightarrow> string \<Rightarrow> string \<Rightarrow> (string \<Rightarrow> bool) \<Rightarrow> string \<Rightarrow> goerr + compose_project" where
  "parse_and_validate kit project text forbidden base0 =
     bind_res (require (\<lambda>e. bad_request (error_text e)) (check_project_name project)) (\<lambda>_.
     bind_res (case clean_base_dir base0 of Inl e \<Rightarrow> Inl (bad_compose ''invalid compose file path'' e) | Inr d \<Rightarrow> Inr d) (\<lambda>base.
     bind_res (case load_compose_project kit project text of
              Inl e \<Rightarrow> Inl (bad_compose ''failed to parse compose file'' e) | Inr tp \<Rightarrow> Inr tp) (\<lambda>tp.
     bind_res (require (\<lambda>e. e) (validate_security (tp_services tp))) (\<lambda>_.
     translate_to_domain project tp forbidden base))))"

end
