(* ===== verification/GatewayProxy.thy ===== *)
theory GatewayProxy
  imports InternalAuth Tickets ComposeParser
begin

text \<open>
  How the gateway authenticates a request and passes it on: the middlewares of
  internal/gateway/http/middleware, the telemetry checks of internal/gateway/http/handler/proxy*.go
  and the reverse proxy of Go's standard library (net/http/httputil) that sends the request to the
  core and telemetry services.  What the sign-on service answers about a token is a parameter.
\<close>

section \<open>Users of a request (authscope/authscope.go, middleware/auth.go)\<close>

record auth_user =
  au_id :: string
  au_username :: string
  au_role :: string

definition from_auth_user :: "(string \<Rightarrow> id option) \<Rightarrow> auth_user \<Rightarrow> scope_kind \<Rightarrow> scope option" where
  "from_auth_user parse u kind = (case parse (au_id u) of None \<Rightarrow> None
     | Some i \<Rightarrow> Some \<lparr> sc_kind = kind, sc_user = i, sc_username = au_username u, sc_role = au_role u \<rparr>)"

definition set_auth_user :: "(string \<Rightarrow> id option) \<Rightarrow> scope_kind \<Rightarrow> auth_user \<Rightarrow> ('s, scope) meth" where
  "set_auth_user parse kind u = (case from_auth_user parse u kind of
       None \<Rightarrow> fail (Sentinel ErrUnauthorized) | Some s \<Rightarrow> ret s)"

definition auth_middleware :: "(string \<Rightarrow> id option) \<Rightarrow> (string \<Rightarrow> ('s, auth_user) meth) \<Rightarrow> headers \<Rightarrow> ('s, scope) meth" where
  "auth_middleware parse verify h =
     seq (verify (header_get h ''Authorization'')) (set_auth_user parse KindUser)"

definition require_permission_middleware ::
    "(string \<Rightarrow> id option) \<Rightarrow> (string \<Rightarrow> string \<Rightarrow> ('s, auth_user) meth) \<Rightarrow> string \<Rightarrow> headers \<Rightarrow> ('s, scope) meth" where
  "require_permission_middleware parse check_permission permission h =
     seq (check_permission (header_get h ''Authorization'') permission) (set_auth_user parse KindAdmin)"

section \<open>The reverse proxy (net/http/httputil)\<close>

definition trim_token :: "string \<Rightarrow> string" where
  "trim_token s = (let sp = (\<lambda>c. List.member [CHR '' '', CHR 0x09, CHR 0x0A, CHR 0x0D] c)
     in rev (dropWhile sp (rev (dropWhile sp s))))"

text \<open>The names a Connection header lists, in the form in which headers are stored.\<close>

definition connection_names :: "headers \<Rightarrow> string list" where
  "connection_names h = map canonical_key (filter (\<lambda>n. n \<noteq> [])
     (map trim_token (concat (map (split_on (CHR '','')) (h ''Connection'')))))"

definition hop_headers :: "string list" where
  "hop_headers = [''Connection'', ''Proxy-Connection'', ''Keep-Alive'', ''Proxy-Authenticate'',
     ''Proxy-Authorization'', ''Te'', ''Trailer'', ''Transfer-Encoding'', ''Upgrade'']"

definition remove_hop_by_hop :: "headers \<Rightarrow> headers" where
  "remove_hop_by_hop h = fold header_del hop_headers (fold header_del (connection_names h) h)"

definition contains_token :: "string list \<Rightarrow> string \<Rightarrow> bool" where
  "contains_token vals token \<longleftrightarrow> list_ex (\<lambda>v. list_ex (\<lambda>t. to_lower (trim_token t) = token) (split_on (CHR '','') v)) vals"

definition upgrade_type :: "headers \<Rightarrow> string" where
  "upgrade_type h = (if contains_token (h ''Connection'') ''upgrade'' then header_get h ''Upgrade'' else [])"

text \<open>
  The headers the backend receives, without X-Forwarded-For and User-Agent, which carry no identity:
  the ones of the connection are removed after the handler of the gateway has prepared the request.
\<close>

definition proxied_headers :: "headers \<Rightarrow> headers" where
  "proxied_headers h =
    (let h1 = remove_hop_by_hop h;
         h2 = (if contains_token (h ''Te'') ''trailers'' then header_set ''Te'' ''trailers'' h1 else h1);
         up = upgrade_type h
     in if up \<noteq> [] then header_set ''Upgrade'' up (header_set ''Connection'' ''Upgrade'' h2) else h2)"

section \<open>Preparing a request (handler/proxy.go)\<close>

definition identity_headers :: "string list" where
  "identity_headers = [''Authorization'', ''Cookie'', ''X-User-Id'', ''X-Username'', ''X-User-Role'', ''X-Actor-Scope'',
     ''X-Internal-Token'', ''X-Forwarded-User'', ''X-Forwarded-Email'', ''X-Forwarded-Groups'', ''X-Remote-User'']"

definition clear_proxy_identity_headers :: "headers \<Rightarrow> headers" where
  "clear_proxy_identity_headers h = fold header_del identity_headers h"

definition prepare_proxy_request :: "string \<Rightarrow> (id \<Rightarrow> string) \<Rightarrow> string \<Rightarrow> scope option \<Rightarrow> headers \<Rightarrow> headers" where
  "prepare_proxy_request token txt request_id ctx h =
    (let h1 = header_set ''X-Internal-Token'' token (set_scope_headers txt ctx (clear_proxy_identity_headers h))
     in if request_id \<noteq> [] then header_set ''X-Request-Id'' request_id h1 else h1)"

text \<open>The handler of the routes that go to the core service.\<close>

definition core_proxy :: "string \<Rightarrow> (id \<Rightarrow> string) \<Rightarrow> string \<Rightarrow> scope option \<Rightarrow> headers \<Rightarrow> headers" where
  "core_proxy token txt request_id ctx h = proxied_headers (prepare_proxy_request token txt request_id ctx h)"

section \<open>Telemetry requests (handler/proxy.go, proxy_auth.go, proxy_validation.go)\<close>

text \<open>The values of each parameter of the query.\<close>

type_synonym url_query = "string \<Rightarrow> string list"

definition query_value :: "url_query \<Rightarrow> string \<Rightarrow> string" where
  "query_value q k = (case q k of [] \<Rightarrow> [] | v # _ \<Rightarrow> v)"

definition parse_bool :: "string \<Rightarrow> bool option" where
  "parse_bool s = (if List.member [''1'', ''t'', ''T'', ''TRUE'', ''true'', ''True''] s then Some True
     else if List.member [''0'', ''f'', ''F'', ''FALSE'', ''false'', ''False''] s then Some False else None)"

text \<open>strconv.ParseUint(s, 10, 32)\<close>

definition parse_uint32 :: "string \<Rightarrow> nat option" where
  "parse_uint32 s = (let n = foldl (\<lambda>a c. a * 10 + (of_char c - 48)) 0 s in
     if s = [] \<or> \<not> list_all is_digit s \<or> n \<ge> 2 ^ 32 then None else Some n)"

definition validate_bool_query :: "url_query \<Rightarrow> string \<Rightarrow> bool" where
  "validate_bool_query q k \<longleftrightarrow> query_value q k = [] \<or> parse_bool (query_value q k) \<noteq> None"

definition validate_telemetry_log_query :: "(string \<Rightarrow> instant option) \<Rightarrow> url_query \<Rightarrow> bool" where
  "validate_telemetry_log_query rfc3339 q \<longleftrightarrow>
     (query_value q ''tail'' = [] \<or> (case atoi (query_value q ''tail'') of Some n \<Rightarrow> n > 0 | None \<Rightarrow> False))
     \<and> validate_bool_query q ''follow'' \<and> validate_bool_query q ''timestamps''
     \<and> (query_value q ''since'' = [] \<or> atoi (query_value q ''since'') \<noteq> None \<or> rfc3339 (query_value q ''since'') \<noteq> None)"

definition has_break :: "string \<Rightarrow> bool" where
  "has_break s \<longleftrightarrow> list_ex (\<lambda>c. c = CHR 0x00 \<or> c = CHR 0x0D \<or> c = CHR 0x0A) s"

definition validate_telemetry_terminal_query :: "url_query \<Rightarrow> bool" where
  "validate_telemetry_terminal_query q \<longleftrightarrow>
     \<not> (query_value q ''cmd'' = [] \<and> q ''arg'' \<noteq> [])
     \<and> list_all (\<lambda>k. query_value q k = [] \<or> (case parse_uint32 (query_value q k) of Some n \<Rightarrow> n \<noteq> 0 | None \<Rightarrow> False)) [''rows'', ''cols'']
     \<and> list_all (\<lambda>v. v = [] \<or> \<not> has_break v) (query_value q ''cmd'' # q ''arg'')"

definition validate_websocket_origin :: "string list \<Rightarrow> headers \<Rightarrow> bool" where
  "validate_websocket_origin allowed h \<longleftrightarrow>
     header_get h ''Origin'' = [] \<or> list_ex (\<lambda>a. trim_space a = header_get h ''Origin'') allowed"

definition authenticate_telemetry_proxy ::
    "goerr option \<Rightarrow> instant \<Rightarrow> string \<Rightarrow> bool \<Rightarrow> string \<Rightarrow> url_query \<Rightarrow> (ticket_store, scope) meth" where
  "authenticate_telemetry_proxy ctx_err t0 stream admin container q =
    (let ticket = query_value q ''ticket'' in
     if ticket = [] then fail (Sentinel ErrUnauthorized)
     else seq (consume_ticket ctx_err t0 ticket container stream admin) (\<lambda>c. ret (tc_scope c)))"

text \<open>The parameters of the query that reach the telemetry service.\<close>

definition without_ticket :: "url_query \<Rightarrow> url_query" where
  "without_ticket q = q(''ticket'' := [])"

record proxy_request =
  pr_container :: string
  pr_query :: url_query
  pr_headers :: headers

text \<open>The handlers of the streams: the error they answer, or the request that is passed on.\<close>

definition telemetry_logs_proxy ::
    "string \<Rightarrow> (id \<Rightarrow> string) \<Rightarrow> (string \<Rightarrow> id option) \<Rightarrow> (string \<Rightarrow> instant option) \<Rightarrow> bool \<Rightarrow> goerr option \<Rightarrow> instant \<Rightarrow> string
     \<Rightarrow> proxy_request \<Rightarrow> (ticket_store, proxy_request) meth" where
  "telemetry_logs_proxy token txt parse rfc3339 admin ctx_err t0 request_id r =
    (if parse (pr_container r) = None \<or> \<not> validate_telemetry_log_query rfc3339 (pr_query r) then fail (Sentinel ErrBadRequest)
     else seq (authenticate_telemetry_proxy ctx_err t0 ''logs'' admin (pr_container r) (pr_query r)) (\<lambda>s.
          ret (r\<lparr>pr_query := without_ticket (pr_query r),
                 pr_headers := proxied_headers (prepare_proxy_request token txt request_id (Some s) (pr_headers r))\<rparr>)))"

definition telemetry_terminal_proxy ::
    "string \<Rightarrow> (id \<Rightarrow> string) \<Rightarrow> (string \<Rightarrow> id option) \<Rightarrow> string list \<Rightarrow> bool \<Rightarrow> goerr option \<Rightarrow> instant \<Rightarrow> string
     \<Rightarrow> proxy_request \<Rightarrow> (ticket_store, proxy_request) meth" where
  "telemetry_terminal_proxy token txt parse origins admin ctx_err t0 request_id r =
    (if parse (pr_container r) = None then fail (Sentinel ErrBadRequest)
     else if \<not> validate_websocket_origin origins (pr_headers r) then fail (Sentinel ErrForbidden)
     else if \<not> validate_telemetry_terminal_query (pr_query r) then fail (Sentinel ErrBadRequest)
     else seq (authenticate_telemetry_proxy ctx_err t0 ''terminal'' admin (pr_container r) (pr_query r)) (\<lambda>s.
          ret (r\<lparr>pr_query := without_ticket (pr_query r),
                 pr_headers := proxied_headers (prepare_proxy_request token txt request_id (Some s) (pr_headers r))\<rparr>)))"

text \<open>The handlers that issue a ticket (handler/telemetry_ticket.go).\<close>

definition issue_ticket_handler ::
    "(string \<Rightarrow> id option) \<Rightarrow> goerr option \<Rightarrow> goerr + string \<Rightarrow> instant \<Rightarrow> string \<Rightarrow> bool \<Rightarrow> scope option \<Rightarrow> string
     \<Rightarrow> (ticket_store, string \<times> instant) meth" where
  "issue_ticket_handler parse ctx_err drawn t0 stream admin ctx container =
    (if parse container = None then fail (Sentinel ErrBadRequest)
     else case ctx of None \<Rightarrow> fail (Sentinel ErrUnauthorized)
     | Some s \<Rightarrow> if sc_kind s = KindNone then fail (Sentinel ErrUnauthorized)
         else issue_ticket ctx_err drawn t0
           \<lparr> tc_container = container, tc_stream = stream, tc_admin = admin, tc_scope = s, tc_expires = 0 \<rparr>)"

end
