(* ===== verification/SsoState.thy ===== *)
theory SsoState
  imports AppErrors Encoding Method
begin

text \<open>
  The users of the sign-on service (internal/sso/model/user.go), their table (migrations/sso) and the
  repository over it (internal/sso/repository/user.go).  A row carries the instant of its creation
  beside the user.  The empty string stands for NULL in the nullable columns, which is how the
  repository writes and reads them.
\<close>

record user =
  u_id :: id
  u_name :: string
  u_email :: string
  u_hash :: string
  u_role :: string
  u_status :: string
  u_quota_cpu :: rat
  u_quota_ram :: int
  u_quota_disk :: int
  u_source :: string
  u_provider :: string
  u_subject :: string
  u_external_name :: string
  u_last_login :: "instant option"

type_synonym user_row = "instant \<times> user"

definition role_admin :: string where "role_admin = ''admin''"
definition role_user :: string where "role_user = ''user''"
definition status_active :: string where "status_active = ''active''"
definition status_deactivated :: string where "status_deactivated = ''deactivated''"
definition source_local :: string where "source_local = ''local''"
definition source_oidc :: string where "source_oidc = ''oidc''"

section \<open>The columns\<close>

text \<open>A text parameter that is not UTF-8 or holds a NUL byte is refused by the server.\<close>

definition text_ok :: "string \<Rightarrow> bool" where
  "text_ok s \<longleftrightarrow> valid_utf8 s \<and> CHR 0x00 \<notin> set s"

definition bad_encoding :: goerr where "bad_encoding = PgError ''22021'' []"

definition texts :: "string list \<Rightarrow> goerr + 'a \<Rightarrow> goerr + 'a" where
  "texts ss r = (if list_all text_ok ss then r else Inl bad_encoding)"

text \<open>The parameters of INSERT and UPDATE: enumerations, VARCHAR lengths in characters, INTEGER.\<close>

definition fits :: "nat \<Rightarrow> string \<Rightarrow> bool" where
  "fits n s \<longleftrightarrow> length (runes_of s) \<le> n"

definition is_integer_column :: "int \<Rightarrow> bool" where
  "is_integer_column q \<longleftrightarrow> - 2147483648 \<le> q \<and> q \<le> 2147483647"

definition auth_source :: "string \<Rightarrow> string" where
  "auth_source v = (if v = [] then source_local else v)"

text \<open>Checked when the parameters are bound, before any row is looked at.\<close>

definition parameter_error :: "user \<Rightarrow> goerr option" where
  "parameter_error u =
    (if \<not> list_all text_ok [u_name u, u_email u, u_hash u, u_provider u, u_subject u, u_external_name u]
     then Some bad_encoding
     else if (u_role u \<noteq> role_admin \<and> u_role u \<noteq> role_user)
             \<or> (u_status u \<noteq> status_active \<and> u_status u \<noteq> status_deactivated)
             \<or> (auth_source (u_source u) \<noteq> source_local \<and> u_source u \<noteq> source_oidc)
     then Some (PgError ''22P02'' [])
     else if \<not> (is_integer_column (u_quota_ram u) \<and> is_integer_column (u_quota_disk u))
     then Some (PgError ''22003'' [])
     else None)"

text \<open>
  What the row holds, or the error of a value that does not fit its column.  The quota of CPUs goes
  through DECIMAL(3,1), whose rounding is a parameter.
\<close>

definition stored_user :: "(rat \<Rightarrow> goerr + rat) \<Rightarrow> user \<Rightarrow> goerr + user" where
  "stored_user decimal u =
    (if \<not> (fits 30 (u_name u) \<and> fits 255 (u_email u) \<and> fits 255 (u_hash u) \<and> fits 64 (u_provider u)
            \<and> fits 255 (u_subject u) \<and> fits 255 (u_external_name u))
     then Inl (PgError ''22001'' [])
     else case decimal (u_quota_cpu u) of Inl e \<Rightarrow> Inl e
        | Inr q \<Rightarrow> Inr (u\<lparr>u_quota_cpu := q, u_source := auth_source (u_source u)\<rparr>))"

definition has_identity :: "user \<Rightarrow> bool" where
  "has_identity u \<longleftrightarrow> u_provider u \<noteq> [] \<and> u_subject u \<noteq> []"

definition users_unique :: "user list \<Rightarrow> bool" where
  "users_unique us \<longleftrightarrow> distinct (map u_id us) \<and> distinct (map u_name us) \<and> distinct (map u_email us)
     \<and> distinct (map (\<lambda>u. (u_provider u, u_subject u)) (filter has_identity us))"

text \<open>A violated unique index is error 23505, which the repository turns into ErrAlreadyExists.\<close>

definition write_users :: "user_row list \<Rightarrow> goerr + user_row list" where
  "write_users rows = (if users_unique (map snd rows) then Inr rows else Inl (Sentinel ErrAlreadyExists))"

section \<open>The repository\<close>

definition save_user :: "(rat \<Rightarrow> goerr + rat) \<Rightarrow> user \<Rightarrow> instant \<Rightarrow> user_row list \<Rightarrow> goerr + user_row list" where
  "save_user decimal u t rows = (case parameter_error u of Some e \<Rightarrow> Inl e
     | None \<Rightarrow> (case stored_user decimal u of Inl e \<Rightarrow> Inl e | Inr v \<Rightarrow> write_users (rows @ [(t, v)])))"

definition update_user_row :: "(rat \<Rightarrow> goerr + rat) \<Rightarrow> user \<Rightarrow> user_row list \<Rightarrow> goerr + user_row list" where
  "update_user_row decimal u rows = (case parameter_error u of Some e \<Rightarrow> Inl e
     | None \<Rightarrow> (if exists_row (\<lambda>r. u_id (snd r) = u_id u) rows
                then (case stored_user decimal u of Inl e \<Rightarrow> Inl e
                  | Inr v \<Rightarrow> write_users (update_where (\<lambda>r. u_id (snd r) = u_id u) (\<lambda>r. (fst r, v)) rows))
                else Inl (Sentinel ErrNotFound)))"

definition find_user :: "(user \<Rightarrow> bool) \<Rightarrow> user_row list \<Rightarrow> goerr + user" where
  "find_user P rows = (case find (\<lambda>r. P (snd r)) rows of
     Some r \<Rightarrow> Inr (snd r) | None \<Rightarrow> Inl (Sentinel ErrNotFound))"

definition get_user_by_username :: "string \<Rightarrow> user_row list \<Rightarrow> goerr + user" where
  "get_user_by_username n rows = texts [n] (find_user (\<lambda>u. u_name u = n) rows)"

definition get_user_by_email :: "string \<Rightarrow> user_row list \<Rightarrow> goerr + user" where
  "get_user_by_email m rows = texts [m] (find_user (\<lambda>u. u_email u = m) rows)"

definition get_user_by_external_identity :: "string \<Rightarrow> string \<Rightarrow> user_row list \<Rightarrow> goerr + user" where
  "get_user_by_external_identity p s rows =
     texts [p, s] (find_user (\<lambda>u. has_identity u \<and> u_provider u = p \<and> u_subject u = s) rows)"

definition get_user_by_id :: "id \<Rightarrow> user_row list \<Rightarrow> goerr + user" where
  "get_user_by_id i = find_user (\<lambda>u. u_id u = i)"

definition get_users_by_ids :: "id list \<Rightarrow> user_row list \<Rightarrow> goerr + user list" where
  "get_users_by_ids ids rows = Inr (if ids = [] then [] else filter (\<lambda>u. List.member ids (u_id u)) (map snd rows))"

text \<open>ORDER BY created_at DESC, id DESC LIMIT and OFFSET, with the count of all rows.\<close>

definition newest_first :: "user_row list \<Rightarrow> user_row list" where
  "newest_first rows = rev (sort_key (\<lambda>r. fst r) (sort_key (\<lambda>r. u_id (snd r)) rows))"

definition list_user_rows :: "int \<Rightarrow> int \<Rightarrow> user_row list \<Rightarrow> goerr + user list \<times> int" where
  "list_user_rows limit offset rows =
    (if limit < 0 then Inl (PgError ''2201W'' []) else if offset < 0 then Inl (PgError ''2201X'' [])
     else Inr (map snd (take (nat limit) (drop (nat offset) (newest_first rows))), int (length rows)))"

definition active_admin :: "user \<Rightarrow> bool" where
  "active_admin u \<longleftrightarrow> u_role u = role_admin \<and> u_status u = status_active"

definition count_active_admins :: "user_row list \<Rightarrow> goerr + int" where
  "count_active_admins rows = Inr (int (length (filter (\<lambda>r. active_admin (snd r)) rows)))"

section \<open>Laws\<close>

text \<open>The constraints of the table.\<close>

definition users_ok :: "user_row list \<Rightarrow> bool" where
  "users_ok rows \<longleftrightarrow> users_unique (map snd rows)"

lemma write_users_Inr [simp]: "write_users rows = Inr rows' \<longleftrightarrow> users_unique (map snd rows) \<and> rows' = rows"
  by (auto simp: write_users_def)

lemma users_ok_written:
  "save_user decimal u t rows = Inr rows' \<Longrightarrow> users_ok rows'"
  "update_user_row decimal u rows = Inr rows' \<Longrightarrow> users_ok rows'"
  by (auto simp: save_user_def update_user_row_def users_ok_def split: sum.splits if_splits option.splits)

lemma find_user_Inr: "find_user P rows = Inr u \<Longrightarrow> u \<in> snd ` set rows \<and> P u"
  by (auto simp: find_user_def find_Some_iff in_set_conv_nth split: option.splits) (metis nth_mem imageI)

lemma stored_user_Inr:
  "stored_user decimal u = Inr v \<Longrightarrow> u_id v = u_id u \<and> u_role v = u_role u \<and> u_status v = u_status u"
  by (auto simp: stored_user_def split: if_splits sum.splits)


text \<open>
  The state of the sign-on service: its database, the pending OIDC logins and the cached signing
  keys it keeps in memory, and a clock of external calls.  The environment answers, at that clock,
  what the service cannot determine itself: database faults, the time, uuids, random bytes, salted
  password hashes and the replies of the identity provider.  The functions of libraries (bcrypt,
  SHA-256, golang-jwt, net/mail, the DECIMAL column) are fields of the environment as well.
  Requests are handled one at a time, each repository call being one statement.
\<close>

section \<open>Tokens and the identity provider\<close>

text \<open>pkg/jwtutils UserClaims with the expiry of its registered claims.\<close>

record user_claims =
  uc_user :: id
  uc_username :: string
  uc_role :: string
  uc_type :: string
  uc_expires :: instant

datatype sign_method = SignHmac | SignRsa | SignOther

datatype signing_key = HmacKey string | RsaKey nat int

text \<open>The claims of an identity token (lib/oidc/oidc.go claims, keycloakRealmAccess).\<close>

record id_claims =
  ic_subject :: string
  ic_nonce :: string
  ic_preferred :: string
  ic_name :: string
  ic_email :: string
  ic_verified :: bool
  ic_groups :: "string list"
  ic_roles :: "string list"

record token_response =
  tr_id_token :: string
  tr_access_token :: string
  tr_token_type :: string

record jwk =
  jw_kid :: string
  jw_kty :: string
  jw_alg :: string
  jw_use :: string
  jw_n :: string
  jw_e :: string

record discovery =
  dd_auth :: string
  dd_token :: string
  dd_jwks :: string
  dd_issuer :: string

record oidc_config =
  oc_issuer :: string
  oc_client :: string
  oc_secret :: string
  oc_redirect :: string

text \<open>What the HTTP client returns: an error, or the status and the decoded JSON body, if it decodes.\<close>

type_synonym 'a response = "goerr + int \<times> 'a option"

section \<open>The environment\<close>

record sso_env =
  x_fault :: "nat \<Rightarrow> goerr option"
  x_now :: "nat \<Rightarrow> instant"
  x_uuid :: "nat \<Rightarrow> id"
  x_random :: "nat \<Rightarrow> goerr + string"
  x_hash :: "nat \<Rightarrow> string \<Rightarrow> goerr + string"
  x_matches :: "string \<Rightarrow> string \<Rightarrow> bool"
  x_sha256 :: "string \<Rightarrow> string"
  x_address :: "string \<Rightarrow> string option"
  x_unicode :: unicode
  x_decimal :: "rat \<Rightarrow> goerr + rat"
  x_sign :: "string \<Rightarrow> user_claims \<Rightarrow> goerr + string"
  x_header :: "string \<Rightarrow> (sign_method \<times> string) option"
  x_open :: "signing_key \<Rightarrow> instant \<Rightarrow> string \<Rightarrow> user_claims option"
  x_open_id :: "signing_key \<Rightarrow> instant \<Rightarrow> string \<Rightarrow> string \<Rightarrow> string \<Rightarrow> id_claims option"
  x_url_ok :: "string \<Rightarrow> bool"
  x_token_endpoint :: "nat \<Rightarrow> string \<Rightarrow> string \<Rightarrow> token_response response"
  x_jwks_endpoint :: "nat \<Rightarrow> string \<Rightarrow> jwk list response"
  x_discovery_endpoint :: "nat \<Rightarrow> string \<Rightarrow> discovery response"

text \<open>service/auth.go Config and lib/jwt Provider.\<close>

record sso_settings =
  sg_local_login :: bool
  sg_local_register :: bool
  sg_oidc_enabled :: bool
  sg_provider_name :: string
  sg_admin_groups :: "string list"
  sg_default_role :: string
  sg_state_ttl :: int
  sg_secret :: string
  sg_access_ttl :: int
  sg_refresh_ttl :: int

record oidc_state =
  os_provider :: string
  os_nonce :: string
  os_binding :: string
  os_redirect :: string
  os_expires :: instant

record sso =
  so_env :: sso_env
  so_settings :: sso_settings
  so_users :: "user_row list"
  so_logins :: "string \<rightharpoonup> oidc_state"
  so_provider :: "(oidc_config \<times> discovery) option"
  so_keys :: "jwk list"
  so_keys_at :: "instant option"
  so_tick :: nat

type_synonym 'a sso_meth = "(sso, 'a) meth"

section \<open>External calls\<close>

text \<open>A reading of the environment advances the clock.\<close>

definition draw :: "(sso_env \<Rightarrow> nat \<Rightarrow> 'a) \<Rightarrow> 'a sso_meth" where
  "draw f s = (Inr (f (so_env s) (so_tick s)), s\<lparr>so_tick := Suc (so_tick s)\<rparr>)"

definition draw_or_fail :: "(sso_env \<Rightarrow> nat \<Rightarrow> goerr + 'a) \<Rightarrow> 'a sso_meth" where
  "draw_or_fail f s = (f (so_env s) (so_tick s), s\<lparr>so_tick := Suc (so_tick s)\<rparr>)"

definition user_query :: "(user_row list \<Rightarrow> goerr + 'a) \<Rightarrow> 'a sso_meth" where
  "user_query q s = (let n = so_tick s; s' = s\<lparr>so_tick := Suc n\<rparr> in
     case x_fault (so_env s) n of Some e \<Rightarrow> (Inl e, s') | None \<Rightarrow> (q (so_users s), s'))"

definition user_exec :: "(sso_env \<Rightarrow> instant \<Rightarrow> user_row list \<Rightarrow> goerr + user_row list) \<Rightarrow> unit sso_meth" where
  "user_exec f s = (let n = so_tick s; s' = s\<lparr>so_tick := Suc n\<rparr> in
     case x_fault (so_env s) n of Some e \<Rightarrow> (Inl e, s')
     | None \<Rightarrow> (case f (so_env s) (x_now (so_env s) n) (so_users s) of Inl e \<Rightarrow> (Inl e, s')
         | Inr us \<Rightarrow> (Inr (), s'\<lparr>so_users := us\<rparr>)))"

definition settings :: "sso_settings sso_meth" where "settings s = (Inr (so_settings s), s)"
definition sso_env_of :: "sso_env sso_meth" where "sso_env_of s = (Inr (so_env s), s)"
definition clock :: "instant sso_meth" where "clock = draw x_now"
definition logins :: "(string \<rightharpoonup> oidc_state) sso_meth" where "logins s = (Inr (so_logins s), s)"

definition set_logins :: "(string \<rightharpoonup> oidc_state) \<Rightarrow> unit sso_meth" where
  "set_logins ls s = (Inr (), s\<lparr>so_logins := ls\<rparr>)"

lemma user_query_Inr: "user_query q s = (Inr x, s') \<longleftrightarrow>
    x_fault (so_env s) (so_tick s) = None \<and> q (so_users s) = Inr x \<and> s' = s\<lparr>so_tick := Suc (so_tick s)\<rparr>"
  by (auto simp: user_query_def Let_def split: option.splits)

section \<open>What each call preserves\<close>

text \<open>Calls that change neither the users nor the pending logins.\<close>

definition reads_sso :: "'a sso_meth \<Rightarrow> bool" where
  "reads_sso m \<longleftrightarrow> (\<forall>s. so_users (snd (m s)) = so_users s \<and> so_logins (snd (m s)) = so_logins s
     \<and> so_env (snd (m s)) = so_env s \<and> so_settings (snd (m s)) = so_settings s)"

named_theorems reads_intros \<open>rules that compose reads_sso\<close>

lemma reads_calls [reads_intros]:
  "reads_sso (draw f)" "reads_sso (draw_or_fail g)" "reads_sso (user_query q)" "reads_sso settings"
  "reads_sso sso_env_of" "reads_sso clock" "reads_sso logins" "reads_sso (ret x)" "reads_sso (fail e)"
  by (auto simp: reads_sso_def draw_def draw_or_fail_def user_query_def settings_def sso_env_of_def clock_def
      logins_def ret_def fail_def Let_def split: option.splits)

lemma reads_seq [reads_intros]: "reads_sso m \<Longrightarrow> (\<And>x. reads_sso (f x)) \<Longrightarrow> reads_sso (seq m f)"
  unfolding reads_sso_def seq_def by (auto split: prod.splits sum.splits) (metis snd_conv)+

lemma reads_on_error [reads_intros]: "reads_sso m \<Longrightarrow> (\<And>e. reads_sso (h e)) \<Longrightarrow> reads_sso (on_error m h)"
  unfolding reads_sso_def on_error_def by (auto split: prod.splits sum.splits) (metis snd_conv)+

lemma reads_attempt [reads_intros]: "reads_sso m \<Longrightarrow> reads_sso (attempt m)"
  unfolding reads_sso_def attempt_def by (auto split: prod.splits) (metis snd_conv)+

lemma reads_check [reads_intros]: "reads_sso (check e)"
  by (cases e) (auto simp: check_def intro: reads_calls)

lemma reads_if [reads_intros]: "reads_sso m \<Longrightarrow> reads_sso n \<Longrightarrow> reads_sso (if b then m else n)"
  by simp

lemma reads_sum [reads_intros]:
  "(\<And>e. reads_sso (g e)) \<Longrightarrow> (\<And>x. reads_sso (f x)) \<Longrightarrow> reads_sso (case y of Inl e \<Rightarrow> g e | Inr x \<Rightarrow> f x)"
  by (cases y) auto

lemma reads_option [reads_intros]:
  "reads_sso m \<Longrightarrow> (\<And>x. reads_sso (f x)) \<Longrightarrow> reads_sso (case y of None \<Rightarrow> m | Some x \<Rightarrow> f x)"
  by (cases y) auto

lemma reads_prod [reads_intros]:
  "(\<And>a b. reads_sso (f a b)) \<Longrightarrow> reads_sso (case y of (a, b) \<Rightarrow> f a b)"
  by (cases y) auto

lemma reads_let [reads_intros]: "(\<And>x. reads_sso (f x)) \<Longrightarrow> reads_sso (let x = y in f x)"
  by simp

end
