(* ===== verification/Oidc.thy ===== *)
theory Oidc
  imports SsoState Encoding
begin

text \<open>
  The tokens of the sign-on service (internal/sso/lib/jwt/jwt.go) and its client of the identity
  provider (internal/sso/lib/oidc/oidc.go).  Signing, the signature check and the validation of the
  registered claims are golang-jwt's and come from the environment; the choice of the key, of the
  signing method and of the claims that are compared is the code's.
\<close>

section \<open>Access and refresh tokens (lib/jwt/jwt.go)\<close>

definition token_type_access :: string where "token_type_access = ''access''"
definition token_type_refresh :: string where "token_type_refresh = ''refresh''"

text \<open>jwt.NewNumericDate: the expiry is carried in whole seconds, rounded down (time.Truncate).\<close>

definition numeric_date :: "instant \<Rightarrow> instant" where
  "numeric_date t = t div 1000000000 * 1000000000"

definition access_claims :: "user \<Rightarrow> instant \<Rightarrow> user_claims" where
  "access_claims u t = \<lparr> uc_user = u_id u, uc_username = u_name u, uc_role = u_role u,
     uc_type = token_type_access, uc_expires = numeric_date t \<rparr>"

definition refresh_claims :: "user \<Rightarrow> instant \<Rightarrow> user_claims" where
  "refresh_claims u t = \<lparr> uc_user = u_id u, uc_username = [], uc_role = [],
     uc_type = token_type_refresh, uc_expires = numeric_date t \<rparr>"

definition generate_tokens :: "user \<Rightarrow> (string \<times> string) sso_meth" where
  "generate_tokens u =
     seq settings (\<lambda>g.
     seq sso_env_of (\<lambda>env.
     seq clock (\<lambda>t1.
     seq (draw_or_fail (\<lambda>_ _. x_sign env (sg_secret g) (access_claims u (t1 + sg_access_ttl g)))) (\<lambda>access.
     seq clock (\<lambda>t2.
     seq (draw_or_fail (\<lambda>_ _. x_sign env (sg_secret g) (refresh_claims u (t2 + sg_refresh_ttl g)))) (\<lambda>refresh.
     ret (access, refresh)))))))"

definition validate_token :: "string \<Rightarrow> string \<Rightarrow> id sso_meth" where
  "validate_token token expected =
     seq settings (\<lambda>g.
     seq sso_env_of (\<lambda>env.
     seq clock (\<lambda>t.
     case x_header env token of
       Some (SignHmac, _) \<Rightarrow>
         (case x_open env (HmacKey (sg_secret g)) t token of
            None \<Rightarrow> fail (OtherErr ''invalid token'')
          | Some c \<Rightarrow> if uc_type c \<noteq> expected then fail (OtherErr (''unexpected token type: '' @ uc_type c))
                      else ret (uc_user c))
     | _ \<Rightarrow> fail (OtherErr ''invalid token''))))"

definition validate_access_token :: "string \<Rightarrow> id sso_meth" where
  "validate_access_token token = validate_token token token_type_access"

definition validate_refresh_token :: "string \<Rightarrow> id sso_meth" where
  "validate_refresh_token token = validate_token token token_type_refresh"

section \<open>Discovery of the provider (lib/oidc/oidc.go)\<close>

text \<open>A request and its reply: the URL must parse, the status must be 2xx and the body must decode.\<close>

definition http_get :: "string \<Rightarrow> (sso_env \<Rightarrow> nat \<Rightarrow> 'a response) \<Rightarrow> (goerr \<Rightarrow> goerr) \<Rightarrow> (int \<Rightarrow> goerr) \<Rightarrow> goerr \<Rightarrow> 'a sso_meth" where
  "http_get url call unreachable bad_status bad_body =
     seq sso_env_of (\<lambda>env.
     if \<not> x_url_ok env url then fail (OtherErr ''invalid url'') else
     seq (on_error (draw_or_fail call) (\<lambda>e. fail (unreachable e))) (\<lambda>(status, body).
     if status < 200 \<or> status \<ge> 300 then fail (bad_status status)
     else case body of None \<Rightarrow> fail bad_body | Some x \<Rightarrow> ret x))"

definition discover :: "string \<Rightarrow> discovery sso_meth" where
  "discover issuer =
     (let url = issuer @ ''/.well-known/openid-configuration'' in
     seq (http_get url (\<lambda>env n. x_discovery_endpoint env n url)
       (\<lambda>e. Wrapped (''failed to discover oidc provider: '' @ error_text e) e)
       (\<lambda>st. OtherErr (''oidc discovery returned status '' @ nat_text (nat st)))
       (OtherErr ''failed to decode oidc discovery'')) (\<lambda>d.
     if dd_auth d = [] \<or> dd_token d = [] \<or> dd_jwks d = []
     then fail (OtherErr ''oidc discovery document is missing endpoints'') else ret d))"

definition new_provider :: "oidc_config \<Rightarrow> (oidc_config \<times> discovery) sso_meth" where
  "new_provider cfg0 =
     (let cfg = cfg0\<lparr>oc_issuer := trim_right (\<lambda>c. c = CHR ''/'') (trim_space (oc_issuer cfg0)),
                      oc_client := trim_space (oc_client cfg0), oc_redirect := trim_space (oc_redirect cfg0)\<rparr> in
      if oc_issuer cfg = [] \<or> oc_client cfg = [] \<or> oc_secret cfg = [] \<or> oc_redirect cfg = []
      then fail (OtherErr ''oidc issuer, client id, client secret and redirect url are required'') else
      seq (discover (oc_issuer cfg)) (\<lambda>d.
      if dd_issuer d \<noteq> [] \<and> dd_issuer d \<noteq> oc_issuer cfg then fail (OtherErr ''oidc issuer mismatch'')
      else ret (cfg, d)))"

text \<open>The keys of the query are in the order in which Values.Encode sorts them.\<close>

definition auth_code_url :: "oidc_config \<times> discovery \<Rightarrow> string \<Rightarrow> string \<Rightarrow> string" where
  "auth_code_url p state nonce = dd_auth (snd p) @ ''?'' @ encode_values
     [(''client_id'', oc_client (fst p)), (''nonce'', nonce), (''redirect_uri'', oc_redirect (fst p)),
      (''response_type'', ''code''), (''scope'', ''openid profile email''), (''state'', state)]"

section \<open>The signing keys of the provider\<close>

definition jwks_lifetime :: int where "jwks_lifetime = 600 * 1000000000"

definition cached_jwks :: "oidc_config \<times> discovery \<Rightarrow> jwk list sso_meth" where
  "cached_jwks p s =
    (let fetch = seq (http_get (dd_jwks (snd p)) (\<lambda>env n. x_jwks_endpoint env n (dd_jwks (snd p)))
           (\<lambda>e. e) (\<lambda>_. OtherErr ''failed to fetch oidc jwks'') (OtherErr ''invalid jwks''))
         (\<lambda>ks. seq clock (\<lambda>t s'. (Inr ks, s'\<lparr>so_keys := ks, so_keys_at := Some t\<rparr>)))
     in case so_keys_at s of
          None \<Rightarrow> fetch s
        | Some since \<Rightarrow> seq clock (\<lambda>t. if t - since < jwks_lifetime then (\<lambda>s'. (Inr (so_keys s'), s')) else fetch) s)"

fun exponent :: "nat list \<Rightarrow> int \<Rightarrow> int" where
  "exponent [] e = e"
| "exponent (b # bs) e = exponent bs (i64 (e * 256 + int b))"

fun public_key_from_jwks :: "jwk list \<Rightarrow> string \<Rightarrow> goerr + signing_key" where
  "public_key_from_jwks [] kid = Inl (OtherErr ''oidc jwk not found'')"
| "public_key_from_jwks (k # ks) kid =
    (if jw_kid k \<noteq> kid \<or> jw_kty k \<noteq> ''RSA'' then public_key_from_jwks ks kid
     else case (b64_decode (jw_n k), b64_decode (jw_e k)) of
       (None, _) \<Rightarrow> Inl (OtherErr ''illegal base64 data'')
     | (_, None) \<Rightarrow> Inl (OtherErr ''illegal base64 data'')
     | (Some n, Some e) \<Rightarrow>
         if exponent e 0 = 0 then Inl (OtherErr ''invalid oidc jwk exponent'')
         else Inr (RsaKey (foldl (\<lambda>a b. a * 256 + b) 0 n) (exponent e 0)))"

definition of_result :: "goerr + 'a \<Rightarrow> ('s, 'a) meth" where
  "of_result r s = (r, s)"

text \<open>An unknown key id makes the cached keys stale, once.\<close>

definition public_key :: "oidc_config \<times> discovery \<Rightarrow> string \<Rightarrow> signing_key sso_meth" where
  "public_key p kid =
     seq (cached_jwks p) (\<lambda>ks.
     case public_key_from_jwks ks kid of
       Inr k \<Rightarrow> ret k
     | Inl _ \<Rightarrow>
         seq (\<lambda>s. (Inr (), s\<lparr>so_keys_at := None\<rparr>)) (\<lambda>_.
         seq (cached_jwks p) (\<lambda>ks'. of_result (public_key_from_jwks ks' kid))))"

section \<open>The exchange of an authorization code\<close>

definition verify_id_token :: "oidc_config \<times> discovery \<Rightarrow> string \<Rightarrow> string \<Rightarrow> id_claims sso_meth" where
  "verify_id_token p raw nonce =
     (let refused = fail (Sentinel ErrInvalidCredentials) in
     seq sso_env_of (\<lambda>env.
     case x_header env raw of
       Some (SignRsa, kid) \<Rightarrow>
         if kid = [] then refused else
         seq (attempt (public_key p kid)) (\<lambda>r.
         case r of Inl _ \<Rightarrow> refused
         | Inr k \<Rightarrow>
             seq clock (\<lambda>t.
             case x_open_id env k t (oc_client (fst p)) (oc_issuer (fst p)) raw of
               None \<Rightarrow> refused
             | Some c \<Rightarrow> if ic_nonce c \<noteq> nonce then refused else ret c))
     | _ \<Rightarrow> refused))"

fun first_non_empty :: "string list \<Rightarrow> string" where
  "first_non_empty [] = []"
| "first_non_empty (v # vs) = (if trim_space v \<noteq> [] then trim_space v else first_non_empty vs)"

record oidc_identity =
  oi_subject :: string
  oi_username :: string
  oi_email :: string
  oi_verified :: bool
  oi_groups :: "string list"
  oi_roles :: "string list"
  oi_preferred :: string

definition token_form :: "oidc_config \<Rightarrow> string \<Rightarrow> string" where
  "token_form c code = encode_values
     [(''client_id'', oc_client c), (''client_secret'', oc_secret c), (''code'', code),
      (''grant_type'', ''authorization_code''), (''redirect_uri'', oc_redirect c)]"

definition exchange_code :: "oidc_config \<times> discovery \<Rightarrow> string \<Rightarrow> string \<Rightarrow> oidc_identity sso_meth" where
  "exchange_code p code nonce =
     (let url = dd_token (snd p); refused = Sentinel ErrInvalidCredentials in
     seq sso_env_of (\<lambda>env.
     if \<not> x_url_ok env url then fail (Sentinel ErrInternal) else
     seq (http_get url (\<lambda>env n. x_token_endpoint env n url (token_form (fst p) code))
       (\<lambda>e. wrap_err ErrUnavailable ''oidc token endpoint unavailable'' e) (\<lambda>_. refused) refused) (\<lambda>tr.
     if tr_id_token tr = [] then fail refused else
     seq (verify_id_token p (tr_id_token tr) nonce) (\<lambda>c.
     ret \<lparr> oi_subject = ic_subject c,
           oi_username = first_non_empty [ic_preferred c, ic_name c, ic_subject c],
           oi_email = ic_email c, oi_verified = ic_verified c, oi_groups = ic_groups c,
           oi_roles = ic_roles c, oi_preferred = ic_preferred c \<rparr>))))"

section \<open>These calls leave users and logins alone\<close>

lemma reads_tokens [reads_intros]:
  "reads_sso (generate_tokens u)" "reads_sso (validate_token t x)"
  "reads_sso (validate_access_token t)" "reads_sso (validate_refresh_token t)"
  unfolding generate_tokens_def validate_access_token_def validate_refresh_token_def validate_token_def
  by (auto intro!: reads_intros split: option.splits sign_method.splits)

lemma reads_http_get [reads_intros]: "reads_sso (http_get u c f g b)"
  unfolding http_get_def by (auto intro!: reads_intros)

lemma reads_of_result [reads_intros]: "reads_sso (of_result r)"
  by (simp add: reads_sso_def of_result_def)

lemma reads_keys [reads_intros]:
  "reads_sso (\<lambda>s. (Inr x, s\<lparr>so_keys := ks, so_keys_at := a\<rparr>))"
  "reads_sso (\<lambda>s. (Inr (), s\<lparr>so_keys_at := a\<rparr>))" "reads_sso (\<lambda>s. (Inr (so_keys s), s))"
  by (simp_all add: reads_sso_def)

lemma reads_cached_jwks [reads_intros]: "reads_sso (cached_jwks p)"
proof -
  let ?fetch = "seq (http_get (dd_jwks (snd p)) (\<lambda>env n. x_jwks_endpoint env n (dd_jwks (snd p)))
           (\<lambda>e. e) (\<lambda>_. OtherErr ''failed to fetch oidc jwks'') (OtherErr ''invalid jwks''))
         (\<lambda>ks. seq clock (\<lambda>t s'. (Inr ks, s'\<lparr>so_keys := ks, so_keys_at := Some t\<rparr>)))"
  let ?cached = "\<lambda>a. seq clock (\<lambda>t. if t - a < jwks_lifetime then (\<lambda>s'. (Inr (so_keys s'), s')) else ?fetch)"
  have f: "reads_sso ?fetch" by (intro reads_intros)
  moreover have c: "reads_sso (?cached a)" for a by (intro reads_intros f)
  ultimately show ?thesis
    unfolding reads_sso_def cached_jwks_def Let_def by (auto split: option.split)
qed

lemma reads_exchange [reads_intros]:
  "reads_sso (public_key p kid)" "reads_sso (verify_id_token p raw nonce)" "reads_sso (exchange_code p code nonce)"
  unfolding public_key_def verify_id_token_def exchange_code_def Let_def
  by (auto intro!: reads_intros split: option.splits sign_method.splits)

end
