(* ===== verification/SignOn.thy ===== *)
theory SignOn
  imports Oidc Access
begin

text \<open>
  The sign-on service (internal/sso/service/auth.go): registration, login, token refresh, the OIDC
  login with its pending states, permission checks and the administration of users.
\<close>

section \<open>Permissions of a role\<close>

definition role_permissions :: "(string \<times> string list) list" where
  "role_permissions =
    [(role_admin,
      [''system.config.read'', ''system.config.update'', ''system.monitoring.read'',
       ''reports.admin.read'', ''containers.admin.list'', ''containers.admin.action'',
       ''containers.admin.stats'', ''containers.admin.logs'', ''containers.admin.terminal'',
       ''volumes.admin.list'', ''volumes.admin.delete'', ''images.admin.list'',
       ''images.admin.delete'', ''builds.admin.list'', ''builds.admin.delete'',
       ''projects.admin.list'', ''projects.admin.delete'', ''projects.admin.start'',
       ''projects.admin.stop'', ''users.admin.list'', ''users.admin.read'',
       ''users.admin.create'', ''users.admin.update'', ''users.admin.delete'']),
     (role_user, [])]"

definition new_auth_settings :: "sso_settings \<Rightarrow> sso_settings" where
  "new_auth_settings g = g\<lparr>
     sg_provider_name := (if sg_provider_name g = [] then ''keycloak'' else sg_provider_name g),
     sg_default_role := (if sg_default_role g = [] then role_user else sg_default_role g),
     sg_state_ttl := (if sg_state_ttl g \<le> 0 then 600 * 1000000000 else sg_state_ttl g)\<rparr>"

section \<open>Inputs\<close>

record user_input =
  ni_name :: string
  ni_email :: string
  ni_password :: string
  ni_role :: string
  ni_status :: string
  ni_quota_cpu :: rat
  ni_quota_ram :: int
  ni_quota_disk :: int

definition valid_role :: "string \<Rightarrow> bool" where
  "valid_role r \<longleftrightarrow> r = role_admin \<or> r = role_user"

definition valid_status :: "string \<Rightarrow> bool" where
  "valid_status s \<longleftrightarrow> s = status_active \<or> s = status_deactivated"

definition validate_user_input :: "user_input \<Rightarrow> goerr option" where
  "validate_user_input i =
    (if \<not> valid_role (ni_role i) then Some (mk_err ErrBadRequest ''role must be one of: admin, user'')
     else if \<not> valid_status (ni_status i) then Some (mk_err ErrBadRequest ''status must be one of: active, deactivated'')
     else if ni_quota_cpu i \<le> 0 \<or> ni_quota_ram i \<le> 0 \<or> ni_quota_disk i \<le> 0
     then Some (mk_err ErrBadRequest ''quotas must be positive'')
     else None)"

definition blank_user :: user where
  "blank_user = \<lparr> u_id = nil_id, u_name = [], u_email = [], u_hash = [], u_role = [], u_status = [],
     u_quota_cpu = 0, u_quota_ram = 0, u_quota_disk = 0, u_source = [], u_provider = [], u_subject = [],
     u_external_name = [], u_last_login = None \<rparr>"

definition default_quota_cpu :: rat where "default_quota_cpu = 1"
definition default_quota_ram_mb :: int where "default_quota_ram_mb = 2048"
definition default_quota_disk_mb :: int where "default_quota_disk_mb = 5120"

section \<open>Calls of the repository\<close>

definition repo_save :: "user \<Rightarrow> unit sso_meth" where
  "repo_save u = user_exec (\<lambda>env t rows. save_user (x_decimal env) u t rows)"

definition repo_update :: "user \<Rightarrow> unit sso_meth" where
  "repo_update u = user_exec (\<lambda>env _ rows. update_user_row (x_decimal env) u rows)"

text \<open>if errors.Is(err, k) { return e }; return fmt.Errorf(prefix, err)\<close>

definition refuse_existing :: "goerr \<Rightarrow> (goerr \<Rightarrow> goerr) \<Rightarrow> unit sso_meth \<Rightarrow> unit sso_meth" where
  "refuse_existing known other m =
     on_error m (\<lambda>e. fail (if errors_is e ErrAlreadyExists then known else other e))"

definition failed_with :: "string \<Rightarrow> goerr \<Rightarrow> goerr" where
  "failed_with what e = Wrapped (what @ '': '' @ error_text e) e"

definition hash_password :: "string \<Rightarrow> string sso_meth" where
  "hash_password pw = on_error (draw_or_fail (\<lambda>env n. x_hash env n pw)) (\<lambda>_. fail (Sentinel ErrInternal))"

definition uuid_new :: "id sso_meth" where "uuid_new = draw x_uuid"

section \<open>Tokens\<close>

definition verify_access_token :: "string \<Rightarrow> user sso_meth" where
  "verify_access_token token =
     (let refused = Sentinel ErrInvalidToken in
     seq (on_error (validate_access_token token) (\<lambda>_. fail refused)) (\<lambda>uid.
     seq (on_error (user_query (get_user_by_id uid)) (\<lambda>_. fail refused)) (\<lambda>u.
     if u_status u \<noteq> status_active then fail refused else ret u)))"

definition check_permission :: "string \<Rightarrow> string \<Rightarrow> (user \<times> bool) sso_meth" where
  "check_permission token permission =
     (if \<not> permission_exists permission then fail (Sentinel ErrBadRequest) else
      seq (verify_access_token token) (\<lambda>u.
      case map_of role_permissions (u_role u) of
        None \<Rightarrow> ret (u, False)
      | Some ps \<Rightarrow> ret (u, List.member ps permission)))"

definition refresh_tokens :: "string \<Rightarrow> (string \<times> string) sso_meth" where
  "refresh_tokens token =
     (let refused = Sentinel ErrInvalidToken in
     seq (on_error (validate_refresh_token token) (\<lambda>_. fail refused)) (\<lambda>uid.
     seq (on_error (user_query (get_user_by_id uid)) (\<lambda>_. fail refused)) (\<lambda>u.
     if u_status u \<noteq> status_active then fail refused else
     on_error (generate_tokens u) (\<lambda>_. fail (Sentinel ErrInternal)))))"

section \<open>Local accounts\<close>

definition ensure_bootstrap_admin :: "string \<Rightarrow> string \<Rightarrow> string \<Rightarrow> unit sso_meth" where
  "ensure_bootstrap_admin name email password =
     seq (attempt (user_query (get_user_by_username name))) (\<lambda>found.
     case found of
       Inr u \<Rightarrow>
         if u_role u = role_admin then
           (if u_status u \<noteq> status_active
            then on_error (repo_update (u\<lparr>u_status := status_active\<rparr>))
                   (\<lambda>e. fail (failed_with ''failed to activate bootstrap admin'' e))
            else ret ())
         else fail (mk_err ErrConflict ''bootstrap admin username already exists with non-admin role'')
     | Inl e \<Rightarrow>
         if \<not> errors_is e ErrNotFound then fail (failed_with ''failed to check bootstrap admin'' e) else
         seq (hash_password password) (\<lambda>hash.
         seq uuid_new (\<lambda>uid.
         refuse_existing (mk_err ErrConflict ''bootstrap admin email or username already exists'')
           (failed_with ''failed to save bootstrap admin'')
           (repo_save (blank_user\<lparr>u_id := uid, u_name := name, u_email := email, u_hash := hash,
              u_role := role_admin, u_status := status_active, u_quota_cpu := default_quota_cpu,
              u_quota_ram := default_quota_ram_mb, u_quota_disk := default_quota_disk_mb,
              u_source := source_local\<rparr>)))))"

definition register :: "string \<Rightarrow> string \<Rightarrow> string \<Rightarrow> id sso_meth" where
  "register name email password =
     seq settings (\<lambda>g.
     if \<not> sg_local_register g then fail (Sentinel ErrNotFound) else
     seq (hash_password password) (\<lambda>hash.
     seq uuid_new (\<lambda>uid.
     seq (refuse_existing (Sentinel ErrAlreadyExists) (\<lambda>_. Sentinel ErrInternal)
       (repo_save (blank_user\<lparr>u_id := uid, u_name := name, u_email := email, u_hash := hash,
          u_role := role_user, u_status := status_active, u_quota_cpu := default_quota_cpu,
          u_quota_ram := default_quota_ram_mb, u_quota_disk := default_quota_disk_mb,
          u_source := source_local\<rparr>))) (\<lambda>_.
     ret uid))))"

definition login :: "string \<Rightarrow> string \<Rightarrow> (string \<times> string) sso_meth" where
  "login name password =
     (let refused = Sentinel ErrInvalidCredentials in
     seq settings (\<lambda>g.
     seq sso_env_of (\<lambda>env.
     if \<not> sg_local_login g then fail (Sentinel ErrNotFound) else
     seq (on_error (user_query (get_user_by_username name))
        (\<lambda>e. if errors_is e ErrNotFound then fail refused else fail (Sentinel ErrInternal))) (\<lambda>u.
     if u_status u \<noteq> status_active then fail refused
     else if u_source u \<noteq> [] \<and> u_source u \<noteq> source_local then fail refused
     else if \<not> x_matches env (u_hash u) password then fail refused
     else on_error (generate_tokens u) (\<lambda>_. fail (Sentinel ErrInternal))))))"

section \<open>The administration of users\<close>

definition ensure_not_last_active_admin :: "user \<Rightarrow> string \<Rightarrow> string \<Rightarrow> unit sso_meth" where
  "ensure_not_last_active_admin current next_role next_status =
     (if u_role current \<noteq> role_admin \<or> u_status current \<noteq> status_active then ret ()
      else if next_role = role_admin \<and> next_status = status_active then ret ()
      else seq (on_error (user_query count_active_admins) (\<lambda>e. fail (failed_with ''failed to count active admins'' e))) (\<lambda>n.
           if n \<le> 1 then fail (mk_err ErrConflict ''cannot deactivate or demote the last active admin'')
           else ret ()))"

definition create_user :: "user_input \<Rightarrow> user sso_meth" where
  "create_user i =
     seq (check (validate_user_input i)) (\<lambda>_.
     seq (hash_password (ni_password i)) (\<lambda>hash.
     seq uuid_new (\<lambda>uid.
     let u = blank_user\<lparr>u_id := uid, u_name := ni_name i, u_email := ni_email i, u_hash := hash,
          u_role := ni_role i, u_status := ni_status i, u_quota_cpu := ni_quota_cpu i,
          u_quota_ram := ni_quota_ram i, u_quota_disk := ni_quota_disk i, u_source := source_local\<rparr> in
     seq (refuse_existing (Sentinel ErrAlreadyExists) (failed_with ''failed to create user'') (repo_save u)) (\<lambda>_.
     ret u))))"

definition update_user :: "id \<Rightarrow> user_input \<Rightarrow> user sso_meth" where
  "update_user uid i =
     seq (check (validate_user_input i)) (\<lambda>_.
     seq (user_query (get_user_by_id uid)) (\<lambda>u0.
     seq (ensure_not_last_active_admin u0 (ni_role i) (ni_status i)) (\<lambda>_.
     let u1 = u0\<lparr>u_name := ni_name i, u_email := ni_email i, u_role := ni_role i, u_status := ni_status i,
          u_quota_cpu := ni_quota_cpu i, u_quota_ram := ni_quota_ram i, u_quota_disk := ni_quota_disk i\<rparr> in
     seq (if ni_password i \<noteq> [] then seq (hash_password (ni_password i)) (\<lambda>hash. ret (u1\<lparr>u_hash := hash\<rparr>))
          else ret u1) (\<lambda>u.
     seq (refuse_existing (Sentinel ErrAlreadyExists) (failed_with ''failed to update user'') (repo_update u)) (\<lambda>_.
     ret u)))))"

definition deactivate_user :: "id \<Rightarrow> user sso_meth" where
  "deactivate_user uid =
     seq (user_query (get_user_by_id uid)) (\<lambda>u0.
     seq (ensure_not_last_active_admin u0 (u_role u0) status_deactivated) (\<lambda>_.
     let u = u0\<lparr>u_status := status_deactivated\<rparr> in
     seq (on_error (repo_update u) (\<lambda>e. fail (failed_with ''failed to deactivate user'' e))) (\<lambda>_.
     ret u)))"

definition reactivate_user :: "id \<Rightarrow> user sso_meth" where
  "reactivate_user uid =
     seq (user_query (get_user_by_id uid)) (\<lambda>u0.
     let u = u0\<lparr>u_status := status_active\<rparr> in
     seq (on_error (repo_update u) (\<lambda>e. fail (failed_with ''failed to reactivate user'' e))) (\<lambda>_.
     ret u))"

end
