(* ===== verification/OidcLogin.thy ===== *)
theory OidcLogin
  imports SignOn
begin

text \<open>
  The login through the identity provider (internal/sso/service/auth.go): the pending states, which
  tie a callback to the browser that started it, and the provisioning of the user the provider names.
\<close>

section \<open>Names taken from the provider\<close>

definition trim_dashes :: "string \<Rightarrow> string" where
  "trim_dashes s = trim_right (\<lambda>c. c = CHR ''-'') (dropWhile (\<lambda>c. c = CHR ''-'') s)"

definition trim_username :: "string \<Rightarrow> int \<Rightarrow> string" where
  "trim_username v limit0 =
    (let limit = nat (max limit0 3) in
     if length v \<le> limit then v
     else let w = trim_dashes (take limit v) in
       if length w < 3 then w @ replicate (3 - length w) (CHR ''0'') else w)"

fun subject_suffix :: "unicode \<Rightarrow> rune list \<Rightarrow> string \<Rightarrow> string" where
  "subject_suffix un [] b = b"
| "subject_suffix un (r # rs) b =
    (let b' = (if is_letter un r \<or> is_number un r then b @ string_of_runes [r] else b) in
     if length b' \<ge> 8 then b' else subject_suffix un rs b')"

definition short_subject_suffix :: "unicode \<Rightarrow> string \<Rightarrow> string" where
  "short_subject_suffix un subject =
    (let b = subject_suffix un (runes_of (lower_text un subject)) [] in if b = [] then ''external'' else b)"

definition username_runes :: "unicode \<Rightarrow> rune list \<Rightarrow> string" where
  "username_runes un rs = concat (map (\<lambda>r.
     if is_letter un r \<or> is_number un r then string_of_runes [r]
     else if r = 0x2D \<or> r = 0x5F \<or> r = 0x2E then ''-'' else []) rs)"

definition normalize_external_username :: "unicode \<Rightarrow> string \<Rightarrow> string \<Rightarrow> string \<Rightarrow> string" where
  "normalize_external_username un username preferred subject =
    (let base = first_non_empty [username, preferred, subject];
         v = trim_dashes (username_runes un (runes_of (lower_text un base)));
         v' = (if length v < 3 then ''oidc-'' @ short_subject_suffix un subject else v)
     in trim_username v' 30)"

text \<open>strings.Cut(email, at-sign)\<close>

definition cut_at :: "string \<Rightarrow> (string \<times> string) option" where
  "cut_at s = (let l = takeWhile (\<lambda>c. c \<noteq> CHR 0x40) s in
     if length l < length s then Some (l, drop (Suc (length l)) s) else None)"

definition normalize_external_email :: "sso_env \<Rightarrow> string \<Rightarrow> string" where
  "normalize_external_email env email0 =
    (let email = trim_space (lower_text (x_unicode env) email0) in
     case x_address env email of None \<Rightarrow> []
     | Some addr \<Rightarrow> if addr \<noteq> email then []
         else (case cut_at email of None \<Rightarrow> []
           | Some (local_part, dmn) \<Rightarrow> if local_part = [] \<or> dmn = [] then [] else email))"

definition oidc_fallback_email :: "sso_env \<Rightarrow> string \<Rightarrow> string \<Rightarrow> string" where
  "oidc_fallback_email env provider subject =
     ''oidc-'' @ take 24 (hex_encode (x_sha256 env (provider @ '':'' @ subject))) @ [CHR 0x40] @ ''oidc.local''"

definition role_for_oidc_identity :: "sso_settings \<Rightarrow> oidc_identity \<Rightarrow> string" where
  "role_for_oidc_identity g i =
    (let admin_groups = filter (\<lambda>x. x \<noteq> []) (map trim_space (sg_admin_groups g)) in
     if list_ex (List.member admin_groups) (oi_groups i @ oi_roles i) then role_admin
     else if valid_role (sg_default_role g) then sg_default_role g else role_user)"

section \<open>Pending states\<close>

definition random_token :: "string sso_meth" where
  "random_token = seq (draw_or_fail x_random) (\<lambda>b. ret (b64_encode b))"

definition secure_string_equal :: "sso_env \<Rightarrow> string \<Rightarrow> string \<Rightarrow> bool" where
  "secure_string_equal env a b \<longleftrightarrow> a \<noteq> [] \<and> b \<noteq> [] \<and> x_sha256 env a = x_sha256 env b"

definition cleanup_expired_states :: "unit sso_meth" where
  "cleanup_expired_states =
     seq clock (\<lambda>t. seq logins (\<lambda>ls. set_logins (\<lambda>k. case ls k of
        None \<Rightarrow> None | Some st \<Rightarrow> if t > os_expires st then None else Some st)))"

definition oidc_available :: "string \<Rightarrow> (oidc_config \<times> discovery) option sso_meth" where
  "oidc_available provider s =
     (let g = so_settings s in
      (Inr (if sg_oidc_enabled g \<and> provider = sg_provider_name g then so_provider s else None), s))"

definition internal_on_error :: "'a sso_meth \<Rightarrow> 'a sso_meth" where
  "internal_on_error m = on_error m (\<lambda>_. fail (Sentinel ErrInternal))"

definition start_oidc_login :: "string \<Rightarrow> string \<Rightarrow> (string \<times> string) sso_meth" where
  "start_oidc_login provider redirect0 =
     seq (oidc_available provider) (\<lambda>available.
     case available of None \<Rightarrow> fail (Sentinel ErrNotFound)
     | Some p \<Rightarrow>
     seq (internal_on_error random_token) (\<lambda>state.
     seq (internal_on_error random_token) (\<lambda>nonce.
     seq (internal_on_error random_token) (\<lambda>binding.
     seq cleanup_expired_states (\<lambda>_.
     seq settings (\<lambda>g.
     seq clock (\<lambda>t.
     seq logins (\<lambda>ls.
     seq (set_logins (ls(state \<mapsto> \<lparr> os_provider = provider, os_nonce = nonce, os_binding = binding,
            os_redirect = (if trim_space redirect0 = [] then ''/'' else trim_space redirect0),
            os_expires = t + sg_state_ttl g \<rparr>))) (\<lambda>_.
     ret (auth_code_url p state nonce, binding))))))))))"

definition consume_oidc_state :: "string \<Rightarrow> string \<Rightarrow> string \<Rightarrow> oidc_state sso_meth" where
  "consume_oidc_state provider state binding =
     seq sso_env_of (\<lambda>env.
     seq cleanup_expired_states (\<lambda>_.
     seq logins (\<lambda>ls.
     case ls state of
       None \<Rightarrow> fail (Sentinel ErrInvalidCredentials)
     | Some st \<Rightarrow>
         if os_provider st \<noteq> provider \<or> \<not> secure_string_equal env (os_binding st) binding
         then fail (Sentinel ErrInvalidCredentials)
         else seq (set_logins (ls(state := None))) (\<lambda>_. ret st))))"

section \<open>Provisioning\<close>

text \<open>Looking a user up: found, nobody, or an error with a prefix.\<close>

definition lookup_user :: "string \<Rightarrow> (user_row list \<Rightarrow> goerr + user) \<Rightarrow> user option sso_meth" where
  "lookup_user what q =
     seq (attempt (user_query q)) (\<lambda>r. case r of
       Inr u \<Rightarrow> ret (Some u)
     | Inl e \<Rightarrow> if errors_is e ErrNotFound then ret None else fail (failed_with what e))"

definition resolve_oidc_username :: "id \<Rightarrow> string \<Rightarrow> string \<Rightarrow> string \<Rightarrow> string sso_meth" where
  "resolve_oidc_username current_id current_name base subject =
     seq sso_env_of (\<lambda>env.
     seq (lookup_user ''failed to check oidc username'' (get_user_by_username base)) (\<lambda>r.
     case r of None \<Rightarrow> ret base
     | Some u \<Rightarrow>
     if u_id u = current_id then ret base else
     let suffix = short_subject_suffix (x_unicode env) subject;
         candidate = trim_username base (30 - int (length suffix) - 1) @ ''-'' @ suffix in
     seq (lookup_user ''failed to check oidc username'' (get_user_by_username candidate)) (\<lambda>r.
     case r of None \<Rightarrow> ret candidate
     | Some u \<Rightarrow>
     if u_id u = current_id then ret candidate
     else if current_name \<noteq> [] then ret current_name
     else fail (mk_err ErrConflict ''oidc username already exists''))))"

definition resolve_fallback_email :: "id \<Rightarrow> string \<Rightarrow> string \<Rightarrow> string sso_meth" where
  "resolve_fallback_email current_id provider subject =
     seq sso_env_of (\<lambda>env.
     let email = oidc_fallback_email env provider subject in
     seq (lookup_user ''failed to check oidc fallback email'' (get_user_by_email email)) (\<lambda>r.
     case r of None \<Rightarrow> ret email
     | Some u \<Rightarrow> if u_id u = current_id then ret email
                 else fail (mk_err ErrConflict ''oidc fallback email already exists'')))"

definition resolve_oidc_email :: "id \<Rightarrow> string \<Rightarrow> string \<Rightarrow> string \<Rightarrow> string sso_meth" where
  "resolve_oidc_email current_id provider subject upstream =
     seq sso_env_of (\<lambda>env.
     let email = normalize_external_email env upstream;
         fallback = resolve_fallback_email current_id provider subject in
     if email = [] then fallback else
     seq (lookup_user ''failed to check oidc email'' (get_user_by_email email)) (\<lambda>r.
     case r of None \<Rightarrow> ret email
     | Some u \<Rightarrow> if u_id u = current_id then ret email else fallback))"

definition identity_exists :: goerr where
  "identity_exists = mk_err ErrConflict ''oidc user email or username already exists''"

definition update_oidc_user :: "string \<Rightarrow> oidc_identity \<Rightarrow> instant \<Rightarrow> string \<Rightarrow> string \<Rightarrow> user \<Rightarrow> user sso_meth" where
  "update_oidc_user provider i t role base existing =
     seq (resolve_oidc_username (u_id existing) (u_name existing) base (oi_subject i)) (\<lambda>name.
     seq (resolve_oidc_email (u_id existing) provider (oi_subject i) (oi_email i)) (\<lambda>email.
     seq (ensure_not_last_active_admin existing role (u_status existing)) (\<lambda>_.
     let u = existing\<lparr>u_name := name, u_email := email, u_role := role, u_source := source_oidc,
          u_provider := provider, u_subject := oi_subject i,
          u_external_name := first_non_empty [oi_username i, oi_preferred i], u_last_login := Some t\<rparr> in
     seq (refuse_existing identity_exists (failed_with ''failed to update oidc user'') (repo_update u)) (\<lambda>_.
     ret u))))"

definition create_oidc_user :: "string \<Rightarrow> oidc_identity \<Rightarrow> instant \<Rightarrow> string \<Rightarrow> string \<Rightarrow> user sso_meth" where
  "create_oidc_user provider i t role base =
     seq uuid_new (\<lambda>uid.
     seq (resolve_oidc_username uid [] base (oi_subject i)) (\<lambda>name.
     seq (resolve_oidc_email uid provider (oi_subject i) (oi_email i)) (\<lambda>email.
     let u = blank_user\<lparr>u_id := uid, u_name := name, u_email := email, u_role := role,
          u_status := status_active, u_quota_cpu := default_quota_cpu, u_quota_ram := default_quota_ram_mb,
          u_quota_disk := default_quota_disk_mb, u_source := source_oidc, u_provider := provider,
          u_subject := oi_subject i, u_external_name := first_non_empty [oi_username i, oi_preferred i],
          u_last_login := Some t\<rparr> in
     seq (refuse_existing identity_exists (failed_with ''failed to save oidc user'') (repo_save u)) (\<lambda>_.
     ret u))))"

definition provision_oidc_user :: "string \<Rightarrow> oidc_identity \<Rightarrow> user sso_meth" where
  "provision_oidc_user provider i =
     (if trim_space (oi_subject i) = [] then fail (Sentinel ErrInvalidCredentials) else
      seq settings (\<lambda>g.
      seq sso_env_of (\<lambda>env.
      seq clock (\<lambda>t.
      let role = role_for_oidc_identity g i;
          base = normalize_external_username (x_unicode env) (oi_username i) (oi_preferred i) (oi_subject i) in
      seq (lookup_user ''failed to get oidc user'' (get_user_by_external_identity provider (oi_subject i))) (\<lambda>r.
      case r of Some existing \<Rightarrow> update_oidc_user provider i t role base existing
      | None \<Rightarrow> create_oidc_user provider i t role base)))))"

definition complete_oidc_callback :: "string \<Rightarrow> string \<Rightarrow> string \<Rightarrow> string \<Rightarrow> (string \<times> string \<times> string) sso_meth" where
  "complete_oidc_callback provider code state binding =
     seq (oidc_available provider) (\<lambda>available.
     case available of None \<Rightarrow> fail (Sentinel ErrNotFound)
     | Some p \<Rightarrow>
     if trim_space code = [] \<or> trim_space state = [] \<or> trim_space binding = []
     then fail (Sentinel ErrBadRequest) else
     seq (consume_oidc_state provider state binding) (\<lambda>st.
     seq (exchange_code p code (os_nonce st)) (\<lambda>i.
     seq (provision_oidc_user provider i) (\<lambda>u.
     if u_status u \<noteq> status_active then fail (Sentinel ErrInvalidCredentials) else
     seq (internal_on_error (generate_tokens u)) (\<lambda>(access, refresh).
     ret (access, refresh, os_redirect st))))))"

end
