(* ===== verification/SsoApi.thy ===== *)
theory SsoApi
  imports OidcLogin Access
begin

text \<open>
  The gRPC handlers of the sign-on service (internal/sso/grpc).  As for the core service, a request
  carries what uuid.Parse makes of an identifier, None when it is malformed.
\<close>

record user_data =
  ud_id :: id
  ud_name :: string
  ud_email :: string
  ud_role :: string
  ud_quota_ram :: int
  ud_quota_disk :: int
  ud_quota_cpu :: rat
  ud_status :: string

definition user_to_proto :: "user \<Rightarrow> user_data" where
  "user_to_proto u = \<lparr> ud_id = u_id u, ud_name = u_name u, ud_email = u_email u, ud_role = u_role u,
     ud_quota_ram = u_quota_ram u, ud_quota_disk = u_quota_disk u, ud_quota_cpu = u_quota_cpu u,
     ud_status = u_status u \<rparr>"

definition reply_user :: "user sso_meth \<Rightarrow> user_data sso_meth" where
  "reply_user m = seq (reply m) (\<lambda>u. ret (user_to_proto u))"

definition require_sso_admin_scope :: "scope option \<Rightarrow> goerr option" where
  "require_sso_admin_scope ctx = (case ctx of
       Some s \<Rightarrow> if sc_kind s = KindAdmin then None else Some (Sentinel ErrForbidden)
     | None \<Rightarrow> Some (Sentinel ErrForbidden))"

section \<open>Authentication (grpc/auth.go)\<close>

definition register_rpc :: "string \<Rightarrow> string \<Rightarrow> string \<Rightarrow> id sso_meth" where
  "register_rpc name email password =
     (if name = [] \<or> password = [] \<or> email = [] then fail (invalid_argument ''missing required fields'')
      else reply (register name email password))"

definition login_rpc :: "string \<Rightarrow> string \<Rightarrow> (string \<times> string) sso_meth" where
  "login_rpc name password =
     (if name = [] \<or> password = [] then fail (invalid_argument ''missing required fields'')
      else reply (login name password))"

definition refresh_rpc :: "string \<Rightarrow> (string \<times> string) sso_meth" where
  "refresh_rpc token =
     (if token = [] then fail (invalid_argument ''missing refresh token'') else reply (refresh_tokens token))"

definition auth_config_rpc :: "(bool \<times> bool \<times> string list) sso_meth" where
  "auth_config_rpc s =
     (let g = so_settings s in
      (Inr (sg_local_login g, sg_local_register g,
         if \<not> sg_oidc_enabled g \<or> so_provider s = None then [] else [sg_provider_name g]), s))"

definition start_oidc_rpc :: "string \<Rightarrow> string \<Rightarrow> (string \<times> string) sso_meth" where
  "start_oidc_rpc provider redirect =
     (if provider = [] then fail (invalid_argument ''missing provider'')
      else reply (start_oidc_login provider redirect))"

definition oidc_callback_rpc :: "string \<Rightarrow> string \<Rightarrow> string \<Rightarrow> string \<Rightarrow> (string \<times> string \<times> string) sso_meth" where
  "oidc_callback_rpc provider code state binding =
     (if provider = [] \<or> code = [] \<or> state = [] \<or> binding = []
      then fail (invalid_argument ''missing provider, code, state or state binding'')
      else reply (complete_oidc_callback provider code state binding))"

definition verify_rpc :: "string \<Rightarrow> user_data sso_meth" where
  "verify_rpc token =
     (if token = [] then fail (invalid_argument ''missing access token'') else reply_user (verify_access_token token))"

definition check_permission_rpc :: "string \<Rightarrow> string \<Rightarrow> (bool \<times> user_data) sso_meth" where
  "check_permission_rpc token permission =
     (if token = [] \<or> permission = [] then fail (invalid_argument ''missing access token or permission'')
      else seq (reply (check_permission token permission)) (\<lambda>(u, allowed). ret (allowed, user_to_proto u)))"

section \<open>Users (grpc/user.go)\<close>

definition get_user_rpc :: "id option \<Rightarrow> user_data sso_meth" where
  "get_user_rpc uid = parsed ''invalid user_id format'' uid (\<lambda>i. reply_user (user_query (get_user_by_id i)))"

text \<open>The identifiers, each once, in the order of the request.\<close>

fun parse_ids :: "id option list \<Rightarrow> id list \<Rightarrow> id list sso_meth" where
  "parse_ids [] ids = ret ids"
| "parse_ids (x # xs) ids = parsed ''invalid user_id format'' x (\<lambda>i.
     parse_ids xs (if List.member ids i then ids else ids @ [i]))"

definition batch_get_users_rpc :: "id option list \<Rightarrow> user_data list sso_meth" where
  "batch_get_users_rpc raw =
     seq (parse_ids raw []) (\<lambda>ids.
     seq (reply (if ids = [] then ret [] else user_query (get_users_by_ids ids))) (\<lambda>us.
     ret (map user_to_proto us)))"

definition sso_pagination :: "int \<Rightarrow> int \<Rightarrow> int \<times> int" where
  "sso_pagination page_raw limit_raw =
     (if page_raw < 1 then 1 else page_raw, if limit_raw < 1 \<or> limit_raw > 100 then 20 else limit_raw)"

definition int32 :: "int \<Rightarrow> int" where
  "int32 n = (n + 2147483648) mod 4294967296 - 2147483648"

definition list_users_rpc :: "scope option \<Rightarrow> int \<Rightarrow> int \<Rightarrow> (user_data list \<times> int) sso_meth" where
  "list_users_rpc ctx page_raw limit_raw =
     guarded (require_sso_admin_scope ctx)
     (let (page_no, limit) = sso_pagination page_raw limit_raw in
      seq (reply (user_query (list_user_rows limit ((page_no - 1) * limit)))) (\<lambda>(us, total).
      ret (map user_to_proto us, int32 total)))"

definition create_user_rpc :: "scope option \<Rightarrow> user_input \<Rightarrow> user_data sso_meth" where
  "create_user_rpc ctx i =
     guarded (require_sso_admin_scope ctx)
     (if ni_name i = [] \<or> ni_email i = [] \<or> ni_password i = []
      then fail (invalid_argument ''missing required fields'') else reply_user (create_user i))"

definition update_user_rpc :: "scope option \<Rightarrow> id option \<Rightarrow> user_input \<Rightarrow> user_data sso_meth" where
  "update_user_rpc ctx uid i =
     guarded (require_sso_admin_scope ctx)
     (parsed ''invalid user_id format'' uid (\<lambda>x.
      if ni_name i = [] \<or> ni_email i = [] then fail (invalid_argument ''missing required fields'')
      else reply_user (update_user x i)))"

definition set_user_active_rpc :: "scope option \<Rightarrow> id option \<Rightarrow> bool \<Rightarrow> user_data sso_meth" where
  "set_user_active_rpc ctx uid on =
     guarded (require_sso_admin_scope ctx)
     (parsed ''invalid user_id format'' uid (\<lambda>x.
      reply_user (if on then reactivate_user x else deactivate_user x)))"

end
