(* ===== verification/GatewayRoutes.thy ===== *)
theory GatewayRoutes
  imports GatewayProxy SsoApi
begin

text \<open>
  The routes of the gateway (internal/gateway/http/router.go) with what guards each of them, and the
  client through which the guards ask the sign-on service (internal/gateway/grpc/client/sso.go).
\<close>

section \<open>The client of the sign-on service\<close>

definition access_token_from_header :: "string \<Rightarrow> goerr + string" where
  "access_token_from_header h = (case split_on (CHR '' '') h of
       [scheme, token] \<Rightarrow> if scheme \<noteq> ''Bearer'' \<or> token = [] then Inl (Sentinel ErrUnauthorized) else Inr token
     | _ \<Rightarrow> Inl (Sentinel ErrUnauthorized))"

definition auth_user_of :: "(id \<Rightarrow> string) \<Rightarrow> user_data \<Rightarrow> auth_user" where
  "auth_user_of txt u = \<lparr> au_id = txt (ud_id u), au_username = ud_name u, au_role = ud_role u \<rparr>"

definition client_verify_access_token :: "(id \<Rightarrow> string) \<Rightarrow> string \<Rightarrow> auth_user sso_meth" where
  "client_verify_access_token txt h = (case access_token_from_header h of
       Inl e \<Rightarrow> fail (Sentinel ErrUnauthorized)
     | Inr token \<Rightarrow> seq (on_error (verify_rpc token) (\<lambda>e. fail (from_grpc e))) (\<lambda>u. ret (auth_user_of txt u)))"

definition client_check_permission :: "(id \<Rightarrow> string) \<Rightarrow> string \<Rightarrow> string \<Rightarrow> auth_user sso_meth" where
  "client_check_permission txt h permission = (case access_token_from_header h of
       Inl e \<Rightarrow> fail (Sentinel ErrUnauthorized)
     | Inr token \<Rightarrow> seq (on_error (check_permission_rpc token permission) (\<lambda>e. fail (from_grpc e))) (\<lambda>(allowed, u).
          if \<not> allowed then fail (Sentinel ErrForbidden) else ret (auth_user_of txt u)))"

section \<open>Routes\<close>

datatype route_guard = NoGuard | AuthGuard | PermissionGuard string | TicketGuard string bool

record gateway_route =
  rt_method :: string
  rt_path :: string
  rt_guard :: route_guard
  rt_bucket :: string
  rt_handler :: string

definition route :: "string \<Rightarrow> string \<Rightarrow> route_guard \<Rightarrow> string \<Rightarrow> string \<Rightarrow> gateway_route" where
  "route m p g b h = \<lparr> rt_method = m, rt_path = p, rt_guard = g, rt_bucket = b, rt_handler = h \<rparr>"

definition public_routes :: "gateway_route list" where
  "public_routes =
    [route ''GET'' ''/health/live'' NoGuard [] ''Live'',
     route ''GET'' ''/health/ready'' NoGuard [] ''Ready'',
     route ''GET'' ''/api/v1/auth/providers'' NoGuard ''auth'' ''Providers'',
     route ''GET'' ''/api/v1/auth/oidc/keycloak/start'' NoGuard ''auth'' ''StartKeycloakLogin'',
     route ''GET'' ''/api/v1/auth/oidc/keycloak/callback'' NoGuard ''auth'' ''CompleteKeycloakCallback'',
     route ''POST'' ''/api/v1/auth/register'' NoGuard ''auth'' ''Register'',
     route ''POST'' ''/api/v1/auth/login'' NoGuard ''auth'' ''Login'',
     route ''POST'' ''/api/v1/auth/refresh'' NoGuard ''auth'' ''Refresh'',
     route ''POST'' ''/api/v1/auth/logout'' NoGuard ''auth'' ''Logout'']"

definition user_routes :: "gateway_route list" where
  "user_routes =
    [route ''POST'' ''/api/v1/containers'' AuthGuard [] ''CreateContainer'',
     route ''GET'' ''/api/v1/containers'' AuthGuard [] ''GetContainers'',
     route ''POST'' ''/api/v1/containers/:id/action/:action'' AuthGuard [] ''ActionContainer'',
     route ''POST'' ''/api/v1/containers/:id/expose'' AuthGuard [] ''ExposeContainer'',
     route ''GET'' ''/api/v1/containers/:id/stats'' AuthGuard [] ''GetContainerStats'',
     route ''POST'' ''/api/v1/containers/:id/logs/stream/ticket'' AuthGuard [] ''IssueLogsTicket'',
     route ''POST'' ''/api/v1/containers/:id/terminal/ticket'' AuthGuard [] ''IssueTerminalTicket'',
     route ''POST'' ''/api/v1/volumes'' AuthGuard [] ''CreateVolume'',
     route ''GET'' ''/api/v1/volumes'' AuthGuard [] ''GetVolumes'',
     route ''DELETE'' ''/api/v1/volumes/:id'' AuthGuard [] ''DeleteVolume'',
     route ''GET'' ''/api/v1/images'' AuthGuard [] ''GetImages'',
     route ''DELETE'' ''/api/v1/images/:id'' AuthGuard [] ''DeleteImage'',
     route ''GET'' ''/api/v1/images/build/availability'' AuthGuard [] ''CoreHTTPProxy'',
     route ''POST'' ''/api/v1/images/build'' AuthGuard ''image-build'' ''CoreHTTPProxy'',
     route ''POST'' ''/api/v1/images/build/git'' AuthGuard ''image-build-git'' ''CoreHTTPProxy'',
     route ''GET'' ''/api/v1/builds'' AuthGuard [] ''GetBuilds'',
     route ''DELETE'' ''/api/v1/builds/:id'' AuthGuard [] ''DeleteBuild'',
     route ''GET'' ''/api/v1/builds/:id/logs'' AuthGuard [] ''CoreHTTPProxy'',
     route ''POST'' ''/api/v1/builds/:id/cancel'' AuthGuard [] ''CancelBuild'',
     route ''GET'' ''/api/v1/projects'' AuthGuard [] ''GetProjects'',
     route ''DELETE'' ''/api/v1/projects/:id'' AuthGuard [] ''DeleteProject'',
     route ''POST'' ''/api/v1/projects/:id/start'' AuthGuard [] ''StartProject'',
     route ''POST'' ''/api/v1/projects/:id/stop'' AuthGuard [] ''StopProject'',
     route ''POST'' ''/api/v1/projects/:id/cancel'' AuthGuard [] ''CancelProject'',
     route ''POST'' ''/api/v1/projects/compose'' AuthGuard ''compose'' ''CoreHTTPProxy'',
     route ''POST'' ''/api/v1/projects/compose/git'' AuthGuard ''compose-git'' ''CoreHTTPProxy'',
     route ''GET'' ''/api/v1/stats'' AuthGuard [] ''GetUserStats'']"

definition admin_routes :: "gateway_route list" where
  "admin_routes =
    [route ''GET'' ''/api/v1/admin/config'' (PermissionGuard ''system.config.read'') [] ''GetSystemConfig'',
     route ''PUT'' ''/api/v1/admin/config'' (PermissionGuard ''system.config.update'') [] ''UpdateSystemConfig'',
     route ''GET'' ''/api/v1/admin/monitoring'' (PermissionGuard ''system.monitoring.read'') [] ''GetSystemMonitoring'',
     route ''GET'' ''/api/v1/admin/reports/overview'' (PermissionGuard ''reports.admin.read'') [] ''GetReportsOverview'',
     route ''GET'' ''/api/v1/admin/reports/users'' (PermissionGuard ''reports.admin.read'') [] ''ListUserUsageReport'',
     route ''GET'' ''/api/v1/admin/reports/users/:id/usage'' (PermissionGuard ''reports.admin.read'') [] ''GetUserUsageTimeline'',
     route ''GET'' ''/api/v1/admin/reports/audit-events'' (PermissionGuard ''reports.admin.read'') [] ''ListAuditEvents'',
     route ''POST'' ''/api/v1/admin/reports/usage-snapshots/refresh'' (PermissionGuard ''reports.admin.read'') [] ''RefreshUsageSnapshots'',
     route ''GET'' ''/api/v1/admin/users'' (PermissionGuard ''users.admin.list'') [] ''ListUsers'',
     route ''GET'' ''/api/v1/admin/users/:id'' (PermissionGuard ''users.admin.read'') [] ''GetUser'',
     route ''POST'' ''/api/v1/admin/users'' (PermissionGuard ''users.admin.create'') [] ''CreateUser'',
     route ''PUT'' ''/api/v1/admin/users/:id'' (PermissionGuard ''users.admin.update'') [] ''UpdateUser'',
     route ''DELETE'' ''/api/v1/admin/users/:id'' (PermissionGuard ''users.admin.delete'') [] ''DeactivateUser'',
     route ''POST'' ''/api/v1/admin/users/:id/activate'' (PermissionGuard ''users.admin.update'') [] ''ReactivateUser'',
     route ''GET'' ''/api/v1/admin/containers'' (PermissionGuard ''containers.admin.list'') [] ''ListAdminContainers'',
     route ''POST'' ''/api/v1/admin/containers/:id/action/:action'' (PermissionGuard ''containers.admin.action'') [] ''AdminActionContainer'',
     route ''GET'' ''/api/v1/admin/containers/:id/stats'' (PermissionGuard ''containers.admin.stats'') [] ''AdminGetContainerStats'',
     route ''POST'' ''/api/v1/admin/containers/:id/logs/stream/ticket'' (PermissionGuard ''containers.admin.logs'') [] ''IssueLogsTicket'',
     route ''POST'' ''/api/v1/admin/containers/:id/terminal/ticket'' (PermissionGuard ''containers.admin.terminal'') [] ''IssueTerminalTicket'',
     route ''GET'' ''/api/v1/admin/volumes'' (PermissionGuard ''volumes.admin.list'') [] ''ListAdminVolumes'',
     route ''DELETE'' ''/api/v1/admin/volumes/:id'' (PermissionGuard ''volumes.admin.delete'') [] ''AdminDeleteVolume'',
     route ''GET'' ''/api/v1/admin/images'' (PermissionGuard ''images.admin.list'') [] ''ListAdminImages'',
     route ''DELETE'' ''/api/v1/admin/images/:id'' (PermissionGuard ''images.admin.delete'') [] ''AdminDeleteImage'',
     route ''GET'' ''/api/v1/admin/builds'' (PermissionGuard ''builds.admin.list'') [] ''ListAdminBuilds'',
     route ''GET'' ''/api/v1/admin/builds/:id/logs'' (PermissionGuard ''builds.admin.list'') [] ''CoreHTTPProxy'',
     route ''POST'' ''/api/v1/admin/builds/:id/cancel'' (PermissionGuard ''builds.admin.delete'') [] ''AdminCancelBuild'',
     route ''DELETE'' ''/api/v1/admin/builds/:id'' (PermissionGuard ''builds.admin.delete'') [] ''AdminDeleteBuild'',
     route ''GET'' ''/api/v1/admin/projects'' (PermissionGuard ''projects.admin.list'') [] ''ListAdminProjects'',
     route ''DELETE'' ''/api/v1/admin/projects/:id'' (PermissionGuard ''projects.admin.delete'') [] ''AdminDeleteProject'',
     route ''POST'' ''/api/v1/admin/projects/:id/start'' (PermissionGuard ''projects.admin.start'') [] ''AdminStartProject'',
     route ''POST'' ''/api/v1/admin/projects/:id/stop'' (PermissionGuard ''projects.admin.stop'') [] ''AdminStopProject'',
     route ''POST'' ''/api/v1/admin/projects/:id/cancel'' (PermissionGuard ''projects.admin.stop'') [] ''AdminCancelProject'']"

definition telemetry_routes :: "gateway_route list" where
  "telemetry_routes =
    [route ''GET'' ''/api/v1/containers/:id/logs/stream'' (TicketGuard ''logs'' False) [] ''TelemetryLogsProxy'',
     route ''GET'' ''/api/v1/containers/:id/terminal'' (TicketGuard ''terminal'' False) [] ''TelemetryTerminalProxy'',
     route ''GET'' ''/api/v1/admin/containers/:id/logs/stream'' (TicketGuard ''logs'' True) [] ''TelemetryLogsProxy'',
     route ''GET'' ''/api/v1/admin/containers/:id/terminal'' (TicketGuard ''terminal'' True) [] ''TelemetryTerminalProxy'']"

definition gateway_routes :: "gateway_route list" where
  "gateway_routes = public_routes @ user_routes @ admin_routes @ telemetry_routes"

text \<open>
  The scope under which the handler of a route runs, or the error that is answered; the guards that
  take a ticket are those of the telemetry proxies.
\<close>

definition guard_request ::
    "(string \<Rightarrow> id option) \<Rightarrow> (id \<Rightarrow> string) \<Rightarrow> route_guard \<Rightarrow> headers \<Rightarrow> scope option sso_meth" where
  "guard_request parse txt g h = (case g of
       AuthGuard \<Rightarrow> seq (auth_middleware parse (client_verify_access_token txt) h) (\<lambda>s. ret (Some s))
     | PermissionGuard p \<Rightarrow> seq (require_permission_middleware parse (client_check_permission txt) p h) (\<lambda>s. ret (Some s))
     | _ \<Rightarrow> ret None)"


text \<open>
  The sign-on requests a browser sends to the gateway (internal/gateway/http/handler/auth.go), with
  the cookies they set and the redirects they answer, and the limits on requests
  (internal/gateway/http/middleware/limits.go).  Parsing and printing a URL are parameters, as are
  the encodings of JSON and of cookies.
\<close>

section \<open>Redirects\<close>

text \<open>What url.Parse tells of a URL; the text is that of the URL without its query and fragment.\<close>

record browser_url =
  bu_scheme :: string
  bu_host :: string
  bu_path :: string
  bu_plain :: string

type_synonym url_parser = "string \<Rightarrow> browser_url option"

record redirect_config =
  rc_origins :: "string list"
  rc_callback :: string

definition trim_left_slashes :: "string \<Rightarrow> string" where
  "trim_left_slashes s = dropWhile (\<lambda>c. c = CHR ''/'') s"

definition trim_right_slashes :: "string \<Rightarrow> string" where
  "trim_right_slashes s = rev (dropWhile (\<lambda>c. c = CHR ''/'') (rev s))"

definition normalize_auth_redirect_config :: "redirect_config \<Rightarrow> redirect_config" where
  "normalize_auth_redirect_config c = \<lparr>
     rc_origins = map trim_right_slashes (filter (\<lambda>q. q \<noteq> []) (map trim_space (rc_origins c))),
     rc_callback = CHR ''/'' # trim_left_slashes (trim_space (rc_callback c)) \<rparr>"

definition origin :: "browser_url \<Rightarrow> string" where
  "origin u = to_lower (bu_scheme u) @ ''://'' @ to_lower (bu_host u)"

definition allowed_origins :: "url_parser \<Rightarrow> redirect_config \<Rightarrow> string list" where
  "allowed_origins parse c = concat (map (\<lambda>raw. case parse raw of
       Some u \<Rightarrow> if bu_scheme u \<noteq> [] \<and> bu_host u \<noteq> [] then [origin u] else []
     | None \<Rightarrow> []) (rc_origins c))"

definition bad_redirect :: goerr where
  "bad_redirect = mk_err ErrBadRequest ''invalid auth redirect target''"

definition safe_redirect_after :: "url_parser \<Rightarrow> redirect_config \<Rightarrow> string \<Rightarrow> goerr + string" where
  "safe_redirect_after parse c raw0 =
    (let raw = trim_space raw0 in
     if raw = [] then Inr (rc_callback c)
     else if has_prefix raw ''//'' then Inl bad_redirect
     else case parse raw of
       None \<Rightarrow> Inl bad_redirect
     | Some u \<Rightarrow>
         if bu_scheme u \<noteq> [] then
           if bu_scheme u \<noteq> ''http'' \<and> bu_scheme u \<noteq> ''https'' then Inl bad_redirect
           else if bu_path u \<noteq> rc_callback c then Inl bad_redirect
           else if \<not> List.member (allowed_origins parse c) (origin u) then Inl bad_redirect
           else Inr (bu_plain u)
         else if bu_host u \<noteq> [] \<or> raw \<noteq> rc_callback c then Inl bad_redirect
         else Inr (rc_callback c))"

section \<open>Replies and cookies\<close>

datatype cookie =
    RefreshCookie string int
  | StateCookie string int

datatype reply_body =
    ErrorReply int goerr
  | UserCreated id
  | AccessToken string
  | RedirectTo string
  | Empty

record auth_reply =
  ar_cookies :: "cookie list"
  ar_body :: reply_body

text \<open>httpresponse.Status\<close>

definition http_status :: "goerr \<Rightarrow> int" where
  "http_status e = (let is = errors_is e in
     if is ErrBadRequest \<or> is ErrInvalidFileFormat then 400
     else if is ErrUnauthorized \<or> is ErrInvalidCredentials \<or> is ErrInvalidToken then 401
     else if is ErrForbidden then 403
     else if is ErrNotFound then 404
     else if is ErrAlreadyExists \<or> is ErrLimitExceeded \<or> is ErrQuotaExceeded \<or> is ErrResourceExhausted
          \<or> is ErrConflict \<or> is ErrResourceInUse then 409
     else if is ErrHostExhausted then 503
     else if is ErrUnavailable then 503
     else if is ErrTimeout then 504 else 500)"

definition error_reply :: "cookie list \<Rightarrow> goerr \<Rightarrow> auth_reply" where
  "error_reply cs e = \<lparr> ar_cookies = cs, ar_body = ErrorReply (http_status e) e \<rparr>"

definition bad_request_reply :: "goerr \<Rightarrow> auth_reply" where
  "bad_request_reply e = \<lparr> ar_cookies = [], ar_body = ErrorReply 400 e \<rparr>"

text \<open>The lifetime of the refresh cookie, in seconds; a negative one clears it.\<close>

definition refresh_cookie_age :: "int \<Rightarrow> int" where
  "refresh_cookie_age configured = (if configured \<le> 0 then 30 * 24 * 3600 else configured)"

definition clear_refresh :: cookie where "clear_refresh = RefreshCookie [] (-1)"
definition clear_state :: cookie where "clear_state = StateCookie [] (-1)"

section \<open>Handlers\<close>

text \<open>The answer of the sign-on service decides the reply; the body of a request is None when it does not decode.\<close>

definition answered :: "'a sso_meth \<Rightarrow> (goerr \<Rightarrow> auth_reply) \<Rightarrow> ('a \<Rightarrow> auth_reply) \<Rightarrow> sso \<Rightarrow> auth_reply \<times> sso" where
  "answered m h f s = (case on_error m (\<lambda>e. fail (from_grpc e)) s of (Inl e, s') \<Rightarrow> (h e, s') | (Inr x, s') \<Rightarrow> (f x, s'))"

definition username_error :: "string \<Rightarrow> auth_reply option" where
  "username_error name = (case check_resource_name name of None \<Rightarrow> None
     | Some e \<Rightarrow> Some (bad_request_reply (mk_err ErrBadRequest (error_text e))))"

definition register_handler :: "(string \<times> string \<times> string) option \<Rightarrow> sso \<Rightarrow> auth_reply \<times> sso" where
  "register_handler body s = (case body of None \<Rightarrow> (bad_request_reply (Sentinel ErrBadRequest), s)
     | Some (name, email, password) \<Rightarrow> (case username_error name of Some r \<Rightarrow> (r, s)
         | None \<Rightarrow> answered (register_rpc name email password) (error_reply [])
             (\<lambda>i. \<lparr> ar_cookies = [], ar_body = UserCreated i \<rparr>) s))"

definition login_handler :: "int \<Rightarrow> (string \<times> string) option \<Rightarrow> sso \<Rightarrow> auth_reply \<times> sso" where
  "login_handler age body s = (case body of None \<Rightarrow> (bad_request_reply (Sentinel ErrBadRequest), s)
     | Some (name, password) \<Rightarrow> (case username_error name of Some r \<Rightarrow> (r, s)
         | None \<Rightarrow> answered (login_rpc name password) (error_reply [])
             (\<lambda>(access, refresh). \<lparr> ar_cookies = [RefreshCookie refresh (refresh_cookie_age age)], ar_body = AccessToken access \<rparr>) s))"

definition refresh_handler :: "int \<Rightarrow> string option \<Rightarrow> sso \<Rightarrow> auth_reply \<times> sso" where
  "refresh_handler age cookie_value s = (case cookie_value of
       None \<Rightarrow> (error_reply [] (Sentinel ErrUnauthorized), s)
     | Some token \<Rightarrow> answered (refresh_rpc token) (error_reply [])
         (\<lambda>(access, refresh). \<lparr> ar_cookies = [RefreshCookie refresh (refresh_cookie_age age)], ar_body = AccessToken access \<rparr>) s)"

definition start_keycloak_login :: "url_parser \<Rightarrow> redirect_config \<Rightarrow> string \<Rightarrow> sso \<Rightarrow> auth_reply \<times> sso" where
  "start_keycloak_login parse c redirect s = (case safe_redirect_after parse c redirect of
       Inl e \<Rightarrow> (bad_request_reply e, s)
     | Inr after \<Rightarrow> answered (start_oidc_rpc ''keycloak'' after) (error_reply [])
         (\<lambda>(auth_url, binding). \<lparr> ar_cookies = [StateCookie binding 600], ar_body = RedirectTo auth_url \<rparr>) s)"

definition complete_keycloak_callback ::
    "url_parser \<Rightarrow> (string \<Rightarrow> string) \<Rightarrow> redirect_config \<Rightarrow> int \<Rightarrow> url_query \<Rightarrow> string option \<Rightarrow> sso \<Rightarrow> auth_reply \<times> sso" where
  "complete_keycloak_callback parse with_success c age q binding s =
    (if query_value q ''error'' \<noteq> [] then (error_reply [clear_state] (Sentinel ErrInvalidCredentials), s)
     else case binding of
       None \<Rightarrow> (error_reply [clear_state] (Sentinel ErrInvalidCredentials), s)
     | Some b \<Rightarrow> answered (oidc_callback_rpc ''keycloak'' (query_value q ''code'') (query_value q ''state'') b) (error_reply [clear_state])
         (\<lambda>(access, refresh, redirect).
            let after = (case safe_redirect_after parse c redirect of Inl e \<Rightarrow> rc_callback c | Inr a \<Rightarrow> a)
            in \<lparr> ar_cookies = [clear_state, RefreshCookie refresh (refresh_cookie_age age)], ar_body = RedirectTo (with_success after) \<rparr>) s)"

definition logout_handler :: auth_reply where
  "logout_handler = \<lparr> ar_cookies = [clear_refresh], ar_body = Empty \<rparr>"

section \<open>Limits on requests (middleware/limits.go)\<close>

record rate_bucket =
  rb_count :: int
  rb_reset :: instant
  rb_seen :: instant

type_synonym rate_limiter = "string \<Rightarrow> rate_bucket option"

definition cleanup_buckets :: "instant \<Rightarrow> int \<Rightarrow> rate_limiter \<Rightarrow> rate_limiter" where
  "cleanup_buckets t window l = (\<lambda>k. case l k of None \<Rightarrow> None
     | Some b \<Rightarrow> if t - rb_seen b > 2 * window then None else Some b)"

definition allow_request :: "instant \<Rightarrow> string \<Rightarrow> int \<Rightarrow> int \<Rightarrow> rate_limiter \<Rightarrow> bool \<times> rate_limiter" where
  "allow_request t key limit window l0 =
    (let l = cleanup_buckets t window l0;
         b0 = (case l key of Some b \<Rightarrow> if t > rb_reset b then \<lparr> rb_count = 0, rb_reset = t + window, rb_seen = t \<rparr> else b
               | None \<Rightarrow> \<lparr> rb_count = 0, rb_reset = t + window, rb_seen = t \<rparr>);
         b = b0\<lparr>rb_count := rb_count b0 + 1, rb_seen := t\<rparr>
     in (rb_count b \<le> limit, l(key \<mapsto> b)))"

definition rate_limit :: "instant \<Rightarrow> string \<Rightarrow> string \<Rightarrow> int \<Rightarrow> int \<Rightarrow> (rate_limiter, unit) meth" where
  "rate_limit t bucket_name client_ip requests window =
    (if requests \<le> 0 \<or> window \<le> 0 then ret ()
     else (\<lambda>l. case allow_request t (bucket_name @ '':'' @ client_ip) requests window l of
       (True, l') \<Rightarrow> (Inr (), l')
     | (False, l') \<Rightarrow> (Inl (mk_err ErrResourceExhausted ''rate limit exceeded''), l')))"

section \<open>Laws\<close>

lemma safe_redirect_Inr:
  "safe_redirect_after parse c raw = Inr r \<Longrightarrow> r = rc_callback c
     \<or> (\<exists>u. parse (trim_space raw) = Some u \<and> r = bu_plain u \<and> (bu_scheme u = ''http'' \<or> bu_scheme u = ''https'')
          \<and> bu_path u = rc_callback c \<and> List.member (allowed_origins parse c) (origin u))"
  by (auto simp: safe_redirect_after_def Let_def split: if_splits option.splits)

end
