(* ===== verification/BuildService.thy ===== *)
theory BuildService
  imports ResourceService ProjectService GitSource
begin

text \<open>
  Image builds (internal/core/service/build.go): the upload of a source archive or the cloning of a
  repository, the staged-object reservation that counts the archive against the owner's quota, the
  job that is queued for the builder, and what becomes of a build when the builder reports on it,
  the owner cancels it or it grows stale (gc_worker.go).

  The archive a user sends is the list of the chunks its reader delivers; buf + 1 is the size of
  the buffer the object store reads with.  Running git is a parameter (git_kit): what url.Parse
  answers, whether the temporary directory can be made, and the outcome of cloning the repository
  and of writing its working tree into an archive of so many bytes.
\<close>

section \<open>Objects\<close>

definition delete_object :: "string \<Rightarrow> unit act" where
  "delete_object key = perform (DeleteObject key)"

definition stat_object :: "string \<Rightarrow> int act" where
  "stat_object key = ask (\<lambda>e n. e_object_size e n key)"

text \<open>
  The object store reads the archive to its end, or to the error broken with which the body of the
  request breaks off; the error of the reader makes the upload fail.
\<close>

definition upload_failed :: "string \<Rightarrow> goerr \<Rightarrow> goerr" where
  "upload_failed key e = Wrapped (''failed to upload object '' @ key @ '': '' @ error_text e) e"

definition upload_stream :: "nat \<Rightarrow> string \<Rightarrow> limited_reader \<Rightarrow> goerr option \<Rightarrow> unit act" where
  "upload_stream buf key reader broken = (case drain buf reader of
       (_, Some e) \<Rightarrow> fail (upload_failed key e)
     | (_, None) \<Rightarrow> (case broken of Some e \<Rightarrow> fail (upload_failed key e) | None \<Rightarrow> perform (UploadObject key)))"

section \<open>Admission of a build\<close>

definition builds_unavailable :: goerr where
  "builds_unavailable =
     mk_err ErrUnavailable ''Image builds are currently unavailable. Use Docker Hub images.''"

definition git_unavailable :: goerr where
  "git_unavailable =
     mk_err ErrUnavailable ''Git sources are currently unavailable. Upload an archive instead.''"

definition quota_exceeded :: goerr where
  "quota_exceeded = mk_err ErrQuotaExceeded ''user disk quota exceeded''"

definition ensure_image_builds_enabled :: "unit act" where
  "ensure_image_builds_enabled = seq get_config (\<lambda>cfg.
     if g_builds_enabled cfg then ret () else fail builds_unavailable)"

definition ensure_build_host_capacity :: "unit act" where
  "ensure_build_host_capacity =
     seq get_config (\<lambda>cfg.
     seq (on_error (query get_total_reserved_memory) (\<lambda>_. fail (Sentinel ErrInternal))) (\<lambda>memory.
     seq (on_error (query get_total_reserved_cpu) (\<lambda>_. fail (Sentinel ErrInternal))) (\<lambda>cpu.
     seq (query count_active_builds) (\<lambda>n.
     seq (ensure_host_memory_capacity cfg (i64 (memory + i64 (n * g_build_memory cfg))) (g_build_memory cfg)) (\<lambda>_.
     ensure_host_cpu_capacity cfg (i64 (cpu + i64 (n * build_cpu_millicores cfg))) (build_cpu_millicores cfg))))))"

definition acquire_build_capacity_lock :: "unit act" where
  "acquire_build_capacity_lock = ask (\<lambda>e n. ())"

definition ensure_build_queue_limit :: "id \<Rightarrow> unit act" where
  "ensure_build_queue_limit owner =
     seq get_config (\<lambda>cfg.
     if g_max_queued_builds cfg \<le> 0 then ret () else
     seq (query (count_active_builds_by_owner owner)) (\<lambda>n.
     if n \<ge> g_max_queued_builds cfg then fail (Sentinel ErrLimitExceeded) else ret ()))"

section \<open>The reservation of a staged archive\<close>

definition ensure_user_staged_disk_quota :: "id \<Rightarrow> int \<Rightarrow> unit act" where
  "ensure_user_staged_disk_quota owner incoming =
     seq (ask (\<lambda>e n. e_user e n owner)) (\<lambda>u.
     seq (used_disk_mb owner) (\<lambda>used_mb.
     seq (query (active_bytes_by_owner owner)) (\<lambda>staged_bytes.
     if i64 (used_mb + staged_bytes_to_mb (i64 (staged_bytes + incoming))) > ui_quota_disk_mb u
     then fail quota_exceeded else ret ())))"

definition reserve_staged_build_archive :: "id \<Rightarrow> string \<Rightarrow> int \<Rightarrow> unit act" where
  "reserve_staged_build_archive owner key bytes0 =
    (if key = [] then ret () else
     let bytes = (if bytes0 < 0 then 0 else bytes0) in
     seq get_config (\<lambda>cfg.
     seq (ensure_user_staged_disk_quota owner bytes) (\<lambda>_.
     seq fresh (\<lambda>sid.
     exec (reserve_staged \<lparr> so_id = sid, so_owner = owner, so_key = key, so_kind = ''build_archive'',
       so_bytes = bytes, so_status = StActive, so_created = 0, so_updated = 0, so_released = None \<rparr>
       (g_max_staged cfg))))))"

definition update_staged_build_archive_bytes :: "string \<Rightarrow> unit act" where
  "update_staged_build_archive_bytes key =
    (if key = [] then ret () else
     seq (attempt (stat_object key)) (\<lambda>r. case r of
         Inl e \<Rightarrow> ret ()
       | Inr n \<Rightarrow> ignore (exec (update_staged_bytes key n))))"

definition release_staged_build_archive :: "string \<Rightarrow> unit act" where
  "release_staged_build_archive key =
    (if key = [] then ret () else ignore (exec (release_staged key)))"

definition reserve_build_archive :: "scope option \<Rightarrow> string \<Rightarrow> unit act" where
  "reserve_build_archive ctx key = (case require_user_owner ctx of
       Inl e \<Rightarrow> fail e
     | Inr owner \<Rightarrow>
         if key = [] then fail (mk_err ErrBadRequest ''build archive object key is required'') else
         seq (stat_object key) (\<lambda>n. reserve_staged_build_archive owner key n))"

text \<open>What a failed upload or a failed job leaves: the object is removed, the reservation released.\<close>

definition discard_staged_archive :: "string \<Rightarrow> unit act" where
  "discard_staged_archive key =
     seq (ignore (delete_object key)) (\<lambda>_. release_staged_build_archive key)"

section \<open>The job\<close>

record create_build_job_input =
  bi_tag :: string
  bi_archive :: string
  bi_log :: string
  bi_context :: string
  bi_dockerfile :: string
  bi_args :: "(string \<times> string) list"
  bi_request :: string
  bi_project :: "id option"
  bi_service :: string

definition build_exchange :: string where "build_exchange = ''dcm.builds''"
definition build_routing_key :: string where "build_routing_key = ''build.image''"

definition admit_build :: "id \<Rightarrow> unit act" where
  "admit_build owner =
     seq (ask (\<lambda>e n. e_user e n owner)) (\<lambda>u.
     seq acquire_build_capacity_lock (\<lambda>_.
     seq (ensure_build_queue_limit owner) (\<lambda>_.
     seq ensure_build_host_capacity (\<lambda>_.
     seq (used_disk_mb owner) (\<lambda>used_mb.
     if used_mb \<ge> ui_quota_disk_mb u then fail quota_exceeded else ret ())))))"

definition queued_image :: "id \<Rightarrow> id \<Rightarrow> string \<Rightarrow> image" where
  "queued_image iid owner tag = \<lparr> i_id = iid, i_owner = owner, i_tag = tag, i_size_mb = 0, i_metadata = [],
     i_status = IBuilding, i_observed = None, i_last_error = None, i_created = 0 \<rparr>"

definition queued_build :: "id \<Rightarrow> id \<Rightarrow> id \<Rightarrow> instant \<Rightarrow> create_build_job_input \<Rightarrow> build" where
  "queued_build bid iid owner t input = \<lparr> b_id = bid, b_image = iid, b_owner = owner,
     b_project = bi_project input, b_service = bi_service input, b_status = BPending,
     b_log_path = bi_log input, b_archive = bi_archive input, b_started = t, b_finished = None \<rparr>"

definition queued_message :: "id \<Rightarrow> id \<Rightarrow> id \<Rightarrow> string \<Rightarrow> instant \<Rightarrow> create_build_job_input \<Rightarrow> build_message" where
  "queued_message bid iid owner tag t input = \<lparr> bm_build = bid, bm_image = iid, bm_owner = owner,
     bm_tag = tag, bm_archive = bi_archive input, bm_log = bi_log input, bm_context_dir = bi_context input,
     bm_dockerfile = bi_dockerfile input, bm_args = bi_args input, bm_request = bi_request input,
     bm_created = unix_seconds t \<rparr>"

definition insert_build_job :: "id \<Rightarrow> create_build_job_input \<Rightarrow> (id \<times> id) act" where
  "insert_build_job owner input =
    (let tag = normalize_tag (bi_tag input) in
     seq fresh (\<lambda>iid.
     seq fresh (\<lambda>bid.
     seq now (\<lambda>t.
     seq fresh (\<lambda>rid.
     seq (exec (create_queued_build (queued_image iid owner tag) (queued_build bid iid owner t input)
            (new_outbox rid bid bid build_exchange build_routing_key
              (queued_message bid iid owner tag t input)))) (\<lambda>_.
     ret (bid, iid)))))))"

definition run_create_build_job :: "scope option \<Rightarrow> create_build_job_input \<Rightarrow> (id \<times> id) act" where
  "run_create_build_job ctx input = (case require_user_owner ctx of
       Inl e \<Rightarrow> fail e
     | Inr owner \<Rightarrow>
         seq ensure_image_builds_enabled (\<lambda>_.
         seq (check_input (check_image_tag (bi_tag input))) (\<lambda>_.
         if bi_archive input = [] \<or> bi_log input = []
         then fail (mk_err ErrBadRequest ''build archive and log object keys are required'') else
         seq (admit_build owner) (\<lambda>_. insert_build_job owner input))))"

definition create_build_job ::
    "scope option \<Rightarrow> string \<Rightarrow> string \<Rightarrow> string \<Rightarrow> string \<Rightarrow> string \<Rightarrow> (string \<times> string) list \<Rightarrow> string
      \<Rightarrow> (id \<times> id) act" where
  "create_build_job ctx tag archive logkey cdir dockerfile args request = run_create_build_job ctx
     \<lparr> bi_tag = tag, bi_archive = archive, bi_log = logkey, bi_context = cdir, bi_dockerfile = dockerfile,
       bi_args = args, bi_request = request, bi_project = None, bi_service = [] \<rparr>"

definition create_project_build_job ::
    "scope option \<Rightarrow> id \<Rightarrow> string \<Rightarrow> string \<Rightarrow> string \<Rightarrow> string \<Rightarrow> string \<Rightarrow> string
      \<Rightarrow> (string \<times> string) list \<Rightarrow> string \<Rightarrow> (id \<times> id) act" where
  "create_project_build_job ctx pid service tag archive logkey cdir dockerfile args request =
     run_create_build_job ctx
     \<lparr> bi_tag = tag, bi_archive = archive, bi_log = logkey, bi_context = cdir, bi_dockerfile = dockerfile,
       bi_args = args, bi_request = request, bi_project = Some pid, bi_service = service \<rparr>"

section \<open>A build from an archive\<close>

record archive_input =
  ai_tag :: string
  ai_context :: string
  ai_dockerfile :: string
  ai_args :: "(string \<times> string) list"
  ai_name :: string
  ai_chunks :: "string list option"
  ai_broken :: "goerr option"

definition check_labelled :: "string \<Rightarrow> goerr option \<Rightarrow> unit act" where
  "check_labelled label e = check (map_option (\<lambda>err. bad_request (label @ '': '' @ error_text err)) e)"

definition build_disk_floor :: "int \<Rightarrow> unit act" where
  "build_disk_floor projected = seq get_config (\<lambda>cfg.
     ensure_host_disk_floor_projected (g_min_free_disk cfg) projected)"

definition create_build_from_archive :: "scope option \<Rightarrow> nat \<Rightarrow> archive_input \<Rightarrow> id act" where
  "create_build_from_archive ctx buf input =
     seq ensure_image_builds_enabled (\<lambda>_.
     case require_user_owner ctx of Inl e \<Rightarrow> fail e | Inr owner \<Rightarrow>
     seq get_config (\<lambda>cfg.
     seq (build_disk_floor (g_max_archive cfg)) (\<lambda>_.
     seq (check_input (check_image_tag (ai_tag input))) (\<lambda>_.
     seq (check_labelled ''invalid build context'' (validate_relative_path (ai_context input))) (\<lambda>_.
     seq (check_labelled ''invalid dockerfile path'' (validate_relative_path (ai_dockerfile input))) (\<lambda>_.
     case ai_chunks input of None \<Rightarrow> fail (mk_err ErrBadRequest ''build archive is required'') | Some chunks \<Rightarrow>
     if ai_name input = [] then fail (mk_err ErrBadRequest ''build archive is required'') else
     seq fresh (\<lambda>fid.
     seq get_env (\<lambda>env.
     let file = e_uuid_text env fid; key = archive_object_key file (ai_name input) in
     seq (reserve_staged_build_archive owner key (g_max_archive cfg)) (\<lambda>_.
     seq (on_error (upload_stream buf key \<lparr> lr_source = chunks, lr_remaining = g_max_archive cfg \<rparr> (ai_broken input))
            (\<lambda>e. seq (discard_staged_archive key) (\<lambda>_.
              fail (if errors_is e ErrBadRequest
                    then mk_err ErrBadRequest ''archive exceeds configured size limit'' else e)))) (\<lambda>_.
     seq (update_staged_build_archive_bytes key) (\<lambda>_.
     seq (on_error (create_build_job ctx (ai_tag input) key (log_object_key file) (ai_context input)
              (ai_dockerfile input) (ai_args input) (e_request env))
            (\<lambda>e. seq (discard_staged_archive key) (\<lambda>_. fail e))) (\<lambda>(bid, iid).
     ret bid))))))))))))"

section \<open>A build from a repository\<close>

record git_input =
  gi_repo :: string
  gi_ref :: string
  gi_tag :: string
  gi_context :: string
  gi_dockerfile :: string
  gi_args :: "(string \<times> string) list"

record git_kit =
  gk_parse :: "string \<Rightarrow> parsed_url option"
  gk_tmp :: "goerr option"
  gk_clone :: "string \<Rightarrow> string \<Rightarrow> goerr option"
  gk_archive :: "goerr + int"
  gk_open :: "goerr option"

definition clean_input :: "string \<Rightarrow> string \<Rightarrow> string act" where
  "clean_input label raw = (case clean_relative_path raw of
       Inl e \<Rightarrow> fail (bad_request (label @ '': '' @ error_text e)) | Inr p \<Rightarrow> ret p)"

text \<open>CloneRequest and ArchiveToZipFile: the outcome of git is the one the kit gives.\<close>

definition clone_and_archive :: "git_kit \<Rightarrow> string \<Rightarrow> string \<Rightarrow> int act" where
  "clone_and_archive kit repo ref =
     seq (check (gk_tmp kit)) (\<lambda>_.
     seq (check (gk_clone kit repo ref)) (\<lambda>_.
     case gk_archive kit of Inl e \<Rightarrow> fail e | Inr n \<Rightarrow> ret n))"

definition create_build_from_git :: "scope option \<Rightarrow> git_kit \<Rightarrow> git_input \<Rightarrow> id act" where
  "create_build_from_git ctx kit input =
     seq ensure_image_builds_enabled (\<lambda>_.
     case require_user_owner ctx of Inl e \<Rightarrow> fail e | Inr owner \<Rightarrow>
     seq get_config (\<lambda>cfg.
     seq (build_disk_floor (g_git_max_bytes cfg)) (\<lambda>_.
     if \<not> g_git_enabled cfg then fail git_unavailable else
     seq (check_input (check_image_tag (gi_tag input))) (\<lambda>_.
     seq (clean_input ''invalid build context'' (gi_context input)) (\<lambda>cdir.
     seq (clean_input ''invalid dockerfile path'' (gi_dockerfile input)) (\<lambda>dockerfile.
     case validate_repo_url (gk_parse kit) (gi_repo input) (g_git_hosts cfg) of Inl e \<Rightarrow> fail e | Inr info \<Rightarrow>
     seq (check (validate_ref (gi_ref input))) (\<lambda>_.
     seq (clone_and_archive kit (gi_repo input) (gi_ref input)) (\<lambda>bytes.
     seq fresh (\<lambda>fid.
     seq get_env (\<lambda>env.
     let file = e_uuid_text env fid; key = archive_object_key file ''source.zip'' in
     seq (reserve_staged_build_archive owner key bytes) (\<lambda>_.
     seq (on_error (check (gk_open kit)) (\<lambda>e. seq (release_staged_build_archive key) (\<lambda>_. fail e))) (\<lambda>_.
     seq (on_error (perform (UploadObject key)) (\<lambda>e. seq (discard_staged_archive key) (\<lambda>_. fail e))) (\<lambda>_.
     seq (on_error (create_build_job ctx (gi_tag input) key (log_object_key file) cdir dockerfile
              (gi_args input) (e_request env))
            (\<lambda>e. seq (discard_staged_archive key) (\<lambda>_. fail e))) (\<lambda>(bid, iid).
     ret bid))))))))))))))"

section \<open>The life of a build\<close>

definition start_build_record :: "id \<Rightarrow> (build \<times> bool) act" where
  "start_build_record bid = exec_get (start_build bid)"

definition cleanup_build_archive :: "build \<Rightarrow> unit act" where
  "cleanup_build_archive b =
    (if b_archive b = [] then ret () else
     seq (release_staged_build_archive (b_archive b)) (\<lambda>_. ignore (delete_object (b_archive b))))"

definition cascade_cancel :: "scope option \<Rightarrow> build \<Rightarrow> unit act" where
  "cascade_cancel ctx b = (case b_project b of
       None \<Rightarrow> ret ()
     | Some pid \<Rightarrow> ignore (cancel_deployment_for_build ctx pid))"

definition cleanup_manifest_for_image :: "image \<Rightarrow> unit act" where
  "cleanup_manifest_for_image img =
     seq get_env (\<lambda>env.
     case parse_tag (i_tag img) of (base, version) \<Rightarrow>
     remove_from_registry (custom_repository_name (e_uuid_text env (i_owner img)) base) version)"

definition cleanup_built_image_manifest :: "build \<Rightarrow> unit act" where
  "cleanup_built_image_manifest b =
     seq (attempt (query (get_image (b_image b)))) (\<lambda>r. case r of
         Inl e \<Rightarrow> ret () | Inr img \<Rightarrow> cleanup_manifest_for_image img)"

definition cancel_build_record :: "scope option \<Rightarrow> id \<Rightarrow> unit act" where
  "cancel_build_record ctx bid =
     seq (query (get_build bid)) (\<lambda>b.
     seq (check (require_owner_access ctx (b_owner b))) (\<lambda>_.
     if is_build_terminal (b_status b) then ret () else
     seq (if b_status b = BRunning then cleanup_built_image_manifest b else ret ()) (\<lambda>_.
     seq (exec (mark_build_failed_and_delete_image (b_id b) (b_image b) BCanceled)) (\<lambda>_.
     seq (cleanup_build_archive b) (\<lambda>_. cascade_cancel ctx b)))))"

fun normalize_failed_build_status :: "build_status \<Rightarrow> build_status" where
  "normalize_failed_build_status BFailed = BFailed"
| "normalize_failed_build_status BCanceled = BCanceled"
| "normalize_failed_build_status BFailedTimeout = BFailedTimeout"
| "normalize_failed_build_status BFailedQuotaExceeded = BFailedQuotaExceeded"
| "normalize_failed_build_status BFailedResourceExhausted = BFailedResourceExhausted"
| "normalize_failed_build_status BFailedInternal = BFailedInternal"
| "normalize_failed_build_status _ = BFailedInternal"

definition built_size_mb :: "int \<Rightarrow> int" where
  "built_size_mb bytes = (let mb = quot bytes 1048576 in if mb = 0 then 1 else mb)"

text \<open>The disk the owner uses once the image that is replaced is gone.\<close>

definition used_after_replacement :: "image \<Rightarrow> int act" where
  "used_after_replacement img =
     seq (used_disk_mb (i_owner img)) (\<lambda>used.
     seq (query (get_replacement_size (i_owner img) (i_tag img) (i_id img))) (\<lambda>replaced.
     ret (let left = i64 (used - replaced) in if left < 0 then 0 else left)))"

text \<open>The image the registry holds is accepted when it fits the quota, and removed again otherwise.\<close>

definition record_built_image ::
    "scope option \<Rightarrow> build \<Rightarrow> id \<Rightarrow> build_status \<Rightarrow> image \<Rightarrow> string \<Rightarrow> int \<Rightarrow> string \<Rightarrow> unit act" where
  "record_built_image ctx b iid s img repo bytes digest =
    (let mb = built_size_mb bytes in
     seq (ask (\<lambda>e n. e_user e n (i_owner img))) (\<lambda>u.
     seq (used_after_replacement img) (\<lambda>used.
     if i64 (used + mb) > ui_quota_disk_mb u then
       seq (on_error (exec (mark_build_failed_and_delete_image (b_id b) iid BFailedQuotaExceeded))
              (\<lambda>e. fail (Wrapped (''failed to mark quota-exceeded build failed: '' @ error_text e) e))) (\<lambda>_.
       seq (ignore (perform (RegistryDelete repo digest))) (\<lambda>_.
       seq (cleanup_build_archive b) (\<lambda>_. cascade_cancel ctx b)))
     else
       seq (exec (update_build_and_image_size (b_id b) iid s mb)) (\<lambda>_. cleanup_build_archive b))))"

definition complete_built_image :: "scope option \<Rightarrow> build \<Rightarrow> id \<Rightarrow> build_status \<Rightarrow> unit act" where
  "complete_built_image ctx b iid s =
     seq (query (get_image iid)) (\<lambda>img.
     seq get_env (\<lambda>env.
     let (base, version) = parse_tag (i_tag img);
         repo = custom_repository_name (e_uuid_text env (i_owner img)) base in
     seq (attempt (ask (\<lambda>e n. e_manifest e n repo version))) (\<lambda>r. case r of
         Inl e \<Rightarrow> exec (mark_build_failed_and_delete_image (b_id b) iid BFailedInternal)
       | Inr (bytes, digest) \<Rightarrow> record_built_image ctx b iid s img repo bytes digest)))"

definition complete_build_record :: "scope option \<Rightarrow> id \<Rightarrow> id \<Rightarrow> build_status \<Rightarrow> unit act" where
  "complete_build_record ctx bid iid s =
     seq (query (get_build bid)) (\<lambda>b.
     if is_build_terminal (b_status b) then
       seq (if b_status b = BCanceled \<and> s = BSuccess then cleanup_built_image_manifest b else ret ()) (\<lambda>_.
       cleanup_build_archive b)
     else if s \<noteq> BSuccess then
       seq (exec (mark_build_failed_and_delete_image bid iid (normalize_failed_build_status s))) (\<lambda>_.
       seq (cleanup_build_archive b) (\<lambda>_. cascade_cancel ctx b))
     else complete_built_image ctx b iid s)"

definition get_build_for :: "scope option \<Rightarrow> id \<Rightarrow> build act" where
  "get_build_for ctx bid =
     seq (query (get_build bid)) (\<lambda>b.
     seq (check (require_owner_access ctx (b_owner b))) (\<lambda>_. ret b))"

definition open_build_logs :: "scope option \<Rightarrow> id \<Rightarrow> string act" where
  "open_build_logs ctx bid =
     seq (get_build_for ctx bid) (\<lambda>b.
     if b_log_path b = [] then fail (Sentinel ErrNotFound)
     else seq (ask (\<lambda>e n. ())) (\<lambda>_. ret (b_log_path b)))"

definition cleanup_build_log :: "build \<Rightarrow> unit act" where
  "cleanup_build_log b = (if b_log_path b = [] then ret () else ignore (delete_object (b_log_path b)))"

definition request_delete_build :: "scope option \<Rightarrow> id \<Rightarrow> unit act" where
  "request_delete_build ctx bid =
     seq (get_build_for ctx bid) (\<lambda>b.
     seq (exec (delete_build bid)) (\<lambda>_.
     seq (cleanup_build_archive b) (\<lambda>_. cleanup_build_log b)))"

definition list_all_builds :: "scope option \<Rightarrow> int \<Rightarrow> int \<Rightarrow> (build list \<times> nat) act" where
  "list_all_builds ctx limit offset = (case require_scope ctx of
       Inl e \<Rightarrow> fail e
     | Inr s \<Rightarrow> if sc_kind s \<noteq> KindUser \<and> sc_kind s \<noteq> KindAdmin then fail (Sentinel ErrForbidden)
         else query (list_builds \<lparr> lo_owner = owner_filter s, lo_project = None,
                       lo_limit = limit, lo_offset = offset \<rparr>))"

section \<open>The garbage collector (gc_worker.go)\<close>

text \<open>The worker runs without an access scope.\<close>

definition minutes :: "int \<Rightarrow> int" where
  "minutes n = i64 (n * 60000000000)"

definition cleanup_stale_item :: "staged \<Rightarrow> unit act" where
  "cleanup_stale_item s =
     seq (attempt (delete_object (so_key s))) (\<lambda>r. case r of
         Inl e \<Rightarrow> ret () | Inr _ \<Rightarrow> ignore (exec (release_staged (so_key s))))"

definition cleanup_stale_staged_objects :: "unit act" where
  "cleanup_stale_staged_objects =
     seq now (\<lambda>t.
     seq get_config (\<lambda>cfg.
     seq (attempt (query (list_stale_active (t - minutes (g_stale_build_minutes cfg)) 100))) (\<lambda>r. case r of
         Inl e \<Rightarrow> ret () | Inr items \<Rightarrow> for_each cleanup_stale_item items)))"

definition fail_stale_build :: "build \<Rightarrow> unit act" where
  "fail_stale_build b = ignore (complete_build_record None (b_id b) (b_image b) BFailedTimeout)"

definition run_prune :: "unit act" where
  "run_prune =
     seq (ignore (perform DockerPrune)) (\<lambda>_.
     seq get_config (\<lambda>cfg.
     seq (if g_registry_container cfg \<noteq> []
          then ignore (perform (RegistryCollect (g_registry_container cfg))) else ret ()) (\<lambda>_.
     seq now (\<lambda>t.
     seq (attempt (query (get_stale_builds (t - minutes (g_stale_build_minutes cfg))))) (\<lambda>r. case r of
         Inl e \<Rightarrow> ret ()
       | Inr bs \<Rightarrow> seq (for_each fail_stale_build bs) (\<lambda>_. cleanup_stale_staged_objects))))))"

section \<open>Only transitions of the store\<close>

lemma follows_build_writes [follows_intros]:
  "follows core (exec (mark_build_failed_and_delete_image bid iid s))"
  "follows core (exec (update_build_and_image_size bid iid s n))"
  "follows core (exec (create_queued_build i b row))" "follows core (exec (delete_build bid))"
  "follows core (exec (reserve_staged so k))" "follows core (exec (update_staged_bytes key k))"
  "follows core (exec (release_staged key))"
  by (auto intro!: follows_exec simp: core_def intro: core_step.intros)

lemma follows_request_cancel [follows_intros]: "follows core (request_cancel ctx pid b)"
  unfolding request_cancel_def
  by (intro follows_intros)

lemma follows_objects [follows_intros]:
  "follows R (delete_object key)" "follows R (stat_object key)" "follows R (upload_stream buf key rd broken)"
  by (auto simp: delete_object_def stat_object_def upload_stream_def split: option.splits
      intro!: follows_intros)

lemma follows_build_admission [follows_intros]:
  "follows R ensure_image_builds_enabled" "follows R ensure_build_host_capacity"
  "follows R acquire_build_capacity_lock" "follows R (ensure_build_queue_limit owner)"
  "follows R (ensure_user_staged_disk_quota owner k)" "follows R (build_disk_floor k)"
  "follows R (admit_build owner)" "follows R (check_labelled l e)" "follows R (clean_input l raw)"
  "follows R (clone_and_archive kit repo ref)"
  by (auto simp: ensure_image_builds_enabled_def ensure_build_host_capacity_def acquire_build_capacity_lock_def
      ensure_build_queue_limit_def ensure_user_staged_disk_quota_def build_disk_floor_def admit_build_def
      check_labelled_def clean_input_def clone_and_archive_def used_disk_mb_def ensure_host_memory_capacity_def
      ensure_host_cpu_capacity_def ensure_host_disk_floor_projected_def intro!: follows_intros)

lemma follows_staged [follows_intros]:
  "follows core (reserve_staged_build_archive owner key k)" "follows core (release_staged_build_archive key)"
  "follows core (update_staged_build_archive_bytes key)" "follows core (discard_staged_archive key)"
  by (auto simp: reserve_staged_build_archive_def release_staged_build_archive_def Let_def
      update_staged_build_archive_bytes_def discard_staged_archive_def intro!: follows_intros)

lemma follows_build_job [follows_intros]: "follows core (run_create_build_job ctx input)"
  unfolding run_create_build_job_def insert_build_job_def Let_def check_input_def by (intro follows_intros)

lemma follows_create_build_job [follows_intros]:
  "follows core (create_build_job ctx tag a l cd df args rq)"
  "follows core (create_project_build_job ctx pid sv tag a l cd df args rq)"
  unfolding create_build_job_def create_project_build_job_def by (intro follows_intros)+

lemma follows_build_uploads:
  "follows core (create_build_from_archive ctx buf ainput)" "follows core (create_build_from_git ctx kit ginput)"
  unfolding create_build_from_archive_def create_build_from_git_def check_input_def Let_def
  by (intro follows_intros)+

lemma follows_build_cleanup [follows_intros]:
  "follows core (cleanup_build_archive b)" "follows core (cascade_cancel ctx b)"
  "follows core (cleanup_built_image_manifest b)" "follows core (cleanup_build_log b)"
  by (auto simp: cleanup_build_archive_def cascade_cancel_def cancel_deployment_for_build_def
      cleanup_built_image_manifest_def cleanup_manifest_for_image_def remove_from_registry_def
      cleanup_build_log_def intro!: follows_intros)

lemma follows_build_records [follows_intros]:
  "follows core (cancel_build_record ctx bid)" "follows core (complete_build_record ctx bid iid s)"
  "follows core (request_delete_build ctx bid)"
  unfolding cancel_build_record_def complete_build_record_def complete_built_image_def
    record_built_image_def Let_def used_after_replacement_def used_disk_mb_def request_delete_build_def get_build_for_def
  by (intro follows_intros)+

end
