(* ===== verification/ComposeSource.thy ===== *)
theory ComposeSource
  imports ComposeParser BuildService
begin

text \<open>
  Where a deployment comes from (internal/core/service/compose/orchestrator.go): the object the
  user uploads or the archive of a repository, the reservation that counts it against the quota of
  the owner, and the search for the compose file in a zip, a tar or a bare file.  What the object
  store and the archive readers of the library find in an object is a parameter (compose_source):
  the entries of the archive in the order of its directory, each with the outcome of reading it.
\<close>

section \<open>The compose file of a source\<close>

record prepared_source =
  ps_yaml :: string
  ps_base :: string
  ps_key :: string
  ps_archive :: bool

record archive_entry =
  ae_name :: string
  ae_dir :: bool
  ae_size :: int
  ae_data :: "goerr + string"

text \<open>A header of a tar archive: an entry, or bytes that are no header.\<close>

datatype tar_item = TarBroken | TarEntry bool archive_entry

record compose_source =
  co_zip :: "string \<Rightarrow> goerr + archive_entry list option"
  co_tar :: "string \<Rightarrow> goerr + tar_item list option"
  co_raw :: "string \<Rightarrow> goerr + string"

definition max_compose_bytes :: nat where "max_compose_bytes = 1048576"

definition compose_too_large :: goerr where
  "compose_too_large = mk_err ErrBadRequest ''compose file exceeds configured size limit''"

definition read_limited_compose :: "goerr + string \<Rightarrow> goerr + string" where
  "read_limited_compose r = (case r of
       Inl e \<Rightarrow> Inl e
     | Inr text \<Rightarrow> if length text > max_compose_bytes then Inl compose_too_large else Inr text)"

definition clean_archive_entry_name :: "string \<Rightarrow> string" where
  "clean_archive_entry_name name =
     clean_path (trim_prefix (map (\<lambda>c. if c = backslash then CHR ''/'' else c) name) ''./'')"

definition compose_file_candidates :: "string \<Rightarrow> string list" where
  "compose_file_candidates requested =
    (if requested \<noteq> [] then [clean_path requested] else [''docker-compose.yml'', ''docker-compose.yaml''])"

definition is_compose_file_candidate :: "string \<Rightarrow> string list \<Rightarrow> bool" where
  "is_compose_file_candidate name candidates \<longleftrightarrow> list_ex (\<lambda>c. c \<noteq> [] \<and> name = c) candidates"

definition found_compose :: "string \<Rightarrow> string \<Rightarrow> archive_entry \<Rightarrow> goerr + prepared_source" where
  "found_compose key name entry =
    (if ae_size entry > int max_compose_bytes then Inl compose_too_large
     else case read_limited_compose (ae_data entry) of
       Inl e \<Rightarrow> Inl e
     | Inr text \<Rightarrow> Inr \<lparr> ps_yaml = text, ps_base = path_dir name, ps_key = key, ps_archive = True \<rparr>)"

text \<open>The candidates are tried in turn; the first entry with the name decides.\<close>

fun zip_candidates :: "string \<Rightarrow> archive_entry list \<Rightarrow> string list \<Rightarrow> goerr + prepared_source" where
  "zip_candidates key entries [] = Inl (mk_err ErrBadRequest ''docker-compose.yml not found in zip archive'')"
| "zip_candidates key entries (c # cs) =
     (case find (\<lambda>entry. clean_archive_entry_name (ae_name entry) = c) entries of
        None \<Rightarrow> zip_candidates key entries cs
      | Some entry \<Rightarrow>
          if ae_dir entry then Inl (mk_err ErrBadRequest ''compose file path points to a directory'')
          else found_compose key c entry)"

definition extract_from_zip :: "archive_entry list \<Rightarrow> string \<Rightarrow> string \<Rightarrow> goerr + prepared_source" where
  "extract_from_zip entries key requested = zip_candidates key entries (compose_file_candidates requested)"

text \<open>A tar archive is read in its own order; the first regular entry named like a candidate decides.\<close>

fun tar_entries :: "string \<Rightarrow> string list \<Rightarrow> tar_item list \<Rightarrow> goerr + prepared_source" where
  "tar_entries key cs [] = Inl (mk_err ErrBadRequest ''docker-compose.yml not found in tar archive'')"
| "tar_entries key cs (TarBroken # items) = Inl (mk_err ErrBadRequest ''invalid tar archive'')"
| "tar_entries key cs (TarEntry regular entry # items) =
     (let name = clean_archive_entry_name (ae_name entry) in
      if \<not> regular \<or> \<not> is_compose_file_candidate name cs then tar_entries key cs items
      else found_compose key name entry)"

definition extract_from_tar :: "tar_item list \<Rightarrow> string \<Rightarrow> string \<Rightarrow> goerr + prepared_source" where
  "extract_from_tar items key requested = tar_entries key (compose_file_candidates requested) items"

definition compose_source_ext :: "string \<Rightarrow> string" where
  "compose_source_ext name =
    (if has_suffix (to_lower name) ''.tar.gz'' then ''.tar.gz''
     else let e = to_lower (path_ext name) in
       if List.member [''.zip'', ''.tar'', ''.tgz'', ''.yml'', ''.yaml''] e then e else ''.archive'')"

definition compose_source_key :: "string \<Rightarrow> string \<Rightarrow> string" where
  "compose_source_key file_id name = ''compose-sources/'' @ file_id @ compose_source_ext name"

definition prepare_tar_source :: "compose_source \<Rightarrow> string \<Rightarrow> string \<Rightarrow> goerr + prepared_source" where
  "prepare_tar_source src key requested = (case co_tar src key of
       Inl e \<Rightarrow> Inl e
     | Inr None \<Rightarrow> Inl (mk_err ErrBadRequest ''invalid gzip archive'')
     | Inr (Some items) \<Rightarrow> extract_from_tar items key requested)"

definition prepare_raw_source :: "compose_source \<Rightarrow> string \<Rightarrow> goerr + prepared_source" where
  "prepare_raw_source src key = (case read_limited_compose (co_raw src key) of
       Inl e \<Rightarrow> Inl e
     | Inr text \<Rightarrow>
         if \<not> str_contains text ''services:''
         then Inl (mk_err ErrBadRequest ''invalid file format: expected archive or raw docker-compose.yml'')
         else Inr \<lparr> ps_yaml = text, ps_base = [], ps_key = key, ps_archive = False \<rparr>)"

definition prepare_object_source :: "compose_source \<Rightarrow> string \<Rightarrow> string \<Rightarrow> goerr + prepared_source" where
  "prepare_object_source src key requested =
    (let e = compose_source_ext key in
     if e = ''.zip'' then (case co_zip src key of
         Inl err \<Rightarrow> Inl err
       | Inr None \<Rightarrow> Inl (mk_err ErrBadRequest ''invalid zip archive'')
       | Inr (Some entries) \<Rightarrow> extract_from_zip entries key requested)
     else if e = ''.tar'' \<or> e = ''.tar.gz'' \<or> e = ''.tgz'' then prepare_tar_source src key requested
     else if e = ''.yml'' \<or> e = ''.yaml'' then
       if requested \<noteq> [] then Inl (mk_err ErrBadRequest ''compose_file is only supported for archive uploads'')
       else prepare_raw_source src key
     else Inl (Sentinel ErrInvalidFileFormat))"

definition of_result :: "goerr + 'a \<Rightarrow> 'a act" where
  "of_result r = (case r of Inl e \<Rightarrow> fail e | Inr x \<Rightarrow> ret x)"

section \<open>The staged object\<close>

definition ensure_compose_staged_quota :: "id \<Rightarrow> int \<Rightarrow> unit act" where
  "ensure_compose_staged_quota owner incoming =
     seq (query (active_bytes_by_owner owner)) (\<lambda>staged.
     seq (ask (\<lambda>e n. e_user e n owner)) (\<lambda>u.
     if bytes_to_mb (i64 (staged + incoming)) > ui_quota_disk_mb u then fail quota_exceeded else ret ()))"

definition reserve_compose_source :: "id \<Rightarrow> string \<Rightarrow> int \<Rightarrow> unit act" where
  "reserve_compose_source owner key bytes0 =
    (if key = [] then ret () else
     let bytes = (if bytes0 < 0 then 0 else bytes0) in
     seq (ensure_compose_staged_quota owner bytes) (\<lambda>_.
     seq fresh (\<lambda>sid.
     seq get_config (\<lambda>cfg.
     exec (reserve_staged \<lparr> so_id = sid, so_owner = owner, so_key = key, so_kind = ''compose_source'',
       so_bytes = bytes, so_status = StActive, so_created = 0, so_updated = 0, so_released = None \<rparr>
       (g_max_staged cfg))))))"

definition update_compose_source_bytes :: "string \<Rightarrow> int \<Rightarrow> unit act" where
  "update_compose_source_bytes key n =
    (if key = [] then ret () else ignore (exec (update_staged_bytes key n)))"

definition delete_compose_source :: "string \<Rightarrow> unit act" where
  "delete_compose_source key =
    (if key = [] then ret () else
     seq (ignore (delete_object key)) (\<lambda>_. ignore (exec (release_staged key))))"

definition record_source_size :: "string \<Rightarrow> unit act" where
  "record_source_size key = seq (attempt (stat_object key)) (\<lambda>r. case r of
       Inl e \<Rightarrow> ret () | Inr n \<Rightarrow> update_compose_source_bytes key n)"

text \<open>Whatever goes wrong after the reservation, the object goes and the reservation with it.\<close>

definition or_discard :: "string \<Rightarrow> 'a act \<Rightarrow> 'a act" where
  "or_discard key m = on_error m (\<lambda>e. seq (delete_compose_source key) (\<lambda>_. fail e))"

section \<open>A repository as source\<close>

record repo_kit =
  rk_tmp :: "goerr option"
  rk_clone :: "string \<Rightarrow> string \<Rightarrow> goerr option"
  rk_stat :: "string \<Rightarrow> goerr + bool option"
  rk_read :: "string \<Rightarrow> goerr + string option"
  rk_archive :: "goerr + int"

fun first_compose_file :: "repo_kit \<Rightarrow> string list \<Rightarrow> goerr + string" where
  "first_compose_file kit [] = Inl (mk_err ErrBadRequest ''docker-compose.yml not found in git repository'')"
| "first_compose_file kit (c # cs) = (case rk_stat kit c of
       Inl e \<Rightarrow> Inl e
     | Inr None \<Rightarrow> first_compose_file kit cs
     | Inr (Some is_dir) \<Rightarrow> if is_dir then first_compose_file kit cs else Inr c)"

definition not_in_repository :: goerr where
  "not_in_repository = mk_err ErrBadRequest ''compose file not found in git repository''"

definition select_compose_file :: "repo_kit \<Rightarrow> string \<Rightarrow> goerr + string" where
  "select_compose_file kit requested =
    (if requested \<noteq> [] then
       (case clean_relative_path requested of
          Inl e \<Rightarrow> Inl (bad_request (''invalid compose file path: '' @ error_text e))
        | Inr p \<Rightarrow> (case rk_stat kit p of
            Inl e \<Rightarrow> Inl e
          | Inr None \<Rightarrow> Inl not_in_repository
          | Inr (Some is_dir) \<Rightarrow>
              if is_dir then Inl (mk_err ErrBadRequest ''compose file path points to a directory'') else Inr p))
     else first_compose_file kit [''docker-compose.yml'', ''docker-compose.yaml''])"

definition upload_archive :: "repo_kit \<Rightarrow> string \<Rightarrow> unit act" where
  "upload_archive kit key = (case rk_archive kit of
       Inl e \<Rightarrow> fail (upload_failed key e)
     | Inr n \<Rightarrow> perform (UploadObject key))"

definition stage_git_source :: "repo_kit \<Rightarrow> id \<Rightarrow> string \<Rightarrow> string \<Rightarrow> string \<Rightarrow> prepared_source act" where
  "stage_git_source kit owner repo ref requested =
     seq get_config (\<lambda>cfg.
     seq (check (rk_tmp kit)) (\<lambda>_.
     seq (check (rk_clone kit repo ref)) (\<lambda>_.
     seq (of_result (select_compose_file kit requested)) (\<lambda>file.
     seq (of_result (rk_read kit file)) (\<lambda>content. case content of
         None \<Rightarrow> fail not_in_repository
       | Some text \<Rightarrow>
           seq fresh (\<lambda>fid.
           seq get_env (\<lambda>env.
           let key = compose_source_key (e_uuid_text env fid) ''source.zip'' in
           seq (reserve_compose_source owner key (g_compose_upload_max cfg)) (\<lambda>_.
           seq (or_discard key (upload_archive kit key)) (\<lambda>_.
           seq (record_source_size key) (\<lambda>_.
           ret \<lparr> ps_yaml = text, ps_base = path_dir file, ps_key = key, ps_archive = True \<rparr>))))))))))"

section \<open>Only transitions of the store\<close>

lemma follows_of_result [follows_intros]: "follows R (of_result r)"
  by (cases r) (auto simp: of_result_def intro: follows_intros)

lemma follows_compose_source [follows_intros]:
  "follows R (ensure_compose_staged_quota owner k)" "follows core (reserve_compose_source owner key k)"
  "follows core (update_compose_source_bytes key k)" "follows core (delete_compose_source key)"
  "follows R (upload_archive kit key)"
  by (auto simp: ensure_compose_staged_quota_def reserve_compose_source_def update_compose_source_bytes_def
      delete_compose_source_def upload_archive_def Let_def split: sum.splits intro!: follows_intros)

lemma follows_or_discard [follows_intros]: "follows core m \<Longrightarrow> follows core (or_discard key m)"
  unfolding or_discard_def by (intro follows_intros)

lemma follows_stage [follows_intros]:
  "follows core (record_source_size key)" "follows core (stage_git_source kit owner repo ref requested)"
  unfolding record_source_size_def stage_git_source_def Let_def by (intro follows_intros)+

end
