(* ===== verification/ComposeDeploy.thy ===== *)
theory ComposeDeploy
  imports ComposeSource
begin

text \<open>
  The compose orchestrator (internal/core/service/compose/orchestrator.go, builder_client.go and
  the delivery of its queue in infrastructure/rabbitmq/consumer.go): a deployment is requested with
  a source, becomes a project with a queued job and a message, and is planned by the worker that
  receives the message; the builds the plan needs are triggered from copies of the source.  The
  parser kit (compose_kit) and the content of the source (compose_source) are parameters.
\<close>

section \<open>A request\<close>

definition parse_compose_project ::
    "compose_kit \<Rightarrow> string \<Rightarrow> string \<Rightarrow> string \<Rightarrow> compose_project act" where
  "parse_compose_project kit name text base =
     seq get_env (\<lambda>env. seq get_config (\<lambda>cfg.
     of_result (parse_and_validate kit name text
       (\<lambda>prefix. forbidden_domain_prefix (e_regex env) prefix (g_reserved_prefixes cfg) (g_blocked_patterns cfg)) base)))"

definition compose_requires_build :: "compose_project \<Rightarrow> bool" where
  "compose_requires_build p \<longleftrightarrow> list_ex (\<lambda>s. cs_context s \<noteq> []) (cj_services p)"

definition ensure_compose_queue_limit :: "id \<Rightarrow> unit act" where
  "ensure_compose_queue_limit owner = seq get_config (\<lambda>cfg.
     if g_max_queued_deploys cfg \<le> 0 then ret () else
     seq (query (count_active_deployments owner)) (\<lambda>n.
     if n \<ge> g_max_queued_deploys cfg then fail (Sentinel ErrLimitExceeded) else ret ()))"

definition ensure_deployment_capacity :: "id \<Rightarrow> compose_project \<Rightarrow> unit act" where
  "ensure_deployment_capacity owner p =
     seq (build_disk_floor 0) (\<lambda>_.
     seq get_config (\<lambda>cfg.
     let n = int (length (cj_services p)) in
     check_capacity owner (i64 (n * g_default_memory cfg)) (i64 (n * g_default_cpu cfg)) 0))"

definition compose_exchange :: string where "compose_exchange = ''dcm.compose''"
definition compose_routing_key :: string where "compose_routing_key = ''compose.deploy''"

definition queued_project :: "id \<Rightarrow> id \<Rightarrow> string \<Rightarrow> project" where
  "queued_project pid owner name = \<lparr> p_id = pid, p_owner = owner, p_name = name,
     p_status = PBuilding, p_error = None, p_created = 0 \<rparr>"

definition queued_job :: "id \<Rightarrow> id \<Rightarrow> id \<Rightarrow> source_type \<Rightarrow> string \<Rightarrow> string \<Rightarrow> string \<Rightarrow> job" where
  "queued_job jid pid owner st key file request = \<lparr> j_id = jid, j_project = pid, j_owner = owner,
     j_source_type = st, j_source_key = key, j_compose_file = file, j_status = JQueued, j_attempts = 0,
     j_cancel_requested = False, j_error = None, j_request = request, j_stage = StageNone,
     j_plan = None, j_resources = None, j_created = 0, j_updated = 0, j_started = None, j_finished = None \<rparr>"

definition deployment_message :: "id \<Rightarrow> id \<Rightarrow> id \<Rightarrow> string \<Rightarrow> instant \<Rightarrow> compose_message" where
  "deployment_message jid pid owner request t = \<lparr> cm_job = jid, cm_project = pid, cm_owner = owner,
     cm_request = request, cm_created = unix_seconds t \<rparr>"

definition builds_available :: "bool \<Rightarrow> prepared_source \<Rightarrow> unit act" where
  "builds_available required src = seq get_config (\<lambda>cfg.
     if required \<and> \<not> ps_archive src then fail (mk_err ErrBadRequest ''compose build requires an archive source'')
     else if required \<and> \<not> g_builds_enabled cfg then fail builds_unavailable
     else ret ())"

text \<open>The rows of a deployment are inserted in one transaction.\<close>

definition insert_deployment :: "id \<Rightarrow> string \<Rightarrow> source_type \<Rightarrow> string \<Rightarrow> string \<Rightarrow> id act" where
  "insert_deployment owner name st key file =
     seq fresh (\<lambda>pid.
     seq fresh (\<lambda>jid.
     seq get_env (\<lambda>env.
     seq now (\<lambda>t.
     seq fresh (\<lambda>rid.
     seq (exec (create_with_deployment_job (queued_project pid owner name)
            (queued_job jid pid owner st key file (e_request env))
            (new_outbox rid jid jid compose_exchange compose_routing_key
              (deployment_message jid pid owner (e_request env) t)))) (\<lambda>_.
     ret pid))))))"

definition create_deployment_job ::
    "compose_kit \<Rightarrow> scope option \<Rightarrow> string \<Rightarrow> source_type \<Rightarrow> string \<Rightarrow> string \<Rightarrow> prepared_source \<Rightarrow> id act" where
  "create_deployment_job kit ctx name st key file src = or_discard key (
     seq (of_result (require_user_owner ctx)) (\<lambda>owner.
     seq (parse_compose_project kit name (ps_yaml src) (ps_base src)) (\<lambda>p.
     if cj_services p = [] then fail (mk_err ErrBadRequest ''compose project must define at least one service'') else
     seq (ensure_compose_queue_limit owner) (\<lambda>_.
     seq (ensure_deployment_capacity owner p) (\<lambda>_.
     seq (builds_available (compose_requires_build p) src) (\<lambda>_.
     insert_deployment owner name st key file))))))"

definition clean_compose_file :: "string \<Rightarrow> string act" where
  "clean_compose_file file = (if file = [] then ret [] else
     (case clean_relative_path file of
        Inl e \<Rightarrow> fail (bad_request (''invalid compose file path: '' @ error_text e)) | Inr p \<Rightarrow> ret p))"

definition start_deployment ::
    "compose_kit \<Rightarrow> compose_source \<Rightarrow> scope option \<Rightarrow> nat \<Rightarrow> string \<Rightarrow> string \<Rightarrow> string \<Rightarrow> string list
      \<Rightarrow> goerr option \<Rightarrow> id act" where
  "start_deployment kit src ctx buf name archive_name file0 chunks broken =
     seq (of_result (require_user_owner ctx)) (\<lambda>owner.
     seq get_config (\<lambda>cfg.
     seq (build_disk_floor (g_compose_upload_max cfg)) (\<lambda>_.
     seq (clean_compose_file file0) (\<lambda>file.
     seq fresh (\<lambda>fid.
     seq get_env (\<lambda>env.
     let key = compose_source_key (e_uuid_text env fid) archive_name in
     seq (reserve_compose_source owner key (g_compose_upload_max cfg)) (\<lambda>_.
     seq (on_error (upload_stream buf key \<lparr> lr_source = chunks, lr_remaining = g_compose_upload_max cfg \<rparr> broken)
            (\<lambda>e. seq (delete_compose_source key) (\<lambda>_.
              fail (if errors_is e ErrBadRequest
                    then mk_err ErrBadRequest ''compose archive exceeds configured size limit'' else e)))) (\<lambda>_.
     seq (record_source_size key) (\<lambda>_.
     seq (or_discard key (of_result (prepare_object_source src key file))) (\<lambda>p.
     or_discard key (create_deployment_job kit ctx name SrcUpload key file p)))))))))))"

definition start_git_deployment ::
    "compose_kit \<Rightarrow> (string \<Rightarrow> parsed_url option) \<Rightarrow> repo_kit \<Rightarrow> scope option
      \<Rightarrow> string \<Rightarrow> string \<Rightarrow> string \<Rightarrow> string \<Rightarrow> id act" where
  "start_git_deployment kit parse repo_kit ctx name repo ref file0 =
     seq (of_result (require_user_owner ctx)) (\<lambda>owner.
     seq get_config (\<lambda>cfg.
     seq (build_disk_floor (g_git_max_bytes cfg)) (\<lambda>_.
     if repo = [] then fail (mk_err ErrBadRequest ''git repository url is required'') else
     seq (clean_compose_file file0) (\<lambda>file.
     if \<not> g_git_enabled cfg then fail git_unavailable else
     seq (of_result (validate_repo_url parse repo (g_git_hosts cfg))) (\<lambda>_.
     seq (check (validate_ref ref)) (\<lambda>_.
     seq (stage_git_source repo_kit owner repo ref file) (\<lambda>p.
     create_deployment_job kit ctx name SrcGit (ps_key p) file p)))))))"

section \<open>Builds of a deployment\<close>

definition compose_archive_content_type :: "string \<Rightarrow> string" where
  "compose_archive_content_type key = (let e = archive_object_ext key in
     if e = ''.zip'' then ''application/zip'' else if e = ''.tar'' then ''application/x-tar''
     else if e = ''.tar.gz'' \<or> e = ''.tgz'' then ''application/gzip'' else ''application/octet-stream'')"

definition trigger_build :: "scope option \<Rightarrow> id \<Rightarrow> compose_service \<Rightarrow> string \<Rightarrow> id act" where
  "trigger_build ctx pid s key =
     seq fresh (\<lambda>fid.
     seq get_env (\<lambda>env.
     let file = e_uuid_text env fid; archive = archive_object_key file key in
     seq (on_error (perform (CopyObject key archive))
            (\<lambda>e. seq (ignore (delete_object archive)) (\<lambda>_. fail e))) (\<lambda>_.
     seq (on_error (reserve_build_archive ctx archive)
            (\<lambda>e. seq (ignore (delete_object archive)) (\<lambda>_. fail e))) (\<lambda>_.
     seq (on_error (create_project_build_job ctx pid (cs_name s) (cs_image s) archive (log_object_key file)
              (cs_context s) (cs_dockerfile s) (cs_args s) (e_request env))
            (\<lambda>e. seq (ignore (delete_object archive)) (\<lambda>_.
               seq (release_staged_build_archive archive) (\<lambda>_. fail e)))) (\<lambda>(bid, iid).
     ret bid)))))"

text \<open>m[k] = v for a map of the resources.\<close>

fun put :: "'a \<Rightarrow> 'b \<Rightarrow> ('a \<times> 'b) list \<Rightarrow> ('a \<times> 'b) list" where
  "put k v [] = [(k, v)]"
| "put k v ((k', v') # m) = (if k' = k then (k, v) # m else (k', v') # put k v m)"

definition known_builds :: "build list \<Rightarrow> (string \<times> id) list \<Rightarrow> (string \<times> id) list" where
  "known_builds bs m = foldl (\<lambda>m b. if b_service b \<noteq> [] then put (b_service b) (b_id b) m else m) m bs"

text \<open>The resources are updated in place: the builds triggered before a failure stay recorded.\<close>

fun trigger_missing ::
    "scope option \<Rightarrow> job \<Rightarrow> compose_resources \<Rightarrow> compose_service list \<Rightarrow> (compose_resources \<times> goerr option) act" where
  "trigger_missing ctx j rs [] = ret (rs, None)"
| "trigger_missing ctx j rs (s # ss) =
     (if cs_context s = [] \<or> map_of (cr_builds rs) (cs_name s) \<noteq> None then trigger_missing ctx j rs ss
      else seq (attempt (trigger_build ctx (j_project j) s (j_source_key j))) (\<lambda>r. case r of
          Inl e \<Rightarrow> ret (rs, Some (Wrapped (''failed to trigger build for service '' @ cs_name s @ '': '' @ error_text e) e))
        | Inr bid \<Rightarrow> trigger_missing ctx j (rs\<lparr>cr_builds := put (cs_name s) bid (cr_builds rs)\<rparr>) ss))"

definition ensure_compose_builds ::
    "scope option \<Rightarrow> job \<Rightarrow> compose_plan \<Rightarrow> compose_resources \<Rightarrow> (compose_resources \<times> goerr option) act" where
  "ensure_compose_builds ctx j plan rs =
     seq (attempt (query (get_builds_by_project (j_project j)))) (\<lambda>r. case r of
         Inl e \<Rightarrow> ret (rs, Some e)
       | Inr bs \<Rightarrow> trigger_missing ctx j (rs\<lparr>cr_builds := known_builds bs (cr_builds rs)\<rparr>) (pl_services plan))"

section \<open>The service graph\<close>

definition service_position :: "string \<Rightarrow> compose_service list \<Rightarrow> nat option" where
  "service_position name ss = map_of (rev (zip (map cs_name ss) [0..<length ss])) name"

fun graph_dependencies ::
    "id \<Rightarrow> compose_service list \<Rightarrow> (string \<times> id) list \<Rightarrow> nat \<Rightarrow> id \<Rightarrow> string \<Rightarrow> compose_dependency list
      \<Rightarrow> goerr + service_dependency list" where
  "graph_dependencies pid ss cids i cid name [] = Inr []"
| "graph_dependencies pid ss cids i cid name (d # ds) =
     (case service_position (cd_service d) ss of
        None \<Rightarrow> if cd_optional d then graph_dependencies pid ss cids i cid name ds
          else Inl (OtherErr (''dependency '' @ cd_service d @ '' not found for service '' @ name))
      | Some k \<Rightarrow>
          if k \<ge> i then Inl (OtherErr (''dependency '' @ cd_service d @ '' must be ordered before service '' @ name))
          else (case map_of cids (cd_service d) of
            None \<Rightarrow> if cd_optional d then graph_dependencies pid ss cids i cid name ds
              else Inl (OtherErr (''container mapping not found for dependency '' @ cd_service d))
          | Some target \<Rightarrow> bind_res (graph_dependencies pid ss cids i cid name ds) (\<lambda>rest.
              Inr (\<lparr> sd_project = pid, sd_container = cid, sd_depends_on = target, sd_service = cd_service d,
                     sd_condition = cd_condition d, sd_optional = cd_optional d \<rparr> # rest))))"

fun graph_nodes ::
    "id \<Rightarrow> compose_service list \<Rightarrow> (string \<times> id) list \<Rightarrow> nat \<Rightarrow> compose_service list \<Rightarrow> goerr + service_node list" where
  "graph_nodes pid ss cids i [] = Inr []"
| "graph_nodes pid ss cids i (s # rest) = (case map_of cids (cs_name s) of
       None \<Rightarrow> Inl (OtherErr (''container mapping not found for service '' @ cs_name s))
     | Some cid \<Rightarrow>
         bind_res (graph_dependencies pid ss cids i cid (cs_name s) (cs_deps s)) (\<lambda>ds.
         bind_res (graph_nodes pid ss cids (Suc i) rest) (\<lambda>ns.
         Inr (\<lparr> sn_project = pid, sn_container = cid, sn_service = cs_name s, sn_order = int i, sn_deps = ds \<rparr> # ns))))"

definition project_service_graph ::
    "id \<Rightarrow> compose_service list \<Rightarrow> (string \<times> id) list \<Rightarrow> goerr + service_node list" where
  "project_service_graph pid ss cids = graph_nodes pid ss cids 0 ss"

section \<open>The worker\<close>

definition no_resources :: compose_resources where
  "no_resources = \<lparr> cr_builds = [], cr_volumes = [], cr_managed = [], cr_containers = [], cr_started = [],
     cr_graph_saved = False, cr_cleanup_status = None, cr_cleanup_error = [] \<rparr>"

definition fail_deployment_job :: "job \<Rightarrow> goerr \<Rightarrow> unit act" where
  "fail_deployment_job j cause =
    (let msg = Some (safe_message (Some cause)) in
     seq (ignore (exec (update_project_status (j_project j) PFailed msg))) (\<lambda>_.
     seq (ignore (exec (complete_job (j_id j) JFailed msg))) (\<lambda>_.
     delete_compose_source (j_source_key j))))"

definition finish_canceled_job :: "job \<Rightarrow> unit act" where
  "finish_canceled_job j =
    (let msg = Some ''compose deployment canceled'' in
     seq (ignore (exec (complete_job (j_id j) JCanceled msg))) (\<lambda>_.
     seq (ignore (exec (update_project_status (j_project j) PCanceled msg))) (\<lambda>_.
     delete_compose_source (j_source_key j))))"

definition is_canceling :: "job \<Rightarrow> bool" where
  "is_canceling j \<longleftrightarrow> j_cancel_requested j \<or> j_status j = JCanceling"

text \<open>The plan is saved before a build is triggered; with builds, their ids are saved once all are.\<close>

definition persist_plan :: "scope option \<Rightarrow> job \<Rightarrow> compose_plan \<Rightarrow> bool \<Rightarrow> unit act" where
  "persist_plan ctx j plan with_builds =
    (let stage = (if with_builds then StageBuilding else StageCreating);
         status = (if with_builds then PBuilding else PDeploying) in
     seq (exec (save_deployment_plan (j_id j) stage (Some plan) (Some no_resources))) (\<lambda>_.
     seq (exec (update_project_status (j_project j) status None)) (\<lambda>_.
     if with_builds then
       seq (ensure_compose_builds ctx j plan no_resources) (\<lambda>(rs, err). case err of
           Some e \<Rightarrow> fail_deployment_job j e
         | None \<Rightarrow>
             seq (exec (update_deployment_progress (j_id j) (j_project j) (Some status) stage (Some plan) (Some rs))) (\<lambda>_.
             delete_compose_source (j_source_key j)))
     else delete_compose_source (j_source_key j))))"

text \<open>What is read and checked before the plan: failing here fails the job, not the message.\<close>

definition plan_deployment :: "compose_kit \<Rightarrow> compose_source \<Rightarrow> job \<Rightarrow> string \<Rightarrow> compose_project act" where
  "plan_deployment kit src j name =
     seq (of_result (prepare_object_source src (j_source_key j) (j_compose_file j))) (\<lambda>p.
     seq (parse_compose_project kit name (ps_yaml p) (ps_base p)) (\<lambda>project.
     seq (builds_available (compose_requires_build project) p) (\<lambda>_.
     ret project)))"

definition run_started_job :: "compose_kit \<Rightarrow> compose_source \<Rightarrow> job \<Rightarrow> unit act" where
  "run_started_job kit src j =
    (let ctx = Some (user_scope (j_owner j) [] []) in
     seq (query (get_project (j_project j))) (\<lambda>project.
     seq (attempt (plan_deployment kit src j (p_name project))) (\<lambda>r. case r of
         Inl e \<Rightarrow> fail_deployment_job j e
       | Inr p \<Rightarrow> persist_plan ctx j
           \<lparr> pl_name = p_name project, pl_source = j_source_type j,
             pl_services = cj_services p, pl_volumes = cj_volumes p \<rparr>
           (compose_requires_build p))))"

definition handle_deployment_message :: "compose_kit \<Rightarrow> compose_source \<Rightarrow> compose_message \<Rightarrow> unit act" where
  "handle_deployment_message kit src msg =
     seq (query (get_job (cm_job msg))) (\<lambda>j.
     if is_canceling j then finish_canceled_job j
     else if j_status j \<noteq> JQueued then ret ()
     else seq (exec_get (start_job (cm_job msg))) (\<lambda>(j', started).
       if started then run_started_job kit src j'
       else if is_canceling j' then finish_canceled_job j'
       else ret ()))"

definition handle_compose_delivery ::
    "compose_kit \<Rightarrow> compose_source \<Rightarrow> compose_message \<Rightarrow> world \<Rightarrow> verdict \<times> world" where
  "handle_compose_delivery kit src msg w = (case handle_deployment_message kit src msg w of
       (Inr _, w') \<Rightarrow> (Acked, w')
     | (Inl e, w') \<Rightarrow> (if is_permanent_error e then DeadLettered else Requeued, w'))"

end
