(* ===== verification/Uploads.thy ===== *)
theory Uploads
  imports GatewayRoutes BuildService ComposeDeploy
begin

text \<open>
  How sources come in: the HTTP handlers of the core service (internal/core/http), which read a
  multipart form part by part, and the cloning and packing of a repository (the second half of
  pkg/gitsource/gitsource.go).  The parts the multipart reader delivers under the limit of the body,
  the decoding of JSON, the git command, the file system and the bytes the zip writer produces are
  parameters.
\<close>

section \<open>Forms (core/http/build.go, handler.go)\<close>

text \<open>A part: its name, its file name, what its body delivers, and the error instead of its end.\<close>

record form_part =
  fp_name :: string
  fp_file :: string
  fp_chunks :: "string list"
  fp_error :: "goerr option"

text \<open>
  What the multipart reader of a body limited to so many bytes delivers: the error of making it, or
  the parts up to the end of the form or to an error.
\<close>

type_synonym multipart = "int \<Rightarrow> goerr + form_part list"

datatype http_reply = Refused int goerr | Accepted id

definition respond :: "goerr \<Rightarrow> http_reply act" where
  "respond e = ret (Refused (http_status e) e)"

definition bad_form :: "http_reply act" where
  "bad_form = ret (Refused 400 (Sentinel ErrBadRequest))"

definition answered_with :: "id act \<Rightarrow> http_reply act" where
  "answered_with m = on_error (seq m (\<lambda>i. ret (Accepted i))) respond"

definition max_form_field :: nat where "max_form_field = 1048576"

definition read_limited_form_field :: "form_part \<Rightarrow> goerr + string" where
  "read_limited_form_field p =
    (if length (concat (fp_chunks p)) > max_form_field then Inl (mk_err ErrBadRequest ''multipart form field is too large'')
     else case fp_error p of Some e \<Rightarrow> Inl (Sentinel ErrBadRequest) | None \<Rightarrow> Inr (concat (fp_chunks p)))"

text \<open>The compose handler passes the error of the reader on.\<close>

definition read_compose_form_field :: "form_part \<Rightarrow> goerr + string" where
  "read_compose_form_field p =
    (if length (concat (fp_chunks p)) > max_form_field then Inl (mk_err ErrBadRequest ''compose form field exceeds size limit'')
     else case fp_error p of Some e \<Rightarrow> Inl e | None \<Rightarrow> Inr (concat (fp_chunks p)))"

record build_form =
  bf_tag :: string
  bf_context :: string
  bf_dockerfile :: string
  bf_args :: "(string \<times> string) list"

text \<open>unmarshal decodes a JSON object into a map that may hold entries already.\<close>

definition set_build_field ::
    "(string \<Rightarrow> (string \<times> string) list \<Rightarrow> (string \<times> string) list option) \<Rightarrow> string \<Rightarrow> string \<Rightarrow> build_form \<Rightarrow> goerr + build_form" where
  "set_build_field unmarshal name v f =
    (if name = ''tag'' then Inr (f\<lparr>bf_tag := v\<rparr>)
     else if name = ''context'' then Inr (f\<lparr>bf_context := v\<rparr>)
     else if name = ''dockerfile'' then Inr (f\<lparr>bf_dockerfile := v\<rparr>)
     else if name = ''build_args'' \<and> v \<noteq> [] then (case unmarshal v (bf_args f) of
         None \<Rightarrow> Inl (mk_err ErrBadRequest ''build_args must be a JSON object'') | Some a \<Rightarrow> Inr (f\<lparr>bf_args := a\<rparr>))
     else Inr f)"

definition archive_of_form :: "build_form \<Rightarrow> form_part \<Rightarrow> archive_input" where
  "archive_of_form f p = \<lparr> ai_tag = bf_tag f, ai_context = bf_context f, ai_dockerfile = bf_dockerfile f, ai_args = bf_args f,
     ai_name = fp_file p, ai_chunks = Some (fp_chunks p), ai_broken = fp_error p \<rparr>"

fun read_build_form ::
    "(string \<Rightarrow> (string \<times> string) list \<Rightarrow> (string \<times> string) list option) \<Rightarrow> (archive_input \<Rightarrow> id act)
      \<Rightarrow> form_part list \<Rightarrow> build_form \<Rightarrow> http_reply act" where
  "read_build_form unmarshal make_build [] f = bad_form"
| "read_build_form unmarshal make_build (p # ps) f =
    (if fp_name p = ''archive'' then
       (if bf_tag f = [] \<or> fp_file p = [] then respond (mk_err ErrBadRequest ''build metadata fields must be sent before archive'')
        else answered_with (make_build (archive_of_form f p)))
     else case bind_res (read_limited_form_field p) (\<lambda>v. set_build_field unmarshal (fp_name p) v f) of
         Inl e \<Rightarrow> respond e
       | Inr f' \<Rightarrow> read_build_form unmarshal make_build ps f')"

text \<open>The end of the form and an error of the reader are answered alike.\<close>

definition build_image ::
    "(string \<Rightarrow> (string \<times> string) list \<Rightarrow> (string \<times> string) list option) \<Rightarrow> scope option \<Rightarrow> nat \<Rightarrow> multipart \<Rightarrow> http_reply act" where
  "build_image unmarshal ctx buf form = seq get_config (\<lambda>cfg. case form (g_max_upload cfg) of
       Inl e \<Rightarrow> bad_form
     | Inr ps \<Rightarrow> read_build_form unmarshal (create_build_from_archive ctx buf) ps
         \<lparr> bf_tag = [], bf_context = [], bf_dockerfile = [], bf_args = [] \<rparr>)"

definition build_image_from_git :: "scope option \<Rightarrow> git_kit \<Rightarrow> goerr + git_input \<Rightarrow> http_reply act" where
  "build_image_from_git ctx kit req = (case req of Inl e \<Rightarrow> bad_form | Inr input \<Rightarrow> answered_with (create_build_from_git ctx kit input))"

definition build_availability :: "(bool \<times> string \<times> bool \<times> string) act" where
  "build_availability = seq get_config (\<lambda>cfg. ret
     (g_builds_enabled cfg, (if \<not> g_builds_enabled cfg then ''Image builds are currently unavailable. Use Docker Hub images.'' else []),
      g_git_enabled cfg, (if \<not> g_git_enabled cfg then ''Git sources are currently unavailable. Upload an archive instead.'' else [])))"

datatype log_reply = LogRefused int goerr | LogStream string

definition path_uuid :: "(string \<Rightarrow> id option) \<Rightarrow> string \<Rightarrow> string \<Rightarrow> goerr + id" where
  "path_uuid parse name v = (case parse v of
       None \<Rightarrow> Inl (mk_err ErrBadRequest (name @ '' must be a valid UUID'')) | Some i \<Rightarrow> Inr i)"

definition build_logs :: "(string \<Rightarrow> id option) \<Rightarrow> scope option \<Rightarrow> string \<Rightarrow> log_reply act" where
  "build_logs parse ctx v = (case path_uuid parse ''id'' v of
       Inl e \<Rightarrow> ret (LogRefused 400 e)
     | Inr i \<Rightarrow> on_error (seq (open_build_logs ctx i) (\<lambda>s. ret (LogStream s))) (\<lambda>e. ret (LogRefused (http_status e) e)))"

fun read_compose_form :: "(string \<Rightarrow> string \<Rightarrow> string \<Rightarrow> string list \<Rightarrow> goerr option \<Rightarrow> id act) \<Rightarrow> form_part list \<Rightarrow> string \<Rightarrow> string \<Rightarrow> http_reply act" where
  "read_compose_form deploy [] project file = bad_form"
| "read_compose_form deploy (p # ps) project file =
    (if fp_name p = ''archive'' then
       (if project = [] \<or> fp_file p = [] then bad_form
        else answered_with (deploy project (fp_file p) file (fp_chunks p) (fp_error p)))
     else case read_compose_form_field p of
         Inl e \<Rightarrow> respond e
       | Inr v \<Rightarrow> read_compose_form deploy ps (if fp_name p = ''project_name'' then v else project)
           (if fp_name p = ''compose_file'' then v else file))"

definition deploy_compose ::
    "compose_kit \<Rightarrow> compose_source \<Rightarrow> scope option \<Rightarrow> nat \<Rightarrow> multipart \<Rightarrow> http_reply act" where
  "deploy_compose kit src ctx buf form = seq get_config (\<lambda>cfg. case form (g_compose_upload_max cfg) of
       Inl e \<Rightarrow> bad_form
     | Inr ps \<Rightarrow> read_compose_form (start_deployment kit src ctx buf) ps [] [])"

record compose_git_request =
  cg_project :: string
  cg_repo :: string
  cg_ref :: string
  cg_file :: string

definition deploy_compose_from_git ::
    "compose_kit \<Rightarrow> (string \<Rightarrow> parsed_url option) \<Rightarrow> repo_kit \<Rightarrow> scope option \<Rightarrow> goerr + compose_git_request \<Rightarrow> http_reply act" where
  "deploy_compose_from_git kit parse repo_kit ctx req = (case req of
       Inl e \<Rightarrow> bad_form
     | Inr r \<Rightarrow> if cg_project r = [] \<or> cg_repo r = [] then bad_form
         else answered_with (start_git_deployment kit parse repo_kit ctx (cg_project r) (cg_repo r) (cg_ref r) (cg_file r)))"

section \<open>The size of a working tree (gitsource.go)\<close>

text \<open>What a walk meets: something that is gone by then, an error, a directory, or a file and its size.\<close>

datatype stat_answer = StatMissing | StatFailed goerr | StatFound

datatype tree_entry = TreeGone | TreeError goerr | TreeDir | TreeFile int | TreeFileGone | TreeFileError goerr

definition repository_too_large :: goerr where
  "repository_too_large = mk_err ErrBadRequest ''git repository exceeds configured size limit''"

text \<open>Each entry comes with the error of the context at that moment.\<close>

fun repository_walk :: "int \<Rightarrow> int \<Rightarrow> (goerr option \<times> tree_entry) list \<Rightarrow> goerr + int" where
  "repository_walk m acc [] = Inr acc"
| "repository_walk m acc ((ctx, x) # xs) = (case x of
      TreeGone \<Rightarrow> repository_walk m acc xs
    | TreeError e \<Rightarrow> Inl e
    | _ \<Rightarrow> (case ctx of Some e \<Rightarrow> Inl e | None \<Rightarrow> (case x of
          TreeFile n \<Rightarrow> if m > 0 \<and> i64 (acc + n) > m then Inl repository_too_large else repository_walk m (i64 (acc + n)) xs
        | TreeFileError e \<Rightarrow> Inl e
        | _ \<Rightarrow> repository_walk m acc xs)))"

definition repository_size :: "string \<Rightarrow> stat_answer \<Rightarrow> int \<Rightarrow> (goerr option \<times> tree_entry) list \<Rightarrow> goerr + int" where
  "repository_size path stat m walk =
    (if path = [] then Inr 0
     else case stat of
         StatFailed e \<Rightarrow> Inl e
       | StatMissing \<Rightarrow> Inr 0
       | StatFound \<Rightarrow> repository_walk m 0 walk)"

section \<open>Cloning\<close>

record clone_request =
  cr_repo :: string
  cr_ref :: string
  cr_dest :: string
  cr_hosts :: "string list"
  cr_max_bytes :: int

text \<open>
  What running git ends in: whether it failed, the error the size monitor has put into its channel, whether the
  time limit has passed, and whether git is missing.
\<close>

record git_run =
  gr_failed :: bool
  gr_size_error :: "goerr option"
  gr_deadline :: bool
  gr_missing :: bool

definition git_arguments :: "repo_info \<Rightarrow> string \<Rightarrow> string \<Rightarrow> string list" where
  "git_arguments info r dest =
     [''-c'', ''protocol.allow=never'', ''-c'', ''protocol.https.allow=always'', ''clone'', ''--depth=1'', ''--no-tags'', ''--single-branch'']
     @ (if r \<noteq> [] then [''--branch'', r] else []) @ [''--'', ri_url info, dest]"

text \<open>The monitor puts the first error of the size into the channel; without a limit there is none.\<close>

definition clone ::
    "(string \<Rightarrow> parsed_url option) \<Rightarrow> (string list \<Rightarrow> git_run)
      \<Rightarrow> (string \<Rightarrow> stat_answer \<times> (goerr option \<times> tree_entry) list) \<Rightarrow> clone_request \<Rightarrow> goerr + repo_info" where
  "clone parse run found req =
     bind_res (validate_repo_url parse (cr_repo req) (cr_hosts req)) (\<lambda>info.
     let r = trim_space (cr_ref req) in
     case validate_ref r of Some e \<Rightarrow> Inl e | None \<Rightarrow>
     if cr_dest req = [] then Inl (mk_err ErrBadRequest ''git clone destination is required'') else
     let g = run (git_arguments info r (cr_dest req)); size_error = (if cr_max_bytes req \<le> 0 then None else gr_size_error g) in
     if gr_failed g then
       (case size_error of Some e \<Rightarrow> Inl e | None \<Rightarrow>
        if gr_deadline g then Inl (mk_err ErrTimeout ''git clone timed out'')
        else if gr_missing g then Inl (mk_err ErrUnavailable ''git executable is unavailable'')
        else Inl (mk_err ErrBadRequest ''failed to clone git repository''))
     else case size_error of Some e \<Rightarrow> Inl e | None \<Rightarrow>
       (case found (cr_dest req) of (stat, walk) \<Rightarrow>
         bind_res (repository_size (cr_dest req) stat (cr_max_bytes req) walk) (\<lambda>_. Inr (info\<lparr>ri_ref := r\<rparr>))))"

section \<open>Packing a working tree\<close>

datatype file_kind = RegularFile | SymlinkFile | OtherFile

text \<open>
  A file has the size its information names, and the bytes that are read from it unless opening,
  reading or closing it fails.  A BrokenNode is an entry at which the walk, the context or the
  information of the file ends with an error.
\<close>

datatype tree_node =
    DirNode string "tree_node list"
  | FileNode string file_kind int "goerr + string"
  | BrokenNode goerr

text \<open>
  The chunks the zip writer hands down when a file is added after others, and when it is closed.
\<close>

record zip_kit =
  zk_add :: "(string \<times> string) list \<Rightarrow> string \<times> string \<Rightarrow> string list"
  zk_close :: "(string \<times> string) list \<Rightarrow> string list"

record packing =
  pk_files :: "(string \<times> string) list"
  pk_repository :: int
  pk_out :: limit_writer

text \<open>Chunks go through the writer of theory GitSource that bounds the archive.\<close>

fun write_chunks :: "string list \<Rightarrow> limit_writer \<Rightarrow> goerr + limit_writer" where
  "write_chunks [] w = Inr w"
| "write_chunks (c # cs) w = (case limit_write c w of (Inl e, _) \<Rightarrow> Inl e | (Inr n, w') \<Rightarrow> write_chunks cs w')"

definition pack_file ::
    "zip_kit \<Rightarrow> int \<Rightarrow> string \<Rightarrow> file_kind \<Rightarrow> int \<Rightarrow> goerr + string \<Rightarrow> packing \<Rightarrow> goerr + packing" where
  "pack_file zk max_repo path kind info_size content s =
    (if kind = SymlinkFile then Inl (mk_err ErrBadRequest ''git repository contains unsupported symlink'')
     else if kind \<noteq> RegularFile then Inl (mk_err ErrBadRequest ''git repository contains unsupported file type'')
     else if max_repo > 0 \<and> i64 (pk_repository s + info_size) > max_repo then Inl repository_too_large
     else if path = ''.'' \<or> has_prefix path ''../'' \<or> has_prefix path ''/'' then Inl (OtherErr (''illegal repository file path: '' @ path))
     else bind_res content (\<lambda>bytes.
       bind_res (write_chunks (zk_add zk (pk_files s) (path, bytes)) (pk_out s)) (\<lambda>w.
       Inr \<lparr> pk_files = pk_files s @ [(path, bytes)], pk_repository = i64 (pk_repository s + int (length bytes)), pk_out = w \<rparr>)))"

definition below :: "string \<Rightarrow> string \<Rightarrow> string" where
  "below dir name = (if dir = [] then name else dir @ ''/'' @ name)"

fun pack_node :: "zip_kit \<Rightarrow> int \<Rightarrow> string \<Rightarrow> tree_node \<Rightarrow> packing \<Rightarrow> goerr + packing"
  and pack_nodes :: "zip_kit \<Rightarrow> int \<Rightarrow> string \<Rightarrow> tree_node list \<Rightarrow> packing \<Rightarrow> goerr + packing" where
  "pack_node zk m dir (DirNode name xs) s = (if name = ''.git'' then Inr s else pack_nodes zk m (below dir name) xs s)"
| "pack_node zk m dir (FileNode name kind n content) s = pack_file zk m (below dir name) kind n content s"
| "pack_node zk m dir (BrokenNode e) s = Inl e"
| "pack_nodes zk m dir [] s = Inr s"
| "pack_nodes zk m dir (x # xs) s = bind_res (pack_node zk m dir x s) (pack_nodes zk m dir xs)"

text \<open>
  After an error the zip is closed all the same; what is written then goes into an archive nobody keeps.
\<close>

definition archive_to_zip :: "zip_kit \<Rightarrow> int \<Rightarrow> int \<Rightarrow> tree_node list \<Rightarrow> goerr + packing" where
  "archive_to_zip zk max_repo max_archive tree =
     bind_res (pack_nodes zk max_repo [] tree
         \<lparr> pk_files = [], pk_repository = 0, pk_out = \<lparr> lw_max = max_archive, lw_written = 0, lw_data = [] \<rparr> \<rparr>) (\<lambda>s.
     bind_res (write_chunks (zk_close zk (pk_files s)) (pk_out s)) (\<lambda>w. Inr (s\<lparr>pk_out := w\<rparr>)))"

section \<open>A build from the working tree of a repository\<close>

text \<open>
  What the request for a build meets: the temporary directory, git, the size and the contents of the
  working tree, and the file of the archive.
\<close>

record clone_site =
  cs_parse :: "string \<Rightarrow> parsed_url option"
  cs_tmp :: "goerr option"
  cs_dir :: string
  cs_git :: "string list \<Rightarrow> git_run"
  cs_found :: "string \<Rightarrow> stat_answer \<times> (goerr option \<times> tree_entry) list"
  cs_tree :: "tree_node list"
  cs_zip :: zip_kit
  cs_create :: "goerr option"
  cs_open :: "goerr option"

definition clone_of :: "config \<Rightarrow> clone_site \<Rightarrow> string \<Rightarrow> string \<Rightarrow> goerr + repo_info" where
  "clone_of cfg site repo ref = clone (cs_parse site) (cs_git site) (cs_found site)
     \<lparr> cr_repo = repo, cr_ref = ref, cr_dest = cs_dir site, cr_hosts = g_git_hosts cfg, cr_max_bytes = g_git_max_bytes cfg \<rparr>"

definition archive_of :: "config \<Rightarrow> clone_site \<Rightarrow> goerr + packing" where
  "archive_of cfg site = (case cs_create site of Some e \<Rightarrow> Inl e
     | None \<Rightarrow> archive_to_zip (cs_zip site) (g_git_max_bytes cfg) (g_max_archive cfg) (cs_tree site))"

definition git_kit_of :: "config \<Rightarrow> clone_site \<Rightarrow> git_kit" where
  "git_kit_of cfg site = \<lparr> gk_parse = cs_parse site, gk_tmp = cs_tmp site,
     gk_clone = (\<lambda>repo ref. case clone_of cfg site repo ref of Inl e \<Rightarrow> Some e | Inr _ \<Rightarrow> None),
     gk_archive = bind_res (archive_of cfg site) (\<lambda>s. Inr (lw_written (pk_out s))), gk_open = cs_open site \<rparr>"

end
