(* ===== verification/GrpcCore.thy ===== *)
theory GrpcCore
  imports BuildService Access
begin

text \<open>
  The gRPC handlers of the core service (internal/core/grpc): each checks the kind of the caller's
  scope, parses the identifiers of the request, calls the service and translates its error.  A
  request carries its identifiers as text; the model passes what uuid.Parse makes of them, None when
  they are malformed.  The mapping of rows to messages is left out, except for the answers a caller
  decides on.
\<close>

definition pagination :: "int \<Rightarrow> int \<Rightarrow> int \<times> int" where
  "pagination page_no limit0 =
    (let limit = (if limit0 \<le> 0 \<or> limit0 > 100 then 20 else limit0);
         offset = (page_no - 1) * limit
     in (limit, if offset < 0 then 0 else offset))"

section \<open>Containers (grpc/container.go)\<close>

record mount_request =
  mr_volume :: "id option"
  mr_path :: string
  mr_ro :: bool

record create_request =
  cq_name :: string
  cq_image_tag :: string
  cq_port :: int
  cq_env :: "(string \<times> string) list"
  cq_mounts :: "mount_request list"
  cq_domain :: string

fun parse_mounts :: "mount_request list \<Rightarrow> mount_params list act" where
  "parse_mounts [] = ret []"
| "parse_mounts (m # ms) =
     parsed ''invalid volume_id format'' (mr_volume m) (\<lambda>vid.
     seq (parse_mounts ms) (\<lambda>rest.
     ret (\<lparr> mp_volume = vid, mp_volume_name = [], mp_path = mr_path m, mp_ro = mr_ro m \<rparr> # rest)))"

definition create_container_rpc :: "scope option \<Rightarrow> create_request \<Rightarrow> id act" where
  "create_container_rpc ctx req =
     guarded (require_user_scope ctx)
     (if cq_name req = [] \<or> cq_image_tag req = []
      then fail (invalid_argument ''name and image_tag are required'') else
      seq (parse_mounts (cq_mounts req)) (\<lambda>mounts.
      reply (create ctx \<lparr> cp_project = None, cp_name = cq_name req, cp_alias = [],
        cp_image_tag = cq_image_tag req, cp_port = cq_port req, cp_env = cq_env req, cp_mounts = mounts,
        cp_memory_mb = 0, cp_domain = cq_domain req, cp_command = [], cp_entrypoint = [],
        cp_restart = [], cp_health = None \<rparr>)))"

definition start_container_rpc :: "scope option \<Rightarrow> id option \<Rightarrow> unit act" where
  "start_container_rpc ctx cid = guarded (require_user_or_admin_scope ctx)
     (parsed ''invalid container_id format'' cid (\<lambda>i. reply (start ctx i)))"

definition stop_container_rpc :: "scope option \<Rightarrow> id option \<Rightarrow> unit act" where
  "stop_container_rpc ctx cid = guarded (require_user_or_admin_scope ctx)
     (parsed ''invalid container_id format'' cid (\<lambda>i. reply (stop ctx i)))"

definition delete_container_rpc :: "scope option \<Rightarrow> id option \<Rightarrow> unit act" where
  "delete_container_rpc ctx cid = guarded (require_user_or_admin_scope ctx)
     (parsed ''invalid container_id format'' cid (\<lambda>i. reply (delete ctx i)))"

definition expose_container_rpc :: "scope option \<Rightarrow> id option \<Rightarrow> string \<Rightarrow> int \<Rightarrow> unit act" where
  "expose_container_rpc ctx cid dmn port = guarded (require_user_or_admin_scope ctx)
     (parsed ''invalid container_id format'' cid (\<lambda>i.
      if dmn = [] \<or> port \<le> 0 then fail (invalid_argument ''domain_prefix and internal_port are required'')
      else reply (expose ctx i dmn port)))"

definition action_container_rpc :: "scope option \<Rightarrow> id option \<Rightarrow> string \<Rightarrow> unit act" where
  "action_container_rpc ctx cid what = guarded (require_user_or_admin_scope ctx)
     (parsed ''invalid container_id format'' cid (\<lambda>i.
      if what = [] then fail (invalid_argument ''invalid action, expected start, stop, or delete'')
      else reply (action ctx i what)))"

definition runtime_target_rpc :: "scope option \<Rightarrow> id option \<Rightarrow> runtime_target act" where
  "runtime_target_rpc ctx cid = guarded (require_user_or_admin_scope ctx)
     (parsed ''invalid container_id'' cid (\<lambda>i. reply (get_runtime_target ctx i)))"

section \<open>Volumes and images (grpc/volume.go, image.go)\<close>

definition create_volume_rpc :: "scope option \<Rightarrow> string \<Rightarrow> id act" where
  "create_volume_rpc ctx name = guarded (require_user_scope ctx)
     (if name = [] then fail (invalid_argument ''volume name is required'')
      else reply (create_volume ctx None name))"

definition delete_volume_rpc :: "scope option \<Rightarrow> id option \<Rightarrow> unit act" where
  "delete_volume_rpc ctx vid = guarded (require_user_or_admin_scope ctx)
     (parsed ''invalid volume_id format'' vid (\<lambda>i. reply (request_delete_volume ctx i)))"

definition delete_image_rpc :: "scope option \<Rightarrow> id option \<Rightarrow> unit act" where
  "delete_image_rpc ctx iid = guarded (require_user_or_admin_scope ctx)
     (parsed ''invalid image_id format'' iid (\<lambda>i. reply (request_delete_image ctx i)))"

section \<open>Builds (grpc/build.go)\<close>

definition start_build_rpc :: "scope option \<Rightarrow> id option \<Rightarrow> (build \<times> bool) act" where
  "start_build_rpc ctx bid = guarded (require_system_scope ctx)
     (parsed ''invalid build_id format'' bid (\<lambda>i. reply (start_build_record i)))"

definition cancel_build_rpc :: "scope option \<Rightarrow> id option \<Rightarrow> unit act" where
  "cancel_build_rpc ctx bid = guarded (require_user_or_admin_scope ctx)
     (parsed ''invalid build_id format'' bid (\<lambda>i. reply (cancel_build_record ctx i)))"

definition complete_build_rpc :: "scope option \<Rightarrow> id option \<Rightarrow> id option \<Rightarrow> build_status \<Rightarrow> unit act" where
  "complete_build_rpc ctx bid iid s = guarded (require_system_scope ctx)
     (parsed ''invalid build_id format'' bid (\<lambda>b.
      parsed ''invalid image_id format'' iid (\<lambda>i. reply (complete_build_record ctx b i s))))"

definition build_status_rpc :: "scope option \<Rightarrow> id option \<Rightarrow> build_status act" where
  "build_status_rpc ctx bid = guarded (require_system_scope ctx)
     (parsed ''invalid build_id format'' bid (\<lambda>i.
      seq (reply (get_build_for ctx i)) (\<lambda>b. ret (b_status b))))"

definition get_build_rpc :: "scope option \<Rightarrow> id option \<Rightarrow> build act" where
  "get_build_rpc ctx bid = guarded (require_user_or_admin_scope ctx)
     (parsed ''invalid build_id format'' bid (\<lambda>i. reply (get_build_for ctx i)))"

definition delete_build_rpc :: "scope option \<Rightarrow> id option \<Rightarrow> unit act" where
  "delete_build_rpc ctx bid = guarded (require_user_or_admin_scope ctx)
     (parsed ''invalid build_id format'' bid (\<lambda>i. reply (request_delete_build ctx i)))"

section \<open>Projects (grpc/project.go)\<close>

definition delete_project_rpc :: "scope option \<Rightarrow> id option \<Rightarrow> unit act" where
  "delete_project_rpc ctx pid = guarded (require_user_or_admin_scope ctx)
     (parsed ''invalid project_id format'' pid (\<lambda>i. reply (request_delete_project ctx i)))"

definition start_project_rpc :: "scope option \<Rightarrow> id option \<Rightarrow> unit act" where
  "start_project_rpc ctx pid = guarded (require_user_or_admin_scope ctx)
     (parsed ''invalid project_id format'' pid (\<lambda>i. reply (start_project ctx i)))"

definition stop_project_rpc :: "scope option \<Rightarrow> id option \<Rightarrow> unit act" where
  "stop_project_rpc ctx pid = guarded (require_user_or_admin_scope ctx)
     (parsed ''invalid project_id format'' pid (\<lambda>i. reply (stop_project ctx i)))"

definition cancel_project_rpc :: "scope option \<Rightarrow> id option \<Rightarrow> unit act" where
  "cancel_project_rpc ctx pid = guarded (require_user_or_admin_scope ctx)
     (parsed ''invalid project_id format'' pid (\<lambda>i. reply (cancel_project ctx i)))"

section \<open>Errors of a handler\<close>

lemma status_only_mounts [status_intros]: "status_only (parse_mounts ms)"
  by (induction ms) (auto intro!: status_intros)

section \<open>Only transitions of the store\<close>

lemma follows_handler [follows_intros]:
  "follows R m \<Longrightarrow> follows R (guarded g m)" "(\<And>x. follows R (f x)) \<Longrightarrow> follows R (parsed t i f)"
  "follows R m \<Longrightarrow> follows R (reply m)"
  by (auto simp: guarded_def parsed_def reply_def split: option.splits intro!: follows_intros)

end
