(* ===== verification/ConfigApi.thy ===== *)
theory ConfigApi
  imports GrpcCore SystemService
begin

text \<open>
  The configuration over gRPC (internal/core/grpc/system.go): the message SystemConfigData, which
  carries the settings an administrator may change (the fields of type int as int32), reading and
  updating it, and the excerpts the builder and the telemetry service read.  The method UpdateConfig
  overwrites the transported fields of the current configuration and keeps the other five (the
  addresses of the registry, its container, and the two networks).
\<close>

section \<open>32-bit integers\<close>

definition i32 :: "int \<Rightarrow> int" where
  "i32 x = (x + 2 ^ 31) mod 2 ^ 32 - 2 ^ 31"

definition in_i32 :: "int \<Rightarrow> bool" where
  "in_i32 x \<longleftrightarrow> - (2 ^ 31) \<le> x \<and> x < 2 ^ 31"

lemma i32_id: "in_i32 x \<Longrightarrow> i32 x = x"
  by (simp add: in_i32_def i32_def)

lemma in_i32_i32 [simp]: "in_i32 (i32 x)"
  by (auto simp: in_i32_def i32_def intro: order.strict_trans2[OF pos_mod_bound])

section \<open>The message\<close>

record config_data =
  d_base_domain :: string
  d_default_memory :: int
  d_reserved_system_memory :: int
  d_overcommit :: rat
  d_max_burst :: int
  d_default_cpu :: int
  d_reserved_system_cpu :: int
  d_cpu_overcommit :: rat
  d_max_cpu_burst :: int
  d_cpu_period :: int
  d_cpu_shares :: int
  d_high_load_shares :: int
  d_high_load_count :: int
  d_stop_timeout :: int
  d_max_log_size :: string
  d_max_log_files :: string
  d_container_disk_quota :: string
  d_reserved_prefixes :: "string list"
  d_blocked_patterns :: "string list"
  d_max_volumes :: int
  d_max_containers :: int
  d_ttl_hours :: int
  d_pids_limit :: int
  d_memory_swap :: rat
  d_builds_enabled :: bool
  d_build_memory :: int
  d_build_cpu_quota :: int
  d_build_cpu_period :: int
  d_build_memory_swap :: rat
  d_build_pids_limit :: int
  d_kaniko_image :: string
  d_max_build_minutes :: int
  d_max_builds :: int
  d_max_upload :: int
  d_max_archive :: int
  d_max_unpacked :: int
  d_max_build_log :: int
  d_build_cancel_poll :: int
  d_ttl_interval :: int
  d_gc_interval :: int
  d_stale_build_minutes :: int
  d_event_sync :: int
  d_event_reconnect :: int
  d_build_outbox_interval :: int
  d_build_outbox_batch :: int
  d_create_workers :: int
  d_max_attempts :: int
  d_create_timeout :: int
  d_max_queued_creates :: int
  d_outbox_interval :: int
  d_outbox_batch :: int
  d_report_interval :: int
  d_max_staged :: int
  d_max_queued_builds :: int
  d_compose_upload_max :: int
  d_compose_timeout :: int
  d_compose_workers :: int
  d_compose_outbox_interval :: int
  d_compose_outbox_batch :: int
  d_compose_max_attempts :: int
  d_max_queued_deploys :: int
  d_compose_build_poll :: int
  d_dependency_timeout :: int
  d_dependency_poll :: int
  d_coordinator_interval :: int
  d_min_free_disk :: int
  d_log_tail_lines :: int
  d_log_streams :: int
  d_terminal_sessions :: int
  d_terminal_idle :: int
  d_terminal_max :: int
  d_exec_commands :: "string list"
  d_command_args :: int
  d_command_arg_bytes :: int
  d_ws_read_limit :: int
  d_git_enabled :: bool
  d_git_hosts :: "string list"
  d_git_clone_timeout :: int
  d_git_max_bytes :: int

definition config_to_proto :: "config \<Rightarrow> config_data" where
  "config_to_proto cfg = \<lparr>
     d_base_domain = g_base_domain cfg,
     d_default_memory = g_default_memory cfg,
     d_reserved_system_memory = g_reserved_system_memory cfg,
     d_overcommit = g_overcommit cfg,
     d_max_burst = g_max_burst cfg,
     d_default_cpu = g_default_cpu cfg,
     d_reserved_system_cpu = g_reserved_system_cpu cfg,
     d_cpu_overcommit = g_cpu_overcommit cfg,
     d_max_cpu_burst = g_max_cpu_burst cfg,
     d_cpu_period = g_cpu_period cfg,
     d_cpu_shares = g_cpu_shares cfg,
     d_high_load_shares = g_high_load_shares cfg,
     d_high_load_count = i32 (g_high_load_count cfg),
     d_stop_timeout = i32 (g_stop_timeout cfg),
     d_max_log_size = g_max_log_size cfg,
     d_max_log_files = g_max_log_files cfg,
     d_container_disk_quota = g_container_disk_quota cfg,
     d_reserved_prefixes = g_reserved_prefixes cfg,
     d_blocked_patterns = g_blocked_patterns cfg,
     d_max_volumes = i32 (g_max_volumes cfg),
     d_max_containers = i32 (g_max_containers cfg),
     d_ttl_hours = g_ttl_hours cfg,
     d_pids_limit = g_pids_limit cfg,
     d_memory_swap = g_memory_swap cfg,
     d_builds_enabled = g_builds_enabled cfg,
     d_build_memory = g_build_memory cfg,
     d_build_cpu_quota = g_build_cpu_quota cfg,
     d_build_cpu_period = g_build_cpu_period cfg,
     d_build_memory_swap = g_build_memory_swap cfg,
     d_build_pids_limit = g_build_pids_limit cfg,
     d_kaniko_image = g_kaniko_image cfg,
     d_max_build_minutes = g_max_build_minutes cfg,
     d_max_builds = i32 (g_max_builds cfg),
     d_max_upload = g_max_upload cfg,
     d_max_archive = g_max_archive cfg,
     d_max_unpacked = g_max_unpacked cfg,
     d_max_build_log = g_max_build_log cfg,
     d_build_cancel_poll = g_build_cancel_poll cfg,
     d_ttl_interval = g_ttl_interval cfg,
     d_gc_interval = g_gc_interval cfg,
     d_stale_build_minutes = g_stale_build_minutes cfg,
     d_event_sync = g_event_sync cfg,
     d_event_reconnect = g_event_reconnect cfg,
     d_build_outbox_interval = g_build_outbox_interval cfg,
     d_build_outbox_batch = i32 (g_build_outbox_batch cfg),
     d_create_workers = i32 (g_create_workers cfg),
     d_max_attempts = i32 (g_max_attempts cfg),
     d_create_timeout = g_create_timeout cfg,
     d_max_queued_creates = i32 (g_max_queued_creates cfg),
     d_outbox_interval = g_outbox_interval cfg,
     d_outbox_batch = i32 (g_outbox_batch cfg),
     d_report_interval = g_report_interval cfg,
     d_max_staged = g_max_staged cfg,
     d_max_queued_builds = i32 (g_max_queued_builds cfg),
     d_compose_upload_max = g_compose_upload_max cfg,
     d_compose_timeout = g_compose_timeout cfg,
     d_compose_workers = i32 (g_compose_workers cfg),
     d_compose_outbox_interval = g_compose_outbox_interval cfg,
     d_compose_outbox_batch = i32 (g_compose_outbox_batch cfg),
     d_compose_max_attempts = i32 (g_compose_max_attempts cfg),
     d_max_queued_deploys = i32 (g_max_queued_deploys cfg),
     d_compose_build_poll = g_compose_build_poll cfg,
     d_dependency_timeout = g_dependency_timeout cfg,
     d_dependency_poll = g_dependency_poll cfg,
     d_coordinator_interval = g_coordinator_interval cfg,
     d_min_free_disk = g_min_free_disk cfg,
     d_log_tail_lines = i32 (g_log_tail_lines cfg),
     d_log_streams = i32 (g_log_streams cfg),
     d_terminal_sessions = i32 (g_terminal_sessions cfg),
     d_terminal_idle = g_terminal_idle cfg,
     d_terminal_max = g_terminal_max cfg,
     d_exec_commands = g_exec_commands cfg,
     d_command_args = i32 (g_command_args cfg),
     d_command_arg_bytes = i32 (g_command_arg_bytes cfg),
     d_ws_read_limit = g_ws_read_limit cfg,
     d_git_enabled = g_git_enabled cfg,
     d_git_hosts = g_git_hosts cfg,
     d_git_clone_timeout = g_git_clone_timeout cfg,
     d_git_max_bytes = g_git_max_bytes cfg \<rparr>"

definition config_from_proto :: "config_data \<Rightarrow> config \<Rightarrow> config" where
  "config_from_proto req cfg = cfg\<lparr>
     g_base_domain := d_base_domain req,
     g_default_memory := d_default_memory req,
     g_reserved_system_memory := d_reserved_system_memory req,
     g_overcommit := d_overcommit req,
     g_max_burst := d_max_burst req,
     g_default_cpu := d_default_cpu req,
     g_reserved_system_cpu := d_reserved_system_cpu req,
     g_cpu_overcommit := d_cpu_overcommit req,
     g_max_cpu_burst := d_max_cpu_burst req,
     g_cpu_period := d_cpu_period req,
     g_cpu_shares := d_cpu_shares req,
     g_high_load_shares := d_high_load_shares req,
     g_high_load_count := d_high_load_count req,
     g_stop_timeout := d_stop_timeout req,
     g_max_log_size := d_max_log_size req,
     g_max_log_files := d_max_log_files req,
     g_container_disk_quota := d_container_disk_quota req,
     g_reserved_prefixes := d_reserved_prefixes req,
     g_blocked_patterns := d_blocked_patterns req,
     g_max_volumes := d_max_volumes req,
     g_max_containers := d_max_containers req,
     g_ttl_hours := d_ttl_hours req,
     g_pids_limit := d_pids_limit req,
     g_memory_swap := d_memory_swap req,
     g_builds_enabled := d_builds_enabled req,
     g_build_memory := d_build_memory req,
     g_build_cpu_quota := d_build_cpu_quota req,
     g_build_cpu_period := d_build_cpu_period req,
     g_build_memory_swap := d_build_memory_swap req,
     g_build_pids_limit := d_build_pids_limit req,
     g_kaniko_image := d_kaniko_image req,
     g_max_build_minutes := d_max_build_minutes req,
     g_max_builds := d_max_builds req,
     g_max_upload := d_max_upload req,
     g_max_archive := d_max_archive req,
     g_max_unpacked := d_max_unpacked req,
     g_max_build_log := d_max_build_log req,
     g_build_cancel_poll := d_build_cancel_poll req,
     g_ttl_interval := d_ttl_interval req,
     g_gc_interval := d_gc_interval req,
     g_stale_build_minutes := d_stale_build_minutes req,
     g_event_sync := d_event_sync req,
     g_event_reconnect := d_event_reconnect req,
     g_build_outbox_interval := d_build_outbox_interval req,
     g_build_outbox_batch := d_build_outbox_batch req,
     g_create_workers := d_create_workers req,
     g_max_attempts := d_max_attempts req,
     g_create_timeout := d_create_timeout req,
     g_max_queued_creates := d_max_queued_creates req,
     g_outbox_interval := d_outbox_interval req,
     g_outbox_batch := d_outbox_batch req,
     g_report_interval := d_report_interval req,
     g_max_staged := d_max_staged req,
     g_max_queued_builds := d_max_queued_builds req,
     g_compose_upload_max := d_compose_upload_max req,
     g_compose_timeout := d_compose_timeout req,
     g_compose_workers := d_compose_workers req,
     g_compose_outbox_interval := d_compose_outbox_interval req,
     g_compose_outbox_batch := d_compose_outbox_batch req,
     g_compose_max_attempts := d_compose_max_attempts req,
     g_max_queued_deploys := d_max_queued_deploys req,
     g_compose_build_poll := d_compose_build_poll req,
     g_dependency_timeout := d_dependency_timeout req,
     g_dependency_poll := d_dependency_poll req,
     g_coordinator_interval := d_coordinator_interval req,
     g_min_free_disk := d_min_free_disk req,
     g_log_tail_lines := d_log_tail_lines req,
     g_log_streams := d_log_streams req,
     g_terminal_sessions := d_terminal_sessions req,
     g_terminal_idle := d_terminal_idle req,
     g_terminal_max := d_terminal_max req,
     g_exec_commands := d_exec_commands req,
     g_command_args := d_command_args req,
     g_command_arg_bytes := d_command_arg_bytes req,
     g_ws_read_limit := d_ws_read_limit req,
     g_git_enabled := d_git_enabled req,
     g_git_hosts := d_git_hosts req,
     g_git_clone_timeout := d_git_clone_timeout req,
     g_git_max_bytes := d_git_max_bytes req \<rparr>"

text \<open>The fields that are int in the configuration and int32 on the wire.\<close>

definition config_int_fields :: "config \<Rightarrow> int list" where
  "config_int_fields cfg = [g_high_load_count cfg,
     g_stop_timeout cfg,
     g_max_volumes cfg,
     g_max_containers cfg,
     g_max_builds cfg,
     g_build_outbox_batch cfg,
     g_create_workers cfg,
     g_max_attempts cfg,
     g_max_queued_creates cfg,
     g_outbox_batch cfg,
     g_max_queued_builds cfg,
     g_compose_workers cfg,
     g_compose_outbox_batch cfg,
     g_compose_max_attempts cfg,
     g_max_queued_deploys cfg,
     g_log_tail_lines cfg,
     g_log_streams cfg,
     g_terminal_sessions cfg,
     g_command_args cfg,
     g_command_arg_bytes cfg]"

definition data_int_fields :: "config_data \<Rightarrow> int list" where
  "data_int_fields d = [d_high_load_count d,
     d_stop_timeout d,
     d_max_volumes d,
     d_max_containers d,
     d_max_builds d,
     d_build_outbox_batch d,
     d_create_workers d,
     d_max_attempts d,
     d_max_queued_creates d,
     d_outbox_batch d,
     d_max_queued_builds d,
     d_compose_workers d,
     d_compose_outbox_batch d,
     d_compose_max_attempts d,
     d_max_queued_deploys d,
     d_log_tail_lines d,
     d_log_streams d,
     d_terminal_sessions d,
     d_command_args d,
     d_command_arg_bytes d]"

section \<open>The methods\<close>

definition get_config_rpc :: "scope option \<Rightarrow> manager \<Rightarrow> goerr + config_data" where
  "get_config_rpc ctx m = (case require_admin_scope ctx of
       Some e \<Rightarrow> Inl (to_grpc e) | None \<Rightarrow> Inr (config_to_proto (mg_config m)))"

definition update_config_rpc ::
    "(string \<Rightarrow> string \<Rightarrow> bool option) \<Rightarrow> (save_step \<Rightarrow> goerr option) \<Rightarrow> scope option \<Rightarrow> config_data \<Rightarrow> manager
     \<Rightarrow> goerr option \<times> manager \<times> bool" where
  "update_config_rpc re fault ctx req m = (case require_admin_scope ctx of
       Some e \<Rightarrow> (Some (to_grpc e), m, False)
     | None \<Rightarrow> (case update_config re fault (config_from_proto req (mg_config m)) m of
         (err, m', rebalance) \<Rightarrow> (map_option to_grpc err, m', rebalance)))"

record builder_config =
  bc_build_memory :: int
  bc_build_cpu_quota :: int
  bc_build_cpu_period :: int
  bc_build_memory_swap :: rat
  bc_build_pids_limit :: int
  bc_build_network :: string
  bc_kaniko_image :: string
  bc_max_build_minutes :: int
  bc_max_builds :: int
  bc_max_unpacked :: int
  bc_max_build_log :: int
  bc_build_cancel_poll :: int

definition builder_config_rpc :: "scope option \<Rightarrow> manager \<Rightarrow> goerr + builder_config" where
  "builder_config_rpc ctx m = (let cfg = mg_config m in case require_system_scope ctx of
       Some e \<Rightarrow> Inl (to_grpc e)
     | None \<Rightarrow> Inr \<lparr>
     bc_build_memory = g_build_memory cfg,
     bc_build_cpu_quota = g_build_cpu_quota cfg,
     bc_build_cpu_period = g_build_cpu_period cfg,
     bc_build_memory_swap = g_build_memory_swap cfg,
     bc_build_pids_limit = g_build_pids_limit cfg,
     bc_build_network = g_build_network cfg,
     bc_kaniko_image = g_kaniko_image cfg,
     bc_max_build_minutes = g_max_build_minutes cfg,
     bc_max_builds = i32 (g_max_builds cfg),
     bc_max_unpacked = g_max_unpacked cfg,
     bc_max_build_log = g_max_build_log cfg,
     bc_build_cancel_poll = g_build_cancel_poll cfg \<rparr>)"

record telemetry_config =
  tc_log_tail_lines :: int
  tc_log_streams :: int
  tc_terminal_sessions :: int
  tc_terminal_idle :: int
  tc_terminal_max :: int
  tc_exec_commands :: "string list"
  tc_command_args :: int
  tc_command_arg_bytes :: int
  tc_ws_read_limit :: int

definition telemetry_config_rpc :: "scope option \<Rightarrow> manager \<Rightarrow> goerr + telemetry_config" where
  "telemetry_config_rpc ctx m = (let cfg = mg_config m in case require_system_scope ctx of
       Some e \<Rightarrow> Inl (to_grpc e)
     | None \<Rightarrow> Inr \<lparr>
     tc_log_tail_lines = i32 (g_log_tail_lines cfg),
     tc_log_streams = i32 (g_log_streams cfg),
     tc_terminal_sessions = i32 (g_terminal_sessions cfg),
     tc_terminal_idle = g_terminal_idle cfg,
     tc_terminal_max = g_terminal_max cfg,
     tc_exec_commands = g_exec_commands cfg,
     tc_command_args = i32 (g_command_args cfg),
     tc_command_arg_bytes = i32 (g_command_arg_bytes cfg),
     tc_ws_read_limit = g_ws_read_limit cfg \<rparr>)"

section \<open>Both directions\<close>

lemma from_to_proto:
  "\<forall>x \<in> set (config_int_fields cfg). in_i32 x \<Longrightarrow> config_from_proto (config_to_proto cfg) cfg = cfg"
  by (simp add: config_from_proto_def config_to_proto_def config_int_fields_def i32_id)

lemma to_from_proto:
  "\<forall>x \<in> set (data_int_fields d). in_i32 x \<Longrightarrow> config_to_proto (config_from_proto d cfg) = d"
  by (simp add: config_from_proto_def config_to_proto_def data_int_fields_def i32_id)

end
