(* ===== verification/BuildProps.thy ===== *)
theory BuildProps
  imports ConfigApi StartSteps Samples Commits
begin

text \<open>Properties of builds and of the gRPC surface of the core service.\<close>

section \<open>Sample rows\<close>

definition sample_build :: build where
  "sample_build = \<lparr> b_id = 50, b_image = 60, b_owner = 7, b_project = None, b_service = [],
     b_status = BRunning, b_log_path = ''build-logs/1.log'', b_archive = ''build-archives/1.zip'',
     b_started = 0, b_finished = None \<rparr>"

definition sample_build_image :: image where
  "sample_build_image = \<lparr> i_id = 60, i_owner = 7, i_tag = ''app:v1'', i_size_mb = 0, i_metadata = [],
     i_status = IBuilding, i_observed = None, i_last_error = None, i_created = 0 \<rparr>"

definition sample_staged :: staged where
  "sample_staged = \<lparr> so_id = 70, so_owner = 8, so_key = ''build-archives/0.zip'', so_kind = ''build_archive'',
     so_bytes = 1024, so_status = StActive, so_created = - 100000000000000, so_updated = - 100000000000000,
     so_released = None \<rparr>"

definition build_world :: world where
  "build_world = sample_world\<lparr>w_db := empty_db\<lparr>t_builds := [sample_build], t_images := [sample_build_image],
     t_staged := [sample_staged]\<rparr>\<rparr>"

section \<open>Errors over gRPC\<close>

lemma grpc_code_mk_err:
  "grpc_code (mk_err k m) = (if k \<in> {ErrBadRequest, ErrInvalidFileFormat} then InvalidArgument
     else if k \<in> {ErrInvalidCredentials, ErrInvalidToken, ErrUnauthorized} then Unauthenticated
     else if k = ErrForbidden then PermissionDenied else if k = ErrNotFound then CodeNotFound
     else if k = ErrAlreadyExists then CodeAlreadyExists
     else if k \<in> {ErrLimitExceeded, ErrQuotaExceeded, ErrResourceExhausted, ErrHostExhausted} then ResourceExhausted
     else if k \<in> {ErrConflict, ErrResourceInUse} then FailedPrecondition
     else if k = ErrTimeout then DeadlineExceeded else if k = ErrUnavailable then Unavailable else Internal)"
  by (auto simp: grpc_code_def)

lemma grpc_code_internal: "grpc_code (wrap_err ErrInternal m (StatusErr c t)) = Internal"
  by (simp add: grpc_code_def)

lemma grpc_code_range: "grpc_code e \<noteq> Aborted" "grpc_code e \<noteq> OtherCode"
  by (auto simp: grpc_code_def)

text \<open>
  An error that leaves a service as a gRPC status and is translated back by the client keeps
  its class, and unless it is internal it keeps the message the user is shown.
\<close>

theorem errors_cross_grpc:
  "grpc_code (from_grpc (to_grpc e)) = grpc_code e
   \<and> (grpc_code e = Internal \<or> safe_message (Some e) = []
      \<or> safe_message (Some (from_grpc (to_grpc e))) = safe_message (Some e))"
proof (cases "grpc_code e")
qed (auto simp: to_grpc_def Let_def grpc_code_mk_err grpc_code_internal grpc_code_range
    unauthenticated_kind_def resource_exhausted_kind_def conflict_kind_def)

section \<open>Finished builds\<close>

definition has_build :: "build \<Rightarrow> db \<Rightarrow> bool" where
  "has_build b d \<longleftrightarrow> find (\<lambda>q. b_id q = b_id b) (t_builds d) = Some b"

lemma get_build_Inr: "get_build bid d = Inr b \<longleftrightarrow> has_build b d \<and> b_id b = bid"
  by (auto simp: get_build_def find_row_def has_build_def split: option.splits dest: find_SomeD)

lemma has_build_update:
  assumes "has_build b d" and "\<not> P b" and "\<And>q. b_id (f q) = b_id q"
  shows "find (\<lambda>q. b_id q = b_id b) (update_where P f (t_builds d)) = Some b"
  using assms find_update_where[of P "\<lambda>q. b_id q = b_id b" f "t_builds d"] by (simp add: has_build_def)

lemma keeps_other_tables:
  assumes "\<And>t d d'. f t d = Inr d' \<Longrightarrow> t_builds d' = t_builds d"
  shows "keeps (has_build b) (exec f)"
  using assms by (intro keeps_exec) (auto simp: has_build_def)

lemma keeps_unrelated:
  "keeps (has_build b) (exec (release_staged key))" "keeps (has_build b) (exec (update_project_status pid s e))"
  "keeps (has_build b) (exec (request_job_cancel pid))"
  by (auto intro!: keeps_other_tables simp: release_staged_def update_staged_def write_staged_def Let_def
      accept_def bind_res_def update_project_status_def request_job_cancel_def update_jobs_def
      split: option.splits if_splits sum.splits)

lemma write_images_builds: "write_images t d = Inr d' \<Longrightarrow> t_builds d' = t_builds d"
  by (auto simp: write_images_def accept_def split: option.splits)

lemma keeps_finished:
  assumes "is_build_terminal (b_status b)"
  shows "keeps (has_build b) (exec (mark_build_failed_and_delete_image bid iid s))"
    "keeps (has_build b) (exec (update_build_and_image_size bid iid s n))"
    "keeps (has_build b) (exec_get (start_build bid))"
proof -
  have u: "has_build b d \<Longrightarrow> find (\<lambda>q. b_id q = b_id b) (update_where (open_build bid) (finish_build t s) (t_builds d)) = Some b"
    for d t using assms by (intro has_build_update) (auto simp: open_build_def finish_build_def)
  show "keeps (has_build b) (exec (mark_build_failed_and_delete_image bid iid s))"
    by (intro keeps_exec) (use u in \<open>auto simp: mark_build_failed_and_delete_image_def has_build_def Let_def split: if_splits\<close>)
  show "keeps (has_build b) (exec (update_build_and_image_size bid iid s n))"
    by (intro keeps_exec) (use u in \<open>auto simp: update_build_and_image_size_def has_build_def Let_def
        split: if_splits dest!: write_images_builds\<close>)
  show "keeps (has_build b) (exec_get (start_build bid))"
  proof (intro keeps_exec_get)
    fix t d x d' assume h: "has_build b d" and s: "start_build bid t d = Inr (x, d')"
    have "find (\<lambda>q. b_id q = b_id b) (update_where (\<lambda>b. b_id b = bid \<and> b_status b = BPending)
        (\<lambda>b. b\<lparr>b_status := BRunning, b_finished := None\<rparr>) (t_builds d)) = Some b"
      using assms h by (intro has_build_update) auto
    then show "has_build b d'" using s h
      by (auto simp: start_build_def Let_def has_build_def bind_res_def split: option.splits sum.splits)
  qed
qed

lemmas keeps_builds = keeps_unrelated keeps_intros

lemma keeps_build_cleanup:
  "keeps (has_build b) (cleanup_build_archive q)" "keeps (has_build b) (cascade_cancel ctx q)"
  "keeps (has_build b) (cleanup_built_image_manifest q)"
  by (auto simp: cleanup_build_archive_def release_staged_build_archive_def delete_object_def cascade_cancel_def
      cancel_deployment_for_build_def request_cancel_def cleanup_built_image_manifest_def
      cleanup_manifest_for_image_def remove_from_registry_def split: option.splits intro!: keeps_builds)

lemma keeps_build_records:
  assumes "is_build_terminal (b_status b)"
  shows "keeps (has_build b) (start_build_record bid)" "keeps (has_build b) (cancel_build_record ctx bid)"
    "keeps (has_build b) (complete_build_record ctx bid iid s)"
proof -
  note k = keeps_finished[OF assms] keeps_build_cleanup keeps_builds
  show "keeps (has_build b) (start_build_record bid)" unfolding start_build_record_def by (intro k)
  show "keeps (has_build b) (cancel_build_record ctx bid)" unfolding cancel_build_record_def by (intro k)
  show "keeps (has_build b) (complete_build_record ctx bid iid s)"
    unfolding complete_build_record_def complete_built_image_def record_built_image_def Let_def used_after_replacement_def used_disk_mb_def
    by (intro k)
qed

lemma keeps_run_prune:
  assumes "is_build_terminal (b_status b)"
  shows "keeps (has_build b) run_prune"
  unfolding run_prune_def fail_stale_build_def cleanup_stale_staged_objects_def cleanup_stale_item_def delete_object_def
  by (intro keeps_build_records[OF assms] keeps_builds)

text \<open>
  C16. A build that has finished is never touched again: however often it is started, cancelled,
  completed with another outcome or collected as stale, its row stays the one it was.
\<close>

theorem finished_build_is_frozen:
  assumes "get_build bid (w_db w) = Inr b" and "is_build_terminal (b_status b)"
  shows "get_build bid (w_db (snd (start_build_record x w))) = Inr b
     \<and> get_build bid (w_db (snd (cancel_build_record ctx x w))) = Inr b
     \<and> get_build bid (w_db (snd (complete_build_record ctx x iid s w))) = Inr b
     \<and> get_build bid (w_db (snd (run_prune w))) = Inr b"
  using assms keeps_build_records[OF assms(2)] keeps_run_prune[OF assms(2)]
  by (simp add: get_build_Inr keeps_def)

theorem finished_build_is_frozen_witness:
  "get_build 50 (w_db (snd (complete_build_record None 50 60 BSuccess
     (build_world\<lparr>w_db := (w_db build_world)\<lparr>t_builds := [sample_build\<lparr>b_status := BCanceled\<rparr>]\<rparr>\<rparr>))))
   = Inr (sample_build\<lparr>b_status := BCanceled\<rparr>)"
proof -
  let ?w = "build_world\<lparr>w_db := (w_db build_world)\<lparr>t_builds := [sample_build\<lparr>b_status := BCanceled\<rparr>]\<rparr>\<rparr>"
  have "get_build 50 (w_db ?w) = Inr (sample_build\<lparr>b_status := BCanceled\<rparr>)" by code_simp
  from finished_build_is_frozen[OF this, of 50 None 60 BSuccess] show ?thesis by simp
qed

section \<open>The quota of a finished build\<close>

lemma has_build_closed:
  assumes "has_build b0 d" and "\<not> is_build_terminal (b_status b0)"
  shows "find (\<lambda>q. b_id q = b_id b0) (update_where (open_build (b_id b0)) (finish_build t s) (t_builds d))
    = Some (finish_build t s b0)"
  using assms find_update_where[of "open_build (b_id b0)" "\<lambda>q. b_id q = b_id b0" "finish_build t s" "t_builds d"]
  by (auto simp: has_build_def open_build_def finish_build_def)

lemma open_rows:
  assumes "has_build b0 d" and "\<not> is_build_terminal (b_status b0)"
  shows "rows_affected (open_build (b_id b0)) (t_builds d) \<noteq> 0"
proof -
  have "b0 \<in> set (t_builds d)" using assms(1) by (auto simp: has_build_def dest: find_SomeD)
  then show ?thesis using assms(2) by (auto simp: rows_affected_0 open_build_def)
qed

lemma has_build_finish: "has_build (finish_build t s b0) d \<longleftrightarrow>
    find (\<lambda>q. b_id q = b_id b0) (t_builds d) = Some (finish_build t s b0)"
  by (simp add: has_build_def finish_build_def)

lemma mark_failed_closes:
  assumes "has_build b0 d" and "\<not> is_build_terminal (b_status b0)"
    and "mark_build_failed_and_delete_image (b_id b0) iid s t d = Inr d'"
  shows "has_build (finish_build t s b0) d'"
  using assms has_build_closed[OF assms(1,2)] open_rows[OF assms(1,2)]
  by (auto simp: mark_build_failed_and_delete_image_def Let_def has_build_finish)

lemma keeps_images: "keeps (\<lambda>d. t_images d = T) (cleanup_build_archive q)"
proof -
  have "keeps (\<lambda>d. t_images d = T) (exec (release_staged key))" for key
    by (intro keeps_exec) (auto simp: release_staged_def update_staged_def write_staged_def Let_def
        accept_def bind_res_def split: option.splits if_splits sum.splits)
  then show ?thesis
    unfolding cleanup_build_archive_def release_staged_build_archive_def delete_object_def
    by (intro keeps_intros)
qed

lemma used_after_replacement_Inr:
  assumes "used_after_replacement img w = (Inr left, w')"
  shows "w_db w' = w_db w \<and> w_env w' = w_env w \<and> (\<exists>used vol repl.
      get_user_used_disk (i_owner img) (w_db w) = Inr used \<and> get_user_volume_bytes (i_owner img) (w_db w) = Inr vol
    \<and> get_replacement_size (i_owner img) (i_tag img) (i_id img) (w_db w) = Inr repl
    \<and> left = max 0 (i64 (i64 (used + bytes_to_mb vol) - repl)))"
  using assms unfolding used_after_replacement_def used_disk_mb_def
  by (auto simp: seq_Inr_iff query_Inr Let_def max_def split: if_splits)

lemma built_image_accepted:
  assumes "update_build_and_image_size bid iid s mb t d = Inr d'" and "has_build b0 d"
    and "\<not> is_build_terminal (b_status b0)" and "b_id b0 = bid" and "get_image iid d = Inr img"
  shows "\<exists>i \<in> set (t_images d'). i_id i = iid \<and> i_owner i = i_owner img \<and> i_status i = IAvailable \<and> i_size_mb i = mb"
proof -
  have i: "img \<in> set (t_images d)" "i_id img = iid"
    using assms(5) by (auto simp: get_image_def find_row_def split: option.splits dest: find_SomeD)
  let ?f = "\<lambda>i. i\<lparr>i_size_mb := mb, i_status := IAvailable, i_observed := Some t, i_last_error := None\<rparr>"
  obtain others where "t_images d' = update_where (\<lambda>i. i_id i = iid) ?f (delete_where others (t_images d))"
    and "\<not> others img"
    using assms(1) open_rows[OF assms(2,3)] assms(4) i
    by (auto simp: update_build_and_image_size_def Let_def write_images_def accept_def split: option.splits)
  then have "?f img \<in> set (t_images d')" using i by (force simp: set_update_where)
  then show ?thesis using i by (intro bexI[of _ "?f img"]) simp_all
qed

lemma record_built_image_Inr:
  assumes "record_built_image ctx b0 iid BSuccess img repo bytes digest w = (Inr (), w')"
    and b0: "has_build b0 (w_db w)" "\<not> is_build_terminal (b_status b0)" and img: "get_image iid (w_db w) = Inr img"
  shows "(\<exists>t. has_build (finish_build t BFailedQuotaExceeded b0) (w_db w'))
    \<or> (\<exists>i n used vol repl. i \<in> set (t_images (w_db w')) \<and> i_id i = iid \<and> i_status i = IAvailable
     \<and> get_user_used_disk (i_owner img) (w_db w) = Inr used \<and> get_user_volume_bytes (i_owner img) (w_db w) = Inr vol
     \<and> get_replacement_size (i_owner img) (i_tag img) (i_id img) (w_db w) = Inr repl
     \<and> i64 (max 0 (i64 (i64 (used + bytes_to_mb vol) - repl)) + i_size_mb i)
         \<le> ui_quota_disk_mb (e_user (w_env w) n (i_owner img)))"
proof -
  let ?mb = "built_size_mb bytes"
  from assms(1)[unfolded record_built_image_def Let_def] obtain u w4 used w5 where
    u: "ask (\<lambda>e n. e_user e n (i_owner img)) w = (Inr u, w4)" and used: "used_after_replacement img w4 = (Inr used, w5)"
    and rest: "(if i64 (used + ?mb) > ui_quota_disk_mb u then
           seq (on_error (exec (mark_build_failed_and_delete_image (b_id b0) iid BFailedQuotaExceeded))
                  (\<lambda>e. fail (Wrapped (''failed to mark quota-exceeded build failed: '' @ error_text e) e))) (\<lambda>_.
           seq (ignore (perform (RegistryDelete repo digest))) (\<lambda>_.
           seq (cleanup_build_archive b0) (\<lambda>_. cascade_cancel ctx b0)))
         else seq (exec (update_build_and_image_size (b_id b0) iid BSuccess ?mb)) (\<lambda>_. cleanup_build_archive b0)) w5 = (Inr (), w')"
    unfolding seq_Inr_iff[of "ask _"] seq_Inr_iff[of "used_after_replacement _"] by auto
  have w4: "w_db w4 = w_db w" "w_env w4 = w_env w" using u by (auto simp: ask_Inr)
  have w5: "w_db w5 = w_db w" "w_env w5 = w_env w" using used_after_replacement_Inr[OF used] w4 by auto
  show ?thesis
  proof (cases "i64 (used + ?mb) > ui_quota_disk_mb u")
    case True
    from rest True obtain w6 where m: "exec (mark_build_failed_and_delete_image (b_id b0) iid BFailedQuotaExceeded) w5 = (Inr (), w6)"
      and c: "seq (ignore (perform (RegistryDelete repo digest))) (\<lambda>_. seq (cleanup_build_archive b0) (\<lambda>_. cascade_cancel ctx b0)) w6 = (Inr (), w')"
      by (auto simp: seq_Inr_iff[of "on_error _ _"] on_error_Inr)
    then obtain t where t: "mark_build_failed_and_delete_image (b_id b0) iid BFailedQuotaExceeded t (w_db w) = Inr (w_db w6)"
      using w5 by (auto simp: exec_Inr)
    let ?I = "has_build (finish_build t BFailedQuotaExceeded b0)"
    have h: "?I (w_db w6)" using mark_failed_closes[OF b0] t by auto
    have kk: "keeps ?I (seq (ignore (perform (RegistryDelete repo digest))) (\<lambda>_. seq (cleanup_build_archive b0) (\<lambda>_. cascade_cancel ctx b0)))"
      by (intro keeps_build_cleanup keeps_intros)
    have "?I (w_db w')" by (rule keepsD[where I = ?I and w = w6, OF kk h c])
    then show ?thesis by blast
  next
    case False
    from rest False obtain w6 where m: "exec (update_build_and_image_size (b_id b0) iid BSuccess ?mb) w5 = (Inr (), w6)"
      and c: "cleanup_build_archive b0 w6 = (Inr (), w')" by (auto simp: seq_Inr_iff)
    then obtain t where t: "update_build_and_image_size (b_id b0) iid BSuccess ?mb t (w_db w) = Inr (w_db w6)"
      using w5 by (auto simp: exec_Inr)
    obtain i where "i \<in> set (t_images (w_db w6))" "i_id i = iid" "i_status i = IAvailable" "i_size_mb i = ?mb"
      using built_image_accepted[OF t b0 refl img] by auto
    moreover have "t_images (w_db w') = t_images (w_db w6)"
      using keepsD[where I = "\<lambda>d. t_images d = t_images (w_db w6)" and w = w6, OF keeps_images refl c] .
    moreover have "u = e_user (w_env w) (w_tick w) (i_owner img)" using u by (auto simp: ask_Inr)
    ultimately show ?thesis using False used_after_replacement_Inr[OF used] w4
      by (intro disjI2) (simp add: not_less, metis)
  qed
qed

lemma complete_built_image_Inr:
  assumes "complete_built_image ctx b0 iid BSuccess w = (Inr (), w')"
  shows "\<exists>img w3. get_image iid (w_db w) = Inr img \<and> w_db w3 = w_db w \<and> w_env w3 = w_env w
    \<and> (exec (mark_build_failed_and_delete_image (b_id b0) iid BFailedInternal) w3 = (Inr (), w')
       \<or> (\<exists>repo bytes digest. record_built_image ctx b0 iid BSuccess img repo bytes digest w3 = (Inr (), w')))"
proof -
  from assms obtain img where i: "get_image iid (w_db w) = Inr img"
    and c: "(let (base, version) = parse_tag (i_tag img); repo = custom_repository_name (e_uuid_text (w_env w) (i_owner img)) base in
     seq (attempt (ask (\<lambda>e n. e_manifest e n repo version))) (\<lambda>r. case r of
         Inl e \<Rightarrow> exec (mark_build_failed_and_delete_image (b_id b0) iid BFailedInternal)
       | Inr (bytes, digest) \<Rightarrow> record_built_image ctx b0 iid BSuccess img repo bytes digest)) (tick w) = (Inr (), w')"
    unfolding complete_built_image_def tick_def
    by (auto simp: seq_Inr_iff[of "query _"] seq_Inr_iff[of get_env] query_Inr get_env_def)
  obtain base version where p: "parse_tag (i_tag img) = (base, version)" by (cases "parse_tag (i_tag img)")
  let ?repo = "custom_repository_name (e_uuid_text (w_env w) (i_owner img)) base"
  from c[unfolded p Let_def prod.case seq_Inr_iff[of "attempt _"]] obtain r w3 where
    r: "attempt (ask (\<lambda>e n. e_manifest e n ?repo version)) (tick w) = (Inr r, w3)"
    and k: "(case r of Inl e \<Rightarrow> exec (mark_build_failed_and_delete_image (b_id b0) iid BFailedInternal)
       | Inr (bytes, digest) \<Rightarrow> record_built_image ctx b0 iid BSuccess img ?repo bytes digest) w3 = (Inr (), w')" by auto
  have "w_db w3 = w_db w" "w_env w3 = w_env w" using quietD[OF quiet_attempt[OF quiet_query(3)] r] by auto
  then show ?thesis using i k by (intro exI[of _ img] exI[of _ w3]) (auto split: sum.splits)
qed

text \<open>
  C17. When a successful build is recorded, its image becomes available with the size the registry
  reports, and that size fits the disk quota of the owner together with what the owner already
  uses, the image it replaces not counted.
\<close>

theorem recorded_build_fits_quota:
  assumes "complete_build_record ctx bid iid BSuccess w = (Inr (), w')"
    and "get_build bid (w_db w) = Inr b0" and "\<not> is_build_terminal (b_status b0)"
    and "get_build bid (w_db w') = Inr b" and "b_status b = BSuccess"
  shows "\<exists>img i n used vol repl. get_image iid (w_db w) = Inr img
     \<and> i \<in> set (t_images (w_db w')) \<and> i_id i = iid \<and> i_status i = IAvailable
     \<and> get_user_used_disk (i_owner img) (w_db w) = Inr used \<and> get_user_volume_bytes (i_owner img) (w_db w) = Inr vol
     \<and> get_replacement_size (i_owner img) (i_tag img) (i_id img) (w_db w) = Inr repl
     \<and> i64 (max 0 (i64 (i64 (used + bytes_to_mb vol) - repl)) + i_size_mb i)
         \<le> ui_quota_disk_mb (e_user (w_env w) n (i_owner img))"
proof -
  have b0: "has_build b0 (w_db w)" "b_id b0 = bid" and b: "has_build b (w_db w')"
    using assms(2,4) by (auto simp: get_build_Inr)
  have nofail: False if "has_build (finish_build t s b0) (w_db w')" "s \<noteq> BSuccess" for s t
    using that b assms(5) b0(2) assms(4) by (auto simp: has_build_def finish_build_def get_build_Inr)
  have "complete_built_image ctx b0 iid BSuccess (w\<lparr>w_tick := Suc (w_tick w)\<rparr>) = (Inr (), w')"
    using assms(1-3) unfolding complete_build_record_def by (auto simp: seq_Inr_iff query_Inr)
  from complete_built_image_Inr[OF this] obtain img w3 where img: "get_image iid (w_db w) = Inr img"
    and w3: "w_db w3 = w_db w" "w_env w3 = w_env w"
    and k: "exec (mark_build_failed_and_delete_image (b_id b0) iid BFailedInternal) w3 = (Inr (), w')
      \<or> (\<exists>repo bytes digest. record_built_image ctx b0 iid BSuccess img repo bytes digest w3 = (Inr (), w'))" by (elim exE conjE) simp
  from k show ?thesis
  proof (elim disjE exE)
    assume "exec (mark_build_failed_and_delete_image (b_id b0) iid BFailedInternal) w3 = (Inr (), w')"
    then obtain t where "mark_build_failed_and_delete_image (b_id b0) iid BFailedInternal t (w_db w) = Inr (w_db w')"
      using w3 by (auto simp: exec_Inr)
    from nofail[OF mark_failed_closes[OF b0(1) assms(3) this]] show ?thesis by simp
  next
    fix repo bytes digest assume "record_built_image ctx b0 iid BSuccess img repo bytes digest w3 = (Inr (), w')"
    moreover have "\<not> has_build (finish_build t BFailedQuotaExceeded b0) (w_db w')" for t using nofail[of t BFailedQuotaExceeded] by auto
    ultimately show ?thesis using record_built_image_Inr[where w = w3 and img = img and ?b0.0 = b0] b0 assms(3) img w3 by metis
  qed
qed
theorem recorded_build_fits_quota_witness:
  "\<exists>w' b (img :: image) n used vol repl. complete_build_record (Some system_scope) 50 60 BSuccess build_world = (Inr (), w')
     \<and> get_build 50 (w_db w') = Inr b \<and> get_user_used_disk (i_owner img) (w_db build_world) = Inr used
     \<and> get_user_volume_bytes (i_owner img) (w_db build_world) = Inr vol
     \<and> i64 (max 0 (i64 (i64 (used + bytes_to_mb vol) - repl)) + 10)
         \<le> ui_quota_disk_mb (e_user (w_env build_world) n (i_owner img))"
proof -
  let ?r = "complete_build_record (Some system_scope) 50 60 BSuccess build_world"
  have "fst ?r = Inr ()" by code_simp
  then have r: "?r = (Inr (), snd ?r)" by (metis prod.collapse)
  have g: "get_build 50 (w_db build_world) = Inr sample_build" by code_simp
  have o: "\<not> is_build_terminal (b_status sample_build)" by code_simp
  have ok: "(case get_build 50 (w_db (snd ?r)) of Inl _ \<Rightarrow> False | Inr b \<Rightarrow> b_status b = BSuccess)" by code_simp
  then obtain b where b: "get_build 50 (w_db (snd ?r)) = Inr b" "b_status b = BSuccess" by (auto split: sum.splits)
  have sizes: "map i_size_mb (t_images (w_db (snd ?r))) = [10]" by code_simp
  from recorded_build_fits_quota[OF r g o b] show ?thesis
  proof (elim exE conjE)
    fix img i :: image and n used vol repl
    assume m: "i \<in> set (t_images (w_db (snd ?r)))" and x: "get_user_used_disk (i_owner img) (w_db build_world) = Inr used"
      "get_user_volume_bytes (i_owner img) (w_db build_world) = Inr vol"
      "i64 (max 0 (i64 (i64 (used + bytes_to_mb vol) - repl)) + i_size_mb i)
         \<le> ui_quota_disk_mb (e_user (w_env build_world) n (i_owner img))"
    from m have "i_size_mb i \<in> set [10]" using sizes by (metis imageI list.set_map)
    then have e: "i64 (max 0 (i64 (i64 (used + bytes_to_mb vol) - repl)) + 10)
         \<le> ui_quota_disk_mb (e_user (w_env build_world) n (i_owner img))" using x(3) by simp
    show ?thesis
      by (intro exI[of _ "snd ?r"] exI[of _ b] exI[of _ img] exI[of _ n] exI[of _ used] exI[of _ vol] exI[of _ repl]
          conjI r b(1) x(1) x(2) e)
  qed
qed

section \<open>Requests that fail\<close>

text \<open>The tables a build request fills.\<close>

definition build_tables :: "db \<Rightarrow> build list \<times> image list \<times> build_message outbox list" where
  "build_tables d = (t_builds d, t_images d, t_bout d)"

definition job_added :: "id \<times> id \<Rightarrow> build list \<times> image list \<times> build_message outbox list
    \<Rightarrow> build list \<times> image list \<times> build_message outbox list \<Rightarrow> bool" where
  "job_added x T T' \<longleftrightarrow> (\<exists>b i row. T' = (fst T @ [b], fst (snd T) @ [i], snd (snd T) @ [row])
     \<and> b_id b = fst x \<and> b_image b = snd x \<and> b_status b = BPending \<and> i_id i = snd x \<and> i_status i = IBuilding
     \<and> ob_ref row = fst x \<and> ob_status row = ObPending
     \<and> bm_build (ob_payload row) = fst x \<and> bm_image (ob_payload row) = snd x)"

lemma keeps_staged:
  "keeps (\<lambda>d. build_tables d = T) (exec (release_staged key))"
  "keeps (\<lambda>d. build_tables d = T) (exec (update_staged_bytes key n))"
  "keeps (\<lambda>d. build_tables d = T) (exec (reserve_staged so n))"
proof -
  have t: "write_staged t d = Inr d' \<Longrightarrow> build_tables d' = build_tables d" for t d d'
    by (auto simp: write_staged_def accept_def build_tables_def split: option.splits)
  show "keeps (\<lambda>d. build_tables d = T) (exec (release_staged key))"
    "keeps (\<lambda>d. build_tables d = T) (exec (update_staged_bytes key n))"
    "keeps (\<lambda>d. build_tables d = T) (exec (reserve_staged so n))"
    by (auto intro!: keeps_exec simp: release_staged_def update_staged_bytes_def update_staged_def
        reserve_staged_def bind_res_def Let_def dest!: t split: if_splits sum.splits)
qed

lemma aside_admission:
  "aside build_tables ensure_image_builds_enabled" "aside build_tables (build_disk_floor k)" "aside build_tables (check_labelled l e)" "aside build_tables (check_input e)"
  "aside build_tables (admit_build owner)" "aside build_tables (upload_stream buf key rd broken)"
  unfolding ensure_image_builds_enabled_def build_disk_floor_def ensure_host_disk_floor_projected_def check_labelled_def
    check_input_def admit_build_def acquire_build_capacity_lock_def ensure_build_queue_limit_def
    ensure_build_host_capacity_def used_disk_mb_def
  by (intro aside_keeps keeps_intros; auto simp: upload_stream_def split: option.splits intro!: aside_keeps keeps_intros)+

lemma aside_reservation:
  "aside build_tables (reserve_staged_build_archive owner key n)" "aside build_tables (discard_staged_archive key)"
  "aside build_tables (update_staged_build_archive_bytes key)"
  unfolding reserve_staged_build_archive_def discard_staged_archive_def release_staged_build_archive_def
    update_staged_build_archive_bytes_def ensure_user_staged_disk_quota_def used_disk_mb_def delete_object_def
    stat_object_def Let_def
  by (intro aside_keeps keeps_staged keeps_intros)+

lemma job_added_create:
  assumes "create_queued_build (queued_image iid owner tag) (queued_build bid iid owner t0 input)
     (new_outbox rid bid bid ex key (queued_message bid iid owner tag t0 input)) t d = Inr d'"
  shows "job_added (bid, iid) (build_tables d) (build_tables d')"
  using assms
  by (auto simp: create_queued_build_def insert_image_def map_err_def write_images_def accept_def bind_res_def
      insert_build_def insert_build_outbox_def queued_image_def queued_build_def queued_message_def new_outbox_def
      build_tables_def job_added_def fresh_row_def split: option.splits sum.splits if_splits)

lemma commits_job: "commits build_tables job_added (run_create_build_job ctx input)"
  unfolding run_create_build_job_def insert_build_job_def Let_def
  by (intro commits_branches commits_seq commits_write aside_admission aside_pure commits_fail) (rule job_added_create)

lemmas commits_intros = commits_branches commits_seq commits_fail commits_on_error aside_admission aside_reservation aside_pure
  aside_on_error aside_seq aside_fail

text \<open>
  A request to build from an archive that fails, at whatever point, leaves no build, no image
  and no message behind.  A request that succeeds adds the three in one transaction: the pending
  build it returns, the image in status building it will fill, and the message for the builder that
  names them both.
\<close>

theorem build_request_is_atomic:
  assumes "create_build_from_archive ctx buf input w = (r, w')"
  shows "case r of Inl e \<Rightarrow> build_tables (w_db w') = build_tables (w_db w)
     | Inr bid \<Rightarrow> \<exists>iid. job_added (bid, iid) (build_tables (w_db w)) (build_tables (w_db w'))"
proof -
  have "commits build_tables (\<lambda>bid T T'. \<exists>iid. job_added (bid, iid) T T') (create_build_from_archive ctx buf input)"
    unfolding create_build_from_archive_def create_build_job_def Let_def
    by (intro commits_fst commits_job commits_intros)
  then show ?thesis using assms unfolding commits_def by blast
qed

definition sample_archive_input :: archive_input where
  "sample_archive_input = \<lparr> ai_tag = ''app:v2'', ai_context = [], ai_dockerfile = ''Dockerfile'', ai_args = [],
     ai_name = ''src.zip'', ai_chunks = Some [''data''], ai_broken = None \<rparr>"

theorem build_request_is_atomic_witness:
  "\<exists>bid w' iid. create_build_from_archive (Some (user_scope 7 ''alice'' ''user'')) 4 sample_archive_input build_world
       = (Inr bid, w')
     \<and> job_added (bid, iid) (build_tables (w_db build_world)) (build_tables (w_db w'))"
proof -
  let ?r = "create_build_from_archive (Some (user_scope 7 ''alice'' ''user'')) 4 sample_archive_input build_world"
  have "is_ok (fst ?r)" by code_simp
  then obtain bid where "fst ?r = Inr bid" by (cases "fst ?r") auto
  then have r: "?r = (Inr bid, snd ?r)" by (metis prod.collapse)
  from build_request_is_atomic[OF r] show ?thesis using r by auto
qed

section \<open>The status of a build\<close>

text \<open>
  C18. The method GetBuildStatus, which the builder polls to learn of a cancellation, gives an
  answer to nobody: its handler admits system callers only, and the service it asks shows a build
  to users and administrators only.
\<close>

theorem build_status_answers_nobody:
  "\<exists>c text. fst (build_status_rpc ctx bid w) = Inl (StatusErr c text)"
proof -
  have refused: "\<not> is_ok (fst (get_build_for ctx i w'))" if "require_system_scope ctx = None" for i w'
  proof -
    have no: "require_owner_access ctx owner \<noteq> None" for owner
      using that by (auto simp: require_system_scope_def require_owner_access_def allows_owner_def
          split: sum.splits if_splits)
    show ?thesis using no
      by (auto simp del: not_None_eq simp: get_build_for_def seq_def query_def ext_def check_def fail_def Let_def is_ok_def
          split: prod.splits sum.splits option.splits)
  qed
  have "\<not> is_ok (fst (build_status_rpc ctx bid w))"
  proof (cases "require_system_scope ctx")
    case None
    show ?thesis
    proof (cases bid)
      case (Some i)
      obtain r1 w1 where g: "get_build_for ctx i w = (r1, w1)" by (cases "get_build_for ctx i w")
      then obtain e where "r1 = Inl e" using refused[OF None, of i w] by (cases r1) auto
      then show ?thesis using None Some g
        by (simp add: build_status_rpc_def guarded_def parsed_def reply_def seq_def on_error_def fail_def)
    qed (simp add: build_status_rpc_def guarded_def parsed_def None fail_def)
  qed (simp add: build_status_rpc_def guarded_def fail_def)
  moreover have "status_only (build_status_rpc ctx bid)"
    unfolding build_status_rpc_def by (intro status_intros)
  ultimately show ?thesis
    unfolding status_only_def is_ok_def by (metis old.sum.simps(6) prod.collapse sum.exhaust_sel old.sum.simps(5))
qed

section \<open>Stale archives\<close>

lemma seq_now: "seq now f w = f (e_now (w_env w) (w_tick w)) (tick w)"
  by (simp add: seq_def now_def sample_def tick_def)

lemma stale_items_log:
  "for_each cleanup_stale_item items w = (r, w') \<Longrightarrow>
     \<exists>l. w_log w' = w_log w @ l \<and> set l \<subseteq> (\<lambda>s. DeleteObject (so_key s)) ` set items"
proof (induction items arbitrary: w)
  case (Cons s items)
  obtain r1 w1 where 1: "cleanup_stale_item s w = (r1, w1)" by (cases "cleanup_stale_item s w")
  have one: "\<exists>l. w_log w1 = w_log w @ l \<and> set l \<subseteq> {DeleteObject (so_key s)}" and ok: "is_ok r1"
    using 1 by (auto simp: cleanup_stale_item_def delete_object_def seq_def attempt_def perform_def ext_def ret_def
        ignore_def exec_def Let_def is_ok_def split: option.splits sum.splits prod.splits)
  then have "for_each cleanup_stale_item items w1 = (r, w')"
    using Cons.prems 1 by (cases r1) (auto simp: seq_def)
  from Cons.IH[OF this] one show ?case by fastforce
qed (auto simp: ret_def)

text \<open>
  C19. The garbage collector deletes the object of a staged archive only when its reservation has
  not been touched for the configured time and no build or deployment that may still read the
  object is active.
\<close>

theorem collector_spares_active_sources:
  assumes "cleanup_stale_staged_objects w = (r, w')"
    and "w_log w' = w_log w @ l" and "DeleteObject key \<in> set l"
  shows "\<exists>s \<in> set (t_staged (w_db w)). so_key s = key \<and> so_status s = StActive
     \<and> so_updated s < e_now (w_env w) (w_tick w) - minutes (g_stale_build_minutes (e_config (w_env w)))
     \<and> \<not> (\<exists>b \<in> set (t_builds (w_db w)). b_archive b = key \<and> active_build b)
     \<and> \<not> (\<exists>j \<in> set (t_jobs (w_db w)). j_source_key j = key \<and> active_job j)"
proof -
  let ?cut = "e_now (w_env w) (w_tick w) - minutes (g_stale_build_minutes (e_config (w_env w)))"
  obtain items where "\<exists>l. w_log w' = w_log w @ l \<and> set l \<subseteq> (\<lambda>s. DeleteObject (so_key s)) ` set items"
    and i: "items = [] \<or> list_stale_active ?cut 100 (w_db w) = Inr items"
  proof (cases "answer (tick w) (list_stale_active ?cut 100 (w_db w))")
    case (Inl e)
    then have "w_log w' = w_log w"
      using assms(1) by (auto simp: cleanup_stale_staged_objects_def seq_attempt_reads seq_config ret_def seq_now)
    then show thesis using that[of "[]"] by auto
  next
    case (Inr items)
    then have "for_each cleanup_stale_item items (tick (tick w)) = (r, w')"
      using assms(1) unfolding cleanup_stale_staged_objects_def seq_attempt_reads seq_config seq_now tick_fields
        Inr sum.case by simp
    from stale_items_log[OF this] Inr show thesis using that[of items] by auto
  qed
  then obtain s where s: "s \<in> set items" "so_key s = key" using assms(2,3) by auto
  then have "list_stale_active ?cut 100 (w_db w) = Inr items" using i by auto
  then have "s \<in> set (filter (\<lambda>s. so_status s = StActive \<and> so_updated s < ?cut
     \<and> \<not> exists_row (\<lambda>b. b_archive b = so_key s \<and> active_build b) (t_builds (w_db w))
     \<and> \<not> exists_row (\<lambda>j. j_source_key j = so_key s \<and> active_job j) (t_jobs (w_db w))) (t_staged (w_db w)))"
    using s(1) by (auto simp: list_stale_active_def dest!: in_set_takeD)
  then show ?thesis using s(2) by auto
qed

theorem collector_spares_active_sources_witness:
  "\<exists>r w' l. cleanup_stale_staged_objects build_world = (r, w') \<and> w_log w' = w_log build_world @ l
     \<and> l = [DeleteObject ''build-archives/0.zip'']
     \<and> (\<exists>s \<in> set (t_staged (w_db build_world)). so_key s = ''build-archives/0.zip'' \<and> so_status s = StActive)"
proof -
  let ?r = "cleanup_stale_staged_objects build_world" and ?l = "[DeleteObject ''build-archives/0.zip'']"
  have r: "?r = (fst ?r, snd ?r)" by simp
  have l: "w_log (snd ?r) = w_log build_world @ ?l" by code_simp
  from collector_spares_active_sources[OF r l, of "''build-archives/0.zip''"] show ?thesis
    using r l by (metis list.set_intros(1))
qed

section \<open>The configuration over gRPC\<close>

text \<open>
  What an administrator sends as the configuration is, once accepted, exactly what the next
  read returns, and the settings the message does not carry are the ones there were before.
\<close>

theorem config_read_back:
  assumes "update_config_rpc re fault ctx d m = (None, m', b)" and "manager_ok re m"
    and "\<forall>x \<in> set (data_int_fields d). in_i32 x"
  shows "get_config_rpc ctx m' = Inr d
     \<and> g_registry_url (mg_config m') = g_registry_url (mg_config m)
     \<and> g_registry_api_url (mg_config m') = g_registry_api_url (mg_config m)
     \<and> g_registry_container (mg_config m') = g_registry_container (mg_config m)
     \<and> g_proxy_network (mg_config m') = g_proxy_network (mg_config m)
     \<and> g_build_network (mg_config m') = g_build_network (mg_config m)"
proof -
  have a: "require_admin_scope ctx = None"
    and "\<exists>e. update_config re fault (config_from_proto d (mg_config m)) m = (e, m', b) \<and> e = None"
    using assms(1) by (auto simp: update_config_rpc_def split: option.splits prod.splits)
  then have "mg_config m' = config_from_proto d (mg_config m)" using update_config_ok[OF assms(2)] by auto
  then show ?thesis using a to_from_proto[OF assms(3)]
    by (simp add: get_config_rpc_def) (simp add: config_from_proto_def)
qed

theorem config_read_back_witness:
  "\<exists>m' b. update_config_rpc (\<lambda>p t. Some False) (\<lambda>s. None) (Some (admin_scope 1 ''root'' ''admin''))
      (config_to_proto (sample_config\<lparr>g_ttl_hours := 1\<rparr>))
      \<lparr>mg_config = sample_config, mg_file = Some sample_config, mg_temps = 0\<rparr> = (None, m', b)
   \<and> get_config_rpc (Some (admin_scope 1 ''root'' ''admin'')) m' = Inr (config_to_proto (sample_config\<lparr>g_ttl_hours := 1\<rparr>))"
proof -
  let ?m = "\<lparr>mg_config = sample_config, mg_file = Some sample_config, mg_temps = 0\<rparr>"
  let ?d = "config_to_proto (sample_config\<lparr>g_ttl_hours := 1\<rparr>)"
  let ?u = "update_config_rpc (\<lambda>p t. Some False) (\<lambda>s. None) (Some (admin_scope 1 ''root'' ''admin'')) ?d ?m"
  have "fst ?u = None" by code_simp
  then obtain m' b where u: "?u = (None, m', b)" by (metis prod.collapse)
  have ok: "manager_ok (\<lambda>p t. Some False) ?m" by code_simp
  have i: "list_all in_i32 (data_int_fields ?d)" by code_simp
  from config_read_back[OF u ok] i u show ?thesis by (auto simp: list_all_iff)
qed

end
