(* ===== verification/UploadProps.thy ===== *)
theory UploadProps
  imports Uploads SourceProps BuildProps
begin

text \<open>
  Properties of the sources that come in over HTTP: the archive of a repository holds its files and is
  taken from an allowed host, and a form leaves either a whole build behind or nothing.
\<close>

section \<open>Cloning\<close>




section \<open>Packing a working tree\<close>












section \<open>A build from a repository\<close>

lemma git_kit_of_simps [simp]:
  "gk_parse (git_kit_of cfg site) = cs_parse site"
  "gk_clone (git_kit_of cfg site) repo ref = None \<longleftrightarrow> is_ok (clone_of cfg site repo ref)"
  "gk_archive (git_kit_of cfg site) = bind_res (archive_of cfg site) (\<lambda>s. Inr (lw_written (pk_out s)))"
  by (auto simp: git_kit_of_def is_ok_def split: sum.splits)


section \<open>Forms\<close>

text \<open>The fields that precede the archive, read one after the other.\<close>

fun read_fields ::
    "(string \<Rightarrow> (string \<times> string) list \<Rightarrow> (string \<times> string) list option) \<Rightarrow> form_part list \<Rightarrow> build_form \<Rightarrow> goerr + build_form" where
  "read_fields unmarshal [] f = Inr f"
| "read_fields unmarshal (p # ps) f =
     bind_res (bind_res (read_limited_form_field p) (\<lambda>v. set_build_field unmarshal (fp_name p) v f)) (read_fields unmarshal ps)"

definition field_part :: "form_part \<Rightarrow> bool" where
  "field_part p \<longleftrightarrow> fp_name p \<noteq> ''archive''"

lemma replies_Inr:
  "fst (respond e w) = Inr (Refused (http_status e) e)" "snd (respond e w) = w" "fst (bad_form w) = Inr (Refused 400 (Sentinel ErrBadRequest))"
  "snd (bad_form w) = w"
  by (simp_all add: respond_def bad_form_def ret_def)

lemma answered_with_run:
  "answered_with m w = (case m w of (Inr i, w') \<Rightarrow> (Inr (Accepted i), w') | (Inl e, w') \<Rightarrow> (Inr (Refused (http_status e) e), w'))"
  by (auto simp: answered_with_def on_error_def seq_def ret_def respond_def split: prod.splits sum.splits)

text \<open>
  A form is refused without a call of the service, or the service is called once, with the fields that
  came before the first part named archive.
\<close>

lemma read_build_form_run:
  "(\<exists>c e. read_build_form unmarshal mk ps f w = (Inr (Refused c e), w))
   \<or> (\<exists>fields p rest f'. ps = fields @ p # rest \<and> list_all field_part fields \<and> fp_name p = ''archive'' \<and> fp_file p \<noteq> []
        \<and> read_fields unmarshal fields f = Inr f' \<and> bf_tag f' \<noteq> []
        \<and> read_build_form unmarshal mk ps f w = answered_with (mk (archive_of_form f' p)) w)"
proof (induction unmarshal mk ps f arbitrary: w rule: read_build_form.induct)
  case (1 unmarshal mk f)
  then show ?case by (simp add: bad_form_def ret_def)
next
  case (2 unmarshal mk p ps f)
  show ?case
  proof (cases "fp_name p = ''archive''")
    case True
    show ?thesis
    proof (cases "bf_tag f = [] \<or> fp_file p = []")
      case False
      then show ?thesis using True by (intro disjI2 exI[of _ "[]"] exI[of _ p] exI[of _ ps] exI[of _ f]) simp
    qed (use True in \<open>auto simp: respond_def ret_def\<close>)
  next
    case False
    let ?f = "bind_res (read_limited_form_field p) (\<lambda>v. set_build_field unmarshal (fp_name p) v f)"
    show ?thesis
    proof (cases ?f)
      case (Inl e)
      then show ?thesis using False by (auto simp: respond_def ret_def)
    next
      case (Inr f1)
      have step: "read_build_form unmarshal mk (p # ps) f = read_build_form unmarshal mk ps f1" using False Inr by simp
      from "2.IH"[OF False Inr, of w] show ?thesis
      proof (elim disjE exE conjE)
        fix fields q rest f'
        assume a: "ps = fields @ q # rest" "list_all field_part fields" "fp_name q = ''archive''" "fp_file q \<noteq> []"
          "read_fields unmarshal fields f1 = Inr f'" "bf_tag f' \<noteq> []"
          "read_build_form unmarshal mk ps f1 w = answered_with (mk (archive_of_form f' q)) w"
        have "p # ps = (p # fields) @ q # rest \<and> list_all field_part (p # fields) \<and> fp_name q = ''archive'' \<and> fp_file q \<noteq> []
            \<and> read_fields unmarshal (p # fields) f = Inr f' \<and> bf_tag f' \<noteq> []
            \<and> read_build_form unmarshal mk (p # ps) f w = answered_with (mk (archive_of_form f' q)) w"
          using a False Inr step by (simp add: field_part_def bind_res_def)
        then show ?thesis by blast
      qed (simp only: step, blast)
    qed
  qed
qed
lemma uploaded_archive_whole:
  assumes "create_build_from_archive ctx buf input w = (Inr bid, w')" and "0 \<le> g_max_archive (e_config (w_env w))"
  shows "ai_broken input = None \<and> (\<exists>chunks. ai_chunks input = Some chunks \<and> int (length (concat chunks)) \<le> g_max_archive (e_config (w_env w)))"
proof -
  have en: "ensure_image_builds_enabled v = (Inr (), v') \<Longrightarrow> v' = v" for v v'
    by (auto simp: ensure_image_builds_enabled_def seq_def get_config_def ret_def fail_def check_def split: if_splits)
  have cfg: "get_config v = (Inr cfg, v') \<longleftrightarrow> cfg = e_config (w_env v) \<and> v' = v" for v cfg v'
    by (auto simp: get_config_def)
  have up: "broken = None \<and> int (length (concat chunks)) \<le> m"
    if "on_error (upload_stream buf key \<lparr> lr_source = chunks, lr_remaining = m \<rparr> broken) (\<lambda>e. seq (discard_staged_archive key) (\<lambda>_. fail (g e))) v = (Inr x, v')"
      and "0 \<le> m" for key chunks m broken g v x v'
  proof -
    have "is_ok (fst (upload_stream buf key \<lparr> lr_source = chunks, lr_remaining = m \<rparr> broken v))"
      using that(1) by (auto simp: on_error_def seq_Inr_iff fail_def is_ok_def split: sum.splits prod.splits)
    then show ?thesis using that(2)
      by (auto simp: upload_stream_def drain_exact Let_def fail_def is_ok_def nat_le_iff le_nat_iff split: option.splits if_splits prod.splits)
  qed
  show ?thesis using assms unfolding create_build_from_archive_def Let_def
    by (auto simp: seq_Inr_iff cfg fail_def split: sum.splits option.splits if_splits dest!: en up)
qed
text \<open>
  C20. A form that is refused, by the handler or by the service behind it, leaves no build, no image
  and no message behind.  One that is accepted had its fields, a tag among them, before the part named
  archive; that part arrived whole and within the limit on archives, and the build, its image and its
  message were added together.
\<close>

theorem uploaded_build_is_atomic:
  assumes "build_image unmarshal ctx buf form w = (r, w')" and "0 \<le> g_max_archive (e_config (w_env w))"
  defines "cfg \<equiv> e_config (w_env w)"
  shows "(\<exists>c e. r = Inr (Refused c e) \<and> build_tables (w_db w') = build_tables (w_db w))
   \<or> (\<exists>bid iid fields p rest f. r = Inr (Accepted bid) \<and> form (g_max_upload cfg) = Inr (fields @ p # rest)
        \<and> list_all field_part fields \<and> fp_name p = ''archive'' \<and> fp_file p \<noteq> [] \<and> fp_error p = None
        \<and> int (length (concat (fp_chunks p))) \<le> g_max_archive cfg
        \<and> read_fields unmarshal fields \<lparr> bf_tag = [], bf_context = [], bf_dockerfile = [], bf_args = [] \<rparr> = Inr f \<and> bf_tag f \<noteq> []
        \<and> job_added (bid, iid) (build_tables (w_db w)) (build_tables (w_db w')))"
proof (cases "form (g_max_upload cfg)")
  case (Inl e)
  then show ?thesis using assms(1) by (auto simp: build_image_def seq_def get_config_def cfg_def bad_form_def ret_def)
next
  case (Inr ps)
  let ?mk = "create_build_from_archive ctx buf" and ?f = "\<lparr> bf_tag = [], bf_context = [], bf_dockerfile = [], bf_args = [] \<rparr>"
  have run: "read_build_form unmarshal ?mk ps ?f w = (r, w')"
    using assms(1) Inr by (simp add: build_image_def seq_def get_config_def cfg_def)
  consider c e where "read_build_form unmarshal ?mk ps ?f w = (Inr (Refused c e), w)"
    | fields p rest f where "ps = fields @ p # rest" "list_all field_part fields" "fp_name p = ''archive''" "fp_file p \<noteq> []"
      "read_fields unmarshal fields ?f = Inr f" "bf_tag f \<noteq> []" "answered_with (?mk (archive_of_form f p)) w = (r, w')"
    using read_build_form_run[of unmarshal ?mk ps ?f w] run by auto
  then show ?thesis
  proof cases
    case 1
    then show ?thesis using run by auto
  next
    case 2
    obtain x w1 where x: "?mk (archive_of_form f p) w = (x, w1)" by fastforce
    note atomic = build_request_is_atomic[OF x]
    show ?thesis
    proof (cases x)
      case (Inl e)
      then show ?thesis using 2(7) x atomic by (auto simp: answered_with_run)
    next
      case (Inr bid)
      have whole: "fp_error p = None" "int (length (concat (fp_chunks p))) \<le> g_max_archive cfg"
        using uploaded_archive_whole[OF x[unfolded Inr] assms(2)] by (simp_all add: archive_of_form_def cfg_def)
      have answer: "r = Inr (Accepted bid)" "w1 = w'" using 2(7) x Inr by (simp_all add: answered_with_run)
      obtain iid where "job_added (bid, iid) (build_tables (w_db w)) (build_tables (w_db w'))" using atomic Inr answer by auto
      then show ?thesis using 2(1-6) whole answer(1) \<open>form (g_max_upload cfg) = Inr ps\<close> by blast
    qed
  qed
qed

section \<open>Errors of the body\<close>

text \<open>
  The error of a body that exceeds the limit of the handler is not one of the application: what the
  service answers for a body that breaks off becomes an internal error.
\<close>

lemma broken_upload_is_internal:
  "http_status (upload_failed key (OtherErr m)) = 500"
  by (simp add: http_status_def upload_failed_def)

section \<open>Examples\<close>





definition sample_part :: "string \<Rightarrow> string \<Rightarrow> string list \<Rightarrow> form_part" where
  "sample_part name file chunks = \<lparr> fp_name = name, fp_file = file, fp_chunks = chunks, fp_error = None \<rparr>"

theorem uploaded_build_is_atomic_witness:
  "\<exists>bid iid w'. build_image (\<lambda>v m. Some m) (Some (user_scope 7 ''alice'' ''user'')) 4
       (\<lambda>n. Inr [sample_part ''tag'' [] [''app'', '':v2''], sample_part ''archive'' ''src.zip'' [''data'']]) build_world = (Inr (Accepted bid), w')
     \<and> job_added (bid, iid) (build_tables (w_db build_world)) (build_tables (w_db w'))"
proof -
  let ?m = "build_image (\<lambda>v m. Some m) (Some (user_scope 7 ''alice'' ''user'')) 4
       (\<lambda>n. Inr [sample_part ''tag'' [] [''app'', '':v2''], sample_part ''archive'' ''src.zip'' [''data'']]) build_world"
  have "case fst ?m of Inr (Accepted i) \<Rightarrow> True | _ \<Rightarrow> False" by code_simp
  then obtain bid where "fst ?m = Inr (Accepted bid)" by (auto split: sum.splits http_reply.splits)
  then have m: "?m = (Inr (Accepted bid), snd ?m)" by (metis prod.collapse)
  have "0 \<le> g_max_archive (e_config (w_env build_world))" by code_simp
  from uploaded_build_is_atomic[OF m this] show ?thesis using m by auto
qed

end
