(* ===== verification/ParserProps.thy ===== *)
theory ParserProps
  imports ComposeParser SourceProps
begin

text \<open>Properties of the translation of compose files.\<close>

section \<open>Build contexts\<close>








section \<open>Well-formed projects\<close>



















end
