(* ===== verification/ComposeCoordinator.thy ===== *)
theory ComposeCoordinator
  imports ComposeDeploy
begin

text \<open>
  The compose deployment coordinator (internal/core/service/compose/coordinator.go) and the
  recovery of interrupted deployments (orchestrator.go).  Each tick advances every active job by
  what can be done without waiting: builds are awaited, volumes and containers are created, the
  services are started in their order, and a failed or canceled deployment is rolled back.  The
  resources of a job are saved after every step, so the next tick continues from the store.
  A loop that leaves its function early is a recursion whose last case is the code after the loop.
\<close>

section \<open>Progress\<close>

definition job_context :: "job \<Rightarrow> scope option" where
  "job_context j = Some (user_scope (j_owner j) [] [])"

definition save_progress :: "job \<Rightarrow> proj_status \<Rightarrow> job_stage \<Rightarrow> compose_plan \<Rightarrow> compose_resources \<Rightarrow> unit act" where
  "save_progress j status stage plan rs =
     exec (update_deployment_progress (j_id j) (j_project j) (Some status) stage (Some plan) (Some rs))"

definition decode_state :: "job \<Rightarrow> goerr + compose_plan \<times> compose_resources" where
  "decode_state j = (case j_plan j of
       None \<Rightarrow> Inl (mk_err ErrConflict ''compose deployment plan is missing'')
     | Some plan \<Rightarrow> Inr (plan, case j_resources j of Some rs \<Rightarrow> rs | None \<Rightarrow> no_resources))"

section \<open>Rolling back\<close>

definition tolerate_missing :: "unit act \<Rightarrow> unit act" where
  "tolerate_missing m = on_error m (\<lambda>e. if errors_is e ErrNotFound then ret () else fail e)"

definition cancel_builds :: "scope option \<Rightarrow> id list \<Rightarrow> unit act" where
  "cancel_builds ctx bids = for_each (\<lambda>bid. ignore (cancel_build_record ctx bid)) bids"

definition delete_successful_image :: "scope option \<Rightarrow> id \<Rightarrow> unit act" where
  "delete_successful_image ctx bid =
     seq (attempt (query (get_build bid))) (\<lambda>r. case r of
         Inl e \<Rightarrow> ret ()
       | Inr b \<Rightarrow> if b_status b \<noteq> BSuccess then ret () else ignore (request_delete_image ctx (b_image b)))"

definition delete_successful_build_images :: "scope option \<Rightarrow> id list \<Rightarrow> unit act" where
  "delete_successful_build_images ctx bids = for_each (delete_successful_image ctx) bids"

text \<open>True when every container is already gone.\<close>

fun remove_containers :: "scope option \<Rightarrow> bool \<Rightarrow> id list \<Rightarrow> bool act" where
  "remove_containers ctx clean [] = ret clean"
| "remove_containers ctx clean (cid # cids) =
     seq (attempt (delete ctx cid)) (\<lambda>r. case r of
         Inl e \<Rightarrow> if errors_is e ErrNotFound then remove_containers ctx clean cids
                  else if errors_is e ErrConflict then remove_containers ctx False cids
                  else fail e
       | Inr _ \<Rightarrow> remove_containers ctx False cids)"

definition volume_alias_created :: "compose_resources \<Rightarrow> string \<Rightarrow> bool" where
  "volume_alias_created rs alias =
    (if cr_managed rs = [] then True else map_of (cr_managed rs) alias = Some True)"

definition plan_volume_managed :: "compose_plan \<Rightarrow> string \<Rightarrow> bool" where
  "plan_volume_managed plan alias = (case find (\<lambda>v. cv_alias v = alias) (pl_volumes plan) of
       Some v \<Rightarrow> \<not> cv_external v | None \<Rightarrow> False)"

fun remove_volumes ::
    "scope option \<Rightarrow> job \<Rightarrow> compose_plan \<Rightarrow> compose_resources \<Rightarrow> bool \<Rightarrow> (string \<times> id) list \<Rightarrow> bool act" where
  "remove_volumes ctx j plan rs clean [] = ret clean"
| "remove_volumes ctx j plan rs clean ((alias, vid) # vols) =
     (if \<not> plan_volume_managed plan alias then remove_volumes ctx j plan rs clean vols
      else if volume_alias_created rs alias then
        seq (attempt (request_delete_volume ctx vid)) (\<lambda>r. case r of
            Inl e \<Rightarrow> if errors_is e ErrNotFound then remove_volumes ctx j plan rs clean vols
                     else if errors_is e ErrConflict then remove_volumes ctx j plan rs False vols
                     else fail e
          | Inr _ \<Rightarrow> remove_volumes ctx j plan rs False vols)
      else seq (tolerate_missing (unlink_volume ctx (j_project j) vid)) (\<lambda>_.
        remove_volumes ctx j plan rs clean vols))"

definition cleanup_status_of :: "compose_resources \<Rightarrow> job_status" where
  "cleanup_status_of rs = (case cr_cleanup_status rs of Some s \<Rightarrow> s | None \<Rightarrow> JFailed)"

definition cleanup_message :: "compose_resources \<Rightarrow> string" where
  "cleanup_message rs =
    (if cr_cleanup_error rs \<noteq> [] then cr_cleanup_error rs
     else if cleanup_status_of rs = JCanceled then ''compose deployment canceled'' else ''compose deployment failed'')"

definition finish_cleanup :: "scope option \<Rightarrow> job \<Rightarrow> compose_resources \<Rightarrow> unit act" where
  "finish_cleanup ctx j rs =
     seq (delete_successful_build_images ctx (map snd (cr_builds rs))) (\<lambda>_.
     seq (tolerate_missing (exec (complete_job (j_id j) (cleanup_status_of rs) (Some (cleanup_message rs))))) (\<lambda>_.
     delete_compose_source (j_source_key j)))"

definition cleanup_job :: "scope option \<Rightarrow> job \<Rightarrow> compose_plan \<Rightarrow> compose_resources \<Rightarrow> unit act" where
  "cleanup_job ctx j plan rs0 =
    (let rs = rs0\<lparr>cr_cleanup_status := Some (cleanup_status_of rs0)\<rparr>;
         status = (if cleanup_status_of rs = JCanceled then PCanceled else PFailed) in
     seq (tolerate_missing (exec (update_project_status (j_project j) status (Some (cleanup_message rs))))) (\<lambda>_.
     seq (remove_containers ctx True (map snd (cr_containers rs))) (\<lambda>clean.
     seq (remove_volumes ctx j plan rs clean (cr_volumes rs)) (\<lambda>clean'.
     if \<not> clean' then save_progress j status StageRollingBack plan rs
     else finish_cleanup ctx j rs))))"

definition fail_job :: "scope option \<Rightarrow> job \<Rightarrow> compose_plan \<Rightarrow> compose_resources \<Rightarrow> goerr \<Rightarrow> unit act" where
  "fail_job ctx j plan rs0 cause =
    (let msg = safe_message (Some cause);
         rs = rs0\<lparr>cr_cleanup_status := Some JFailed, cr_cleanup_error := msg\<rparr> in
     seq (cancel_builds ctx (map snd (cr_builds rs))) (\<lambda>_.
     seq (tolerate_missing (exec (update_project_status (j_project j) PFailed (Some msg)))) (\<lambda>_.
     seq (save_progress j PFailed StageRollingBack plan rs) (\<lambda>_.
     cleanup_job ctx j plan rs))))"

definition cancel_job :: "scope option \<Rightarrow> job \<Rightarrow> compose_plan \<Rightarrow> compose_resources \<Rightarrow> unit act" where
  "cancel_job ctx j plan rs0 =
    (let rs = rs0\<lparr>cr_cleanup_status := Some JCanceled, cr_cleanup_error := ''compose deployment canceled''\<rparr> in
     seq (delete_compose_source (j_source_key j)) (\<lambda>_.
     seq (save_progress j PCanceled StageRollingBack plan rs) (\<lambda>_.
     cleanup_job ctx j plan rs)))"

text \<open>x, err := m(); if err != nil { return c.failJob(... wrap(err)) }\<close>

definition or_fail ::
    "scope option \<Rightarrow> job \<Rightarrow> compose_plan \<Rightarrow> compose_resources \<Rightarrow> (goerr \<Rightarrow> goerr) \<Rightarrow> 'a act \<Rightarrow> ('a \<Rightarrow> unit act) \<Rightarrow> unit act" where
  "or_fail ctx j plan rs wrap m f = seq (attempt m) (\<lambda>r. case r of
       Inl e \<Rightarrow> fail_job ctx j plan rs (wrap e) | Inr x \<Rightarrow> f x)"

definition failed_to :: "string \<Rightarrow> string \<Rightarrow> goerr \<Rightarrow> goerr" where
  "failed_to what name e = Wrapped (''failed to '' @ what @ '' '' @ name @ '': '' @ error_text e) e"

section \<open>Building\<close>

definition build_unavailable :: "env \<Rightarrow> id \<Rightarrow> goerr \<Rightarrow> goerr" where
  "build_unavailable env bid e = Wrapped (''build record '' @ e_uuid_text env bid @ '' unavailable: '' @ error_text e) e"

fun build_status_text :: "build_status \<Rightarrow> string" where
  "build_status_text BPending = ''pending''"
| "build_status_text BRunning = ''running''"
| "build_status_text BSuccess = ''success''"
| "build_status_text BCanceled = ''canceled''"
| "build_status_text BFailed = ''failed''"
| "build_status_text BFailedTimeout = ''failed_timeout''"
| "build_status_text BFailedQuotaExceeded = ''failed_quota_exceeded''"
| "build_status_text BFailedResourceExhausted = ''failed_resource_exhausted''"
| "build_status_text BFailedInternal = ''failed_internal''"

fun await_builds ::
    "scope option \<Rightarrow> job \<Rightarrow> compose_plan \<Rightarrow> compose_resources \<Rightarrow> bool \<Rightarrow> (string \<times> id) list \<Rightarrow> unit act" where
  "await_builds ctx j plan rs all_done [] =
     (if \<not> all_done then ret ()
      else seq (delete_compose_source (j_source_key j)) (\<lambda>_. save_progress j PDeploying StageCreating plan rs))"
| "await_builds ctx j plan rs all_done ((name, bid) # bs) =
     seq get_env (\<lambda>env.
     or_fail ctx j plan rs (build_unavailable env bid) (query (get_build bid)) (\<lambda>b.
     if b_status b = BCanceled then cancel_job ctx j plan rs
     else if is_build_failed (b_status b) then
       fail_job ctx j plan rs (mk_err ErrConflict
         (''build for service '' @ name @ '' failed with status: '' @ build_status_text (b_status b)))
     else await_builds ctx j plan rs (all_done \<and> b_status b = BSuccess) bs))"

definition advance_building :: "scope option \<Rightarrow> job \<Rightarrow> compose_plan \<Rightarrow> compose_resources \<Rightarrow> unit act" where
  "advance_building ctx j plan rs0 =
     seq (ensure_compose_builds ctx j plan rs0) (\<lambda>(rs, err). case err of
         Some e \<Rightarrow> fail_job ctx j plan rs e
       | None \<Rightarrow> seq (save_progress j PBuilding StageBuilding plan rs) (\<lambda>_.
           await_builds ctx j plan rs True (cr_builds rs)))"

section \<open>Creating\<close>

definition mount_of :: "(string \<times> id) list \<Rightarrow> mount_params \<Rightarrow> mount_params list" where
  "mount_of vids m = (case map_of vids (mp_volume_name m) of
       None \<Rightarrow> []
     | Some vid \<Rightarrow> [\<lparr> mp_volume = vid, mp_volume_name = [], mp_path = mp_path m, mp_ro = mp_ro m \<rparr>])"

definition container_name_of :: "string \<Rightarrow> compose_service \<Rightarrow> string" where
  "container_name_of project s = project @ ''_'' @ cs_name s"

definition container_create_params_of ::
    "id \<Rightarrow> string \<Rightarrow> compose_service \<Rightarrow> (string \<times> id) list \<Rightarrow> container_create_params" where
  "container_create_params_of pid project s vids = \<lparr> cp_project = Some pid, cp_name = container_name_of project s,
     cp_alias = cs_name s, cp_image_tag = cs_image s, cp_port = cs_port s, cp_env = cs_env s,
     cp_mounts = concat (map (mount_of vids) (cs_mounts s)), cp_memory_mb = 0, cp_domain = cs_domain s,
     cp_command = cs_command s, cp_entrypoint = cs_entrypoint s, cp_restart = cs_restart s, cp_health = cs_health s \<rparr>"

text \<open>audit.go: who is recorded as having exposed a service.\<close>

definition audit_actor :: "scope option \<Rightarrow> id option \<times> string \<times> string" where
  "audit_actor ctx = (case ctx of
       None \<Rightarrow> (None, [], ''unknown'')
     | Some s \<Rightarrow> if sc_kind s = KindNone then (None, [], ''unknown'') else
         (if sc_user s = nil_id then None else Some (sc_user s), sc_username s,
          case sc_kind s of KindUser \<Rightarrow> ''user'' | KindAdmin \<Rightarrow> ''admin'' | _ \<Rightarrow> ''system''))"

definition compose_full_domain :: "string \<Rightarrow> string \<Rightarrow> string" where
  "compose_full_domain prefix base =
    (if prefix = [] then [] else if base = [] then prefix else prefix @ ''.'' @ base)"

fun source_text :: "source_type \<Rightarrow> string" where
  "source_text SrcUpload = ''upload''"
| "source_text SrcGit = ''git''"

text \<open>The names of owner and actor: the scope of a job has none, so the user service is asked.\<close>

definition audit_names :: "scope option \<Rightarrow> id \<Rightarrow> (string \<times> string) act" where
  "audit_names ctx owner = (case audit_actor ctx of (actor, name, kind) \<Rightarrow>
     if name \<noteq> [] then ret (name, name) else
     seq (attempt (ask (\<lambda>e n. e_user e n owner))) (\<lambda>r. case r of
         Inl e \<Rightarrow> ret (name, name)
       | Inr u \<Rightarrow> ret (if actor = Some owner then ui_username u else name, ui_username u)))"

definition record_compose_expose_audit ::
    "scope option \<Rightarrow> job \<Rightarrow> compose_plan \<Rightarrow> compose_service \<Rightarrow> id \<Rightarrow> string \<Rightarrow> unit act" where
  "record_compose_expose_audit ctx j plan s cid cname =
    (if cs_domain s = [] \<or> cs_port s \<le> 0 then ret () else
     case audit_actor ctx of (actor, _, kind) \<Rightarrow>
     seq (audit_names ctx (j_owner j)) (\<lambda>(actor_name, owner_name).
     seq get_config (\<lambda>cfg.
     seq get_env (\<lambda>env.
     ignore (perform (RecordAudit \<lparr> au_actor = actor, au_actor_name = actor_name, au_actor_scope = kind,
       au_action = ''container.expose'', au_outcome = ''success'', au_rtype = ''container'',
       au_rid = cid, au_rname = cname, au_owner = (if j_owner j = nil_id then None else Some (j_owner j)),
       au_owner_name = owner_name, au_request = j_request j,
       au_details = map (\<lambda>(k, v). (k, take 256 v))
         [(''source_type'', source_text (pl_source plan)), (''project_id'', e_uuid_text env (j_project j)),
          (''project_name'', pl_name plan), (''compose_service'', cs_name s),
          (''container_id'', e_uuid_text env cid), (''container_name'', cname),
          (''domain_prefix'', cs_domain s), (''full_domain'', compose_full_domain (cs_domain s) (g_base_domain cfg)),
          (''internal_port'', nat_text (nat (cs_port s)))] \<rparr>))))))"

text \<open>Every container of the plan gets its id, then the whole set is waited for.\<close>

fun container_error :: "string \<Rightarrow> container \<Rightarrow> goerr" where
  "container_error name c = mk_err ErrConflict (case c_last_error c of
       Some m \<Rightarrow> if m \<noteq> [] then ''container create for service '' @ name @ '' failed: '' @ m
                 else ''container create for service '' @ name @ '' failed with status '' @ status_text (c_status c)
     | None \<Rightarrow> ''container create for service '' @ name @ '' failed with status '' @ status_text (c_status c))"

fun containers_created :: "bool \<Rightarrow> (string \<times> id) list \<Rightarrow> bool act" where
  "containers_created done_all [] = ret done_all"
| "containers_created done_all ((name, cid) # cids) =
     seq (on_error (query (get_container cid))
            (\<lambda>e. fail (Wrapped (''container for service '' @ name @ '' unavailable: '' @ error_text e) e))) (\<lambda>c.
     if c_status c = CCreated \<or> c_status c = CRunning \<or> c_status c = CExited then containers_created done_all cids
     else if c_status c = CError \<or> c_status c = CMissing then fail (container_error name c)
     else containers_created False cids)"

text \<open>The resources are updated in place here too: the graph counts as saved before the progress is.\<close>

definition save_graph :: "job \<Rightarrow> compose_plan \<Rightarrow> compose_resources \<Rightarrow> (compose_resources \<times> goerr option) act" where
  "save_graph j plan rs =
    (if cr_graph_saved rs then ret (rs, None) else
     case project_service_graph (j_project j) (pl_services plan) (cr_containers rs) of
       Inl e \<Rightarrow> ret (rs, Some e)
     | Inr graph \<Rightarrow>
         seq (attempt (exec (save_service_graph (j_project j) graph))) (\<lambda>r. case r of
           Inl e \<Rightarrow> ret (rs, Some (Wrapped (''failed to save compose service graph: '' @ error_text e) e))
         | Inr _ \<Rightarrow>
             let rs' = rs\<lparr>cr_graph_saved := True\<rparr> in
             seq (attempt (save_progress j PDeploying StageStarting plan rs')) (\<lambda>r'. case r' of
               Inl e \<Rightarrow> ret (rs', Some e) | Inr _ \<Rightarrow> ret (rs', None))))"

definition with_graph ::
    "scope option \<Rightarrow> job \<Rightarrow> compose_plan \<Rightarrow> compose_resources \<Rightarrow> (compose_resources \<Rightarrow> unit act) \<Rightarrow> unit act" where
  "with_graph ctx j plan rs f = seq (save_graph j plan rs) (\<lambda>(rs', err). case err of
       Some e \<Rightarrow> fail_job ctx j plan rs' e | None \<Rightarrow> f rs')"

definition finish_creating :: "scope option \<Rightarrow> job \<Rightarrow> compose_plan \<Rightarrow> compose_resources \<Rightarrow> unit act" where
  "finish_creating ctx j plan rs =
     or_fail ctx j plan rs (\<lambda>e. e) (containers_created True (cr_containers rs)) (\<lambda>ready.
     if \<not> ready then ret () else
     with_graph ctx j plan rs (save_progress j PDeploying StageStarting plan))"

fun create_services ::
    "scope option \<Rightarrow> job \<Rightarrow> compose_plan \<Rightarrow> compose_resources \<Rightarrow> compose_service list \<Rightarrow> unit act" where
  "create_services ctx j plan rs [] = finish_creating ctx j plan rs"
| "create_services ctx j plan rs (s # ss) =
     (if map_of (cr_containers rs) (cs_name s) \<noteq> None then create_services ctx j plan rs ss else
      or_fail ctx j plan rs (failed_to ''create service'' (cs_name s))
        (create ctx (container_create_params_of (j_project j) (pl_name plan) s (cr_volumes rs))) (\<lambda>cid.
      let rs' = rs\<lparr>cr_containers := put (cs_name s) cid (cr_containers rs)\<rparr> in
      seq (record_compose_expose_audit ctx j plan s cid (container_name_of (pl_name plan) s)) (\<lambda>_.
      seq (save_progress j PDeploying StageCreating plan rs') (\<lambda>_.
      create_services ctx j plan rs' ss))))"

text \<open>Containers of an earlier, interrupted tick are found again by their name.\<close>

definition known_containers :: "compose_plan \<Rightarrow> container list \<Rightarrow> (string \<times> id) list \<Rightarrow> (string \<times> id) list" where
  "known_containers plan cs m = foldl (\<lambda>m c.
     case find (\<lambda>s. container_name_of (pl_name plan) s = c_name c) (rev (pl_services plan)) of
       Some s \<Rightarrow> put (cs_name s) (c_id c) m | None \<Rightarrow> m) m cs"

definition create_containers :: "scope option \<Rightarrow> job \<Rightarrow> compose_plan \<Rightarrow> compose_resources \<Rightarrow> unit act" where
  "create_containers ctx j plan rs =
     seq (query (get_by_project (j_project j))) (\<lambda>cs.
     create_services ctx j plan (rs\<lparr>cr_containers := known_containers plan cs (cr_containers rs)\<rparr>) (pl_services plan))"

fun volume_status_text :: "vol_status \<Rightarrow> string" where
  "volume_status_text VNone = []"
| "volume_status_text VCreating = ''creating''"
| "volume_status_text VAvailable = ''available''"
| "volume_status_text VDeleting = ''deleting''"
| "volume_status_text VMissing = ''missing''"
| "volume_status_text VError = ''error''"

fun await_volumes ::
    "scope option \<Rightarrow> job \<Rightarrow> compose_plan \<Rightarrow> compose_resources \<Rightarrow> (string \<times> id) list \<Rightarrow> unit act" where
  "await_volumes ctx j plan rs [] = create_containers ctx j plan rs"
| "await_volumes ctx j plan rs ((alias, vid) # vols) =
     (if map_of (cr_managed rs) alias \<noteq> Some True then await_volumes ctx j plan rs vols else
      or_fail ctx j plan rs (failed_to ''inspect volume'' alias) (query (get_volume vid)) (\<lambda>v.
      case v_status v of
        VAvailable \<Rightarrow> await_volumes ctx j plan rs vols
      | VMissing \<Rightarrow> fail_job ctx j plan rs (OtherErr (''volume '' @ alias @ '' is '' @ volume_status_text (v_status v)))
      | VError \<Rightarrow> fail_job ctx j plan rs (OtherErr (''volume '' @ alias @ '' is '' @ volume_status_text (v_status v)))
      | _ \<Rightarrow> ret ()))"

fun prepare_volumes ::
    "scope option \<Rightarrow> job \<Rightarrow> compose_plan \<Rightarrow> compose_resources \<Rightarrow> compose_volume list \<Rightarrow> unit act" where
  "prepare_volumes ctx j plan rs [] = await_volumes ctx j plan rs (cr_volumes rs)"
| "prepare_volumes ctx j plan rs (v # vs) =
     (if map_of (cr_volumes rs) (cv_alias v) \<noteq> None then prepare_volumes ctx j plan rs vs else
      or_fail ctx j plan rs
        (failed_to (if cv_external v then ''resolve external volume'' else ''prepare volume'') (cv_name v))
        (if cv_external v then seq (resolve_by_name ctx (cv_name v)) (\<lambda>vid. ret (vid, True))
         else resolve_project_managed ctx (j_project j) (cv_name v)) (\<lambda>(vid, reused).
      let rs' = rs\<lparr>cr_managed := put (cv_alias v) (\<not> reused) (cr_managed rs),
                    cr_volumes := put (cv_alias v) vid (cr_volumes rs)\<rparr> in
      seq (save_progress j PDeploying StageCreating plan rs') (\<lambda>_.
      prepare_volumes ctx j plan rs' vs)))"

definition advance_creating :: "scope option \<Rightarrow> job \<Rightarrow> compose_plan \<Rightarrow> compose_resources \<Rightarrow> unit act" where
  "advance_creating ctx j plan rs = prepare_volumes ctx j plan rs (pl_volumes plan)"

section \<open>Starting\<close>

definition exited_nonzero :: "string \<Rightarrow> goerr" where
  "exited_nonzero name = mk_err ErrConflict (''service '' @ name @ '' exited with non-zero code'')"

definition service_failed :: "string \<Rightarrow> container \<Rightarrow> goerr" where
  "service_failed name c = mk_err ErrConflict (case c_last_error c of
       Some m \<Rightarrow> if m \<noteq> [] then ''service '' @ name @ '' failed: '' @ m
                 else ''service '' @ name @ '' is '' @ status_text (c_status c)
     | None \<Rightarrow> ''service '' @ name @ '' is '' @ status_text (c_status c))"

definition compose_service_start_completed :: "string \<Rightarrow> container \<Rightarrow> goerr + bool" where
  "compose_service_start_completed name c =
    (if c_status c = CRunning then Inr True
     else if c_status c = CExited then (case c_exit_code c of
         None \<Rightarrow> Inr False
       | Some n \<Rightarrow> if n = 0 then Inr True else Inl (exited_nonzero name))
     else if c_status c = CError \<or> c_status c = CMissing then Inl (service_failed name c)
     else Inr False)"

text \<open>A dependency of a service of the deployment, which is looked up by the name of its service.\<close>

definition inspect_dependency :: "compose_dependency \<Rightarrow> string \<Rightarrow> id \<Rightarrow> bool option act" where
  "inspect_dependency d name cid =
     seq (attempt (query (get_container cid))) (\<lambda>r. case r of
         Inl e \<Rightarrow> if cd_optional d then ret None else fail e
       | Inr c \<Rightarrow>
           if c_docker_id c = [] then ret (Some False) else
           seq (attempt (docker_inspect (c_docker_id c))) (\<lambda>r. case r of
               Inl e \<Rightarrow> if cd_optional d then ret None else fail e
             | Inr ins \<Rightarrow> (case evaluate_inspection ins (cd_condition d) of
                 Inl e \<Rightarrow> if cd_optional d then ret None else
                   fail (Wrapped (''dependency '' @ cd_service d @ '' failed condition ''
                     @ condition_text (cd_condition d) @ '': '' @ error_text e) e)
               | Inr ready \<Rightarrow> ret (Some ready))))"

text \<open>None: an optional dependency that cannot be met is passed over.\<close>

fun compose_dependencies_ready :: "string \<Rightarrow> (string \<times> id) list \<Rightarrow> compose_dependency list \<Rightarrow> bool act" where
  "compose_dependencies_ready name cids [] = ret True"
| "compose_dependencies_ready name cids (d # ds) = (case map_of cids (cd_service d) of
       None \<Rightarrow> if cd_optional d then compose_dependencies_ready name cids ds
         else fail (OtherErr (''dependency '' @ cd_service d @ '' not found for service '' @ name))
     | Some cid \<Rightarrow> seq (inspect_dependency d name cid) (\<lambda>r.
         if r = Some False then ret False else compose_dependencies_ready name cids ds))"

definition complete_deployment :: "scope option \<Rightarrow> job \<Rightarrow> compose_plan \<Rightarrow> compose_resources \<Rightarrow> unit act" where
  "complete_deployment ctx j plan rs =
     or_fail ctx j plan rs (failed_to ''mark compose project'' ''running'')
       (exec (update_project_status (j_project j) PRunning None)) (\<lambda>_.
     or_fail ctx j plan rs (failed_to ''mark compose deployment'' ''succeeded'')
       (exec (complete_job (j_id j) JSucceeded None)) (\<lambda>_.
     delete_compose_source (j_source_key j)))"

text \<open>The flag tells whether a start was queued in this tick; then the deployment is not finished yet.\<close>

fun start_services ::
    "scope option \<Rightarrow> job \<Rightarrow> compose_plan \<Rightarrow> compose_resources \<Rightarrow> bool \<Rightarrow> compose_service list \<Rightarrow> unit act" where
  "start_services ctx j plan rs queued [] = (if queued then ret () else complete_deployment ctx j plan rs)"
| "start_services ctx j plan rs queued (s # ss) =
     (if map_of (cr_started rs) (cs_name s) = Some True then start_services ctx j plan rs queued ss
      else case map_of (cr_containers rs) (cs_name s) of
        None \<Rightarrow> fail_job ctx j plan rs (OtherErr (''container mapping not found for service '' @ cs_name s))
      | Some cid \<Rightarrow>
          or_fail ctx j plan rs (\<lambda>e. e) (query (get_container cid)) (\<lambda>c.
          case compose_service_start_completed (cs_name s) c of
            Inl e \<Rightarrow> fail_job ctx j plan rs e
          | Inr True \<Rightarrow>
              let rs' = rs\<lparr>cr_started := put (cs_name s) True (cr_started rs)\<rparr> in
              seq (save_progress j PDeploying StageStarting plan rs') (\<lambda>_.
              start_services ctx j plan rs' queued ss)
          | Inr False \<Rightarrow>
              if status_blocks_tick (c_status c) then ret () else
              or_fail ctx j plan rs (\<lambda>e. e)
                (compose_dependencies_ready (cs_name s) (cr_containers rs) (cs_deps s)) (\<lambda>ready.
              if \<not> ready then ret () else
              or_fail ctx j plan rs (failed_to ''start service'' (cs_name s)) (start ctx cid) (\<lambda>_.
              start_services ctx j plan rs True ss))))"

definition advance_starting :: "scope option \<Rightarrow> job \<Rightarrow> compose_plan \<Rightarrow> compose_resources \<Rightarrow> unit act" where
  "advance_starting ctx j plan rs =
     with_graph ctx j plan rs (\<lambda>rs'. start_services ctx j plan rs' False (pl_services plan))"

section \<open>A tick\<close>

text \<open>The plan of a job whose plan cannot be decoded; nothing reads its source type.\<close>

definition empty_plan :: compose_plan where
  "empty_plan = \<lparr> pl_name = [], pl_source = SrcUpload, pl_services = [], pl_volumes = [] \<rparr>"

fun stage_text :: "job_stage \<Rightarrow> string" where
  "stage_text StageNone = []"
| "stage_text StagePlanning = ''planning''"
| "stage_text StageBuilding = ''building''"
| "stage_text StageCreating = ''creating''"
| "stage_text StageStarting = ''starting''"
| "stage_text StageRollingBack = ''rolling_back''"

definition unsupported_stage :: "job_stage \<Rightarrow> goerr" where
  "unsupported_stage st = Wrapped (''conflict: unsupported compose deployment stage ''
     @ [CHR 0x22] @ stage_text st @ [CHR 0x22]) (Sentinel ErrConflict)"

definition advance_job :: "job \<Rightarrow> unit act" where
  "advance_job j =
    (let ctx = job_context j in
     case decode_state j of
       Inl e \<Rightarrow> fail_job ctx j empty_plan no_resources e
     | Inr (plan, rs) \<Rightarrow>
         if is_canceling j then cancel_job ctx j plan rs
         else (case j_stage j of
             StageBuilding \<Rightarrow> advance_building ctx j plan rs
           | StageCreating \<Rightarrow> advance_creating ctx j plan rs
           | StageStarting \<Rightarrow> advance_starting ctx j plan rs
           | StageRollingBack \<Rightarrow> cleanup_job ctx j plan rs
           | st \<Rightarrow> fail_job ctx j plan rs (unsupported_stage st)))"

definition coordinator_tick :: "unit act" where
  "coordinator_tick =
     seq (attempt (query (list_active_jobs 50))) (\<lambda>r. case r of
         Inl e \<Rightarrow> ret () | Inr jobs \<Rightarrow> for_each (\<lambda>j. ignore (advance_job j)) jobs)"

section \<open>Interrupted deployments\<close>

definition delete_build_image :: "scope option \<Rightarrow> build \<Rightarrow> unit act" where
  "delete_build_image ctx b =
    (if b_status b \<noteq> BSuccess then ret () else ignore (request_delete_image ctx (b_image b)))"

text \<open>The texts of the errors of a cleanup that are not a missing row.\<close>

fun delete_all_of :: "string \<Rightarrow> (id \<Rightarrow> unit act) \<Rightarrow> id list \<Rightarrow> string list act" where
  "delete_all_of what m [] = ret []"
| "delete_all_of what m (x # xs) =
     seq get_env (\<lambda>env.
     seq (attempt (m x)) (\<lambda>r.
     seq (delete_all_of what m xs) (\<lambda>errs. ret (case r of
         Inl e \<Rightarrow> if errors_is e ErrNotFound then errs
           else (what @ '' '' @ e_uuid_text env x @ '': '' @ error_text e) # errs
       | Inr _ \<Rightarrow> errs))))"

definition cleanup_interrupted_deployment :: "string \<Rightarrow> job \<Rightarrow> unit act" where
  "cleanup_interrupted_deployment msg j =
    (if j_stage j \<noteq> StageNone then ret () else
     let ctx = job_context j in
     seq (query (get_by_project (j_project j))) (\<lambda>cs.
     seq (query (get_volumes_by_project (j_project j))) (\<lambda>vs.
     seq (query (get_builds_by_project (j_project j))) (\<lambda>bs.
     if cs = [] \<and> vs = [] \<and> bs = [] then ret () else
     seq (delete_all_of ''container'' (delete ctx) (rev (map c_id cs))) (\<lambda>e1.
     seq (delete_all_of ''volume'' (request_delete_volume ctx) (rev (map v_id vs))) (\<lambda>e2.
     seq (cancel_builds ctx (map b_id bs)) (\<lambda>_.
     seq (for_each (delete_build_image ctx) bs) (\<lambda>_.
     let text = (if e1 @ e2 = [] then msg else msg @ ''; cleanup errors: ['' @ join_with '' '' (e1 @ e2) @ '']'') in
     seq (exec (update_project_status (j_project j) PFailed (Some text))) (\<lambda>_.
     seq (exec (complete_job (j_id j) JFailed (Some text))) (\<lambda>_.
     delete_compose_source (j_source_key j)))))))))))"

definition cleanup_interrupted_deployments :: "string \<Rightarrow> unit act" where
  "cleanup_interrupted_deployments msg =
     seq (query list_interrupted_jobs) (\<lambda>jobs.
     for_each (\<lambda>j. ignore (cleanup_interrupted_deployment msg j)) jobs)"

end
