(* ===== verification/ComposeProps.thy ===== *)
theory ComposeProps
  imports ComposeCoordinator ParserProps Commits Samples
begin

text \<open>Properties of compose deployments: the service graph, the request and the rollback.\<close>

section \<open>The service graph\<close>

lemma service_position_Some:
  assumes "service_position name ss = Some k"
  shows "k < length ss \<and> cs_name (ss ! k) = name"
proof -
  have "(name, k) \<in> set (zip (map cs_name ss) [0..<length ss])"
    using map_of_SomeD[OF assms[unfolded service_position_def]] by simp
  then obtain i where "i < length ss" "(name, k) = (map cs_name ss ! i, [0..<length ss] ! i)"
    by (auto simp: in_set_zip)
  then show ?thesis by simp
qed

definition earlier :: "compose_service list \<Rightarrow> (string \<times> id) list \<Rightarrow> nat \<Rightarrow> service_dependency \<Rightarrow> bool" where
  "earlier ss cids i d \<longleftrightarrow> (\<exists>k < i. k < length ss \<and> cs_name (ss ! k) = sd_service d
     \<and> map_of cids (sd_service d) = Some (sd_depends_on d))"

lemma graph_dependencies_Inr:
  assumes "graph_dependencies pid ss cids i cid name ds = Inr out"
  shows "(\<forall>d \<in> set out. earlier ss cids i d)
    \<and> (\<forall>d \<in> set ds. \<not> cd_optional d \<longrightarrow> (\<exists>x \<in> set out. sd_service x = cd_service d \<and> sd_condition x = cd_condition d))"
  using assms
proof (induction ds arbitrary: out)
  case (Cons d ds)
  show ?case
  proof (cases "service_position (cd_service d) ss")
    case None
    then show ?thesis using Cons by (auto split: if_splits)
  next
    case (Some k)
    then have k: "k < i" using Cons.prems by (auto split: if_splits)
    show ?thesis
    proof (cases "map_of cids (cd_service d)")
      case None
      then show ?thesis using Cons Some k by (auto split: if_splits)
    next
      case target: (Some t)
      then obtain rest where rest: "graph_dependencies pid ss cids i cid name ds = Inr rest"
        and out: "out = \<lparr> sd_project = pid, sd_container = cid, sd_depends_on = t, sd_service = cd_service d,
          sd_condition = cd_condition d, sd_optional = cd_optional d \<rparr> # rest"
        using Cons.prems Some k by (auto simp: repo_simps)
      have "earlier ss cids i (hd out)"
        using service_position_Some[OF Some] k target out by (auto simp: earlier_def)
      then show ?thesis using Cons.IH[OF rest] out by auto
    qed
  qed
qed simp

lemma graph_nodes_Inr:
  assumes "graph_nodes pid ss cids i rest = Inr ns"
  shows "length ns = length rest \<and> (\<forall>m < length rest. sn_order (ns ! m) = int (i + m)
     \<and> sn_service (ns ! m) = cs_name (rest ! m) \<and> map_of cids (cs_name (rest ! m)) = Some (sn_container (ns ! m))
     \<and> graph_dependencies pid ss cids (i + m) (sn_container (ns ! m)) (cs_name (rest ! m)) (cs_deps (rest ! m))
       = Inr (sn_deps (ns ! m)))"
  using assms
proof (induction rest arbitrary: i ns)
  case (Cons s rest)
  from Cons.prems obtain cid ds ns' where c: "map_of cids (cs_name s) = Some cid"
    and d: "graph_dependencies pid ss cids i cid (cs_name s) (cs_deps s) = Inr ds"
    and n: "graph_nodes pid ss cids (Suc i) rest = Inr ns'"
    and ns: "ns = \<lparr> sn_project = pid, sn_container = cid, sn_service = cs_name s, sn_order = int i, sn_deps = ds \<rparr> # ns'"
    by (auto simp: repo_simps split: option.splits)
  show ?case using Cons.IH[OF n] c d ns by (auto simp: nth_Cons split: nat.splits)
qed simp

text \<open>
  The graph saved for a deployment lists its services in the order of the plan, numbered from
  zero.  Every dependency in it points to the container of a service with a smaller number, so the
  order is one in which the services can be started; and no required dependency of the compose file
  is lost.
\<close>

theorem service_graph_is_ordered:
  assumes "project_service_graph pid ss cids = Inr g"
  shows "length g = length ss \<and> (\<forall>i < length g. sn_order (g ! i) = int i \<and> sn_service (g ! i) = cs_name (ss ! i)
    \<and> (\<forall>d \<in> set (sn_deps (g ! i)). \<exists>k < i. sn_service (g ! k) = sd_service d \<and> sn_container (g ! k) = sd_depends_on d)
    \<and> (\<forall>d \<in> set (cs_deps (ss ! i)). \<not> cd_optional d \<longrightarrow>
        (\<exists>x \<in> set (sn_deps (g ! i)). sd_service x = cd_service d \<and> sd_condition x = cd_condition d)))"
proof -
  note n = graph_nodes_Inr[OF assms[unfolded project_service_graph_def]]
  have "\<exists>k < i. sn_service (g ! k) = sd_service d \<and> sn_container (g ! k) = sd_depends_on d"
    if "i < length g" "d \<in> set (sn_deps (g ! i))" for i d
  proof -
    have "earlier ss cids i d" using graph_dependencies_Inr n that by fastforce
    then obtain k where k: "k < i" "k < length ss" "cs_name (ss ! k) = sd_service d"
      "map_of cids (sd_service d) = Some (sd_depends_on d)" by (auto simp: earlier_def)
    then show ?thesis using n by (intro exI[of _ k]) auto
  qed
  then show ?thesis using n graph_dependencies_Inr by fastforce
qed

definition shop_service :: "string \<Rightarrow> compose_dependency list \<Rightarrow> compose_service" where
  "shop_service name deps = \<lparr> cs_name = name, cs_image = ''nginx'', cs_context = [], cs_dockerfile = [], cs_env = [],
     cs_mounts = [], cs_deps = deps, cs_command = [], cs_entrypoint = [], cs_args = [], cs_restart = [],
     cs_health = None, cs_domain = [], cs_port = 0 \<rparr>"

definition shop_services :: "compose_service list" where
  "shop_services = [shop_service ''db'' [], shop_service ''web''
     [\<lparr> cd_service = ''db'', cd_condition = CondHealthy, cd_optional = False \<rparr>,
      \<lparr> cd_service = ''mail'', cd_condition = CondStarted, cd_optional = True \<rparr>]]"

theorem service_graph_is_ordered_witness:
  "\<exists>g. project_service_graph 3 shop_services [(''db'', 10), (''web'', 11)] = Inr g \<and> length g = 2
     \<and> (\<exists>x \<in> set (sn_deps (g ! 1)). sd_service x = ''db'' \<and> sd_condition x = CondHealthy)"
proof -
  let ?r = "project_service_graph 3 shop_services [(''db'', 10), (''web'', 11)]"
  have "case ?r of Inr g \<Rightarrow> length g = 2 | Inl e \<Rightarrow> False" by code_simp
  then obtain g where r: "?r = Inr g" and l: "length g = 2" by (cases ?r) auto
  have s: "\<exists>d \<in> set (cs_deps (shop_services ! 1)). cd_service d = ''db'' \<and> cd_condition d = CondHealthy \<and> \<not> cd_optional d"
    by code_simp
  have "1 < length g" using l by simp
  from conjunct2[OF service_graph_is_ordered[OF r], rule_format, OF this]
  have "\<forall>d \<in> set (cs_deps (shop_services ! 1)). \<not> cd_optional d \<longrightarrow>
      (\<exists>x \<in> set (sn_deps (g ! 1)). sd_service x = cd_service d \<and> sd_condition x = cd_condition d)"
    by blast
  with s have x: "\<exists>x \<in> set (sn_deps (g ! 1)). sd_service x = ''db'' \<and> sd_condition x = CondHealthy" by metis
  show ?thesis by (intro exI[of _ g] conjI r l x)
qed

section \<open>Requests\<close>

text \<open>The tables a deployment request fills.\<close>

definition deployment_tables :: "db \<Rightarrow> project list \<times> job list \<times> compose_message outbox list" where
  "deployment_tables d = (t_projects d, t_jobs d, t_pout d)"

definition deployment_added :: "id \<Rightarrow> string \<Rightarrow> id \<Rightarrow> project list \<times> job list \<times> compose_message outbox list
    \<Rightarrow> project list \<times> job list \<times> compose_message outbox list \<Rightarrow> bool" where
  "deployment_added owner name pid T T' \<longleftrightarrow> (\<exists>p j row. T' = (fst T @ [p], fst (snd T) @ [j], snd (snd T) @ [row])
     \<and> p_id p = pid \<and> p_owner p = owner \<and> p_name p = name \<and> p_status p = PBuilding
     \<and> j_project j = pid \<and> j_owner j = owner \<and> j_status j = JQueued \<and> \<not> j_cancel_requested j \<and> j_attempts j = 0
     \<and> ob_ref row = j_id j \<and> ob_status row = ObPending \<and> cm_job (ob_payload row) = j_id j)"

lemma keeps_staged_deployments:
  "keeps (\<lambda>d. deployment_tables d = T) (exec (release_staged key))"
  "keeps (\<lambda>d. deployment_tables d = T) (exec (update_staged_bytes key n))"
  "keeps (\<lambda>d. deployment_tables d = T) (exec (reserve_staged so n))"
proof -
  have t: "write_staged t d = Inr d' \<Longrightarrow> deployment_tables d' = deployment_tables d" for t d d'
    by (auto simp: write_staged_def accept_def deployment_tables_def split: option.splits)
  show "keeps (\<lambda>d. deployment_tables d = T) (exec (release_staged key))"
    "keeps (\<lambda>d. deployment_tables d = T) (exec (update_staged_bytes key n))"
    "keeps (\<lambda>d. deployment_tables d = T) (exec (reserve_staged so n))"
    by (auto intro!: keeps_exec simp: release_staged_def update_staged_bytes_def update_staged_def
        reserve_staged_def bind_res_def Let_def dest!: t split: if_splits sum.splits)
qed

lemma aside_deployment_source:
  "aside deployment_tables (delete_compose_source key)" "aside deployment_tables (reserve_compose_source owner key n)"
  "aside deployment_tables (record_source_size key)" "aside deployment_tables (upload_stream buf key rd broken)"
  "aside deployment_tables (of_result x)" "aside deployment_tables (clean_compose_file file)"
  "aside deployment_tables (build_disk_floor k)" "aside deployment_tables (check e)"
  by (intro aside_keeps; auto simp: delete_compose_source_def reserve_compose_source_def record_source_size_def
      update_compose_source_bytes_def ensure_compose_staged_quota_def delete_object_def stat_object_def Let_def
      upload_stream_def of_result_def clean_compose_file_def build_disk_floor_def ensure_host_disk_floor_projected_def
      split: option.splits sum.splits intro!: keeps_staged_deployments keeps_intros)+

lemma keeps_check_capacity: "keeps I (check_capacity owner ram cpu disk)"
  unfolding check_capacity_def by (intro keeps_intros)

lemma aside_deployment_checks:
  "aside deployment_tables (parse_compose_project kit name txtt base)" "aside deployment_tables (ensure_compose_queue_limit owner)"
  "aside deployment_tables (ensure_deployment_capacity owner p)" "aside deployment_tables (builds_available b src)"
  unfolding parse_compose_project_def ensure_compose_queue_limit_def ensure_deployment_capacity_def builds_available_def Let_def
  by (intro aside_keeps keeps_intros keeps_check_capacity
      keeps_aside[OF aside_deployment_source(5)] keeps_aside[OF aside_deployment_source(7)])+

lemma commits_deployment:
  "commits deployment_tables (deployment_added owner name) (insert_deployment owner name st key file)"
  unfolding insert_deployment_def
  by (intro commits_seq commits_write aside_pure)
    (auto simp: create_with_deployment_job_def insert_project_def insert_job_def insert_compose_outbox_def repo_simps
      accept_def Let_def deployment_tables_def deployment_added_def queued_project_def queued_job_def deployment_message_def
      new_outbox_def fresh_row_def split: option.splits if_splits)

lemma aside_or_discard: "aside deployment_tables m \<Longrightarrow> aside deployment_tables (or_discard key m)"
  unfolding or_discard_def by (intro aside_on_error aside_seq aside_deployment_source aside_fail)

lemma commits_or_discard: "commits deployment_tables Q m \<Longrightarrow> commits deployment_tables Q (or_discard key m)"
  unfolding or_discard_def by (intro commits_on_error aside_deployment_source)

lemma seq_of_result: "seq (of_result (Inr x)) f = f x" "seq (of_result (Inl e)) f = fail e"
  by (auto simp: of_result_def seq_def ret_def fail_def fun_eq_iff)

lemma commits_create_deployment:
  assumes "require_user_owner ctx = Inr owner"
  shows "commits deployment_tables (deployment_added owner name) (create_deployment_job kit ctx name st key file src)"
  unfolding create_deployment_job_def assms seq_of_result
  by (intro commits_or_discard commits_seq commits_branches commits_fail commits_deployment aside_deployment_checks)

lemma aside_stage: "aside deployment_tables (stage_git_source rk owner repo ref file)"
  unfolding stage_git_source_def Let_def upload_archive_def
  by (intro aside_keeps keeps_intros keeps_aside[OF aside_or_discard]
      keeps_aside[OF aside_deployment_source(2)] keeps_aside[OF aside_deployment_source(3)]
      keeps_aside[OF aside_deployment_source(5)] aside_fail)

text \<open>
  A request to deploy a compose project, from an upload or from a repository, that fails, at
  whatever point, leaves no project, no job and no message behind.  A request that succeeds adds the
  three in one transaction: the project of the caller with the name asked for, its queued job, and
  the message that names the job.
\<close>

theorem deployment_request_is_atomic:
  assumes "start_deployment kit src ctx buf name archive file chunks broken w = (r, w')
    \<or> start_git_deployment kit parse rk ctx name repo ref file w = (r, w')"
  shows "case r of Inl e \<Rightarrow> deployment_tables (w_db w') = deployment_tables (w_db w)
     | Inr pid \<Rightarrow> \<exists>owner. require_user_owner ctx = Inr owner
         \<and> deployment_added owner name pid (deployment_tables (w_db w)) (deployment_tables (w_db w'))"
proof (cases "require_user_owner ctx")
  case (Inl e)
  then have "r = Inl e \<and> w' = w" using assms
    by (auto simp: start_deployment_def start_git_deployment_def seq_of_result fail_def)
  then show ?thesis by simp
next
  case (Inr owner)
  have "commits deployment_tables (deployment_added owner name) (start_deployment kit src ctx buf name archive file chunks broken)"
    unfolding start_deployment_def Inr seq_of_result Let_def
    by (intro commits_seq commits_or_discard commits_create_deployment[OF Inr] aside_or_discard aside_deployment_source
        aside_pure aside_on_error aside_seq aside_fail)
  moreover have "commits deployment_tables (deployment_added owner name) (start_git_deployment kit parse rk ctx name repo ref file)"
    unfolding start_git_deployment_def Inr seq_of_result
    by (intro commits_seq commits_branches commits_fail commits_create_deployment[OF Inr] aside_deployment_source
        aside_stage aside_pure)
  ultimately have "case r of Inl e \<Rightarrow> deployment_tables (w_db w') = deployment_tables (w_db w)
     | Inr pid \<Rightarrow> deployment_added owner name pid (deployment_tables (w_db w)) (deployment_tables (w_db w'))"
    using assms unfolding commits_def by blast
  then show ?thesis using Inr by (cases r) simp_all
qed

text \<open>A bare compose file without services: it is uploaded, read, refused and removed again.\<close>

definition plain_kit :: compose_kit where
  "plain_kit = \<lparr> ck_load = (\<lambda>project text. Inr []), ck_project = (\<lambda>project m. Inr \<lparr> tp_services = [], tp_volumes = [] \<rparr>) \<rparr>"

definition plain_source :: compose_source where
  "plain_source = \<lparr> co_zip = (\<lambda>key. Inr None), co_tar = (\<lambda>key. Inr None), co_raw = (\<lambda>key. Inr ''services:'') \<rparr>"

theorem deployment_request_is_atomic_witness:
  "let (r, w') = start_deployment plain_kit plain_source (Some (user_scope 7 [] [])) 3 ''shop'' ''c.yml'' [] [''x''] None sample_world
   in r = Inl (mk_err ErrBadRequest ''compose project must define at least one service'')
     \<and> deployment_tables (w_db w') = deployment_tables sample_db"
proof -
  let ?m = "start_deployment plain_kit plain_source (Some (user_scope 7 [] [])) 3 ''shop'' ''c.yml'' [] [''x''] None sample_world"
  have e: "fst ?m = Inl (mk_err ErrBadRequest ''compose project must define at least one service'')" by code_simp
  obtain r w' where m: "?m = (r, w')" by (cases ?m)
  from deployment_request_is_atomic[OF disjI1[OF m]] e m show ?thesis by (simp add: sample_world_def)
qed

end
