(* ===== verification/RollbackProps.thy ===== *)
theory RollbackProps
  imports ComposeCoordinator RequestProps BuildProps
begin

text \<open>
  Properties of the end of a deployment: what a rollback waits for, and what a cancellation leaves.
\<close>

section \<open>Tables a rollback leaves alone\<close>

definition jobs_and_builds :: "db \<Rightarrow> job list \<times> build list" where
  "jobs_and_builds d = (t_jobs d, t_builds d)"

lemma keeps_jobs_and_builds:
  "keeps (\<lambda>d. jobs_and_builds d = T) (exec (update_project_status pid s msg))"
  "keeps (\<lambda>d. jobs_and_builds d = T) (exec (cancel_create_and_delete cid e))"
  "keeps (\<lambda>d. jobs_and_builds d = T) (exec (queue_container_operation cid cs des op cr))"
  "keeps (\<lambda>d. jobs_and_builds d = T) (exec (queue_volume_delete vid op rr))"
  "keeps (\<lambda>d. jobs_and_builds d = T) (exec (queue_image_delete iid op rr))"
  "keeps (\<lambda>d. jobs_and_builds d = T) (exec (unlink_project_volume pid vid))"
  "keeps (\<lambda>d. jobs_and_builds d = T) (exec (release_staged key))"
  by (rule keeps_exec; auto simp: update_project_status_def cancel_create_and_delete_def queue_container_operation_def
      queue_volume_delete_def queue_image_delete_def unlink_project_volume_def release_staged_def update_staged_def
      write_staged_def accept_def update_volumes_def update_images_def write_images_def write_volumes_def
      insert_operation_def insert_container_outbox_def insert_resource_outbox_def repo_simps cascade_container_def
      jobs_and_builds_def Let_def split: if_splits option.splits)+

lemmas request_defs = delete_def load_container_def cleanup_user_network_def cleanup_user_network_if_unused_def
  refresh_status_of_def refresh_project_status_def queue_operation_def request_delete_volume_def load_volume_def
  unlink_volume_def request_delete_image_def resource_operation_outbox_def delete_compose_source_def delete_object_def
  Let_def

lemma keeps_requests:
  "keeps (\<lambda>d. jobs_and_builds d = T) (delete ctx cid)"
  "keeps (\<lambda>d. jobs_and_builds d = T) (request_delete_volume ctx vid)"
  "keeps (\<lambda>d. jobs_and_builds d = T) (unlink_volume ctx pid vid)"
  "keeps (\<lambda>d. jobs_and_builds d = T) (request_delete_image ctx iid)"
  "keeps (\<lambda>d. jobs_and_builds d = T) (delete_compose_source key)"
  unfolding request_defs
  by (intro keeps_jobs_and_builds keeps_intros)+

lemma keeps_remove_containers:
  assumes "\<And>cid. keeps I (delete ctx cid)"
  shows "keeps I (remove_containers ctx clean cids)"
proof (induction cids arbitrary: clean)
  case Nil
  show ?case unfolding remove_containers.simps by (intro keeps_intros)
next
  case (Cons cid cids)
  show ?case unfolding remove_containers.simps by (intro keeps_intros Cons.IH assms)
qed

lemma keeps_remove_volumes:
  assumes "\<And>vid. keeps I (request_delete_volume ctx vid)" and "\<And>vid. keeps I (unlink_volume ctx (j_project j) vid)"
  shows "keeps I (remove_volumes ctx j plan rs clean vols)"
proof (induction vols arbitrary: clean)
  case Nil
  show ?case unfolding remove_volumes.simps by (intro keeps_intros)
next
  case (Cons v vols)
  obtain label vid where v: "v = (label, vid)" by (cases v)
  show ?case unfolding v remove_volumes.simps tolerate_missing_def by (intro keeps_intros Cons.IH assms)
qed

lemmas keeps_removals = keeps_remove_containers[OF keeps_requests(1)]
  keeps_remove_volumes[OF keeps_requests(2,3)]

section \<open>A canceled deployment\<close>

lemma keeps_builds_of_jobs:
  "keeps (\<lambda>d. t_builds d = T) (exec (update_deployment_progress jid pid s st pl rs))"
  "keeps (\<lambda>d. t_builds d = T) (exec (complete_job jid js msg))"
  by (rule keeps_exec; auto simp: update_deployment_progress_def complete_job_def update_jobs_def set_project_def repo_simps
      split: if_splits option.splits)+

lemma keeps_builds_only: "(\<And>J. keeps (\<lambda>d. jobs_and_builds d = J) m) \<Longrightarrow> keeps (\<lambda>d. t_builds d = T) m"
  unfolding keeps_def jobs_and_builds_def by (metis prod.inject)

lemma keeps_builds_cleanup:
  "keeps (\<lambda>d. t_builds d = T) (cleanup_job ctx j plan rs)" "keeps (\<lambda>d. t_builds d = T) (cancel_job ctx j plan rs)"
proof -
  note k = keeps_builds_only[OF keeps_removals(1)] keeps_builds_only[OF keeps_removals(2)]
    keeps_builds_only[OF keeps_requests(4)] keeps_builds_only[OF keeps_requests(5)]
    keeps_builds_only[OF keeps_jobs_and_builds(1)] keeps_builds_of_jobs keeps_intros
  show c: "keeps (\<lambda>d. t_builds d = T) (cleanup_job ctx j plan rs)" for j rs
    unfolding cleanup_job_def finish_cleanup_def delete_successful_build_images_def delete_successful_image_def
      tolerate_missing_def save_progress_def Let_def
    by (intro k)
  show "keeps (\<lambda>d. t_builds d = T) (cancel_job ctx j plan rs)"
    unfolding cancel_job_def save_progress_def Let_def by (intro c k)
qed

text \<open>
  Cancelling a deployment does not cancel its builds: the ticks of the coordinator that take a
  canceled job through its rollback leave every build as it is, so a build that was waiting or
  running goes on.  (A deployment that fails does cancel its builds.)
\<close>

theorem canceled_deployment_keeps_building:
  assumes "is_canceling j" and "j_plan j \<noteq> None"
  shows "t_builds (w_db (snd (advance_job j w))) = t_builds (w_db w)"
proof -
  obtain plan rs where "decode_state j = Inr (plan, rs)" using assms(2) by (auto simp: decode_state_def)
  then have "advance_job j w = cancel_job (job_context j) j plan rs w"
    using assms(1) by (simp add: advance_job_def Let_def)
  then show ?thesis
    using keeps_builds_cleanup(2)[of "t_builds (w_db w)"] by (auto simp: keeps_def)
qed

text \<open>A deployment that was canceled while its image is being built.\<close>

definition canceled_job :: job where
  "canceled_job = (queued_job 80 3 7 SrcUpload ''compose-sources/1.zip'' [] [])
     \<lparr>j_status := JCanceling, j_cancel_requested := True, j_stage := StageBuilding,
      j_plan := Some \<lparr> pl_name = ''shop'', pl_source = SrcUpload, pl_services = [], pl_volumes = [] \<rparr>,
      j_resources := Some (no_resources\<lparr>cr_builds := [(''web'', 50)], cr_containers := [(''web'', 999)]\<rparr>)\<rparr>"

definition canceled_world :: world where
  "canceled_world = sample_world\<lparr>w_db := sample_db\<lparr>t_projects := [queued_project 3 7 ''shop''],
     t_jobs := [canceled_job], t_builds := [sample_build\<lparr>b_project := Some 3\<rparr>]\<rparr>\<rparr>"

theorem canceled_deployment_keeps_building_witness:
  "let w' = snd (advance_job canceled_job canceled_world) in
     map j_status (t_jobs (w_db w')) = [JCanceled] \<and> map b_status (t_builds (w_db w')) = [BRunning]"
proof -
  have j: "map j_status (t_jobs (w_db (snd (advance_job canceled_job canceled_world)))) = [JCanceled]" by code_simp
  have "is_canceling canceled_job" "j_plan canceled_job \<noteq> None"
    by (simp_all add: canceled_job_def is_canceling_def)
  note c = canceled_deployment_keeps_building[OF this, of canceled_world]
  show ?thesis unfolding Let_def c
    by (intro conjI j) (simp add: canceled_world_def sample_build_def)
qed

section \<open>Errors that say a row is missing\<close>

definition never_missing :: "env \<Rightarrow> bool" where
  "never_missing env \<longleftrightarrow> (\<forall>n e. e_fault env n = Some e \<longrightarrow> \<not> errors_is e ErrNotFound)"

lemma query_missing:
  assumes "query f w = (Inl e, w')" and "never_missing (w_env w)" and "errors_is e ErrNotFound"
  shows "f (w_db w) = Inl e \<and> w_db w' = w_db w"
  using assms by (auto simp: query_def ext_def Let_def never_missing_def split: option.splits)

lemma exec_missing:
  assumes "exec f w = (Inl e, w')" and "never_missing (w_env w)" and "errors_is e ErrNotFound"
  shows "(\<exists>t. f t (w_db w) = Inl e) \<and> w_db w' = w_db w"
  using assms by (auto simp: exec_def ext_def Let_def never_missing_def split: option.splits sum.splits)

lemma violation_is_pg:
  "op_violation t = Some e \<Longrightarrow> \<not> errors_is e ErrNotFound"
  "container_violation ct = Some e \<Longrightarrow> \<not> errors_is e ErrNotFound"
  "outbox_violation name rows = Some e \<Longrightarrow> \<not> errors_is e ErrNotFound"
  by (auto simp: op_violation_def container_violation_def outbox_violation_def split: if_splits)

lemma bind_res_Inl: "bind_res r f = Inl e \<longleftrightarrow> r = Inl e \<or> (\<exists>x. r = Inr x \<and> f x = Inl e)"
  by (cases r) (auto simp: bind_res_def)

lemma insert_operation_missing: "insert_operation t op d = Inl e \<Longrightarrow> \<not> errors_is e ErrNotFound"
  by (auto simp: insert_operation_def write_ops_def accept_def map_err_def map_active_operation_def mk_err_def
      dest: violation_is_pg(1) split: option.splits sum.splits if_splits)

lemma queue_container_missing:
  assumes "queue_container_operation cid s des op r t d = Inl e" and "errors_is e ErrNotFound"
  shows "get_container cid d \<noteq> Inr c"
proof
  assume "get_container cid d = Inr c"
  then have m: "\<exists>c \<in> set (t_containers d). c_id c = cid" using get_container_mem by blast
  from assms(1) consider "insert_operation t op d = Inl e"
    | d1 where "insert_operation t op d = Inr d1" "update_containers (\<lambda>c. c_id c = cid) (\<lambda>c. observed t (c\<lparr>c_status := s, c_desired := des\<rparr>)) d1 = Inl e"
    | d2 where "insert_container_outbox t r d2 = Inl e"
    by (auto simp: queue_container_operation_def bind_res_Inl)
  then show False
  proof cases
    case 1
    then show False using insert_operation_missing assms(2) by blast
  next
    case 2
    then have "t_containers d1 = t_containers d" by (auto simp: insert_operation_def repo_simps)
    then show False using 2(2) assms(2) m
      by (auto simp: update_containers_def bind_res_Inl write_containers_def accept_def rows_affected_0
          dest: violation_is_pg(2) split: if_splits option.splits)
  next
    case 3
    then show False using assms(2)
      by (auto simp: insert_container_outbox_def bind_res_Inl write_cout_def accept_def
          dest: violation_is_pg(3) split: if_splits option.splits)
  qed
qed

section \<open>Containers that are gone\<close>

definition gone :: "id \<Rightarrow> id \<Rightarrow> db \<Rightarrow> bool" where
  "gone owner cid d \<longleftrightarrow> (\<forall>c. get_container cid d = Inr c \<longrightarrow> c_owner c \<noteq> owner)"

lemma gone_update:
  assumes "\<And>c. c_id (f c) = c_id c" and "\<And>c. c_owner (f c) = c_owner c"
  shows "gone owner cid (d\<lparr>t_containers := update_where P f (t_containers d)\<rparr>) \<longleftrightarrow> gone owner cid d"
proof -
  have "find (\<lambda>c. c_id c = cid) (update_where P f cs) =
      map_option (\<lambda>c. if P c then f c else c) (find (\<lambda>c. c_id c = cid) cs)" for cs
    by (induction cs) (auto simp: update_where_def assms)
  then show ?thesis by (auto simp: gone_def get_container_def find_row_def assms split: option.splits)
qed

lemma gone_delete_where:
  assumes "gone owner cid d"
  shows "gone owner cid (d\<lparr>t_containers := delete_where (\<lambda>c. c_id c = k) (t_containers d)\<rparr>)"
proof -
  have "find (\<lambda>c. c_id c = cid) (delete_where (\<lambda>c. c_id c = k) cs) =
      (if k = cid then None else find (\<lambda>c. c_id c = cid) cs)" for cs
    by (induction cs) (auto simp: delete_where_def)
  from this[of "t_containers d"] show ?thesis using assms
    by (auto simp: gone_def get_container_def find_row_def split: option.splits if_splits)
qed

lemma keeps_gone:
  "keeps (gone owner cid) (exec (queue_container_operation k cs des op cr))"
  "keeps (gone owner cid) (exec (cancel_create_and_delete k e))"
  "keeps (gone owner cid) (exec (update_project_status pid s msg))"
  "keeps (gone owner cid) (exec (queue_volume_delete vid op rr))"
  "keeps (gone owner cid) (exec (queue_image_delete iid op rr))"
  "keeps (gone owner cid) (exec (unlink_project_volume pid vid))"
  "keeps (gone owner cid) (exec (release_staged key))"
  "keeps (gone owner cid) (exec (complete_job jid js msg))"
proof -
  have q: "gone owner cid d'" if "queue_container_operation k cs des op cr t d = Inr d'" "gone owner cid d" for t d d'
  proof -
    from that(1) have "t_containers d' = update_where (\<lambda>c. c_id c = k) (\<lambda>c. observed t (c\<lparr>c_status := cs, c_desired := des\<rparr>)) (t_containers d)"
      by (auto simp: queue_container_operation_def insert_operation_def insert_container_outbox_def repo_simps split: if_splits)
    then show ?thesis
      using that(2) gone_update[where f = "\<lambda>c. observed t (c\<lparr>c_status := cs, c_desired := des\<rparr>)" and d = d and P = "\<lambda>c. c_id c = k"]
      by (simp add: observed_def gone_def get_container_def)
  qed
  show "keeps (gone owner cid) (exec (queue_container_operation k cs des op cr))"
    by (rule keeps_exec) (rule q)
  have c: "gone owner cid d'" if "cancel_create_and_delete k e t d = Inr d'" "gone owner cid d" for t d d'
  proof -
    from that(1) have "t_containers d' = delete_where (\<lambda>c. c_id c = k) (t_containers d)"
      by (auto simp: cancel_create_and_delete_def repo_simps cascade_container_def Let_def)
    then show ?thesis using gone_delete_where[OF that(2), of k] by (simp add: gone_def get_container_def)
  qed
  show "keeps (gone owner cid) (exec (cancel_create_and_delete k e))" by (rule keeps_exec) (rule c)
  show "keeps (gone owner cid) (exec (update_project_status pid s msg))"
    "keeps (gone owner cid) (exec (queue_volume_delete vid op rr))"
    "keeps (gone owner cid) (exec (queue_image_delete iid op rr))"
    "keeps (gone owner cid) (exec (unlink_project_volume pid vid))"
    "keeps (gone owner cid) (exec (release_staged key))"
    "keeps (gone owner cid) (exec (complete_job jid js msg))"
    by (rule keeps_exec; auto simp: update_project_status_def queue_volume_delete_def queue_image_delete_def
        unlink_project_volume_def release_staged_def update_staged_def write_staged_def accept_def update_volumes_def
        update_images_def write_images_def write_volumes_def insert_operation_def insert_resource_outbox_def
        complete_job_def update_jobs_def repo_simps gone_def get_container_def Let_def split: if_splits option.splits)+
qed

lemma keeps_gone_requests:
  "keeps (gone owner cid) (delete ctx k)" "keeps (gone owner cid) (request_delete_volume ctx vid)"
  "keeps (gone owner cid) (unlink_volume ctx pid vid)" "keeps (gone owner cid) (request_delete_image ctx iid)"
  "keeps (gone owner cid) (delete_compose_source key)"
  unfolding request_defs
  by (intro keeps_gone keeps_intros)+

lemma keeps_gone_finish: "keeps (gone owner cid) (finish_cleanup ctx j rs)"
  unfolding finish_cleanup_def delete_successful_build_images_def delete_successful_image_def tolerate_missing_def
  by (intro keeps_gone keeps_gone_requests keeps_intros)

lemma cancel_create_missing:
  assumes "cancel_create_and_delete cid cause t d = Inl e" and "errors_is e ErrNotFound"
  shows "get_container cid d \<noteq> Inr c"
proof
  assume "get_container cid d = Inr c"
  then have "\<exists>c \<in> set (t_containers d). c_id c = cid" using get_container_mem by blast
  then show False using assms
    by (auto simp: cancel_create_and_delete_def Let_def bind_res_Inl update_ops_def write_ops_def accept_def
        delete_container_def rows_affected_0 dest: violation_is_pg(1) split: option.splits if_splits)
qed

lemma queue_operation_missing:
  assumes "queue_operation c kind busy desired dmn port previous w = (Inl e, w')"
    and "never_missing (w_env w)" and "errors_is e ErrNotFound"
  shows "get_container (c_id c) (w_db w) \<noteq> Inr c0"
proof -
  from assms(1) obtain op row w1 where x: "exec (queue_container_operation (c_id c) busy desired op row) w1 = (Inl e, w')"
    and w1: "w_db w1 = w_db w" "w_env w1 = w_env w"
    by (auto simp: queue_operation_def Let_def seq_def fresh_def now_def sample_def get_env_def)
  show ?thesis using exec_missing[OF x] queue_container_missing assms(2,3) w1 by metis
qed

lemma load_container_missing:
  assumes "load_container (Some (user_scope owner u rl)) cid w = (Inl e, w')"
    and "never_missing (w_env w)" and "errors_is e ErrNotFound" and "owner \<noteq> nil_id"
  shows "gone owner cid (w_db w')"
proof -
  from assms(1) consider "query (get_container cid) w = (Inl e, w')"
    | c w1 where "query (get_container cid) w = (Inr c, w1)" "check (require_owner_access (Some (user_scope owner u rl)) (c_owner c)) w1 = (Inl e, w')"
    by (auto simp: load_container_def seq_Inl_iff ret_def)
  then show ?thesis
  proof cases
    case 1
    then show ?thesis using query_missing[OF 1 assms(2,3)] by (simp add: gone_def)
  next
    case 2
    then have "get_container cid (w_db w') = Inr c" "c_owner c \<noteq> owner"
      using assms(4) by (auto simp: query_Inr check_def require_owner_access_def require_scope_def user_scope_def
          allows_owner_def fail_def ret_def split: option.splits if_splits)
    then show ?thesis by (simp add: gone_def)
  qed
qed

lemma ignored_never_fails [simp]:
  "ignore m w \<noteq> (Inl e, w')" "cleanup_user_network owner w \<noteq> (Inl e, w')" "refresh_status_of project w \<noteq> (Inl e, w')"
proof -
  show i: "ignore m w \<noteq> (Inl e, w')" for m :: "'b act" by (cases "m w") (simp add: ignore_def)
  show "cleanup_user_network owner w \<noteq> (Inl e, w')" "refresh_status_of project w \<noteq> (Inl e, w')"
    using i by (auto simp: cleanup_user_network_def refresh_status_of_def ret_def split: option.splits)
qed

text \<open>A deletion that answers not found leaves no container of this owner with the id.\<close>

lemma delete_missing:
  assumes "delete (Some (user_scope owner u rl)) cid w = (Inl e, w')"
    and "never_missing (w_env w)" and "errors_is e ErrNotFound" and "owner \<noteq> nil_id"
  shows "gone owner cid (w_db w')"
proof -
  let ?ctx = "Some (user_scope owner u rl)"
  from assms(1) consider "load_container ?ctx cid w = (Inl e, w')"
    | c w1 where "load_container ?ctx cid w = (Inr c, w1)"
        "exec (cancel_create_and_delete cid (Some (mk_err ErrConflict ''container create canceled by delete''))) w1 = (Inl e, w')"
    | c w1 where "load_container ?ctx cid w = (Inr c, w1)"
        "query (has_active_operation RContainer cid) w1 = (Inl e, w')"
    | "e = active_operation_error"
    | c w1 w2 where "load_container ?ctx cid w = (Inr c, w1)" "query (has_active_operation RContainer cid) w1 = (Inr False, w2)"
        "queue_operation c OpDelete CDeleting CDeleting [] 0 (c_status c) w2 = (Inl e, w')"
    by (auto simp: delete_def seq_Inl_iff fail_def split: if_splits)
  then show ?thesis
  proof cases
    case 1
    then show ?thesis using load_container_missing[OF _ assms(2-4)] by blast
  next
    case 2
    then have "get_container cid (w_db w1) = Inr c" "w_env w1 = w_env w"
      by (auto simp: load_container_def act_Inr ret_def)
    then show ?thesis using exec_missing[OF 2(2)] cancel_create_missing assms(2,3) by metis
  next
    case 3
    then have "w_env w1 = w_env w" by (auto simp: load_container_def act_Inr ret_def)
    then show ?thesis using query_missing[OF 3(2)] assms(2,3) by (simp add: has_active_operation_def)
  next
    case 4
    then show ?thesis using assms(3) by (simp add: active_operation_error_def mk_err_def)
  next
    case 5
    then have "get_container cid (w_db w2) = Inr c" "w_env w2 = w_env w"
      by (auto simp: load_container_def act_Inr ret_def)
    moreover then have "c_id c = cid" using get_container_mem by blast
    ultimately show ?thesis using queue_operation_missing[OF 5(3)] assms(2,3) by metis
  qed
qed

lemma remove_containers_clean:
  assumes "remove_containers (Some (user_scope owner u rl)) clean cids w = (Inr True, w')"
    and "never_missing (w_env w)" and "owner \<noteq> nil_id"
  shows "clean \<and> (\<forall>cid \<in> set cids. gone owner cid (w_db w'))"
  using assms
proof (induction cids arbitrary: clean w)
  case Nil
  then show ?case by (simp add: ret_def)
next
  case (Cons cid cids)
  let ?ctx = "Some (user_scope owner u rl)"
  obtain r w1 where d: "delete ?ctx cid w = (r, w1)" by (cases "delete ?ctx cid w")
  have env: "w_env w1 = w_env w" using followsD[OF follows_delete d] by blast
  show ?case
  proof (cases r)
    case (Inr x)
    then have "remove_containers ?ctx False cids w1 = (Inr True, w')" using Cons.prems(1) d by (simp add: seq_def attempt_def)
    then show ?thesis using Cons.IH[of False w1] Cons.prems(2,3) env by simp
  next
    case (Inl e)
    have "remove_containers ?ctx clean cids w1 = (Inr True, w') \<and> errors_is e ErrNotFound"
      using Cons.prems d Inl Cons.IH[of False w1] env
      by (auto simp: seq_def attempt_def fail_def split: if_splits)
    then have n: "errors_is e ErrNotFound" and rest: "remove_containers ?ctx clean cids w1 = (Inr True, w')" by auto
    have g: "gone owner cid (w_db w1)" using delete_missing[OF _ Cons.prems(2) n Cons.prems(3)] d Inl by blast
    have "gone owner cid (w_db w')"
      by (rule keepsD[where I = "gone owner cid" and w = w1 and m = "remove_containers ?ctx clean cids", OF _ g rest]) (intro keeps_remove_containers keeps_gone_requests)
    then show ?thesis using Cons.IH[OF rest] Cons.prems(2,3) env by simp
  qed
qed

section \<open>The end of a rollback\<close>

lemma remove_volumes_clean: "remove_volumes ctx j plan rs clean vols w = (Inr True, w') \<Longrightarrow> clean"
proof (induction vols arbitrary: clean w)
  case Nil
  then show ?case by (simp add: ret_def)
next
  case (Cons v vols)
  obtain label vid where v: "v = (label, vid)" by (cases v)
  show ?case
  proof (cases "plan_volume_managed plan label \<and> volume_alias_created rs label")
    case True
    obtain r w1 where d: "request_delete_volume ctx vid w = (r, w1)" by (cases "request_delete_volume ctx vid w")
    then show ?thesis using Cons.prems Cons.IH[of clean w1] Cons.IH[of False w1] v True
      by (cases r) (auto simp: seq_def attempt_def fail_def split: if_splits)
  next
    case False
    then show ?thesis using Cons.prems Cons.IH v by (auto simp: seq_Inr_iff split: if_splits)
  qed
qed

definition job_over :: "id \<Rightarrow> db \<Rightarrow> bool" where
  "job_over jid d \<longleftrightarrow> (\<exists>q. get_job jid d = Inr q \<and> is_job_terminal (j_status q))"

lemma job_over_tables: "jobs_and_builds d' = jobs_and_builds d \<Longrightarrow> job_over jid d' = job_over jid d"
  by (simp add: job_over_def get_job_def jobs_and_builds_def)

lemma job_over_aside:
  "aside jobs_and_builds m \<Longrightarrow> m w = (r, w') \<Longrightarrow> job_over jid (w_db w') = job_over jid (w_db w)"
  using asideD job_over_tables by metis

lemma job_over_update:
  assumes "update_jobs P f d = Inr d'" and "\<And>q. j_id (f q) = j_id q" and "\<And>q. j_status (f q) = j_status q"
  shows "job_over jid d' = job_over jid d"
proof -
  have d': "t_jobs d' = update_where P f (t_jobs d)" using assms(1) by (auto simp: update_jobs_def split: if_splits)
  have "find (\<lambda>q. j_id q = jid) (update_where P f js) =
      map_option (\<lambda>q. if P q then f q else q) (find (\<lambda>q. j_id q = jid) js)" for js
    by (induction js) (auto simp: update_where_def assms)
  then show ?thesis
    unfolding job_over_def get_job_def find_row_def d'
    by (cases "find (\<lambda>q. j_id q = jid) (t_jobs d)") (simp_all add: assms)
qed

lemma save_progress_job_over:
  assumes "save_progress j st stage plan rs w = (r, w')" and "job_over jid (w_db w')"
  shows "job_over jid (w_db w)"
proof -
  have s: "job_over jid (set_project pid s m d) = job_over jid d" for pid s m d
    by (simp add: set_project_def job_over_def get_job_def)
  have u: "job_over jid d' = job_over jid d"
    if "update_deployment_progress a b (Some st) stage (Some plan) (Some rs) t d = Inr d'" for a b t d d'
  proof -
    from that obtain d1 where d1: "update_jobs (\<lambda>j. j_id j = a \<and> interrupted_job j)
       (\<lambda>j. j\<lparr>j_stage := stage, j_plan := Some plan, j_resources := Some rs, j_updated := t\<rparr>) d = Inr d1"
      and d': "d' = set_project b st None d1"
      by (auto simp: update_deployment_progress_def repo_simps)
    show ?thesis unfolding d' s by (rule job_over_update[OF d1]) simp_all
  qed
  have "keeps (\<lambda>d. \<not> job_over jid d) (save_progress j st stage plan rs)"
    unfolding save_progress_def by (rule keeps_exec) (use u in blast)
  then show ?thesis using assms unfolding keeps_def by (metis snd_conv)
qed

lemma cleanup_job_over:
  assumes c: "cleanup_job (Some (user_scope owner u rl)) j plan rs w = (r, w')"
    and over: "\<not> job_over (j_id j) (w_db w)" "job_over (j_id j) (w_db w')"
    and env: "never_missing (w_env w)" "owner \<noteq> nil_id"
  shows "\<forall>cid \<in> snd ` set (cr_containers rs). gone owner cid (w_db w')"
proof -
  let ?ctx = "Some (user_scope owner u rl)"
  let ?rs = "rs\<lparr>cr_cleanup_status := Some (cleanup_status_of rs)\<rparr>"
  let ?st = "if cleanup_status_of ?rs = JCanceled then PCanceled else PFailed"
  let ?up = "tolerate_missing (exec (update_project_status (j_project j) ?st (Some (cleanup_message ?rs))))"
  obtain r1 w1 where u: "?up w = (r1, w1)" by (cases "?up w")
  have e1: "w_env w1 = w_env w"
    using u by (auto simp: tolerate_missing_def on_error_def exec_def ext_def Let_def ret_def fail_def
        split: prod.splits sum.splits option.splits if_splits)
  have a: "aside jobs_and_builds ?up"
    unfolding tolerate_missing_def by (intro aside_keeps keeps_jobs_and_builds keeps_intros)
  have n1: "\<not> job_over (j_id j) (w_db w1)" using job_over_aside[OF a u] over(1) by blast
  then obtain x1 where r1: "r1 = Inr x1" using c u over(2) by (cases r1) (auto simp: cleanup_job_def Let_def seq_def)
  obtain r2 w2 where m: "remove_containers ?ctx True (map snd (cr_containers rs)) w1 = (r2, w2)"
    by (cases "remove_containers ?ctx True (map snd (cr_containers rs)) w1")
  have n2: "\<not> job_over (j_id j) (w_db w2)" using job_over_aside[OF aside_keeps[OF keeps_removals(1)] m] n1 by blast
  then obtain clean where r2: "r2 = Inr clean"
    using c u r1 m over(2) by (cases r2) (auto simp: cleanup_job_def Let_def seq_def)
  obtain r3 w3 where v: "remove_volumes ?ctx j plan ?rs clean (cr_volumes rs) w2 = (r3, w3)"
    by (cases "remove_volumes ?ctx j plan ?rs clean (cr_volumes rs) w2")
  have n3: "\<not> job_over (j_id j) (w_db w3)" using job_over_aside[OF aside_keeps[OF keeps_removals(2)] v] n2 by blast
  then obtain clean' where r3: "r3 = Inr clean'"
    using c u r1 m r2 v over(2) by (cases r3) (auto simp: cleanup_job_def Let_def seq_def)
  have rest: "(if \<not> clean' then save_progress j ?st StageRollingBack plan ?rs else finish_cleanup ?ctx j ?rs) w3 = (r, w')"
    using c u r1 m r2 v r3 by (simp add: cleanup_job_def Let_def seq_def)
  then have clean': "clean'" and fin: "finish_cleanup ?ctx j ?rs w3 = (r, w')"
    using save_progress_job_over n3 over(2) by (auto split: if_splits)
  have "clean" using remove_volumes_clean[of ?ctx j plan ?rs clean "cr_volumes rs" w2 w3] v r3 clean' by simp
  then have g: "\<forall>cid \<in> snd ` set (cr_containers rs). gone owner cid (w_db w2)"
    using remove_containers_clean[of owner u rl True "map snd (cr_containers rs)" w1 w2] m r2 env e1 by simp
  show ?thesis
  proof
    fix cid assume "cid \<in> snd ` set (cr_containers rs)"
    then have "gone owner cid (w_db w2)" using g by blast
    then have "gone owner cid (w_db w3)"
      using keeps_remove_volumes[OF keeps_gone_requests(2,3), of owner cid ?ctx j plan ?rs clean "cr_volumes rs"] v
      unfolding keeps_def by (metis snd_conv)
    then show "gone owner cid (w_db w')" using keeps_gone_finish[of owner cid ?ctx j ?rs] fin
      unfolding keeps_def by (metis snd_conv)
  qed
qed

text \<open>
  C23. A rollback ends only when the containers of the deployment are gone: when a clean-up leaves a
  job finished that was not, then none of the containers recorded for it belongs to its owner any
  more.  Until then every tick deletes what is left.  The only assumption is that a failing call
  (Docker, the broker, a lost connection) does not answer that a row is missing.
\<close>

theorem rollback_waits_for_containers:
  assumes "cleanup_job (job_context j) j plan rs w = (r, w')"
    and "\<not> job_over (j_id j) (w_db w)" and "job_over (j_id j) (w_db w')"
    and "never_missing (w_env w)" and "j_owner j \<noteq> nil_id"
  shows "\<forall>(service, cid) \<in> set (cr_containers rs). \<forall>c. get_container cid (w_db w') = Inr c \<longrightarrow> c_owner c \<noteq> j_owner j"
  using cleanup_job_over[OF assms(1)[unfolded job_context_def] assms(2-5)] by (force simp: gone_def)

theorem rollback_waits_for_containers_witness:
  "let w' = snd (cleanup_job (job_context canceled_job) canceled_job empty_plan (no_resources\<lparr>cr_containers := [(''web'', 999)]\<rparr>)
      canceled_world) in \<forall>c. get_container 999 (w_db w') = Inr c \<longrightarrow> c_owner c \<noteq> 7"
proof -
  let ?m = "cleanup_job (job_context canceled_job) canceled_job empty_plan (no_resources\<lparr>cr_containers := [(''web'', 999)]\<rparr>) canceled_world"
  have m: "?m = (fst ?m, snd ?m)" by simp
  have s: "map j_status (t_jobs (w_db (snd ?m))) = [JFailed] \<and> map j_id (t_jobs (w_db (snd ?m))) = [80]" by code_simp
  then obtain q where "t_jobs (w_db (snd ?m)) = [q]" "j_status q = JFailed" "j_id q = 80" by auto
  then have over: "job_over (j_id canceled_job) (w_db (snd ?m))"
    by (simp add: job_over_def get_job_def find_row_def canceled_job_def queued_job_def)
  have start: "\<not> job_over (j_id canceled_job) (w_db canceled_world)"
    by (simp add: job_over_def get_job_def find_row_def canceled_world_def canceled_job_def)
  have env: "never_missing (w_env canceled_world)"
    by (simp add: never_missing_def canceled_world_def sample_world_def sample_env_def)
  have o: "j_owner canceled_job \<noteq> nil_id" "j_owner canceled_job = 7" by (simp_all add: canceled_job_def queued_job_def)
  from rollback_waits_for_containers[OF m start over env o(1)] o(2) show ?thesis by simp
qed

end
