(* ===== verification/SsoProps.thy ===== *)
theory SsoProps
  imports SsoApi
begin

text \<open>
  What the sign-on service relies on in golang-jwt, and a concrete instance of it: a small state of
  the service on which the theorems are evaluated.
\<close>

text \<open>
  A token whose expiry is a whole number of seconds (below 2 to the 53, the numbers a JSON number is
  read exactly for) opens with the key it was signed with, until the expiry, to the identifier and the
  ASCII type that were signed; its header names the HMAC method.  Nothing is assumed of other claims,
  which JSON may change when they are not UTF-8.
\<close>

definition jwt_contract :: "sso_env \<Rightarrow> bool" where
  "jwt_contract env \<longleftrightarrow> (\<forall>k c tok. x_sign env k c = Inr tok \<and> uc_expires c mod 1000000000 = 0
        \<and> \<bar>uc_expires c\<bar> < 2 ^ 53 * 1000000000 \<and> ascii (uc_type c) \<longrightarrow>
     (\<exists>kid. x_header env tok = Some (SignHmac, kid))
     \<and> (\<exists>c'. uc_user c' = uc_user c \<and> uc_type c' = uc_type c
          \<and> (\<forall>t. x_open env (HmacKey k) t tok = (if t < uc_expires c then Some c' else None))))"

section \<open>A token format that can be read back\<close>

definition put_nat :: "nat \<Rightarrow> string" where "put_nat n = replicate n (CHR ''1'') @ ''0''"
definition get_nat :: "string \<Rightarrow> nat \<times> string" where
  "get_nat s = (let n = length (takeWhile (\<lambda>c. c = CHR ''1'') s) in (n, drop (Suc n) s))"

definition put_text :: "string \<Rightarrow> string" where "put_text t = put_nat (length t) @ t"
definition get_text :: "string \<Rightarrow> string \<times> string" where
  "get_text s = (let (n, r) = get_nat s in (take n r, drop n r))"

definition put_claims :: "string \<Rightarrow> user_claims \<Rightarrow> string" where
  "put_claims k c = put_text k @ put_nat (uc_user c) @ put_text (uc_username c) @ put_text (uc_role c)
     @ put_text (uc_type c) @ put_nat (nat (uc_expires c div 1000000000)) @ put_nat (nat (- (uc_expires c div 1000000000)))"

definition get_claims :: "string \<Rightarrow> string \<times> user_claims" where
  "get_claims s =
    (let (k, s) = get_text s; (i, s) = get_nat s; (n, s) = get_text s; (r, s) = get_text s;
         (ty, s) = get_text s; (p, s) = get_nat s; (q, s) = get_nat s
     in (k, \<lparr> uc_user = i, uc_username = n, uc_role = r, uc_type = ty, uc_expires = (int p - int q) * 1000000000 \<rparr>))"

lemma take_ones: "takeWhile (\<lambda>c. c = CHR ''1'') (replicate n (CHR ''1'') @ CHR ''0'' # s) = replicate n (CHR ''1'')"
  by (induction n) simp_all

lemma get_put_nat [simp]: "get_nat (put_nat n @ s) = (n, s)"
  by (simp add: get_nat_def put_nat_def take_ones Let_def)

lemma get_put_text [simp]: "get_text (put_text t @ s) = (t, s)"
  by (simp add: get_text_def put_text_def)

lemma get_put_claims: "uc_expires c mod 1000000000 = 0 \<Longrightarrow> get_claims (put_claims k c) = (k, c)"
proof -
  assume "uc_expires c mod 1000000000 = 0"
  then have "uc_expires c div 1000000000 * 1000000000 = uc_expires c" by (metis add.right_neutral div_mult_mod_eq)
  moreover have "int (nat q) - int (nat (- q)) = q" for q by simp
  moreover have "get_nat (put_nat n) = (n, [])" for n using get_put_nat[of n "[]"] by simp
  ultimately show ?thesis by (simp add: get_claims_def put_claims_def)
qed

section \<open>A state of the service\<close>

definition sample_unicode :: unicode where
  "sample_unicode = \<lparr> un_letter = (\<lambda>r. 0xC0 \<le> r), un_digit = (\<lambda>_. False), un_lower = (\<lambda>r. r) \<rparr>"

definition sample_id_claims :: id_claims where
  "sample_id_claims = \<lparr> ic_subject = ''s1'', ic_nonce = ''bm9uY2U'', ic_preferred = ''Ada'', ic_name = [],
     ic_email = [], ic_verified = False, ic_groups = [], ic_roles = [''ops''] \<rparr>"

definition sample_sso_env :: sso_env where
  "sample_sso_env = \<lparr> x_fault = (\<lambda>_. None), x_now = (\<lambda>n. int n mod 2 ^ 62), x_uuid = (\<lambda>n. 100 + n), x_random = (\<lambda>n. Inr [char_of n]),
     x_hash = (\<lambda>_ p. Inr (CHR ''#'' # p)), x_matches = (\<lambda>h p. h = CHR ''#'' # p), x_sha256 = (\<lambda>s. s),
     x_address = (\<lambda>s. Some s), x_unicode = sample_unicode, x_decimal = (\<lambda>q. Inr q),
     x_sign = (\<lambda>k c. Inr (put_claims k c)),
     x_header = (\<lambda>s. if s = ''id-token'' then Some (SignRsa, ''k1'') else Some (SignHmac, [])),
     x_open = (\<lambda>k t s. case k of RsaKey _ _ \<Rightarrow> None
        | HmacKey key \<Rightarrow> let (k', c) = get_claims s in if k' = key \<and> t < uc_expires c then Some c else None),
     x_open_id = (\<lambda>k t client issuer s. if s = ''id-token'' then Some sample_id_claims else None),
     x_url_ok = (\<lambda>_. True),
     x_token_endpoint = (\<lambda>_ _ _. Inr (200, Some \<lparr> tr_id_token = ''id-token'', tr_access_token = [], tr_token_type = [] \<rparr>)),
     x_jwks_endpoint = (\<lambda>_ _. Inr (200, Some [\<lparr> jw_kid = ''k1'', jw_kty = ''RSA'', jw_alg = [], jw_use = [], jw_n = ''AQ'', jw_e = ''AQ'' \<rparr>])),
     x_discovery_endpoint = (\<lambda>_ _. Inl (OtherErr [])) \<rparr>"

definition ada :: user where
  "ada = blank_user\<lparr>u_id := 1, u_name := ''ada'', u_email := ''ada'', u_hash := ''#pw'', u_role := role_admin,
     u_status := status_active, u_quota_cpu := 1, u_quota_ram := 1, u_quota_disk := 1, u_source := source_local\<rparr>"

definition sample_sso :: sso where
  "sample_sso = \<lparr> so_env = sample_sso_env,
     so_settings = \<lparr> sg_local_login = True, sg_local_register = True, sg_oidc_enabled = True,
       sg_provider_name = ''kc'', sg_admin_groups = [''ops''], sg_default_role = role_user, sg_state_ttl = 50,
       sg_secret = ''k'', sg_access_ttl = 50000000000, sg_refresh_ttl = 90000000000 \<rparr>,
     so_users = [(0, ada)],
     so_logins = [''st'' \<mapsto> \<lparr> os_provider = ''kc'', os_nonce = ''bm9uY2U'', os_binding = ''b'', os_redirect = ''/home'', os_expires = 50 \<rparr>],
     so_provider = Some (\<lparr> oc_issuer = ''i'', oc_client = ''c'', oc_secret = ''x'', oc_redirect = ''r'' \<rparr>,
       \<lparr> dd_auth = ''a'', dd_token = ''t'', dd_jwks = ''j'', dd_issuer = ''i'' \<rparr>),
     so_keys = [], so_keys_at = None, so_tick = 0 \<rparr>"

lemma sample_contract: "jwt_contract sample_sso_env"
proof -
  have ne: "put_claims k c \<noteq> ''id-token''" for k c
    by (cases "length k") (auto simp: put_claims_def put_text_def put_nat_def)
  show ?thesis by (auto simp: jwt_contract_def sample_sso_env_def Let_def ne get_put_claims)
qed


text \<open>
  What the sign-on service guarantees: an active administrator remains whatever is requested, a
  pending OIDC login is used at most once and only by the browser that started it, and a token is
  good for the user it was issued to and for its purpose.
\<close>

section \<open>Requests\<close>

text \<open>Every request the two gRPC services of sign-on accept (sso/grpc/handler.go).\<close>

datatype sso_request =
    ReqRegister string string string
  | ReqLogin string string
  | ReqRefresh string
  | ReqAuthConfig
  | ReqStartOidc string string
  | ReqOidcCallback string string string string
  | ReqVerify string
  | ReqCheckPermission string string
  | ReqGetUser "id option"
  | ReqBatchGetUsers "id option list"
  | ReqListUsers "scope option" int int
  | ReqCreateUser "scope option" user_input
  | ReqUpdateUser "scope option" "id option" user_input
  | ReqSetUserActive "scope option" "id option" bool

fun serve :: "sso_request \<Rightarrow> sso \<Rightarrow> sso" where
  "serve (ReqRegister n e p) s = snd (register_rpc n e p s)"
| "serve (ReqLogin n p) s = snd (login_rpc n p s)"
| "serve (ReqRefresh t) s = snd (refresh_rpc t s)"
| "serve ReqAuthConfig s = snd (auth_config_rpc s)"
| "serve (ReqStartOidc p r) s = snd (start_oidc_rpc p r s)"
| "serve (ReqOidcCallback p c st b) s = snd (oidc_callback_rpc p c st b s)"
| "serve (ReqVerify t) s = snd (verify_rpc t s)"
| "serve (ReqCheckPermission t p) s = snd (check_permission_rpc t p s)"
| "serve (ReqGetUser u) s = snd (get_user_rpc u s)"
| "serve (ReqBatchGetUsers us) s = snd (batch_get_users_rpc us s)"
| "serve (ReqListUsers ctx p l) s = snd (list_users_rpc ctx p l s)"
| "serve (ReqCreateUser ctx i) s = snd (create_user_rpc ctx i s)"
| "serve (ReqUpdateUser ctx u i) s = snd (update_user_rpc ctx u i s)"
| "serve (ReqSetUserActive ctx u b) s = snd (set_user_active_rpc ctx u b s)"

section \<open>The last administrator\<close>

definition administered :: "user_row list \<Rightarrow> bool" where
  "administered rows \<longleftrightarrow> users_ok rows \<and> (\<exists>r \<in> set rows. active_admin (snd r))"

abbreviation admin_inv :: "sso \<Rightarrow> bool" where "admin_inv s \<equiv> administered (so_users s)"

lemma reads_triple:
  assumes "reads_sso m"
  shows "triple (\<lambda>s. P (so_users s)) m (\<lambda>_ s. P (so_users s)) (\<lambda>s. P (so_users s))"
  using assms unfolding triple_def reads_sso_def by (auto split: prod.splits sum.splits) (metis snd_conv)+

lemma reads_preserves: "reads_sso m \<Longrightarrow> preserves (\<lambda>s. P (so_users s)) m"
  unfolding reads_sso_def preserves_def by simp

lemma administered_save:
  "administered rows \<Longrightarrow> save_user decimal u t rows = Inr rows' \<Longrightarrow> administered rows'"
  using users_ok_written(1)[of decimal u t rows rows']
  by (auto simp: administered_def save_user_def split: option.splits sum.splits)

text \<open>
  Replacing one row keeps an active administrator unless that row was the only one.
\<close>

lemma administered_update:
  assumes a: "administered rows" and u0: "u0 \<in> snd ` set rows" and i: "u_id u = u_id u0"
    and k: "\<not> active_admin u0 \<or> active_admin u \<or> 1 < length (filter (\<lambda>r. active_admin (snd r)) rows)"
    and w: "update_user_row decimal u rows = Inr rows'"
  shows "administered rows'"
proof -
  obtain v where v: "stored_user decimal u = Inr v"
    and rows': "rows' = update_where (\<lambda>r. u_id (snd r) = u_id u) (\<lambda>r. (fst r, v)) rows"
    using w by (auto simp: update_user_row_def split: option.splits sum.splits if_splits)
  have ids: "distinct (map (u_id \<circ> snd) rows)"
    using a by (simp add: administered_def users_ok_def users_unique_def map_map comp_def)
  have eq: "x = y" if "x \<in> set rows" "y \<in> set rows" "u_id (snd x) = u_id (snd y)" for x y
    using ids that by (auto simp: distinct_map inj_on_def)
  obtain r0 where r0: "r0 \<in> set rows" "snd r0 = u0" using u0 by auto
  have other: "\<exists>r \<in> set rows'. active_admin (snd r)"
    if r: "r \<in> set rows" "active_admin (snd r)" "u_id (snd r) \<noteq> u_id u" for r
    using r unfolding rows' by (force simp: update_where_def)
  have same: "\<exists>r \<in> set rows'. active_admin (snd r)" if "active_admin u"
  proof -
    have "(fst r0, v) \<in> set rows'" unfolding rows' using r0 i by (force simp: update_where_def)
    moreover have "active_admin v" using that stored_user_Inr[OF v] by (simp add: active_admin_def)
    ultimately show ?thesis by force
  qed
  have "\<exists>r \<in> set rows'. active_admin (snd r)"
  proof (cases "active_admin u")
    case True
    then show ?thesis by (rule same)
  next
    case False
    have "\<exists>r \<in> set rows. active_admin (snd r) \<and> r \<noteq> r0"
    proof (rule ccontr)
      assume no: "\<not> ?thesis"
      then have "active_admin u0" using a r0 by (auto simp: administered_def)
      then have "1 < length (filter (\<lambda>r. active_admin (snd r)) rows)" using k False by simp
      moreover have "set (filter (\<lambda>r. active_admin (snd r)) rows) \<subseteq> {r0}" using no by auto
      moreover have "distinct rows" using ids by (simp add: distinct_map)
      ultimately show False
        by (metis One_nat_def card_mono distinct_card distinct_filter finite.emptyI finite_insert card.empty
            card.insert empty_iff leD)
    qed
    then obtain r where r: "r \<in> set rows" "active_admin (snd r)" "r \<noteq> r0" by auto
    have "u_id (snd r) \<noteq> u_id u" using eq[OF r(1) r0(1)] r(3) r0(2) i by auto
    with r show ?thesis using other by blast
  qed
  then show ?thesis using users_ok_written(2)[OF w] by (simp add: administered_def)
qed

text \<open>What a method may assume when it is about to write the row of u0.\<close>

definition may_replace :: "user \<Rightarrow> user \<Rightarrow> user_row list \<Rightarrow> bool" where
  "may_replace u0 u rows \<longleftrightarrow> administered rows \<and> u0 \<in> snd ` set rows \<and> u_id u = u_id u0
     \<and> (\<not> active_admin u0 \<or> active_admin u \<or> 1 < length (filter (\<lambda>r. active_admin (snd r)) rows))"

lemma triple_get_user:
  "triple admin_inv (user_query (\<lambda>rows. find_user P rows))
     (\<lambda>u s. admin_inv s \<and> u \<in> snd ` set (so_users s)) admin_inv"
  unfolding triple_def user_query_def Let_def
  by (auto split: option.splits sum.splits dest: find_user_Inr)

lemma triple_not_last:
  "triple (\<lambda>s. admin_inv s \<and> u0 \<in> snd ` set (so_users s)) (ensure_not_last_active_admin u0 r st)
     (\<lambda>_ s. admin_inv s \<and> u0 \<in> snd ` set (so_users s) \<and>
        (\<forall>u. u_id u = u_id u0 \<longrightarrow> u_role u = r \<longrightarrow> u_status u = st \<longrightarrow> may_replace u0 u (so_users s))) admin_inv"
  unfolding triple_def ensure_not_last_active_admin_def seq_def on_error_def user_query_def Let_def
    count_active_admins_def ret_def fail_def may_replace_def active_admin_def
  by (auto split: option.splits)

lemma triple_repo_update:
  "triple (\<lambda>s. may_replace u0 u (so_users s)) (repo_update u) (\<lambda>_. admin_inv) admin_inv"
  unfolding triple_def repo_update_def user_exec_def Let_def may_replace_def
  by (auto split: option.splits sum.splits intro: administered_update)

lemma preserves_repo_save: "preserves admin_inv (repo_save u)"
  unfolding preserves_def repo_save_def user_exec_def Let_def
  by (auto split: option.splits sum.splits intro: administered_save)

text \<open>The requests, one after the other.\<close>

lemma preserves_reads: "reads_sso m \<Longrightarrow> preserves admin_inv m"
  unfolding reads_sso_def preserves_def by simp

lemma reads_helpers [reads_intros]:
  "reads_sso (hash_password p)" "reads_sso uuid_new" "reads_sso (lookup_user t q)"
  "reads_sso (ensure_not_last_active_admin u r st)" "reads_sso random_token"
  "reads_sso (resolve_fallback_email i p sb)" "reads_sso (oidc_available p)"
  unfolding hash_password_def uuid_new_def lookup_user_def ensure_not_last_active_admin_def random_token_def
    resolve_fallback_email_def Let_def
  by (intro reads_intros | simp add: reads_sso_def oidc_available_def Let_def)+

lemma reads_resolve [reads_intros]:
  "reads_sso (resolve_oidc_username i n b sb)" "reads_sso (resolve_oidc_email i p sb u)"
  unfolding resolve_oidc_username_def resolve_oidc_email_def Let_def by (intro reads_intros)+

lemma reads_requests [reads_intros]:
  "reads_sso (login n p)" "reads_sso (refresh_tokens t)" "reads_sso (verify_access_token t)"
  "reads_sso (check_permission t q)"
  unfolding login_def refresh_tokens_def verify_access_token_def check_permission_def Let_def
  by (intro reads_intros)+

lemma preserves_set_logins [preserves_intros]: "preserves admin_inv (set_logins ls)"
  by (simp add: preserves_def set_logins_def)

lemma preserves_saving [preserves_intros]:
  "preserves admin_inv (refuse_existing a b (repo_save u))"
  unfolding refuse_existing_def by (intro preserves_intros preserves_repo_save)

lemma triple_refuse_existing:
  "triple P m Q R \<Longrightarrow> triple P (refuse_existing a b m) Q R"
  unfolding refuse_existing_def by (rule triple_on_error[OF _ triple_fail])

lemma triple_reads_then:
  assumes "reads_sso m" and "\<And>x. triple (\<lambda>s. P (so_users s)) (f x) Q R" and "\<And>s. P (so_users s) \<Longrightarrow> R s"
  shows "triple (\<lambda>s. P (so_users s)) (seq m f) Q R"
proof -
  have "triple (\<lambda>s. P (so_users s)) m (\<lambda>_ s. P (so_users s)) R"
    by (rule triple_weaken[OF reads_triple[OF assms(1), of P]]) (auto intro: assms(3))
  then show ?thesis by (rule triple_seq) (rule assms(2))
qed

text \<open>Writing a user that was read and checked keeps the invariant.\<close>

lemma preserves_checked_update:
  assumes q: "triple admin_inv m (\<lambda>u s. admin_inv s \<and> u \<in> snd ` set (so_users s)) admin_inv"
    and g: "\<And>u0. triple (\<lambda>s. admin_inv s \<and> u0 \<in> snd ` set (so_users s)) (f u0) (\<lambda>_. admin_inv) admin_inv"
  shows "preserves admin_inv (seq m f)"
  unfolding triple_preserves by (rule triple_seq[OF q g])

lemma triple_then_ret:
  "triple P m (\<lambda>_. I) R \<Longrightarrow> triple P (seq m (\<lambda>_. ret x)) (\<lambda>_. I) R"
  by (erule triple_seq[where Q = "\<lambda>_. I"]) (simp add: triple_def ret_def)

lemma triple_update_then:
  "triple (\<lambda>s. may_replace u0 u (so_users s)) (seq (refuse_existing a b (repo_update u)) (\<lambda>_. ret x)) (\<lambda>_. admin_inv) admin_inv"
  "triple (\<lambda>s. may_replace u0 u (so_users s)) (seq (on_error (repo_update u) (\<lambda>e. fail (g e))) (\<lambda>_. ret x)) (\<lambda>_. admin_inv) admin_inv"
  by (rule triple_then_ret[OF triple_refuse_existing[OF triple_repo_update]],
      rule triple_then_ret[OF triple_on_error[OF triple_repo_update triple_fail]])

lemma may_replace_inv: "may_replace u0 u rows \<Longrightarrow> administered rows"
  by (simp add: may_replace_def)

lemma preserves_update_user: "preserves admin_inv (update_user uid i)"
  unfolding update_user_def Let_def
proof (rule preserves_seq[OF preserves_check], rule preserves_checked_update)
  show "triple admin_inv (user_query (get_user_by_id uid)) (\<lambda>u s. admin_inv s \<and> u \<in> snd ` set (so_users s)) admin_inv"
    unfolding get_user_by_id_def by (rule triple_get_user)
next
  fix u0 :: user
  let ?set = "\<lambda>u. u\<lparr>u_name := ni_name i, u_email := ni_email i, u_role := ni_role i, u_status := ni_status i,
          u_quota_cpu := ni_quota_cpu i, u_quota_ram := ni_quota_ram i, u_quota_disk := ni_quota_disk i\<rparr>"
  let ?P = "\<lambda>rows. administered rows \<and> u0 \<in> snd ` set rows
     \<and> (\<forall>u. u_id u = u_id u0 \<longrightarrow> u_role u = ni_role i \<longrightarrow> u_status u = ni_status i \<longrightarrow> may_replace u0 u rows)"
  let ?store = "\<lambda>u. seq (refuse_existing (Sentinel ErrAlreadyExists) (failed_with ''failed to update user'') (repo_update u)) (\<lambda>_. ret u)"
  have w: "triple (\<lambda>s. ?P (so_users s) \<and> u_id u = u_id u0 \<and> u_role u = ni_role i \<and> u_status u = ni_status i)
      (?store u) (\<lambda>_. admin_inv) admin_inv" for u
    by (rule triple_weaken[OF triple_update_then(1)]) auto
  have h: "triple (\<lambda>s. ?P (so_users s))
      (if ni_password i \<noteq> [] then seq (hash_password (ni_password i)) (\<lambda>hash. ret ((?set u0)\<lparr>u_hash := hash\<rparr>)) else ret (?set u0))
      (\<lambda>u s. ?P (so_users s) \<and> u_id u = u_id u0 \<and> u_role u = ni_role i \<and> u_status u = ni_status i) admin_inv"
  proof (split if_split, intro conjI impI)
    show "triple (\<lambda>s. ?P (so_users s)) (seq (hash_password (ni_password i)) (\<lambda>hash. ret ((?set u0)\<lparr>u_hash := hash\<rparr>)))
      (\<lambda>u s. ?P (so_users s) \<and> u_id u = u_id u0 \<and> u_role u = ni_role i \<and> u_status u = ni_status i) admin_inv"
      by (rule triple_reads_then[where P = ?P], intro reads_intros, rule triple_weaken[OF triple_ret]) auto
    show "triple (\<lambda>s. ?P (so_users s)) (ret (?set u0))
      (\<lambda>u s. ?P (so_users s) \<and> u_id u = u_id u0 \<and> u_role u = ni_role i \<and> u_status u = ni_status i) admin_inv"
      by (rule triple_weaken[OF triple_ret]) auto
  qed
  show "triple (\<lambda>s. admin_inv s \<and> u0 \<in> snd ` set (so_users s))
    (seq (ensure_not_last_active_admin u0 (ni_role i) (ni_status i)) (\<lambda>_.
       seq (if ni_password i \<noteq> [] then seq (hash_password (ni_password i)) (\<lambda>hash. ret ((?set u0)\<lparr>u_hash := hash\<rparr>)) else ret (?set u0)) ?store))
    (\<lambda>_. admin_inv) admin_inv"
    by (rule triple_seq[OF triple_not_last triple_seq[OF h w]])
qed

lemma preserves_deactivate_user: "preserves admin_inv (deactivate_user uid)"
  unfolding deactivate_user_def Let_def
proof (rule preserves_checked_update)
  show "triple admin_inv (user_query (get_user_by_id uid)) (\<lambda>u s. admin_inv s \<and> u \<in> snd ` set (so_users s)) admin_inv"
    unfolding get_user_by_id_def by (rule triple_get_user)
  show "triple (\<lambda>s. admin_inv s \<and> u0 \<in> snd ` set (so_users s))
    (seq (ensure_not_last_active_admin u0 (u_role u0) status_deactivated) (\<lambda>_.
       seq (on_error (repo_update (u0\<lparr>u_status := status_deactivated\<rparr>))
           (\<lambda>e. fail (failed_with ''failed to deactivate user'' e))) (\<lambda>_. ret (u0\<lparr>u_status := status_deactivated\<rparr>))))
    (\<lambda>_. admin_inv) admin_inv" for u0
    by (rule triple_seq[OF triple_not_last], rule triple_weaken[OF triple_update_then(2)[of u0]]) auto
qed

lemma preserves_reactivate_user: "preserves admin_inv (reactivate_user uid)"
  unfolding reactivate_user_def Let_def
proof (rule preserves_checked_update)
  show "triple admin_inv (user_query (get_user_by_id uid)) (\<lambda>u s. admin_inv s \<and> u \<in> snd ` set (so_users s)) admin_inv"
    unfolding get_user_by_id_def by (rule triple_get_user)
  show "triple (\<lambda>s. admin_inv s \<and> u0 \<in> snd ` set (so_users s))
    (seq (on_error (repo_update (u0\<lparr>u_status := status_active\<rparr>))
       (\<lambda>e. fail (failed_with ''failed to reactivate user'' e))) (\<lambda>_. ret (u0\<lparr>u_status := status_active\<rparr>)))
    (\<lambda>_. admin_inv) admin_inv" for u0
    by (rule triple_weaken[OF triple_update_then(2)]) (auto simp: may_replace_def active_admin_def)
qed

lemma preserves_create_user: "preserves admin_inv (create_user i)" "preserves admin_inv (register n e p)"
  unfolding create_user_def register_def Let_def
  by (intro preserves_intros preserves_reads reads_intros)+

lemma triple_lookup_user:
  "triple admin_inv (lookup_user t (\<lambda>rows. texts ts (find_user P rows)))
     (\<lambda>r s. admin_inv s \<and> (\<forall>u. r = Some u \<longrightarrow> u \<in> snd ` set (so_users s))) admin_inv"
  unfolding triple_def lookup_user_def attempt_def seq_def user_query_def Let_def ret_def fail_def texts_def
  by (auto split: option.splits sum.splits if_splits dest: find_user_Inr)

lemma triple_update_oidc_user:
  "triple (\<lambda>s. admin_inv s \<and> u0 \<in> snd ` set (so_users s)) (update_oidc_user p i t role base u0) (\<lambda>_. admin_inv) admin_inv"
proof -
  let ?P = "\<lambda>rows. administered rows \<and> u0 \<in> snd ` set rows"
  show ?thesis unfolding update_oidc_user_def Let_def
    by (rule triple_reads_then[where P = ?P], intro reads_intros, rule triple_reads_then[where P = ?P], intro reads_intros,
        rule triple_seq[OF triple_not_last], rule triple_weaken[OF triple_update_then(1)[of u0]]) auto
qed

lemma preserves_create_oidc_user: "preserves admin_inv (create_oidc_user p i t role base)"
  unfolding create_oidc_user_def Let_def by (intro preserves_intros preserves_reads reads_intros)

lemma preserves_provision: "preserves admin_inv (provision_oidc_user p i)"
proof -
  have p: "preserves admin_inv (seq (lookup_user ''failed to get oidc user'' (get_user_by_external_identity p (oi_subject i))) (\<lambda>r.
      case r of Some existing \<Rightarrow> update_oidc_user p i t role base existing
      | None \<Rightarrow> create_oidc_user p i t role base))" for t role base
    unfolding triple_preserves
  proof (rule triple_seq)
    show "triple admin_inv (lookup_user ''failed to get oidc user'' (get_user_by_external_identity p (oi_subject i)))
       (\<lambda>r s. admin_inv s \<and> (\<forall>u. r = Some u \<longrightarrow> u \<in> snd ` set (so_users s))) admin_inv"
      unfolding get_user_by_external_identity_def by (rule triple_lookup_user)
    show "triple (\<lambda>s. admin_inv s \<and> (\<forall>u. r = Some u \<longrightarrow> u \<in> snd ` set (so_users s)))
       (case r of Some existing \<Rightarrow> update_oidc_user p i t role base existing
        | None \<Rightarrow> create_oidc_user p i t role base) (\<lambda>_. admin_inv) admin_inv" for r
    proof (cases r)
      case None
      then show ?thesis using preserves_create_oidc_user by (simp add: triple_preserves)
    next
      case (Some u)
      then show ?thesis using triple_update_oidc_user by simp
    qed
  qed
  show ?thesis unfolding provision_oidc_user_def Let_def
    by (rule preserves_if[OF preserves_pure(2)], rule preserves_seq[OF preserves_reads[OF reads_calls(4)]],
        rule preserves_seq[OF preserves_reads[OF reads_calls(5)]],
        rule preserves_seq[OF preserves_reads[OF reads_calls(6)]], rule p)
qed

lemma preserves_oidc: "preserves admin_inv (start_oidc_login p r)" "preserves admin_inv (complete_oidc_callback p c st b)"
  unfolding start_oidc_login_def complete_oidc_callback_def consume_oidc_state_def cleanup_expired_states_def internal_on_error_def
  by (intro preserves_intros preserves_provision preserves_reads reads_intros)+

section \<open>Properties\<close>

lemma preserves_reply [preserves_intros]:
  "preserves I m \<Longrightarrow> preserves I (reply m)" "preserves J m' \<Longrightarrow> preserves J (reply_user m')"
  unfolding reply_def reply_user_def by (auto intro!: preserves_intros)

lemma preserves_handler [preserves_intros]:
  "preserves I m \<Longrightarrow> preserves I (guarded g m)" "(\<And>x. preserves I (f x)) \<Longrightarrow> preserves I (parsed t i f)"
  by (auto simp: guarded_def parsed_def split: option.splits intro: preserves_intros)

lemma preserves_parse_ids [preserves_intros]: "preserves I (parse_ids xs ids)"
  by (induction xs arbitrary: ids) (auto intro!: preserves_intros)

lemmas rpc_defs = register_rpc_def login_rpc_def refresh_rpc_def start_oidc_rpc_def oidc_callback_rpc_def
  verify_rpc_def check_permission_rpc_def get_user_rpc_def batch_get_users_rpc_def list_users_rpc_def
  create_user_rpc_def update_user_rpc_def set_user_active_rpc_def

lemma preserves_auth_config: "preserves I auth_config_rpc"
  by (simp add: preserves_def auth_config_rpc_def Let_def)

lemma serve_administered:
  assumes "admin_inv s"
  shows "admin_inv (serve r s)"
proof -
  have rpc: "preserves admin_inv (register_rpc n e p)" "preserves admin_inv (login_rpc n p)"
    "preserves admin_inv (refresh_rpc t)" "preserves admin_inv (start_oidc_rpc n p)"
    "preserves admin_inv (oidc_callback_rpc n e p t)" "preserves admin_inv (verify_rpc t)"
    "preserves admin_inv (check_permission_rpc n p)" "preserves admin_inv (get_user_rpc u)"
    "preserves admin_inv (batch_get_users_rpc us)" "preserves admin_inv (list_users_rpc ctx a b)"
    "preserves admin_inv (create_user_rpc ctx i)" "preserves admin_inv (update_user_rpc ctx u i)"
    "preserves admin_inv (set_user_active_rpc ctx u on)" for n e p t u us ctx a b i on
    unfolding rpc_defs Let_def
    by (intro preserves_intros preserves_create_user preserves_update_user preserves_deactivate_user
        preserves_reactivate_user preserves_oidc preserves_reads reads_intros)+
  show ?thesis
    using assms rpc preserves_auth_config[of admin_inv] by (cases r) (simp_all add: preserves_def)
qed

text \<open>
  The count of administrators and the write are statements of their own, so requests that are served
  at the same time may come between them: a deactivation up to its write, and the write.
\<close>

definition deactivate_check :: "id \<Rightarrow> user sso_meth" where
  "deactivate_check uid =
     seq (user_query (get_user_by_id uid)) (\<lambda>u0.
     seq (ensure_not_last_active_admin u0 (u_role u0) status_deactivated) (\<lambda>_.
     ret (u0\<lparr>u_status := status_deactivated\<rparr>)))"

definition deactivate_write :: "user \<Rightarrow> user sso_meth" where
  "deactivate_write u =
     seq (on_error (repo_update u) (\<lambda>e. fail (failed_with ''failed to deactivate user'' e))) (\<lambda>_. ret u)"

lemma deactivate_user_split: "deactivate_user uid = seq (deactivate_check uid) deactivate_write"
  by (rule ext) (simp add: deactivate_user_def deactivate_check_def deactivate_write_def seq_def ret_def Let_def split: prod.splits sum.splits)

text \<open>A write is safe when another administrator is there at that moment.\<close>

lemma deactivate_write_keeps:
  assumes "users_ok (so_users s)" and r: "r \<in> set (so_users s)" "active_admin (snd r)" "u_id (snd r) \<noteq> u_id u"
  shows "admin_inv (snd (deactivate_write u s))"
proof -
  have "administered rows'" if w: "update_user_row decimal u (so_users s) = Inr rows'" for decimal rows'
  proof -
    obtain v where "rows' = update_where (\<lambda>r. u_id (snd r) = u_id u) (\<lambda>r. (fst r, v)) (so_users s)"
      using w by (auto simp: update_user_row_def split: option.splits sum.splits if_splits)
    then have "r \<in> set rows'" using r by (force simp: update_where_def)
    then show ?thesis using r(2) users_ok_written(2)[OF w] assms(1) by (auto simp: administered_def)
  qed
  moreover have "admin_inv s" using assms by (auto simp: administered_def)
  ultimately show ?thesis
    by (auto simp: deactivate_write_def seq_def on_error_def ret_def fail_def repo_update_def user_exec_def Let_def
        split: prod.splits sum.splits option.splits)
qed

text \<open>Two administrators who deactivate each other at the same time.\<close>

definition two_admins :: sso where
  "two_admins = sample_sso\<lparr>so_users := [(0, ada), (0, ada\<lparr>u_id := 2, u_name := ''bob'', u_email := ''bob''\<rparr>)]\<rparr>"

lemma two_admins_lose_both:
  "admin_inv two_admins \<and> is_ok (fst (seq (deactivate_check 1) (\<lambda>u. seq (deactivate_check 2) (\<lambda>v.
     seq (deactivate_write u) (\<lambda>_. deactivate_write v))) two_admins))
   \<and> \<not> admin_inv (snd (seq (deactivate_check 1) (\<lambda>u. seq (deactivate_check 2) (\<lambda>v.
     seq (deactivate_write u) (\<lambda>_. deactivate_write v))) two_admins))"
proof -
  let ?run = "seq (deactivate_check 1) (\<lambda>u. seq (deactivate_check 2) (\<lambda>v.
     seq (deactivate_write u) (\<lambda>_. deactivate_write v))) two_admins"
  have "is_ok (fst ?run)" "list_all (\<lambda>r. \<not> active_admin (snd r)) (so_users (snd ?run))" by code_simp+
  moreover have "users_ok (so_users two_admins)" "list_ex (\<lambda>r. active_admin (snd r)) (so_users two_admins)" by code_simp+
  ultimately show ?thesis by (auto simp: administered_def list_all_iff list_ex_iff)
qed

text \<open>
  C24. As long as the sign-on service serves one request after the other, whatever they are and
  whatever fails, an active administrator remains and the unique indexes of the table hold: the last
  one can be neither demoted nor deactivated by the user API, nor demoted by a login through the
  identity provider.  When other requests are served between the check of a deactivation and its
  write, an administrator remains if another one is left when the row is written; without that the
  guarantee is lost, for two administrators can deactivate each other at the same time.
\<close>

theorem last_admin_remains:
  assumes "users_ok (so_users s)" and "\<exists>r \<in> set (so_users s). active_admin (snd r)"
  shows "users_ok (so_users (fold serve requests s)) \<and> (\<exists>r \<in> set (so_users (fold serve requests s)). active_admin (snd r))
    \<and> (\<forall>uid u s1 r. deactivate_check uid s = (Inr u, s1) \<longrightarrow> r \<in> set (so_users (fold serve requests s1)) \<longrightarrow>
         active_admin (snd r) \<longrightarrow> u_id (snd r) \<noteq> u_id u \<longrightarrow>
         (\<exists>r \<in> set (so_users (snd (deactivate_write u (fold serve requests s1)))). active_admin (snd r)))
    \<and> (\<exists>s0 a b. admin_inv s0 \<and> \<not> admin_inv (snd (seq (deactivate_check a) (\<lambda>u. seq (deactivate_check b) (\<lambda>v.
         seq (deactivate_write u) (\<lambda>_. deactivate_write v))) s0)))"
proof -
  have served: "admin_inv s \<Longrightarrow> admin_inv (fold serve requests s)" for s
    by (induction requests arbitrary: s) (simp_all add: serve_administered)
  have inv: "admin_inv s" using assms by (simp add: administered_def)
  have "\<exists>r \<in> set (so_users (snd (deactivate_write u (fold serve requests s1)))). active_admin (snd r)"
    if "deactivate_check uid s = (Inr u, s1)" and r: "r \<in> set (so_users (fold serve requests s1))" "active_admin (snd r)" "u_id (snd r) \<noteq> u_id u"
    for uid u s1 r
  proof -
    have "reads_sso (deactivate_check uid)" unfolding deactivate_check_def by (intro reads_intros)
    then have "so_users s1 = so_users s" using that(1) unfolding reads_sso_def by (metis snd_conv)
    then have "users_ok (so_users (fold serve requests s1))" using served[of s1] inv by (simp add: administered_def)
    then show ?thesis using deactivate_write_keeps r by (auto simp: administered_def)
  qed
  moreover have "\<exists>s0 a b. admin_inv s0 \<and> \<not> admin_inv (snd (seq (deactivate_check a) (\<lambda>u. seq (deactivate_check b) (\<lambda>v.
         seq (deactivate_write u) (\<lambda>_. deactivate_write v))) s0))"
    using two_admins_lose_both by blast
  ultimately show ?thesis using served[OF inv] by (simp add: administered_def)
qed

section \<open>Pending logins\<close>

text \<open>A callback that succeeds took its state out of the pending ones.\<close>

lemma consume_Inr:
  assumes "consume_oidc_state provider state binding s = (Inr st, s')"
  shows "so_logins s state = Some st \<and> os_provider st = provider
     \<and> secure_string_equal (so_env s) (os_binding st) binding \<and> x_now (so_env s) (so_tick s) \<le> os_expires st
     \<and> so_logins s' state = None \<and> so_users s' = so_users s \<and> so_env s' = so_env s
     \<and> so_settings s' = so_settings s"
  using assms unfolding consume_oidc_state_def cleanup_expired_states_def
  by (auto simp: seq_Inr_iff sso_env_of_def clock_def draw_def logins_def set_logins_def
      split: option.splits if_splits)

lemma reads_frame: "reads_sso m \<Longrightarrow> m s = (r, s') \<Longrightarrow>
    so_users s' = so_users s \<and> so_logins s' = so_logins s \<and> so_env s' = so_env s \<and> so_settings s' = so_settings s"
  unfolding reads_sso_def by (metis snd_conv)

text \<open>Provisioning a user leaves the pending logins alone.\<close>

definition keeps_logins :: "'a sso_meth \<Rightarrow> bool" where
  "keeps_logins m \<longleftrightarrow> (\<forall>s. so_logins (snd (m s)) = so_logins s)"

lemma keeps_logins_preserves: "keeps_logins m \<longleftrightarrow> (\<forall>ls. preserves (\<lambda>s. so_logins s = ls) m)"
  by (auto simp: keeps_logins_def preserves_def)

lemma keeps_logins_provision: "keeps_logins (provision_oidc_user p i)"
proof -
  have r: "reads_sso m \<Longrightarrow> preserves (\<lambda>s. so_logins s = ls) m" for m :: "'b sso_meth" and ls
    by (simp add: reads_sso_def preserves_def)
  have w: "preserves (\<lambda>s. so_logins s = ls) (repo_save u)" "preserves (\<lambda>s. so_logins s = ls) (repo_update u)" for u ls
    by (auto simp: preserves_def repo_save_def repo_update_def user_exec_def Let_def split: option.splits sum.splits)
  show ?thesis
    unfolding keeps_logins_preserves provision_oidc_user_def update_oidc_user_def create_oidc_user_def
      refuse_existing_def Let_def
    by (intro allI preserves_intros w r reads_intros)
qed

lemma keeps_logins_frame: "keeps_logins m \<Longrightarrow> preserves (\<lambda>s. P (so_logins s)) m"
  by (simp add: keeps_logins_def preserves_def)

lemma reads_frame_logins: "reads_sso m \<Longrightarrow> preserves (\<lambda>s. P (so_logins s)) m"
  by (simp add: reads_sso_def preserves_def)

text \<open>
  C25. A login through the identity provider that succeeds consumes a pending state that is not
  expired, was started for the same provider and is bound to the browser that presents it, and it
  redirects where that state says.  The state is then gone: presenting it again, with whatever code
  and binding, is refused and changes no user.
\<close>

theorem oidc_state_used_once:
  assumes "complete_oidc_callback provider code state binding s = (Inr (access, refresh, redirect), s')"
  shows "(\<exists>st. so_logins s state = Some st \<and> os_provider st = provider
      \<and> secure_string_equal (so_env s) (os_binding st) binding \<and> x_now (so_env s) (so_tick s) \<le> os_expires st
      \<and> redirect = os_redirect st)
    \<and> (\<forall>code' binding' r s''. complete_oidc_callback provider code' state binding' s' = (r, s'') \<longrightarrow>
        r \<in> {Inl (Sentinel ErrNotFound), Inl (Sentinel ErrBadRequest), Inl (Sentinel ErrInvalidCredentials)}
        \<and> so_users s'' = so_users s')"
proof (intro conjI allI impI)
  let ?finish = "\<lambda>p st. seq (exchange_code p code (os_nonce st)) (\<lambda>i.
     seq (provision_oidc_user provider i) (\<lambda>u.
     if u_status u \<noteq> status_active then fail (Sentinel ErrInvalidCredentials) else
     seq (internal_on_error (generate_tokens u)) (\<lambda>(access, refresh).
     ret (access, refresh, os_redirect st))))"
  obtain p where "seq (consume_oidc_state provider state binding) (?finish p) s = (Inr (access, refresh, redirect), s')"
    using assms unfolding complete_oidc_callback_def seq_Inr_iff[of "oidc_available provider"]
    by (auto simp: oidc_available_def Let_def split: option.splits if_splits)
  then obtain st s1 where c: "consume_oidc_state provider state binding s = (Inr st, s1)"
    and rest: "?finish p st s1 = (Inr (access, refresh, redirect), s')"
    unfolding seq_Inr_iff[of "consume_oidc_state provider state binding"] by blast
  note c' = consume_Inr[OF c]
  have "redirect = os_redirect st" using rest by (auto simp: seq_Inr_iff split: if_splits)
  with c' show "\<exists>st. so_logins s state = Some st \<and> os_provider st = provider
      \<and> secure_string_equal (so_env s) (os_binding st) binding \<and> x_now (so_env s) (so_tick s) \<le> os_expires st
      \<and> redirect = os_redirect st" by auto
  have k: "preserves (\<lambda>s. so_logins s state = None) (?finish p st)"
    unfolding internal_on_error_def
    by (intro preserves_intros keeps_logins_provision[THEN keeps_logins_frame] reads_frame_logins reads_intros)
  have gone: "so_logins s' state = None" using preservesD[OF k _ rest] c' by simp
  fix code' binding' r s''
  assume again: "complete_oidc_callback provider code' state binding' s' = (r, s'')"
  show "r \<in> {Inl (Sentinel ErrNotFound), Inl (Sentinel ErrBadRequest), Inl (Sentinel ErrInvalidCredentials)}"
    using again gone unfolding complete_oidc_callback_def consume_oidc_state_def cleanup_expired_states_def
    by (auto simp: seq_def oidc_available_def fail_def ret_def sso_env_of_def clock_def draw_def logins_def set_logins_def Let_def
        split: option.splits if_splits)
  show "so_users s'' = so_users s'"
    using again gone unfolding complete_oidc_callback_def consume_oidc_state_def cleanup_expired_states_def
    by (auto simp: seq_def oidc_available_def fail_def ret_def sso_env_of_def clock_def draw_def logins_def set_logins_def Let_def
        split: option.splits if_splits)
qed

theorem oidc_state_used_once_witness:
  "\<exists>access refresh s'. complete_oidc_callback ''kc'' ''code'' ''st'' ''b'' sample_sso = (Inr (access, refresh, ''/home''), s')
     \<and> fst (complete_oidc_callback ''kc'' ''code'' ''st'' ''b'' s') = Inl (Sentinel ErrInvalidCredentials)"
proof -
  let ?r = "complete_oidc_callback ''kc'' ''code'' ''st'' ''b'' sample_sso"
  have v: "case fst ?r of Inr (access, refresh, redirect) \<Rightarrow> redirect = ''/home'' | Inl _ \<Rightarrow> False" by code_simp
  have e: "fst (complete_oidc_callback ''kc'' ''code'' ''st'' ''b'' (snd ?r)) = Inl (Sentinel ErrInvalidCredentials)" by code_simp
  obtain access refresh where "?r = (Inr (access, refresh, ''/home''), snd ?r)"
    using v by (auto simp: prod_eq_iff split: sum.splits prod.splits)
  with oidc_state_used_once[OF this] e show ?thesis by metis
qed

theorem last_admin_remains_witness:
  "\<exists>r \<in> set (so_users (fold serve [ReqSetUserActive (Some (admin_scope 1 [] [])) (Some 1) False,
      ReqOidcCallback ''kc'' ''code'' ''st'' ''b''] sample_sso)). active_admin (snd r)"
proof -
  have "users_ok (so_users sample_sso)" "\<exists>r \<in> set (so_users sample_sso). active_admin (snd r)"
    by (simp_all add: sample_sso_def users_ok_def users_unique_def ada_def active_admin_def)
  from last_admin_remains[OF this] show ?thesis by blast
qed

section \<open>Tokens\<close>

text \<open>What a login that succeeds has established and issued.\<close>

lemma login_Inr:
  assumes "login name password s = (Inr (access, refresh), s')"
  shows "\<exists>u. find_user (\<lambda>u. u_name u = name) (so_users s) = Inr u \<and> u_status u = status_active
     \<and> (u_source u = [] \<or> u_source u = source_local) \<and> x_matches (so_env s) (u_hash u) password
     \<and> x_sign (so_env s) (sg_secret (so_settings s)) (access_claims u
          (x_now (so_env s) (Suc (so_tick s)) + sg_access_ttl (so_settings s))) = Inr access
     \<and> (\<exists>n. x_sign (so_env s) (sg_secret (so_settings s))
          (refresh_claims u (x_now (so_env s) n + sg_refresh_ttl (so_settings s))) = Inr refresh)"
  using assms unfolding login_def generate_tokens_def Let_def
  by (auto simp: seq_Inr_iff on_error_Inr settings_def sso_env_of_def clock_def draw_def draw_or_fail_def user_query_Inr
      get_user_by_username_def texts_def guard_Inr split: if_splits option.splits)

lemma validate_token_Inr:
  "validate_token token ty s = (Inr i, s') \<longleftrightarrow> s' = s\<lparr>so_tick := Suc (so_tick s)\<rparr>
     \<and> (\<exists>m c. x_header (so_env s) token = Some (SignHmac, m)
        \<and> x_open (so_env s) (HmacKey (sg_secret (so_settings s))) (x_now (so_env s) (so_tick s)) token = Some c
        \<and> uc_type c = ty \<and> i = uc_user c)"
  unfolding validate_token_def
  by (auto simp: seq_Inr_iff settings_def sso_env_of_def clock_def draw_def
      split: if_splits option.splits sign_method.splits)

lemma verify_access_Inr:
  "verify_access_token token s = (Inr v, s') \<longleftrightarrow> (\<exists>i s1. validate_token token token_type_access s = (Inr i, s1)
     \<and> user_query (get_user_by_id i) s1 = (Inr v, s') \<and> u_status v = status_active)"
  unfolding verify_access_token_def validate_access_token_def Let_def
  by (auto simp: seq_Inr_iff on_error_Inr guard_Inr split: if_splits)

lemma refresh_tokens_Inr:
  "refresh_tokens token s = (Inr v, s') \<Longrightarrow> \<exists>i s1. validate_token token token_type_refresh s = (Inr i, s1)"
  unfolding refresh_tokens_def validate_refresh_token_def Let_def
  by (auto simp: seq_Inr_iff on_error_Inr)

lemma is_ok_fst: "is_ok (fst p) \<longleftrightarrow> (\<exists>x s'. p = (Inr x, s'))"
  by (cases p; cases "fst p") auto

lemma numeric_date_whole: "numeric_date t mod 1000000000 = 0" "numeric_date t \<le> t" "t < numeric_date t + 1000000000"
  by (simp_all add: numeric_date_def)

text \<open>
  C26. The access token a login returns identifies the account with that name and password.  Until its
  expiry, which is the time of issue and the lifetime rounded down to a whole second, it is verified to
  that account as long as the account is active; afterwards it is refused, and it is never verified to
  another account.  The refresh token issued with it is never accepted in its place, nor the access
  token for a refresh.  (Clock and lifetimes are nanoseconds below two to the 62.)
\<close>

theorem login_token_identifies:
  assumes "jwt_contract (so_env s)" and "login name password s = (Inr (access, refresh), s')"
    and "\<And>n. 0 \<le> x_now (so_env s) n \<and> x_now (so_env s) n < 2 ^ 62"
    and "0 \<le> sg_access_ttl (so_settings s)" "sg_access_ttl (so_settings s) < 2 ^ 62"
    and "0 \<le> sg_refresh_ttl (so_settings s)" "sg_refresh_ttl (so_settings s) < 2 ^ 62"
  shows "\<exists>u expiry. find_user (\<lambda>u. u_name u = name) (so_users s) = Inr u \<and> x_matches (so_env s) (u_hash u) password
     \<and> expiry mod 1000000000 = 0 \<and> expiry \<le> x_now (so_env s) (Suc (so_tick s)) + sg_access_ttl (so_settings s)
     \<and> x_now (so_env s) (Suc (so_tick s)) + sg_access_ttl (so_settings s) < expiry + 1000000000
     \<and> (\<forall>s1. so_env s1 = so_env s \<longrightarrow> so_settings s1 = so_settings s \<longrightarrow>
          (\<forall>v s2. verify_access_token access s1 = (Inr v, s2) \<longrightarrow>
             u_id v = u_id u \<and> u_status v = status_active \<and> x_now (so_env s) (so_tick s1) < expiry)
        \<and> (\<forall>v. find_user (\<lambda>v. u_id v = u_id u) (so_users s1) = Inr v \<longrightarrow> u_status v = status_active \<longrightarrow>
             x_now (so_env s) (so_tick s1) < expiry \<longrightarrow>
             x_fault (so_env s) (Suc (so_tick s1)) = None \<longrightarrow> fst (verify_access_token access s1) = Inr v)
        \<and> \<not> is_ok (fst (verify_access_token refresh s1))
        \<and> \<not> is_ok (fst (refresh_tokens access s1)))"
proof -
  let ?t = "x_now (so_env s) (Suc (so_tick s)) + sg_access_ttl (so_settings s)"
  obtain u n where u: "find_user (\<lambda>u. u_name u = name) (so_users s) = Inr u" "x_matches (so_env s) (u_hash u) password"
    and a: "x_sign (so_env s) (sg_secret (so_settings s)) (access_claims u ?t) = Inr access"
    and r: "x_sign (so_env s) (sg_secret (so_settings s)) (refresh_claims u (x_now (so_env s) n + sg_refresh_ttl (so_settings s))) = Inr refresh"
    using login_Inr[OF assms(2)] by blast
  have small: "\<bar>numeric_date t\<bar> < 2 ^ 53 * 1000000000" if "0 \<le> t" "t < 2 ^ 63" for t
    using numeric_date_whole[of t] that by (simp add: abs_less_iff)
  have types: "ascii token_type_access" "ascii token_type_refresh" by code_simp+
  note contract = assms(1)[unfolded jwt_contract_def, rule_format]
  obtain kid c where kid: "x_header (so_env s) access = Some (SignHmac, kid)"
    and c: "uc_user c = u_id u" "uc_type c = token_type_access"
      "\<And>t. x_open (so_env s) (HmacKey (sg_secret (so_settings s))) t access = (if t < numeric_date ?t then Some c else None)"
    using contract[of _ "access_claims u ?t", OF conjI[OF a]] small[of ?t] assms(3)[of "Suc (so_tick s)"] assms(4,5) types numeric_date_whole(1)
    by (auto simp: access_claims_def)
  obtain c' where c': "uc_type c' = token_type_refresh"
      "\<And>t. x_open (so_env s) (HmacKey (sg_secret (so_settings s))) t refresh
         = (if t < numeric_date (x_now (so_env s) n + sg_refresh_ttl (so_settings s)) then Some c' else None)"
    using contract[of _ "refresh_claims u (x_now (so_env s) n + sg_refresh_ttl (so_settings s))", OF conjI[OF r]]
      small[of "x_now (so_env s) n + sg_refresh_ttl (so_settings s)"] assms(3)[of n] assms(6,7) types numeric_date_whole(1)
    by (auto simp: refresh_claims_def)
  show ?thesis
  proof (intro exI[of _ u] exI[of _ "numeric_date ?t"] conjI u numeric_date_whole allI impI)
    fix s1 :: sso assume e: "so_env s1 = so_env s" "so_settings s1 = so_settings s"
    show "u_id v = u_id u" "u_status v = status_active" "x_now (so_env s) (so_tick s1) < numeric_date ?t"
      if "verify_access_token access s1 = (Inr v, s2)" for v s2
      using that c find_user_Inr
      by (auto simp: e verify_access_Inr validate_token_Inr user_query_Inr get_user_by_id_def split: if_splits)
    show "fst (verify_access_token access s1) = Inr v"
      if "find_user (\<lambda>v. u_id v = u_id u) (so_users s1) = Inr v" "u_status v = status_active"
        "x_now (so_env s) (so_tick s1) < numeric_date ?t" "x_fault (so_env s) (Suc (so_tick s1)) = None" for v
    proof -
      have "\<exists>s'. verify_access_token access s1 = (Inr v, s')"
        using that c kid by (auto simp: e verify_access_Inr validate_token_Inr user_query_Inr get_user_by_id_def)
      then show ?thesis by (metis fst_conv)
    qed
    show "\<not> is_ok (fst (verify_access_token refresh s1))"
      using c' by (auto simp: is_ok_fst e verify_access_Inr validate_token_Inr token_type_access_def token_type_refresh_def split: if_splits)
    show "\<not> is_ok (fst (refresh_tokens access s1))"
      using c by (auto simp: is_ok_fst e validate_token_Inr token_type_access_def token_type_refresh_def
          dest!: refresh_tokens_Inr split: if_splits)
  qed
qed

theorem login_token_identifies_witness:
  "\<exists>access refresh s'. login ''ada'' ''pw'' sample_sso = (Inr (access, refresh), s')
     \<and> fst (verify_access_token access s') = Inr ada \<and> \<not> is_ok (fst (verify_access_token refresh s'))"
proof -
  let ?r = "login ''ada'' ''pw'' sample_sso"
  let ?s' = "snd ?r"
  have v: "is_ok (fst ?r)" by code_simp
  then obtain access refresh where r: "?r = (Inr (access, refresh), ?s')"
    by (metis is_ok_fst prod.collapse snd_conv)
  have frame: "so_env ?s' = so_env sample_sso" "so_settings ?s' = so_settings sample_sso"
    using reads_frame[OF reads_requests(1) r] by simp_all
  have row: "find_user (\<lambda>v. u_id v = u_id ada) (so_users ?s') = Inr ada" "u_status ada = status_active"
    "find_user (\<lambda>u. u_name u = ''ada'') (so_users sample_sso) = Inr ada"
    using reads_frame[OF reads_requests(1) r] by (simp_all add: sample_sso_def find_user_def ada_def)
  have t: "x_now (so_env sample_sso) (so_tick ?s') + 1000000000 < x_now (so_env sample_sso) (Suc (so_tick sample_sso)) + sg_access_ttl (so_settings sample_sso)"
    by code_simp
  have b: "0 \<le> x_now (so_env sample_sso) n \<and> x_now (so_env sample_sso) n < 2 ^ 62"
    "0 \<le> sg_access_ttl (so_settings sample_sso)" "sg_access_ttl (so_settings sample_sso) < 2 ^ 62"
    "0 \<le> sg_refresh_ttl (so_settings sample_sso)" "sg_refresh_ttl (so_settings sample_sso) < 2 ^ 62" for n
    by (simp_all add: sample_sso_def sample_sso_env_def)
  have f: "x_fault (so_env sample_sso) (Suc (so_tick ?s')) = None" by (simp add: sample_sso_def sample_sso_env_def)
  have c: "jwt_contract (so_env sample_sso)" using sample_contract by (simp add: sample_sso_def)
  obtain u expiry where u: "find_user (\<lambda>u. u_name u = ''ada'') (so_users sample_sso) = Inr u"
    and x: "x_now (so_env sample_sso) (Suc (so_tick sample_sso)) + sg_access_ttl (so_settings sample_sso) < expiry + 1000000000"
    and all: "\<forall>s1. so_env s1 = so_env sample_sso \<longrightarrow> so_settings s1 = so_settings sample_sso \<longrightarrow>
        (\<forall>v. find_user (\<lambda>v. u_id v = u_id u) (so_users s1) = Inr v \<longrightarrow> u_status v = status_active \<longrightarrow>
             x_now (so_env sample_sso) (so_tick s1) < expiry \<longrightarrow>
             x_fault (so_env sample_sso) (Suc (so_tick s1)) = None \<longrightarrow> fst (verify_access_token access s1) = Inr v)
        \<and> \<not> is_ok (fst (verify_access_token refresh s1))"
    using login_token_identifies[OF c r b] by blast
  have "u = ada" using u row(3) by simp
  moreover have "x_now (so_env sample_sso) (so_tick ?s') < expiry" using t x by linarith
  ultimately show ?thesis using all[rule_format, OF frame] row f r by blast
qed

end
