(* ===== verification/BuilderFiles.thy ===== *)
theory BuilderFiles
  imports ComposeParser AppErrors
begin

text \<open>
  The archives a build starts from (internal/builder/infrastructure/storage/file.go and
  infrastructure/archive/extractor.go): the check that an archive holds the Dockerfile and its
  extraction into the workspace.  What the zip and tar readers deliver is a list of entries and the
  error that ends it; the error of the operating system for a path is a parameter.
\<close>

datatype entry_kind = EntryDir | EntryFile | EntryOther

record source_entry =
  se_name :: string
  se_kind :: entry_kind
  se_data :: string
  se_error :: "goerr option"

text \<open>Opening the file, opening the gzip stream, the entries, and the error instead of the end.\<close>

record source_archive =
  sa_open :: "goerr option"
  sa_gzip :: "goerr option"
  sa_entries :: "source_entry list"
  sa_end :: "goerr option"

datatype archive_format = FormatZip | FormatTar | FormatTarGz | FormatUnknown

definition format_of :: "string \<Rightarrow> archive_format" where
  "format_of path =
    (let ext = (if has_suffix (to_lower path) ''.tar.gz'' then ''.tar.gz'' else to_lower (path_ext path)) in
     if ext = ''.zip'' then FormatZip else if ext = ''.tar'' then FormatTar
     else if ext = ''.tar.gz'' \<or> ext = ''.tgz'' then FormatTarGz else FormatUnknown)"

section \<open>Validation (storage/file.go)\<close>

definition clean_entry_name :: "string \<Rightarrow> string" where
  "clean_entry_name name =
     clean_path (trim_prefix (map (\<lambda>c. if c = backslash then CHR ''/'' else c) name) ''./'')"

definition expected_dockerfile_path :: "string \<Rightarrow> string \<Rightarrow> goerr + string" where
  "expected_dockerfile_path context_dir dockerfile =
     bind_res (clean_relative_path context_dir) (\<lambda>c.
     bind_res (clean_relative_path dockerfile) (\<lambda>d0.
     let d = (if d0 = [] then ''Dockerfile'' else d0) in
     Inr (if c = [] \<or> c = ''.'' then d else join_path c d)))"

definition check_zip :: "source_archive \<Rightarrow> string \<Rightarrow> goerr option" where
  "check_zip a expected =
    (if sa_open a \<noteq> None then Some (Sentinel ErrBadRequest)
     else if list_ex (\<lambda>e. se_kind e \<noteq> EntryDir \<and> clean_entry_name (se_name e) = expected) (sa_entries a)
     then None else Some (Sentinel ErrBadRequest))"

text \<open>An error of the reader ends the search as the end of the archive does.\<close>

definition check_tar_entries :: "source_archive \<Rightarrow> string \<Rightarrow> goerr option" where
  "check_tar_entries a expected =
    (if list_ex (\<lambda>e. se_kind e = EntryFile \<and> clean_entry_name (se_name e) = expected) (sa_entries a)
     then None else Some (Sentinel ErrBadRequest))"

definition check_tar :: "source_archive \<Rightarrow> string \<Rightarrow> goerr option" where
  "check_tar a expected =
    (if sa_open a \<noteq> None then Some (Sentinel ErrInternal) else check_tar_entries a expected)"

definition check_tar_gz :: "source_archive \<Rightarrow> string \<Rightarrow> goerr option" where
  "check_tar_gz a expected =
    (if sa_open a \<noteq> None then Some (Sentinel ErrInternal)
     else if sa_gzip a \<noteq> None then Some (Sentinel ErrBadRequest)
     else check_tar_entries a expected)"

definition validate_archive :: "source_archive \<Rightarrow> string \<Rightarrow> string \<Rightarrow> string \<Rightarrow> goerr option" where
  "validate_archive a path context_dir dockerfile = (case expected_dockerfile_path context_dir dockerfile of
       Inl e \<Rightarrow> Some e
     | Inr expected \<Rightarrow> (case format_of path of
          FormatZip \<Rightarrow> check_zip a expected
        | FormatTar \<Rightarrow> check_tar a expected
        | FormatTarGz \<Rightarrow> check_tar_gz a expected
        | FormatUnknown \<Rightarrow> Some (Sentinel ErrInvalidFileFormat)))"

section \<open>Extraction (archive/extractor.go)\<close>

text \<open>The files and directories below the workspace.\<close>

record tree =
  tr_files :: "(string \<times> string) list"
  tr_dirs :: "string list"

definition sanitize_extract_path :: "string \<Rightarrow> string \<Rightarrow> goerr + string" where
  "sanitize_extract_path file dest =
    (let p = join_path dest file in
     if has_prefix p (clean_path dest @ ''/'') then Inr p else Inl (OtherErr (''illegal file path: '' @ file)))"

fun put_file :: "string \<Rightarrow> (string \<Rightarrow> string) \<Rightarrow> (string \<times> string) list \<Rightarrow> (string \<times> string) list" where
  "put_file p f [] = [(p, f [])]"
| "put_file p f ((q, d) # fs) = (if q = p then (p, f d) # fs else (q, d) # put_file p f fs)"

text \<open>
  io.Copy through a LimitReader: what is written, and the error that is met before the limit.  A zip
  entry truncates the file it opens, a tar entry writes over what is there.
\<close>

definition copied :: "source_entry \<Rightarrow> int \<Rightarrow> string" where
  "copied e remaining = take (nat remaining) (se_data e)"

definition copy_error :: "source_entry \<Rightarrow> int \<Rightarrow> goerr option" where
  "copy_error e remaining = (if int (length (se_data e)) < remaining then se_error e else None)"

definition written_over :: "bool \<Rightarrow> string \<Rightarrow> string \<Rightarrow> string" where
  "written_over trunc new old = (if trunc then new else new @ drop (length new) old)"

fun extract_entries ::
    "bool \<Rightarrow> (string \<Rightarrow> goerr option) \<Rightarrow> string \<Rightarrow> goerr option \<Rightarrow> source_entry list \<Rightarrow> int \<Rightarrow> tree \<Rightarrow> goerr option \<times> tree" where
  "extract_entries z os dest end_error [] remaining t = (end_error, t)"
| "extract_entries z os dest end_error (e # es) remaining t =
    (case sanitize_extract_path (se_name e) dest of
       Inl err \<Rightarrow> (Some err, t)
     | Inr p \<Rightarrow>
         if se_kind e = EntryDir then
           (case os p of Some err \<Rightarrow> (Some err, t)
            | None \<Rightarrow> extract_entries z os dest end_error es remaining (t\<lparr>tr_dirs := tr_dirs t @ [p]\<rparr>))
         else if se_kind e = EntryOther \<and> \<not> z then extract_entries z os dest end_error es remaining t
         else
           (case os p of Some err \<Rightarrow> (Some err, t)
            | None \<Rightarrow>
                let t' = t\<lparr>tr_dirs := tr_dirs t @ [path_dir p],
                           tr_files := put_file p (written_over z (copied e remaining)) (tr_files t)\<rparr>;
                    rest = remaining - int (length (copied e remaining))
                in case copy_error e remaining of Some err \<Rightarrow> (Some err, t')
                   | None \<Rightarrow> if rest \<le> 0 then (Some (Sentinel ErrResourceExhausted), t')
                       else extract_entries z os dest end_error es rest t'))"

definition extract_archive :: "source_archive \<Rightarrow> (string \<Rightarrow> goerr option) \<Rightarrow> string \<Rightarrow> string \<Rightarrow> int \<Rightarrow> tree \<Rightarrow> goerr option \<times> tree" where
  "extract_archive a os path dest max_size t =
    (let open_error = (if sa_open a \<noteq> None then sa_open a else sa_gzip a) in
     case format_of path of
       FormatUnknown \<Rightarrow> (Some (Sentinel ErrInvalidFileFormat), t)
     | FormatZip \<Rightarrow> (case sa_open a of Some e \<Rightarrow> (Some e, t)
          | None \<Rightarrow> extract_entries True os dest None (sa_entries a) max_size t)
     | FormatTar \<Rightarrow> (case sa_open a of Some e \<Rightarrow> (Some e, t)
          | None \<Rightarrow> extract_entries False os dest (sa_end a) (sa_entries a) max_size t)
     | FormatTarGz \<Rightarrow> (case open_error of Some e \<Rightarrow> (Some e, t)
          | None \<Rightarrow> extract_entries False os dest (sa_end a) (sa_entries a) max_size t))"

section \<open>What an extraction leaves behind\<close>

definition tree_size :: "tree \<Rightarrow> int" where
  "tree_size t = (\<Sum>(p, d) \<leftarrow> tr_files t. int (length d))"

definition tree_paths :: "tree \<Rightarrow> string set" where
  "tree_paths t = fst ` set (tr_files t)"

lemma put_file_paths: "fst ` set (put_file p f fs) \<subseteq> insert p (fst ` set fs)"
  by (induction p f fs rule: put_file.induct) auto

lemma put_file_size:
  assumes "\<And>d. length (f d) \<le> length d + n"
  shows "(\<Sum>(p, d) \<leftarrow> put_file p f fs. int (length d)) \<le> (\<Sum>(p, d) \<leftarrow> fs. int (length d)) + int n"
  using assms
proof (induction fs)
  case Nil
  then show ?case using assms[of "[]"] by simp
next
  case (Cons x fs)
  show ?case using Cons.IH[OF assms] assms[of "snd x"] by (cases x) simp
qed

lemma written_over_length: "length (written_over z new old) \<le> length old + length new"
  by (simp add: written_over_def)

text \<open>One rule for what holds of the tree and the remaining bytes however an extraction ends.\<close>

lemma extract_entries_invariant:
  assumes "extract_entries z os dest end_error es remaining t = (r, t')" and "I remaining t"
    and made: "\<And>n t p. I n t \<Longrightarrow> I n (t\<lparr>tr_dirs := tr_dirs t @ [p]\<rparr>)"
    and stored: "\<And>e n t p. I n t \<Longrightarrow> sanitize_extract_path (se_name e) dest = Inr p \<Longrightarrow>
        I (n - int (length (copied e n))) (t\<lparr>tr_dirs := tr_dirs t @ [path_dir p],
            tr_files := put_file p (written_over z (copied e n)) (tr_files t)\<rparr>)"
  shows "\<exists>n. I n t'"
  using assms(1,2)
proof (induction es arbitrary: remaining t)
  case Nil
  then show ?case by auto
next
  case (Cons e es)
  show ?case
  proof (cases "sanitize_extract_path (se_name e) dest")
    case (Inl err)
    then show ?thesis using Cons.prems by auto
  next
    case (Inr p)
    have d: "I remaining (t\<lparr>tr_dirs := tr_dirs t @ [p]\<rparr>)" by (rule made[OF Cons.prems(2)])
    note f = stored[OF Cons.prems(2) Inr]
    show ?thesis
    proof (cases "se_kind e = EntryDir \<or> os p \<noteq> None \<or> (se_kind e = EntryOther \<and> \<not> z)")
      case True
      then show ?thesis using Cons.prems Cons.IH[OF _ d] Cons.IH[OF _ Cons.prems(2)] Inr
        by (auto split: option.splits if_splits)
    next
      case False
      then show ?thesis using Cons.prems(1) Cons.IH[OF _ f] f Inr
        by (auto simp: Let_def split: option.splits if_splits)
    qed
  qed
qed

lemma extract_entries_size:
  assumes "extract_entries z os dest end_error es remaining t = (r, t')" and "0 \<le> remaining"
  shows "tree_size t' \<le> tree_size t + remaining"
proof -
  let ?I = "\<lambda>n u. 0 \<le> n \<and> tree_size u + n \<le> tree_size t + remaining"
  have "\<exists>n. ?I n t'"
  proof (rule extract_entries_invariant[OF assms(1), where I = ?I])
    fix e :: source_entry and n :: int and u :: tree and p
    assume i: "?I n u"
    have c: "int (length (copied e n)) \<le> n" using i by (simp add: copied_def min_def) linarith
    have "tree_size (u\<lparr>tr_dirs := d, tr_files := put_file p (written_over z (copied e n)) (tr_files u)\<rparr>)
        \<le> tree_size u + int (length (copied e n))" for d
      unfolding tree_size_def using put_file_size[OF written_over_length] by simp
    from this[of "tr_dirs u @ [path_dir p]"] show "?I (n - int (length (copied e n))) (u\<lparr>tr_dirs := tr_dirs u @ [path_dir p],
            tr_files := put_file p (written_over z (copied e n)) (tr_files u)\<rparr>)"
      using i c by (intro conjI; linarith)
  qed (use assms(2) in \<open>auto simp: tree_size_def\<close>)
  then show ?thesis by auto
qed

lemma extract_entries_paths:
  assumes "extract_entries z os dest end_error es remaining t = (r, t')"
    and "\<forall>p \<in> tree_paths t. P p" and "\<And>f p. sanitize_extract_path f dest = Inr p \<Longrightarrow> P p"
  shows "\<forall>p \<in> tree_paths t'. P p"
proof -
  have "\<exists>n::int. \<forall>p \<in> tree_paths t'. P p"
  proof (rule extract_entries_invariant[OF assms(1), where I = "\<lambda>n u. \<forall>p \<in> tree_paths u. P p"])
    fix e :: source_entry and n :: int and u :: tree and p
    let ?u = "u\<lparr>tr_dirs := tr_dirs u @ [path_dir p],
            tr_files := put_file p (written_over z (copied e n)) (tr_files u)\<rparr>"
    assume a: "\<forall>p \<in> tree_paths u. P p" and "sanitize_extract_path (se_name e) dest = Inr p"
    then have "P p" using assms(3) by blast
    moreover have "tree_paths ?u \<subseteq> insert p (tree_paths u)"
      using put_file_paths[of p "written_over z (copied e n)" "tr_files u"] by (simp add: tree_paths_def)
    ultimately show "\<forall>p \<in> tree_paths ?u. P p" using a by blast
  qed (use assms(2) in \<open>auto simp: tree_paths_def\<close>)
  then show ?thesis by simp
qed


text \<open>
  The log of a build: the sanitiser that hides internal names and credentials
  (internal/builder/service/log_sanitizer.go) and the bounded log file
  (internal/builder/infrastructure/storage/logger.go).  The replacements made by the three regular
  expressions are parameters; a stream is the list of its lines and the error that ends it.
\<close>

section \<open>Sanitising (service/log_sanitizer.go)\<close>

record redaction =
  rd_authorization :: "string \<Rightarrow> string"
  rd_credentials :: "string \<Rightarrow> string"
  rd_image_ref :: "string \<Rightarrow> string"
  rd_registry :: string
  rd_destination :: string

text \<open>strings.ReplaceAll for a non-empty pattern\<close>

function replace_all :: "string \<Rightarrow> string \<Rightarrow> string \<Rightarrow> string" where
  "replace_all pat new s =
    (if pat = [] \<or> s = [] then s
     else if has_prefix s pat then new @ replace_all pat new (drop (length pat) s)
     else hd s # replace_all pat new (tl s))"
  by pat_completeness auto
termination by (relation "measure (\<lambda>(p, n, s). length s)") (auto simp: neq_Nil_conv)

declare replace_all.simps [simp del]

definition newline :: char where "newline = CHR 0x0A"

definition publish_notice_line :: string where
  "publish_notice_line = ''[SYSTEM] Publishing image to internal registry...'' @ [newline]"

definition is_kaniko_log_line :: "string \<Rightarrow> bool" where
  "is_kaniko_log_line raw = (let line = trim_space raw in
     has_prefix line ''INFO['' \<or> has_prefix line ''WARN['' \<or> has_prefix line ''ERRO['' \<or> has_prefix line ''DEBU['')"

definition is_internal_publish_line :: "redaction \<Rightarrow> string \<Rightarrow> bool" where
  "is_internal_publish_line k line =
    (let l = to_lower line in
     (str_contains l ''push'' \<or> str_contains l ''pushed'' \<or> str_contains l ''digest'' \<or> str_contains l ''sha256:''
      \<or> str_contains l ''destination'')
     \<and> ((rd_registry k \<noteq> [] \<and> str_contains line (rd_registry k))
        \<or> (rd_destination k \<noteq> [] \<and> str_contains line (rd_destination k)) \<or> is_kaniko_log_line line))"

definition redact_line :: "redaction \<Rightarrow> string \<Rightarrow> string" where
  "redact_line k line0 =
    (let line1 = rd_credentials k (rd_authorization k line0);
         line2 = (if rd_destination k \<noteq> [] then replace_all (rd_destination k) ''[internal-image]'' line1 else line1);
         line3 = (if rd_registry k \<noteq> [] then rd_image_ref k line2 else line2)
     in if rd_registry k \<noteq> [] then replace_all (rd_registry k) ''[internal-registry]'' line3 else line3)"

text \<open>The lines the reader delivers; the notice of the publication is shown once.\<close>

fun sanitize_lines :: "redaction \<Rightarrow> bool \<Rightarrow> string list \<Rightarrow> string list" where
  "sanitize_lines k shown [] = []"
| "sanitize_lines k shown (line # ls) =
    (if is_internal_publish_line k line then
       (if shown then sanitize_lines k shown ls else publish_notice_line # sanitize_lines k True ls)
     else (let line' = redact_line k line in
       if line' = [] then sanitize_lines k shown ls else line' # sanitize_lines k shown ls))"

section \<open>The log file (storage/logger.go)\<close>

definition log_size_limit_exceeded :: goerr where
  "log_size_limit_exceeded = OtherErr ''log size limit exceeded''"

fun save_lines :: "int \<Rightarrow> string list \<Rightarrow> goerr option \<Rightarrow> int \<Rightarrow> string \<Rightarrow> string \<times> goerr option" where
  "save_lines max_size [] stream_error total0 acc = (acc, stream_error)"
| "save_lines max_size (line # ls) stream_error total0 acc =
    (if total0 + int (length line) > max_size
     then (acc @ line @ [newline] @ ''[SYSTEM] Log size limit exceeded. Build aborted.'' @ [newline],
           Some log_size_limit_exceeded)
     else save_lines max_size ls stream_error (total0 + int (length line)) (acc @ line))"

definition system_log_line :: "string \<Rightarrow> string" where
  "system_log_line message = [newline] @ ''[SYSTEM] '' @ message @ [newline]"

text \<open>A log that is saved without an error is complete and within the limit.\<close>

lemma save_lines_ok:
  "save_lines max_size ls stream_error total0 acc = (out, None) \<Longrightarrow>
     out = acc @ concat ls \<and> (ls \<noteq> [] \<longrightarrow> total0 + int (length (concat ls)) \<le> max_size) \<and> stream_error = None"
  by (induction ls arbitrary: total0 acc) (fastforce split: if_splits)+

text \<open>The publication notice appears at most once.\<close>

lemma notice_once:
  assumes "\<And>l. l \<in> set ls \<Longrightarrow> redact_line k l \<noteq> publish_notice_line"
  shows "length (filter (\<lambda>l. l = publish_notice_line) (sanitize_lines k shown ls)) \<le> (if shown then 0 else 1)"
  using assms
proof (induction ls arbitrary: shown)
  case (Cons line ls)
  then have "length (filter (\<lambda>l. l = publish_notice_line) (sanitize_lines k b ls)) \<le> (if b then 0 else 1)" for b
    by simp
  from this[of True] this[of shown] Cons.prems[of line] show ?case by (auto simp: Let_def)
qed simp

end
