(* ===== verification/Builder.thy ===== *)
theory Builder
  imports BuilderFiles ContainerWorker
begin

text \<open>
  The builder service (internal/builder/service/builder.go) with its configuration
  (config/runtime.go), its files (infrastructure/storage) and the handling of a delivery
  (infrastructure/rabbitmq/consumer.go).  The state holds what one instance keeps; the calls that
  leave it are logged.  The environment answers, at the clock of external calls, which call fails,
  what the core service, the archive, the build container and the operating system deliver, and what
  the context of the build says at that moment: it is cancelled by the poller, by Stop or by its
  timeout.
\<close>

section \<open>State\<close>

record builder_config =
  bc_memory :: int
  bc_cpu_quota :: int
  bc_cpu_period :: int
  bc_swap :: rat
  bc_pids :: int
  bc_logs_dir :: string
  bc_storage :: string
  bc_registry :: string
  bc_network :: string
  bc_kaniko :: string
  bc_max_time :: int
  bc_max_concurrent :: int
  bc_max_unpacked :: int
  bc_max_log :: int
  bc_poll :: int

record build_spec =
  bs_build :: id
  bs_owner :: id
  bs_workspace :: string
  bs_context :: string
  bs_dockerfile :: string
  bs_destination :: string
  bs_kaniko :: string
  bs_memory :: int
  bs_swap :: rat
  bs_cpu_quota :: int
  bs_cpu_period :: int
  bs_pids :: int
  bs_args :: "(string \<times> string) list"
  bs_network :: string

record build_job =
  bj_build :: id
  bj_image :: id
  bj_owner :: id
  bj_tag :: string
  bj_context :: string
  bj_dockerfile :: string
  bj_args :: "(string \<times> string) list"
  bj_log_key :: string

datatype builder_call =
    CallComplete id id string int
  | CallDownload string string
  | CallUpload string string
  | CallDelete string
  | CallRun build_spec
  | CallClean string

text \<open>While a worker waits for a slot: so many are released, or its context ends.\<close>

datatype slot_event = SlotsReleased int | SlotContextDone

record builder_env =
  v_fault :: "nat \<Rightarrow> goerr option"
  v_ctx :: "nat \<Rightarrow> goerr option"
  v_config :: "nat \<Rightarrow> goerr + builder_config"
  v_start :: "nat \<Rightarrow> id \<Rightarrow> goerr + id option \<times> bool \<times> string"
  v_archive :: "nat \<Rightarrow> string \<Rightarrow> source_archive"
  v_os :: "nat \<Rightarrow> string \<Rightarrow> goerr option"
  v_run :: "nat \<Rightarrow> build_spec \<Rightarrow> goerr + string \<times> string list \<times> goerr option"
  v_wait :: "nat \<Rightarrow> string \<Rightarrow> goerr option"
  v_slots :: "nat \<Rightarrow> slot_event list"
  v_redaction :: "string \<Rightarrow> string \<Rightarrow> redaction"
  v_uuid_text :: "id \<Rightarrow> string"
  v_base_dir :: string

record builder =
  r_env :: builder_env
  r_config :: builder_config
  r_slots :: int
  r_active :: "id list"
  r_archives :: "string list"
  r_workspaces :: "string \<rightharpoonup> tree"
  r_logs :: "id \<rightharpoonup> string"
  r_calls :: "builder_call list"
  r_tick :: nat

type_synonym 'a builder_meth = "(builder, 'a) meth"

section \<open>External calls\<close>

definition observe_env :: "(builder_env \<Rightarrow> nat \<Rightarrow> 'a) \<Rightarrow> 'a builder_meth" where
  "observe_env f s = (Inr (f (r_env s) (r_tick s)), s\<lparr>r_tick := Suc (r_tick s)\<rparr>)"

definition observe_or_fail :: "(builder_env \<Rightarrow> nat \<Rightarrow> goerr + 'a) \<Rightarrow> 'a builder_meth" where
  "observe_or_fail f s = (f (r_env s) (r_tick s), s\<lparr>r_tick := Suc (r_tick s)\<rparr>)"

definition remote :: "builder_call \<Rightarrow> unit builder_meth" where
  "remote c s = (let n = r_tick s; s' = s\<lparr>r_tick := Suc n\<rparr> in
     case v_fault (r_env s) n of Some e \<Rightarrow> (Inl e, s') | None \<Rightarrow> (Inr (), s'\<lparr>r_calls := r_calls s @ [c]\<rparr>))"

definition local_call :: "(builder \<Rightarrow> builder) \<Rightarrow> unit builder_meth" where
  "local_call f s = (let n = r_tick s; s' = s\<lparr>r_tick := Suc n\<rparr> in
     case v_fault (r_env s) n of Some e \<Rightarrow> (Inl e, s') | None \<Rightarrow> (Inr (), f s'))"

definition modify :: "(builder \<Rightarrow> builder) \<Rightarrow> unit builder_meth" where
  "modify f s = (Inr (), f s)"

definition builder_env_of :: "builder_env builder_meth" where "builder_env_of s = (Inr (r_env s), s)"
definition ctx_err :: "goerr option builder_meth" where "ctx_err = observe_env v_ctx"

text \<open>defer h()\<close>

definition deferred :: "'a builder_meth \<Rightarrow> unit builder_meth \<Rightarrow> 'a builder_meth" where
  "deferred m h s = (case m s of (r, s') \<Rightarrow> (r, snd (h s')))"

section \<open>Statuses and errors\<close>

definition is_terminal_build_status :: "string \<Rightarrow> bool" where
  "is_terminal_build_status s \<longleftrightarrow> List.member [''success'', ''canceled'', ''failed'', ''failed_timeout'',
     ''failed_resource_exhausted'', ''failed_internal'', ''failed_quota_exceeded''] s"

definition is_resource_exhausted_error :: "goerr \<Rightarrow> bool" where
  "is_resource_exhausted_error e \<longleftrightarrow>
     errors_is e ErrResourceExhausted \<or> errors_is e ErrHostExhausted
     \<or> (let m = to_lower (error_text e) in
        str_contains m ''no space left'' \<or> str_contains m ''cannot allocate memory'' \<or> str_contains m ''out of memory''
        \<or> str_contains m ''resource temporarily unavailable'')"

definition clean_dockerfile_path :: "string \<Rightarrow> goerr + string" where
  "clean_dockerfile_path raw = bind_res (clean_relative_path raw) (\<lambda>p. Inr (if p = [] then ''Dockerfile'' else p))"

section \<open>Configuration (config/runtime.go)\<close>

definition refresh_config :: "builder_config builder_meth" where
  "refresh_config =
     seq (attempt (observe_or_fail v_config)) (\<lambda>r. \<lambda>s. (case r of
       Inl e \<Rightarrow> (Inr (r_config s), s)
     | Inr c0 \<Rightarrow>
         let old = r_config s;
             c = c0\<lparr>bc_logs_dir := bc_logs_dir old, bc_storage := bc_storage old, bc_registry := bc_registry old,
                    bc_poll := (if bc_poll c0 \<le> 0 then bc_poll old else bc_poll c0)\<rparr>
         in (Inr c, s\<lparr>r_config := c\<rparr>)))"

section \<open>Slots\<close>

text \<open>The list of events ends when the context does.\<close>

fun acquire_build_slot :: "int \<Rightarrow> slot_event list \<Rightarrow> int \<Rightarrow> bool \<times> int" where
  "acquire_build_slot max_concurrent events slots =
    (let m = (if max_concurrent \<le> 0 then 1 else max_concurrent) in
     if slots < m then (True, slots + 1)
     else case events of
       SlotsReleased k # es \<Rightarrow> acquire_build_slot max_concurrent es (max 0 (slots - k))
     | _ \<Rightarrow> (False, slots))"

definition release_build_slot :: "unit builder_meth" where
  "release_build_slot = modify (\<lambda>s. s\<lparr>r_slots := (if r_slots s > 0 then r_slots s - 1 else r_slots s)\<rparr>)"

text \<open>What the poller of a build reads, until it sees a terminal status.\<close>

fun watch_build_cancellation :: "(goerr + string) list \<Rightarrow> bool" where
  "watch_build_cancellation [] = False"
| "watch_build_cancellation (Inl e # rs) = watch_build_cancellation rs"
| "watch_build_cancellation (Inr st # rs) = (if is_terminal_build_status st then True else watch_build_cancellation rs)"

section \<open>Logs\<close>

definition write_system_log :: "id \<Rightarrow> string \<Rightarrow> unit builder_meth" where
  "write_system_log bid message = local_call (\<lambda>s. s\<lparr>r_logs := (r_logs s)(bid \<mapsto>
     (case r_logs s bid of None \<Rightarrow> [] | Some t \<Rightarrow> t) @ system_log_line message)\<rparr>)"

definition upload_build_log :: "id \<Rightarrow> string \<Rightarrow> unit builder_meth" where
  "upload_build_log bid key =
     (if key = [] then ret () else
      seq (local_call (\<lambda>s. s)) (\<lambda>_. \<lambda>s.
      case r_logs s bid of None \<Rightarrow> (Inr (), s)
      | Some t \<Rightarrow> remote (CallUpload key t) s))"

definition write_and_upload :: "id \<Rightarrow> string \<Rightarrow> string \<Rightarrow> unit builder_meth" where
  "write_and_upload bid key message =
     seq (ignore (write_system_log bid message)) (\<lambda>_. ignore (upload_build_log bid key))"

definition write_internal_build_log :: "id \<Rightarrow> string \<Rightarrow> unit builder_meth" where
  "write_internal_build_log bid key = write_and_upload bid key ''Build failed due to an internal platform error.''"

definition write_resource_exhausted_build_log :: "id \<Rightarrow> string \<Rightarrow> unit builder_meth" where
  "write_resource_exhausted_build_log bid key =
     write_and_upload bid key ''Build failed because server resources were exhausted.''"

definition write_cancelled_build_log :: "id \<Rightarrow> string \<Rightarrow> unit builder_meth" where
  "write_cancelled_build_log bid key = write_and_upload bid key ''Build was canceled before it completed.''"

definition save_logs :: "id \<Rightarrow> string list \<Rightarrow> goerr option \<Rightarrow> int \<Rightarrow> unit builder_meth" where
  "save_logs bid ls stream_error max_size =
     seq (local_call (\<lambda>s. s)) (\<lambda>_. \<lambda>s.
     case save_lines max_size ls stream_error 0 [] of
       (t, None) \<Rightarrow> (Inr (), s\<lparr>r_logs := (r_logs s)(bid \<mapsto> t)\<rparr>)
     | (t, Some e) \<Rightarrow> (Inl e, s\<lparr>r_logs := (r_logs s)(bid \<mapsto> t)\<rparr>))"

section \<open>Building\<close>

definition clean_build_container :: "string \<Rightarrow> unit builder_meth" where
  "clean_build_container cid = remote (CallClean cid)"

definition run_build_container :: "builder_config \<Rightarrow> build_spec \<Rightarrow> build_job \<Rightarrow> string builder_meth" where
  "run_build_container cfg spec job =
    (let bid = bj_build job; key = bj_log_key job in
     seq builder_env_of (\<lambda>env.
     seq (attempt (seq (remote (CallRun spec)) (\<lambda>_. observe_or_fail (\<lambda>e n. v_run e n spec)))) (\<lambda>r.
     case r of
       Inl e \<Rightarrow>
         seq ctx_err (\<lambda>c.
         if c \<noteq> None then ret ''failed_internal''
         else if is_resource_exhausted_error e
         then seq (write_resource_exhausted_build_log bid key) (\<lambda>_. ret ''failed_resource_exhausted'')
         else seq (write_internal_build_log bid key) (\<lambda>_. ret ''failed_internal''))
     | Inr (cid, ls, stream_error) \<Rightarrow>
         deferred
           (seq (attempt (save_logs bid
               (sanitize_lines (v_redaction env (bc_registry cfg) (bs_destination spec)) False ls) stream_error (bc_max_log cfg))) (\<lambda>saved.
            seq (if saved = Inl log_size_limit_exceeded then ignore (clean_build_container cid) else ret ()) (\<lambda>_.
            seq (attempt (observe_or_fail (\<lambda>e n. case v_wait e n cid of Some x \<Rightarrow> Inl x | None \<Rightarrow> Inr ()))) (\<lambda>waited.
            seq ctx_err (\<lambda>c.
            case waited of
              Inl e \<Rightarrow> ret (if is_resource_exhausted_error e then ''failed_resource_exhausted'' else ''failed'')
            | Inr _ \<Rightarrow>
                (case saved of
                   Inr _ \<Rightarrow> ret (if c = None then ''success'' else ''failed_internal'')
                 | Inl e \<Rightarrow>
                     if e = log_size_limit_exceeded then ret ''failed''
                     else seq (write_internal_build_log bid key) (\<lambda>_. ret ''failed_internal''))))))
           ) (ignore (clean_build_container cid)))))"

definition workspace_path :: "builder_env \<Rightarrow> (id \<Rightarrow> string) \<Rightarrow> id \<Rightarrow> string" where
  "workspace_path env txt bid = join_path (v_base_dir env) (txt bid @ ''_workspace'')"

definition build_spec_of :: "builder_env \<Rightarrow> builder_config \<Rightarrow> build_job \<Rightarrow> string \<Rightarrow> string \<Rightarrow> string \<Rightarrow> build_spec" where
  "build_spec_of env cfg job workspace context_dir dockerfile =
    (case parse_tag (bj_tag job) of (base, version) \<Rightarrow>
     \<lparr> bs_build = bj_build job, bs_owner = bj_owner job, bs_workspace = workspace, bs_context = context_dir,
       bs_dockerfile = dockerfile,
       bs_destination = bc_registry cfg @ ''/'' @ custom_repository_name (v_uuid_text env (bj_owner job)) base @ '':'' @ version,
       bs_kaniko = bc_kaniko cfg, bs_memory = bc_memory cfg, bs_swap = bc_swap cfg, bs_cpu_quota = bc_cpu_quota cfg,
       bs_cpu_period = bc_cpu_period cfg, bs_pids = bc_pids cfg, bs_args = bj_args job, bs_network = bc_network cfg \<rparr>)"

text \<open>What is known of the build when the workspace exists: the status it will be reported with.\<close>

definition build_in_workspace :: "builder_config \<Rightarrow> string \<Rightarrow> string \<Rightarrow> build_job \<Rightarrow> string builder_meth" where
  "build_in_workspace cfg archive_path workspace job =
    (let bid = bj_build job; key = bj_log_key job;
         internal = seq (write_internal_build_log bid key) (\<lambda>_. ret ''failed_internal'') in
     seq builder_env_of (\<lambda>env.
     seq (observe_env (\<lambda>e n. extract_archive (v_archive e n archive_path) (v_os e n) archive_path workspace
            (bc_max_unpacked cfg) \<lparr> tr_files = [], tr_dirs = [] \<rparr>)) (\<lambda>(extract_error, t).
     seq (modify (\<lambda>s. s\<lparr>r_workspaces := (r_workspaces s)(workspace \<mapsto> t)\<rparr>)) (\<lambda>_.
     case extract_error of
       Some e \<Rightarrow>
         if is_resource_exhausted_error e
         then seq (write_resource_exhausted_build_log bid key) (\<lambda>_. ret ''failed_resource_exhausted'')
         else internal
     | None \<Rightarrow>
         (case clean_relative_path (bj_context job) of Inl e \<Rightarrow> internal
          | Inr c \<Rightarrow> (case clean_dockerfile_path (bj_dockerfile job) of Inl e \<Rightarrow> internal
             | Inr d \<Rightarrow> run_build_container cfg (build_spec_of env cfg job workspace c d) job))))))"

definition create_workspace :: "string \<Rightarrow> unit builder_meth" where
  "create_workspace path = local_call (\<lambda>s. s\<lparr>r_workspaces := (r_workspaces s)(path \<mapsto>
     \<lparr> tr_files = [], tr_dirs = [] \<rparr>)\<rparr>)"

definition cleanup_workspace :: "string \<Rightarrow> unit builder_meth" where
  "cleanup_workspace path = modify (\<lambda>s. s\<lparr>r_workspaces := (r_workspaces s)(path := None)\<rparr>)"

definition cleanup_archive :: "string \<Rightarrow> unit builder_meth" where
  "cleanup_archive path = local_call (\<lambda>s. s\<lparr>r_archives := filter (\<lambda>p. p \<noteq> path) (r_archives s)\<rparr>)"

text \<open>The context of the build decides over what the build came to.\<close>

definition settle_status :: "build_job \<Rightarrow> string \<Rightarrow> string builder_meth" where
  "settle_status job status =
     seq ctx_err (\<lambda>c.
     if c = Some CtxDeadlineExceeded then
       seq (write_and_upload (bj_build job) (bj_log_key job) ''Build failed because it exceeded the maximum build time.'') (\<lambda>_.
       ret ''failed_timeout'')
     else if c = Some CtxCanceled then
       seq (write_cancelled_build_log (bj_build job) (bj_log_key job)) (\<lambda>_. ret ''canceled'')
     else ret status)"

definition report_build :: "build_job \<Rightarrow> string \<Rightarrow> unit builder_meth" where
  "report_build job status =
     seq (ignore (upload_build_log (bj_build job) (bj_log_key job))) (\<lambda>_.
     remote (CallComplete (bj_build job) (bj_image job) status 0))"

definition process_build :: "builder_config \<Rightarrow> string \<Rightarrow> build_job \<Rightarrow> unit builder_meth" where
  "process_build cfg archive_path job =
     deferred
      (seq builder_env_of (\<lambda>env.
       let path = workspace_path env (v_uuid_text env) (bj_build job) in
       seq (attempt (create_workspace path)) (\<lambda>created.
       case created of
         Inl e \<Rightarrow>
           seq (write_internal_build_log (bj_build job) (bj_log_key job)) (\<lambda>_.
           seq (settle_status job ''failed_internal'') (report_build job))
       | Inr _ \<Rightarrow>
           deferred
             (seq (build_in_workspace cfg archive_path path job) (\<lambda>status.
              seq (settle_status job status) (report_build job)))
             (cleanup_workspace path))))
      (ignore (cleanup_archive archive_path))"

section \<open>A message of the build queue\<close>

definition complete_canceled_build :: "build_message \<Rightarrow> id \<Rightarrow> string \<Rightarrow> unit builder_meth" where
  "complete_canceled_build msg iid archive_path =
     seq (if archive_path \<noteq> [] then ignore (cleanup_archive archive_path) else ret ()) (\<lambda>_.
     seq (write_cancelled_build_log (bm_build msg) (bm_log msg)) (\<lambda>_.
     seq (remote (CallComplete (bm_build msg) iid ''canceled'' 0)) (\<lambda>_.
     ignore (remote (CallDelete (bm_archive msg))))))"

definition job_of_message :: "build_message \<Rightarrow> id \<Rightarrow> build_job" where
  "job_of_message msg iid = \<lparr> bj_build = bm_build msg, bj_image = iid, bj_owner = bm_owner msg, bj_tag = bm_tag msg,
     bj_context = bm_context_dir msg, bj_dockerfile = bm_dockerfile msg, bj_args = bm_args msg, bj_log_key = bm_log msg \<rparr>"

text \<open>From the download on, under the context of the build.\<close>

definition build_downloaded :: "builder_config \<Rightarrow> build_message \<Rightarrow> id \<Rightarrow> string \<Rightarrow> unit builder_meth" where
  "build_downloaded cfg msg iid path =
     seq (attempt (seq (remote (CallDownload (bm_archive msg) path)) (\<lambda>_.
            modify (\<lambda>s. s\<lparr>r_archives := path # r_archives s\<rparr>)))) (\<lambda>downloaded.
     case downloaded of
       Inl e \<Rightarrow> seq ctx_err (\<lambda>c. if c \<noteq> None then complete_canceled_build msg iid path else fail e)
     | Inr _ \<Rightarrow>
         seq (observe_env (\<lambda>e n. validate_archive (v_archive e n path) path (bm_context_dir msg) (bm_dockerfile msg))) (\<lambda>invalid.
         if invalid \<noteq> None then
           seq ctx_err (\<lambda>c.
           if c \<noteq> None then complete_canceled_build msg iid path else
           seq (ignore (write_system_log (bm_build msg) ''Build failed because the uploaded archive is invalid.'')) (\<lambda>_.
           seq (ignore (upload_build_log (bm_build msg) (bm_log msg))) (\<lambda>_.
           seq (remote (CallComplete (bm_build msg) iid ''failed'' 0)) (\<lambda>_.
           ignore (remote (CallDelete (bm_archive msg)))))))
         else
           seq (process_build cfg path (job_of_message msg iid)) (\<lambda>_.
           ignore (remote (CallDelete (bm_archive msg))))))"

definition cleanup_log :: "id \<Rightarrow> unit builder_meth" where
  "cleanup_log bid = local_call (\<lambda>s. s\<lparr>r_logs := (r_logs s)(bid := None)\<rparr>)"

definition handle_build_message :: "build_message \<Rightarrow> unit builder_meth" where
  "handle_build_message msg =
     seq refresh_config (\<lambda>cfg.
     seq (observe_env v_slots) (\<lambda>events.
     seq (\<lambda>s. (case acquire_build_slot (bc_max_concurrent cfg) events (r_slots s) of
            (ok, n) \<Rightarrow> (Inr ok, s\<lparr>r_slots := n\<rparr>))) (\<lambda>acquired.
     if \<not> acquired then fail CtxCanceled else
     deferred
      (seq (observe_or_fail (\<lambda>e n. v_start e n (bm_build msg))) (\<lambda>(image, started, status).
       if \<not> started then
         (if is_terminal_build_status status then ignore (remote (CallDelete (bm_archive msg))) else ret ())
       else
         let iid = (case image of Some i \<Rightarrow> i | None \<Rightarrow> bm_image msg); bid = bm_build msg in
         seq builder_env_of (\<lambda>env.
         let path = join_path (v_base_dir env) (v_uuid_text env bid @ archive_object_ext (bm_archive msg)) in
         seq (modify (\<lambda>s. s\<lparr>r_active := bid # filter (\<lambda>b. b \<noteq> bid) (r_active s)\<rparr>)) (\<lambda>_.
         deferred (deferred (deferred (build_downloaded cfg msg iid path)
           (ignore (cleanup_log bid))) (ignore (cleanup_archive path)))
           (modify (\<lambda>s. s\<lparr>r_active := filter (\<lambda>b. b \<noteq> bid) (r_active s)\<rparr>))))))
      release_build_slot)))"

definition handle_build_delivery :: "build_message \<Rightarrow> builder \<Rightarrow> verdict \<times> builder" where
  "handle_build_delivery msg s = (case handle_build_message msg s of
       (Inr _, s') \<Rightarrow> (Acked, s')
     | (Inl e, s') \<Rightarrow> (if is_permanent_error e then DeadLettered else Requeued, s'))"

end
