(* ===== verification/BuilderProps.thy ===== *)
theory BuilderProps
  imports Builder
begin

text \<open>
  What the builder guarantees: an extraction stays inside the workspace and within its limit, and a
  build that was started is reported exactly once, as a success only after its container ran.
\<close>

section \<open>Extraction\<close>

lemma rooted_elements: "''..'' \<notin> set out \<Longrightarrow> ''..'' \<notin> set (clean_elements True out es)"
  by (induction "True" out es rule: clean_elements.induct) (auto dest: list.set_sel(2))

lemma clean_path_rooted:
  assumes "has_prefix p ''/''"
  shows "''..'' \<notin> set (split_on (CHR ''/'') (clean_path p))"
proof -
  let ?es = "rev (clean_elements True [] (split_on (CHR ''/'') p))"
  have slash: "\<forall>e \<in> set ?es. CHR ''/'' \<notin> set e"
    using clean_elements_no_slash[of "[]" "CHR ''/''" "split_on (CHR ''/'') p" True] split_on_parts by auto
  have "''..'' \<notin> set ?es" using rooted_elements[of "[]"] by simp
  then have "''..'' \<notin> set (split_on (CHR ''/'') (join_with ''/'' ?es))"
    using split_join[OF slash] by (cases "?es = []") auto
  then show ?thesis using assms by (simp add: clean_path_def Let_def)
qed

lemma joined_is_rooted:
  assumes "has_prefix dest ''/''"
  shows "''..'' \<notin> set (split_on (CHR ''/'') (join_path dest file))"
  using assms clean_path_rooted[of dest] clean_path_rooted[of "dest @ ''/'' @ file"]
  by (cases dest) (auto simp: join_path_def has_prefix_iff)

lemma extract_archive_entries:
  "(\<exists>e. extract_archive a os path dest n t = (e, t))
   \<or> (\<exists>z e. extract_archive a os path dest n t = extract_entries z os dest e (sa_entries a) n t)"
  by (auto simp: extract_archive_def split: archive_format.split option.split)

lemma extract_entries_bounded:
  assumes "extract_entries z os dest e es n \<lparr> tr_files = [], tr_dirs = [] \<rparr> = (r, t)"
  shows "tree_size t \<le> max 0 n"
proof (cases "0 \<le> n")
  case True
  then show ?thesis using extract_entries_size[OF assms True] by (simp add: tree_size_def)
next
  case False
  let ?I = "\<lambda>(m::int) u. m < 0 \<and> tree_size u \<le> 0"
  have "\<exists>m. ?I m t"
  proof (rule extract_entries_invariant[OF assms, where I = ?I])
    fix e :: source_entry and m :: int and u :: tree and p
    assume i: "?I m u"
    then have c: "copied e m = []" by (simp add: copied_def)
    have "tree_size (u\<lparr>tr_dirs := d, tr_files := put_file p (written_over z (copied e m)) (tr_files u)\<rparr>) \<le> tree_size u" for d
      unfolding tree_size_def using put_file_size[of "written_over z (copied e m)", OF written_over_length] c by simp
    with i c show "?I (m - int (length (copied e m))) (u\<lparr>tr_dirs := tr_dirs u @ [path_dir p],
            tr_files := put_file p (written_over z (copied e m)) (tr_files u)\<rparr>)" by (auto intro: order_trans)
  qed (use False in \<open>auto simp: tree_size_def\<close>)
  then show ?thesis by auto
qed

text \<open>
  C28. Whatever names, sizes and errors the entries of an archive have, and however its extraction
  into an absolute workspace ends: every file that is written lies below the workspace, no element
  of its path is .., and all files together hold at most the limit of unpacked bytes.
\<close>

theorem extraction_is_confined:
  assumes "has_prefix dest ''/''"
    and "extract_archive a os path dest limit \<lparr> tr_files = [], tr_dirs = [] \<rparr> = (r, t)"
  shows "(\<forall>p \<in> tree_paths t. has_prefix p (clean_path dest @ ''/'') \<and> ''..'' \<notin> set (split_on (CHR ''/'') p))
    \<and> tree_size t \<le> max 0 limit"
proof -
  let ?t0 = "\<lparr> tr_files = [], tr_dirs = [] \<rparr>"
  let ?P = "\<lambda>p. has_prefix p (clean_path dest @ ''/'') \<and> ''..'' \<notin> set (split_on (CHR ''/'') p)"
  have ok: "?P p" if "sanitize_extract_path f dest = Inr p" for f p
    using that joined_is_rooted[OF assms(1), of f] by (auto simp: sanitize_extract_path_def Let_def split: if_splits)
  from extract_archive_entries[of a os path dest limit ?t0] show ?thesis
  proof (elim disjE exE)
    fix e assume "extract_archive a os path dest limit ?t0 = (e, ?t0)"
    then show ?thesis using assms(2) by (auto simp: tree_paths_def tree_size_def)
  next
    fix z e assume "extract_archive a os path dest limit ?t0 = extract_entries z os dest e (sa_entries a) limit ?t0"
    then have x: "extract_entries z os dest e (sa_entries a) limit ?t0 = (r, t)" using assms(2) by simp
    show ?thesis using extract_entries_paths[OF x _ ok] extract_entries_bounded[OF x] by (simp add: tree_paths_def)
  qed
qed

definition hostile_archive :: source_archive where
  "hostile_archive = \<lparr> sa_open = None, sa_gzip = None, sa_entries =
     [\<lparr> se_name = ''src/'', se_kind = EntryDir, se_data = [], se_error = None \<rparr>,
      \<lparr> se_name = ''Dockerfile'', se_kind = EntryFile, se_data = ''FROM scratch'', se_error = None \<rparr>,
      \<lparr> se_name = ''../../etc/passwd'', se_kind = EntryFile, se_data = ''root'', se_error = None \<rparr>],
     sa_end = None \<rparr>"

lemma extraction_is_confined_witness:
  "let t = snd (extract_archive hostile_archive (\<lambda>_. None) ''b.tar'' ''/tmp/w'' 100 \<lparr> tr_files = [], tr_dirs = [] \<rparr>)
   in list_all (\<lambda>p. has_prefix p ''/tmp/w/'') (map fst (tr_files t)) \<and> tr_files t = [(''/tmp/w/Dockerfile'', ''FROM scratch'')]
      \<and> tree_size t \<le> 100"
proof -
  let ?r = "extract_archive hostile_archive (\<lambda>_. None) ''b.tar'' ''/tmp/w'' 100 \<lparr> tr_files = [], tr_dirs = [] \<rparr>"
  have "has_prefix ''/tmp/w'' ''/''" by code_simp
  from extraction_is_confined[OF this, of hostile_archive "\<lambda>_. None" "''b.tar''" 100 "fst ?r" "snd ?r"]
  have "\<forall>p \<in> tree_paths (snd ?r). has_prefix p (clean_path ''/tmp/w'' @ ''/'')" "tree_size (snd ?r) \<le> 100" by auto
  moreover have "clean_path ''/tmp/w'' = ''/tmp/w''" by code_simp
  moreover have "tr_files (snd ?r) = [(''/tmp/w/Dockerfile'', ''FROM scratch'')]" by code_simp
  ultimately show ?thesis by (simp add: Let_def tree_paths_def)
qed

text \<open>The entry that tar writes for the directory it packs is refused.\<close>

lemma dot_entry_refused: "sanitize_extract_path ''./'' ''/tmp/w'' = Inl (OtherErr ''illegal file path: ./'')"
  by code_simp

section \<open>Calls that report nothing\<close>

fun is_complete :: "builder_call \<Rightarrow> bool" where
  "is_complete (CallComplete b i st n) = True"
| "is_complete c = False"

text \<open>A property of the calls made that further calls, other than a report, cannot break.\<close>

definition closed :: "(builder_call list \<Rightarrow> bool) \<Rightarrow> bool" where
  "closed I \<longleftrightarrow> (\<forall>cs c. I cs \<longrightarrow> \<not> is_complete c \<longrightarrow> I (cs @ [c]))"

abbreviation calls_keep :: "(builder_call list \<Rightarrow> bool) \<Rightarrow> 'a builder_meth \<Rightarrow> bool" where
  "calls_keep I m \<equiv> preserves (\<lambda>s. I (r_calls s)) m"

lemma keep_remote: "closed I \<Longrightarrow> \<not> is_complete c \<Longrightarrow> calls_keep I (remote c)"
  by (auto simp: preserves_def remote_def Let_def closed_def split: option.splits)

lemma keep_local [preserves_intros]:
  assumes "\<And>s. r_calls (f s) = r_calls s"
  shows "calls_keep I (local_call f)" "calls_keep I (modify f)"
  using assms by (auto simp: preserves_def local_call_def modify_def Let_def split: option.splits)

lemma keep_reads [preserves_intros]:
  "calls_keep I (observe_env g)" "calls_keep I (observe_or_fail h)" "calls_keep I builder_env_of" "calls_keep I ctx_err"
  by (auto simp: preserves_def observe_env_def observe_or_fail_def builder_env_of_def ctx_err_def)

lemma preserves_deferred [preserves_intros]: "preserves I m \<Longrightarrow> preserves I h \<Longrightarrow> preserves I (deferred m h)"
  by (auto simp: preserves_def deferred_def split: prod.splits)

lemma keep_logs:
  assumes "closed I"
  shows "calls_keep I (write_system_log b t)" "calls_keep I (upload_build_log b k)" "calls_keep I (write_and_upload b k t)"
    "calls_keep I (write_internal_build_log b k)" "calls_keep I (write_resource_exhausted_build_log b k)"
    "calls_keep I (write_cancelled_build_log b k)" "calls_keep I (save_logs b ls se n)"
    "calls_keep I (clean_build_container cid)" "calls_keep I (cleanup_archive p)" "calls_keep I (cleanup_workspace p)"
    "calls_keep I (create_workspace p)" "calls_keep I (cleanup_log b)" "calls_keep I release_build_slot"
    "calls_keep I (settle_status j st)"
proof -
  have up: "preserves (\<lambda>s. I (r_calls s)) (\<lambda>s. case r_logs s b of None \<Rightarrow> (Inr (), s) | Some t \<Rightarrow> remote (CallUpload k t) s)" for b k
    using keep_remote[OF assms, of "CallUpload k _"] by (auto simp: preserves_def split: option.splits)
  have sv: "preserves (\<lambda>s. I (r_calls s)) (\<lambda>s. case save_lines n ls se 0 [] of
       (t, None) \<Rightarrow> (Inr (), s\<lparr>r_logs := (r_logs s)(b \<mapsto> t)\<rparr>)
     | (t, Some e) \<Rightarrow> (Inl e, s\<lparr>r_logs := (r_logs s)(b \<mapsto> t)\<rparr>))"
    by (auto simp: preserves_def split: prod.splits option.splits)
  note defs = write_system_log_def upload_build_log_def write_and_upload_def write_internal_build_log_def
    write_resource_exhausted_build_log_def write_cancelled_build_log_def save_logs_def clean_build_container_def
    cleanup_archive_def cleanup_workspace_def create_workspace_def cleanup_log_def release_build_slot_def settle_status_def
  show "calls_keep I (write_system_log b t)" "calls_keep I (upload_build_log b k)" "calls_keep I (write_and_upload b k t)"
    "calls_keep I (write_internal_build_log b k)" "calls_keep I (write_resource_exhausted_build_log b k)"
    "calls_keep I (write_cancelled_build_log b k)" "calls_keep I (save_logs b ls se n)"
    "calls_keep I (clean_build_container cid)" "calls_keep I (cleanup_archive p)" "calls_keep I (cleanup_workspace p)"
    "calls_keep I (create_workspace p)" "calls_keep I (cleanup_log b)" "calls_keep I release_build_slot"
    "calls_keep I (settle_status j st)"
    unfolding defs by (intro preserves_intros up sv keep_remote[OF assms] | simp)+
qed

section \<open>Reports\<close>

text \<open>
  Since the calls c0 the reports d were made, each with a terminal status; a success was preceded by
  a run of the container of that build.
\<close>

definition since :: "builder_call list \<Rightarrow> builder_call list \<Rightarrow> builder_call list \<Rightarrow> bool" where
  "since c0 d cs \<longleftrightarrow> (\<exists>new. cs = c0 @ new \<and> filter is_complete new = d)"

definition ran_since :: "builder_call list \<Rightarrow> id \<Rightarrow> builder_call list \<Rightarrow> bool" where
  "ran_since c0 b cs \<longleftrightarrow> (\<exists>new spec. cs = c0 @ new \<and> CallRun spec \<in> set new \<and> bs_build spec = b)"

definition fits_status :: "builder_call list \<Rightarrow> id \<Rightarrow> string \<Rightarrow> builder_call list \<Rightarrow> bool" where
  "fits_status c0 b st cs \<longleftrightarrow> is_terminal_build_status st \<and> (st = ''success'' \<longrightarrow> ran_since c0 b cs)"

lemma since_append: "since c0 d cs \<Longrightarrow> \<not> is_complete c \<Longrightarrow> since c0 d (cs @ [c])"
  unfolding since_def by force

lemma ran_append: "ran_since c0 b cs \<Longrightarrow> ran_since c0 b (cs @ [c])"
  unfolding ran_since_def by force

lemma closed_since: "closed (since c0 d)" "closed (\<lambda>cs. since c0 d cs \<and> fits_status c0 b st cs)"
  by (auto simp: closed_def fits_status_def intro: since_append ran_append)

lemma closed_triple:
  assumes "\<And>I. closed I \<Longrightarrow> calls_keep I m" and "closed J"
  shows "triple (\<lambda>s. J (r_calls s)) m (\<lambda>_ s. J (r_calls s)) (\<lambda>s. J (r_calls s))"
  using assms(1)[OF assms(2)] by (simp add: triple_preserves)

lemma triple_deferred:
  assumes "triple P m Q R" and "\<And>x. preserves (Q x) h" and "preserves R h"
  shows "triple P (deferred m h) Q R"
  using assms unfolding triple_def deferred_def preserves_def by (fastforce split: prod.splits sum.splits)

lemma terminal_statuses:
  "is_terminal_build_status ''success''" "is_terminal_build_status ''failed''" "is_terminal_build_status ''canceled''"
  "is_terminal_build_status ''failed_timeout''" "is_terminal_build_status ''failed_internal''"
  "is_terminal_build_status ''failed_resource_exhausted''"
  by (simp_all add: is_terminal_build_status_def)

lemma fits_other: "is_terminal_build_status st \<Longrightarrow> st \<noteq> ''success'' \<Longrightarrow> fits_status c0 b st cs"
  by (simp add: fits_status_def)

text \<open>A method that decides on the status of a build, from states in which J holds of the calls.\<close>

definition decides :: "(builder_call list \<Rightarrow> bool) \<Rightarrow> builder_call list \<Rightarrow> id \<Rightarrow> string builder_meth \<Rightarrow> bool" where
  "decides J c0 b m \<longleftrightarrow> triple (\<lambda>s. J (r_calls s)) m
     (\<lambda>st s. since c0 [] (r_calls s) \<and> fits_status c0 b st (r_calls s)) (\<lambda>s. since c0 [] (r_calls s))"

definition started :: "(builder_call list \<Rightarrow> bool) \<Rightarrow> builder_call list \<Rightarrow> bool" where
  "started J c0 \<longleftrightarrow> closed J \<and> (\<forall>cs. J cs \<longrightarrow> since c0 [] cs)"

lemma decides_ret:
  assumes "started J c0" and "is_terminal_build_status st" and "st = ''success'' \<Longrightarrow> (\<forall>cs. J cs \<longrightarrow> ran_since c0 b cs)"
  shows "decides J c0 b (ret st)"
  using assms by (simp add: decides_def triple_def ret_def fits_status_def started_def)

lemma decides_seq:
  assumes "started J c0" and "\<And>I. closed I \<Longrightarrow> calls_keep I m" and "\<And>x. decides J c0 b (f x)"
  shows "decides J c0 b (seq m f)"
proof -
  have "triple (\<lambda>s. J (r_calls s)) m (\<lambda>_ s. J (r_calls s)) (\<lambda>s. since c0 [] (r_calls s))"
    using closed_triple[OF assms(2), of J] assms(1)
    by (auto simp: started_def elim!: triple_weaken)
  then show ?thesis unfolding decides_def by (rule triple_seq) (use assms(3) in \<open>simp add: decides_def\<close>)
qed

lemma decides_if: "decides J c0 b m \<Longrightarrow> decides J c0 b n \<Longrightarrow> decides J c0 b (if q then m else n)"
  by simp

lemma decides_deferred:
  assumes "decides J c0 b m" and "\<And>I. closed I \<Longrightarrow> calls_keep I h"
  shows "decides J c0 b (deferred m h)"
  unfolding decides_def
  by (rule triple_deferred[OF assms(1)[unfolded decides_def]]) (auto intro!: assms(2) closed_since)

lemma started_since: "started (since c0 []) c0"
  by (simp add: started_def closed_since)

lemma started_ran: "started (\<lambda>cs. since c0 [] cs \<and> ran_since c0 b cs) c0"
  by (auto simp: started_def closed_def intro: since_append ran_append)

lemma decides_sum:
  "(\<And>e. decides J c0 b (f e)) \<Longrightarrow> (\<And>x. decides J c0 b (g x)) \<Longrightarrow> decides J c0 b (case r of Inl e \<Rightarrow> f e | Inr x \<Rightarrow> g x)"
  "decides J c0 b m \<Longrightarrow> (\<And>y. decides J c0 b (h y)) \<Longrightarrow> decides J c0 b (case w of None \<Rightarrow> m | Some y \<Rightarrow> h y)"
  by (cases r; simp) (cases w; simp)

lemma ran_after_run:
  "triple (\<lambda>s. since c0 [] (r_calls s)) (attempt (seq (remote (CallRun spec)) (\<lambda>_. observe_or_fail g)))
     (\<lambda>r s. since c0 [] (r_calls s) \<and> (\<forall>x. r = Inr x \<longrightarrow> ran_since c0 (bs_build spec) (r_calls s))) (\<lambda>_. False)"
  unfolding triple_def attempt_def seq_def remote_def observe_or_fail_def Let_def since_def ran_since_def
  by (force split: option.splits sum.splits)

lemma keep_ignored: "(\<And>I. closed I \<Longrightarrow> calls_keep I m) \<Longrightarrow> closed J \<Longrightarrow> calls_keep J (ignore m)"
  "(\<And>I. closed I \<Longrightarrow> calls_keep I m') \<Longrightarrow> closed J \<Longrightarrow> calls_keep J (attempt m')"
  by (intro preserves_intros; simp)+

lemma decides_run:
  assumes "bs_build spec = bj_build job"
  shows "decides (since c0 []) c0 (bj_build job) (run_build_container cfg spec job)"
proof -
  let ?b = "bj_build job" and ?key = "bj_log_key job"
  note keeps = preserves_intros keep_logs
  have failed: "decides (since c0 []) c0 ?b (seq ctx_err (\<lambda>c.
         if c \<noteq> None then ret ''failed_internal''
         else if is_resource_exhausted_error e
         then seq (write_resource_exhausted_build_log ?b ?key) (\<lambda>_. ret ''failed_resource_exhausted'')
         else seq (write_internal_build_log ?b ?key) (\<lambda>_. ret ''failed_internal'')))" for e
    by (intro decides_seq[OF started_since] decides_if decides_ret[OF started_since] keeps terminal_statuses) simp_all
  have built: "decides (\<lambda>cs. since c0 [] cs \<and> ran_since c0 ?b cs) c0 ?b (deferred
       (seq (attempt (save_logs ?b ls se n)) (\<lambda>saved.
        seq (if saved = Inl log_size_limit_exceeded then ignore (clean_build_container cid) else ret ()) (\<lambda>_.
        seq (attempt (observe_or_fail g)) (\<lambda>waited.
        seq ctx_err (\<lambda>c.
        case waited of
          Inl e \<Rightarrow> ret (if is_resource_exhausted_error e then ''failed_resource_exhausted'' else ''failed'')
        | Inr _ \<Rightarrow>
            (case saved of
               Inr _ \<Rightarrow> ret (if c = None then ''success'' else ''failed_internal'')
             | Inl e \<Rightarrow>
                 if e = log_size_limit_exceeded then ret ''failed''
                 else seq (write_internal_build_log ?b ?key) (\<lambda>_. ret ''failed_internal'')))))))
       (ignore (clean_build_container cid)))" for ls se n cid and g :: "builder_env \<Rightarrow> nat \<Rightarrow> goerr + unit"
    by (intro decides_deferred decides_seq[OF started_ran] decides_if decides_sum decides_ret[OF started_ran] keeps)
      (auto simp: terminal_statuses intro: keeps)
  have env: "triple (\<lambda>s. since c0 [] (r_calls s)) builder_env_of (\<lambda>_ s. since c0 [] (r_calls s)) (\<lambda>s. since c0 [] (r_calls s))"
    by (simp add: triple_def builder_env_of_def)
  have ran: "triple (\<lambda>s. since c0 [] (r_calls s)) (attempt (seq (remote (CallRun spec)) (\<lambda>_. observe_or_fail (\<lambda>e n. v_run e n spec))))
     (\<lambda>r s. since c0 [] (r_calls s) \<and> (\<forall>x. r = Inr x \<longrightarrow> ran_since c0 ?b (r_calls s))) (\<lambda>s. since c0 [] (r_calls s))"
    using ran_after_run[of c0 spec "\<lambda>e n. v_run e n spec"] by (rule triple_weaken) (simp_all add: assms)
  show ?thesis
    unfolding decides_def run_build_container_def Let_def
  proof (rule triple_seq[OF env], rule triple_seq[OF ran], goal_cases)
    case (1 env r)
    show ?case
    proof (cases r)
      case (Inl e)
      then show ?thesis using failed[of e, unfolded decides_def] by simp
    next
      case (Inr x)
      then show ?thesis using built[unfolded decides_def] by (cases x) simp
    qed
  qed
qed

section \<open>Exactly one report\<close>

definition reported :: "builder_call list \<Rightarrow> id \<Rightarrow> id \<Rightarrow> builder_call list \<Rightarrow> bool" where
  "reported c0 b iid cs \<longleftrightarrow> (\<exists>st. since c0 [CallComplete b iid st 0] cs \<and> fits_status c0 b st cs)"

text \<open>A method that, when it returns no error, has reported the build, and otherwise has not.\<close>

definition reports :: "builder_call list \<Rightarrow> (builder_call list \<Rightarrow> bool) \<Rightarrow> id \<Rightarrow> id \<Rightarrow> unit builder_meth \<Rightarrow> bool" where
  "reports c0 J b iid m \<longleftrightarrow> triple (\<lambda>s. J (r_calls s)) m (\<lambda>_ s. reported c0 b iid (r_calls s)) (\<lambda>s. since c0 [] (r_calls s))"

lemma closed_reported: "closed (reported c0 b iid)"
  unfolding closed_def reported_def fits_status_def by (blast intro: since_append ran_append)

lemma reports_seq:
  assumes "started J c0" and "\<And>I. closed I \<Longrightarrow> calls_keep I m" and "\<And>x. reports c0 J b iid (f x)"
  shows "reports c0 J b iid (seq m f)"
proof -
  have "triple (\<lambda>s. J (r_calls s)) m (\<lambda>_ s. J (r_calls s)) (\<lambda>s. since c0 [] (r_calls s))"
    using closed_triple[OF assms(2), of J] assms(1) by (auto simp: started_def elim!: triple_weaken)
  then show ?thesis unfolding reports_def by (rule triple_seq) (use assms(3) in \<open>simp add: reports_def\<close>)
qed

lemma reports_fail: "started J c0 \<Longrightarrow> reports c0 J b iid (fail e)"
  by (simp add: reports_def triple_def fail_def started_def)

lemma reports_cases:
  "(\<And>e. reports c0 J b i (f e)) \<Longrightarrow> (\<And>x. reports c0 J b i (g x)) \<Longrightarrow> reports c0 J b i (case r of Inl e \<Rightarrow> f e | Inr x \<Rightarrow> g x)"
  "reports c0 J b i m \<Longrightarrow> reports c0 J b i n \<Longrightarrow> reports c0 J b i (if q then m else n)"
  by (cases r; simp) simp

lemma reports_then:
  assumes "reports c0 J b iid m" and "\<And>I x. closed I \<Longrightarrow> calls_keep I (ignore (n x))"
  shows "reports c0 J b iid (seq m (\<lambda>x. ignore (n x)))"
proof -
  have "triple (\<lambda>s. reported c0 b iid (r_calls s)) (ignore (n x)) (\<lambda>_ s. reported c0 b iid (r_calls s))
      (\<lambda>s. since c0 [] (r_calls s))" for x
    using assms(2)[OF closed_reported, of c0 b iid x] unfolding preserves_def triple_def ignore_def
    by (auto split: prod.splits)
  then show ?thesis using assms(1) unfolding reports_def by (blast intro: triple_seq)
qed

lemma reports_deferred:
  assumes "reports c0 J b iid m" and "\<And>I. closed I \<Longrightarrow> calls_keep I h"
  shows "reports c0 J b iid (deferred m h)"
  unfolding reports_def
  by (rule triple_deferred[OF assms(1)[unfolded reports_def]]) (auto intro!: assms(2) closed_since closed_reported)

lemma reports_complete:
  assumes "\<And>cs. J cs \<Longrightarrow> since c0 [] cs \<and> fits_status c0 b st cs"
  shows "reports c0 J b iid (remote (CallComplete b iid st 0))"
  unfolding reports_def triple_def remote_def Let_def
proof (intro allI impI, split option.split, safe, simp_all)
  fix s assume "J (r_calls s)"
  then have "since c0 [] (r_calls s)" and fit: "fits_status c0 b st (r_calls s)" using assms by blast+
  then have "since c0 [CallComplete b iid st 0] (r_calls s @ [CallComplete b iid st 0])"
    unfolding since_def by force
  moreover from fit have "fits_status c0 b st (r_calls s @ [CallComplete b iid st 0])"
    by (auto simp: fits_status_def intro: ran_append)
  ultimately show "reported c0 b iid (r_calls s @ [CallComplete b iid st 0])" unfolding reported_def by blast
qed (use assms in blast)

lemma decided_reports:
  assumes "decides J c0 b m" and "\<And>st. reports c0 (\<lambda>cs. since c0 [] cs \<and> fits_status c0 b st cs) b iid (f st)"
  shows "reports c0 J b iid (seq m f)"
  using assms unfolding decides_def reports_def by (blast intro: triple_seq)

lemma decides_settled:
  "decides (\<lambda>cs. since c0 [] cs \<and> fits_status c0 (bj_build job) st cs) c0 (bj_build job) (settle_status job st)"
proof -
  have s: "started (\<lambda>cs. since c0 [] cs \<and> fits_status c0 (bj_build job) st cs) c0"
    by (auto simp: started_def closed_since)
  have "decides (\<lambda>cs. since c0 [] cs \<and> fits_status c0 (bj_build job) st cs) c0 (bj_build job) (ret st)"
    by (simp add: decides_def triple_def ret_def)
  then show ?thesis unfolding settle_status_def
    by (intro decides_seq[OF s] decides_if) (auto intro!: decides_seq[OF s] decides_ret[OF s] preserves_intros keep_logs terminal_statuses)
qed

lemma reports_report:
  "reports c0 (\<lambda>cs. since c0 [] cs \<and> fits_status c0 (bj_build job) st cs) (bj_build job) (bj_image job) (report_build job st)"
  unfolding report_build_def
  by (rule reports_seq) (auto simp: started_def closed_since intro!: reports_complete preserves_intros keep_logs)

lemma decides_in_workspace: "decides (since c0 []) c0 (bj_build job) (build_in_workspace cfg path workspace job)"
  unfolding build_in_workspace_def Let_def
  by (intro decides_seq[OF started_since] decides_if decides_sum decides_ret[OF started_since] decides_run preserves_intros keep_logs
      terminal_statuses allI impI | simp add: build_spec_of_def split: prod.split)+

lemma reports_process:
  "reports c0 (since c0 []) (bj_build job) (bj_image job) (process_build cfg path job)"
proof -
  have settled: "reports c0 (since c0 []) (bj_build job) (bj_image job) (seq m (\<lambda>status. seq (settle_status job status) (report_build job)))"
    if "decides (since c0 []) c0 (bj_build job) m" for m
    by (rule decided_reports[OF that decided_reports[OF decides_settled reports_report]])
  have failed: "reports c0 (since c0 []) (bj_build job) (bj_image job)
      (seq (settle_status job ''failed_internal'') (report_build job))"
    using settled[OF decides_ret[OF started_since, of "''failed_internal''"]]
    by (simp add: terminal_statuses seq_def[abs_def] ret_def)
  show ?thesis unfolding process_build_def Let_def
    by (intro reports_deferred reports_seq[OF started_since] reports_cases settled failed decides_in_workspace
        preserves_intros keep_logs | simp)+
qed

lemma reports_canceled:
  "reports c0 (since c0 []) (bm_build msg) iid (complete_canceled_build msg iid path)"
  unfolding complete_canceled_build_def
  by (intro reports_seq[OF started_since] reports_then reports_complete)
    (auto intro!: preserves_intros keep_logs keep_remote fits_other terminal_statuses)

lemma reports_downloaded:
  "reports c0 (since c0 []) (bm_build msg) iid (build_downloaded cfg msg iid path)"
proof -
  have fetch: "calls_keep I (attempt (seq (remote (CallDownload a p)) (\<lambda>_. modify (\<lambda>s. s\<lparr>r_archives := p # r_archives s\<rparr>))))"
    if "closed I" for I a p
    by (intro preserves_intros keep_remote that) simp_all
  have job: "bm_build msg = bj_build (job_of_message msg iid)" "iid = bj_image (job_of_message msg iid)"
    by (simp_all add: job_of_message_def)
  have processed: "reports c0 (since c0 []) (bm_build msg) iid (process_build cfg path (job_of_message msg iid))"
    using reports_process[of c0 "job_of_message msg iid"] job by simp
  show ?thesis unfolding build_downloaded_def
    by (intro reports_seq[OF started_since] reports_cases processed reports_canceled reports_fail[OF started_since]
        reports_then reports_complete fetch)
      (auto intro!: preserves_intros keep_logs keep_remote fits_other terminal_statuses)
qed

section \<open>Slots\<close>

abbreviation slots_are :: "int \<Rightarrow> 'a builder_meth \<Rightarrow> bool" where
  "slots_are n m \<equiv> preserves (\<lambda>s. r_slots s = n) m"

lemma slots_calls [preserves_intros]: "slots_are n (remote c)"
  by (auto simp: preserves_def remote_def Let_def split: option.splits)

lemma slots_local [preserves_intros]:
  assumes "\<And>s. r_slots (f s) = r_slots s"
  shows "slots_are n (local_call f)" "slots_are n (modify f)"
  using assms by (auto simp: preserves_def local_call_def modify_def Let_def split: option.splits)

lemma slots_reads [preserves_intros]:
  "slots_are n (observe_env g)" "slots_are n (observe_or_fail h)" "slots_are n builder_env_of" "slots_are n ctx_err"
  by (auto simp: preserves_def observe_env_def observe_or_fail_def builder_env_of_def ctx_err_def)

lemma slots_logs [preserves_intros]: "slots_are n (upload_build_log b k)" "slots_are n (save_logs b ls se m)"
proof -
  have "preserves (\<lambda>s. r_slots s = n) (\<lambda>s. case r_logs s b of None \<Rightarrow> (Inr (), s) | Some t \<Rightarrow> remote (CallUpload k t) s)"
    using slots_calls[of n "CallUpload k _"] by (auto simp: preserves_def split: option.splits)
  then show "slots_are n (upload_build_log b k)"
    unfolding upload_build_log_def by (intro preserves_intros) simp_all
  have "preserves (\<lambda>s. r_slots s = n) (\<lambda>s. case save_lines m ls se 0 [] of
       (t, None) \<Rightarrow> (Inr (), s\<lparr>r_logs := (r_logs s)(b \<mapsto> t)\<rparr>)
     | (t, Some e) \<Rightarrow> (Inl e, s\<lparr>r_logs := (r_logs s)(b \<mapsto> t)\<rparr>))"
    by (auto simp: preserves_def split: prod.splits option.splits)
  then show "slots_are n (save_logs b ls se m)"
    unfolding save_logs_def by (intro preserves_intros) simp_all
qed

lemmas log_defs = write_system_log_def write_and_upload_def write_internal_build_log_def
  write_resource_exhausted_build_log_def write_cancelled_build_log_def clean_build_container_def
  cleanup_archive_def cleanup_workspace_def create_workspace_def cleanup_log_def

lemma slots_downloaded: "slots_are n (build_downloaded cfg msg iid path)"
  unfolding build_downloaded_def complete_canceled_build_def process_build_def build_in_workspace_def
    run_build_container_def settle_status_def report_build_def log_defs Let_def
  by (intro preserves_intros | simp)+

section \<open>A message of the build queue\<close>

lemma refresh_config_keeps: "refresh_config s = (r, s1) \<Longrightarrow> r_calls s1 = r_calls s"
  by (auto simp: refresh_config_def seq_def attempt_def observe_or_fail_def Let_def split: sum.splits prod.splits)

lemma deferredE:
  assumes "deferred m h s = (r, s')"
  obtains s1 where "m s = (r, s1)" and "s' = snd (h s1)"
  using assms by (auto simp: deferred_def split: prod.splits)

lemma triple_reports:
  assumes "reports c0 (since c0 []) b iid m" and "since c0 [] (r_calls s)" and "m s = (r, s')"
  shows "case r of Inl e \<Rightarrow> since c0 [] (r_calls s') | Inr x \<Rightarrow> reported c0 b iid (r_calls s')"
  using assms unfolding reports_def triple_def by (auto split: sum.splits)

text \<open>
  C27. A build that the core service let this instance start is reported to it exactly once when its
  message is handled without error, with a terminal status, and as a success only after a container
  of that very build was run; when handling ends with an error, so that the message returns to the
  queue, nothing was reported.  Either way the slot is free again and the build is no longer active.
\<close>

theorem builder_reports_once:
  assumes "refresh_config s = (Inr cfg, s1)"
    and "acquire_build_slot (bc_max_concurrent cfg) (v_slots (r_env s1) (r_tick s1)) (r_slots s1) = (True, n)"
    and "v_start (r_env s1) (Suc (r_tick s1)) (bm_build msg) = Inr (img, True, st0)"
    and "handle_build_message msg s = (r, s')"
  shows "\<exists>new. r_calls s' = r_calls s @ new
      \<and> (case r of Inl e \<Rightarrow> filter is_complete new = []
         | Inr _ \<Rightarrow> \<exists>st. filter is_complete new
               = [CallComplete (bm_build msg) (case img of Some i \<Rightarrow> i | None \<Rightarrow> bm_image msg) st 0]
             \<and> is_terminal_build_status st
             \<and> (st = ''success'' \<longrightarrow> (\<exists>spec. CallRun spec \<in> set new \<and> bs_build spec = bm_build msg)))
      \<and> r_slots s' = (if n > 0 then n - 1 else n) \<and> bm_build msg \<notin> set (r_active s')"
proof -
  define iid where "iid = (case img of Some i \<Rightarrow> i | None \<Rightarrow> bm_image msg)"
  let ?b = "bm_build msg" and ?c0 = "r_calls s"
  define s2 where "s2 = s1\<lparr>r_slots := n, r_tick := Suc (Suc (r_tick s1)), r_active := ?b # filter (\<lambda>b. b \<noteq> ?b) (r_active s1)\<rparr>"
  define path where "path = join_path (v_base_dir (r_env s1)) (v_uuid_text (r_env s1) ?b @ archive_object_ext (bm_archive msg))"
  let ?inner = "deferred (deferred (build_downloaded cfg msg iid path) (ignore (cleanup_log ?b))) (ignore (cleanup_archive path))"
  have c1: "r_calls s1 = ?c0" using refresh_config_keeps[OF assms(1)] .
  let ?leave = "modify (\<lambda>s. s\<lparr>r_active := filter (\<lambda>b. b \<noteq> ?b) (r_active s)\<rparr>)"
  have eq: "handle_build_message msg s = deferred (deferred ?inner ?leave) release_build_slot s2"
    using assms(1-3) unfolding handle_build_message_def iid_def s2_def path_def
    by (simp add: seq_def observe_env_def observe_or_fail_def builder_env_of_def modify_def Let_def deferred_def
        del: acquire_build_slot.simps)
  from assms(4)[unfolded eq] obtain s4 where departed: "deferred ?inner ?leave s2 = (r, s4)"
    and s4: "s' = snd (release_build_slot s4)" by (rule deferredE)
  from departed obtain s3 where run: "?inner s2 = (r, s3)" and "s4 = snd (?leave s3)" by (rule deferredE)
  then have s': "s' = snd (release_build_slot (s3\<lparr>r_active := filter (\<lambda>b. b \<noteq> ?b) (r_active s3)\<rparr>))"
    using s4 by (simp add: modify_def)
  have "reports ?c0 (since ?c0 []) ?b iid ?inner"
    by (intro reports_deferred reports_downloaded) (auto intro!: preserves_intros keep_logs)
  moreover have "since ?c0 [] (r_calls s2)" by (simp add: s2_def c1 since_def)
  ultimately have rep: "case r of Inl e \<Rightarrow> since ?c0 [] (r_calls s3) | Inr x \<Rightarrow> reported ?c0 ?b iid (r_calls s3)"
    using run by (rule triple_reports)
  have "slots_are n ?inner" by (intro preserves_intros slots_downloaded) (simp_all add: log_defs slots_local)
  from preservesD[OF this _ run] have "r_slots s3 = n" by (simp add: s2_def)
  moreover have "r_calls s' = r_calls s3" and "?b \<notin> set (r_active s')"
    using s' by (simp_all add: release_build_slot_def modify_def)
  ultimately show ?thesis
    using rep s' by (cases r) (auto simp: since_def reported_def fits_status_def ran_since_def iid_def
        release_build_slot_def modify_def)
qed

definition builder_sample_config :: builder_config where
  "builder_sample_config = \<lparr> bc_memory = 1024, bc_cpu_quota = 1000, bc_cpu_period = 1000, bc_swap = 1, bc_pids = 64,
     bc_logs_dir = ''/logs'', bc_storage = ''/data'', bc_registry = ''registry:5000'', bc_network = ''builds'',
     bc_kaniko = ''kaniko'', bc_max_time = 600, bc_max_concurrent = 2, bc_max_unpacked = 100, bc_max_log = 50, bc_poll = 5 \<rparr>"

definition builder_sample_env :: builder_env where
  "builder_sample_env = \<lparr> v_fault = (\<lambda>_. None), v_ctx = (\<lambda>_. None), v_config = (\<lambda>_. Inr builder_sample_config),
     v_start = (\<lambda>_ _. Inr (Some 5, True, ''building'')), v_archive = (\<lambda>_ _. hostile_archive\<lparr>sa_entries := take 2 (sa_entries hostile_archive)\<rparr>),
     v_os = (\<lambda>_ _. None), v_run = (\<lambda>_ _. Inr (''c1'', [''step 1''], None)), v_wait = (\<lambda>_ _. None), v_slots = (\<lambda>_. []),
     v_redaction = (\<lambda>r d. \<lparr> rd_authorization = id, rd_credentials = id, rd_image_ref = id, rd_registry = r, rd_destination = d \<rparr>),
     v_uuid_text = (\<lambda>_. ''b7''), v_base_dir = ''/tmp'' \<rparr>"

definition builder_sample :: builder where
  "builder_sample = \<lparr> r_env = builder_sample_env, r_config = builder_sample_config, r_slots = 1, r_active = [9],
     r_archives = [], r_workspaces = (\<lambda>_. None), r_logs = (\<lambda>_. None), r_calls = [], r_tick = 0 \<rparr>"

definition sample_message :: build_message where
  "sample_message = \<lparr> bm_build = 7, bm_image = 4, bm_owner = 3, bm_tag = ''app:v1'', bm_archive = ''a/b7.tar'', bm_log = ''l/b7'',
     bm_context_dir = [], bm_dockerfile = [], bm_args = [], bm_request = ''r1'', bm_created = 0 \<rparr>"

lemma builder_reports_once_witness:
  "let r = handle_build_message sample_message builder_sample in
     is_ok (fst r) \<and> r_slots (snd r) = 1 \<and> 7 \<notin> set (r_active (snd r))
     \<and> (\<exists>st. filter is_complete (r_calls (snd r)) = [CallComplete 7 5 st 0] \<and> is_terminal_build_status st)"
proof -
  let ?r = "handle_build_message sample_message builder_sample"
  let ?c = "refresh_config builder_sample"
  have c: "fst ?c = Inr builder_sample_config" by code_simp
  have a: "acquire_build_slot (bc_max_concurrent builder_sample_config) (v_slots (r_env (snd ?c)) (r_tick (snd ?c))) (r_slots (snd ?c))
      = (True, 2)" by code_simp
  have st: "v_start (r_env (snd ?c)) (Suc (r_tick (snd ?c))) (bm_build sample_message) = Inr (Some 5, True, ''building'')"
    by code_simp
  have "is_ok (fst ?r)" by code_simp
  then have ok: "fst ?r = Inr ()" by (cases "fst ?r") auto
  then have r: "?r = (Inr (), snd ?r)" by (metis prod.collapse)
  have e: "r_calls builder_sample = []" "bm_build sample_message = 7" by code_simp+
  have "?c = (Inr builder_sample_config, snd ?c)" using c by (metis prod.collapse)
  from builder_reports_once[OF this a st r] show ?thesis
    using ok e by (auto simp: Let_def)
qed

end
