(* ===== verification/GatewayProps.thy ===== *)
theory GatewayProps
  imports GatewayProxy GatewayRoutes SsoProps
begin

text \<open>
  What the gateway guarantees to the services behind it: a ticket opens one stream, and a request
  carries the identity the gateway established, whatever headers the client sends.
\<close>

section \<open>Tickets\<close>

lemma serve_tickets_known:
  "serve_tickets cs st = (l, st') \<Longrightarrow> known l0 ttl st \<Longrightarrow>
     (ConsumeTicket e tm token container stream admin, Consumed (Inr c)) \<in> set l \<Longrightarrow>
     issued_in (l0 @ l) token c ttl \<and> tm < tc_expires c \<and> tc_container c = container \<and> tc_stream c = stream \<and> tc_admin c = admin"
proof (induction cs arbitrary: st l l0)
  case (Cons call cs)
  obtain a st1 where s: "serve_ticket call st = (a, st1)" by fastforce
  obtain l2 where r: "serve_tickets cs st1 = (l2, st')" and l: "l = (call, a) # l2"
    using Cons.prems(1) s by (auto split: prod.splits)
  show ?case
  proof (cases "(ConsumeTicket e tm token container stream admin, Consumed (Inr c)) = (call, a)")
    case True
    then have "consume_ticket e tm token container stream admin st = (Inr c, st1)"
      using s by (auto split: prod.splits)
    note g = consume_ticket_Inr[OF this]
    then have "issued_in l0 token c ttl" using Cons.prems(2) by (simp add: known_def)
    then show ?thesis using g by (simp add: issued_in_more)
  next
    case False
    then have "(ConsumeTicket e tm token container stream admin, Consumed (Inr c)) \<in> set l2"
      using Cons.prems(3) l by auto
    from Cons.IH[OF r serve_known[OF s Cons.prems(2)] this] show ?thesis using l by simp
  qed
qed simp

text \<open>
  C29. In every history of a ticket store a token is used at most as often as it was issued, so a
  ticket opens one stream; and whoever uses it gets what it was issued for: the stream, container and
  route asked for are those of the ticket, its scope is that of the caller who obtained it, and its
  time to live is not over.
\<close>

theorem ticket_used_once:
  assumes "serve_tickets cs (new_ticket_store ttl) = (l, st)"
  shows "times_used token l \<le> times_issued token l
    \<and> ((ConsumeTicket e tm token container stream admin, Consumed (Inr c)) \<in> set l \<longrightarrow>
        (\<exists>e0 drawn t0 c0 t. (IssueTicket e0 drawn t0 c0, Issued (Inr (token, t))) \<in> set l
           \<and> tc_container c0 = container \<and> tc_stream c0 = stream \<and> tc_admin c0 = admin \<and> tc_scope c0 = tc_scope c
           \<and> tm < t0 + ts_ttl (new_ticket_store ttl)))"
proof -
  let ?st = "new_ticket_store ttl"
  have "held token ?st = 0" by (simp add: held_def new_ticket_store_def)
  then have once: "times_used token l \<le> times_issued token l" using tickets_balance[OF assms, of token] by simp
  have k: "known [] (ts_ttl ?st) ?st" by (simp add: known_def new_ticket_store_def)
  show ?thesis
  proof (intro conjI impI once)
    assume "(ConsumeTicket e tm token container stream admin, Consumed (Inr c)) \<in> set l"
    note g = serve_tickets_known[OF assms k this]
    from g obtain e0 drawn t0 c0 t where i: "(IssueTicket e0 drawn t0 c0, Issued (Inr (token, t))) \<in> set l"
      and c: "c = c0\<lparr>tc_expires := t0 + ts_ttl ?st\<rparr>" unfolding issued_in_def by auto
    show "\<exists>e0 drawn t0 c0 t. (IssueTicket e0 drawn t0 c0, Issued (Inr (token, t))) \<in> set l
           \<and> tc_container c0 = container \<and> tc_stream c0 = stream \<and> tc_admin c0 = admin \<and> tc_scope c0 = tc_scope c
           \<and> tm < t0 + ts_ttl ?st"
      using i c g by (intro exI[of _ e0] exI[of _ drawn] exI[of _ t0] exI[of _ c0] exI[of _ t]) simp
  qed
qed

definition ticket_bytes :: string where
  "ticket_bytes = replicate 32 (CHR ''k'')"

definition sample_claims :: ticket_claims where
  "sample_claims = \<lparr> tc_container = ''c9'', tc_stream = ''logs'', tc_admin = False, tc_scope = user_scope 7 ''alice'' ''user'', tc_expires = 0 \<rparr>"

definition ticket_history :: "ticket_call list" where
  "ticket_history = [IssueTicket None (Inr ticket_bytes) 10 sample_claims,
     ConsumeTicket None 20 (b64_encode ticket_bytes) ''c9'' ''logs'' False,
     ConsumeTicket None 30 (b64_encode ticket_bytes) ''c9'' ''logs'' False]"

lemma ticket_used_once_witness:
  "let l = fst (serve_tickets ticket_history (new_ticket_store 60)) in
     times_used (b64_encode ticket_bytes) l = 1 \<and> times_used (b64_encode ticket_bytes) l \<le> times_issued (b64_encode ticket_bytes) l"
proof -
  let ?r = "serve_tickets ticket_history (new_ticket_store 60)"
  have "times_used (b64_encode ticket_bytes) (fst ?r) = 1" by code_simp
  moreover have "times_used (b64_encode ticket_bytes) (fst ?r) \<le> times_issued (b64_encode ticket_bytes) (fst ?r)"
    using ticket_used_once[of ticket_history 60 "fst ?r" "snd ?r" "b64_encode ticket_bytes"] by simp
  ultimately show ?thesis by (simp add: Let_def)
qed

section \<open>Identity\<close>

lemma fold_del: "fold header_del ks h k = (if k \<in> set ks then [] else h k)"
  by (induction ks arbitrary: h) (auto simp: header_del_def)

lemma proxied_at:
  assumes "k \<notin> {''Te'', ''Connection'', ''Upgrade''}"
  shows "proxied_headers h k = (if k \<in> set (connection_names h) \<or> k \<in> set hop_headers then [] else h k)"
  using assms by (simp add: proxied_headers_def remove_hop_by_hop_def header_set_def Let_def fold_del)

lemma cleared_at: "clear_proxy_identity_headers h k = (if k \<in> set identity_headers then [] else h k)"
  by (simp add: clear_proxy_identity_headers_def fold_del)

lemma prepared_connection: "connection_names (prepare_proxy_request token txt rid ctx h) = connection_names h"
  by (simp add: connection_names_def prepare_proxy_request_def header_set_def set_scope_headers_def
      cleared_at identity_headers_def Let_def split: option.split)

lemma prepared_token: "prepare_proxy_request token txt rid ctx h ''X-Internal-Token'' = [token]"
  by (simp add: prepare_proxy_request_def header_set_def Let_def)

text \<open>The identity headers of a prepared request are those of the scope, whatever the client sent.\<close>

lemma prepared_scope:
  assumes "k \<in> {''X-Actor-Scope'', ''X-User-Id'', ''X-Username'', ''X-User-Role''}"
  shows "prepare_proxy_request token txt rid ctx h k = set_scope_headers txt ctx (\<lambda>_. []) k"
  using assms by (auto simp: prepare_proxy_request_def header_set_def set_scope_headers_def Let_def
      cleared_at identity_headers_def split: option.splits)

lemma core_proxy_at:
  assumes "k \<in> {''X-Actor-Scope'', ''X-User-Id'', ''X-Username'', ''X-User-Role''}"
  shows "core_proxy token txt rid ctx h k
    = (if k \<in> set (connection_names h) then [] else set_scope_headers txt ctx (\<lambda>_. []) k)"
  using assms prepared_scope[OF assms]
  by (auto simp: core_proxy_def proxied_at prepared_connection hop_headers_def)

text \<open>
  C30. Whatever headers a client sends, the core service serves a request the gateway passed on
  under the user and the kind of scope the gateway established, or refuses it, unless the Connection
  header of the client names the header of the scope: such a request is served under the system scope
  or refused.  When no identity header is named there, it is served under exactly that scope.
\<close>

theorem proxied_identity:
  assumes "token \<noteq> []" and "\<And>u. u \<noteq> nil_id \<Longrightarrow> parse (txt u) = Some u" and "parse [] = None"
    and "sc_kind s = KindUser \<or> sc_kind s = KindAdmin" and "sc_user s \<noteq> nil_id"
    and "internal_middleware token parse (core_proxy token txt rid (Some s) h) = r"
  shows "(''X-Actor-Scope'' \<notin> set (connection_names h) \<longrightarrow>
        r = Inl (Sentinel ErrUnauthorized) \<or> (\<exists>s'. r = Inr s' \<and> sc_kind s' = sc_kind s \<and> sc_user s' = sc_user s))
    \<and> (''X-Actor-Scope'' \<in> set (connection_names h) \<longrightarrow> r = Inl (Sentinel ErrUnauthorized) \<or> r = Inr system_scope)
    \<and> (list_all (\<lambda>k. k \<notin> set (connection_names h))
         [''X-Internal-Token'', ''X-Actor-Scope'', ''X-User-Id'', ''X-Username'', ''X-User-Role''] \<longrightarrow> r = Inr s)"
proof -
  let ?h = "core_proxy token txt rid (Some s) h" and ?L = "set (connection_names h)"
  have tok: "?h ''X-Internal-Token'' = (if ''X-Internal-Token'' \<in> ?L then [] else [token])"
    by (simp add: core_proxy_def proxied_at prepared_connection prepared_token hop_headers_def)
  have sc: "header_get ?h ''X-Actor-Scope'' = (if ''X-Actor-Scope'' \<in> ?L then [] else kind_text (sc_kind s))"
    and ui: "header_get ?h ''X-User-Id'' = (if ''X-User-Id'' \<in> ?L then [] else txt (sc_user s))"
    and un: "header_get ?h ''X-Username'' = (if ''X-Username'' \<in> ?L then [] else sc_username s)"
    and ro: "header_get ?h ''X-User-Role'' = (if ''X-User-Role'' \<in> ?L then [] else sc_role s)"
    using set_scope_headers_at[of "\<lambda>_. []" "txt" s] assms(5) by (simp_all add: header_get_def core_proxy_at)
  have k: "kind_text (sc_kind s) \<noteq> []" using assms(4) by (cases "sc_kind s") auto
  have parsed: "scope_context parse (kind_text (sc_kind s)) (txt (sc_user s)) n q = Inr (s\<lparr>sc_username := n, sc_role := q\<rparr>)" for n q
    using assms(2)[OF assms(5)] assms(4) by (auto simp: scope_context_def user_scope_def admin_scope_def)
  have refused: "scope_context parse (kind_text (sc_kind s)) [] n q = Inl (Sentinel ErrUnauthorized)" for n q
    using assms(3,4) by (auto simp: scope_context_def)
  show ?thesis
    using assms(1) tok k unfolding assms(6)[symmetric] internal_middleware_def scope_from_headers_def sc ui un ro
    by (auto simp: header_get_def parsed refused)
qed

definition plain_request :: headers where
  "plain_request = (\<lambda>_. [])(''X-User-Id'' := [''1''], ''X-Actor-Scope'' := [''admin''], ''Connection'' := [''keep-alive''])"

definition sample_text :: "id \<Rightarrow> string" where "sample_text u = replicate u (CHR ''u'')"
definition sample_parse :: "string \<Rightarrow> id option" where "sample_parse t = (if t = [] then None else Some (length t))"

lemma proxied_identity_witness:
  "internal_middleware ''secret'' sample_parse (core_proxy ''secret'' sample_text ''r1'' (Some (user_scope 7 ''alice'' ''user'')) plain_request)
     = Inr (user_scope 7 ''alice'' ''user'')"
proof -
  have u: "sample_parse (sample_text u) = Some u" if "u \<noteq> nil_id" for u
    using that by (simp add: sample_parse_def sample_text_def)
  have n: "connection_names plain_request = [''Keep-Alive'']" by code_simp
  show ?thesis
    using proxied_identity[of "''secret''" sample_parse sample_text "user_scope 7 ''alice'' ''user''" "''r1''" plain_request, OF _ u _ _ _ refl]
    by (simp add: sample_parse_def user_scope_def n)
qed

text \<open>A user whose request names the header of the scope in Connection is taken for the system.\<close>

lemma connection_header_drops_scope:
  "internal_middleware ''secret'' sample_parse (core_proxy ''secret'' sample_text ''r1'' (Some (user_scope 7 ''alice'' ''user''))
     ((\<lambda>_. [])(''Connection'' := [''x-actor-scope'']))) = Inr system_scope"
  by code_simp


text \<open>Which requests the routes of the gateway serve.\<close>

lemma admin_routes_guarded:
  "list_all (\<lambda>r. has_prefix (rt_path r) ''/api/v1/admin/'' \<longrightarrow>
     (case rt_guard r of PermissionGuard p \<Rightarrow> permission_exists p | TicketGuard st admin \<Rightarrow> admin | _ \<Rightarrow> False)) gateway_routes"
  by code_simp

lemma check_permission_Inr:
  assumes "check_permission token p s = (Inr (u, True), s')"
  shows "verify_access_token token s = (Inr u, s') \<and> u_role u = role_admin \<and> permission_exists p"
proof -
  obtain u1 where v: "verify_access_token token s = (Inr u1, s')" and p: "permission_exists p"
    and c: "(case map_of role_permissions (u_role u1) of None \<Rightarrow> (u1, False) | Some ps \<Rightarrow> (u1, List.member ps p)) = (u, True)"
    using assms by (auto simp: check_permission_def seq_def fail_def ret_def split: if_splits prod.splits sum.splits option.splits)
  then show ?thesis
    by (auto simp: role_permissions_def role_user_def split: option.splits if_splits)
qed

lemma permission_guard_Inr:
  assumes "guard_request parse txt (PermissionGuard p) h s = (Inr ctx, s')"
  shows "\<exists>token u sc. access_token_from_header (header_get h ''Authorization'') = Inr token
    \<and> verify_access_token token s = (Inr u, s') \<and> u_role u = role_admin \<and> permission_exists p
    \<and> ctx = Some sc \<and> sc_kind sc = KindAdmin \<and> parse (txt (u_id u)) = Some (sc_user sc)"
proof -
  obtain a sc where a: "client_check_permission txt (header_get h ''Authorization'') p s = (Inr a, s')"
    and sc: "from_auth_user parse a KindAdmin = Some sc" "ctx = Some sc"
    using assms by (auto simp: guard_request_def require_permission_middleware_def seq_Inr_iff set_auth_user_def
        split: option.splits)
  obtain token u where t: "access_token_from_header (header_get h ''Authorization'') = Inr token"
    and c: "check_permission token p s = (Inr (u, True), s')" and u: "a = auth_user_of txt (user_to_proto u)"
    using a by (auto simp: client_check_permission_def seq_Inr_iff on_error_Inr check_permission_rpc_def reply_def guard_Inr
        split: sum.splits if_splits)
  show ?thesis using check_permission_Inr[OF c] t sc u
    by (auto simp: from_auth_user_def auth_user_of_def user_to_proto_def split: option.splits)
qed

fun is_ticket_guard :: "route_guard \<Rightarrow> bool" where
  "is_ticket_guard (TicketGuard st admin) = True"
| "is_ticket_guard g = False"

text \<open>
  The gateway as a whole, as far as it decides who is served: a request on a route that takes a ticket
  is served under the scope of the ticket; any other passes the guard of its route first, and the
  handlers that issue a ticket put one into the store.  The answer is the scope the handler ran under.
\<close>

definition ticket_stream :: "gateway_route \<Rightarrow> string option" where
  "ticket_stream r = (if rt_handler r = ''IssueLogsTicket'' then Some ''logs''
     else if rt_handler r = ''IssueTerminalTicket'' then Some ''terminal'' else None)"

definition admin_path :: "gateway_route \<Rightarrow> bool" where
  "admin_path r = has_prefix (rt_path r) ''/api/v1/admin/''"

record route_request =
  rq_route :: gateway_route
  rq_headers :: headers
  rq_container :: string
  rq_query :: url_query
  rq_ctx :: "goerr option"
  rq_drawn :: "goerr + string"
  rq_now :: instant

definition serve_route ::
    "(string \<Rightarrow> id option) \<Rightarrow> (id \<Rightarrow> string) \<Rightarrow> route_request \<Rightarrow> sso \<times> ticket_store \<Rightarrow> scope option option \<times> sso \<times> ticket_store" where
  "serve_route parse txt q st = (case st of (s, ts) \<Rightarrow>
     if \<not> List.member gateway_routes (rq_route q) then (None, s, ts) else
     (case rt_guard (rq_route q) of
        TicketGuard stream admin \<Rightarrow>
          (case authenticate_telemetry_proxy (rq_ctx q) (rq_now q) stream admin (rq_container q) (rq_query q) ts of
             (Inl e, ts') \<Rightarrow> (None, s, ts')
           | (Inr sc, ts') \<Rightarrow> (Some (Some sc), s, ts'))
      | g \<Rightarrow> (case guard_request parse txt g (rq_headers q) s of
             (Inl e, s') \<Rightarrow> (None, s', ts)
           | (Inr ctx, s') \<Rightarrow> (Some ctx, s', case ticket_stream (rq_route q) of None \<Rightarrow> ts
               | Some stream \<Rightarrow> snd (issue_ticket_handler parse (rq_ctx q) (rq_drawn q) (rq_now q) stream
                   (admin_path (rq_route q)) ctx (rq_container q) ts)))))"

text \<open>
  A history: requests on routes, and requests the sign-on service serves meanwhile.  The log holds the
  requests that were served, with the accounts there were and the scope.
\<close>

fun run_gateway ::
    "(string \<Rightarrow> id option) \<Rightarrow> (id \<Rightarrow> string) \<Rightarrow> (route_request + sso_request) list \<Rightarrow> sso \<times> ticket_store
     \<Rightarrow> (gateway_route \<times> user_row list \<times> scope option) list \<times> sso \<times> ticket_store" where
  "run_gateway parse txt [] st = ([], st)"
| "run_gateway parse txt (Inr c # cs) st = run_gateway parse txt cs (serve c (fst st), snd st)"
| "run_gateway parse txt (Inl q # cs) st =
     (case serve_route parse txt q st of (a, st1) \<Rightarrow> case run_gateway parse txt cs st1 of (l, st2) \<Rightarrow>
        ((case a of None \<Rightarrow> [] | Some ctx \<Rightarrow> [(rq_route q, so_users (fst st), ctx)]) @ l, st2))"

definition admin_scope_of :: "user_row list \<Rightarrow> scope option \<Rightarrow> bool" where
  "admin_scope_of rows ctx \<longleftrightarrow> (\<exists>u sc. u \<in> snd ` set rows \<and> u_status u = status_active \<and> u_role u = role_admin
     \<and> ctx = Some sc \<and> sc_kind sc = KindAdmin \<and> sc_user sc = u_id u)"

lemma permission_route_needs_admin:
  assumes "r \<in> set gateway_routes" and "admin_path r" and "\<not> is_ticket_guard (rt_guard r)" and "\<And>u. parse (txt u) = Some u"
    and "guard_request parse txt (rt_guard r) h s = (Inr ctx, s')"
  shows "admin_scope_of (so_users s) ctx"
proof -
  have "case rt_guard r of PermissionGuard p \<Rightarrow> permission_exists p | TicketGuard st admin \<Rightarrow> admin | _ \<Rightarrow> False"
    using admin_routes_guarded assms(1,2) by (auto simp: list_all_iff admin_path_def)
  then obtain p where p: "rt_guard r = PermissionGuard p" using assms(3) by (cases "rt_guard r") auto
  from permission_guard_Inr[OF assms(5)[unfolded p]] obtain token u sc where
    v: "verify_access_token token s = (Inr u, s')" and u: "u_role u = role_admin" and
    sc: "ctx = Some sc" "sc_kind sc = KindAdmin" "parse (txt (u_id u)) = Some (sc_user sc)" by blast
  from v obtain i s1 s2 where "validate_token token token_type_access s = (Inr i, s1)"
    and q: "user_query (get_user_by_id i) s1 = (Inr u, s2)" and act: "u_status u = status_active"
    unfolding verify_access_Inr by blast
  then have "so_users s1 = so_users s" by (simp add: validate_token_Inr)
  then have "u \<in> snd ` set (so_users s)" using q find_user_Inr by (auto simp: user_query_Inr get_user_by_id_def)
  then show ?thesis using u act sc assms(4) by (auto simp: admin_scope_of_def)
qed

text \<open>Every ticket for an administrative stream was issued on an administrative route.\<close>

definition from_admin_route :: "(gateway_route \<times> user_row list \<times> scope option) list \<Rightarrow> scope \<Rightarrow> bool" where
  "from_admin_route l sc \<longleftrightarrow> (\<exists>r rows. (r, rows, Some sc) \<in> set l \<and> r \<in> set gateway_routes \<and> admin_path r
     \<and> ticket_stream r \<noteq> None \<and> admin_scope_of rows (Some sc))"

definition admin_tickets :: "(gateway_route \<times> user_row list \<times> scope option) list \<Rightarrow> ticket_store \<Rightarrow> bool" where
  "admin_tickets l ts \<longleftrightarrow> (\<forall>token c. ts_tickets ts token = Some c \<longrightarrow> tc_admin c \<longrightarrow> from_admin_route l (tc_scope c))"

lemma from_admin_route_more: "from_admin_route l sc \<Longrightarrow> from_admin_route (l @ l') sc"
  by (auto simp: from_admin_route_def)

lemma admin_tickets_more: "admin_tickets l ts \<Longrightarrow> admin_tickets (l @ l') ts"
  by (auto simp: admin_tickets_def intro: from_admin_route_more)

lemma consume_keeps_tickets:
  assumes "consume_ticket e t token container stream admin ts = (r, ts')"
  shows "\<forall>k c. ts_tickets ts' k = Some c \<longrightarrow> ts_tickets ts k = Some c"
    and "r = Inr c \<Longrightarrow> ts_tickets ts token = Some c \<and> tc_admin c = admin"
  using assms
  by (auto simp: consume_ticket_def seq_def check_def ret_def fail_def cleanup_locked_def Let_def split: option.splits if_splits)

lemma issue_keeps_tickets:
  assumes "issue_ticket_handler parse e drawn t stream admin ctx container ts = (r, ts')"
  shows "\<forall>k c. ts_tickets ts' k = Some c \<longrightarrow> ts_tickets ts k = Some c \<or> (\<exists>s. ctx = Some s \<and> tc_scope c = s \<and> tc_admin c = admin)"
  using assms
  by (auto simp: issue_ticket_handler_def issue_ticket_def seq_def check_def ret_def fail_def cleanup_locked_def Let_def
      split: option.splits if_splits sum.splits)

lemma serve_route_tickets:
  assumes "serve_route parse txt q (s, ts) = (a, s', ts')" and p: "\<And>u. parse (txt u) = Some u" and "admin_tickets l ts"
  shows "admin_tickets (l @ (case a of None \<Rightarrow> [] | Some ctx \<Rightarrow> [(rq_route q, so_users s, ctx)])) ts'"
proof (cases "List.member gateway_routes (rq_route q) \<and> \<not> is_ticket_guard (rt_guard (rq_route q))")
  case True
  let ?r = "rq_route q"
  obtain x s1 where g: "guard_request parse txt (rt_guard ?r) (rq_headers q) s = (x, s1)" by fastforce
  show ?thesis
  proof (cases "\<exists>ctx stream. x = Inr ctx \<and> ticket_stream ?r = Some stream")
    case False
    then have "ts' = ts" using assms(1) True g
      by (cases "rt_guard ?r"; cases x) (auto simp: serve_route_def split: option.splits)
    then show ?thesis using assms(3) by (simp add: admin_tickets_more)
  next
    case t: True
    then obtain ctx stream where x: "x = Inr ctx" "ticket_stream ?r = Some stream" by blast
    define y where "y = issue_ticket_handler parse (rq_ctx q) (rq_drawn q) (rq_now q) stream (admin_path ?r) ctx (rq_container q) ts"
    have a: "a = Some ctx" "ts' = snd y" using assms(1) True g x
      by (cases "rt_guard ?r"; auto simp: serve_route_def y_def)+
    have y: "issue_ticket_handler parse (rq_ctx q) (rq_drawn q) (rq_now q) stream (admin_path ?r) ctx (rq_container q) ts = (fst y, ts')"
      using a(2) by (simp add: y_def)
    have "from_admin_route (l @ [(?r, so_users s, ctx)]) (tc_scope c)" if "ts_tickets ts' k = Some c" "tc_admin c" for k c
    proof (cases "ts_tickets ts k = Some c")
      case True
      then show ?thesis using assms(3) that(2) by (auto simp: admin_tickets_def intro: from_admin_route_more)
    next
      case False
      then have c: "ctx = Some (tc_scope c)" "admin_path ?r" using issue_keeps_tickets[OF y] that by auto
      have "?r \<in> set gateway_routes" using True by simp
      then show ?thesis
        using c x permission_route_needs_admin[OF _ c(2) _ p g[unfolded x(1)]] True by (auto simp: from_admin_route_def)
    qed
    then show ?thesis using a(1) by (auto simp: admin_tickets_def)
  qed
next
  case False
  show ?thesis
  proof (cases "List.member gateway_routes (rq_route q)")
    case True
    with False obtain stream admin where g: "rt_guard (rq_route q) = TicketGuard stream admin" by (cases "rt_guard (rq_route q)") auto
    have "\<forall>k c. ts_tickets ts' k = Some c \<longrightarrow> ts_tickets ts k = Some c"
      using assms(1) True g consume_keeps_tickets(1)
      by (fastforce simp: serve_route_def authenticate_telemetry_proxy_def seq_def ret_def fail_def Let_def
          split: prod.splits sum.splits if_splits)
    then have "admin_tickets l ts'" using assms(3) by (auto simp: admin_tickets_def)
    then show ?thesis by (rule admin_tickets_more)
  next
    case False
    then show ?thesis using assms(1,3) by (auto simp: serve_route_def)
  qed
qed

lemma run_gateway_tickets:
  assumes "run_gateway parse txt cs (s, ts) = (l, s', ts')" and p: "\<And>u. parse (txt u) = Some u" and "admin_tickets l0 ts"
  shows "admin_tickets (l0 @ l) ts'"
  using assms(1,3)
proof (induction cs arbitrary: s ts l l0)
  case (Cons c cs)
  show ?case
  proof (cases c)
    case (Inr x)
    then show ?thesis using Cons by simp
  next
    case (Inl q)
    obtain a s1 ts1 where r: "serve_route parse txt q (s, ts) = (a, s1, ts1)" by (metis prod_cases3)
    obtain l2 s2 ts2 where l2: "run_gateway parse txt cs (s1, ts1) = (l2, s2, ts2)" by (metis prod_cases3)
    have l: "l = (case a of None \<Rightarrow> [] | Some ctx \<Rightarrow> [(rq_route q, so_users s, ctx)]) @ l2" "s2 = s'" "ts2 = ts'"
      using Cons.prems(1) Inl r l2 by (auto split: option.splits)
    from Cons.IH[OF l2[unfolded l(2,3)] serve_route_tickets[OF r p Cons.prems(2)]] show ?thesis using l(1) by simp
  qed
qed simp

text \<open>
  C35. After any history of requests to the gateway and the sign-on service, a request on a route below
  /api/v1/admin is served only under the administrator scope of an account.  On the routes that take no
  ticket that account is, at that moment, active and an administrator in the database of the sign-on
  service.  The routes of the administrator's log stream and terminal take a ticket: it was obtained
  earlier, on an administrative route, under this scope, and then the account was an active
  administrator.
\<close>

theorem admin_route_needs_admin:
  assumes "run_gateway parse txt calls (s0, new_ticket_store ttl) = (l, s, ts)" and "\<And>u. parse (txt u) = Some u"
    and "has_prefix (rt_path (rq_route q)) ''/api/v1/admin/''"
    and "serve_route parse txt q (s, ts) = (Some ctx, st')"
  shows "\<exists>rows u sc. ctx = Some sc \<and> sc_kind sc = KindAdmin \<and> sc_user sc = u_id u
    \<and> u \<in> snd ` set rows \<and> u_status u = status_active \<and> u_role u = role_admin
    \<and> (if is_ticket_guard (rt_guard (rq_route q))
       then \<exists>r. r \<in> set gateway_routes \<and> has_prefix (rt_path r) ''/api/v1/admin/'' \<and> ticket_stream r \<noteq> None \<and> (r, rows, ctx) \<in> set l
       else rows = so_users s)"
proof -
  let ?r = "rq_route q"
  have m: "?r \<in> set gateway_routes" using assms(4) by (auto simp: serve_route_def split: if_splits)
  show ?thesis
  proof (cases "is_ticket_guard (rt_guard ?r)")
    case False
    obtain x s1 where g: "guard_request parse txt (rt_guard ?r) (rq_headers q) s = (x, s1)" by fastforce
    have "x = Inr ctx" using assms(4) False g m
      by (cases "rt_guard ?r"; cases x) (auto simp: serve_route_def)
    then have "admin_scope_of (so_users s) ctx"
      using permission_route_needs_admin[OF m _ False assms(2)] g assms(3) by (simp add: admin_path_def)
    then show ?thesis using False by (auto simp: admin_scope_of_def)
  next
    case True
    then obtain stream admin where g: "rt_guard ?r = TicketGuard stream admin" by (cases "rt_guard ?r") auto
    have "admin" using admin_routes_guarded m assms(3) g by (auto simp: list_all_iff)
    then obtain sc ts' where c: "authenticate_telemetry_proxy (rq_ctx q) (rq_now q) stream True (rq_container q) (rq_query q) ts = (Inr sc, ts')"
      and ctx: "ctx = Some sc"
      using assms(4) g m by (auto simp: serve_route_def split: prod.splits sum.splits)
    then obtain c where "ts_tickets ts (query_value (rq_query q) ''ticket'') = Some c \<and> tc_admin c" "tc_scope c = sc"
      using consume_keeps_tickets(2)
      by (fastforce simp: authenticate_telemetry_proxy_def seq_def ret_def fail_def Let_def split: prod.splits sum.splits if_splits)
    moreover have "admin_tickets [] (new_ticket_store ttl)" by (simp add: admin_tickets_def new_ticket_store_def)
    from run_gateway_tickets[OF assms(1,2) this] have "admin_tickets l ts" by simp
    ultimately have "from_admin_route l sc" by (auto simp: admin_tickets_def)
    then show ?thesis using True ctx by (fastforce simp: from_admin_route_def admin_scope_of_def admin_path_def)
  qed
qed

definition admin_request :: headers where
  "admin_request = (\<lambda>_. [])(''Authorization'' := [''Bearer '' @ put_claims ''k'' (access_claims ada 50000000000)])"

definition length_text :: "id \<Rightarrow> string" where "length_text u = replicate u (CHR ''u'')"
definition text_length :: "string \<Rightarrow> id option" where "text_length t = Some (length t)"

lemma admin_route_needs_admin_witness:
  "\<exists>ctx st'. serve_route text_length length_text \<lparr> rq_route = route ''GET'' ''/api/v1/admin/users'' (PermissionGuard ''users.admin.list'') [] ''ListUsers'',
       rq_headers = admin_request, rq_container = [], rq_query = (\<lambda>_. []), rq_ctx = None, rq_drawn = Inr [], rq_now = 0 \<rparr>
       (sample_sso, new_ticket_store 60) = (Some ctx, st')
     \<and> (\<exists>(u::user) sc. u_role u = role_admin \<and> ctx = Some sc \<and> sc_kind sc = KindAdmin \<and> sc_user sc = u_id u)"
proof -
  let ?q = "\<lparr> rq_route = route ''GET'' ''/api/v1/admin/users'' (PermissionGuard ''users.admin.list'') [] ''ListUsers'',
       rq_headers = admin_request, rq_container = [], rq_query = (\<lambda>_. []), rq_ctx = None, rq_drawn = Inr [], rq_now = 0 \<rparr>"
  let ?r = "serve_route text_length length_text ?q (sample_sso, new_ticket_store 60)"
  have "fst ?r \<noteq> None" by code_simp
  then obtain ctx st' where r: "?r = (Some ctx, st')" by (metis not_None_eq prod.collapse)
  have p: "has_prefix (rt_path (rq_route ?q)) ''/api/v1/admin/''" by code_simp
  have t: "text_length (length_text u) = Some u" for u by (simp add: text_length_def length_text_def)
  have h: "run_gateway text_length length_text [] (sample_sso, new_ticket_store 60) = ([], sample_sso, new_ticket_store 60)" by simp
  from admin_route_needs_admin[OF h t p r] show ?thesis using r by blast
qed

end
