(* ===== verification/Telemetry.thy ===== *)
theory Telemetry
  imports GatewayProxy
begin

text \<open>
  The telemetry service (internal/telemetry/service): the limits on the sessions of a user, the
  options of a stream and of a terminal, and the opening and closing of sessions.  The answers of the
  core service and of Docker come from the environment, at the clock of external calls.
\<close>

section \<open>Configuration and options (model/telemetry.go)\<close>

record runtime_config =
  tg_tail :: int
  tg_logs_per_user :: int
  tg_terminals_per_user :: int
  tg_idle :: int
  tg_max_duration :: int
  tg_commands :: "string list"
  tg_max_args :: int
  tg_max_arg_bytes :: int
  tg_read_limit :: int

record container_target =
  ct_container :: string
  ct_docker :: string
  ct_status :: string
  ct_owner :: string
  ct_generation :: int

record log_options =
  lo_tail :: int
  lo_since :: "instant option"
  lo_timestamps :: bool
  lo_follow :: bool

record terminal_options =
  to_command :: "string list"
  to_rows :: nat
  to_cols :: nat

section \<open>Limits (service/limiter.go)\<close>

text \<open>A key that is absent counts zero.\<close>

record session_limiter =
  lm_counts :: "string \<Rightarrow> int"
  lm_max :: int
  lm_total :: int

definition new_session_limiter :: "int \<Rightarrow> session_limiter" where
  "new_session_limiter m = \<lparr> lm_counts = (\<lambda>_. 0), lm_max = (if m \<le> 0 then 1 else m), lm_total = 0 \<rparr>"

definition acquire_session :: "string \<Rightarrow> int \<Rightarrow> session_limiter \<Rightarrow> bool \<times> session_limiter" where
  "acquire_session key max_per_key l =
    (let m = (if max_per_key \<le> 0 then 1 else max_per_key) in
     if lm_total l \<ge> lm_max l \<or> lm_counts l key \<ge> m then (False, l)
     else (True, l\<lparr>lm_counts := (lm_counts l)(key := lm_counts l key + 1), lm_total := lm_total l + 1\<rparr>))"

definition release_session :: "string \<Rightarrow> session_limiter \<Rightarrow> session_limiter" where
  "release_session key l =
    (if lm_counts l key \<le> 0 then l
     else l\<lparr>lm_counts := (lm_counts l)(key := lm_counts l key - 1), lm_total := lm_total l - 1\<rparr>)"

section \<open>Options\<close>

definition normalize_log_options :: "log_options \<Rightarrow> runtime_config \<Rightarrow> log_options" where
  "normalize_log_options opts cfg =
    (let tail = (if lo_tail opts \<le> 0 then 200 else lo_tail opts)
     in opts\<lparr>lo_tail := (if tg_tail cfg > 0 \<and> tail > tg_tail cfg then tg_tail cfg else tail)\<rparr>)"

text \<open>path.Base\<close>

definition path_base :: "string \<Rightarrow> string" where
  "path_base p =
    (if p = [] then ''.''
     else let q = rev (dropWhile (\<lambda>c. c = CHR ''/'') (rev p));
              b = rev (takeWhile (\<lambda>c. c \<noteq> CHR ''/'') (rev q))
          in if b = [] then ''/'' else b)"

definition is_shell_command :: "string \<Rightarrow> bool" where
  "is_shell_command c \<longleftrightarrow> List.member [''sh'', ''bash'', ''ash''] (path_base c)"

definition safe_shell_arg :: "string \<Rightarrow> bool" where
  "safe_shell_arg a \<longleftrightarrow> List.member [''-i'', ''-l'', ''--login''] a"

text \<open>The arguments from position i on.\<close>

fun check_arguments :: "runtime_config \<Rightarrow> string \<Rightarrow> nat \<Rightarrow> string list \<Rightarrow> goerr option" where
  "check_arguments cfg cmd i [] = None"
| "check_arguments cfg cmd i (a # as) =
    (if a = [] \<or> has_break a then Some (mk_err ErrBadRequest ''invalid command argument'')
     else if i > 0 \<and> int (length a) > tg_max_arg_bytes cfg then Some (mk_err ErrBadRequest ''command argument is too large'')
     else if i > 0 \<and> is_shell_command cmd \<and> \<not> safe_shell_arg a then Some (mk_err ErrForbidden ''shell argument is not allowed'')
     else check_arguments cfg cmd (Suc i) as)"

definition normalize_command :: "string list \<Rightarrow> runtime_config \<Rightarrow> goerr + string list" where
  "normalize_command command cfg =
    (case tg_commands cfg of
       [] \<Rightarrow> Inl (mk_err ErrConflict ''terminal commands are not configured'')
     | first # _ \<Rightarrow>
         if command = [] \<or> trim_space (hd command) = [] then
           Inr (if is_shell_command first then [first, ''-i''] else [first])
         else if int (length command) - 1 > tg_max_args cfg then Inl (mk_err ErrBadRequest ''too many command arguments'')
         else if \<not> List.member (tg_commands cfg) (hd command) then Inl (mk_err ErrForbidden ''terminal command is not allowed'')
         else (case check_arguments cfg (hd command) 0 command of Some e \<Rightarrow> Inl e | None \<Rightarrow> Inr command))"

definition normalize_terminal_options :: "terminal_options \<Rightarrow> runtime_config \<Rightarrow> goerr + terminal_options" where
  "normalize_terminal_options opts cfg =
    (let rows = (if to_rows opts = 0 then 24 else to_rows opts); cols = (if to_cols opts = 0 then 80 else to_cols opts) in
     if rows > 200 \<or> cols > 500 then Inl (mk_err ErrBadRequest ''terminal size is out of range'')
     else bind_res (normalize_command (to_command opts) cfg) (\<lambda>c.
          Inr \<lparr> to_command = c, to_rows = rows, to_cols = cols \<rparr>))"

definition logs_allowed_for_status :: "string \<Rightarrow> bool" where
  "logs_allowed_for_status st \<longleftrightarrow> List.member [''created'', ''running'', ''exited'', ''error''] st"

definition unavailable_status_error :: "string \<Rightarrow> goerr" where
  "unavailable_status_error st =
    (if st = ''missing'' then mk_err ErrConflict ''container is missing in Docker and can only be deleted''
     else mk_err ErrConflict ''container is not available for telemetry'')"

text \<open>A nil identifier has a text too, so the key always names the kind and the user.\<close>

definition actor_key :: "(id \<Rightarrow> string) \<Rightarrow> scope option \<Rightarrow> goerr + string" where
  "actor_key txt ctx = bind_res (require_scope ctx) (\<lambda>s. Inr (kind_text (sc_kind s) @ '':'' @ txt (sc_user s)))"

section \<open>Sessions (service/telemetry.go)\<close>

datatype session_kind = LogSession | TerminalSession

record session =
  se_kind_of :: session_kind
  se_key :: string
  se_open :: bool

record telemetry_env =
  te_config :: "nat \<Rightarrow> goerr + runtime_config"
  te_target :: "nat \<Rightarrow> scope option \<Rightarrow> string \<Rightarrow> goerr + container_target"
  te_ensure :: "nat \<Rightarrow> container_target \<Rightarrow> goerr option"
  te_logs :: "nat \<Rightarrow> container_target \<Rightarrow> log_options \<Rightarrow> goerr option"
  te_terminal :: "nat \<Rightarrow> container_target \<Rightarrow> terminal_options \<Rightarrow> goerr option"
  te_uuid_text :: "id \<Rightarrow> string"

record telemetry =
  tl_env :: telemetry_env
  tl_tick :: nat
  tl_logs :: session_limiter
  tl_terminals :: session_limiter
  tl_sessions :: "session list"

type_synonym 'a telemetry_meth = "(telemetry, 'a) meth"

definition new_telemetry :: "telemetry_env \<Rightarrow> int \<Rightarrow> int \<Rightarrow> telemetry" where
  "new_telemetry env max_logs max_terminals = \<lparr> tl_env = env, tl_tick = 0, tl_logs = new_session_limiter max_logs,
     tl_terminals = new_session_limiter max_terminals, tl_sessions = [] \<rparr>"

definition ask_env :: "(telemetry_env \<Rightarrow> nat \<Rightarrow> goerr + 'a) \<Rightarrow> 'a telemetry_meth" where
  "ask_env f s = (f (tl_env s) (tl_tick s), s\<lparr>tl_tick := Suc (tl_tick s)\<rparr>)"

definition ask_error :: "(telemetry_env \<Rightarrow> nat \<Rightarrow> goerr option) \<Rightarrow> unit telemetry_meth" where
  "ask_error f = ask_env (\<lambda>e n. case f e n of Some x \<Rightarrow> Inl x | None \<Rightarrow> Inr ())"

definition limiter_of :: "session_kind \<Rightarrow> telemetry \<Rightarrow> session_limiter" where
  "limiter_of k s = (case k of LogSession \<Rightarrow> tl_logs s | TerminalSession \<Rightarrow> tl_terminals s)"

definition set_limiter :: "session_kind \<Rightarrow> session_limiter \<Rightarrow> telemetry \<Rightarrow> telemetry" where
  "set_limiter k l s = (case k of LogSession \<Rightarrow> s\<lparr>tl_logs := l\<rparr> | TerminalSession \<Rightarrow> s\<lparr>tl_terminals := l\<rparr>)"

definition acquire_for :: "session_kind \<Rightarrow> string \<Rightarrow> int \<Rightarrow> string \<Rightarrow> unit telemetry_meth" where
  "acquire_for k key max_per_key message s = (case acquire_session key max_per_key (limiter_of k s) of
       (True, l) \<Rightarrow> (Inr (), set_limiter k l s)
     | (False, l) \<Rightarrow> (Inl (mk_err ErrLimitExceeded message), set_limiter k l s))"

definition release_for :: "session_kind \<Rightarrow> string \<Rightarrow> unit telemetry_meth" where
  "release_for k key s = (Inr (), set_limiter k (release_session key (limiter_of k s)) s)"

text \<open>The session a caller holds is its position in the list.\<close>

definition hold :: "session_kind \<Rightarrow> string \<Rightarrow> nat telemetry_meth" where
  "hold k key s = (Inr (length (tl_sessions s)),
     s\<lparr>tl_sessions := tl_sessions s @ [\<lparr> se_kind_of = k, se_key = key, se_open = True \<rparr>]\<rparr>)"

definition open_session :: "session_kind \<Rightarrow> string \<Rightarrow> int \<Rightarrow> string \<Rightarrow> unit telemetry_meth \<Rightarrow> nat telemetry_meth" where
  "open_session k key max_per_key message connect =
     seq (acquire_for k key max_per_key message) (\<lambda>_.
     seq (on_failure connect (release_for k key)) (\<lambda>_.
     hold k key))"

definition stream_logs :: "scope option \<Rightarrow> string \<Rightarrow> log_options \<Rightarrow> (nat \<times> log_options) telemetry_meth" where
  "stream_logs ctx cid opts0 =
     seq (ask_env te_config) (\<lambda>cfg.
     let opts = normalize_log_options opts0 cfg in
     seq (ask_env (\<lambda>e n. te_target e n ctx cid)) (\<lambda>target.
     if \<not> logs_allowed_for_status (ct_status target) then fail (unavailable_status_error (ct_status target)) else
     seq (\<lambda>s. (actor_key (te_uuid_text (tl_env s)) ctx, s)) (\<lambda>key.
     seq (open_session LogSession key (tg_logs_per_user cfg) ''maximum telemetry log streams reached''
            (seq (ask_error (\<lambda>e n. te_ensure e n target)) (\<lambda>_. ask_error (\<lambda>e n. te_logs e n target opts)))) (\<lambda>h.
     ret (h, opts)))))"

definition open_terminal :: "scope option \<Rightarrow> string \<Rightarrow> terminal_options \<Rightarrow> (nat \<times> terminal_options \<times> runtime_config) telemetry_meth" where
  "open_terminal ctx cid opts0 =
     seq (ask_env te_config) (\<lambda>cfg.
     seq (\<lambda>s. (normalize_terminal_options opts0 cfg, s)) (\<lambda>opts.
     seq (ask_env (\<lambda>e n. te_target e n ctx cid)) (\<lambda>target.
     if ct_status target \<noteq> ''running'' then fail (mk_err ErrConflict ''terminal requires a running container'') else
     seq (\<lambda>s. (actor_key (te_uuid_text (tl_env s)) ctx, s)) (\<lambda>key.
     seq (open_session TerminalSession key (tg_terminals_per_user cfg) ''maximum telemetry terminal sessions reached''
            (seq (ask_error (\<lambda>e n. te_ensure e n target)) (\<lambda>_. ask_error (\<lambda>e n. te_terminal e n target opts)))) (\<lambda>h.
     ret (h, opts, cfg))))))"

text \<open>Close of a session, which releases its place once however often it is called.\<close>

definition close_session :: "nat \<Rightarrow> unit telemetry_meth" where
  "close_session h s =
    (if h < length (tl_sessions s) \<and> se_open (tl_sessions s ! h) then
       (let x = tl_sessions s ! h in
        release_for (se_kind_of x) (se_key x) (s\<lparr>tl_sessions := (tl_sessions s)[h := x\<lparr>se_open := False\<rparr>]\<rparr>))
     else (Inr (), s))"

section \<open>Histories\<close>

datatype telemetry_call =
    StreamLogs "scope option" string log_options
  | OpenTerminal "scope option" string terminal_options
  | CloseSession nat

fun serve_telemetry :: "telemetry_call \<Rightarrow> telemetry \<Rightarrow> telemetry" where
  "serve_telemetry (StreamLogs ctx cid opts) s = snd (stream_logs ctx cid opts s)"
| "serve_telemetry (OpenTerminal ctx cid opts) s = snd (open_terminal ctx cid opts s)"
| "serve_telemetry (CloseSession h) s = snd (close_session h s)"

section \<open>Sessions and limits agree\<close>

definition open_count :: "session_kind \<Rightarrow> string \<Rightarrow> telemetry \<Rightarrow> nat" where
  "open_count k key s = length (filter (\<lambda>x. se_kind_of x = k \<and> se_key x = key \<and> se_open x) (tl_sessions s))"

definition open_total :: "session_kind \<Rightarrow> telemetry \<Rightarrow> nat" where
  "open_total k s = length (filter (\<lambda>x. se_kind_of x = k \<and> se_open x) (tl_sessions s))"

text \<open>Every place taken belongs to an open session, and no more places are taken than there are.\<close>

definition counted :: "int \<Rightarrow> int \<Rightarrow> telemetry \<Rightarrow> bool" where
  "counted ml mt s \<longleftrightarrow> (\<forall>k key. lm_counts (limiter_of k s) key = int (open_count k key s))
     \<and> (\<forall>k. lm_total (limiter_of k s) = int (open_total k s) \<and> lm_total (limiter_of k s) \<le> lm_max (limiter_of k s))
     \<and> lm_max (tl_logs s) = ml \<and> lm_max (tl_terminals s) = mt"

end
