(* ===== verification/TelemetryHttp.thy ===== *)
theory TelemetryHttp
  imports Telemetry BuilderFiles
begin

text \<open>
  The HTTP side of the telemetry service (internal/telemetry/http/handler.go): the options of a
  request, the server-sent events of a log stream and the input of a terminal.  What arrives from the
  log stream, from the web socket and from the session is a list of items; decoding JSON and RFC 3339
  times is left to parameters.
\<close>

section \<open>Options of a request\<close>

definition query_bool :: "url_query \<Rightarrow> string \<Rightarrow> bool \<Rightarrow> goerr + bool" where
  "query_bool q k d = (if query_value q k = [] then Inr d
     else case parse_bool (query_value q k) of None \<Rightarrow> Inl (Sentinel ErrBadRequest) | Some b \<Rightarrow> Inr b)"

definition parse_since :: "(string \<Rightarrow> instant option) \<Rightarrow> string \<Rightarrow> instant option" where
  "parse_since rfc3339 raw = (case atoi raw of Some unix \<Rightarrow> Some (unix * 1000000000) | None \<Rightarrow> rfc3339 raw)"

definition log_options_of :: "(string \<Rightarrow> instant option) \<Rightarrow> url_query \<Rightarrow> goerr + log_options" where
  "log_options_of rfc3339 q =
     bind_res (if query_value q ''tail'' = [] then Inr 200
        else case atoi (query_value q ''tail'') of
          None \<Rightarrow> Inl (Sentinel ErrBadRequest) | Some n \<Rightarrow> if n \<le> 0 then Inl (Sentinel ErrBadRequest) else Inr n) (\<lambda>tail.
     bind_res (query_bool q ''follow'' True) (\<lambda>follow.
     bind_res (query_bool q ''timestamps'' True) (\<lambda>timestamps.
     bind_res (if query_value q ''since'' = [] then Inr None
        else case parse_since rfc3339 (query_value q ''since'') of
          None \<Rightarrow> Inl (Sentinel ErrBadRequest) | Some t \<Rightarrow> Inr (Some t)) (\<lambda>since.
     Inr \<lparr> lo_tail = tail, lo_since = since, lo_timestamps = timestamps, lo_follow = follow \<rparr>))))"

definition parse_size :: "string \<Rightarrow> goerr + nat" where
  "parse_size raw = (case parse_uint32 raw of
       None \<Rightarrow> Inl (Wrapped (sentinel_text ErrBadRequest @ '': invalid terminal size'') (Sentinel ErrBadRequest))
     | Some n \<Rightarrow> Inr n)"

definition terminal_options_of :: "url_query \<Rightarrow> goerr + terminal_options" where
  "terminal_options_of q =
    (let cmd = query_value q ''cmd'' in
     if cmd = [] \<and> q ''arg'' \<noteq> [] then Inl (Sentinel ErrBadRequest) else
     bind_res (if query_value q ''rows'' = [] then Inr 24 else parse_size (query_value q ''rows'')) (\<lambda>rows.
     bind_res (if query_value q ''cols'' = [] then Inr 80 else parse_size (query_value q ''cols'')) (\<lambda>cols.
     Inr \<lparr> to_command = (if cmd \<noteq> [] then cmd # q ''arg'' else []), to_rows = rows, to_cols = cols \<rparr>)))"

section \<open>The events of a log stream\<close>

text \<open>Carriage returns, alone or before a line feed, become line feeds.\<close>

definition line_feeds :: "string \<Rightarrow> string" where
  "line_feeds s = replace_all [CHR 0x0D] [newline] (replace_all [CHR 0x0D, newline] [newline] s)"

definition write_sse :: "string \<Rightarrow> string \<Rightarrow> string" where
  "write_sse event data = ''event: '' @ event @ [newline]
     @ (if data = [] then [] else concat (map (\<lambda>l. ''data: '' @ l @ [newline]) (split_on newline (line_feeds data))))
     @ [newline]"

text \<open>What the handler waits for: the heartbeat, a line, the end of the lines, the end of the request.\<close>

datatype log_item = LogHeartbeat | LogLine string | LogClosed "goerr option" | LogDone

fun write_log_events :: "log_item list \<Rightarrow> string" where
  "write_log_events [] = []"
| "write_log_events (LogDone # items) = []"
| "write_log_events (LogHeartbeat # items) = '': heartbeat'' @ [newline, newline] @ write_log_events items"
| "write_log_events (LogLine l # items) = write_sse ''log'' l @ write_log_events items"
| "write_log_events (LogClosed e # items) =
     (case e of None \<Rightarrow> [] | Some err \<Rightarrow> if err = CtxCanceled then []
        else write_sse ''error'' (safe_message (Some (Sentinel ErrInternal)))) @ write_sse ''end'' []"

section \<open>The input of a terminal\<close>

record terminal_control =
  tm_type :: string
  tm_rows :: nat
  tm_cols :: nat

datatype terminal_effect =
    SessionWrite string
  | SessionResize nat nat
  | SessionCloseWrite
  | SendError string

text \<open>A text message is what its JSON decodes to; resize is the error of Docker, if any.\<close>

definition handle_terminal_control ::
    "terminal_control option \<Rightarrow> goerr option \<Rightarrow> string option \<times> terminal_effect list" where
  "handle_terminal_control m resize = (case m of
       None \<Rightarrow> (None, [SendError ''invalid terminal control message''])
     | Some c \<Rightarrow>
         if tm_type c = ''resize'' then
           if tm_rows c = 0 \<or> tm_cols c = 0 then (None, [SendError ''invalid terminal size''])
           else (None, SessionResize (tm_rows c) (tm_cols c)
                   # (case resize of Some e \<Rightarrow> [SendError (safe_message (Some e))] | None \<Rightarrow> []))
         else if tm_type c = ''close'' then (Some ''client_close'', [SessionCloseWrite])
         else (None, [SendError ''unknown terminal control message'']))"

datatype ws_message = WsError | WsBinary string | WsText "terminal_control option" | WsClose | WsOther

text \<open>A message, whether the context has ended when it is there, and the error of the session.\<close>

record input_step =
  is_message :: ws_message
  is_ended :: bool
  is_session :: "goerr option"

primrec read_terminal_input :: "input_step list \<Rightarrow> string option \<times> terminal_effect list" where
  "read_terminal_input [] = (None, [])"
| "read_terminal_input (s # ss) =
    (if is_message s = WsError then (Some ''client_disconnect'', [])
     else if is_ended s then (Some ''context_cancelled'', [])
     else case is_message s of
       WsBinary payload \<Rightarrow>
         (if is_session s \<noteq> None then (Some ''stdin_error'', [SessionWrite payload])
          else (fst (read_terminal_input ss), SessionWrite payload # snd (read_terminal_input ss)))
     | WsText m \<Rightarrow> (let c = handle_terminal_control m (is_session s) in
          if fst c \<noteq> None then c else (fst (read_terminal_input ss), snd c @ snd (read_terminal_input ss)))
     | WsClose \<Rightarrow> (Some ''client_close'', [])
     | _ \<Rightarrow> read_terminal_input ss)"

text \<open>What the session delivers: bytes with an error, if any, the error of the web socket and whether the context has ended.\<close>

record output_step =
  os_bytes :: string
  os_error :: "goerr option"
  os_eof :: bool
  os_write :: "goerr option"
  os_ended :: bool

primrec write_terminal_output :: "output_step list \<Rightarrow> string option \<times> string list" where
  "write_terminal_output [] = (None, [])"
| "write_terminal_output (s # ss) =
    (let sent = (if os_bytes s \<noteq> [] then [os_bytes s] else []) in
     if os_bytes s \<noteq> [] \<and> os_write s \<noteq> None then (Some ''client_disconnect'', sent)
     else if os_eof s then (Some ''process_exit'', sent)
     else if os_error s \<noteq> None then (Some (if os_ended s then ''context_cancelled'' else ''stream_error''), sent)
     else case write_terminal_output ss of (r, out) \<Rightarrow> (r, sent @ out))"

end
