(* ===== verification/TelemetryProps.thy ===== *)
theory TelemetryProps
  imports Telemetry TelemetryHttp
begin

text \<open>What the telemetry service guarantees: the limits on sessions, and the commands of a terminal.\<close>

section \<open>Sessions\<close>

text \<open>As counted, with one place taken whose session is not yet there.\<close>

definition counted_with :: "(session_kind \<times> string) option \<Rightarrow> int \<Rightarrow> int \<Rightarrow> telemetry \<Rightarrow> bool" where
  "counted_with p ml mt s \<longleftrightarrow>
     (\<forall>k key. lm_counts (limiter_of k s) key = int (open_count k key s) + (if p = Some (k, key) then 1 else 0))
     \<and> (\<forall>k. lm_total (limiter_of k s) = int (open_total k s) + (if \<exists>key. p = Some (k, key) then 1 else 0)
          \<and> lm_total (limiter_of k s) \<le> lm_max (limiter_of k s))
     \<and> lm_max (tl_logs s) = ml \<and> lm_max (tl_terminals s) = mt"

lemma counted_none: "counted_with None ml mt s \<longleftrightarrow> counted ml mt s"
  by (simp add: counted_with_def counted_def)

lemma limiter_of_set: "limiter_of k (set_limiter k' l s) = (if k = k' then l else limiter_of k s)"
  by (cases k; cases k') (auto simp: limiter_of_def set_limiter_def)

lemma sessions_set_limiter [simp]: "tl_sessions (set_limiter k l s) = tl_sessions s"
  by (cases k) (auto simp: set_limiter_def)

lemma open_set_limiter [simp]:
  "open_count k key (set_limiter k' l s) = open_count k key s" "open_total k (set_limiter k' l s) = open_total k s"
  by (simp_all add: open_count_def open_total_def)

lemma lm_max_set_limiter:
  assumes "lm_max l = lm_max (limiter_of k s)"
  shows "lm_max (tl_logs (set_limiter k l s)) = lm_max (tl_logs s)" "lm_max (tl_terminals (set_limiter k l s)) = lm_max (tl_terminals s)"
  using assms by (cases k; simp add: set_limiter_def limiter_of_def)+

lemma limiter_changed:
  assumes "acquire_session key m l = (b, l')"
  shows "lm_max l' = lm_max l"
    and "b \<Longrightarrow> lm_counts l' = (lm_counts l)(key := lm_counts l key + 1) \<and> lm_total l' = lm_total l + 1 \<and> lm_total l < lm_max l"
    and "\<not> b \<Longrightarrow> l' = l"
  using assms by (auto simp: acquire_session_def Let_def split: if_splits)

lemma counted_acquired:
  assumes "counted ml mt s" and "acquire_session key m (limiter_of k s) = (True, l)"
  shows "counted_with (Some (k, key)) ml mt (set_limiter k l s)"
  using assms(1) limiter_changed(2)[OF assms(2)] limiter_changed(1)[OF assms(2)] lm_max_set_limiter[of l k s]
  by (auto simp: counted_with_def counted_def limiter_of_set) metis

lemma counted_released:
  assumes "counted_with (Some (k, key)) ml mt s"
  shows "counted ml mt (snd (release_for k key s))"
proof -
  let ?l = "release_session key (limiter_of k s)"
  have pos: "0 < lm_counts (limiter_of k s) key" using assms by (simp add: counted_with_def)
  then have l: "lm_counts ?l = (lm_counts (limiter_of k s))(key := lm_counts (limiter_of k s) key - 1)"
    "lm_total ?l = lm_total (limiter_of k s) - 1" "lm_max ?l = lm_max (limiter_of k s)"
    by (simp_all add: release_session_def)
  show ?thesis
    using assms l lm_max_set_limiter[of ?l k s]
    by (auto simp: counted_with_def counted_def release_for_def limiter_of_set) (smt (verit) l(2))+
qed

lemma counted_held:
  assumes "counted_with (Some (k, key)) ml mt s"
  shows "counted ml mt (snd (hold k key s))"
  using assms by (auto simp: counted_with_def counted_def hold_def open_count_def open_total_def limiter_of_def split: session_kind.splits)

lemma counted_tick [simp]: "counted_with p ml mt (s\<lparr>tl_tick := n\<rparr>) = counted_with p ml mt s"
  by (simp add: counted_with_def limiter_of_def open_count_def open_total_def cong: session_kind.case_cong)

lemma counted_tick_plain [simp]: "counted ml mt (s\<lparr>tl_tick := n\<rparr>) = counted ml mt s"
  using counted_tick[of None] by (simp only: counted_none)

lemma keeps_ask [preserves_intros]:
  "preserves (counted_with p ml mt) (ask_env f)" "preserves (counted_with p ml mt) (ask_error g)"
  by (simp_all add: preserves_def ask_env_def ask_error_def)

lemma keeps_read [preserves_intros]: "preserves I (\<lambda>s. (f s, s))"
  by (simp add: preserves_def)

lemma keeps_open:
  assumes "\<And>p. preserves (counted_with p ml mt) connect"
  shows "preserves (counted ml mt) (open_session k key m text connect)"
proof (rule preservesI)
  fix s r s' assume s: "counted ml mt s" and o: "open_session k key m text connect s = (r, s')"
  obtain b l where a: "acquire_session key m (limiter_of k s) = (b, l)" by fastforce
  show "counted ml mt s'"
  proof (cases b)
    case False
    then have "l = limiter_of k s" using limiter_changed(3)[OF a] by blast
    then have "s' = s" using o a False
      by (cases k) (auto simp: open_session_def seq_def acquire_for_def set_limiter_def limiter_of_def)
    then show ?thesis using s by simp
  next
    case True
    let ?s1 = "set_limiter k l s"
    have c1: "counted_with (Some (k, key)) ml mt ?s1" using counted_acquired[OF s] a True by simp
    obtain r2 s2 where c: "connect ?s1 = (r2, s2)" by fastforce
    note c2 = preservesD[OF assms c1 c]
    show ?thesis using o a True c counted_released[OF c2] counted_held[OF c2]
      by (auto simp: open_session_def seq_def acquire_for_def on_failure_def split: sum.splits)
  qed
qed

lemma keeps_counted [preserves_intros]:
  "preserves (counted ml mt) (ask_env f)" "preserves (counted ml mt) (ask_error g)"
  using keeps_ask[of None] by (simp_all add: preserves_def counted_none)

lemma keeps_connect: "preserves (counted_with p ml mt) (seq (ask_error f) (\<lambda>_. ask_error g))"
  by (intro preserves_intros)

lemma keeps_streams:
  "preserves (counted ml mt) (stream_logs ctx cid lopts)" "preserves (counted ml mt) (open_terminal ctx cid topts)"
  unfolding stream_logs_def open_terminal_def by (intro preserves_intros keeps_open keeps_connect)+

lemma count_update:
  "h < length xs \<Longrightarrow> length (filter P (xs[h := y])) + (if P (xs ! h) then 1 else 0) = length (filter P xs) + (if P y then 1 else 0)"
proof (induction xs arbitrary: h)
  case (Cons x xs)
  then show ?case by (cases h) auto
qed simp

lemma keeps_close: "preserves (counted ml mt) (close_session h)"
proof (rule preservesI)
  fix s r s' assume s: "counted ml mt s" and o: "close_session h s = (r, s')"
  show "counted ml mt s'"
  proof (cases "h < length (tl_sessions s) \<and> se_open (tl_sessions s ! h)")
    case True
    let ?x = "tl_sessions s ! h"
    define s1 where "s1 = s\<lparr>tl_sessions := (tl_sessions s)[h := ?x\<lparr>se_open := False\<rparr>]\<rparr>"
    have n: "open_count k key s = open_count k key s1 + (if Some (se_kind_of ?x, se_key ?x) = Some (k, key) then 1 else 0)" for k key
      using count_update[of h "tl_sessions s" "\<lambda>x. se_kind_of x = k \<and> se_key x = key \<and> se_open x" "?x\<lparr>se_open := False\<rparr>"] True
      by (simp add: open_count_def s1_def)
    have t: "open_total k s = open_total k s1 + (if \<exists>key. Some (se_kind_of ?x, se_key ?x) = Some (k, key) then 1 else 0)" for k
      using count_update[of h "tl_sessions s" "\<lambda>x. se_kind_of x = k \<and> se_open x" "?x\<lparr>se_open := False\<rparr>"] True
      by (simp add: open_total_def s1_def)
    have l: "limiter_of k s1 = limiter_of k s" for k by (cases k) (simp_all add: limiter_of_def s1_def)
    have m: "lm_max (tl_logs s1) = ml" "lm_max (tl_terminals s1) = mt" using s by (simp_all add: counted_def s1_def)
    have "lm_counts (limiter_of k s) key = int (open_count k key s)" "lm_total (limiter_of k s) = int (open_total k s)"
      "lm_total (limiter_of k s) \<le> lm_max (limiter_of k s)" for k key
      using s unfolding counted_def by blast+
    then have "counted_with (Some (se_kind_of ?x, se_key ?x)) ml mt s1"
      unfolding counted_with_def l using m n t by simp
    from counted_released[OF this] show ?thesis using o True by (simp add: close_session_def Let_def s1_def)
  next
    case False
    then show ?thesis using o s by (auto simp: close_session_def)
  qed
qed

lemma serve_counted: "counted ml mt s \<Longrightarrow> counted ml mt (serve_telemetry c s)"
  using keeps_streams keeps_close by (cases c) (auto simp: preserves_def)

lemma history_counted: "counted ml mt s \<Longrightarrow> counted ml mt (fold serve_telemetry cs s)"
  by (induction cs arbitrary: s) (auto intro: serve_counted)

lemma new_counted: "counted (if ml \<le> 0 then 1 else ml) (if mt \<le> 0 then 1 else mt) (new_telemetry env ml mt)"
  by (auto simp: counted_def new_telemetry_def new_session_limiter_def limiter_of_def open_count_def open_total_def
      split: session_kind.splits)

text \<open>What an accepted session found and what it leaves.\<close>

lemma open_session_Inr:
  assumes "open_session k key m text connect s = (Inr h, s')" and "counted ml mt s"
    and "\<And>p. preserves (counted_with p ml mt) connect"
  shows "int (open_count k key s) < (if m \<le> 0 then 1 else m)"
proof -
  obtain b l where a: "acquire_session key m (limiter_of k s) = (b, l)" by fastforce
  then have "b" using assms(1) by (cases b) (auto simp: open_session_def seq_def acquire_for_def)
  then show ?thesis using a assms(2)
    by (auto simp: acquire_session_def counted_def Let_def split: if_splits)
qed

lemma stream_logs_Inr:
  assumes "stream_logs ctx cid opts s = (Inr (h, lopts), s')" and "counted ml mt s"
  shows "\<exists>cfg key. te_config (tl_env s) (tl_tick s) = Inr cfg \<and> actor_key (te_uuid_text (tl_env s)) ctx = Inr key
    \<and> int (open_count LogSession key s) < (if tg_logs_per_user cfg \<le> 0 then 1 else tg_logs_per_user cfg)"
proof -
  let ?s2 = "s\<lparr>tl_tick := Suc (Suc (tl_tick s))\<rparr>"
  obtain cfg t key h' s3 where c: "te_config (tl_env s) (tl_tick s) = Inr cfg"
    and k: "actor_key (te_uuid_text (tl_env s)) ctx = Inr key"
    and o: "open_session LogSession key (tg_logs_per_user cfg) ''maximum telemetry log streams reached''
            (seq (ask_error (\<lambda>e n. te_ensure e n t)) (\<lambda>_. ask_error (\<lambda>e n. te_logs e n t (normalize_log_options opts cfg)))) ?s2 = (Inr h', s3)"
    using assms(1) by (auto simp: stream_logs_def seq_def[of "ask_env _"] ask_env_def Let_def seq_def[of "\<lambda>s. (actor_key _ _, s)"]
        seq_Inr_iff fail_def split: sum.splits if_splits)
  have c2: "counted ml mt ?s2" using assms(2) by simp
  have "open_count LogSession key ?s2 = open_count LogSession key s" by (simp add: open_count_def)
  then show ?thesis using open_session_Inr[OF o c2 keeps_connect] c k by auto
qed

lemma open_terminal_Inr:
  assumes "open_terminal ctx cid opts s = (Inr (h, topts, cfg), s')" and "counted ml mt s"
  shows "\<exists>key. te_config (tl_env s) (tl_tick s) = Inr cfg \<and> actor_key (te_uuid_text (tl_env s)) ctx = Inr key
    \<and> int (open_count TerminalSession key s) < (if tg_terminals_per_user cfg \<le> 0 then 1 else tg_terminals_per_user cfg)"
proof -
  let ?s2 = "s\<lparr>tl_tick := Suc (Suc (tl_tick s))\<rparr>"
  obtain t key s3 where c: "te_config (tl_env s) (tl_tick s) = Inr cfg"
    and k: "actor_key (te_uuid_text (tl_env s)) ctx = Inr key"
    and o: "open_session TerminalSession key (tg_terminals_per_user cfg) ''maximum telemetry terminal sessions reached''
            (seq (ask_error (\<lambda>e n. te_ensure e n t)) (\<lambda>_. ask_error (\<lambda>e n. te_terminal e n t topts))) ?s2 = (Inr h, s3)"
    using assms(1) by (auto simp: open_terminal_def seq_def[of "ask_env _"] ask_env_def Let_def seq_def[of "\<lambda>s. (_, s)"]
        seq_Inr_iff fail_def split: sum.splits if_splits)
  have c2: "counted ml mt ?s2" using assms(2) by simp
  have "open_count TerminalSession key ?s2 = open_count TerminalSession key s" by (simp add: open_count_def)
  then show ?thesis using open_session_Inr[OF o c2 keeps_connect] c k by auto
qed

text \<open>
  C31. Whatever sessions were opened and closed before, however often a session is closed and
  whatever calls failed on the way: every place that is taken belongs to a session that is open, no
  more sessions of a kind are open than the service allows, and a log stream or a terminal is accepted
  only while its user has fewer of them open than the configuration in force allows one user.
\<close>

theorem sessions_within_limits:
  assumes "s = fold serve_telemetry calls (new_telemetry env max_logs max_terminals)"
  shows "(\<forall>k. lm_total (limiter_of k s) = int (open_total k s))
    \<and> int (open_total LogSession s) \<le> max 1 max_logs \<and> int (open_total TerminalSession s) \<le> max 1 max_terminals
    \<and> (\<forall>ctx cid opts h lopts s'. stream_logs ctx cid opts s = (Inr (h, lopts), s') \<longrightarrow>
        (\<exists>cfg key. te_config (tl_env s) (tl_tick s) = Inr cfg \<and> actor_key (te_uuid_text (tl_env s)) ctx = Inr key
           \<and> int (open_count LogSession key s) < max 1 (tg_logs_per_user cfg)))
    \<and> (\<forall>ctx cid opts h topts cfg s'. open_terminal ctx cid opts s = (Inr (h, topts, cfg), s') \<longrightarrow>
        (\<exists>key. te_config (tl_env s) (tl_tick s) = Inr cfg \<and> actor_key (te_uuid_text (tl_env s)) ctx = Inr key
           \<and> int (open_count TerminalSession key s) < max 1 (tg_terminals_per_user cfg)))"
proof -
  let ?ml = "if max_logs \<le> 0 then 1 else max_logs" and ?mt = "if max_terminals \<le> 0 then 1 else max_terminals"
  have c: "counted ?ml ?mt s" using history_counted[OF new_counted] assms by blast
  then have t: "lm_total (limiter_of k s) = int (open_total k s)" "int (open_total k s) \<le> lm_max (limiter_of k s)" for k
    unfolding counted_def by metis+
  have "lm_max (limiter_of LogSession s) = ?ml" "lm_max (limiter_of TerminalSession s) = ?mt"
    using c by (simp_all add: counted_def limiter_of_def)
  then have "int (open_total LogSession s) \<le> max 1 max_logs" "int (open_total TerminalSession s) \<le> max 1 max_terminals"
    using t(2)[of LogSession] t(2)[of TerminalSession] by (auto split: if_splits)
  moreover have "\<exists>cfg key. te_config (tl_env s) (tl_tick s) = Inr cfg \<and> actor_key (te_uuid_text (tl_env s)) ctx = Inr key
      \<and> int (open_count LogSession key s) < max 1 (tg_logs_per_user cfg)"
    if "stream_logs ctx cid opts s = (Inr (h, lopts), s')" for ctx cid opts h lopts s'
    using stream_logs_Inr[OF that c] by (fastforce split: if_splits)
  moreover have "\<exists>key. te_config (tl_env s) (tl_tick s) = Inr cfg \<and> actor_key (te_uuid_text (tl_env s)) ctx = Inr key
      \<and> int (open_count TerminalSession key s) < max 1 (tg_terminals_per_user cfg)"
    if "open_terminal ctx cid opts s = (Inr (h, topts, cfg), s')" for ctx cid opts h topts cfg s'
    using open_terminal_Inr[OF that c] by (fastforce split: if_splits)
  ultimately show ?thesis using t(1) by blast
qed

section \<open>Commands\<close>

lemma check_arguments_None:
  "check_arguments cfg cmd i as = None \<longleftrightarrow> list_all (\<lambda>a. a \<noteq> [] \<and> \<not> has_break a) as
     \<and> list_all (\<lambda>a. int (length a) \<le> tg_max_arg_bytes cfg \<and> (is_shell_command cmd \<longrightarrow> safe_shell_arg a)) (if i = 0 then tl as else as)"
  by (induction cfg cmd i as rule: check_arguments.induct) auto

text \<open>
  C32. A terminal is opened only with a command the configuration allows: the first allowed one when
  the request names none, else the one asked for with at most the allowed number of arguments, each of
  allowed length and without line breaks; a shell gets no argument but -i, -l and --login, so no
  command line can be handed to it.  The size of the terminal is within its bounds.
\<close>

theorem terminal_command_allowed:
  assumes "normalize_terminal_options opts cfg = Inr res"
  shows "List.member (tg_commands cfg) (hd (to_command res))
    \<and> (is_shell_command (hd (to_command res)) \<longrightarrow> list_all safe_shell_arg (tl (to_command res)))
    \<and> (List.member [[hd (tg_commands cfg)], [hd (tg_commands cfg), ''-i'']] (to_command res)
       \<or> to_command res = to_command opts \<and> int (length (to_command res)) - 1 \<le> tg_max_args cfg
         \<and> list_all (\<lambda>a. a \<noteq> [] \<and> \<not> has_break a) (to_command res)
         \<and> list_all (\<lambda>a. int (length a) \<le> tg_max_arg_bytes cfg) (tl (to_command res)))
    \<and> 1 \<le> to_rows res \<and> to_rows res \<le> 200 \<and> 1 \<le> to_cols res \<and> to_cols res \<le> 500"
proof -
  obtain c where n: "normalize_command (to_command opts) cfg = Inr c" and c: "to_command res = c"
    and size: "1 \<le> to_rows res \<and> to_rows res \<le> 200 \<and> 1 \<le> to_cols res \<and> to_cols res \<le> 500"
    using assms by (auto simp: normalize_terminal_options_def Let_def bind_res_def split: if_splits sum.splits)
  obtain first others where cmds: "tg_commands cfg = first # others"
    using n by (cases "tg_commands cfg") (auto simp: normalize_command_def)
  consider (default_command) "c = (if is_shell_command first then [first, ''-i''] else [first])"
    | (asked) "c = to_command opts" "c \<noteq> []" "int (length c) - 1 \<le> tg_max_args cfg" "List.member (tg_commands cfg) (hd c)"
        "check_arguments cfg (hd c) 0 c = None"
    using n cmds by (auto simp: normalize_command_def split: if_splits option.splits)
  then show ?thesis
  proof cases
    case default_command
    then show ?thesis using size c cmds by (simp add: safe_shell_arg_def)
  next
    case asked
    then show ?thesis using size c by (auto simp: check_arguments_None list_all_iff)
  qed
qed

section \<open>Examples\<close>

definition telemetry_sample_config :: runtime_config where
  "telemetry_sample_config = \<lparr> tg_tail = 1000, tg_logs_per_user = 2, tg_terminals_per_user = 1, tg_idle = 0, tg_max_duration = 60,
     tg_commands = [''/bin/sh'', ''top''], tg_max_args = 2, tg_max_arg_bytes = 16, tg_read_limit = 0 \<rparr>"

definition telemetry_sample_env :: telemetry_env where
  "telemetry_sample_env = \<lparr> te_config = (\<lambda>_. Inr telemetry_sample_config),
     te_target = (\<lambda>_ _ c. Inr \<lparr> ct_container = c, ct_docker = ''d1'', ct_status = ''running'', ct_owner = ''7'', ct_generation = 1 \<rparr>),
     te_ensure = (\<lambda>_ _. None), te_logs = (\<lambda>_ _ _. None), te_terminal = (\<lambda>_ _ _. None), te_uuid_text = (\<lambda>_. ''u'') \<rparr>"

definition plain_options :: log_options where
  "plain_options = \<lparr> lo_tail = 0, lo_since = None, lo_timestamps = True, lo_follow = True \<rparr>"

definition sample_calls :: "telemetry_call list" where
  "sample_calls = [StreamLogs (Some (user_scope 7 [] [])) ''c1'' plain_options, StreamLogs (Some (user_scope 7 [] [])) ''c1'' plain_options,
     StreamLogs (Some (user_scope 7 [] [])) ''c1'' plain_options, CloseSession 0, CloseSession 0]"

lemma sessions_within_limits_witness:
  "let s = fold serve_telemetry sample_calls (new_telemetry telemetry_sample_env 5 5) in
     open_total LogSession s = 1 \<and> lm_total (tl_logs s) = 1 \<and> int (open_total TerminalSession s) \<le> 5"
proof -
  let ?s = "fold serve_telemetry sample_calls (new_telemetry telemetry_sample_env 5 5)"
  have n: "open_total LogSession ?s = 1" by code_simp
  note t = sessions_within_limits[OF refl, of sample_calls telemetry_sample_env 5 5]
  have "lm_total (limiter_of LogSession ?s) = int (open_total LogSession ?s)" "int (open_total TerminalSession ?s) \<le> 5"
    using t by (simp_all add: Let_def)
  then show ?thesis using n by (simp add: Let_def limiter_of_def)
qed

lemma terminal_command_allowed_witness:
  "\<exists>res. normalize_terminal_options \<lparr> to_command = [''/bin/sh'', ''-l''], to_rows = 0, to_cols = 0 \<rparr> telemetry_sample_config = Inr res
     \<and> to_command res = [''/bin/sh'', ''-l''] \<and> list_all safe_shell_arg [''-l''] \<and> to_rows res \<le> 200"
proof -
  let ?o = "\<lparr> to_command = [''/bin/sh'', ''-l''], to_rows = 24, to_cols = 80 \<rparr>"
  have r: "normalize_terminal_options \<lparr> to_command = [''/bin/sh'', ''-l''], to_rows = 0, to_cols = 0 \<rparr> telemetry_sample_config = Inr ?o"
    by code_simp
  have "is_shell_command ''/bin/sh''" by code_simp
  then show ?thesis using terminal_command_allowed[OF r] r by simp
qed

text \<open>A shell command line is refused.\<close>

lemma shell_line_refused:
  "normalize_terminal_options \<lparr> to_command = [''/bin/sh'', ''-c''], to_rows = 0, to_cols = 0 \<rparr> telemetry_sample_config
     = Inl (mk_err ErrForbidden ''shell argument is not allowed'')"
  by code_simp


text \<open>
  The framing of a log stream: what is written for the items of a log can be taken apart into them again,
  whatever bytes the lines hold.
\<close>

section \<open>Line feeds\<close>

lemma replace_all_absent: "hd pat \<notin> set s \<Longrightarrow> replace_all pat new s = s"
proof (induction pat new s rule: replace_all.induct)
  case (1 pat new s)
  show ?case
  proof (cases "pat = [] \<or> s = []")
    case True
    then show ?thesis by (subst replace_all.simps) simp
  next
    case False
    then have "\<not> has_prefix s pat" using 1(3) by (cases pat; cases s) (auto simp: has_prefix_iff)
    moreover have "hd pat \<notin> set (tl s)" using 1(3) False by (cases s) auto
    ultimately show ?thesis using 1(2) False by (subst replace_all.simps) simp
  qed
qed

lemma replace_all_single: "c \<notin> set new \<Longrightarrow> c \<notin> set (replace_all [c] new s)"
proof (induction "[c]" new s rule: replace_all.induct)
  case (1 new s)
  show ?case
  proof (cases s)
    case Nil
    then show ?thesis by (subst replace_all.simps) simp
  next
    case (Cons x xs)
    then show ?thesis using 1 by (subst replace_all.simps) (auto simp: has_prefix_iff)
  qed
qed

lemma line_feeds_no_cr: "CHR 0x0D \<notin> set (line_feeds s)"
  unfolding line_feeds_def by (rule replace_all_single) (simp add: newline_def)

lemma line_feeds_absent: "CHR 0x0D \<notin> set s \<Longrightarrow> line_feeds s = s"
  by (simp add: line_feeds_def replace_all_absent)

section \<open>Lines\<close>

lemma split_line: "newline \<notin> set l \<Longrightarrow> split_on newline (l @ newline # s) = l # split_on newline s"
  by (induction l) auto

lemma split_lines:
  "\<forall>l \<in> set ls. newline \<notin> set l \<Longrightarrow> split_on newline (concat (map (\<lambda>l. l @ [newline]) ls) @ s) = ls @ split_on newline s"
  by (induction ls) (simp_all add: split_line)

lemma split_not_nil [simp]: "split_on d s \<noteq> []"
  by (induction s) (auto split: list.splits)

lemma concat_split: "concat (map (\<lambda>l. l @ [d]) (split_on d s)) = s @ [d]"
proof (induction s)
  case (Cons c s)
  then show ?case by (cases "split_on d s") auto
qed simp

section \<open>Interpreting what is written\<close>

text \<open>The lines one event is written as.\<close>

definition sse_lines :: "string \<Rightarrow> string \<Rightarrow> string list" where
  "sse_lines event data = [''event: '' @ event] @ (if data = [] then [] else map (\<lambda>l. ''data: '' @ l) (split_on newline (line_feeds data))) @ [[]]"

lemma write_sse_lines: "write_sse event data = concat (map (\<lambda>l. l @ [newline]) (sse_lines event data))"
  by (simp add: write_sse_def sse_lines_def comp_def)

lemma sse_lines_plain:
  assumes "newline \<notin> set event" and "l \<in> set (sse_lines event data)"
  shows "newline \<notin> set l"
  using assms split_on_parts[of _ newline "line_feeds data"] by (auto simp: sse_lines_def newline_def split: if_splits)

text \<open>
  The stream taken apart again.  A blank line ends a frame; a frame has the name its event line gives
  and the texts of its data lines, put together with line feeds; a line that begins with a colon is a
  comment.
\<close>

fun frames_of_lines :: "string \<Rightarrow> string list \<Rightarrow> string list \<Rightarrow> (string \<times> string option) list" where
  "frames_of_lines name texts [] = []"
| "frames_of_lines name texts (l # ls) =
     (if l = [] then (name, if texts = [] then None else Some (join_with [newline] texts)) # frames_of_lines [] [] ls
      else if has_prefix l ''event: '' then frames_of_lines (drop 7 l) texts ls
      else if has_prefix l ''data: '' then frames_of_lines name (texts @ [drop 6 l]) ls
      else frames_of_lines name texts ls)"

definition frames_of :: "string \<Rightarrow> (string \<times> string option) list" where
  "frames_of stream = frames_of_lines [] [] (butlast (split_on newline stream))"

lemma frames_data:
  "frames_of_lines name texts (map (\<lambda>l. ''data: '' @ l) ds @ ls) = frames_of_lines name (texts @ ds) ls"
  by (induction ds arbitrary: texts) (simp_all add: has_prefix_def)

lemma frames_event:
  "frames_of_lines [] [] (sse_lines event data @ ls)
     = (event, if data = [] then None else Some (line_feeds data)) # frames_of_lines [] [] ls"
  by (simp add: sse_lines_def has_prefix_def frames_data)

section \<open>The round trip\<close>

text \<open>The lines of the whole stream, and the events its items stand for.\<close>

fun stream_lines :: "log_item list \<Rightarrow> string list" where
  "stream_lines [] = []"
| "stream_lines (LogDone # items) = []"
| "stream_lines (LogHeartbeat # items) = '': heartbeat'' # [] # stream_lines items"
| "stream_lines (LogLine l # items) = sse_lines ''log'' l @ stream_lines items"
| "stream_lines (LogClosed e # items) =
     (case e of None \<Rightarrow> [] | Some err \<Rightarrow> if err = CtxCanceled then []
        else sse_lines ''error'' (safe_message (Some (Sentinel ErrInternal)))) @ sse_lines ''end'' []"

fun stream_frames :: "log_item list \<Rightarrow> (string \<times> string option) list" where
  "stream_frames [] = []"
| "stream_frames (LogDone # items) = []"
| "stream_frames (LogHeartbeat # items) = ([], None) # stream_frames items"
| "stream_frames (LogLine l # items) = (''log'', if l = [] then None else Some (line_feeds l)) # stream_frames items"
| "stream_frames (LogClosed e # items) =
     (if e = None \<or> e = Some CtxCanceled then [] else [(''error'', Some ''internal server error'')]) @ [(''end'', None)]"

lemma stream_written: "write_log_events items = concat (map (\<lambda>l. l @ [newline]) (stream_lines items))"
  by (induction items rule: stream_lines.induct) (auto simp: write_sse_lines split: option.split)

lemma stream_lines_plain: "l \<in> set (stream_lines items) \<Longrightarrow> newline \<notin> set l"
  by (induction items rule: stream_lines.induct)
    (auto simp: newline_def dest!: sse_lines_plain[rotated] split: option.splits if_splits)

lemma sse_lines_no_cr:
  assumes "CHR 0x0D \<notin> set event" and "l \<in> set (sse_lines event data)"
  shows "CHR 0x0D \<notin> set l"
proof -
  have "CHR 0x0D \<notin> set w" if "w \<in> set (split_on newline (line_feeds data))" for w
  proof
    assume "CHR 0x0D \<in> set w"
    then have "CHR 0x0D \<in> set (concat (map (\<lambda>l. l @ [newline]) (split_on newline (line_feeds data))))" using that by auto
    then show False using line_feeds_no_cr[of data] by (simp add: concat_split newline_def)
  qed
  then show ?thesis using assms by (auto simp: sse_lines_def split: if_splits)
qed

lemma stream_no_cr: "CHR 0x0D \<notin> set (write_log_events items)"
proof -
  have "CHR 0x0D \<notin> set l" if "l \<in> set (stream_lines items)" for l
    using that by (induction items rule: stream_lines.induct)
      (auto dest!: sse_lines_no_cr[rotated] split: option.splits if_splits)
  then show ?thesis unfolding stream_written by (auto simp: newline_def)
qed

lemma frames_stream: "frames_of_lines [] [] (stream_lines items) = stream_frames items"
proof (induction items rule: stream_lines.induct)
  case (5 e items)
  have "safe_message (Some (Sentinel ErrInternal)) = ''internal server error''" "line_feeds ''internal server error'' = ''internal server error''" by code_simp+
  then show ?case
    using frames_event[of "''error''" "safe_message (Some (Sentinel ErrInternal))" "sse_lines ''end'' []"]
      frames_event[of "''end''" "[]" "[]"]
    by (auto split: option.split)
qed (simp_all add: frames_event has_prefix_def)

text \<open>
  C33. Whatever bytes the lines of a log hold, the stream that is written for them comes apart into
  exactly one frame per item, in their order: for a line a frame log with the bytes of the line, its
  carriage returns as line feeds; for a heartbeat a comment; for the end, an error frame when the log
  was cut off, with a fixed text, and a frame end without data.  There is no carriage return in it, so
  line feeds are its only line ends.  Two logs that are written alike therefore have the same lines, and
  no line can pass for the end of its frame or for another event.
\<close>

theorem log_stream_round_trip:
  "frames_of (write_log_events items) = stream_frames items \<and> CHR 0x0D \<notin> set (write_log_events items)"
proof -
  have f: "frames_of (write_log_events items) = stream_frames items" for items
  proof -
    have "split_on newline (write_log_events items) = stream_lines items @ [[]]"
      using split_lines[of "stream_lines items" "[]"] stream_lines_plain stream_written by auto
    then show ?thesis by (simp add: frames_of_def frames_stream)
  qed
  then show ?thesis using stream_no_cr by metis
qed

text \<open>A line that looks like the end of the log stays a line.\<close>

lemma forged_end_is_a_line:
  "frames_of (write_log_events [LogLine (''x'' @ [newline, newline] @ ''event: end'' @ [newline, newline])])
     = [(''log'', Some (''x'' @ [newline, newline] @ ''event: end'' @ [newline, newline]))]"
  by code_simp

end
