(* ===== verification/DockerAdapter.thy ===== *)
theory DockerAdapter
  imports GatewayProxy GoFloat
begin

text \<open>
  The Docker adapter of the core service (internal/core/infrastructure/docker/adapter.go): what each
  call of the services asks of the Docker engine, and what it makes of the answers.  The engine is a
  log of the requests that took effect; its answers, its failures and the context come from the
  environment at a clock of requests.  The uuids of a specification are turned into text by the
  environment.
\<close>

section \<open>What the client library takes and answers\<close>

record docker_mount =
  mt_type :: string
  mt_source :: string
  mt_target :: string
  mt_ro :: bool

record docker_resources =
  dr_memory :: int
  dr_swap :: int
  dr_reservation :: int
  dr_shares :: int
  dr_quota :: int
  dr_period :: int
  dr_pids :: "int option"

record host_config =
  hf_network :: string
  hf_security :: "string list"
  hf_cap_drop :: "string list"
  hf_resources :: docker_resources
  hf_mounts :: "docker_mount list"
  hf_log_type :: string
  hf_log_config :: "(string \<times> string) list"
  hf_storage :: "(string \<times> string) list"
  hf_restart :: string

record container_config =
  cf_image :: string
  cf_env :: "string list"
  cf_labels :: "(string \<times> string) list"
  cf_cmd :: "string list"
  cf_entrypoint :: "string list"
  cf_health :: "healthcheck option"

datatype docker_request =
    NetworkCreate string
  | NetworkConnect string string
  | NetworkRemove string
  | ContainerCreate container_config host_config "string list" string string
  | ContainerStart string
  | ContainerStop string int
  | ContainerRemove string bool
  | ContainerUpdate string docker_resources
  | VolumeCreate string "(string \<times> string) list"
  | VolumeRemove string bool
  | ImagePull string
  | ImageRemove string bool bool
  | ImagesPrune string
  | BuildCachePrune string
  | ExecCreate string "string list"
  | ExecStart string
  | ExecTerminal string "string list" nat nat
  | ExecAttach string nat nat
  | ExecResize string nat nat
  | ContainerCopy string string string

record container_json =
  cj_name :: string
  cj_config :: "container_config option"
  cj_memory :: int
  cj_reservation :: int
  cj_shares :: int
  cj_quota :: int
  cj_period :: int
  cj_restart :: string
  cj_running :: bool
  cj_status :: string
  cj_exit_code :: int
  cj_oom_killed :: bool
  cj_health_status :: "string option"
  cj_mounts :: "(docker_mount \<times> string) list"

text \<open>
  An entry of a directory walk: a directory, a file with its size, the error it was visited with, or a
  file whose size cannot be read.
\<close>

datatype walk_entry = WalkDir | WalkFile int | WalkError goerr | WalkInfoError goerr

record stats_json =
  sj_memory_usage :: int
  sj_memory_limit :: int
  sj_total :: "64 word"
  sj_system :: "64 word"
  sj_pre_total :: "64 word"
  sj_pre_system :: "64 word"
  sj_percpu :: "64 word list"
  sj_online :: nat
  sj_networks :: "(int \<times> int) list"

record docker_env =
  de_fault :: "nat \<Rightarrow> goerr option"
  de_ctx :: "nat \<Rightarrow> goerr option"
  de_networks :: "nat \<Rightarrow> string \<Rightarrow> (string \<times> string) list"
  de_new_id :: "nat \<Rightarrow> string"
  de_inspect :: "nat \<Rightarrow> string \<Rightarrow> container_json"
  de_mountpoint :: "nat \<Rightarrow> string \<Rightarrow> string"
  de_walk :: "nat \<Rightarrow> string \<Rightarrow> (goerr option \<times> walk_entry) list"
  de_exec :: "nat \<Rightarrow> string \<Rightarrow> bool \<times> int"
  de_stats :: "nat \<Rightarrow> string \<Rightarrow> stats_json"
  de_text :: "id \<Rightarrow> string"

record docker =
  dk_env :: docker_env
  dk_tick :: nat
  dk_log :: "docker_request list"
  dk_prefix :: string

type_synonym 'a docker_meth = "(docker, 'a) meth"

section \<open>Requests\<close>

text \<open>A read, and a request that either fails without effect or takes effect and is answered.\<close>

definition docker_read :: "(docker_env \<Rightarrow> nat \<Rightarrow> 'a) \<Rightarrow> 'a docker_meth" where
  "docker_read f d = (let n = dk_tick d; d' = d\<lparr>dk_tick := Suc n\<rparr> in
     case de_fault (dk_env d) n of Some e \<Rightarrow> (Inl e, d') | None \<Rightarrow> (Inr (f (dk_env d) n), d'))"

definition docker_send :: "(string \<Rightarrow> docker_request) \<Rightarrow> string docker_meth" where
  "docker_send r d = (let n = dk_tick d; i = de_new_id (dk_env d) n; d' = d\<lparr>dk_tick := Suc n\<rparr> in
     case de_fault (dk_env d) n of Some e \<Rightarrow> (Inl e, d') | None \<Rightarrow> (Inr i, d'\<lparr>dk_log := dk_log d @ [r i]\<rparr>))"

definition docker_do :: "docker_request \<Rightarrow> unit docker_meth" where
  "docker_do r = seq (docker_send (\<lambda>_. r)) (\<lambda>_. ret ())"

section \<open>Networks\<close>

definition find_user_network :: "string \<Rightarrow> string docker_meth" where
  "find_user_network name =
     seq (docker_read (\<lambda>e n. de_networks e n name)) (\<lambda>ns.
     ret (case find (\<lambda>x. fst x = name) ns of Some x \<Rightarrow> snd x | None \<Rightarrow> []))"

definition ensure_user_network :: "string \<Rightarrow> string docker_meth" where
  "ensure_user_network name =
     seq (find_user_network name) (\<lambda>i.
     if i \<noteq> [] then ret i
     else on_error (docker_send (\<lambda>_. NetworkCreate name)) (\<lambda>e.
       seq (attempt (find_user_network name)) (\<lambda>r. case r of
         Inr j \<Rightarrow> if j \<noteq> [] then ret j else fail e
       | Inl _ \<Rightarrow> fail e)))"

definition remove_network :: "string \<Rightarrow> unit docker_meth" where
  "remove_network name = on_error (docker_do (NetworkRemove name)) (\<lambda>e. if is_docker_not_found e then ret () else fail e)"

section \<open>Containers\<close>

definition itoa :: "int \<Rightarrow> string" where
  "itoa n = (if n < 0 then CHR ''-'' # nat_text (nat (- n)) else nat_text (nat n))"

definition runtime_labels :: "(id \<Rightarrow> string) \<Rightarrow> runtime_spec \<Rightarrow> (string \<times> string) list" where
  "runtime_labels txt p =
     [(''managed_by'', ''docker-cloud-manager''), (''dcm.resource_type'', ''container''),
      (''dcm.container_id'', txt (rs_container p)), (''dcm.owner_id'', txt (rs_owner p)),
      (''dcm.generation'', itoa (rs_generation p))]
     @ (case rs_project p of None \<Rightarrow> [] | Some q \<Rightarrow> [(''dcm.project_id'', txt q)])
     @ (if rs_domain p \<noteq> [] \<and> rs_port p \<noteq> 0 then
         [(''traefik.enable'', ''true''),
          (''traefik.http.routers.'' @ rs_name p @ ''.rule'', ''Host('' @ [CHR 0x60] @ rs_domain p @ [CHR 0x60] @ '')''),
          (''traefik.http.services.'' @ rs_name p @ ''.loadbalancer.server.port'', itoa (rs_port p)),
          (''traefik.docker.network'', rs_proxy_network p)]
        else [])"

text \<open>int64(float64(limit) * multiplier)\<close>

definition memory_swap :: "int \<Rightarrow> rat \<Rightarrow> int" where
  "memory_swap limit m = f64_to_int (f64_mul (f64_of_int limit) m)"

definition host_config_of :: "runtime_spec \<Rightarrow> host_config" where
  "host_config_of p = \<lparr> hf_network = rs_network p, hf_security = [''no-new-privileges:true''], hf_cap_drop = [''NET_RAW''],
     hf_resources = \<lparr> dr_memory = rs_memory_limit p, dr_swap = memory_swap (rs_memory_limit p) (rs_memory_swap p),
       dr_reservation = rs_memory_reservation p, dr_shares = rs_cpu_shares p, dr_quota = rs_cpu_quota p,
       dr_period = rs_cpu_period p, dr_pids = Some (rs_pids_limit p) \<rparr>,
     hf_mounts = map (\<lambda>m. \<lparr> mt_type = ''volume'', mt_source = ms_volume_name m, mt_target = ms_target m, mt_ro = ms_ro m \<rparr>) (rs_mounts p),
     hf_log_type = ''json-file'', hf_log_config = [(''max-size'', rs_max_log_size p), (''max-file'', rs_max_log_files p)],
     hf_storage = (if rs_storage_quota p \<noteq> [] then [(''size'', rs_storage_quota p)] else []),
     hf_restart = rs_restart p \<rparr>"

definition container_config_of :: "(id \<Rightarrow> string) \<Rightarrow> runtime_spec \<Rightarrow> container_config" where
  "container_config_of txt p = \<lparr> cf_image = rs_image p, cf_env = rs_env p, cf_labels = runtime_labels txt p,
     cf_cmd = rs_command p, cf_entrypoint = rs_entrypoint p, cf_health = rs_health p \<rparr>"

definition docker_create_container :: "runtime_spec \<Rightarrow> string docker_meth" where
  "docker_create_container p d =
     seq (docker_send (ContainerCreate (container_config_of (de_text (dk_env d)) p) (host_config_of p)
            (if rs_alias p \<noteq> [] then [rs_alias p] else []) (rs_name p))) (\<lambda>i.
     if rs_domain p \<noteq> [] \<and> rs_port p \<noteq> 0 then
       on_error (seq (docker_do (NetworkConnect (rs_proxy_network p) i)) (\<lambda>_. ret i)) (\<lambda>e.
         seq (ignore (docker_do (ContainerRemove i True))) (\<lambda>_. fail e))
     else ret i) d"

definition start_container :: "string \<Rightarrow> unit docker_meth" where
  "start_container i = docker_do (ContainerStart i)"

definition stop_container :: "string \<Rightarrow> int \<Rightarrow> unit docker_meth" where
  "stop_container i timeout = docker_do (ContainerStop i timeout)"

definition remove_container :: "string \<Rightarrow> bool \<Rightarrow> unit docker_meth" where
  "remove_container i force = docker_do (ContainerRemove i force)"

definition update_container_resources :: "string \<Rightarrow> resource_update \<Rightarrow> unit docker_meth" where
  "update_container_resources i r = docker_do (ContainerUpdate i
     \<lparr> dr_memory = ru_memory_limit r, dr_swap = memory_swap (ru_memory_limit r) (ru_memory_swap r),
       dr_reservation = ru_memory_reservation r, dr_shares = ru_cpu_shares r, dr_quota = ru_cpu_quota r,
       dr_period = ru_cpu_period r, dr_pids = None \<rparr>)"

text \<open>The second component of a mount is the name of its volume.\<close>

definition inspection_of :: "container_json \<Rightarrow> inspection" where
  "inspection_of j = \<lparr> in_name = cj_name j,
     in_image = (case cj_config j of Some c \<Rightarrow> cf_image c | None \<Rightarrow> []),
     in_env = (case cj_config j of Some c \<Rightarrow> cf_env c | None \<Rightarrow> []),
     in_command = (case cj_config j of Some c \<Rightarrow> cf_cmd c | None \<Rightarrow> []),
     in_entrypoint = (case cj_config j of Some c \<Rightarrow> cf_entrypoint c | None \<Rightarrow> []),
     in_memory_limit = cj_memory j, in_memory_reservation = cj_reservation j, in_cpu_shares = cj_shares j,
     in_cpu_quota = cj_quota j, in_cpu_period = cj_period j, in_restart = cj_restart j,
     in_mounts = map (\<lambda>(m, name). \<lparr> ms_volume_name = name, ms_target = mt_target m, ms_ro = mt_ro m \<rparr>)
       (filter (\<lambda>(m, name). mt_type m = ''volume'') (cj_mounts j)),
     in_health = (case cj_config j of Some c \<Rightarrow> cf_health c | None \<Rightarrow> None),
     in_state = \<lparr> st_running = cj_running j, st_status = cj_status j, st_exit_code = cj_exit_code j,
       st_oom_killed = cj_oom_killed j, st_health = cj_health_status j \<rparr> \<rparr>"

definition inspect_container :: "string \<Rightarrow> inspection docker_meth" where
  "inspect_container i = seq (docker_read (\<lambda>e n. de_inspect e n i)) (\<lambda>j. ret (inspection_of j))"

section \<open>Volumes\<close>

definition docker_create_volume :: "volume_spec \<Rightarrow> string docker_meth" where
  "docker_create_volume v d =
     seq (docker_do (VolumeCreate (vs_name v) [(''managed_by'', ''docker-cloud-manager''), (''dcm.resource_type'', ''volume''),
        (''dcm.volume_id'', de_text (dk_env d) (vs_volume v)), (''dcm.owner_id'', de_text (dk_env d) (vs_owner v)),
        (''dcm.project_id'', (case vs_project v of None \<Rightarrow> [] | Some p \<Rightarrow> de_text (dk_env d) p))])) (\<lambda>_. ret (vs_name v)) d"

definition remove_volume :: "string \<Rightarrow> bool \<Rightarrow> unit docker_meth" where
  "remove_volume name force = docker_do (VolumeRemove name force)"

text \<open>WithHostPathPrefix\<close>

definition with_host_path_prefix :: "string \<Rightarrow> docker \<Rightarrow> docker" where
  "with_host_path_prefix path d = (let p = trim_space path in
     d\<lparr>dk_prefix := (if p = [] \<or> p = ''/'' then [] else clean_path p)\<rparr>)"

definition volume_mountpoint_path :: "string \<Rightarrow> string \<Rightarrow> string" where
  "volume_mountpoint_path prefix m =
    (if prefix = [] \<or> m = [] \<or> \<not> has_prefix m ''/'' then m
     else if clean_path m = ''/'' then prefix
     else clean_path (prefix @ ''/'' @ tl (clean_path m)))"

text \<open>An entry is visited with an error before the context is looked at.\<close>

fun walk_sizes :: "int \<Rightarrow> (goerr option \<times> walk_entry) list \<Rightarrow> goerr + int" where
  "walk_sizes acc [] = Inr acc"
| "walk_sizes acc ((ctx, x) # xs) = (case x of
      WalkError e \<Rightarrow> Inl e
    | WalkDir \<Rightarrow> (case ctx of Some e \<Rightarrow> Inl e | None \<Rightarrow> walk_sizes acc xs)
    | WalkFile n \<Rightarrow> (case ctx of Some e \<Rightarrow> Inl e | None \<Rightarrow> walk_sizes (i64 (acc + n)) xs)
    | WalkInfoError e \<Rightarrow> Inl (case ctx of Some e' \<Rightarrow> e' | None \<Rightarrow> e))"

text \<open>Each entry of the walk comes with the error of the context at that moment.\<close>

definition get_volume_usage_bytes :: "string \<Rightarrow> int docker_meth" where
  "get_volume_usage_bytes name =
     seq (docker_read (\<lambda>e n. (de_mountpoint e n name, de_walk e n))) (\<lambda>(m, walk).
     \<lambda>d. (walk_sizes 0 (walk (volume_mountpoint_path (dk_prefix d) m)), d))"

section \<open>Images\<close>

definition docker_pull_image :: "string \<Rightarrow> unit docker_meth" where
  "docker_pull_image name = docker_do (ImagePull name)"

definition remove_image :: "string \<Rightarrow> bool \<Rightarrow> unit docker_meth" where
  "remove_image i force = docker_do (ImageRemove i force True)"

definition image_exists :: "string \<Rightarrow> bool docker_meth" where
  "image_exists tag = on_error (seq (docker_read (\<lambda>e n. ())) (\<lambda>_. ret True)) (\<lambda>e.
     if is_docker_not_found e then ret False else fail e)"

definition prune_system :: "unit docker_meth" where
  "prune_system = seq (docker_do (ImagesPrune ''24h'')) (\<lambda>_. docker_do (BuildCachePrune ''24h''))"

text \<open>The loop ends when the context or the command does; None stands for a loop that never ends.\<close>

partial_function (option) wait_exec :: "string \<Rightarrow> docker \<Rightarrow> ((goerr + unit) \<times> docker) option" where
  "wait_exec i d = (case de_ctx (dk_env d) (dk_tick d) of
       Some e \<Rightarrow> Some (Inl e, d)
     | None \<Rightarrow> (case docker_read (\<lambda>e n. de_exec e n i) d of
           (Inl e, d') \<Rightarrow> Some (Inl e, d')
         | (Inr (running, exit_code), d') \<Rightarrow>
             if \<not> running then Some (if exit_code \<noteq> 0 then Inl (OtherErr ''registry gc exited with non-zero code'') else Inr (), d')
             else wait_exec i d'))"

definition run_registry_garbage_collect :: "string \<Rightarrow> docker \<Rightarrow> ((goerr + unit) \<times> docker) option" where
  "run_registry_garbage_collect name d =
    (case docker_send (\<lambda>_. ExecCreate name [''/bin/registry'', ''garbage-collect'', ''/etc/docker/registry/config.yml'', ''--delete-untagged=true'']) d of
       (Inl e, d') \<Rightarrow> Some (Inl e, d')
     | (Inr i, d') \<Rightarrow> (case docker_do (ExecStart i) d' of
           (Inl e, d2) \<Rightarrow> Some (Inl e, d2)
         | (Inr _, d2) \<Rightarrow> wait_exec i d2))"

section \<open>Events\<close>

record docker_event =
  dv_type :: string
  dv_action :: string
  dv_actor :: string
  dv_attributes :: "string \<Rightarrow> string"

text \<open>An attribute that is absent is the empty string, which no conversion accepts; the worker reads the uuid.\<close>

definition container_event_of :: "(string \<Rightarrow> id option) \<Rightarrow> docker_event \<Rightarrow> container_event" where
  "container_event_of parse m = \<lparr> ev_type = dv_type m, ev_action = dv_action m, ev_docker_id = dv_actor m,
     ev_container = parse (dv_attributes m ''dcm.container_id''),
     ev_generation = (case atoi (dv_attributes m ''dcm.generation'') of Some g \<Rightarrow> g | None \<Rightarrow> 0),
     ev_exit_code = atoi (dv_attributes m ''exitCode''),
     ev_oom_killed = (case parse_bool (dv_attributes m ''oomKilled'') of Some b \<Rightarrow> b | None \<Rightarrow> False) \<rparr>"

section \<open>Statistics\<close>

record container_stats =
  cs_cpu :: rat
  cs_memory_usage :: int
  cs_memory_limit :: int
  cs_rx :: int
  cs_tx :: int

text \<open>The differences of the counters are taken on 64 bits without sign before they are converted.\<close>

definition cpu_percent :: "stats_json \<Rightarrow> rat" where
  "cpu_percent v =
    (let cpu = f64_of_int (uint (sj_total v - sj_pre_total v)); sys = f64_of_int (uint (sj_system v - sj_pre_system v)) in
     if sys > 0 \<and> cpu > 0 then
       (if sj_percpu v \<noteq> [] then f64_mul (f64_mul (f64_div cpu sys) (f64_of_int (int (length (sj_percpu v))))) 100
        else if sj_online v > 0 then f64_mul (f64_mul (f64_div cpu sys) (f64_of_int (int (sj_online v)))) 100
        else 0)
     else 0)"

definition stats_of :: "stats_json \<Rightarrow> container_stats" where
  "stats_of v = \<lparr> cs_cpu = cpu_percent v, cs_memory_usage = sj_memory_usage v, cs_memory_limit = sj_memory_limit v,
     cs_rx = foldl (\<lambda>a x. i64 (a + fst x)) 0 (sj_networks v), cs_tx = foldl (\<lambda>a x. i64 (a + snd x)) 0 (sj_networks v) \<rparr>"

definition docker_container_stats :: "string \<Rightarrow> container_stats docker_meth" where
  "docker_container_stats i = seq (docker_read (\<lambda>e n. de_stats e n i)) (\<lambda>v. ret (stats_of v))"

section \<open>Numbers as text and back\<close>

lemma digit_of_nat: "(n :: nat) < 10 \<Longrightarrow> is_digit (char_of (48 + n)) \<and> (of_char (char_of (48 + n)) :: nat) = 48 + n"
proof -
  assume "n < 10"
  then have "n \<in> set [0..<10]" by simp
  moreover have "list_all (\<lambda>n. is_digit (char_of (48 + n)) \<and> (of_char (char_of (48 + n)) :: nat) = 48 + n) [0..<10]" by code_simp
  ultimately show ?thesis unfolding list_all_iff by blast
qed

lemma nat_text_digits: "list_all is_digit (nat_text n) \<and> nat_text n \<noteq> []"
proof (induction n rule: nat_text.induct)
  case (1 n)
  then show ?case using digit_of_nat[of n] digit_of_nat[of "n mod 10"]
    by (subst (1 2) nat_text.simps) auto
qed

lemma nat_text_value: "foldl (\<lambda>a c. a * 10 + (int (of_char c) - 48)) 0 (nat_text n) = int n"
proof (induction n rule: nat_text.induct)
  case (1 n)
  have d: "(of_char (char_of (48 + n mod 10)) :: nat) = 48 + n mod 10" "n < 10 \<Longrightarrow> (of_char (char_of (48 + n)) :: nat) = 48 + n"
    using digit_of_nat[of "n mod 10"] digit_of_nat[of n] by auto
  have c: "int (of_char x) = (of_char x :: int)" for x :: char by (simp add: of_char_def)
  show ?case
    using 1 d by (subst nat_text.simps) (auto simp: zdiv_int zmod_int)
qed

lemma atoi_itoa: "in_i64 n \<Longrightarrow> atoi (itoa n) = Some n"
proof -
  assume n: "in_i64 n"
  have first: "\<not> has_prefix (nat_text k) ''-'' \<and> \<not> has_prefix (nat_text k) ''+''" for k
  proof -
    have "hd (nat_text k) \<noteq> CHR ''-'' \<and> hd (nat_text k) \<noteq> CHR ''+''"
      using nat_text_digits[of k] by (cases "nat_text k") (auto simp: is_digit_def less_eq_char_simp)
    then show ?thesis using nat_text_digits[of k] by (cases "nat_text k") (auto simp: has_prefix_def)
  qed
  show ?thesis
  proof (cases "n < 0")
    case True
    then show ?thesis using n first[of "nat (- n)"] nat_text_digits[of "nat (- n)"] nat_text_value[of "nat (- n)"]
      by (auto simp: atoi_def itoa_def Let_def has_prefix_def)
  next
    case False
    then show ?thesis using n first[of "nat n"] nat_text_digits[of "nat n"] nat_text_value[of "nat n"]
      by (auto simp: atoi_def itoa_def Let_def)
  qed
qed

end
