(* ===== verification/Reports.thy ===== *)
theory Reports
  imports ContainerService DockerAdapter
begin

text \<open>
  Monitoring and usage reports of the core service: the statistics of a user and of the host
  (internal/core/service/stats.go), the snapshots of usage (repository/report_snapshot.go), the report
  service (service/report.go) with its gRPC mapping (grpc/report.go, grpc/stats.go), and the redaction
  of audit details (pkg/auditlog).  The host metrics that admission does not use, the statistics of
  running containers, the directory of users and the store of reports are parameters.
\<close>

section \<open>Statistics (service/stats.go)\<close>

record user_stats =
  us_containers :: int
  us_running :: int
  us_containers_quota :: int
  us_ram_used :: int
  us_ram_quota :: int
  us_disk_used :: int
  us_disk_quota :: int
  us_volumes :: int
  us_volumes_quota :: int
  us_images :: int
  us_projects :: int

record system_monitoring =
  sm_cpu :: rat
  sm_memory_total :: int
  sm_memory_used :: int
  sm_memory_available :: int
  sm_disk_total :: int
  sm_disk_used :: int
  sm_disk_free :: int
  sm_reserved :: int
  sm_reserved_builds :: int
  sm_dcm_disk :: int
  sm_min_free_disk :: int
  sm_admission :: string
  sm_reasons :: "string list"
  sm_containers :: status_counts
  sm_volumes :: int
  sm_images :: int
  sm_builds :: int
  sm_projects :: int
  sm_observed :: instant

text \<open>The load of the processors, the used and the available memory, the whole and the used disk.\<close>

record host_metrics =
  hm_cpu :: "nat \<Rightarrow> rat"
  hm_memory :: "nat \<Rightarrow> int \<times> int"
  hm_disk :: "nat \<Rightarrow> int \<times> int"

definition owned_by :: "id \<Rightarrow> list_options" where
  "owned_by owner = \<lparr> lo_owner = Some owner, lo_project = None, lo_limit = 0, lo_offset = 0 \<rparr>"

definition get_user_stats :: "scope option \<Rightarrow> user_stats act" where
  "get_user_stats ctx =
    (case require_user_owner ctx of Inl e \<Rightarrow> fail e | Inr owner \<Rightarrow>
     seq get_config (\<lambda>cfg.
     seq (ask (\<lambda>e n. e_user e n owner)) (\<lambda>u.
     seq (query (get_user_reserved_memory owner)) (\<lambda>ram.
     seq (query (count_by_owner owner)) (\<lambda>containers.
     seq (query (list_containers (owned_by owner))) (\<lambda>(cs, _).
     seq (query (get_user_used_disk owner)) (\<lambda>disk.
     seq (query (get_user_volume_bytes owner)) (\<lambda>bytes.
     seq (query (list_images (owned_by owner))) (\<lambda>(_, images).
     seq (query (count_volumes_by_owner owner)) (\<lambda>volumes.
     seq (query (list_projects (owned_by owner))) (\<lambda>(_, projects).
     ret \<lparr> us_containers = containers, us_running = int (rows_affected (\<lambda>c. c_status c = CRunning) cs),
       us_containers_quota = g_max_containers cfg, us_ram_used = ram, us_ram_quota = i64 (i64 (ui_quota_ram_mb u * 1024) * 1024),
       us_disk_used = i64 (disk + bytes_to_mb bytes), us_disk_quota = ui_quota_disk_mb u, us_volumes = volumes,
       us_volumes_quota = g_max_volumes cfg, us_images = int images, us_projects = int projects \<rparr>)))))))))))"

definition admission_state :: "int \<Rightarrow> int \<Rightarrow> config \<Rightarrow> int \<Rightarrow> string \<times> string list" where
  "admission_state total_memory disk_free cfg reserved =
    (let reasons = (if ensure_host_memory_admission total_memory cfg reserved (g_default_memory cfg) \<noteq> None then [''host_memory_exhausted''] else [])
           @ (if g_min_free_disk cfg > 0 \<and> disk_free < g_min_free_disk cfg then [''host_disk_floor''] else [])
     in (if reasons \<noteq> [] then ''blocked'' else ''open'', reasons))"

definition get_system_monitoring :: "host_metrics \<Rightarrow> system_monitoring act" where
  "get_system_monitoring hm =
     seq (ask (\<lambda>e n. hm_cpu hm n)) (\<lambda>cpu.
     seq (ask (\<lambda>e n. (e_total_memory e n, hm_memory hm n))) (\<lambda>(total_memory, used_memory, available).
     seq (ask (\<lambda>e n. (e_free_disk e n, hm_disk hm n))) (\<lambda>(disk_free, disk_total, disk_used).
     seq (query get_total_reserved_memory) (\<lambda>reserved.
     seq (query count_active_builds) (\<lambda>builds.
     seq get_config (\<lambda>cfg.
     let reserved_builds = i64 (builds * g_build_memory cfg); all_reserved = i64 (reserved + reserved_builds) in
     seq (query get_total_used_disk) (\<lambda>image_mb.
     seq (query get_total_volume_bytes) (\<lambda>volume_bytes.
     seq (query get_status_counts) (\<lambda>counts.
     seq (query count_volumes) (\<lambda>volumes.
     seq (query count_images) (\<lambda>images.
     seq (query count_builds) (\<lambda>all_builds.
     seq (query (\<lambda>d. Inr (length (t_projects d)))) (\<lambda>projects.
     let st = admission_state total_memory disk_free cfg all_reserved in
     seq now (\<lambda>t.
     ret \<lparr> sm_cpu = cpu, sm_memory_total = total_memory, sm_memory_used = used_memory, sm_memory_available = available,
       sm_disk_total = disk_total, sm_disk_used = disk_used, sm_disk_free = disk_free, sm_reserved = reserved,
       sm_reserved_builds = reserved_builds, sm_dcm_disk = i64 (i64 (image_mb * 1048576) + volume_bytes),
       sm_min_free_disk = g_min_free_disk cfg, sm_admission = fst st, sm_reasons = snd st, sm_containers = counts,
       sm_volumes = int volumes, sm_images = int images, sm_builds = int all_builds, sm_projects = int projects,
       sm_observed = t \<rparr>))))))))))))))"

text \<open>The statistics of one container (container_query.go); stats is what the Docker adapter answers.\<close>

definition no_stats :: container_stats where
  "no_stats = \<lparr> cs_cpu = 0, cs_memory_usage = 0, cs_memory_limit = 0, cs_rx = 0, cs_tx = 0 \<rparr>"

definition get_stats :: "(nat \<Rightarrow> string \<Rightarrow> container_stats) \<Rightarrow> scope option \<Rightarrow> id \<Rightarrow> container_stats act" where
  "get_stats stats ctx cid =
     seq (query (get_container cid)) (\<lambda>c.
     seq (check (require_owner_access ctx (c_owner c))) (\<lambda>_.
     if c_status c = CMissing then fail (resource_unavailable ''container'')
     else if c_status c \<noteq> CRunning then ret no_stats
     else on_error (ask (\<lambda>e n. stats n (c_docker_id c))) (\<lambda>e.
       if is_docker_not_found e then
         seq (mark_container_error cid CMissing (resource_missing ''container'')) (\<lambda>_. fail (resource_unavailable ''container''))
       else fail e)))"

section \<open>Snapshots of usage (repository/report_snapshot.go)\<close>

record usage_snapshot =
  sn_owner :: id
  sn_username :: string
  sn_bucket :: instant
  sn_collected :: instant
  sn_memory :: int
  sn_reserved :: int
  sn_cpu :: rat
  sn_image_disk :: int
  sn_volume_disk :: int
  sn_total_disk :: int
  sn_containers :: nat
  sn_running :: nat
  sn_volumes :: nat
  sn_images :: nat
  sn_builds :: nat
  sn_projects :: nat

definition snapshot_owners :: "db \<Rightarrow> id list" where
  "snapshot_owners d = sort (remdups (map c_owner (t_containers d) @ map v_owner (t_volumes d) @ map i_owner (t_images d)
     @ map b_owner (t_builds d) @ map p_owner (t_projects d)))"

text \<open>The row of an owner; a sum outside of the range of a bigint fails the query.\<close>

definition snapshot_row :: "instant \<Rightarrow> instant \<Rightarrow> db \<Rightarrow> id \<Rightarrow> goerr + usage_snapshot" where
  "snapshot_row bucket collected d u =
     bind_res (scan_i64 (sum_where (\<lambda>c. c_owner c = u \<and> c_status c \<noteq> CMissing \<and> c_desired c = CRunning) c_memory (t_containers d))) (\<lambda>reserved.
     bind_res (scan_i64 (sum_where (\<lambda>i. i_owner i = u) i_size_mb (t_images d) * 1048576)) (\<lambda>image_disk.
     bind_res (scan_i64 (sum_where (\<lambda>v. v_owner v = u) v_used_bytes (t_volumes d))) (\<lambda>volume_disk.
     Inr \<lparr> sn_owner = u, sn_username = [], sn_bucket = bucket, sn_collected = collected, sn_memory = 0, sn_reserved = reserved,
       sn_cpu = 0, sn_image_disk = image_disk, sn_volume_disk = volume_disk, sn_total_disk = i64 (image_disk + volume_disk),
       sn_containers = rows_affected (\<lambda>c. c_owner c = u) (t_containers d),
       sn_running = rows_affected (\<lambda>c. c_owner c = u \<and> c_status c = CRunning) (t_containers d),
       sn_volumes = rows_affected (\<lambda>v. v_owner v = u) (t_volumes d), sn_images = rows_affected (\<lambda>i. i_owner i = u) (t_images d),
       sn_builds = rows_affected (\<lambda>b. b_owner b = u) (t_builds d), sn_projects = rows_affected (\<lambda>p. p_owner p = u) (t_projects d) \<rparr>)))"

fun snapshot_rows :: "(id \<Rightarrow> goerr + usage_snapshot) \<Rightarrow> id list \<Rightarrow> goerr + usage_snapshot list" where
  "snapshot_rows f [] = Inr []"
| "snapshot_rows f (u # us) = bind_res (f u) (\<lambda>s. bind_res (snapshot_rows f us) (\<lambda>ss. Inr (s # ss)))"

definition add_runtime_usage :: "id \<Rightarrow> container_stats \<Rightarrow> usage_snapshot list \<Rightarrow> usage_snapshot list" where
  "add_runtime_usage u v = map (\<lambda>s. if sn_owner s = u
     then s\<lparr>sn_memory := i64 (sn_memory s + cs_memory_usage v), sn_cpu := f64 (sn_cpu s + cs_cpu v)\<rparr> else s)"

text \<open>The running containers are read by a statement of their own; a failing call skips its container.\<close>

fun add_runtime_usages :: "(nat \<Rightarrow> string \<Rightarrow> container_stats) \<Rightarrow> container list \<Rightarrow> usage_snapshot list \<Rightarrow> usage_snapshot list act" where
  "add_runtime_usages stats [] ss = ret ss"
| "add_runtime_usages stats (c # cs) ss =
    (if \<not> list_ex (\<lambda>s. sn_owner s = c_owner c) ss then add_runtime_usages stats cs ss
     else seq (attempt (ask (\<lambda>e n. stats n (c_docker_id c)))) (\<lambda>r. case r of
         Inl _ \<Rightarrow> add_runtime_usages stats cs ss
       | Inr v \<Rightarrow> add_runtime_usages stats cs (add_runtime_usage (c_owner c) v ss)))"

definition apply_runtime_usage :: "(nat \<Rightarrow> string \<Rightarrow> container_stats) \<Rightarrow> usage_snapshot list \<Rightarrow> usage_snapshot list act" where
  "apply_runtime_usage stats ss =
    (if ss = [] then ret ss
     else seq (attempt (query (\<lambda>d. Inr (order_by (\<lambda>c. int (c_owner c))
            (filter (\<lambda>c. c_status c = CRunning \<and> c_docker_id c \<noteq> []) (t_containers d)))))) (\<lambda>r. case r of
         Inl _ \<Rightarrow> ret ss
       | Inr cs \<Rightarrow> add_runtime_usages stats cs ss))"

definition collect_usage_snapshots :: "(nat \<Rightarrow> string \<Rightarrow> container_stats) \<Rightarrow> instant \<Rightarrow> instant \<Rightarrow> usage_snapshot list act" where
  "collect_usage_snapshots stats bucket collected =
     seq (on_error (query (\<lambda>d. snapshot_rows (snapshot_row bucket collected d) (snapshot_owners d)))
        (\<lambda>e. fail (Wrapped (''failed to collect report usage snapshots: '' @ error_text e) e)))
     (apply_runtime_usage stats)"

section \<open>Reports (service/report.go)\<close>

text \<open>An instant that is not set is None.\<close>

definition normalize_from_to :: "instant option \<Rightarrow> instant option \<Rightarrow> instant \<Rightarrow> instant \<times> instant" where
  "normalize_from_to from_time to_time t =
    (let b = (case to_time of None \<Rightarrow> t | Some x \<Rightarrow> x);
         a = (case from_time of None \<Rightarrow> b - 86400000000000 | Some x \<Rightarrow> if x < b then x else b - 86400000000000)
     in (a, b))"

definition usage_snapshot_interval :: "int \<Rightarrow> int" where
  "usage_snapshot_interval seconds =
    (let s1 = (if seconds < min_report_interval then min_report_interval else seconds);
         s2 = (if s1 > max_report_interval then max_report_interval else s1)
     in s2 * 1000000000)"

text \<open>time.Truncate counts from the first year; instants count from 1970.\<close>

definition truncate_time :: "instant \<Rightarrow> int \<Rightarrow> instant" where
  "truncate_time t d = t - (t + 62135596800 * 1000000000) mod d"

definition report_limit :: "int \<Rightarrow> int" where
  "report_limit n = (if n \<le> 0 \<or> n > 100 then 20 else n)"

definition report_offset :: "int \<Rightarrow> int" where
  "report_offset n = (if n < 0 then 0 else n)"

definition report_storage_unavailable :: "string \<Rightarrow> goerr \<Rightarrow> goerr" where
  "report_storage_unavailable message e =
     wrap_err ErrUnavailable (sentinel_text ErrUnavailable) (Wrapped (message @ '': '' @ error_text e) e)"

record report_store =
  rp_insert :: "usage_snapshot list \<Rightarrow> unit act"
  rp_users :: "id list \<Rightarrow> (id \<Rightarrow> string option) act"

definition name_snapshot :: "(id \<Rightarrow> string option) \<Rightarrow> usage_snapshot \<Rightarrow> usage_snapshot" where
  "name_snapshot names s = (case names (sn_owner s) of Some n \<Rightarrow> s\<lparr>sn_username := n\<rparr> | None \<Rightarrow> s)"

definition collect_snapshots ::
    "report_store \<Rightarrow> (nat \<Rightarrow> string \<Rightarrow> container_stats) \<Rightarrow> instant \<Rightarrow> instant \<Rightarrow> usage_snapshot list act" where
  "collect_snapshots rp stats bucket collected =
     seq (collect_usage_snapshots stats bucket collected) (\<lambda>ss.
     seq (attempt (rp_users rp (map sn_owner ss))) (\<lambda>r. case r of
         Inl _ \<Rightarrow> ret ss
       | Inr names \<Rightarrow> ret (map (name_snapshot names) ss)))"

definition collect_usage_snapshot ::
    "report_store \<Rightarrow> (nat \<Rightarrow> string \<Rightarrow> container_stats) \<Rightarrow> instant \<Rightarrow> (instant \<times> instant \<times> nat) act" where
  "collect_usage_snapshot rp stats t =
     seq get_config (\<lambda>cfg.
     let bucket = truncate_time t (usage_snapshot_interval (g_report_interval cfg)) in
     seq (collect_snapshots rp stats bucket t) (\<lambda>ss.
     seq (on_error (rp_insert rp ss) (\<lambda>e. fail (report_storage_unavailable ''failed to insert usage snapshots'' e))) (\<lambda>_.
     ret (bucket, t, length ss))))"

text \<open>The channel of requests for a refresh holds at most one; the request is answered at once.\<close>

definition refresh_usage_snapshots :: "config \<Rightarrow> instant \<Rightarrow> bool \<Rightarrow> (instant \<times> instant \<times> nat) \<times> bool" where
  "refresh_usage_snapshots cfg t pending =
     ((truncate_time t (usage_snapshot_interval (g_report_interval cfg)), t, 0), True)"

record audit_record =
  ar_id :: id
  ar_occurred :: "instant option"
  ar_actor :: "id option"
  ar_actor_name :: string
  ar_actor_scope :: string
  ar_action :: string
  ar_outcome :: string
  ar_rtype :: string
  ar_rid :: string
  ar_rname :: string
  ar_owner :: "id option"
  ar_owner_name :: string
  ar_request :: string
  ar_client :: string
  ar_agent :: string
  ar_error :: string
  ar_details :: string

definition completed_audit_event :: "id \<Rightarrow> instant \<Rightarrow> string \<Rightarrow> audit_record \<Rightarrow> audit_record" where
  "completed_audit_event fresh_id t request_id e = e\<lparr>
     ar_id := (if ar_id e = nil_id then fresh_id else ar_id e),
     ar_occurred := (case ar_occurred e of None \<Rightarrow> Some t | Some x \<Rightarrow> Some x),
     ar_actor_scope := (if ar_actor_scope e = [] then ''unknown'' else ar_actor_scope e),
     ar_outcome := (if ar_outcome e = [] then ''success'' else ar_outcome e),
     ar_details := (if ar_details e = [] then ''{}'' else ar_details e),
     ar_request := (if ar_request e = [] then request_id else ar_request e)\<rparr>"

text \<open>An error of the store of reports is only logged.\<close>

definition record_audit_event :: "(audit_record \<Rightarrow> unit act) \<Rightarrow> string \<Rightarrow> audit_record \<Rightarrow> unit act" where
  "record_audit_event store request_id e =
     seq fresh (\<lambda>i. seq now (\<lambda>t. ignore (store (completed_audit_event i t request_id e))))"

section \<open>Redaction of audit details (pkg/auditlog)\<close>

definition allowed_detail_keys :: "string list" where
  "allowed_detail_keys = [''source_type'', ''container_id'', ''container_name'', ''project_id'', ''project_name'', ''compose_service'',
     ''domain_prefix'', ''full_domain'', ''internal_port'', ''previous_domain_prefix'', ''previous_internal_port'', ''provider'', ''admin'']"

text \<open>The details that are encoded as a JSON object, each value cut to 256 bytes.\<close>

definition safe_details :: "(string \<times> string) list \<Rightarrow> (string \<times> string) list" where
  "safe_details details = map (\<lambda>(k, v). (k, if length v > 256 then take 256 v else v))
     (filter (\<lambda>(k, v). List.member allowed_detail_keys k) details)"

text \<open>marshal is the encoding of a map as a JSON object.\<close>

definition safe_details_json :: "((string \<times> string) list \<Rightarrow> string option) \<Rightarrow> (string \<times> string) list \<Rightarrow> string" where
  "safe_details_json marshal details =
    (if safe_details details = [] then ''{}''
     else case marshal (safe_details details) of None \<Rightarrow> ''{}'' | Some s \<Rightarrow> s)"

section \<open>The gRPC mapping (grpc/report.go)\<close>

definition int32_wrap :: "int \<Rightarrow> int" where
  "int32_wrap n = (n + 2 ^ 31) mod 2 ^ 32 - 2 ^ 31"

definition page_limit_offset :: "int \<Rightarrow> int \<Rightarrow> int \<times> int" where
  "page_limit_offset page_no limit0 =
    (let p = (if page_no < 1 then 1 else page_no); l = (if limit0 < 1 \<or> limit0 > 100 then 20 else limit0)
     in (l, int32_wrap (int32_wrap (p - 1) * l)))"

text \<open>A time of zero is one that is not set.\<close>

definition unix_time :: "int \<Rightarrow> instant option" where
  "unix_time v = (if v = 0 then None else Some (v * 1000000000))"

definition uuid_ptr_string :: "(id \<Rightarrow> string) \<Rightarrow> id option \<Rightarrow> string" where
  "uuid_ptr_string txt x = (case x of None \<Rightarrow> [] | Some u \<Rightarrow> txt u)"

definition parse_uuid_ptr :: "(string \<Rightarrow> id option) \<Rightarrow> string \<Rightarrow> id option" where
  "parse_uuid_ptr parse raw = (if raw = [] then None else parse raw)"

record audit_message =
  am_id :: string
  am_occurred :: int
  am_actor :: string
  am_actor_name :: string
  am_actor_scope :: string
  am_action :: string
  am_outcome :: string
  am_rtype :: string
  am_rid :: string
  am_rname :: string
  am_owner :: string
  am_owner_name :: string
  am_request :: string
  am_client :: string
  am_agent :: string
  am_error :: string
  am_details :: string

text \<open>The first instant of the first year stands for a time that is not set.\<close>

definition audit_event_to_proto :: "(id \<Rightarrow> string) \<Rightarrow> audit_record \<Rightarrow> audit_message" where
  "audit_event_to_proto txt e = \<lparr> am_id = txt (ar_id e),
     am_occurred = (case ar_occurred e of None \<Rightarrow> - 62135596800 | Some t \<Rightarrow> t div 1000000000),
     am_actor = uuid_ptr_string txt (ar_actor e), am_actor_name = ar_actor_name e, am_actor_scope = ar_actor_scope e,
     am_action = ar_action e, am_outcome = ar_outcome e, am_rtype = ar_rtype e, am_rid = ar_rid e, am_rname = ar_rname e,
     am_owner = uuid_ptr_string txt (ar_owner e), am_owner_name = ar_owner_name e, am_request = ar_request e,
     am_client = ar_client e, am_agent = ar_agent e, am_error = ar_error e, am_details = ar_details e \<rparr>"

definition audit_event_from_proto :: "(string \<Rightarrow> id option) \<Rightarrow> audit_message \<Rightarrow> goerr + audit_record" where
  "audit_event_from_proto parse m =
     bind_res (if am_id m = [] then Inr nil_id
        else case parse (am_id m) of None \<Rightarrow> Inl (invalid_argument ''invalid id format'') | Some i \<Rightarrow> Inr i) (\<lambda>i.
     Inr \<lparr> ar_id = i, ar_occurred = unix_time (am_occurred m), ar_actor = parse_uuid_ptr parse (am_actor m),
       ar_actor_name = am_actor_name m, ar_actor_scope = am_actor_scope m, ar_action = am_action m, ar_outcome = am_outcome m,
       ar_rtype = am_rtype m, ar_rid = am_rid m, ar_rname = am_rname m, ar_owner = parse_uuid_ptr parse (am_owner m),
       ar_owner_name = am_owner_name m, ar_request = am_request m, ar_client = am_client m, ar_agent = am_agent m,
       ar_error = am_error m, ar_details = am_details m \<rparr>)"

definition record_audit_event_rpc ::
    "(string \<Rightarrow> id option) \<Rightarrow> (audit_record \<Rightarrow> unit act) \<Rightarrow> string \<Rightarrow> audit_message \<Rightarrow> unit act" where
  "record_audit_event_rpc parse store request_id m = (case audit_event_from_proto parse m of
       Inl e \<Rightarrow> fail e | Inr e \<Rightarrow> reply (record_audit_event store request_id e))"

definition get_user_stats_rpc :: "scope option \<Rightarrow> user_stats act" where
  "get_user_stats_rpc ctx = guarded (require_user_scope ctx) (seq (reply (get_user_stats ctx)) (\<lambda>s.
     ret \<lparr> us_containers = int32_wrap (us_containers s), us_running = int32_wrap (us_running s),
       us_containers_quota = int32_wrap (us_containers_quota s), us_ram_used = us_ram_used s, us_ram_quota = us_ram_quota s,
       us_disk_used = int32_wrap (us_disk_used s), us_disk_quota = int32_wrap (us_disk_quota s),
       us_volumes = int32_wrap (us_volumes s), us_volumes_quota = int32_wrap (us_volumes_quota s),
       us_images = int32_wrap (us_images s), us_projects = int32_wrap (us_projects s) \<rparr>))"

text \<open>The numbers of containers by status are natural numbers here, which the answer cuts to 32 bits as well.\<close>

definition get_system_monitoring_rpc :: "host_metrics \<Rightarrow> scope option \<Rightarrow> system_monitoring act" where
  "get_system_monitoring_rpc hm ctx = guarded (require_admin_scope ctx) (seq (reply (get_system_monitoring hm)) (\<lambda>m.
     ret (m\<lparr>sm_volumes := int32_wrap (sm_volumes m), sm_images := int32_wrap (sm_images m), sm_builds := int32_wrap (sm_builds m),
       sm_projects := int32_wrap (sm_projects m), sm_observed := sm_observed m div 1000000000\<rparr>)))"

end
