(* ===== verification/GatewayApi.thy ===== *)
theory GatewayApi
  imports GatewayRoutes GrpcCore ConfigApi ComposeCoordinator Reports
begin

text \<open>
  From the browser to the service and back: the handlers of the gateway (internal/gateway/http/handler),
  their gRPC client (internal/gateway/grpc/client), and the listings of the core service
  (internal/core/grpc) with the mapping of rows to messages.  A handler checks a request, calls the
  handler of the core service under the scope of its context, leaves an audit event and answers.  What
  JSON decoding and the binding tags make of a body, uuid.Parse and the directory of users are
  parameters.  Records the code copies field by field between messages, models and bodies are one
  record here, unless a field is left out or changes its width.
\<close>

section \<open>Rows as messages (core/grpc)\<close>

text \<open>directory is UserDirectory.GetUsers; where it fails no name is shown.\<close>

definition usernames_by_id :: "(id list \<Rightarrow> goerr + (id \<times> string) list) \<Rightarrow> id list \<Rightarrow> id \<Rightarrow> string" where
  "usernames_by_id directory ids =
    (if ids = [] then (\<lambda>_. []) else case directory ids of
       Inl e \<Rightarrow> (\<lambda>_. [])
     | Inr m \<Rightarrow> (\<lambda>i. case map_of m i of None \<Rightarrow> [] | Some name \<Rightarrow> name))"

text \<open>Every owner once, in the order of the first row.\<close>

definition usernames_by_owner :: "(id list \<Rightarrow> goerr + (id \<times> string) list) \<Rightarrow> id list \<Rightarrow> id \<Rightarrow> string" where
  "usernames_by_owner directory owners = usernames_by_id directory (rev (remdups (rev owners)))"

definition unix_of :: "instant \<Rightarrow> int" where "unix_of t = t div 1000000000"

definition time_ptr_unix :: "instant option \<Rightarrow> int" where
  "time_ptr_unix t = (case t of None \<Rightarrow> 0 | Some x \<Rightarrow> unix_of x)"

definition string_value :: "string option \<Rightarrow> string" where
  "string_value s = (case s of None \<Rightarrow> [] | Some x \<Rightarrow> x)"

record container_data =
  kd_id :: string
  kd_docker :: string
  kd_name :: string
  kd_image_tag :: string
  kd_port :: int
  kd_domain :: string
  kd_status :: string
  kd_created :: int
  kd_owner :: string
  kd_owner_name :: string
  kd_desired :: string
  kd_last_error :: string
  kd_exit_code :: "int option"
  kd_ttl :: int
  kd_project :: string

definition container_to_proto :: "(id \<Rightarrow> string) \<Rightarrow> (id \<Rightarrow> string) \<Rightarrow> container \<Rightarrow> container_data" where
  "container_to_proto txt names c = \<lparr> kd_id = txt (c_id c), kd_docker = c_docker_id c, kd_name = c_name c, kd_image_tag = c_image_tag c,
     kd_port = i32 (c_port c), kd_domain = c_domain c, kd_status = status_text (c_status c), kd_created = unix_of (c_created c),
     kd_owner = txt (c_owner c), kd_owner_name = names (c_owner c), kd_desired = status_text (c_desired c),
     kd_last_error = string_value (c_last_error c), kd_exit_code = map_option i32 (c_exit_code c), kd_ttl = time_ptr_unix (c_ttl c),
     kd_project = uuid_ptr_string txt (c_project c) \<rparr>"

record volume_data =
  vd_id :: string
  vd_name :: string
  vd_docker_name :: string
  vd_created :: int
  vd_owner :: string
  vd_owner_name :: string
  vd_status :: string
  vd_last_error :: string
  vd_used :: int
  vd_usage_observed :: int

definition volume_to_proto :: "(id \<Rightarrow> string) \<Rightarrow> (id \<Rightarrow> string) \<Rightarrow> volume \<Rightarrow> volume_data" where
  "volume_to_proto txt names v = \<lparr> vd_id = txt (v_id v), vd_name = v_name v, vd_docker_name = v_docker_name v,
     vd_created = unix_of (v_created v), vd_owner = txt (v_owner v), vd_owner_name = names (v_owner v),
     vd_status = volume_status_text (v_status v), vd_last_error = string_value (v_last_error v), vd_used = v_used_bytes v,
     vd_usage_observed = time_ptr_unix (v_usage_observed v) \<rparr>"

fun image_status_text :: "img_status \<Rightarrow> string" where
  "image_status_text INone = []"
| "image_status_text IBuilding = ''building''"
| "image_status_text IAvailable = ''available''"
| "image_status_text IDeleting = ''deleting''"
| "image_status_text IMissing = ''missing''"
| "image_status_text IError = ''error''"

record image_data =
  jd_id :: string
  jd_tag :: string
  jd_size_mb :: int
  jd_created :: int
  jd_owner :: string
  jd_owner_name :: string
  jd_status :: string
  jd_last_error :: string

definition image_to_proto :: "(id \<Rightarrow> string) \<Rightarrow> (id \<Rightarrow> string) \<Rightarrow> image \<Rightarrow> image_data" where
  "image_to_proto txt names i = \<lparr> jd_id = txt (i_id i), jd_tag = i_tag i, jd_size_mb = i32 (i_size_mb i), jd_created = unix_of (i_created i),
     jd_owner = txt (i_owner i), jd_owner_name = names (i_owner i), jd_status = image_status_text (i_status i),
     jd_last_error = string_value (i_last_error i) \<rparr>"

record build_data =
  wd_id :: string
  wd_image :: string
  wd_status :: string
  wd_started :: int
  wd_finished :: int
  wd_log_path :: string
  wd_owner :: string
  wd_owner_name :: string
  wd_project :: string
  wd_service :: string

definition build_to_proto :: "(id \<Rightarrow> string) \<Rightarrow> (id \<Rightarrow> string) \<Rightarrow> build \<Rightarrow> build_data" where
  "build_to_proto txt names b = \<lparr> wd_id = txt (b_id b), wd_image = txt (b_image b), wd_status = build_status_text (b_status b),
     wd_started = unix_of (b_started b), wd_finished = time_ptr_unix (b_finished b), wd_log_path = b_log_path b,
     wd_owner = txt (b_owner b), wd_owner_name = names (b_owner b), wd_project = uuid_ptr_string txt (b_project b), wd_service = b_service b \<rparr>"

fun project_status_text :: "proj_status \<Rightarrow> string" where
  "project_status_text PPending = ''pending''"
| "project_status_text PBuilding = ''building''"
| "project_status_text PDeploying = ''deploying''"
| "project_status_text PCanceling = ''canceling''"
| "project_status_text PCanceled = ''canceled''"
| "project_status_text PStarting = ''starting''"
| "project_status_text PRunning = ''running''"
| "project_status_text PStopping = ''stopping''"
| "project_status_text PStopped = ''stopped''"
| "project_status_text PFailed = ''failed''"
| "project_status_text PDeleting = ''deleting''"

record project_data =
  pd_id :: string
  pd_name :: string
  pd_status :: string
  pd_error :: string
  pd_created :: int
  pd_owner :: string
  pd_owner_name :: string
  pd_last_error :: string

definition project_to_proto :: "(id \<Rightarrow> string) \<Rightarrow> (id \<Rightarrow> string) \<Rightarrow> project \<Rightarrow> project_data" where
  "project_to_proto txt names p = \<lparr> pd_id = txt (p_id p), pd_name = p_name p, pd_status = project_status_text (p_status p),
     pd_error = string_value (p_error p), pd_created = unix_of (p_created p), pd_owner = txt (p_owner p),
     pd_owner_name = names (p_owner p), pd_last_error = string_value (p_error p) \<rparr>"

section \<open>Listings (core/grpc)\<close>

record list_env =
  le_parse :: "string \<Rightarrow> id option"
  le_text :: "id \<Rightarrow> string"
  le_users :: "id list \<Rightarrow> goerr + (id \<times> string) list"

definition listed :: "list_env \<Rightarrow> ('r \<Rightarrow> id) \<Rightarrow> ((id \<Rightarrow> string) \<Rightarrow> (id \<Rightarrow> string) \<Rightarrow> 'r \<Rightarrow> 'm) \<Rightarrow> 'r list \<times> nat \<Rightarrow> 'm list \<times> int" where
  "listed le owner to_proto r = (case r of (rows, total_rows) \<Rightarrow>
     (map (to_proto (le_text le) (usernames_by_owner (le_users le) (map owner rows))) rows, i32 (int total_rows)))"

definition optional_uuid :: "(string \<Rightarrow> id option) \<Rightarrow> string \<Rightarrow> string \<Rightarrow> goerr + id option" where
  "optional_uuid parse text v = (if v = [] then Inr None
     else case parse v of None \<Rightarrow> Inl (invalid_argument text) | Some i \<Rightarrow> Inr (Some i))"

definition list_containers_rpc :: "list_env \<Rightarrow> scope option \<Rightarrow> int \<Rightarrow> int \<Rightarrow> string \<Rightarrow> (container_data list \<times> int) act" where
  "list_containers_rpc le ctx page_no limit0 project = guarded (require_user_or_admin_scope ctx)
    (case optional_uuid (le_parse le) ''invalid project_id format'' project of
       Inl e \<Rightarrow> fail e
     | Inr p \<Rightarrow> (case pagination page_no limit0 of (limit, offset) \<Rightarrow>
         seq (reply (list_all_containers ctx limit offset p)) (\<lambda>r. ret (listed le c_owner container_to_proto r))))"

definition list_volumes_rpc :: "list_env \<Rightarrow> scope option \<Rightarrow> int \<Rightarrow> int \<Rightarrow> (volume_data list \<times> int) act" where
  "list_volumes_rpc le ctx page_no limit0 = guarded (require_user_or_admin_scope ctx)
    (case pagination page_no limit0 of (limit, offset) \<Rightarrow>
       seq (reply (list_all_volumes ctx limit offset)) (\<lambda>r. ret (listed le v_owner volume_to_proto r)))"

definition list_images_rpc :: "list_env \<Rightarrow> scope option \<Rightarrow> int \<Rightarrow> int \<Rightarrow> (image_data list \<times> int) act" where
  "list_images_rpc le ctx page_no limit0 = guarded (require_user_or_admin_scope ctx)
    (case pagination page_no limit0 of (limit, offset) \<Rightarrow>
       seq (reply (list_all_images ctx limit offset)) (\<lambda>r. ret (listed le i_owner image_to_proto r)))"

definition list_builds_rpc :: "list_env \<Rightarrow> scope option \<Rightarrow> int \<Rightarrow> int \<Rightarrow> (build_data list \<times> int) act" where
  "list_builds_rpc le ctx page_no limit0 = guarded (require_user_or_admin_scope ctx)
    (case pagination page_no limit0 of (limit, offset) \<Rightarrow>
       seq (reply (list_all_builds ctx limit offset)) (\<lambda>r. ret (listed le b_owner build_to_proto r)))"

definition list_projects_rpc :: "list_env \<Rightarrow> scope option \<Rightarrow> int \<Rightarrow> int \<Rightarrow> (project_data list \<times> int) act" where
  "list_projects_rpc le ctx page_no limit0 = guarded (require_user_or_admin_scope ctx)
    (case pagination page_no limit0 of (limit, offset) \<Rightarrow>
       seq (reply (list_all_projects ctx limit offset)) (\<lambda>r. ret (listed le p_owner project_to_proto r)))"

section \<open>Requests (gateway/http/handler/core.go)\<close>

text \<open>A query value that is absent takes its default.\<close>

definition bad_page :: goerr where "bad_page = mk_err ErrBadRequest ''page must be a positive integer''"
definition bad_limit :: goerr where "bad_limit = mk_err ErrBadRequest ''limit must be between 1 and 100''"

definition get_pagination_params :: "string option \<Rightarrow> string option \<Rightarrow> goerr + int \<times> int" where
  "get_pagination_params page_raw limit_raw =
    (case atoi (case page_raw of None \<Rightarrow> ''1'' | Some s \<Rightarrow> s) of
       None \<Rightarrow> Inl bad_page
     | Some p \<Rightarrow> if p < 1 then Inl bad_page
         else (case atoi (case limit_raw of None \<Rightarrow> ''20'' | Some s \<Rightarrow> s) of
             None \<Rightarrow> Inl bad_limit
           | Some l \<Rightarrow> if l < 1 \<or> l > 100 then Inl bad_limit else Inr (p, l)))"

definition validate_uuid_value :: "(string \<Rightarrow> id option) \<Rightarrow> string \<Rightarrow> string \<Rightarrow> goerr option" where
  "validate_uuid_value parse name v = (if parse v = None then Some (mk_err ErrBadRequest (name @ '' must be a valid UUID'')) else None)"

definition validate_container_action :: "string \<Rightarrow> goerr option" where
  "validate_container_action a = (if List.member [''start'', ''stop'', ''delete''] a then None
     else Some (mk_err ErrBadRequest ''action must be one of: start, stop, delete''))"

record mount_dto =
  md_volume :: string
  md_path :: string
  md_ro :: bool

record create_container_dto =
  nc_name :: string
  nc_image_tag :: string
  nc_port :: int
  nc_env :: "(string \<times> string) list"
  nc_mounts :: "mount_dto list"
  nc_domain :: string

text \<open>badRequest(c, err.Error())\<close>

definition refused :: "goerr option \<Rightarrow> goerr option" where
  "refused e = map_option (\<lambda>x. mk_err ErrBadRequest (error_text x)) e"

fun validate_mount_dtos :: "(string \<Rightarrow> id option) \<Rightarrow> mount_dto list \<Rightarrow> goerr option" where
  "validate_mount_dtos parse [] = None"
| "validate_mount_dtos parse (m # ms) = (case validate_uuid_value parse ''volume_id'' (md_volume m) of
      Some e \<Rightarrow> Some e
    | None \<Rightarrow> (case refused (check_mount_path (md_path m)) of Some e \<Rightarrow> Some e | None \<Rightarrow> validate_mount_dtos parse ms))"

definition validate_create_container_dto :: "(string \<Rightarrow> id option) \<Rightarrow> create_container_dto \<Rightarrow> goerr option" where
  "validate_create_container_dto parse req =
    (case refused (check_resource_name (nc_name req)) of Some e \<Rightarrow> Some e | None \<Rightarrow>
     case refused (check_image_tag (nc_image_tag req)) of Some e \<Rightarrow> Some e | None \<Rightarrow>
     if nc_port req < 0 \<or> nc_port req > 65535 then Some (mk_err ErrBadRequest ''internal_port must be between 0 and 65535'') else
     case refused (check_domain_prefix (nc_domain req)) of Some e \<Rightarrow> Some e | None \<Rightarrow>
     if nc_domain req \<noteq> [] \<and> nc_port req \<le> 0 then Some (mk_err ErrBadRequest ''internal_port is required when domain_prefix is set'')
     else validate_mount_dtos parse (nc_mounts req))"

definition validate_expose_container_dto :: "string \<Rightarrow> int \<Rightarrow> goerr option" where
  "validate_expose_container_dto dmn port =
    (case refused (check_domain_prefix dmn) of Some e \<Rightarrow> Some e | None \<Rightarrow>
     if port \<le> 0 \<or> port > 65535 then Some (mk_err ErrBadRequest ''internal_port must be between 1 and 65535'') else None)"

section \<open>The client (gateway/grpc/client)\<close>

text \<open>if err != nil { return grpcerrors.FromGRPC(err) }\<close>

definition from_core :: "'a act \<Rightarrow> 'a act" where
  "from_core m = on_error m (\<lambda>e. fail (from_grpc e))"

text \<open>createContainerInputFromDTO and the message of the client; the core service parses the identifiers.\<close>

definition create_request_of :: "(string \<Rightarrow> id option) \<Rightarrow> create_container_dto \<Rightarrow> create_request" where
  "create_request_of parse req = \<lparr> cq_name = nc_name req, cq_image_tag = nc_image_tag req, cq_port = i32 (nc_port req), cq_env = nc_env req,
     cq_mounts = map (\<lambda>m. \<lparr> mr_volume = parse (md_volume m), mr_path = md_path m, mr_ro = md_ro m \<rparr>) (nc_mounts req), cq_domain = nc_domain req \<rparr>"

definition client_create_container :: "(string \<Rightarrow> id option) \<Rightarrow> scope option \<Rightarrow> create_container_dto \<Rightarrow> id act" where
  "client_create_container parse ctx req = from_core (create_container_rpc ctx (create_request_of parse req))"

definition client_action_container :: "(string \<Rightarrow> id option) \<Rightarrow> scope option \<Rightarrow> string \<Rightarrow> string \<Rightarrow> unit act" where
  "client_action_container parse ctx cid a =
    (if a = ''start'' then from_core (start_container_rpc ctx (parse cid))
     else if a = ''stop'' then from_core (stop_container_rpc ctx (parse cid))
     else if a = ''delete'' then from_core (delete_container_rpc ctx (parse cid))
     else fail (Sentinel ErrBadRequest))"

definition client_expose_container :: "(string \<Rightarrow> id option) \<Rightarrow> scope option \<Rightarrow> string \<Rightarrow> string \<Rightarrow> int \<Rightarrow> unit act" where
  "client_expose_container parse ctx cid dmn port = from_core (expose_container_rpc ctx (parse cid) dmn (i32 port))"

definition client_list_containers :: "list_env \<Rightarrow> scope option \<Rightarrow> int \<Rightarrow> int \<Rightarrow> string \<Rightarrow> (container_data list \<times> int) act" where
  "client_list_containers le ctx p l project = from_core (list_containers_rpc le ctx (i32 p) (i32 l) project)"

section \<open>Audit events (gateway/http/handler/audit.go)\<close>

record audit_input =
  gu_action :: string
  gu_rtype :: string
  gu_rid :: string
  gu_rname :: string
  gu_outcome :: string
  gu_error :: string
  gu_details :: string

definition audit_outcome :: "goerr option \<Rightarrow> string \<times> string" where
  "audit_outcome e = (case e of None \<Rightarrow> (''success'', []) | Some x \<Rightarrow> (''failure'', safe_message (Some x)))"

text \<open>The message for the core service.\<close>

definition recorded_audit ::
    "(id \<Rightarrow> string) \<Rightarrow> instant \<Rightarrow> scope option \<Rightarrow> string \<Rightarrow> string \<Rightarrow> string \<Rightarrow> audit_input \<Rightarrow> audit_message option" where
  "recorded_audit txt t ctx request_id client agent inp =
    (if gu_action inp = [] then None else let s = (case ctx of None \<Rightarrow> empty_scope | Some s \<Rightarrow> s) in
     Some \<lparr> am_id = [], am_occurred = unix_of t, am_actor = (if sc_user s = nil_id then [] else txt (sc_user s)), am_actor_name = sc_username s,
       am_actor_scope = (if kind_text (sc_kind s) = [] then ''unknown'' else kind_text (sc_kind s)), am_action = gu_action inp,
       am_outcome = (if gu_outcome inp = [] then ''success'' else gu_outcome inp), am_rtype = gu_rtype inp, am_rid = gu_rid inp,
       am_rname = gu_rname inp, am_owner = [], am_owner_name = [], am_request = request_id, am_client = client, am_agent = agent,
       am_error = gu_error inp, am_details = (if gu_details inp = [] then ''{}'' else gu_details inp) \<rparr>)"

section \<open>Handlers\<close>

text \<open>
  An answer: the status and the error, or the status and what the body holds; with it the audit events
  that were recorded.
\<close>

datatype 'a api_reply = ApiError int goerr | ApiOk int 'a

type_synonym 'a api = "('a api_reply \<times> audit_input list) act"

definition api_refuse :: "goerr \<Rightarrow> 'a api" where
  "api_refuse e = ret (ApiError 400 e, [])"

definition api_result :: "int \<Rightarrow> ('a \<Rightarrow> 'b) \<Rightarrow> goerr + 'a \<Rightarrow> 'b api_reply" where
  "api_result status body r = (case r of Inl e \<Rightarrow> ApiError (http_status e) e | Inr x \<Rightarrow> ApiOk status (body x))"

definition unaudited :: "int \<Rightarrow> ('a \<Rightarrow> 'b) \<Rightarrow> 'a act \<Rightarrow> 'b api" where
  "unaudited status body m = seq (attempt m) (\<lambda>r. ret (api_result status body r, []))"

text \<open>Call the core service, record the outcome, answer.\<close>

definition audited :: "(goerr + 'a \<Rightarrow> string \<times> string \<Rightarrow> audit_input) \<Rightarrow> int \<Rightarrow> ('a \<Rightarrow> 'b) \<Rightarrow> 'a act \<Rightarrow> 'b api" where
  "audited event status body m = seq (attempt m) (\<lambda>r.
     ret (api_result status body r, [event r (audit_outcome (case r of Inl e \<Rightarrow> Some e | Inr _ \<Rightarrow> None))]))"

definition plain_event :: "string \<Rightarrow> string \<Rightarrow> string \<Rightarrow> goerr + 'a \<Rightarrow> string \<times> string \<Rightarrow> audit_input" where
  "plain_event what rtype rid r out = \<lparr> gu_action = what, gu_rtype = rtype, gu_rid = rid, gu_rname = [], gu_outcome = fst out,
     gu_error = snd out, gu_details = [] \<rparr>"

definition created_event ::
    "string \<Rightarrow> string \<Rightarrow> (id \<Rightarrow> string) \<Rightarrow> string \<Rightarrow> string \<Rightarrow> goerr + id \<Rightarrow> string \<times> string \<Rightarrow> audit_input" where
  "created_event what rtype txt name details r out = \<lparr> gu_action = what, gu_rtype = rtype,
     gu_rid = (case r of Inl e \<Rightarrow> [] | Inr i \<Rightarrow> txt i), gu_rname = name, gu_outcome = fst out, gu_error = snd out, gu_details = details \<rparr>"

text \<open>marshal is the encoding of the details as JSON.\<close>

definition create_container_http ::
    "list_env \<Rightarrow> ((string \<times> string) list \<Rightarrow> string option) \<Rightarrow> scope option \<Rightarrow> create_container_dto option \<Rightarrow> string api" where
  "create_container_http le marshal ctx body = (case body of None \<Rightarrow> api_refuse (Sentinel ErrBadRequest) | Some req \<Rightarrow>
     (case validate_create_container_dto (le_parse le) req of Some e \<Rightarrow> api_refuse e | None \<Rightarrow>
        audited (created_event ''container.create'' ''container'' (le_text le) (nc_name req)
            (safe_details_json marshal [(''domain_prefix'', nc_domain req), (''internal_port'', itoa (nc_port req))]))
          202 (le_text le) (client_create_container (le_parse le) ctx req)))"

definition container_audit_action :: "string \<Rightarrow> string" where
  "container_audit_action a = ''container.'' @ a"

definition run_container_action :: "list_env \<Rightarrow> (string \<Rightarrow> string) \<Rightarrow> scope option \<Rightarrow> string \<Rightarrow> string \<Rightarrow> string api" where
  "run_container_action le message ctx cid a =
    (case validate_uuid_value (le_parse le) ''id'' cid of Some e \<Rightarrow> api_refuse e | None \<Rightarrow>
     case validate_container_action a of Some e \<Rightarrow> api_refuse e | None \<Rightarrow>
     audited (plain_event (container_audit_action a) ''container'' cid) 202 (\<lambda>_. message a) (client_action_container (le_parse le) ctx cid a))"

definition action_container_http :: "list_env \<Rightarrow> scope option \<Rightarrow> string \<Rightarrow> string \<Rightarrow> string api" where
  "action_container_http le = run_container_action le (\<lambda>a. a @ '' requested'')"

definition admin_action_container_http :: "list_env \<Rightarrow> scope option \<Rightarrow> string \<Rightarrow> string \<Rightarrow> string api" where
  "admin_action_container_http le = run_container_action le (\<lambda>a. ''admin action '' @ a @ '' requested'')"

definition expose_container_http :: "list_env \<Rightarrow> scope option \<Rightarrow> string \<Rightarrow> (string \<times> int) option \<Rightarrow> string api" where
  "expose_container_http le ctx cid body =
    (case validate_uuid_value (le_parse le) ''id'' cid of Some e \<Rightarrow> api_refuse e | None \<Rightarrow>
     case body of None \<Rightarrow> api_refuse (Sentinel ErrBadRequest) | Some (dmn, port) \<Rightarrow>
     case validate_expose_container_dto dmn port of Some e \<Rightarrow> api_refuse e | None \<Rightarrow>
     unaudited 202 (\<lambda>_. ''container expose requested for prefix: '' @ dmn) (client_expose_container (le_parse le) ctx cid dmn port))"

text \<open>A container as a user sees it; an administrator sees the whole message.\<close>

record user_container_dto =
  ud_id :: string
  ud_project :: string
  ud_name :: string
  ud_image_tag :: string
  ud_port :: int
  ud_domain :: string
  ud_status :: string
  ud_desired :: string
  ud_last_error :: string
  ud_exit_code :: "int option"
  ud_ttl :: int
  ud_created :: int

definition container_to_user_dto :: "container_data \<Rightarrow> user_container_dto" where
  "container_to_user_dto c = \<lparr> ud_id = kd_id c, ud_project = kd_project c, ud_name = kd_name c, ud_image_tag = kd_image_tag c, ud_port = kd_port c,
     ud_domain = kd_domain c, ud_status = kd_status c, ud_desired = kd_desired c, ud_last_error = kd_last_error c, ud_exit_code = kd_exit_code c,
     ud_ttl = kd_ttl c, ud_created = kd_created c \<rparr>"

record list_query =
  lq_page :: "string option"
  lq_limit :: "string option"
  lq_project :: string

definition list_containers_http :: "list_env \<Rightarrow> (container_data \<Rightarrow> 'a) \<Rightarrow> scope option \<Rightarrow> list_query \<Rightarrow> ('a list \<times> int) api" where
  "list_containers_http le view ctx q = (case get_pagination_params (lq_page q) (lq_limit q) of Inl e \<Rightarrow> api_refuse e | Inr (p, l) \<Rightarrow>
     (case (if lq_project q = [] then None else validate_uuid_value (le_parse le) ''project_id'' (lq_project q)) of Some e \<Rightarrow> api_refuse e | None \<Rightarrow>
        unaudited 200 (\<lambda>(items, n). (map view items, n)) (client_list_containers le ctx p l (lq_project q))))"

definition get_containers_http :: "list_env \<Rightarrow> scope option \<Rightarrow> list_query \<Rightarrow> (user_container_dto list \<times> int) api" where
  "get_containers_http le = list_containers_http le container_to_user_dto"

definition list_admin_containers_http :: "list_env \<Rightarrow> scope option \<Rightarrow> list_query \<Rightarrow> (container_data list \<times> int) api" where
  "list_admin_containers_http le = list_containers_http le (\<lambda>c. c)"

section \<open>Volumes, images, builds and projects\<close>

record user_volume_dto =
  uv_id :: string
  uv_name :: string
  uv_status :: string
  uv_last_error :: string
  uv_used :: int
  uv_usage_observed :: int
  uv_created :: int

definition volume_to_user_dto :: "volume_data \<Rightarrow> user_volume_dto" where
  "volume_to_user_dto v = \<lparr> uv_id = vd_id v, uv_name = vd_name v, uv_status = vd_status v, uv_last_error = vd_last_error v,
     uv_used = vd_used v, uv_usage_observed = vd_usage_observed v, uv_created = vd_created v \<rparr>"

record user_image_dto =
  ui_id :: string
  ui_tag :: string
  ui_size_mb :: int
  ui_status :: string
  ui_last_error :: string
  ui_created :: int

definition image_to_user_dto :: "image_data \<Rightarrow> user_image_dto" where
  "image_to_user_dto i = \<lparr> ui_id = jd_id i, ui_tag = jd_tag i, ui_size_mb = jd_size_mb i, ui_status = jd_status i,
     ui_last_error = jd_last_error i, ui_created = jd_created i \<rparr>"

record user_build_dto =
  ub_id :: string
  ub_image :: string
  ub_project :: string
  ub_service :: string
  ub_status :: string
  ub_started :: int
  ub_finished :: int

definition build_to_user_dto :: "build_data \<Rightarrow> user_build_dto" where
  "build_to_user_dto b = \<lparr> ub_id = wd_id b, ub_image = wd_image b, ub_project = wd_project b, ub_service = wd_service b,
     ub_status = wd_status b, ub_started = wd_started b, ub_finished = wd_finished b \<rparr>"

record user_project_dto =
  up_id :: string
  up_name :: string
  up_status :: string
  up_error :: string
  up_last_error :: string
  up_created :: int

definition project_to_user_dto :: "project_data \<Rightarrow> user_project_dto" where
  "project_to_user_dto p = \<lparr> up_id = pd_id p, up_name = pd_name p, up_status = pd_status p, up_error = pd_error p,
     up_last_error = pd_last_error p, up_created = pd_created p \<rparr>"

text \<open>The listings without a project, and their clients: the page and the limit become 32 bits wide.\<close>

definition list_http :: "(int \<Rightarrow> int \<Rightarrow> ('m list \<times> int) act) \<Rightarrow> ('m \<Rightarrow> 'a) \<Rightarrow> list_query \<Rightarrow> ('a list \<times> int) api" where
  "list_http client view q = (case get_pagination_params (lq_page q) (lq_limit q) of Inl e \<Rightarrow> api_refuse e
     | Inr (p, l) \<Rightarrow> unaudited 200 (\<lambda>(items, n). (map view items, n)) (client p l))"

definition client_list_volumes :: "list_env \<Rightarrow> scope option \<Rightarrow> int \<Rightarrow> int \<Rightarrow> (volume_data list \<times> int) act" where
  "client_list_volumes le ctx p l = from_core (list_volumes_rpc le ctx (i32 p) (i32 l))"

definition client_list_images :: "list_env \<Rightarrow> scope option \<Rightarrow> int \<Rightarrow> int \<Rightarrow> (image_data list \<times> int) act" where
  "client_list_images le ctx p l = from_core (list_images_rpc le ctx (i32 p) (i32 l))"

definition client_list_builds :: "list_env \<Rightarrow> scope option \<Rightarrow> int \<Rightarrow> int \<Rightarrow> (build_data list \<times> int) act" where
  "client_list_builds le ctx p l = from_core (list_builds_rpc le ctx (i32 p) (i32 l))"

definition client_list_projects :: "list_env \<Rightarrow> scope option \<Rightarrow> int \<Rightarrow> int \<Rightarrow> (project_data list \<times> int) act" where
  "client_list_projects le ctx p l = from_core (list_projects_rpc le ctx (i32 p) (i32 l))"

definition get_volumes_http :: "list_env \<Rightarrow> scope option \<Rightarrow> list_query \<Rightarrow> (user_volume_dto list \<times> int) api" where
  "get_volumes_http le ctx = list_http (client_list_volumes le ctx) volume_to_user_dto"

definition list_admin_volumes_http :: "list_env \<Rightarrow> scope option \<Rightarrow> list_query \<Rightarrow> (volume_data list \<times> int) api" where
  "list_admin_volumes_http le ctx = list_http (client_list_volumes le ctx) (\<lambda>v. v)"

definition get_images_http :: "list_env \<Rightarrow> scope option \<Rightarrow> list_query \<Rightarrow> (user_image_dto list \<times> int) api" where
  "get_images_http le ctx = list_http (client_list_images le ctx) image_to_user_dto"

definition list_admin_images_http :: "list_env \<Rightarrow> scope option \<Rightarrow> list_query \<Rightarrow> (image_data list \<times> int) api" where
  "list_admin_images_http le ctx = list_http (client_list_images le ctx) (\<lambda>i. i)"

definition get_builds_http :: "list_env \<Rightarrow> scope option \<Rightarrow> list_query \<Rightarrow> (user_build_dto list \<times> int) api" where
  "get_builds_http le ctx = list_http (client_list_builds le ctx) build_to_user_dto"

definition list_admin_builds_http :: "list_env \<Rightarrow> scope option \<Rightarrow> list_query \<Rightarrow> (build_data list \<times> int) api" where
  "list_admin_builds_http le ctx = list_http (client_list_builds le ctx) (\<lambda>b. b)"

definition get_projects_http :: "list_env \<Rightarrow> scope option \<Rightarrow> list_query \<Rightarrow> (user_project_dto list \<times> int) api" where
  "get_projects_http le ctx = list_http (client_list_projects le ctx) project_to_user_dto"

definition list_admin_projects_http :: "list_env \<Rightarrow> scope option \<Rightarrow> list_query \<Rightarrow> (project_data list \<times> int) api" where
  "list_admin_projects_http le ctx = list_http (client_list_projects le ctx) (\<lambda>p. p)"

definition create_volume_http :: "list_env \<Rightarrow> scope option \<Rightarrow> string option \<Rightarrow> string api" where
  "create_volume_http le ctx body = (case body of None \<Rightarrow> api_refuse (Sentinel ErrBadRequest) | Some name \<Rightarrow>
     (case refused (check_resource_name name) of Some e \<Rightarrow> api_refuse e | None \<Rightarrow>
        audited (created_event ''volume.create'' ''volume'' (le_text le) name []) 202 (le_text le) (from_core (create_volume_rpc ctx name))))"

text \<open>The handlers that act on one resource: check the identifier, call the method, record, answer.\<close>

definition resource_action_http ::
    "list_env \<Rightarrow> (id option \<Rightarrow> unit act) \<Rightarrow> string \<Rightarrow> string \<Rightarrow> int \<Rightarrow> string \<Rightarrow> string \<Rightarrow> string api" where
  "resource_action_http le method what rtype status message rid =
    (case validate_uuid_value (le_parse le) ''id'' rid of Some e \<Rightarrow> api_refuse e | None \<Rightarrow>
     audited (plain_event what rtype rid) status (\<lambda>_. message) (from_core (method (le_parse le rid))))"

definition delete_volume_http :: "list_env \<Rightarrow> string \<Rightarrow> scope option \<Rightarrow> string \<Rightarrow> string api" where
  "delete_volume_http le message ctx = resource_action_http le (delete_volume_rpc ctx) ''volume.delete'' ''volume'' 202 message"

definition delete_image_http :: "list_env \<Rightarrow> string \<Rightarrow> scope option \<Rightarrow> string \<Rightarrow> string api" where
  "delete_image_http le message ctx = resource_action_http le (delete_image_rpc ctx) ''image.delete'' ''image'' 202 message"

definition cancel_build_http :: "list_env \<Rightarrow> string \<Rightarrow> scope option \<Rightarrow> string \<Rightarrow> string api" where
  "cancel_build_http le message ctx = resource_action_http le (cancel_build_rpc ctx) ''build.cancel'' ''build'' 200 message"

definition delete_build_http :: "list_env \<Rightarrow> string \<Rightarrow> scope option \<Rightarrow> string \<Rightarrow> string api" where
  "delete_build_http le message ctx = resource_action_http le (delete_build_rpc ctx) ''build.delete'' ''build'' 200 message"

definition delete_project_http :: "list_env \<Rightarrow> string \<Rightarrow> scope option \<Rightarrow> string \<Rightarrow> string api" where
  "delete_project_http le message ctx = resource_action_http le (delete_project_rpc ctx) ''project.delete'' ''project'' 202 message"

definition start_project_http :: "list_env \<Rightarrow> string \<Rightarrow> scope option \<Rightarrow> string \<Rightarrow> string api" where
  "start_project_http le message ctx = resource_action_http le (start_project_rpc ctx) ''project.start'' ''project'' 202 message"

definition stop_project_http :: "list_env \<Rightarrow> string \<Rightarrow> scope option \<Rightarrow> string \<Rightarrow> string api" where
  "stop_project_http le message ctx = resource_action_http le (stop_project_rpc ctx) ''project.stop'' ''project'' 202 message"

definition cancel_project_http :: "list_env \<Rightarrow> string \<Rightarrow> scope option \<Rightarrow> string \<Rightarrow> string api" where
  "cancel_project_http le message ctx = resource_action_http le (cancel_project_rpc ctx) ''project.cancel'' ''project'' 202 message"

section \<open>Statistics and configuration\<close>

definition get_user_stats_http :: "scope option \<Rightarrow> user_stats api" where
  "get_user_stats_http ctx = unaudited 200 (\<lambda>s. s) (from_core (get_user_stats_rpc ctx))"

definition get_system_monitoring_http :: "host_metrics \<Rightarrow> scope option \<Rightarrow> system_monitoring api" where
  "get_system_monitoring_http hm ctx = unaudited 200 (\<lambda>m. m) (from_core (get_system_monitoring_rpc hm ctx))"

text \<open>
  The body holds the transported settings of a configuration; the client makes the message of it the
  way the core service does (systemConfigToProto).  Those that are not transported are the ones of base.
\<close>

definition get_system_config_http :: "config \<Rightarrow> scope option \<Rightarrow> manager \<Rightarrow> config api_reply" where
  "get_system_config_http base ctx m = api_result 200 (\<lambda>d. config_from_proto d base)
     (case get_config_rpc ctx m of Inl e \<Rightarrow> Inl (from_grpc e) | Inr d \<Rightarrow> Inr d)"

definition update_system_config_http ::
    "(string \<Rightarrow> string \<Rightarrow> bool option) \<Rightarrow> (save_step \<Rightarrow> goerr option) \<Rightarrow> scope option \<Rightarrow> config option \<Rightarrow> manager
     \<Rightarrow> string api_reply \<times> manager \<times> bool" where
  "update_system_config_http re fault ctx body m = (case body of None \<Rightarrow> (ApiError 400 (Sentinel ErrBadRequest), m, False)
     | Some cfg \<Rightarrow> (case update_config_rpc re fault ctx (config_to_proto cfg) m of
         (err, m', rebalance) \<Rightarrow> (api_result 200 (\<lambda>_. ''config updated'')
            (case err of Some e \<Rightarrow> Inl (from_grpc e) | None \<Rightarrow> Inr ()), m', rebalance)))"

end
