(* ===== verification/ApiProps.thy ===== *)
theory ApiProps
  imports GatewayApi Samples "HOL-Library.Multiset"
begin

text \<open>
  The way from the browser to the core service and back adds nothing and loses nothing: a request that
  creates a container reaches the service as it was sent, and the pages of a listing are the rows of
  the user, each of them once.
\<close>

section \<open>Creating a container\<close>

definition mount_of :: "(string \<Rightarrow> id option) \<Rightarrow> mount_dto \<Rightarrow> mount_params" where
  "mount_of parse m = \<lparr> mp_volume = the (parse (md_volume m)), mp_volume_name = [], mp_path = md_path m, mp_ro = md_ro m \<rparr>"

text \<open>What the service is asked for: the fields of the body, and nothing else.\<close>

definition params_of :: "(string \<Rightarrow> id option) \<Rightarrow> create_container_dto \<Rightarrow> container_create_params" where
  "params_of parse req = \<lparr> cp_project = None, cp_name = nc_name req, cp_alias = [], cp_image_tag = nc_image_tag req, cp_port = nc_port req,
     cp_env = nc_env req, cp_mounts = map (mount_of parse) (nc_mounts req), cp_memory_mb = 0, cp_domain = nc_domain req, cp_command = [],
     cp_entrypoint = [], cp_restart = [], cp_health = None \<rparr>"

lemma refused_None [simp]: "refused e = None \<longleftrightarrow> e = None"
  by (simp add: refused_def)

lemma names_not_empty: "check_resource_name name = None \<Longrightarrow> name \<noteq> []" "check_image_tag t = None \<Longrightarrow> t \<noteq> []"
proof -
  have "check_resource_name [] \<noteq> None" "check_image_tag [] \<noteq> None" by code_simp+
  then show "check_resource_name name = None \<Longrightarrow> name \<noteq> []" "check_image_tag t = None \<Longrightarrow> t \<noteq> []" by auto
qed

lemma mounts_valid: "validate_mount_dtos parse ms = None \<Longrightarrow> \<forall>m \<in> set ms. parse (md_volume m) \<noteq> None"
  by (induction ms) (auto simp: validate_uuid_value_def split: option.splits if_splits)

lemma dto_valid:
  assumes "validate_create_container_dto parse req = None"
  shows "nc_name req \<noteq> []" "nc_image_tag req \<noteq> []" "0 \<le> nc_port req" "nc_port req \<le> 65535"
    "\<forall>m \<in> set (nc_mounts req). parse (md_volume m) \<noteq> None"
  using assms names_not_empty mounts_valid
  by (auto simp: validate_create_container_dto_def split: option.splits if_splits)

lemma parse_mounts_run:
  "\<forall>m \<in> set ms. parse (md_volume m) \<noteq> None \<Longrightarrow>
     parse_mounts (map (\<lambda>m. \<lparr> mr_volume = parse (md_volume m), mr_path = md_path m, mr_ro = md_ro m \<rparr>) ms) w = (Inr (map (mount_of parse) ms), w)"
  by (induction ms) (auto simp: ret_def seq_def parsed_def mount_of_def)

lemma client_create_container_run:
  assumes "validate_create_container_dto parse req = None" and "require_user_scope ctx = None"
  shows "client_create_container parse ctx req w = (case create ctx (params_of parse req) w of
      (Inl e, w') \<Rightarrow> (Inl (from_grpc (to_grpc e)), w') | (Inr i, w') \<Rightarrow> (Inr i, w'))"
proof -
  have port: "i32 (nc_port req) = nc_port req" using dto_valid(3,4)[OF assms(1)] by (intro i32_id) (simp add: in_i32_def)
  show ?thesis
    using assms(2) dto_valid(1,2)[OF assms(1)] parse_mounts_run[OF dto_valid(5)[OF assms(1)]]
    by (auto simp: client_create_container_def from_core_def create_container_rpc_def create_request_of_def guarded_def reply_def on_error_def
        seq_def fail_def ret_def port params_of_def split: prod.splits sum.splits)
qed

text \<open>
  C37. A request to create a container that the gateway accepts asks the core service for exactly the
  name, image, port, environment, volumes and domain it was sent with, under the scope of its user:
  the answer is the new container or the error of the service as gRPC carries it, the store changes as
  the service changes it, and one audit event tells the outcome.  A request that is not accepted
  reaches nobody.
\<close>

theorem create_reaches_service:
  assumes "require_user_scope ctx = None"
  shows "case validate_create_container_dto (le_parse le) req of
      Some e \<Rightarrow> create_container_http le marshal ctx (Some req) w = (Inr (ApiError 400 e, []), w)
    | None \<Rightarrow> (\<exists>event. gu_action event = ''container.create'' \<and> gu_rname event = nc_name req
        \<and> (case create ctx (params_of (le_parse le) req) w of
            (Inr i, w') \<Rightarrow> create_container_http le marshal ctx (Some req) w = (Inr (ApiOk 202 (le_text le i), [event]), w')
              \<and> gu_outcome event = ''success'' \<and> gu_rid event = le_text le i
          | (Inl e, w') \<Rightarrow> (let e' = from_grpc (to_grpc e) in
              create_container_http le marshal ctx (Some req) w = (Inr (ApiError (http_status e') e', [event]), w')
              \<and> gu_outcome event = ''failure'')))"
proof (cases "validate_create_container_dto (le_parse le) req")
  case (Some e)
  then show ?thesis by (simp add: create_container_http_def api_refuse_def ret_def)
next
  case None
  then show ?thesis using client_create_container_run[OF None assms, of w]
    by (auto simp: create_container_http_def audited_def attempt_def seq_def ret_def api_result_def created_event_def audit_outcome_def Let_def
        split: prod.splits sum.splits)
qed

section \<open>Pages\<close>

text \<open>The rows of a user, the newest first.\<close>

definition user_rows :: "id \<Rightarrow> db \<Rightarrow> container list" where
  "user_rows u d = order_by (\<lambda>c. - c_created c) (filter (\<lambda>c. c_owner c = u) (t_containers d))"

lemma user_rows_listed: "list_containers \<lparr> lo_owner = Some u, lo_project = None, lo_limit = l, lo_offset = off \<rparr> d
    = Inr (page l off (user_rows u d), length (user_rows u d))"
  by (simp add: list_containers_def user_rows_def Let_def)

text \<open>The query of page k.\<close>

definition page_query :: "int \<Rightarrow> int \<Rightarrow> list_query" where
  "page_query k limit = \<lparr> lq_page = Some (itoa k), lq_limit = Some (itoa limit), lq_project = [] \<rparr>"

lemma page_query_params:
  assumes "1 \<le> k" "k < 2 ^ 31" "1 \<le> limit" "limit \<le> 100"
  shows "get_pagination_params (lq_page (page_query k limit)) (lq_limit (page_query k limit)) = Inr (k, limit)"
    "i32 k = k" "i32 limit = limit" "pagination k limit = (limit, (k - 1) * limit)"
proof -
  have "in_i64 k" "in_i64 limit" using assms by (auto simp: in_i64_def)
  then show "get_pagination_params (lq_page (page_query k limit)) (lq_limit (page_query k limit)) = Inr (k, limit)"
    using assms by (simp add: get_pagination_params_def page_query_def atoi_itoa)
  show "i32 k = k" "i32 limit = limit" using assms by (auto intro!: i32_id simp: in_i32_def)
  show "pagination k limit = (limit, (k - 1) * limit)" using assms by (simp add: pagination_def Let_def mult_less_0_iff)
qed

lemma pages_concat: "concat (map (\<lambda>k. take l (drop (k * l) xs)) [0..<n]) = take (n * l) xs"
  by (induction n) (simp_all add: add.commute[of l] take_add)

text \<open>
  What a user is meant to see of a row: its columns, with instants in whole seconds, an absent text as
  the empty one and an absent deadline as zero; the columns that are numbers fit 32 bits.
\<close>

definition user_view :: "(id \<Rightarrow> string) \<Rightarrow> container \<Rightarrow> user_container_dto" where
  "user_view txt c = \<lparr> ud_id = txt (c_id c), ud_project = (case c_project c of None \<Rightarrow> [] | Some p \<Rightarrow> txt p), ud_name = c_name c,
     ud_image_tag = c_image_tag c, ud_port = c_port c, ud_domain = c_domain c, ud_status = status_text (c_status c),
     ud_desired = status_text (c_desired c), ud_last_error = (case c_last_error c of None \<Rightarrow> [] | Some e \<Rightarrow> e),
     ud_exit_code = c_exit_code c, ud_ttl = (case c_ttl c of None \<Rightarrow> 0 | Some t \<Rightarrow> t div 1000000000),
     ud_created = c_created c div 1000000000 \<rparr>"

text \<open>The two numbers of the table are columns of type integer.\<close>

definition integer_columns :: "container \<Rightarrow> bool" where
  "integer_columns c \<longleftrightarrow> in_i32 (c_port c) \<and> (case c_exit_code c of None \<Rightarrow> True | Some x \<Rightarrow> in_i32 x)"

lemma user_view_of: "integer_columns c \<Longrightarrow> container_to_user_dto (container_to_proto txt names c) = user_view txt c"
  by (auto simp: user_view_def container_to_user_dto_def container_to_proto_def integer_columns_def i32_id uuid_ptr_string_def
      string_value_def time_ptr_unix_def unix_of_def split: option.splits)

definition listing_page :: "list_env \<Rightarrow> int \<Rightarrow> id \<Rightarrow> db \<Rightarrow> nat \<Rightarrow> user_container_dto list" where
  "listing_page le limit u d k = map (user_view (le_text le)) (take (nat limit) (drop (k * nat limit) (user_rows u d)))"

lemma listing_page_answer:
  assumes "sc_kind s = KindUser" "sc_user s \<noteq> nil_id" "1 \<le> limit" "limit \<le> 100" "e_fault (w_env w) (w_tick w) = None" "int k + 1 < 2 ^ 31"
    and "\<forall>c \<in> set (t_containers (w_db w)). integer_columns c"
  shows "get_containers_http le (Some s) (page_query (int k + 1) limit) w = (Inr (ApiOk 200
      (listing_page le limit (sc_user s) (w_db w) k, i32 (int (length (user_rows (sc_user s) (w_db w))))), []), w\<lparr>w_tick := Suc (w_tick w)\<rparr>)"
proof -
  note q = page_query_params[of "int k + 1" limit]
  let ?rows = "take (nat limit) (drop (k * nat limit) (user_rows (sc_user s) (w_db w)))"
  have "set ?rows \<subseteq> set (t_containers (w_db w))"
    using set_take_subset set_drop_subset by (fastforce simp: user_rows_def)
  then have view: "map (\<lambda>c. container_to_user_dto (container_to_proto (le_text le) names c)) ?rows = map (user_view (le_text le)) ?rows" for names
    using assms(7) by (intro map_cong[OF refl] user_view_of) blast
  have "nat (int k * limit) = k * nat limit" using assms(3) by (simp add: nat_mult_distrib)
  then show ?thesis
    using assms(1-6) q view
    by (simp add: get_containers_http_def list_containers_http_def unaudited_def client_list_containers_def from_core_def list_containers_rpc_def
        guarded_def require_user_or_admin_scope_def require_scope_def optional_uuid_def reply_def list_all_containers_def owner_filter_def
        query_def ext_def user_rows_listed page_def listed_def api_result_def attempt_def on_error_def seq_def ret_def Let_def
        listing_page_def o_def page_query_def)
qed

text \<open>
  C38. While the store does not change, the pages of a user's listing of containers, put together, are
  the containers of that user in the store, the newest first, each of them exactly once and none of
  another user, and each is shown with the columns of its row; every page names the same total.  The
  containers were created at different instants: among equal ones the database promises no order.
\<close>

theorem listing_pages_complete:
  assumes "sc_kind s = KindUser" and "sc_user s \<noteq> nil_id" and "1 \<le> limit" and "limit \<le> 100"
    and "e_fault (w_env w) (w_tick w) = None" and "int n < 2 ^ 31"
    and "length (filter (\<lambda>c. c_owner c = sc_user s) (t_containers (w_db w))) \<le> n * nat limit"
    and "\<forall>c \<in> set (t_containers (w_db w)). integer_columns c"
    and "distinct (map c_created (filter (\<lambda>c. c_owner c = sc_user s) (t_containers (w_db w))))"
  shows "\<exists>pages rows. concat (map pages [0..<n]) = map (user_view (le_text le)) rows
      \<and> mset rows = mset (filter (\<lambda>c. c_owner c = sc_user s) (t_containers (w_db w)))
      \<and> sorted_wrt (\<lambda>a b. c_created b < c_created a) rows
      \<and> (\<forall>k < n. length (pages k) \<le> nat limit
          \<and> get_containers_http le (Some s) (page_query (int k + 1) limit) w
            = (Inr (ApiOk 200 (pages k, i32 (int (length rows))), []), w\<lparr>w_tick := Suc (w_tick w)\<rparr>))"
proof -
  define rows where "rows = user_rows (sc_user s) (w_db w)"
  define pages where "pages = listing_page le limit (sc_user s) (w_db w)"
  have rows: "mset rows = mset (filter (\<lambda>c. c_owner c = sc_user s) (t_containers (w_db w)))"
    by (simp add: rows_def user_rows_def)
  have all: "length rows \<le> n * nat limit" using assms(7) by (simp add: rows_def user_rows_def)
  have "concat (map pages [0..<n]) = map (user_view (le_text le)) (concat (map (\<lambda>k. take (nat limit) (drop (k * nat limit) rows)) [0..<n]))"
    by (simp add: pages_def listing_page_def[abs_def] rows_def map_concat o_def)
  then have "concat (map pages [0..<n]) = map (user_view (le_text le)) rows" using all by (simp add: pages_concat)
  moreover have "sorted_wrt (\<lambda>a b. c_created b < c_created a) rows"
  proof -
    have "mset (map c_created rows) = mset (map c_created (filter (\<lambda>c. c_owner c = sc_user s) (t_containers (w_db w))))"
      using rows by (simp add: mset_map)
    then have "distinct (map c_created rows)" using assms(9) by (metis mset_eq_imp_distinct_iff)
    moreover have "sorted_wrt (\<lambda>a b. c_created b \<le> c_created a) rows"
      using sorted_sort_key[of "\<lambda>c. - c_created c" "filter (\<lambda>c. c_owner c = sc_user s) (t_containers (w_db w))"]
      by (simp add: rows_def user_rows_def sorted_map)
    ultimately show ?thesis by (induction rows) (auto simp: order.strict_iff_order, metis image_eqI)
  qed
  moreover have "length (pages k) \<le> nat limit \<and> get_containers_http le (Some s) (page_query (int k + 1) limit) w
      = (Inr (ApiOk 200 (pages k, i32 (int (length rows))), []), w\<lparr>w_tick := Suc (w_tick w)\<rparr>)" if "k < n" for k
    using listing_page_answer[OF assms(1-5) _ assms(8), of k le] that assms(6) by (simp add: pages_def rows_def listing_page_def)
  ultimately show ?thesis using rows by blast
qed

section \<open>Witnesses\<close>

definition sample_list_env :: list_env where
  "sample_list_env = \<lparr> le_parse = (\<lambda>t. if t = [] then None else Some 1), le_text = (\<lambda>i. ''00000000-0000''), le_users = (\<lambda>ids. Inr []) \<rparr>"

definition sample_dto :: create_container_dto where
  "sample_dto = \<lparr> nc_name = ''api'', nc_image_tag = ''nginx:latest'', nc_port = 8080, nc_env = [], nc_mounts = [], nc_domain = ''api'' \<rparr>"

definition alice_scope :: scope where "alice_scope = user_scope 7 ''alice'' ''user''"

lemma create_reaches_service_witness: "\<exists>event. gu_action event = ''container.create'' \<and> gu_rname event = ''api''
    \<and> (case create (Some alice_scope) (params_of (le_parse sample_list_env) sample_dto) sample_world of
        (Inr i, w') \<Rightarrow> create_container_http sample_list_env (\<lambda>_. None) (Some alice_scope) (Some sample_dto) sample_world
            = (Inr (ApiOk 202 (le_text sample_list_env i), [event]), w') \<and> gu_outcome event = ''success'' \<and> gu_rid event = le_text sample_list_env i
      | (Inl e, w') \<Rightarrow> (let e' = from_grpc (to_grpc e) in
          create_container_http sample_list_env (\<lambda>_. None) (Some alice_scope) (Some sample_dto) sample_world
            = (Inr (ApiError (http_status e') e', [event]), w') \<and> gu_outcome event = ''failure''))"
proof -
  have "require_user_scope (Some alice_scope) = None" by code_simp
  moreover have "validate_create_container_dto (le_parse sample_list_env) sample_dto = None" by code_simp
  moreover have "nc_name sample_dto = ''api''" by (simp add: sample_dto_def)
  ultimately show ?thesis
    using create_reaches_service[where ctx = "Some alice_scope" and le = sample_list_env and req = sample_dto and marshal = "\<lambda>_. None" and w = sample_world] by simp
qed

lemma listing_pages_complete_witness: "\<exists>pages rows. concat (map pages [0..<1]) = map (user_view (le_text sample_list_env)) rows
      \<and> mset rows = mset [sample_container]
      \<and> get_containers_http sample_list_env (Some alice_scope) (page_query 1 20) sample_world
          = (Inr (ApiOk 200 (pages 0, i32 (int (length rows))), []), sample_world\<lparr>w_tick := Suc (w_tick sample_world)\<rparr>)"
proof -
  have mine: "filter (\<lambda>c. c_owner c = sc_user alice_scope) (t_containers (w_db sample_world)) = [sample_container]"
    by (simp add: sample_defs alice_scope_def user_scope_def)
  have fit: "length (filter (\<lambda>c. c_owner c = sc_user alice_scope) (t_containers (w_db sample_world))) \<le> 1 * nat 20"
    unfolding mine by simp
  have scope: "sc_kind alice_scope = KindUser" "sc_user alice_scope \<noteq> nil_id" "e_fault (w_env sample_world) (w_tick sample_world) = None"
    by (simp_all add: sample_defs alice_scope_def user_scope_def)
  have bounds: "1 \<le> (20 :: int)" "(20 :: int) \<le> 100" "int 1 < 2 ^ 31" by simp_all
  have cols: "\<forall>c \<in> set (t_containers (w_db sample_world)). integer_columns c"
    by (simp add: sample_defs integer_columns_def in_i32_def)
  have dist: "distinct (map c_created (filter (\<lambda>c. c_owner c = sc_user alice_scope) (t_containers (w_db sample_world))))"
    unfolding mine by simp
  obtain pages rows where
    p: "concat (map pages [0..<1]) = map (user_view (le_text sample_list_env)) rows" "mset rows = mset [sample_container]"
    and all: "\<forall>k < 1. length (pages k) \<le> nat 20 \<and> get_containers_http sample_list_env (Some alice_scope) (page_query (int k + 1) 20) sample_world
          = (Inr (ApiOk 200 (pages k, i32 (int (length rows))), []), sample_world\<lparr>w_tick := Suc (w_tick sample_world)\<rparr>)"
    using listing_pages_complete[of alice_scope 20 sample_world 1 sample_list_env, OF scope(1,2) bounds(1,2) scope(3) bounds(3) fit cols dist, unfolded mine]
    by blast
  have "int 0 + 1 = 1" by simp
  with all[THEN spec, of 0] p show ?thesis by (intro exI[of _ pages] exI[of _ rows]) simp
qed

end
