(* ===== verification/RuntimeAdapters.thy ===== *)
theory RuntimeAdapters
  imports DockerAdapter Builder Telemetry BuildService
begin

text \<open>
  The remaining adapters: the Docker engine as the builder and the telemetry service see it
  (internal/builder/infrastructure/docker, internal/telemetry/infrastructure/docker), the registry
  (internal/core/infrastructure/registry) and the object storage (pkg/objectstorage).  The engine is
  the log of requests of theory DockerAdapter; what the registry and the object store answer is a
  parameter of the definition that asks.
\<close>

section \<open>The container of a build (builder/infrastructure/docker/adapter.go)\<close>

definition kaniko_context :: "build_spec \<Rightarrow> string" where
  "kaniko_context p = (if bs_context p \<noteq> [] \<and> bs_context p \<noteq> ''.'' then ''dir:///workspace/'' @ bs_context p else ''dir:///workspace'')"

text \<open>filepath.Join leaves out empty elements and cleans the result.\<close>

definition kaniko_dockerfile :: "build_spec \<Rightarrow> string" where
  "kaniko_dockerfile p = clean_path (''/workspace'' @ concat (map (\<lambda>s. if s = [] then [] else ''/'' @ s) [bs_context p, bs_dockerfile p]))"

definition kaniko_command :: "build_spec \<Rightarrow> string list" where
  "kaniko_command p =
     [''--context='' @ kaniko_context p, ''--dockerfile='' @ kaniko_dockerfile p, ''--destination='' @ bs_destination p,
      ''--cache=false'', ''--insecure'', ''--skip-tls-verify'', ''--ignore-path=/workspace'']
     @ map (\<lambda>(k, v). ''--build-arg='' @ k @ ''='' @ v) (bs_args p)"

definition build_labels :: "(id \<Rightarrow> string) \<Rightarrow> build_spec \<Rightarrow> (string \<times> string) list" where
  "build_labels txt p = [(''managed_by'', ''docker-cloud-manager''), (''dcm.resource_type'', ''build''),
     (''dcm.build_id'', txt (bs_build p)), (''dcm.owner_id'', txt (bs_owner p))]"

text \<open>The network is the one of the endpoints; what the code leaves unset is empty or zero.\<close>

definition build_host_config :: "build_spec \<Rightarrow> host_config" where
  "build_host_config p = \<lparr> hf_network = bs_network p, hf_security = [''no-new-privileges:true''], hf_cap_drop = [''NET_RAW''],
     hf_resources = \<lparr> dr_memory = bs_memory p, dr_swap = memory_swap (bs_memory p) (bs_swap p), dr_reservation = 0, dr_shares = 0,
       dr_quota = bs_cpu_quota p, dr_period = bs_cpu_period p, dr_pids = Some (bs_pids p) \<rparr>,
     hf_mounts = [], hf_log_type = [], hf_log_config = [], hf_storage = [], hf_restart = [] \<rparr>"

definition build_container_config :: "(id \<Rightarrow> string) \<Rightarrow> build_spec \<Rightarrow> container_config" where
  "build_container_config txt p = \<lparr> cf_image = bs_kaniko p, cf_env = [], cf_labels = build_labels txt p,
     cf_cmd = kaniko_command p, cf_entrypoint = [], cf_health = None \<rparr>"

definition clean_build_container :: "string \<Rightarrow> unit docker_meth" where
  "clean_build_container i = docker_do (ContainerRemove i True)"

text \<open>if err != nil { _ = a.CleanBuildContainer(...); return wrapped(err) }\<close>

definition or_clean :: "string \<Rightarrow> (goerr \<Rightarrow> goerr) \<Rightarrow> unit docker_meth \<Rightarrow> unit docker_meth" where
  "or_clean i wrapped m = on_error m (\<lambda>e. seq (ignore (clean_build_container i)) (\<lambda>_. fail (wrapped e)))"

text \<open>The error of pulling the image also stands for the one of reading or closing the stream of the pull.\<close>

definition start_build_container :: "build_spec \<Rightarrow> string docker_meth" where
  "start_build_container p d =
     seq (docker_do (ImagePull (bs_kaniko p))) (\<lambda>_.
     seq (docker_send (ContainerCreate (build_container_config (de_text (dk_env d)) p) (build_host_config p) [] [])) (\<lambda>i.
     seq (or_clean i (\<lambda>e. Wrapped (''failed to tar workspace: '' @ error_text e) e) (docker_read (\<lambda>_ _. ()))) (\<lambda>_.
     seq (or_clean i (\<lambda>e. Wrapped (''failed to copy files to kaniko: '' @ error_text e) e)
            (docker_do (ContainerCopy i ''/workspace'' (bs_workspace p)))) (\<lambda>_.
     seq (or_clean i (\<lambda>e. e) (docker_do (ContainerStart i))) (\<lambda>_.
     seq (or_clean i (\<lambda>e. e) (docker_read (\<lambda>_ _. ()))) (\<lambda>_.
     ret i)))))) d"

text \<open>Which of the three channels answers first, and what it says.\<close>

datatype wait_answer = WaitFailed "goerr option" | WaitStatus "string option" int | WaitDone goerr

definition wait_for_build :: "wait_answer \<Rightarrow> goerr option" where
  "wait_for_build a = (case a of
       WaitFailed e \<Rightarrow> e
     | WaitStatus (Some m) c \<Rightarrow> Some (OtherErr m)
     | WaitStatus None c \<Rightarrow> if c \<noteq> 0 then Some (OtherErr ''build container exited with non-zero status'') else None
     | WaitDone e \<Rightarrow> Some e)"

text \<open>orphans are the containers the engine lists for the two labels.\<close>

definition cleanup_orphan_build_containers :: "(docker_env \<Rightarrow> nat \<Rightarrow> string list) \<Rightarrow> unit docker_meth" where
  "cleanup_orphan_build_containers orphans = seq (docker_read orphans) (for_each clean_build_container)"

section \<open>Streams of a container (telemetry/infrastructure/docker/adapter.go)\<close>

definition verification_failed :: goerr where
  "verification_failed = mk_err ErrNotFound ''container target verification failed''"

text \<open>A label that is absent is the empty string.\<close>

definition label_of :: "(string \<times> string) list \<Rightarrow> string \<Rightarrow> string" where
  "label_of labels k = (case map_of labels k of None \<Rightarrow> [] | Some v \<Rightarrow> v)"

definition validate_labels :: "(string \<times> string) list \<Rightarrow> container_target \<Rightarrow> goerr option" where
  "validate_labels labels target =
    (if label_of labels ''managed_by'' \<noteq> ''docker-cloud-manager'' \<or> label_of labels ''dcm.resource_type'' \<noteq> ''container''
        \<or> label_of labels ''dcm.container_id'' \<noteq> ct_container target \<or> label_of labels ''dcm.owner_id'' \<noteq> ct_owner target
        \<or> label_of labels ''dcm.generation'' \<noteq> itoa (ct_generation target)
     then Some verification_failed else None)"

text \<open>if cerrdefs.IsNotFound(err) { return ErrNotFound }; return err\<close>

definition not_found_or :: "(docker, 'a) meth \<Rightarrow> (docker, 'a) meth" where
  "not_found_or m = on_error m (\<lambda>e. fail (if is_docker_not_found e then Sentinel ErrNotFound else e))"

definition ensure_container_target :: "container_target \<Rightarrow> unit docker_meth" where
  "ensure_container_target target =
     seq (not_found_or (docker_read (\<lambda>e n. de_inspect e n (ct_docker target)))) (\<lambda>j.
     case cj_config j of None \<Rightarrow> fail verification_failed
     | Some c \<Rightarrow> check (validate_labels (cf_labels c) target))"

record engine_log_options =
  eo_follow :: bool
  eo_timestamps :: bool
  eo_tail :: string
  eo_since :: string

definition engine_log_options_of :: "log_options \<Rightarrow> engine_log_options" where
  "engine_log_options_of o' = \<lparr> eo_follow = lo_follow o', eo_timestamps = lo_timestamps o', eo_tail = itoa (lo_tail o'),
     eo_since = (case lo_since o' of None \<Rightarrow> [] | Some t \<Rightarrow> itoa (t div 1000000000)) \<rparr>"

text \<open>logs is the stream the engine answers, with both outputs in one.\<close>

definition docker_stream_logs ::
    "(docker_env \<Rightarrow> nat \<Rightarrow> string \<Rightarrow> engine_log_options \<Rightarrow> 'a) \<Rightarrow> container_target \<Rightarrow> log_options \<Rightarrow> 'a docker_meth" where
  "docker_stream_logs logs target o' = not_found_or (docker_read (\<lambda>e n. logs e n (ct_docker target) (engine_log_options_of o')))"

text \<open>An exec with a terminal of the given size, without privileges, and the connection to it.\<close>

definition docker_open_terminal :: "container_target \<Rightarrow> terminal_options \<Rightarrow> string docker_meth" where
  "docker_open_terminal target o' =
     seq (not_found_or (docker_send (\<lambda>_. ExecTerminal (ct_docker target) (to_command o') (to_rows o') (to_cols o')))) (\<lambda>i.
     seq (not_found_or (docker_do (ExecAttach i (to_rows o') (to_cols o')))) (\<lambda>_. ret i))"

definition resize_terminal :: "string \<Rightarrow> nat \<Rightarrow> nat \<Rightarrow> unit docker_meth" where
  "resize_terminal i rows cols =
    (if rows = 0 \<or> cols = 0 then fail (Wrapped (sentinel_text ErrBadRequest @ '': invalid terminal size'') (Sentinel ErrBadRequest))
     else docker_do (ExecResize i rows cols))"

definition inspect_terminal :: "string \<Rightarrow> (bool \<times> int) docker_meth" where
  "inspect_terminal i = docker_read (\<lambda>e n. de_exec e n i)"

section \<open>The registry (core/infrastructure/registry/adapter.go)\<close>

definition registry_base_url :: "string \<Rightarrow> string" where
  "registry_base_url u =
     trim_right (\<lambda>c. c = CHR ''/'') (if \<not> has_prefix u ''http://'' \<and> \<not> has_prefix u ''https://'' then ''http://'' @ u else u)"

text \<open>
  The answer of the registry: its status, the digest header, and the sizes of the configuration and of
  the layers, unless the body does not decode.
\<close>

record registry_answer =
  rg_status :: int
  rg_digest :: string
  rg_manifest :: "goerr + int \<times> int list"

definition manifest_url :: "string \<Rightarrow> string \<Rightarrow> string \<Rightarrow> string" where
  "manifest_url base repo r = base @ ''/v2/'' @ repo @ ''/manifests/'' @ r"

definition get_image_size_and_digest ::
    "(string \<Rightarrow> goerr + registry_answer) \<Rightarrow> string \<Rightarrow> string \<Rightarrow> string \<Rightarrow> goerr + int \<times> string" where
  "get_image_size_and_digest get base repo tag = (case get (manifest_url base repo tag) of
       Inl e \<Rightarrow> Inl e
     | Inr a \<Rightarrow>
         if rg_status a \<noteq> 200 then Inl (OtherErr (''registry returned status: '' @ itoa (rg_status a)))
         else if rg_digest a = [] then Inl (OtherErr ''missing Docker-Content-Digest header'')
         else (case rg_manifest a of Inl e \<Rightarrow> Inl e
           | Inr (config_size, layers) \<Rightarrow> Inr (foldl (\<lambda>s n. i64 (s + n)) config_size layers, rg_digest a)))"

definition delete_manifest :: "(string \<Rightarrow> goerr + registry_answer) \<Rightarrow> string \<Rightarrow> string \<Rightarrow> string \<Rightarrow> goerr option" where
  "delete_manifest send base repo digest = (case send (manifest_url base repo digest) of
       Inl e \<Rightarrow> Some e
     | Inr a \<Rightarrow> if rg_status a \<noteq> 202 \<and> rg_status a \<noteq> 404
         then Some (OtherErr (''failed to delete manifest, status: '' @ itoa (rg_status a))) else None)"

section \<open>The object storage (pkg/objectstorage)\<close>

text \<open>response is minio.ToErrorResponse: the code and the HTTP status of an error.\<close>

definition map_object_storage_error :: "(goerr \<Rightarrow> string \<times> int) \<Rightarrow> goerr \<Rightarrow> goerr" where
  "map_object_storage_error response e = (case response e of (code, status) \<Rightarrow>
     if code = ''NoSuchKey'' \<or> code = ''NoSuchBucket'' \<or> status = 404 then Sentinel ErrNotFound else e)"

text \<open>
  A reader of ranges: ask answers the bytes of the closed range from its first to its second argument,
  with the error that ends them early.  The result is what was read into the buffer of size n, with the
  error; RangeEnd stands for io.EOF.
\<close>

datatype read_error = RangeEnd | RangeFailed goerr

definition read_full :: "nat \<Rightarrow> string \<Rightarrow> read_error option \<Rightarrow> string \<times> read_error option" where
  "read_full n body e = (if n \<le> length body then (take n body, None)
     else (body, Some (case e of None \<Rightarrow> RangeEnd | Some x \<Rightarrow> x)))"

definition range_read_at ::
    "(goerr \<Rightarrow> string \<times> int) \<Rightarrow> (int \<Rightarrow> int \<Rightarrow> goerr + string \<times> read_error option) \<Rightarrow> int \<Rightarrow> nat \<Rightarrow> int \<Rightarrow> string \<times> read_error option" where
  "range_read_at response ask_range total_size n off =
    (if off < 0 then ([], Some (RangeFailed (OtherErr ''negative range offset'')))
     else if off \<ge> total_size then ([], Some RangeEnd)
     else let k = (if int n > total_size - off then nat (total_size - off) else n) in
       if k = 0 then ([], None)
       else case ask_range off (off + int k - 1) of
           Inl e \<Rightarrow> ([], Some (RangeFailed (map_object_storage_error response e)))
         | Inr (body, e) \<Rightarrow> read_full k body e)"

text \<open>The client is made at the first use; making it asks for the bucket and creates it when it is missing.\<close>

definition new_minio_storage :: "goerr option \<Rightarrow> goerr + bool \<Rightarrow> goerr option \<Rightarrow> goerr option" where
  "new_minio_storage client exists_answer make_answer = (case client of Some e \<Rightarrow> Some e
     | None \<Rightarrow> (case exists_answer of Inl e \<Rightarrow> Some e | Inr True \<Rightarrow> None | Inr False \<Rightarrow> make_answer))"

definition lazy_get :: "goerr option \<Rightarrow> (bool, unit) meth" where
  "lazy_get made ready = (if ready then (Inr (), True)
     else case made of
         Some e \<Rightarrow> (Inl (wrap_err ErrUnavailable ''object storage is unavailable''
             (Wrapped (''failed to initialize object storage: '' @ error_text e) e)), False)
       | None \<Rightarrow> (Inr (), True))"

text \<open>Every call of the lazy storage; the error of an upload is wrapped, that of the others is mapped.\<close>

definition lazy_call :: "goerr option \<Rightarrow> (bool, 'a) meth \<Rightarrow> (bool, 'a) meth" where
  "lazy_call made m = seq (lazy_get made) (\<lambda>_. m)"

definition content_type_or_default :: "string \<Rightarrow> string" where
  "content_type_or_default t = (if t = [] then ''application/octet-stream'' else t)"

text \<open>put, copy, stat, fetch and remove are the calls of the client.\<close>

definition minio_upload :: "(string \<Rightarrow> string \<Rightarrow> goerr option) \<Rightarrow> string \<Rightarrow> string \<Rightarrow> goerr option" where
  "minio_upload put key t = map_option (upload_failed key) (put key (content_type_or_default t))"

text \<open>The content type of a copy, if it is to be replaced.\<close>

definition minio_copy ::
    "(goerr \<Rightarrow> string \<times> int) \<Rightarrow> (string \<Rightarrow> string \<Rightarrow> string option \<Rightarrow> goerr option) \<Rightarrow> string \<Rightarrow> string \<Rightarrow> string \<Rightarrow> goerr option" where
  "minio_copy response copy from_key to_key t =
     map_option (map_object_storage_error response) (copy from_key to_key (if t \<noteq> [] then Some t else None))"

definition minio_stat :: "(goerr \<Rightarrow> string \<times> int) \<Rightarrow> (string \<Rightarrow> goerr + int) \<Rightarrow> string \<Rightarrow> goerr + int" where
  "minio_stat response stat key = (case stat key of Inl e \<Rightarrow> Inl (map_object_storage_error response e) | Inr n \<Rightarrow> Inr n)"

definition minio_download ::
    "(goerr \<Rightarrow> string \<times> int) \<Rightarrow> (string \<Rightarrow> goerr option) \<Rightarrow> (string \<Rightarrow> string \<Rightarrow> goerr option) \<Rightarrow> string \<Rightarrow> string \<Rightarrow> goerr option" where
  "minio_download response mkdir fetch key path = (case mkdir (path_dir path) of Some e \<Rightarrow> Some e
     | None \<Rightarrow> map_option (map_object_storage_error response) (fetch key path))"

definition minio_delete :: "(goerr \<Rightarrow> string \<times> int) \<Rightarrow> (string \<Rightarrow> goerr option) \<Rightarrow> string \<Rightarrow> goerr option" where
  "minio_delete response remove key = map_option (map_object_storage_error response) (remove key)"

definition minio_open ::
    "(goerr \<Rightarrow> string \<times> int) \<Rightarrow> (string \<Rightarrow> goerr + 'a) \<Rightarrow> ('a \<Rightarrow> goerr option) \<Rightarrow> string \<Rightarrow> goerr + 'a" where
  "minio_open response get stat key = (case get key of
       Inl e \<Rightarrow> Inl (map_object_storage_error response e)
     | Inr obj \<Rightarrow> (case stat obj of Some e \<Rightarrow> Inl (map_object_storage_error response e) | None \<Rightarrow> Inr obj))"

text \<open>The reader of an object and its size.\<close>

definition new_reader_at ::
    "(goerr \<Rightarrow> string \<times> int) \<Rightarrow> (string \<Rightarrow> goerr + int) \<Rightarrow> (string \<Rightarrow> int \<Rightarrow> int \<Rightarrow> goerr + string \<times> read_error option) \<Rightarrow> string
      \<Rightarrow> goerr + (nat \<Rightarrow> int \<Rightarrow> string \<times> read_error option) \<times> int" where
  "new_reader_at response stat ask_range key =
     bind_res (minio_stat response stat key) (\<lambda>n. Inr (range_read_at response (ask_range key) n, n))"

end
