(* ===== verification/DockerProps.thy ===== *)
theory DockerProps
  imports RuntimeAdapters
begin

text \<open>
  What the Docker adapter guarantees to the services: the creation of a container is all or nothing
  and confines it, its labels bring its identity back with every event, a network is found by its
  whole name, and the statistics are those of the engine as long as its counters do not go back.
\<close>

section \<open>The containers of the engine\<close>

text \<open>
  The containers that exist after the requests of a log, with what they were created from, the names
  they are known by in the network of their user, and the networks they have joined.
\<close>

record live_container =
  lc_id :: string
  lc_name :: string
  lc_config :: container_config
  lc_host :: host_config
  lc_aliases :: "string list"
  lc_networks :: "string list"

fun live_step :: "live_container list \<Rightarrow> docker_request \<Rightarrow> live_container list" where
  "live_step cs (ContainerCreate cfg host aliases name i) = \<lparr> lc_id = i, lc_name = name, lc_config = cfg, lc_host = host,
     lc_aliases = aliases, lc_networks = [hf_network host] \<rparr> # cs"
| "live_step cs (NetworkConnect network i) =
     map (\<lambda>c. if lc_id c = i then c\<lparr>lc_networks := lc_networks c @ [network]\<rparr> else c) cs"
| "live_step cs (ContainerRemove i force) = filter (\<lambda>c. lc_id c \<noteq> i) cs"
| "live_step cs _ = cs"

definition live :: "docker \<Rightarrow> live_container list" where
  "live d = foldl live_step [] (dk_log d)"

text \<open>
  The container a specification asks for: in the network of its user under its alias, and in the network
  of the proxy exactly when it is exposed.
\<close>

definition created_from :: "docker_env \<Rightarrow> runtime_spec \<Rightarrow> string \<Rightarrow> live_container" where
  "created_from e p i = \<lparr> lc_id = i, lc_name = rs_name p, lc_config = container_config_of (de_text e) p, lc_host = host_config_of p,
     lc_aliases = (if rs_alias p \<noteq> [] then [rs_alias p] else []),
     lc_networks = rs_network p # (if rs_domain p \<noteq> [] \<and> rs_port p \<noteq> 0 then [rs_proxy_network p] else []) \<rparr>"

section \<open>Creating a container\<close>

lemma docker_send_cases:
  "docker_send r d = (x, d') \<longleftrightarrow> (\<exists>e. de_fault (dk_env d) (dk_tick d) = Some e \<and> x = Inl e \<and> d' = d\<lparr>dk_tick := Suc (dk_tick d)\<rparr>)
     \<or> de_fault (dk_env d) (dk_tick d) = None \<and> x = Inr (de_new_id (dk_env d) (dk_tick d))
       \<and> d' = d\<lparr>dk_tick := Suc (dk_tick d), dk_log := dk_log d @ [r (de_new_id (dk_env d) (dk_tick d))]\<rparr>"
  by (auto simp: docker_send_def Let_def split: option.splits)

lemma docker_do_cases:
  "docker_do r d = (x, d') \<longleftrightarrow> (\<exists>e. de_fault (dk_env d) (dk_tick d) = Some e \<and> x = Inl e \<and> d' = d\<lparr>dk_tick := Suc (dk_tick d)\<rparr>)
     \<or> de_fault (dk_env d) (dk_tick d) = None \<and> x = Inr () \<and> d' = d\<lparr>dk_tick := Suc (dk_tick d), dk_log := dk_log d @ [r]\<rparr>"
  by (auto simp: docker_do_def docker_send_def seq_def ret_def Let_def split: option.splits)

lemma create_container_log:
  assumes "docker_create_container p d = (r, d')"
  defines "i \<equiv> de_new_id (dk_env d) (dk_tick d)"
  defines "c \<equiv> ContainerCreate (container_config_of (de_text (dk_env d)) p) (host_config_of p) (if rs_alias p \<noteq> [] then [rs_alias p] else []) (rs_name p) i"
  shows "(\<exists>e. r = Inl e \<and> dk_log d' = dk_log d)
    \<or> (r = Inr i \<and> dk_log d' = dk_log d @ c # (if rs_domain p \<noteq> [] \<and> rs_port p \<noteq> 0 then [NetworkConnect (rs_proxy_network p) i] else []))
    \<or> (\<exists>e. r = Inl e \<and> dk_log d' = dk_log d @ [c, ContainerRemove i True])
    \<or> (\<exists>e. r = Inl e \<and> dk_log d' = dk_log d @ [c] \<and> de_fault (dk_env d) (Suc (dk_tick d)) \<noteq> None \<and> de_fault (dk_env d) (Suc (Suc (dk_tick d))) \<noteq> None)"
proof -
  let ?n = "dk_tick d" and ?f = "de_fault (dk_env d)"
  note s = assms(1)[unfolded docker_create_container_def]
  consider (none) "?f ?n \<noteq> None" | (plain) "?f ?n = None" "\<not> (rs_domain p \<noteq> [] \<and> rs_port p \<noteq> 0)"
    | (joined) "?f ?n = None" "rs_domain p \<noteq> [] \<and> rs_port p \<noteq> 0" "?f (Suc ?n) = None"
    | (undone) "?f ?n = None" "rs_domain p \<noteq> [] \<and> rs_port p \<noteq> 0" "?f (Suc ?n) \<noteq> None" by blast
  then show ?thesis
    by cases (insert s, auto simp: seq_def docker_send_def docker_do_def on_error_def ignore_def ret_def fail_def Let_def i_def c_def split: option.splits)
qed

lemma live_append: "live (d\<lparr>dk_log := dk_log d @ rs\<rparr>) = foldl live_step (live d) rs"
  by (simp add: live_def)

lemma live_log: "dk_log d' = dk_log d @ rs \<Longrightarrow> live d' = foldl live_step (live d) rs"
  by (simp add: live_def)

text \<open>
  C36. Creating a container through the adapter refines the single step the services rely on: either
  it answers the identifier of a new container, which then exists exactly as the specification asks and
  has joined the networks it needs, that of the proxy if it is exposed; or it answers an error and the
  engine has the containers it had before, in their networks, unless the removal of a container that
  could not join the proxy network failed as well: then that one is left, without the proxy network.
\<close>

theorem create_container_is_atomic:
  assumes "docker_create_container p d = (r, d')"
    and "de_new_id (dk_env d) (dk_tick d) \<notin> lc_id ` set (live d)"
  shows "case r of
      Inr i \<Rightarrow> live d' = created_from (dk_env d) p i # live d
    | Inl e \<Rightarrow> live d' = live d \<or> de_fault (dk_env d) (Suc (dk_tick d)) \<noteq> None \<and> de_fault (dk_env d) (Suc (Suc (dk_tick d))) \<noteq> None
        \<and> live d' = (created_from (dk_env d) p (de_new_id (dk_env d) (dk_tick d)))\<lparr>lc_networks := [rs_network p]\<rparr> # live d"
proof -
  let ?i = "de_new_id (dk_env d) (dk_tick d)" and ?n = "dk_tick d" and ?f = "de_fault (dk_env d)"
  let ?c = "ContainerCreate (container_config_of (de_text (dk_env d)) p) (host_config_of p) (if rs_alias p \<noteq> [] then [rs_alias p] else []) (rs_name p) ?i"
  have step: "live_step cs ?c = (created_from (dk_env d) p ?i)\<lparr>lc_networks := [rs_network p]\<rparr> # cs" for cs
    by (simp add: created_from_def host_config_of_def)
  have others: "map (\<lambda>c. if lc_id c = ?i then f c else c) (live d) = live d" for f
    using assms(2) by (intro map_idI) (metis image_eqI)
  have new: "filter (\<lambda>c. lc_id c \<noteq> ?i) (live d) = live d" using assms(2) by (intro filter_True) (metis image_eqI)
  consider (failed) e where "r = Inl e" "dk_log d' = dk_log d"
    | (made) "r = Inr ?i" "dk_log d' = dk_log d @ ?c # (if rs_domain p \<noteq> [] \<and> rs_port p \<noteq> 0 then [NetworkConnect (rs_proxy_network p) ?i] else [])"
    | (undone) e where "r = Inl e" "dk_log d' = dk_log d @ [?c, ContainerRemove ?i True]"
    | (left_over) e where "r = Inl e" "dk_log d' = dk_log d @ [?c]" "?f (Suc ?n) \<noteq> None" "?f (Suc (Suc ?n)) \<noteq> None"
    using create_container_log[OF assms(1)] by (elim disjE exE conjE) (auto split: if_splits)
  then show ?thesis
  proof cases
    case failed
    then show ?thesis by (simp add: live_def)
  next
    case made
    then show ?thesis using live_log[OF made(2)] step others by (simp add: created_from_def)
  next
    case undone
    then show ?thesis using live_log[OF undone(2)] undone(1) by (simp add: new created_from_def)
  next
    case left_over
    then show ?thesis using live_log[OF left_over(2)] step by simp
  qed
qed

text \<open>
  Whatever a specification asks for, a container is created without new privileges and raw
  network access, in the network of its user, with its memory limit, with named volumes as its only
  mounts, and with a route of the proxy exactly when it has a domain and a port; its identifier,
  owner and generation are among its labels.
\<close>

theorem created_container_is_confined:
  assumes "dk_log d = []" and "docker_create_container p d = (r, d')" and "ContainerCreate cfg host aliases name i \<in> set (dk_log d')"
  shows "List.member (hf_security host) ''no-new-privileges:true'' \<and> List.member (hf_cap_drop host) ''NET_RAW''
    \<and> hf_network host = rs_network p \<and> dr_memory (hf_resources host) = rs_memory_limit p \<and> dr_pids (hf_resources host) = Some (rs_pids_limit p)
    \<and> list_all (\<lambda>m. mt_type m = ''volume'' \<and> List.member (map ms_volume_name (rs_mounts p)) (mt_source m)) (hf_mounts host)
    \<and> (List.member (cf_labels cfg) (''traefik.enable'', ''true'') \<longleftrightarrow> rs_domain p \<noteq> [] \<and> rs_port p \<noteq> 0)
    \<and> List.member (cf_labels cfg) (''dcm.container_id'', de_text (dk_env d) (rs_container p))
    \<and> List.member (cf_labels cfg) (''dcm.owner_id'', de_text (dk_env d) (rs_owner p))
    \<and> List.member (cf_labels cfg) (''dcm.generation'', itoa (rs_generation p))"
proof -
  have "cfg = container_config_of (de_text (dk_env d)) p" "host = host_config_of p"
    using create_container_log[OF assms(2)] assms(1,3) by (auto split: if_splits)
  then show ?thesis
    by (auto simp: container_config_of_def host_config_of_def runtime_labels_def list_all_iff)
qed

section \<open>The container of a build\<close>

definition build_container_of :: "docker_env \<Rightarrow> build_spec \<Rightarrow> string \<Rightarrow> live_container" where
  "build_container_of e p i = \<lparr> lc_id = i, lc_name = [], lc_config = build_container_config (de_text e) p, lc_host = build_host_config p,
     lc_aliases = [], lc_networks = [bs_network p] \<rparr>"

text \<open>Every step after the creation either goes on or takes the container away again.\<close>

definition harmless :: "(docker, 'a) meth \<Rightarrow> bool" where
  "harmless m \<longleftrightarrow> (\<forall>d x d'. m d = (x, d') \<longrightarrow> live d' = live d \<and> dk_env d' = dk_env d \<and> dk_tick d' = Suc (dk_tick d)
     \<and> (is_ok x \<or> de_fault (dk_env d) (dk_tick d) \<noteq> None))"

lemma harmless_requests:
  "harmless (docker_read f)" "harmless (docker_do (ContainerCopy i to from))" "harmless (docker_do (ContainerStart i))"
  by (auto simp: harmless_def docker_read_def docker_do_cases live_def is_ok_def Let_def split: option.splits)

text \<open>Two requests in a row that failed.\<close>

definition failed_twice :: "docker_env \<Rightarrow> bool" where
  "failed_twice e \<longleftrightarrow> (\<exists>n. de_fault e n \<noteq> None \<and> de_fault e (Suc n) \<noteq> None)"

lemma or_clean_step:
  assumes "seq (or_clean i g m) f d = (r, d')" and "harmless m" and "live d = c # cs" and "lc_id c = i" and "i \<notin> lc_id ` set cs"
  shows "(\<exists>d1. f () d1 = (r, d') \<and> live d1 = c # cs \<and> dk_env d1 = dk_env d)
    \<or> (\<exists>e. r = Inl e) \<and> (live d' = cs \<or> failed_twice (dk_env d) \<and> live d' = c # cs)"
proof -
  obtain x d1 where 1: "m d = (x, d1)" by fastforce
  have k: "live d1 = live d" "dk_env d1 = dk_env d" "dk_tick d1 = Suc (dk_tick d)" "is_ok x \<or> de_fault (dk_env d) (dk_tick d) \<noteq> None"
    using assms(2) 1 unfolding harmless_def by blast+
  have others: "filter (\<lambda>c. lc_id c \<noteq> i) cs = cs" using assms(5) by (intro filter_True) (metis image_eqI)
  show ?thesis
  proof (cases x)
    case (Inr u)
    then show ?thesis using assms(1,3) 1 k by (auto simp: or_clean_def on_error_def seq_def ret_def)
  next
    case (Inl e)
    obtain y d2 where 2: "docker_do (ContainerRemove i True) d1 = (y, d2)" by fastforce
    have r: "(\<exists>e. r = Inl e) \<and> d' = d2"
      using assms(1) 1 2 Inl by (cases y) (auto simp: or_clean_def on_error_def clean_build_container_def ignore_def seq_def fail_def ret_def)
    have "live d2 = cs \<or> failed_twice (dk_env d) \<and> live d2 = c # cs"
      using 2 k Inl assms(3,4) others by (auto simp: docker_do_cases live_def is_ok_def failed_twice_def)
    then show ?thesis using r by blast
  qed
qed

text \<open>
  Starting the container of a build is all or nothing: either the container it answers was
  created from the specification, received the workspace and was started, in this order, or the engine
  has the containers it had before, unless two requests in a row failed, the second of them the removal.
\<close>

theorem start_build_container_is_atomic:
  assumes "start_build_container p d = (r, d')" and "de_new_id (dk_env d) (Suc (dk_tick d)) \<notin> lc_id ` set (live d)"
  defines "c \<equiv> build_container_of (dk_env d) p (de_new_id (dk_env d) (Suc (dk_tick d)))"
  shows "case r of
      Inr i \<Rightarrow> i = lc_id c \<and> live d' = c # live d
        \<and> dk_log d' = dk_log d @ [ImagePull (bs_kaniko p), ContainerCreate (lc_config c) (lc_host c) [] [] i,
             ContainerCopy i ''/workspace'' (bs_workspace p), ContainerStart i]
    | Inl e \<Rightarrow> live d' = live d \<or> failed_twice (dk_env d) \<and> live d' = c # live d"
proof (cases r)
  case (Inr i)
  then show ?thesis using assms(1)
    by (auto simp: start_build_container_def seq_Inr_iff or_clean_def on_error_Inr docker_do_cases docker_send_cases docker_read_def
        ret_def fail_def Let_def live_def c_def build_container_of_def build_host_config_def split: option.splits)
next
  case (Inl e)
  define rest where "rest i =
     seq (or_clean i (\<lambda>e. Wrapped (''failed to tar workspace: '' @ error_text e) e) (docker_read (\<lambda>_ _. ()))) (\<lambda>_.
     seq (or_clean i (\<lambda>e. Wrapped (''failed to copy files to kaniko: '' @ error_text e) e)
            (docker_do (ContainerCopy i ''/workspace'' (bs_workspace p)))) (\<lambda>_.
     seq (or_clean i (\<lambda>e. e) (docker_do (ContainerStart i))) (\<lambda>_.
     seq (or_clean i (\<lambda>e. e) (docker_read (\<lambda>_ _. ()))) (\<lambda>_. ret i))))" for i
  obtain x1 d1 where 1: "docker_do (ImagePull (bs_kaniko p)) d = (x1, d1)" by fastforce
  obtain x2 d2 where 2: "docker_send (ContainerCreate (build_container_config (de_text (dk_env d)) p) (build_host_config p) [] []) d1 = (x2, d2)"
    by fastforce
  have run: "(r, d') = (case x1 of Inl e \<Rightarrow> (Inl e, d1) | Inr _ \<Rightarrow> case x2 of Inl e \<Rightarrow> (Inl e, d2) | Inr i \<Rightarrow> rest i d2)"
    using assms(1) 1 2 unfolding start_build_container_def rest_def[symmetric]
    by (cases x1; cases x2) (auto simp: seq_def)
  have l1: "live d1 = live d" "dk_env d1 = dk_env d" "dk_tick d1 = Suc (dk_tick d)" using 1 by (auto simp: docker_do_cases live_def)
  show ?thesis
  proof (cases "is_ok x1 \<and> is_ok x2")
    case False
    have "live d2 = live d1" if "\<not> is_ok x2" using 2 that by (auto simp: docker_send_cases live_def is_ok_def)
    then have "live d' = live d" using run l1 False by (cases x1; cases x2) (simp_all add: is_ok_def)
    then show ?thesis using Inl by simp
  next
    case True
    then obtain i where x: "x1 = Inr ()" "x2 = Inr i" by (cases x1; cases x2) (simp_all add: is_ok_def)
    have c: "live d2 = c # live d" "dk_env d2 = dk_env d" "lc_id c = i" "i \<notin> lc_id ` set (live d)"
      using 2 x l1 assms(2) by (auto simp: docker_send_cases live_def c_def build_container_of_def build_host_config_def)
    have go: "rest i d2 = (r, d')" using run x by simp
    note step = or_clean_step[OF _ _ _ c(3,4)]
    from step[OF go[unfolded rest_def] harmless_requests(1) c(1)] show ?thesis
      using Inl c(2) by (auto simp: ret_def dest!: step[OF _ harmless_requests(2)] step[OF _ harmless_requests(3)] step[OF _ harmless_requests(1)])
  qed
qed

section \<open>Events\<close>

text \<open>
  The labels a container is created with bring its identity back: every event of the engine that
  carries them is an event of that container in that generation, so a later generation is told apart.
\<close>

theorem labels_identify_container:
  assumes "\<And>k v. (k, v) \<in> set (runtime_labels txt p) \<Longrightarrow> dv_attributes m k = v"
    and "parse (txt (rs_container p)) = Some (rs_container p)" and "in_i64 (rs_generation p)"
  shows "ev_container (container_event_of parse m) = Some (rs_container p)
    \<and> ev_generation (container_event_of parse m) = rs_generation p"
proof -
  have "dv_attributes m ''dcm.container_id'' = txt (rs_container p)" "dv_attributes m ''dcm.generation'' = itoa (rs_generation p)"
    by (rule assms(1), simp add: runtime_labels_def)+
  then show ?thesis using assms(2,3) by (simp add: container_event_of_def atoi_itoa)
qed

section \<open>Targets of telemetry\<close>

lemma itoa_inj: "in_i64 m \<Longrightarrow> in_i64 n \<Longrightarrow> itoa m = itoa n \<longleftrightarrow> m = n"
  using atoi_itoa by (metis option.inject)

lemma label_of_runtime [simp]:
  "label_of (runtime_labels txt p) ''managed_by'' = ''docker-cloud-manager''" "label_of (runtime_labels txt p) ''dcm.resource_type'' = ''container''"
  "label_of (runtime_labels txt p) ''dcm.container_id'' = txt (rs_container p)" "label_of (runtime_labels txt p) ''dcm.owner_id'' = txt (rs_owner p)"
  "label_of (runtime_labels txt p) ''dcm.generation'' = itoa (rs_generation p)"
  by (simp_all add: label_of_def runtime_labels_def)

lemma ensure_container_target_ok:
  assumes "de_fault (dk_env d) (dk_tick d) = None"
  shows "fst (ensure_container_target target d) = Inr ()
    \<longleftrightarrow> (\<exists>cf. cj_config (de_inspect (dk_env d) (dk_tick d) (ct_docker target)) = Some cf \<and> validate_labels (cf_labels cf) target = None)"
  using assms by (auto simp: ensure_container_target_def not_found_or_def on_error_def seq_def docker_read_def check_def ret_def fail_def Let_def
      split: option.splits)

text \<open>
  C34. The telemetry service and the core service agree on what a container is: of the containers the
  core created, a stream or a terminal is let through to exactly the one with the identifier, the owner
  and the generation the core named as its target, and never to the container of a build.
\<close>

theorem telemetry_reaches_its_target:
  assumes "de_fault (dk_env d) (dk_tick d) = None" and "inj txt" and "in_i64 (rs_generation p)" and "in_i64 (ct_generation target)"
    and "ct_container target = txt cid" and "ct_owner target = txt owner"
  defines "found \<equiv> cj_config (de_inspect (dk_env d) (dk_tick d) (ct_docker target))"
  shows "(found = Some (container_config_of txt p) \<longrightarrow> (fst (ensure_container_target target d) = Inr ()
        \<longleftrightarrow> rs_container p = cid \<and> rs_owner p = owner \<and> rs_generation p = ct_generation target))
    \<and> (found = Some (build_container_config txt q) \<longrightarrow> fst (ensure_container_target target d) \<noteq> Inr ())"
proof (intro conjI impI)
  assume "found = Some (container_config_of txt p)"
  then show "fst (ensure_container_target target d) = Inr ()
        \<longleftrightarrow> rs_container p = cid \<and> rs_owner p = owner \<and> rs_generation p = ct_generation target"
    using assms(2-6) unfolding ensure_container_target_ok[OF assms(1)] found_def[symmetric]
    by (auto simp: validate_labels_def container_config_of_def itoa_inj dest: injD)
next
  assume "found = Some (build_container_config txt q)"
  then show "fst (ensure_container_target target d) \<noteq> Inr ()"
    unfolding ensure_container_target_ok[OF assms(1)] found_def[symmetric]
    by (simp add: validate_labels_def build_container_config_def build_labels_def label_of_def)
qed

section \<open>Ranges of an object\<close>

text \<open>A store that answers a closed range with its bytes, in full.\<close>

definition serves :: "string \<Rightarrow> (int \<Rightarrow> int \<Rightarrow> goerr + string \<times> read_error option) \<Rightarrow> bool" where
  "serves content ask_range \<longleftrightarrow> (\<forall>a b. 0 \<le> a \<longrightarrow> a \<le> b \<longrightarrow> b < int (length content)
     \<longrightarrow> ask_range a b = Inr (take (nat (b - a + 1)) (drop (nat a) content), None))"

text \<open>
  Reading a range of a stored object delivers exactly its bytes, those that are left when the
  range goes beyond the end, and the end of the object only for an offset at or behind it.
\<close>

theorem range_read_exact:
  assumes "serves content ask_range" and "0 \<le> off"
  shows "range_read_at response ask_range (int (length content)) n off =
    (if off \<ge> int (length content) then ([], Some RangeEnd) else (take n (drop (nat off) content), None))"
proof (cases "off < int (length content)")
  case False
  then show ?thesis using assms(2) by (simp add: range_read_at_def)
next
  case True
  define k where "k = (if int n > int (length content) - off then nat (int (length content) - off) else n)"
  have k: "k = length (take n (drop (nat off) content))" using True assms(2) by (auto simp: k_def nat_diff_distrib)
  have e: "take k (drop (nat off) content) = take n (drop (nat off) content)"
    using k by (metis length_take min.cobounded2 take_all_iff take_take min_def)
  show ?thesis
  proof (cases "k = 0")
    case zero: True
    then have "take n (drop (nat off) content) = []" using k by auto
    then show ?thesis using True assms(2) zero by (simp add: range_read_at_def k_def[symmetric])
  next
    case False
    have le: "off + int k - 1 < int (length content)" using True assms(2) k by (auto simp: k_def split: if_splits)
    have "ask_range off (off + int k - 1) = Inr (take k (drop (nat off) content), None)"
      using assms False le unfolding serves_def by (auto dest!: spec[of _ off] spec[of _ "off + int k - 1"])
    moreover have "k \<le> length (take k (drop (nat off) content))" using k e by simp
    ultimately show ?thesis using True assms(2) False e by (simp add: range_read_at_def k_def[symmetric] read_full_def Let_def)
  qed
qed

text \<open>A read that is cut short at the end of the object reports no error, which io.ReaderAt asks for.\<close>

lemma short_read_without_error: "range_read_at response (\<lambda>a b. Inr (''c'', None)) 3 2 2 = (''c'', None)"
  by (simp add: range_read_at_def read_full_def)

section \<open>Networks\<close>

theorem network_found_by_name:
  assumes "ensure_user_network name d = (Inr i, d')"
  shows "(\<exists>n. (name, i) \<in> set (de_networks (dk_env d) n name)) \<and> dk_log d' = dk_log d
    \<or> dk_log d' = dk_log d @ [NetworkCreate name]"
proof -
  have found: "(\<exists>n. (name, j) \<in> set (de_networks (dk_env d1) n name)) \<and> dk_log d2 = dk_log d1 \<and> dk_env d2 = dk_env d1"
    if "find_user_network name d1 = (Inr j, d2)" "j \<noteq> []" for d1 d2 j
    using that by (auto simp: find_user_network_def docker_read_def seq_def ret_def Let_def find_Some_iff split: option.splits)
      (metis nth_mem prod.collapse)
  have kept: "dk_log d2 = dk_log d1 \<and> dk_env d2 = dk_env d1" if "find_user_network name d1 = (x, d2)" for d1 d2 x
    using that by (auto simp: find_user_network_def docker_read_def seq_def ret_def Let_def split: option.splits)
  obtain x d1 where f: "find_user_network name d = (x, d1)" by fastforce
  then obtain j where j: "x = Inr j" using assms by (cases x) (auto simp: ensure_user_network_def seq_def)
  show ?thesis
  proof (cases "j = []")
    case False
    then show ?thesis using assms f j found[OF f[unfolded j]] by (auto simp: ensure_user_network_def seq_def ret_def)
  next
    case True
    obtain y d2 where s: "docker_send (\<lambda>_. NetworkCreate name) d1 = (y, d2)" by fastforce
    show ?thesis
    proof (cases y)
      case (Inr k)
      then show ?thesis using assms f j True s kept[OF f]
        by (auto simp: ensure_user_network_def seq_def on_error_def docker_send_cases)
    next
      case (Inl e)
      then have d2: "dk_log d2 = dk_log d1" "dk_env d2 = dk_env d1" using s by (auto simp: docker_send_cases)
      obtain z d3 where g: "find_user_network name d2 = (z, d3)" by fastforce
      have "z = Inr i \<and> i \<noteq> [] \<and> d' = d3"
        using assms f j True s Inl g
        by (auto simp: ensure_user_network_def seq_def on_error_def attempt_def ret_def fail_def split: sum.splits if_splits)
      then show ?thesis using found[of d2 i d3] g kept[OF f] d2 by auto
    qed
  qed
qed

section \<open>Collecting the registry\<close>

text \<open>The collection returns once the command has ended, a request fails or the context is over.\<close>

theorem wait_exec_returns:
  assumes "dk_tick d \<le> n" and "de_ctx (dk_env d) n \<noteq> None \<or> de_fault (dk_env d) n \<noteq> None \<or> \<not> fst (de_exec (dk_env d) n i)"
  shows "\<exists>r d'. wait_exec i d = Some (r, d')"
  using assms
proof (induction "n - dk_tick d" arbitrary: d)
  case 0
  then have "dk_tick d = n" by simp
  then show ?case using 0(3)
    by (subst wait_exec.simps) (auto simp: docker_read_def Let_def split: option.splits prod.splits)
next
  case (Suc k)
  obtain x d1 where r: "docker_read (\<lambda>e n. de_exec e n i) d = (x, d1)" by fastforce
  then have d1: "dk_tick d1 = Suc (dk_tick d)" "dk_env d1 = dk_env d"
    by (auto simp: docker_read_def Let_def split: option.splits)
  have "\<exists>r d'. wait_exec i d1 = Some (r, d')" using Suc(2,3,4) d1 by (intro Suc(1)) auto
  then show ?case using r by (subst wait_exec.simps) (auto split: option.splits sum.splits prod.splits)
qed

section \<open>Statistics\<close>

lemma f64_of_int_mono: "0 \<le> a \<Longrightarrow> 0 \<le> f64_of_int a" "0 \<le> a \<Longrightarrow> a \<le> b \<Longrightarrow> f64_of_int a \<le> f64_of_int b"
  unfolding f64_of_int_def by (rule f64_nonneg, simp) (rule f64_mono_nonneg, simp_all)

text \<open>
  As long as the counters of the engine do not go back and a container uses no more time than
  there was on every core, its load is between 0 and 100 percent of its cores.
\<close>

theorem cpu_percent_bounded:
  assumes "cores = (if sj_percpu v \<noteq> [] then length (sj_percpu v) else sj_online v)" and "cores < 2 ^ 32"
    and "uint (sj_pre_total v) \<le> uint (sj_total v)" and "uint (sj_pre_system v) \<le> uint (sj_system v)"
    and "uint (sj_total v) - uint (sj_pre_total v) \<le> uint (sj_system v) - uint (sj_pre_system v)"
  shows "0 \<le> cpu_percent v \<and> cpu_percent v \<le> f64_mul (of_nat cores) 100"
proof -
  let ?c = "f64_of_int (uint (sj_total v - sj_pre_total v))" and ?s = "f64_of_int (uint (sj_system v - sj_pre_system v))"
  have d: "uint (sj_total v - sj_pre_total v) = uint (sj_total v) - uint (sj_pre_total v)"
    "uint (sj_system v - sj_pre_system v) = uint (sj_system v) - uint (sj_pre_system v)"
    using assms(3,4) uint_sub_lem by blast+
  have cs: "0 \<le> ?c" "?c \<le> ?s" using assms(3,5) unfolding d by (simp_all add: f64_of_int_mono)
  have one: "f64 1 = 1" using f64_of_int_exact[of 1] by (simp add: f64_of_int_def)
  have n: "f64_of_int (int cores) = of_nat cores" using f64_of_int_exact[of "int cores"] assms(2) by simp
  show ?thesis
  proof (cases "?s > 0 \<and> ?c > 0 \<and> cores > 0")
    case True
    then have q: "0 \<le> ?c / ?s" "?c / ?s \<le> 1" using cs by auto
    then have r: "0 \<le> f64_div ?c ?s" "f64_div ?c ?s \<le> 1"
      using f64_nonneg[OF q(1)] f64_mono_nonneg[OF q] one by (simp_all add: f64_div_def)
    let ?l = "f64_mul (f64_div ?c ?s) (of_nat cores)"
    have l: "0 \<le> ?l" using r by (simp add: f64_mul_def f64_nonneg)
    have "?l \<le> f64 (of_nat cores)" unfolding f64_mul_def using r by (intro f64_mono_nonneg) (auto simp: mult_left_le_one_le)
    also have "\<dots> = of_nat cores" using n by (simp add: f64_of_int_def)
    finally have "0 \<le> f64_mul ?l 100" "f64_mul ?l 100 \<le> f64_mul (of_nat cores) 100"
      using l unfolding f64_mul_def[of _ 100] by (auto intro!: f64_nonneg f64_mono_nonneg)
    moreover have "cpu_percent v = f64_mul ?l 100"
      using True assms(1) n by (auto simp: cpu_percent_def Let_def split: if_splits)
    ultimately show ?thesis by simp
  next
    case False
    then have "cpu_percent v = 0" using assms(1) by (auto simp: cpu_percent_def Let_def)
    then show ?thesis by (simp add: f64_mul_def f64_nonneg)
  qed
qed

text \<open>A counter that starts again, as after a restart, wraps around instead of being noticed.\<close>

lemma restarted_counter_wraps:
  "10 ^ 15 < cpu_percent \<lparr> sj_memory_usage = 0, sj_memory_limit = 0, sj_total = 0, sj_system = 2, sj_pre_total = 1, sj_pre_system = 1,
     sj_percpu = [], sj_online = 1, sj_networks = [] \<rparr>"
proof -
  have u: "uint (0 - 1 :: 64 word) = 2 ^ 64 - 1" by (simp add: unsigned_minus_1_eq_mask mask_eq_exp_minus_1)
  have one: "f64_of_int 1 = 1" "f64_of_int (uint (1 :: 64 word)) = 1" using f64_of_int_exact[of 1] by simp_all
  have big: "(2 ^ 52 :: rat) = f64 (2 ^ 52)" using f64_of_int_exact[of "2 ^ 52"] by (simp add: f64_of_int_def)
  have c: "2 ^ 52 \<le> f64_of_int (2 ^ 64 - 1)" unfolding f64_of_int_def by (subst big) (rule f64_mono_nonneg, auto)
  have up: "2 ^ 52 \<le> x \<Longrightarrow> 2 ^ 52 \<le> f64 x" for x :: rat using f64_mono_nonneg[of "2 ^ 52" x] big by auto
  have "2 ^ 52 \<le> f64_div (f64_of_int (2 ^ 64 - 1)) 1" using up[OF c] by (simp add: f64_div_def)
  then have "2 ^ 52 \<le> f64_mul (f64_div (f64_of_int (2 ^ 64 - 1)) 1) 1" using up by (simp add: f64_mul_def)
  then have "2 ^ 52 \<le> f64_mul (f64_mul (f64_div (f64_of_int (2 ^ 64 - 1)) 1) 1) 100"
    unfolding f64_mul_def[of _ 100] by (intro up) auto
  moreover have "0 < f64_of_int (2 ^ 64 - 1)" by (rule less_le_trans[OF _ c]) simp
  ultimately show ?thesis using u one by (simp add: cpu_percent_def)
qed

section \<open>Examples\<close>

definition sample_spec :: runtime_spec where
  "sample_spec = \<lparr> rs_container = 5, rs_owner = 7, rs_project = None, rs_generation = 3, rs_name = ''web'', rs_alias = [], rs_image = ''nginx'',
     rs_network = ''net_7'', rs_domain = ''web.example.com'', rs_port = 80, rs_env = [], rs_memory_limit = 268435456,
     rs_memory_reservation = 134217728, rs_memory_swap = 1, rs_cpu_shares = 512, rs_cpu_quota = 50000, rs_cpu_period = 100000,
     rs_pids_limit = 100, rs_proxy_network = ''proxy'',
     rs_mounts = [\<lparr> ms_volume_name = ''v1'', ms_target = ''/data'', ms_ro = False \<rparr>], rs_command = [], rs_entrypoint = [], rs_restart = [],
     rs_max_log_size = ''10m'', rs_max_log_files = ''3'', rs_storage_quota = [], rs_health = None \<rparr>"

definition sample_json :: container_json where
  "sample_json = \<lparr> cj_name = ''/web'', cj_config = None, cj_memory = 0, cj_reservation = 0, cj_shares = 0, cj_quota = 0, cj_period = 0,
     cj_restart = [], cj_running = True, cj_status = ''running'', cj_exit_code = 0, cj_oom_killed = False, cj_health_status = None, cj_mounts = [] \<rparr>"

definition sample_stats :: stats_json where
  "sample_stats = \<lparr> sj_memory_usage = 1, sj_memory_limit = 2, sj_total = 30, sj_system = 200, sj_pre_total = 20, sj_pre_system = 100,
     sj_percpu = [], sj_online = 2, sj_networks = [] \<rparr>"

text \<open>An engine whose requests fail at the given moments; the command of an exec ends at the third look.\<close>

definition sample_docker :: "nat list \<Rightarrow> docker" where
  "sample_docker faults = \<lparr> dk_env = \<lparr> de_fault = (\<lambda>n. if List.member faults n then Some (OtherErr ''engine'') else None), de_ctx = (\<lambda>_. None),
     de_networks = (\<lambda>n q. [(''net_77'', ''n0''), (''net_7'', ''n1'')]), de_new_id = (\<lambda>n. ''c1''), de_inspect = (\<lambda>_ _. sample_json),
     de_mountpoint = (\<lambda>_ _. ''/v''), de_walk = (\<lambda>_ _. []), de_exec = (\<lambda>n _. (n < 3, 0)), de_stats = (\<lambda>_ _. sample_stats),
     de_text = (\<lambda>u. replicate u (CHR ''u'')) \<rparr>, dk_tick = 0, dk_log = [], dk_prefix = [] \<rparr>"

lemma create_container_is_atomic_witness:
  "\<not> is_ok (fst (docker_create_container sample_spec (sample_docker [1]))) \<and> live (snd (docker_create_container sample_spec (sample_docker [1]))) = []"
proof -
  let ?d = "sample_docker [1]"
  obtain r d' where r: "docker_create_container sample_spec ?d = (r, d')" by fastforce
  have e: "live ?d = []" by (simp add: live_def sample_docker_def)
  have f: "de_fault (dk_env ?d) (Suc (Suc (dk_tick ?d))) = None" by (simp add: sample_docker_def)
  have "\<exists>e. r = Inl e" using r
    by (auto simp: docker_create_container_def seq_def docker_send_def docker_do_def on_error_def ignore_def ret_def fail_def Let_def
        sample_docker_def sample_spec_def)
  then obtain x where x: "r = Inl x" by blast
  have "live d' = []" using create_container_is_atomic[OF r] e f x by simp
  then show ?thesis using r x by (simp add: is_ok_def)
qed

lemma created_container_is_confined_witness:
  "\<exists>cfg host aliases name i. ContainerCreate cfg host aliases name i \<in> set (dk_log (snd (docker_create_container sample_spec (sample_docker []))))
     \<and> List.member (hf_security host) ''no-new-privileges:true'' \<and> map mt_source (hf_mounts host) = [''v1'']
     \<and> List.member (cf_labels cfg) (''traefik.enable'', ''true'')"
proof -
  let ?d = "sample_docker []"
  let ?cfg = "container_config_of (de_text (dk_env ?d)) sample_spec" and ?host = "host_config_of sample_spec"
  obtain r d' where r: "docker_create_container sample_spec ?d = (r, d')" by fastforce
  have l: "dk_log ?d = []" by (simp add: sample_docker_def)
  have i: "ContainerCreate ?cfg ?host [] ''web'' ''c1'' \<in> set (dk_log d')" using r
    by (auto simp: docker_create_container_def seq_def docker_send_def docker_do_def on_error_def ret_def Let_def sample_docker_def sample_spec_def)
  have m: "map mt_source (hf_mounts ?host) = [''v1'']" by (simp add: host_config_of_def sample_spec_def)
  have "List.member (hf_security ?host) ''no-new-privileges:true''
      \<and> (List.member (cf_labels ?cfg) (''traefik.enable'', ''true'') \<longleftrightarrow> rs_domain sample_spec \<noteq> [] \<and> rs_port sample_spec \<noteq> 0)"
    using created_container_is_confined[OF l r i] by blast
  then show ?thesis using i m r by (intro exI[of _ ?cfg] exI[of _ ?host] exI[of _ "[]"] exI[of _ "''web''"] exI[of _ "''c1''"])
      (simp add: sample_spec_def)
qed

lemma labels_identify_container_witness:
  "\<exists>m. ev_container (container_event_of (\<lambda>s. Some (length s)) m) = Some 5 \<and> ev_generation (container_event_of (\<lambda>s. Some (length s)) m) = 3"
proof -
  let ?txt = "\<lambda>u. replicate u (CHR ''u'')"
  let ?m = "\<lparr> dv_type = ''container'', dv_action = ''die'', dv_actor = ''c1'',
    dv_attributes = (\<lambda>k. case map_of (runtime_labels ?txt sample_spec) k of Some v \<Rightarrow> v | None \<Rightarrow> []) \<rparr>"
  have d: "distinct (map fst (runtime_labels ?txt sample_spec))" by code_simp
  have "dv_attributes ?m k = v" if "(k, v) \<in> set (runtime_labels ?txt sample_spec)" for k v
    using map_of_is_SomeI[OF d that] by simp
  then have "ev_container (container_event_of (\<lambda>s. Some (length s)) ?m) = Some (rs_container sample_spec)
      \<and> ev_generation (container_event_of (\<lambda>s. Some (length s)) ?m) = rs_generation sample_spec"
    by (intro labels_identify_container[of ?txt sample_spec ?m "\<lambda>s. Some (length s)"]) (auto simp: sample_spec_def in_i64_def)
  then show ?thesis unfolding sample_spec_def by auto
qed

lemma wait_exec_returns_witness: "\<exists>r d'. wait_exec ''x'' (sample_docker []) = Some (r, d')"
  by (rule wait_exec_returns[of _ 3]) (simp_all add: sample_docker_def)

lemma cpu_percent_bounded_witness: "0 \<le> cpu_percent sample_stats \<and> cpu_percent sample_stats \<le> f64_mul 2 100"
  using cpu_percent_bounded[of 2 sample_stats] by (simp add: sample_stats_def)

definition sample_build_spec :: build_spec where
  "sample_build_spec = \<lparr> bs_build = 1, bs_owner = 7, bs_workspace = ''/w'', bs_context = ''app'', bs_dockerfile = ''Dockerfile'',
     bs_destination = ''r/app:v1'', bs_kaniko = ''kaniko'', bs_memory = 1024, bs_swap = 1, bs_cpu_quota = 1, bs_cpu_period = 1, bs_pids = 10,
     bs_args = [], bs_network = ''builds'' \<rparr>"

lemma start_build_container_is_atomic_witness: "live (snd (start_build_container sample_build_spec (sample_docker [3]))) = []"
proof -
  let ?d = "sample_docker [3]"
  obtain r d' where r: "start_build_container sample_build_spec ?d = (r, d')" by fastforce
  have e: "live ?d = []" by (simp add: live_def sample_docker_def)
  have f: "\<not> failed_twice (dk_env ?d)" by (auto simp: failed_twice_def sample_docker_def)
  have "\<exists>e. r = Inl e" using r
    by (auto simp: start_build_container_def seq_def docker_send_def docker_do_def docker_read_def or_clean_def clean_build_container_def
        on_error_def ignore_def ret_def fail_def Let_def sample_docker_def)
  then show ?thesis using start_build_container_is_atomic[OF r] e f r by auto
qed

lemma telemetry_reaches_its_target_witness:
  "fst (ensure_container_target \<lparr> ct_container = ''uuuuu'', ct_docker = ''c1'', ct_status = ''running'', ct_owner = ''uuuuuuu'', ct_generation = 3 \<rparr>
     ((sample_docker [])\<lparr>dk_env := (dk_env (sample_docker []))\<lparr>de_inspect :=
       (\<lambda>_ _. sample_json\<lparr>cj_config := Some (container_config_of (\<lambda>u. replicate u (CHR ''u'')) sample_spec)\<rparr>)\<rparr>\<rparr>)) = Inr ()"
proof -
  let ?txt = "\<lambda>u. replicate u (CHR ''u'')"
  let ?d = "(sample_docker [])\<lparr>dk_env := (dk_env (sample_docker []))\<lparr>de_inspect :=
       (\<lambda>_ _. sample_json\<lparr>cj_config := Some (container_config_of ?txt sample_spec)\<rparr>)\<rparr>\<rparr>"
  let ?t = "\<lparr> ct_container = ''uuuuu'', ct_docker = ''c1'', ct_status = ''running'', ct_owner = ''uuuuuuu'', ct_generation = 3 \<rparr>"
  have i: "inj ?txt" by (auto intro!: injI)
  have "fst (ensure_container_target ?t ?d) = Inr () \<longleftrightarrow> rs_container sample_spec = 5 \<and> rs_owner sample_spec = 7 \<and> rs_generation sample_spec = ct_generation ?t"
    using telemetry_reaches_its_target[of ?d ?txt sample_spec ?t 5 7] i by (simp add: sample_docker_def sample_spec_def in_i64_def numeral_eq_Suc)
  then show ?thesis by (simp add: sample_spec_def)
qed

lemma range_read_exact_witness:
  "range_read_at (\<lambda>e. ([], 500)) (\<lambda>a b. Inr (take (nat (b - a + 1)) (drop (nat a) ''abcdef''), None)) (int (length ''abcdef'')) 3 2 = (''cde'', None)"
  using range_read_exact[of "''abcdef''" "\<lambda>a b. Inr (take (nat (b - a + 1)) (drop (nat a) ''abcdef''), None)" 2 "\<lambda>e. ([], 500)" 3]
  by (simp add: serves_def numeral_eq_Suc)

end
