(* ===== verification/ReportStore.thy ===== *)
theory ReportStore
  imports Reports
begin

text \<open>
  The store of reports on ClickHouse (internal/core/infrastructure/clickhouse/reports.go), with the
  reading half of the report service (service/report.go) and of its gRPC handlers (grpc/report.go).
  The two tables are lists of rows in the order of their insertion.  The instants the driver binds in
  a query, the clock, fresh uuids and the failures of the store come from the environment, and so does
  what ClickHouse leaves open: which of the rows with the largest collected_at an argMax takes its
  column from, and the order of groups and of rows that an ORDER BY does not tell apart.  These
  choices may differ from one query to the next.  Rows that reach their time to live are not removed.
\<close>

section \<open>The tables\<close>

record report_env =
  rv_fault :: "nat \<Rightarrow> goerr option"
  rv_now :: "nat \<Rightarrow> instant"
  rv_uuid :: "nat \<Rightarrow> id"
  rv_bound :: "instant \<Rightarrow> instant"
  rv_text :: "id \<Rightarrow> string"
  rv_arg_max :: "nat \<Rightarrow> string \<Rightarrow> usage_snapshot list \<Rightarrow> nat"
  rv_owner_order :: "nat \<Rightarrow> id \<Rightarrow> nat"
  rv_event_order :: "nat \<Rightarrow> id \<times> id \<times> audit_record \<Rightarrow> nat"

text \<open>The columns actor_user_id and owner_id of an event, which hold the nil uuid for none, and its other columns.\<close>

type_synonym audit_row = "id \<times> id \<times> audit_record"

record report_db =
  rd_env :: report_env
  rd_tick :: nat
  rd_addr :: string
  rd_open :: bool
  rd_events :: "audit_row list"
  rd_usage :: "usage_snapshot list"

type_synonym 'a report_meth = "(report_db, 'a) meth"

definition report_query :: "(report_db \<Rightarrow> 'a) \<Rightarrow> 'a report_meth" where
  "report_query f d = (let d' = d\<lparr>rd_tick := Suc (rd_tick d)\<rparr> in
     case rv_fault (rd_env d) (rd_tick d) of Some e \<Rightarrow> (Inl e, d') | None \<Rightarrow> (Inr (f d), d'))"

definition report_exec :: "(report_db \<Rightarrow> report_db) \<Rightarrow> unit report_meth" where
  "report_exec f d = (let d' = d\<lparr>rd_tick := Suc (rd_tick d)\<rparr> in
     case rv_fault (rd_env d) (rd_tick d) of Some e \<Rightarrow> (Inl e, d') | None \<Rightarrow> (Inr (), f d'))"

definition report_sample :: "(report_env \<Rightarrow> nat \<Rightarrow> 'a) \<Rightarrow> 'a report_meth" where
  "report_sample f d = (Inr (f (rd_env d) (rd_tick d)), d\<lparr>rd_tick := Suc (rd_tick d)\<rparr>)"

text \<open>if err != nil { return fmt.Errorf("text: %w", err) }\<close>

definition failing :: "string \<Rightarrow> ('s, 'a) meth \<Rightarrow> ('s, 'a) meth" where
  "failing text_of m = on_error m (\<lambda>e. fail (Wrapped (text_of @ '': '' @ error_text e) e))"

definition db_conn :: "unit report_meth" where
  "db_conn d = (if rd_open d then (Inr (), d)
     else if trim_space (rd_addr d) = [] then (Inl (OtherErr ''clickhouse address is not configured''), d)
     else seq (failing ''failed to open clickhouse connection'' (report_query (\<lambda>_. ()))) (\<lambda>_.
       failing ''failed to ping clickhouse'' (report_exec (\<lambda>d. d\<lparr>rd_open := True\<rparr>))) d)"

section \<open>Writing\<close>

text \<open>The columns DateTime64(3) and DateTime.\<close>

definition to_millis :: "instant \<Rightarrow> instant" where
  "to_millis t = t div 1000000 * 1000000"

definition to_seconds :: "instant \<Rightarrow> instant" where
  "to_seconds t = t div 1000000000 * 1000000000"

definition nullable_uuid :: "id option \<Rightarrow> id" where
  "nullable_uuid v = (case v of None \<Rightarrow> nil_id | Some u \<Rightarrow> if u = nil_id then nil_id else u)"

definition parse_uuid_zero_as_nil :: "id \<Rightarrow> id option" where
  "parse_uuid_zero_as_nil v = (if v = nil_id then None else Some v)"

definition row_of_event :: "audit_record \<Rightarrow> audit_row" where
  "row_of_event e = (nullable_uuid (ar_actor e), nullable_uuid (ar_owner e),
     e\<lparr>ar_occurred := map_option to_millis (ar_occurred e), ar_actor := None, ar_owner := None\<rparr>)"

definition event_of_row :: "audit_row \<Rightarrow> audit_record" where
  "event_of_row r = (case r of (actor, owner, e) \<Rightarrow>
     e\<lparr>ar_actor := parse_uuid_zero_as_nil actor, ar_owner := parse_uuid_zero_as_nil owner\<rparr>)"

definition store_audit_event :: "audit_record \<Rightarrow> unit report_meth" where
  "store_audit_event e =
     seq db_conn (\<lambda>_. seq (report_sample rv_uuid) (\<lambda>i. seq (report_sample rv_now) (\<lambda>t.
     let e' = e\<lparr>ar_id := (if ar_id e = nil_id then i else ar_id e),
                ar_occurred := (case ar_occurred e of None \<Rightarrow> Some t | Some x \<Rightarrow> Some x)\<rparr>
     in failing ''failed to record audit event'' (report_exec (\<lambda>d. d\<lparr>rd_events := rd_events d @ [row_of_event e']\<rparr>)))))"

definition stored_snapshot :: "usage_snapshot \<Rightarrow> usage_snapshot" where
  "stored_snapshot s = s\<lparr>sn_bucket := to_seconds (sn_bucket s), sn_collected := to_millis (sn_collected s)\<rparr>"

text \<open>The rows of a transaction are kept by the driver until it commits.\<close>

definition insert_usage_snapshots :: "usage_snapshot list \<Rightarrow> unit report_meth" where
  "insert_usage_snapshots ss =
    (if ss = [] then ret ()
     else seq db_conn (\<lambda>_.
     seq (failing ''failed to begin usage snapshot insert'' (report_query (\<lambda>_. ()))) (\<lambda>_.
     seq (failing ''failed to prepare usage snapshot insert'' (report_query (\<lambda>_. ()))) (\<lambda>_.
     seq (for_each (\<lambda>s. failing ''failed to insert usage snapshot'' (report_query (\<lambda>_. ()))) ss) (\<lambda>_.
     failing ''failed to commit usage snapshot insert''
       (report_exec (\<lambda>d. d\<lparr>rd_usage := rd_usage d @ map stored_snapshot ss\<rparr>)))))))"

section \<open>Queries\<close>

text \<open>
  argMax(column, collected_at): the column of a row with the largest collected_at.  Where several rows
  have it, ClickHouse does not say which of them is taken, and each column is a call of its own.
\<close>

definition newest_rows :: "usage_snapshot list \<Rightarrow> usage_snapshot list" where
  "newest_rows ss = filter (\<lambda>s. list_all (\<lambda>x. sn_collected x \<le> sn_collected s) ss) ss"

definition arg_max_row :: "(usage_snapshot list \<Rightarrow> nat) \<Rightarrow> usage_snapshot list \<Rightarrow> usage_snapshot" where
  "arg_max_row pick ss = (let t = newest_rows ss in t ! (pick t mod length t))"

text \<open>The row of a group; the columns that no query selects come from one of its newest rows too.\<close>

definition latest_row :: "(string \<Rightarrow> usage_snapshot list \<Rightarrow> nat) \<Rightarrow> usage_snapshot list \<Rightarrow> usage_snapshot option" where
  "latest_row pick ss =
    (if ss = [] then None
     else Some ((arg_max_row (pick []) ss)\<lparr>
       sn_username := sn_username (arg_max_row (pick ''owner_username'') ss),
       sn_memory := sn_memory (arg_max_row (pick ''memory_usage_bytes'') ss),
       sn_reserved := sn_reserved (arg_max_row (pick ''reserved_memory_bytes'') ss),
       sn_cpu := sn_cpu (arg_max_row (pick ''cpu_percent'') ss),
       sn_total_disk := sn_total_disk (arg_max_row (pick ''total_disk_bytes'') ss),
       sn_containers := sn_containers (arg_max_row (pick ''containers_total'') ss),
       sn_running := sn_running (arg_max_row (pick ''containers_running'') ss),
       sn_volumes := sn_volumes (arg_max_row (pick ''volumes_total'') ss),
       sn_images := sn_images (arg_max_row (pick ''images_total'') ss),
       sn_builds := sn_builds (arg_max_row (pick ''builds_total'') ss),
       sn_projects := sn_projects (arg_max_row (pick ''projects_total'') ss)\<rparr>))"

text \<open>GROUP BY: the groups in the order of their keys, each with its latest row.\<close>

definition group_latest ::
    "(string \<Rightarrow> usage_snapshot list \<Rightarrow> nat) \<Rightarrow> (usage_snapshot \<Rightarrow> 'k :: linorder) \<Rightarrow> usage_snapshot list \<Rightarrow> usage_snapshot list" where
  "group_latest pick k ss = List.map_filter (\<lambda>u. latest_row pick (filter (\<lambda>s. k s = u) ss)) (sort (remdups (map k ss)))"

text \<open>The choices of the query that is about to be made.\<close>

definition arg_max_of :: "report_db \<Rightarrow> string \<Rightarrow> usage_snapshot list \<Rightarrow> nat" where
  "arg_max_of d = rv_arg_max (rd_env d) (rd_tick d)"

definition owner_order :: "report_db \<Rightarrow> id \<Rightarrow> nat" where
  "owner_order d = rv_owner_order (rd_env d) (rd_tick d)"

text \<open>ORDER BY f DESC, with the rows that it does not tell apart in any order.\<close>

definition order_desc :: "('r \<Rightarrow> nat) \<Rightarrow> ('r \<Rightarrow> 'v :: linordered_idom) \<Rightarrow> 'r list \<Rightarrow> 'r list" where
  "order_desc ties f rows = sort_key (\<lambda>x. - f x) (sort_key ties rows)"

text \<open>WHERE bucket_start >= ? AND bucket_start < ?, and the same for occurred_at.\<close>

definition usage_between :: "instant \<Rightarrow> instant \<Rightarrow> report_db \<Rightarrow> usage_snapshot list" where
  "usage_between a b d = filter (\<lambda>s. rv_bound (rd_env d) a \<le> sn_bucket s \<and> sn_bucket s < rv_bound (rd_env d) b) (rd_usage d)"

definition occurred_of :: "audit_row \<Rightarrow> instant" where
  "occurred_of r = (case ar_occurred (snd (snd r)) of None \<Rightarrow> 0 | Some t \<Rightarrow> t)"

definition events_between :: "instant \<Rightarrow> instant \<Rightarrow> report_db \<Rightarrow> audit_row list" where
  "events_between a b d = filter (\<lambda>r. rv_bound (rd_env d) a \<le> occurred_of r \<and> occurred_of r < rv_bound (rd_env d) b) (rd_events d)"

definition resources_of :: "usage_snapshot \<Rightarrow> nat" where
  "resources_of s = sn_containers s + sn_volumes s + sn_images s + sn_builds s + sn_projects s"

record reports_overview =
  ov_from :: instant
  ov_to :: instant
  ov_events :: int
  ov_failed :: int
  ov_active :: int
  ov_memory :: int
  ov_reserved :: int
  ov_cpu :: rat
  ov_disk :: int
  ov_resources :: int
  ov_containers :: int
  ov_running :: int
  ov_volumes :: int
  ov_images :: int
  ov_builds :: int
  ov_projects :: int
  ov_latest :: "instant option"
  ov_interval :: int
  ov_top :: "(string \<times> int) list"

text \<open>Sums of Int64 wrap, and a float sum rounds at each step, in whatever order the groups come.\<close>

definition sum_of :: "(usage_snapshot \<Rightarrow> int) \<Rightarrow> usage_snapshot list \<Rightarrow> int" where
  "sum_of f ss = i64 (sum_list (map f ss))"

definition overview_of :: "instant \<Rightarrow> instant \<Rightarrow> audit_row list \<Rightarrow> usage_snapshot list \<Rightarrow> reports_overview" where
  "overview_of a b es g = \<lparr> ov_from = a, ov_to = b, ov_events = int (length es),
     ov_failed = int (rows_affected (\<lambda>r. ar_outcome (snd (snd r)) = ''failure'') es),
     ov_active = int (length (remdups (filter (\<lambda>u. u \<noteq> nil_id) (map fst es)))),
     ov_memory = sum_of sn_memory g, ov_reserved = sum_of sn_reserved g, ov_cpu = foldl (\<lambda>x s. f64 (x + sn_cpu s)) 0 g,
     ov_disk = sum_of sn_total_disk g, ov_resources = sum_of (\<lambda>s. int (resources_of s)) g,
     ov_containers = sum_of (\<lambda>s. int (sn_containers s)) g, ov_running = sum_of (\<lambda>s. int (sn_running s)) g,
     ov_volumes = sum_of (\<lambda>s. int (sn_volumes s)) g, ov_images = sum_of (\<lambda>s. int (sn_images s)) g,
     ov_builds = sum_of (\<lambda>s. int (sn_builds s)) g, ov_projects = sum_of (\<lambda>s. int (sn_projects s)) g,
     ov_latest = None, ov_interval = 0, ov_top = [] \<rparr>"

definition query_overview :: "instant \<Rightarrow> instant \<Rightarrow> reports_overview report_meth" where
  "query_overview a b =
     seq db_conn (\<lambda>_.
     seq (failing ''failed to query reports overview events'' (report_query (events_between a b))) (\<lambda>es.
     seq (failing ''failed to query reports overview usage'' (report_query (\<lambda>d.
        sort_key (\<lambda>s. owner_order d (sn_owner s)) (group_latest (arg_max_of d) sn_owner (usage_between a b d))))) (\<lambda>g.
     ret (overview_of a b es g))))"

definition latest_collected_at :: "instant option report_meth" where
  "latest_collected_at =
     seq db_conn (\<lambda>_.
     seq (failing ''failed to query latest usage snapshot timestamp'' (report_query (\<lambda>d. foldl (\<lambda>x s. max x (sn_collected s)) 0 (rd_usage d)))) (\<lambda>t.
     ret (if t div 1000000000 = 0 then None else Some t)))"

record user_usage_item =
  uu_owner :: id
  uu_username :: string
  uu_memory :: int
  uu_reserved :: int
  uu_cpu :: rat
  uu_disk :: int
  uu_resources :: int
  uu_containers :: int
  uu_running :: int
  uu_volumes :: int
  uu_images :: int
  uu_builds :: int
  uu_projects :: int
  uu_actions :: int

definition usage_item :: "audit_row list \<Rightarrow> usage_snapshot \<Rightarrow> user_usage_item" where
  "usage_item es s = \<lparr> uu_owner = sn_owner s, uu_username = sn_username s, uu_memory = sn_memory s, uu_reserved = sn_reserved s,
     uu_cpu = sn_cpu s, uu_disk = sn_total_disk s, uu_resources = int (resources_of s), uu_containers = int (sn_containers s),
     uu_running = int (sn_running s), uu_volumes = int (sn_volumes s), uu_images = int (sn_images s), uu_builds = int (sn_builds s),
     uu_projects = int (sn_projects s), uu_actions = int (rows_affected (\<lambda>r. fst r \<noteq> nil_id \<and> fst r = sn_owner s) es) \<rparr>"

text \<open>The column of ORDER BY ... DESC.\<close>

definition report_order :: "string \<Rightarrow> user_usage_item \<Rightarrow> rat" where
  "report_order sort_by u = (if sort_by = ''actual_memory'' then of_int (uu_memory u)
     else if sort_by = ''reserved_memory'' \<or> sort_by = ''memory'' then of_int (uu_reserved u)
     else if sort_by = ''cpu'' then uu_cpu u
     else if sort_by = ''resources'' then of_int (uu_resources u)
     else if sort_by = ''actions'' then of_int (uu_actions u)
     else if sort_by = ''containers'' then of_int (uu_containers u)
     else of_int (uu_disk u))"

text \<open>positionCaseInsensitive(text, s) > 0\<close>

definition found_in :: "string \<Rightarrow> string \<Rightarrow> bool" where
  "found_in s t \<longleftrightarrow> str_contains (to_lower t) (to_lower s)"

definition user_usage_search :: "(id \<Rightarrow> string) \<Rightarrow> string \<Rightarrow> usage_snapshot \<Rightarrow> bool" where
  "user_usage_search txt search s \<longleftrightarrow> (let q = trim_space search in
     q = [] \<or> found_in q (sn_username s) \<or> found_in q (txt (sn_owner s)))"

definition found_users :: "instant \<Rightarrow> instant \<Rightarrow> string \<Rightarrow> report_db \<Rightarrow> usage_snapshot list" where
  "found_users a b search d = filter (user_usage_search (rv_text (rd_env d)) search) (group_latest (arg_max_of d) sn_owner (usage_between a b d))"

definition limited :: "int \<Rightarrow> int \<Rightarrow> 'r list \<Rightarrow> 'r list" where
  "limited limit offset t = take (nat limit) (drop (nat offset) t)"

definition query_user_usage :: "instant \<Rightarrow> instant \<Rightarrow> string \<Rightarrow> string \<Rightarrow> int \<Rightarrow> int \<Rightarrow> (user_usage_item list \<times> int) report_meth" where
  "query_user_usage a b sort_by search limit offset =
     seq db_conn (\<lambda>_.
     seq (failing ''failed to count user usage report'' (report_query (\<lambda>d. int (length (found_users a b search d))))) (\<lambda>n.
     seq (failing ''failed to query user usage report'' (report_query (\<lambda>d. limited limit offset
        (order_desc (\<lambda>u. owner_order d (uu_owner u)) (report_order sort_by)
          (map (usage_item (events_between a b d)) (found_users a b search d)))))) (\<lambda>items.
     ret (items, n))))"

record user_usage_point =
  pt_bucket :: instant
  pt_memory :: int
  pt_reserved :: int
  pt_cpu :: rat
  pt_disk :: int
  pt_resources :: int
  pt_containers :: int
  pt_running :: int
  pt_volumes :: int
  pt_images :: int
  pt_builds :: int
  pt_projects :: int
  pt_actions :: int

text \<open>toDateTime(intDiv(toUnixTimestamp(occurred_at), n) * n)\<close>

definition event_bucket :: "int \<Rightarrow> instant \<Rightarrow> instant" where
  "event_bucket n t = (t div 1000000000) div n * n * 1000000000"

definition usage_point :: "int \<Rightarrow> audit_row list \<Rightarrow> usage_snapshot \<Rightarrow> user_usage_point" where
  "usage_point n es s = \<lparr> pt_bucket = sn_bucket s, pt_memory = sn_memory s, pt_reserved = sn_reserved s, pt_cpu = sn_cpu s,
     pt_disk = sn_total_disk s, pt_resources = int (resources_of s), pt_containers = int (sn_containers s),
     pt_running = int (sn_running s), pt_volumes = int (sn_volumes s), pt_images = int (sn_images s), pt_builds = int (sn_builds s),
     pt_projects = int (sn_projects s), pt_actions = int (rows_affected (\<lambda>r. event_bucket n (occurred_of r) = sn_bucket s) es) \<rparr>"

definition timeline_of :: "id \<Rightarrow> instant \<Rightarrow> instant \<Rightarrow> int \<Rightarrow> report_db \<Rightarrow> user_usage_point list" where
  "timeline_of u a b n d = map (usage_point n (filter (\<lambda>r. fst r = u) (events_between a b d)))
     (group_latest (arg_max_of d) sn_bucket (filter (\<lambda>s. sn_owner s = u) (usage_between a b d)))"

definition query_timeline :: "id \<Rightarrow> instant \<Rightarrow> instant \<Rightarrow> int \<Rightarrow> user_usage_point list report_meth" where
  "query_timeline u a b interval =
     seq db_conn (\<lambda>_.
     let n = quot interval 1000000000; n' = (if n \<le> 0 then 300 else n) in
     failing ''failed to query user usage timeline'' (report_query (timeline_of u a b n')))"

record audit_filters =
  af_from :: "instant option"
  af_to :: "instant option"
  af_actor :: "id option"
  af_action :: string
  af_outcome :: string
  af_rtype :: string
  af_search :: string
  af_limit :: int
  af_offset :: int

text \<open>The two ends of the range are set when the store is asked.\<close>

definition audit_where :: "instant \<Rightarrow> instant \<Rightarrow> audit_filters \<Rightarrow> report_db \<Rightarrow> audit_row list" where
  "audit_where a b f d = filter (\<lambda>(actor, owner, e).
        (case af_actor f of None \<Rightarrow> True | Some u \<Rightarrow> actor = u)
      \<and> (af_action f = [] \<or> ar_action e = af_action f)
      \<and> (af_outcome f = [] \<or> ar_outcome e = af_outcome f)
      \<and> (af_rtype f = [] \<or> ar_rtype e = af_rtype f)
      \<and> (af_search f = [] \<or> found_in (af_search f) (ar_actor_name e) \<or> found_in (af_search f) (ar_rname e)
          \<or> found_in (af_search f) (ar_rid e) \<or> found_in (af_search f) (ar_details e))) (events_between a b d)"

definition query_audit_events :: "instant \<Rightarrow> instant \<Rightarrow> audit_filters \<Rightarrow> (audit_record list \<times> int) report_meth" where
  "query_audit_events a b f =
     seq db_conn (\<lambda>_.
     seq (failing ''failed to count audit events'' (report_query (\<lambda>d. int (length (audit_where a b f d))))) (\<lambda>n.
     seq (failing ''failed to query audit events'' (report_query (\<lambda>d. limited (af_limit f) (af_offset f)
        (order_desc (rv_event_order (rd_env d) (rd_tick d)) occurred_of (audit_where a b f d))))) (\<lambda>rows.
     ret (map event_of_row rows, n))))"

section \<open>The report service (service/report.go)\<close>

text \<open>t is the clock and cfg the configuration at the time of the call.\<close>

definition store_failing :: "string \<Rightarrow> ('s, 'a) meth \<Rightarrow> ('s, 'a) meth" where
  "store_failing message m = on_error m (\<lambda>e. fail (report_storage_unavailable message e))"

definition get_reports_overview :: "config \<Rightarrow> instant \<Rightarrow> instant option \<Rightarrow> instant option \<Rightarrow> reports_overview report_meth" where
  "get_reports_overview cfg t from_time to_time = (case normalize_from_to from_time to_time t of (a, b) \<Rightarrow>
     seq (store_failing ''failed to get reports overview'' (query_overview a b)) (\<lambda>o'.
     seq (store_failing ''failed to get latest usage snapshot timestamp'' latest_collected_at) (\<lambda>l.
     ret (o'\<lparr>ov_latest := l, ov_interval := quot (usage_snapshot_interval (g_report_interval cfg)) 1000000000\<rparr>))))"

definition list_user_usage_report ::
    "instant \<Rightarrow> instant option \<Rightarrow> instant option \<Rightarrow> string \<Rightarrow> string \<Rightarrow> int \<Rightarrow> int \<Rightarrow> (user_usage_item list \<times> int) report_meth" where
  "list_user_usage_report t from_time to_time sort_by search limit offset = (case normalize_from_to from_time to_time t of (a, b) \<Rightarrow>
     store_failing ''failed to list user usage report''
       (query_user_usage a b sort_by search (report_limit limit) (report_offset offset)))"

definition get_user_usage_timeline ::
    "config \<Rightarrow> instant \<Rightarrow> id \<Rightarrow> instant option \<Rightarrow> instant option \<Rightarrow> user_usage_point list report_meth" where
  "get_user_usage_timeline cfg t owner from_time to_time = (case normalize_from_to from_time to_time t of (a, b) \<Rightarrow>
     store_failing ''failed to get user usage timeline''
       (query_timeline owner a b (usage_snapshot_interval (g_report_interval cfg))))"

definition list_audit_events :: "instant \<Rightarrow> audit_filters \<Rightarrow> (audit_record list \<times> int) report_meth" where
  "list_audit_events t f = (case normalize_from_to (af_from f) (af_to f) t of (a, b) \<Rightarrow>
     store_failing ''failed to list audit events'' (query_audit_events a b
       (f\<lparr>af_from := Some a, af_to := Some b, af_limit := report_limit (af_limit f), af_offset := report_offset (af_offset f)\<rparr>)))"

text \<open>The worker collects when it starts, and then at every request for a refresh and every end of the interval.\<close>

datatype report_signal = RefreshRequested | IntervalElapsed

definition collect_once :: "report_store \<Rightarrow> (nat \<Rightarrow> string \<Rightarrow> container_stats) \<Rightarrow> unit act" where
  "collect_once rp stats = seq now (\<lambda>t. ignore (collect_usage_snapshot rp stats t))"

fun collect_on_signals :: "report_store \<Rightarrow> (nat \<Rightarrow> string \<Rightarrow> container_stats) \<Rightarrow> report_signal list \<Rightarrow> unit act" where
  "collect_on_signals rp stats [] = ret ()"
| "collect_on_signals rp stats (s # ss) = seq (collect_once rp stats) (\<lambda>_. collect_on_signals rp stats ss)"

definition run_usage_worker :: "report_store \<Rightarrow> (nat \<Rightarrow> string \<Rightarrow> container_stats) \<Rightarrow> report_signal list \<Rightarrow> unit act" where
  "run_usage_worker rp stats signals = seq (collect_once rp stats) (\<lambda>_. collect_on_signals rp stats signals)"

section \<open>The gRPC handlers (grpc/report.go)\<close>

text \<open>The messages have the fields of the rows; instants are whole seconds and numbers of resources 32 bits wide.\<close>

definition reports_overview_to_proto :: "reports_overview \<Rightarrow> reports_overview" where
  "reports_overview_to_proto v = v\<lparr>ov_from := ov_from v div 1000000000, ov_to := ov_to v div 1000000000,
     ov_latest := map_option (\<lambda>t. t div 1000000000) (ov_latest v)\<rparr>"

definition user_usage_report_to_proto :: "user_usage_item \<Rightarrow> user_usage_item" where
  "user_usage_report_to_proto u = u\<lparr>uu_resources := int32_wrap (uu_resources u), uu_containers := int32_wrap (uu_containers u),
     uu_running := int32_wrap (uu_running u), uu_volumes := int32_wrap (uu_volumes u), uu_images := int32_wrap (uu_images u),
     uu_builds := int32_wrap (uu_builds u), uu_projects := int32_wrap (uu_projects u)\<rparr>"

definition user_usage_point_to_proto :: "user_usage_point \<Rightarrow> user_usage_point" where
  "user_usage_point_to_proto p = p\<lparr>pt_bucket := pt_bucket p div 1000000000, pt_resources := int32_wrap (pt_resources p),
     pt_containers := int32_wrap (pt_containers p), pt_running := int32_wrap (pt_running p), pt_volumes := int32_wrap (pt_volumes p),
     pt_images := int32_wrap (pt_images p), pt_builds := int32_wrap (pt_builds p), pt_projects := int32_wrap (pt_projects p)\<rparr>"

definition get_reports_overview_rpc :: "config \<Rightarrow> instant \<Rightarrow> int \<Rightarrow> int \<Rightarrow> reports_overview report_meth" where
  "get_reports_overview_rpc cfg t a b =
     seq (reply (get_reports_overview cfg t (unix_time a) (unix_time b))) (\<lambda>v. ret (reports_overview_to_proto v))"

definition list_user_usage_report_rpc ::
    "instant \<Rightarrow> int \<Rightarrow> int \<Rightarrow> string \<Rightarrow> string \<Rightarrow> int \<Rightarrow> int \<Rightarrow> (user_usage_item list \<times> int) report_meth" where
  "list_user_usage_report_rpc t a b sort_by search page_no limit0 = (case page_limit_offset page_no limit0 of (limit, offset) \<Rightarrow>
     seq (reply (list_user_usage_report t (unix_time a) (unix_time b) sort_by search limit offset)) (\<lambda>(items, n).
     ret (map user_usage_report_to_proto items, int32_wrap n)))"

definition get_user_usage_timeline_rpc ::
    "(string \<Rightarrow> id option) \<Rightarrow> config \<Rightarrow> instant \<Rightarrow> string \<Rightarrow> int \<Rightarrow> int \<Rightarrow> user_usage_point list report_meth" where
  "get_user_usage_timeline_rpc parse cfg t owner a b = parsed ''invalid owner_id format'' (parse owner) (\<lambda>u.
     seq (reply (get_user_usage_timeline cfg t u (unix_time a) (unix_time b))) (\<lambda>ps. ret (map user_usage_point_to_proto ps)))"

definition list_audit_events_rpc ::
    "(string \<Rightarrow> id option) \<Rightarrow> (id \<Rightarrow> string) \<Rightarrow> instant \<Rightarrow> int \<Rightarrow> int \<Rightarrow> string \<Rightarrow> audit_filters \<Rightarrow> int \<Rightarrow> int
      \<Rightarrow> (audit_message list \<times> int) report_meth" where
  "list_audit_events_rpc parse txt t a b actor f page_no limit0 = (case page_limit_offset page_no limit0 of (limit, offset) \<Rightarrow>
     (let ask_store = (\<lambda>who. seq (reply (list_audit_events t (f\<lparr>af_from := unix_time a, af_to := unix_time b, af_actor := who,
            af_limit := limit, af_offset := offset\<rparr>))) (\<lambda>(es, n). ret (map (audit_event_to_proto txt) es, int32_wrap n)))
      in if actor = [] then ask_store None
         else parsed ''invalid actor_user_id format'' (parse actor) (\<lambda>u. ask_store (Some u))))"

definition refresh_usage_snapshots_rpc :: "config \<Rightarrow> instant \<Rightarrow> bool \<Rightarrow> (int \<times> int \<times> int) \<times> bool" where
  "refresh_usage_snapshots_rpc cfg t pending = (case refresh_usage_snapshots cfg t pending of ((bucket, collected, n), pending') \<Rightarrow>
     ((bucket div 1000000000, collected div 1000000000, int32_wrap (int n)), pending'))"

end
