(* ===== verification/ReportProps.thy ===== *)
theory ReportProps
  imports ReportStore Samples "HOL-Library.Multiset"
begin

text \<open>
  What monitoring and the reports say: the admission state that is shown is the one requests meet, the
  snapshots of usage count every resource of the store exactly once, and an audit event crosses the
  gRPC boundary unchanged.
\<close>

section \<open>Monitoring and admission\<close>

lemma memory_admission_None:
  assumes "0 \<le> reserved" "0 \<le> req" "in_i64 (reserved + req)"
  shows "ensure_host_memory_admission mem cfg reserved req = None \<longleftrightarrow>
    0 < host_memory_pool mem (g_reserved_system_memory cfg) (g_overcommit cfg)
    \<and> reserved + req \<le> host_memory_pool mem (g_reserved_system_memory cfg) (g_overcommit cfg)"
  using assms by (auto simp: ensure_host_memory_admission_def Let_def i64_id)

text \<open>
  When monitoring calls the host open for admission, the checks a new container of the default
  size meets let it pass: its memory fits the pool of the host and the free disk is above its floor.
  While no build is active the converse holds as well, so a blocked host refuses such a container.
\<close>

theorem monitoring_matches_admission:
  assumes "get_system_monitoring hm w = (Inr m, w1)" and "cfg = e_config (w_env w)"
    and "\<And>n. e_fault (w_env w) n = None" and "\<And>n. e_total_memory (w_env w) n = sm_memory_total m"
    and "\<And>n. e_free_disk (w_env w) n = sm_disk_free m" and "in_i64 (sm_disk_free m)"
    and "0 \<le> sm_reserved m" "0 \<le> sm_reserved_builds m" "0 \<le> g_default_memory cfg"
    and "in_i64 (sm_reserved m + sm_reserved_builds m + g_default_memory cfg)"
  shows "(sm_admission m = ''open'' \<longrightarrow>
      fst (check_host_capacity (g_default_memory cfg) w) = Inr () \<and> fst (check_host_disk w) = Inr ())
    \<and> (sm_reserved_builds m = 0 \<longrightarrow> sm_admission m \<noteq> ''open'' \<longrightarrow>
      fst (check_host_capacity (g_default_memory cfg) w) \<noteq> Inr () \<or> fst (check_host_disk w) \<noteq> Inr ())"
proof -
  let ?pool = "host_memory_pool (sm_memory_total m) (g_reserved_system_memory cfg) (g_overcommit cfg)"
  have ok: "in_i64 (sm_reserved m + sm_reserved_builds m)" "in_i64 (sm_reserved m + g_default_memory cfg)"
    using assms(7-10) by (auto simp: in_i64_def)
  have r: "get_total_reserved_memory (w_db w) = Inr (sm_reserved m)"
    and st: "sm_admission m = fst (admission_state (sm_memory_total m) (sm_disk_free m) cfg (i64 (sm_reserved m + sm_reserved_builds m)))"
    using assms(1,2,3) by (auto simp: get_system_monitoring_def seq_def ask_def query_def ext_def get_config_def Let_def now_def sample_def ret_def
        split: sum.splits prod.splits option.splits)
  have adm: "sm_admission m = ''open'' \<longleftrightarrow> 0 < ?pool \<and> sm_reserved m + sm_reserved_builds m + g_default_memory cfg \<le> ?pool
      \<and> \<not> (g_min_free_disk cfg > 0 \<and> sm_disk_free m < g_min_free_disk cfg)"
    using memory_admission_None[of "sm_reserved m + sm_reserved_builds m" "g_default_memory cfg" "sm_memory_total m" cfg] assms(7-10) ok(1)
    by (auto simp: st admission_state_def Let_def i64_id)
  have cap: "fst (check_host_capacity (g_default_memory cfg) w) = Inr () \<longleftrightarrow> 0 < ?pool \<and> sm_reserved m + g_default_memory cfg \<le> ?pool"
    using memory_admission_None[of "sm_reserved m" "g_default_memory cfg" "sm_memory_total m" cfg] assms(7,9) ok(2)
    by (auto simp: check_host_capacity_def ensure_host_memory_capacity_def seq_def on_error_def query_def ask_def ext_def get_config_def
        Let_def assms(2,3,4) r check_def ret_def fail_def split: option.splits)
  have disk: "fst (check_host_disk w) = Inr () \<longleftrightarrow> \<not> (g_min_free_disk cfg > 0 \<and> sm_disk_free m < g_min_free_disk cfg)"
    by (auto simp: check_host_disk_def check_host_disk_for_write_def ensure_host_disk_floor_projected_def seq_def ask_def ext_def get_config_def
        Let_def assms(2,3,5) i64_id[OF assms(6)] ret_def fail_def)
  show ?thesis unfolding adm cap disk using assms(8) by auto
qed

section \<open>Snapshots\<close>

lemma rows_of_owners:
  assumes "distinct us" and "set (map f t) \<subseteq> set us"
  shows "sum_list (map (\<lambda>u. rows_affected (\<lambda>x. f x = u \<and> P x) t) us) = rows_affected P t"
  using assms(2)
proof (induction t)
  case Nil
  then show ?case by (simp add: rows_affected_def)
next
  case (Cons x t)
  have one: "sum_list (map (\<lambda>u. if f x = u \<and> P x then 1 else 0) us) = (if P x then 1 else (0 :: nat))"
    using Cons.prems assms(1) by (simp add: sum_list_distinct_conv_sum_set)
  have "rows_affected (\<lambda>y. f y = u \<and> P y) (x # t) = (if f x = u \<and> P x then 1 else 0) + rows_affected (\<lambda>y. f y = u \<and> P y) t" for u
    by (simp add: rows_affected_def)
  then show ?case using Cons one by (simp add: sum_list_addf) (simp add: rows_affected_def)
qed

lemma rows_of_owners_all:
  assumes "distinct us" and "set (map f t) \<subseteq> set us"
  shows "sum_list (map (\<lambda>u. rows_affected (\<lambda>x. f x = u) t) us) = length t"
  using rows_of_owners[OF assms, of "\<lambda>_. True"] by (simp add: rows_affected_def)

text \<open>What a snapshot counts.\<close>

definition counts_of :: "usage_snapshot \<Rightarrow> id \<times> instant \<times> nat list" where
  "counts_of s = (sn_owner s, sn_bucket s, [sn_containers s, sn_running s, sn_volumes s, sn_images s, sn_builds s, sn_projects s])"

lemma counts_of_eq:
  "map counts_of ss = map counts_of ss' \<Longrightarrow> map sn_owner ss = map sn_owner ss' \<and> map sn_bucket ss = map sn_bucket ss'
    \<and> map sn_containers ss = map sn_containers ss' \<and> map sn_running ss = map sn_running ss' \<and> map sn_volumes ss = map sn_volumes ss'
    \<and> map sn_images ss = map sn_images ss' \<and> map sn_builds ss = map sn_builds ss' \<and> map sn_projects ss = map sn_projects ss'"
  by (induction ss ss' rule: list_induct2') (auto simp: counts_of_def)

lemma runtime_keeps_counts:
  "add_runtime_usages stats cs ss w = (Inr ss', w') \<Longrightarrow> map counts_of ss' = map counts_of ss"
proof (induction cs arbitrary: ss w)
  case (Cons c cs)
  have same: "map counts_of (add_runtime_usage u v ss) = map counts_of ss" for u v
    by (auto simp: add_runtime_usage_def counts_of_def)
  show ?case
  proof (cases "list_ex (\<lambda>s. sn_owner s = c_owner c) ss")
    case True
    then obtain r :: "goerr + container_stats" and w1 where a: "(case r of Inl _ \<Rightarrow> add_runtime_usages stats cs ss | Inr v \<Rightarrow> add_runtime_usages stats cs (add_runtime_usage (c_owner c) v ss)) w1 = (Inr ss', w')"
      using Cons.prems by (auto simp: seq_Inr_iff)
    then show ?thesis using Cons.IH same by (cases r) auto
  next
    case False
    then show ?thesis using Cons by simp
  qed
qed simp

lemma snapshot_rows_Inr: "snapshot_rows f us = Inr ss \<Longrightarrow> list_all2 (\<lambda>u s. f u = Inr s) us ss"
  by (induction us arbitrary: ss) (auto simp: bind_res_def split: sum.splits)

lemma snapshot_row_Inr:
  "snapshot_row b t d u = Inr s \<Longrightarrow> counts_of s = (u, b, [rows_affected (\<lambda>c. c_owner c = u) (t_containers d),
     rows_affected (\<lambda>c. c_owner c = u \<and> c_status c = CRunning) (t_containers d), rows_affected (\<lambda>v. v_owner v = u) (t_volumes d),
     rows_affected (\<lambda>i. i_owner i = u) (t_images d), rows_affected (\<lambda>b. b_owner b = u) (t_builds d),
     rows_affected (\<lambda>p. p_owner p = u) (t_projects d)])"
  by (auto simp: snapshot_row_def counts_of_def bind_res_def split: sum.splits)

lemma column_of: "list_all2 R us ss \<Longrightarrow> (\<And>u s. R u s \<Longrightarrow> g s = h u) \<Longrightarrow> map g ss = map h us"
  by (induction us ss rule: list_all2_induct) auto

text \<open>A failing statement or a failing call for the statistics of a container fails nothing else.\<close>

lemma attempt_total: "\<exists>r w'. attempt m w = (Inr r, w')"
  by (cases "m w") (simp add: attempt_def)

lemma add_runtime_usages_total: "\<exists>ss' w'. add_runtime_usages stats cs ss w = (Inr ss', w')"
proof (induction cs arbitrary: ss w)
  case (Cons c cs)
  obtain r w1 where a: "attempt (ask (\<lambda>e n. stats n (c_docker_id c))) w = (Inr r, w1)" by (meson attempt_total)
  then show ?case using Cons.IH by (cases r) (simp_all add: seq_def)
qed (simp add: ret_def)

lemma apply_runtime_usage_total: "\<exists>ss' w'. apply_runtime_usage stats ss w = (Inr ss', w')"
proof (cases "ss = []")
  case False
  obtain r w1 where "attempt (query (\<lambda>d. Inr (order_by (\<lambda>c. int (c_owner c))
      (filter (\<lambda>c. c_status c = CRunning \<and> c_docker_id c \<noteq> []) (t_containers d))))) w = (Inr r, w1)"
    by (meson attempt_total)
  then show ?thesis using False add_runtime_usages_total by (cases r) (simp_all add: apply_runtime_usage_def seq_def ret_def)
qed (simp add: apply_runtime_usage_def ret_def)

lemma apply_runtime_usage_counts: "apply_runtime_usage stats rows w = (Inr ss, w') \<Longrightarrow> map counts_of ss = map counts_of rows"
proof (cases "rows = []")
  case False
  assume "apply_runtime_usage stats rows w = (Inr ss, w')"
  then obtain r :: "goerr + container list" and w2 where "(case r of Inl _ \<Rightarrow> ret rows | Inr cs \<Rightarrow> add_runtime_usages stats cs rows) w2 = (Inr ss, w')"
    using False by (auto simp: apply_runtime_usage_def seq_Inr_iff)
  then show ?thesis using runtime_keeps_counts by (cases r) auto
qed (simp add: apply_runtime_usage_def)

lemma counts_of_column:
  assumes "map counts_of ss = map counts_of rows" and "list_all2 (\<lambda>u s. counts_of s = f u) us rows" and "\<And>u. fst (f u) = u"
  shows "map sn_owner ss = us" and "list_all (\<lambda>s. counts_of s = f (sn_owner s)) ss"
proof -
  have "map counts_of ss = map f us" using assms(1) column_of[OF assms(2), of counts_of f] by simp
  then have "list_all2 (\<lambda>s u. counts_of s = f u) ss us"
    by (simp add: list_all2_conv_all_nth) (metis length_map nth_map)
  then show "map sn_owner ss = us" and "list_all (\<lambda>s. counts_of s = f (sn_owner s)) ss"
    by (induction rule: list_all2_induct) (use assms(3) in \<open>auto simp: counts_of_def prod_eq_iff\<close>)
qed

lemma sum_of_counts:
  assumes "map sn_owner ss = us" and "list_all (\<lambda>s. g s = rows_affected (\<lambda>x. f x = sn_owner s \<and> P x) t) ss"
    and "distinct us" "set (map f t) \<subseteq> set us"
  shows "sum_list (map g ss) = rows_affected P t"
proof -
  have "map g ss = map (\<lambda>s. rows_affected (\<lambda>x. f x = sn_owner s \<and> P x) t) ss" using assms(2) by (simp add: list_all_iff)
  also have "\<dots> = map (\<lambda>u. rows_affected (\<lambda>x. f x = u \<and> P x) t) us" unfolding assms(1)[symmetric] by simp
  finally show ?thesis using rows_of_owners[OF assms(3,4), of P] by simp
qed

text \<open>
  C39. When the store answers and the sums of every owner fit a bigint, the snapshots are taken, whatever the
  statement for the running containers or any call for their statistics then does.  There is one row for
  every owner of a resource and none for anybody else; the row has the containers, running containers,
  volumes, images, builds and projects of this owner, and together the rows count each of them exactly once.
\<close>

theorem snapshots_count_once:
  assumes "e_fault (w_env w) (w_tick w) = None" and "d = w_db w" and "is_ok (snapshot_rows (snapshot_row bucket t d) (snapshot_owners d))"
  shows "\<exists>ss w'. collect_usage_snapshots stats bucket t w = (Inr ss, w')
    \<and> distinct (map sn_owner ss)
    \<and> set (map sn_owner ss) = set (map c_owner (t_containers d) @ map v_owner (t_volumes d) @ map i_owner (t_images d)
        @ map b_owner (t_builds d) @ map p_owner (t_projects d))
    \<and> list_all (\<lambda>s. sn_bucket s = bucket
        \<and> sn_containers s = rows_affected (\<lambda>c. c_owner c = sn_owner s) (t_containers d)
        \<and> sn_running s = rows_affected (\<lambda>c. c_owner c = sn_owner s \<and> c_status c = CRunning) (t_containers d)
        \<and> sn_volumes s = rows_affected (\<lambda>v. v_owner v = sn_owner s) (t_volumes d)
        \<and> sn_images s = rows_affected (\<lambda>i. i_owner i = sn_owner s) (t_images d)
        \<and> sn_builds s = rows_affected (\<lambda>b. b_owner b = sn_owner s) (t_builds d)
        \<and> sn_projects s = rows_affected (\<lambda>p. p_owner p = sn_owner s) (t_projects d)) ss
    \<and> sum_list (map sn_containers ss) = length (t_containers d)
    \<and> sum_list (map sn_running ss) = rows_affected (\<lambda>c. c_status c = CRunning) (t_containers d)
    \<and> sum_list (map sn_volumes ss) = length (t_volumes d) \<and> sum_list (map sn_images ss) = length (t_images d)
    \<and> sum_list (map sn_builds ss) = length (t_builds d) \<and> sum_list (map sn_projects ss) = length (t_projects d)"
proof -
  let ?us = "snapshot_owners d"
  let ?f = "\<lambda>u. (u, bucket, [rows_affected (\<lambda>c. c_owner c = u) (t_containers d),
     rows_affected (\<lambda>c. c_owner c = u \<and> c_status c = CRunning) (t_containers d), rows_affected (\<lambda>v. v_owner v = u) (t_volumes d),
     rows_affected (\<lambda>i. i_owner i = u) (t_images d), rows_affected (\<lambda>b. b_owner b = u) (t_builds d),
     rows_affected (\<lambda>p. p_owner p = u) (t_projects d)])"
  obtain rows where rows: "snapshot_rows (snapshot_row bucket t d) ?us = Inr rows" using assms(3) by (auto simp: is_ok_def split: sum.splits)
  obtain ss w' where run: "apply_runtime_usage stats rows (w\<lparr>w_tick := Suc (w_tick w)\<rparr>) = (Inr ss, w')" using apply_runtime_usage_total by blast
  have c: "collect_usage_snapshots stats bucket t w = (Inr ss, w')"
    using rows run assms(1,2) by (simp add: collect_usage_snapshots_def seq_def on_error_def query_def ext_def Let_def)
  have "list_all2 (\<lambda>u s. counts_of s = ?f u) ?us rows"
    using snapshot_rows_Inr[OF rows] by (rule list_all2_mono) (rule snapshot_row_Inr)
  then have own: "map sn_owner ss = ?us" and all: "list_all (\<lambda>s. counts_of s = ?f (sn_owner s)) ss"
    using counts_of_column[OF apply_runtime_usage_counts[OF run], of ?f ?us] by simp_all
  have d: "distinct ?us" by (simp add: snapshot_owners_def)
  have us: "set ?us = set (map c_owner (t_containers d) @ map v_owner (t_volumes d) @ map i_owner (t_images d)
      @ map b_owner (t_builds d) @ map p_owner (t_projects d))" by (simp add: snapshot_owners_def)
  have whole: "sum_list (map g ss) = length tb" if "list_all (\<lambda>s. g s = rows_affected (\<lambda>x. f x = sn_owner s) tb) ss" "set (map f tb) \<subseteq> set ?us"
    for g and f :: "'r \<Rightarrow> id" and tb
    using sum_of_counts[OF own _ d that(2), of g "\<lambda>_. True"] that(1) by (simp add: rows_affected_def)
  show ?thesis
  proof (intro exI conjI)
    show "list_all (\<lambda>s. sn_bucket s = bucket
        \<and> sn_containers s = rows_affected (\<lambda>c. c_owner c = sn_owner s) (t_containers d)
        \<and> sn_running s = rows_affected (\<lambda>c. c_owner c = sn_owner s \<and> c_status c = CRunning) (t_containers d)
        \<and> sn_volumes s = rows_affected (\<lambda>v. v_owner v = sn_owner s) (t_volumes d)
        \<and> sn_images s = rows_affected (\<lambda>i. i_owner i = sn_owner s) (t_images d)
        \<and> sn_builds s = rows_affected (\<lambda>b. b_owner b = sn_owner s) (t_builds d)
        \<and> sn_projects s = rows_affected (\<lambda>p. p_owner p = sn_owner s) (t_projects d)) ss"
      using all by (simp add: list_all_iff counts_of_def)
    show "sum_list (map sn_running ss) = rows_affected (\<lambda>c. c_status c = CRunning) (t_containers d)"
      by (rule sum_of_counts[OF own _ d]) (use all in \<open>auto simp: list_all_iff counts_of_def us\<close>)
    show "sum_list (map sn_containers ss) = length (t_containers d)" "sum_list (map sn_volumes ss) = length (t_volumes d)"
      "sum_list (map sn_images ss) = length (t_images d)" "sum_list (map sn_builds ss) = length (t_builds d)"
      "sum_list (map sn_projects ss) = length (t_projects d)"
      using all by (intro whole; force simp: list_all_iff counts_of_def us)+
  qed (use c own us d in simp_all)
qed

section \<open>Audit events\<close>

text \<open>
  An audit event crosses the gRPC boundary unchanged, except that its time is cut to the second;
  an event of the very second the Unix clock starts from arrives without a time.
\<close>

theorem audit_event_round_trip:
  assumes "\<And>u. parse (txt u) = Some u" and "parse [] = None" and "ar_occurred e = Some t"
  shows "audit_event_from_proto parse (audit_event_to_proto txt e)
    = Inr (e\<lparr>ar_occurred := (if t div 1000000000 = 0 then None else Some (t div 1000000000 * 1000000000))\<rparr>)"
proof -
  have ne: "txt u \<noteq> []" for u using assms(1)[of u] assms(2) by auto
  have p: "parse_uuid_ptr parse (uuid_ptr_string txt x) = x" for x
    using ne assms(1) by (cases x) (auto simp: parse_uuid_ptr_def uuid_ptr_string_def)
  show ?thesis using ne assms(1,3)
    by (simp add: audit_event_from_proto_def audit_event_to_proto_def p unix_time_def bind_res_def)
qed

section \<open>Pages and ranges\<close>

lemma normalized_range_is_ordered: "fst (normalize_from_to a b t) < snd (normalize_from_to a b t)"
  by (auto simp: normalize_from_to_def Let_def split: option.splits)

lemma page_offset_exact:
  assumes "1 \<le> p" "p < 2 ^ 31" "1 \<le> l" "l \<le> 100" "(p - 1) * l < 2 ^ 31"
  shows "page_limit_offset p l = (l, (p - 1) * l)"
proof -
  have "int32_wrap n = n" if "0 \<le> n" "n < 2 ^ 31" for n using that by (simp add: int32_wrap_def)
  then show ?thesis using assms by (simp add: page_limit_offset_def Let_def)
qed

text \<open>A page far enough wraps to a negative offset and shows the first page.\<close>

lemma far_page_is_first: "report_offset (snd (page_limit_offset 21474838 100)) = 0"
  by code_simp

lemma safe_details_only_allowed:
  "(k, v) \<in> set (safe_details l) \<Longrightarrow> List.member allowed_detail_keys k \<and> length v \<le> 256"
  by (auto simp: safe_details_def split: if_splits)

text \<open>The memory a snapshot reports as reserved leaves out containers that run but are meant to stop.\<close>

lemma snapshot_reserved_at_most:
  assumes "snapshot_row b t d u = Inr s" and "get_user_reserved_memory u d = Inr m" and "list_all (\<lambda>c. 0 \<le> c_memory c) (t_containers d)"
  shows "sn_reserved s \<le> m"
proof -
  have "sum_where (\<lambda>c. c_owner c = u \<and> c_status c \<noteq> CMissing \<and> c_desired c = CRunning) c_memory cs
      \<le> sum_where (\<lambda>c. c_owner c = u \<and> counts_reserved c) c_memory cs" if "list_all (\<lambda>c. 0 \<le> c_memory c) cs" for cs
    using that by (induction cs) (auto simp: counts_reserved_def)
  then show ?thesis using assms by (auto simp: snapshot_row_def get_user_reserved_memory_def scan_i64_Inr bind_res_def split: sum.splits)
qed

section \<open>The store of reports\<close>

text \<open>
  Rows of one owner that were collected at the same moment are the same row.  Snapshots of an owner are
  taken one after another, and their moments are kept to the millisecond.
\<close>

definition no_ties :: "usage_snapshot list \<Rightarrow> bool" where
  "no_ties ss \<longleftrightarrow> list_all (\<lambda>s. list_all (\<lambda>r. sn_owner r = sn_owner s \<and> sn_collected r = sn_collected s \<longrightarrow> r = s) ss) ss"

text \<open>
  What a table of the engine ReplacingMergeTree(collected_at) may have become: rows were merged away, but
  for each of them a row of the same owner and bucket is kept that was collected no earlier.  The order of
  the rows may have changed as well.
\<close>

definition merged_away :: "usage_snapshot list \<Rightarrow> usage_snapshot list \<Rightarrow> bool" where
  "merged_away ss ss' \<longleftrightarrow> set ss' \<subseteq> set ss
     \<and> list_all (\<lambda>s. list_ex (\<lambda>r. sn_owner r = sn_owner s \<and> sn_bucket r = sn_bucket s \<and> sn_collected s \<le> sn_collected r) ss') ss"

lemma no_ties_eq: "no_ties ss \<Longrightarrow> r \<in> set ss \<Longrightarrow> s \<in> set ss \<Longrightarrow> sn_owner r = sn_owner s \<Longrightarrow> sn_collected r = sn_collected s \<Longrightarrow> r = s"
  by (auto simp: no_ties_def list_all_iff)

lemma newest_rows_mem: "s \<in> set (newest_rows ss) \<longleftrightarrow> s \<in> set ss \<and> (\<forall>x\<in>set ss. sn_collected x \<le> sn_collected s)"
  by (simp add: newest_rows_def list_all_iff)

lemma newest_rows_exist: "ss \<noteq> [] \<Longrightarrow> newest_rows ss \<noteq> []"
proof -
  assume "ss \<noteq> []"
  then have "Max (sn_collected ` set ss) \<in> sn_collected ` set ss" by (intro Max_in) auto
  then obtain s where "s \<in> set ss" "sn_collected s = Max (sn_collected ` set ss)" by auto
  then have "s \<in> set (newest_rows ss)" by (simp add: newest_rows_mem)
  then show ?thesis by auto
qed

lemma arg_max_row_newest: "ss \<noteq> [] \<Longrightarrow> arg_max_row pick ss \<in> set (newest_rows ss)"
  by (simp add: arg_max_row_def Let_def newest_rows_exist)

lemma latest_row_None [simp]: "latest_row pick ss = None \<longleftrightarrow> ss = []"
  by (simp add: latest_row_def)

lemma latest_row_key:
  "latest_row pick ss = Some s \<Longrightarrow> \<exists>r\<in>set ss. sn_owner s = sn_owner r \<and> sn_bucket s = sn_bucket r"
  using arg_max_row_newest[of ss] by (auto simp: latest_row_def newest_rows_mem split: if_splits)

text \<open>Without ties the choices of the store do not matter.\<close>

lemma latest_row_unique:
  assumes "no_ties ss" and "\<And>x y. x \<in> set ss \<Longrightarrow> y \<in> set ss \<Longrightarrow> sn_owner x = sn_owner y" and "r \<in> set (newest_rows ss)"
  shows "latest_row pick ss = Some r"
proof -
  have ne: "ss \<noteq> []" using assms(3) by (auto simp: newest_rows_def)
  have "arg_max_row p ss = r" for p
  proof -
    have a: "arg_max_row p ss \<in> set (newest_rows ss)" by (rule arg_max_row_newest[OF ne])
    then have "sn_collected (arg_max_row p ss) = sn_collected r" using assms(3) by (auto simp: newest_rows_mem intro: order_antisym)
    moreover have "arg_max_row p ss \<in> set ss" "r \<in> set ss" using a assms(3) by (simp_all add: newest_rows_mem)
    ultimately show ?thesis using no_ties_eq[OF assms(1)] assms(2) by blast
  qed
  then show ?thesis using ne by (simp add: latest_row_def)
qed

lemma merged_newest:
  assumes "merged_away ss ss'" and "\<And>x y. sn_owner x = sn_owner y \<Longrightarrow> sn_bucket x = sn_bucket y \<Longrightarrow> P x = P y"
    and "no_ties ss" "\<And>x y. P x \<Longrightarrow> P y \<Longrightarrow> sn_owner x = sn_owner y"
  shows "set (newest_rows (filter P ss')) = set (newest_rows (filter P ss))"
proof -
  have sub: "set ss' \<subseteq> set ss" using assms(1) by (simp add: merged_away_def)
  have kept: "\<exists>r\<in>set ss'. P r \<and> sn_collected s \<le> sn_collected r" if "s \<in> set ss" "P s" for s
    using assms(1,2) that unfolding merged_away_def list_all_iff list_ex_iff by metis
  show ?thesis
  proof (intro equalityI subsetI)
    fix s assume "s \<in> set (newest_rows (filter P ss'))"
    then have s: "s \<in> set ss'" "P s" "\<forall>x\<in>set ss'. P x \<longrightarrow> sn_collected x \<le> sn_collected s" by (auto simp: newest_rows_mem)
    then have "\<forall>x\<in>set ss. P x \<longrightarrow> sn_collected x \<le> sn_collected s" using kept by (meson order_trans)
    then show "s \<in> set (newest_rows (filter P ss))" using s sub by (auto simp: newest_rows_mem)
  next
    fix s assume "s \<in> set (newest_rows (filter P ss))"
    then have s: "s \<in> set ss" "P s" "\<forall>x\<in>set ss. P x \<longrightarrow> sn_collected x \<le> sn_collected s" by (auto simp: newest_rows_mem)
    obtain r where r: "r \<in> set ss'" "P r" "sn_collected s \<le> sn_collected r" using kept s by blast
    then have "sn_collected r = sn_collected s" "r \<in> set ss" using s(3) sub by (auto intro: order_antisym)
    then have "r = s" using no_ties_eq[OF assms(3) _ s(1)] assms(4)[OF r(2) s(2)] by blast
    then show "s \<in> set (newest_rows (filter P ss'))" using r s sub by (auto simp: newest_rows_mem)
  qed
qed

lemma no_ties_sub: "no_ties ss \<Longrightarrow> set us \<subseteq> set ss \<Longrightarrow> no_ties us"
  unfolding no_ties_def list_all_iff by blast

lemma merged_latest:
  assumes "merged_away ss ss'" and "\<And>x y. sn_owner x = sn_owner y \<Longrightarrow> sn_bucket x = sn_bucket y \<Longrightarrow> P x = P y"
    and "no_ties ss" "\<And>x y. P x \<Longrightarrow> P y \<Longrightarrow> sn_owner x = sn_owner y"
  shows "latest_row pick' (filter P ss') = latest_row pick (filter P ss)"
proof (cases "filter P ss = []")
  case True
  moreover have "set ss' \<subseteq> set ss" using assms(1) by (simp add: merged_away_def)
  ultimately have "filter P ss' = []" by (auto simp: filter_empty_conv)
  then show ?thesis using True by (simp add: latest_row_def)
next
  case False
  then obtain r where r: "r \<in> set (newest_rows (filter P ss))" using newest_rows_exist by (meson list.set_sel(1))
  have t: "no_ties (filter P ss)" "no_ties (filter P ss')"
    by (rule no_ties_sub[OF assms(3)], use assms(1) in \<open>auto simp: merged_away_def\<close>)+
  have own: "sn_owner x = sn_owner y" if "x \<in> set (filter P us)" "y \<in> set (filter P us)" for x y us
    by (rule assms(4)) (use that in simp_all)
  have "set (newest_rows (filter P ss')) = set (newest_rows (filter P ss))" by (rule merged_newest) (fact assms)+
  with r have r': "r \<in> set (newest_rows (filter P ss'))" by blast
  have "latest_row pick (filter P ss) = Some r" by (rule latest_row_unique[OF t(1) own r])
  moreover have "latest_row pick' (filter P ss') = Some r" by (rule latest_row_unique[OF t(2) own r'])
  ultimately show ?thesis by simp
qed

lemma merged_groups:
  assumes "merged_away ss ss'" "no_ties ss" and "\<And>x y. sn_owner x = sn_owner y \<Longrightarrow> sn_bucket x = sn_bucket y \<Longrightarrow> P x = P y \<and> k x = k y"
    and "\<And>x y. P x \<Longrightarrow> P y \<Longrightarrow> k x = k y \<Longrightarrow> sn_owner x = sn_owner y"
  shows "group_latest pick' k (filter P ss') = group_latest pick k (filter P ss)"
proof -
  have "k ` set (filter P ss') = k ` set (filter P ss)"
  proof -
    have "k s \<in> k ` set (filter P ss')" if s: "s \<in> set ss" "P s" for s
    proof -
      obtain r where r: "r \<in> set ss'" "sn_owner r = sn_owner s" "sn_bucket r = sn_bucket s"
        using assms(1) s(1) by (auto simp: merged_away_def list_all_iff list_ex_iff)
      then have "P r" "k s = k r" using assms(3)[OF r(2,3)] s(2) by simp_all
      then show ?thesis using r(1) by auto
    qed
    then show ?thesis using assms(1) by (auto simp: merged_away_def)
  qed
  moreover have "latest_row pick' (filter (\<lambda>s. P s \<and> k s = u) ss') = latest_row pick (filter (\<lambda>s. P s \<and> k s = u) ss)" for u
  proof (rule merged_latest[OF assms(1) _ assms(2)])
    show "(P x \<and> k x = u) = (P y \<and> k y = u)" if "sn_owner x = sn_owner y" "sn_bucket x = sn_bucket y" for x y
      using assms(3)[OF that] by simp
    show "sn_owner x = sn_owner y" if "P x \<and> k x = u" "P y \<and> k y = u" for x y
      using assms(4)[of x y] that by simp
  qed
  ultimately show ?thesis by (simp add: group_latest_def filter_filter conj_commute sorted_list_of_set_sort_remdups[symmetric])
qed

lemma merged_away_refl: "merged_away ss ss"
  by (auto simp: merged_away_def list_all_iff list_ex_iff)

lemma group_latest_keys:
  assumes "\<And>x y. sn_owner x = sn_owner y \<Longrightarrow> sn_bucket x = sn_bucket y \<Longrightarrow> k x = k y"
  shows "map k (group_latest pick k ss) = sort (remdups (map k ss))"
proof -
  have "map k (List.map_filter (\<lambda>u. latest_row pick (filter (\<lambda>s. k s = u) ss)) us) = us" if "set us \<subseteq> k ` set ss" for us
    using that
  proof (induction us)
    case (Cons u us)
    then obtain s where s: "latest_row pick (filter (\<lambda>s. k s = u) ss) = Some s"
      by (cases "latest_row pick (filter (\<lambda>s. k s = u) ss)") (auto simp: filter_empty_conv)
    then obtain r where "r \<in> set (filter (\<lambda>s. k s = u) ss)" "sn_owner s = sn_owner r" "sn_bucket s = sn_bucket r"
      using latest_row_key[OF s] by blast
    then have "k s = u" using assms[of s r] by simp
    then show ?case using Cons s by (auto simp: List.map_filter_def filter_empty_conv)
  qed (simp add: List.map_filter_def)
  then show ?thesis by (simp add: group_latest_def)
qed

lemma sum_list_perm: "mset g = mset g' \<Longrightarrow> sum_list (map f g) = (sum_list (map f g') :: int)"
  by (metis mset_map sum_mset_sum_list)

lemma overview_perm: "mset g = mset g' \<Longrightarrow> (overview_of a b es g)\<lparr>ov_cpu := 0\<rparr> = (overview_of a b es g')\<lparr>ov_cpu := 0\<rparr>"
  using sum_list_perm[of g g'] by (simp add: overview_of_def sum_of_def)

lemma order_desc_mset: "mset (order_desc ties f rows) = mset rows"
  by (simp add: order_desc_def)

lemma order_desc_column:
  fixes f :: "'a \<Rightarrow> 'v :: linordered_idom"
  shows "map f (order_desc ties f rows) = map f (order_desc ties' f rows)"
proof -
  have "map (\<lambda>x. - f x) (sort_key (\<lambda>x. - f x) (sort_key t rows)) = sort (map (\<lambda>x. - f x) rows)" for t :: "'a \<Rightarrow> nat"
    by (rule properties_for_sort[symmetric]) (simp_all add: mset_map)
  then have "map uminus (map (\<lambda>x. - f x) (order_desc ties f rows)) = map uminus (map (\<lambda>x. - f x) (order_desc ties' f rows))"
    by (simp only: order_desc_def)
  then show ?thesis unfolding map_map comp_def by simp
qed

lemma order_desc_strict:
  assumes "distinct (map f rows)"
  shows "order_desc ties f rows = order_desc ties' f rows"
proof (rule map_inj_on[OF order_desc_column])
  have "set (order_desc t f rows) = set rows" for t by (metis order_desc_mset mset_eq_setD)
  then show "inj_on f (set (order_desc ties f rows) \<union> set (order_desc ties' f rows))" using assms by (simp add: distinct_map)
qed

lemma map_limited: "map f (limited l k rows) = limited l k (map f rows)"
  by (simp add: limited_def take_map drop_map)

text \<open>
  Two stores with the same events, one of which has merged rows away, whose engines may choose differently;
  d0 fixes the contents of the tables, which no report changes.
\<close>

definition tables :: "report_db \<Rightarrow> report_env \<times> audit_row list \<times> usage_snapshot list" where
  "tables d = (rd_env d, rd_events d, rd_usage d)"

definition merged_into :: "report_db \<Rightarrow> report_db \<Rightarrow> report_db \<Rightarrow> bool" where
  "merged_into d0 d d' \<longleftrightarrow> tables d = tables d0
     \<and> rd_env d' = (rd_env d)\<lparr>rv_arg_max := rv_arg_max (rd_env d'), rv_owner_order := rv_owner_order (rd_env d')\<rparr>
     \<and> rd_tick d' = rd_tick d \<and> rd_addr d' = rd_addr d \<and> rd_open d' = rd_open d \<and> rd_events d' = rd_events d
     \<and> no_ties (rd_usage d) \<and> merged_away (rd_usage d) (rd_usage d')"

lemma merged_into_env:
  assumes "merged_into d0 d d'"
  shows "rv_fault (rd_env d') = rv_fault (rd_env d)" "rv_bound (rd_env d') = rv_bound (rd_env d)" "rv_text (rd_env d') = rv_text (rd_env d)"
proof -
  have e: "rd_env d' = (rd_env d)\<lparr>rv_arg_max := rv_arg_max (rd_env d'), rv_owner_order := rv_owner_order (rd_env d')\<rparr>"
    using assms unfolding merged_into_def by blast
  show "rv_fault (rd_env d') = rv_fault (rd_env d)" "rv_bound (rd_env d') = rv_bound (rd_env d)" "rv_text (rd_env d') = rv_text (rd_env d)"
    by (subst e, simp)+
qed

text \<open>A method that the two stores answer alike up to a relation of the answers.\<close>

definition alike :: "report_db \<Rightarrow> ('a \<Rightarrow> 'a \<Rightarrow> bool) \<Rightarrow> 'a report_meth \<Rightarrow> 'a report_meth \<Rightarrow> bool" where
  "alike d0 R m m' \<longleftrightarrow> (\<forall>d d'. merged_into d0 d d' \<longrightarrow> rel_sum (=) R (fst (m d)) (fst (m' d')) \<and> merged_into d0 (snd (m d)) (snd (m' d')))"

lemma alike_weaken: "alike d0 R m m' \<Longrightarrow> (\<And>x y. R x y \<Longrightarrow> S x y) \<Longrightarrow> alike d0 S m m'"
  unfolding alike_def by (blast intro: sum.rel_mono_strong)

named_theorems alike_intros \<open>rules that compose alike\<close>

lemma alike_ret [alike_intros]: "R x y \<Longrightarrow> alike d0 R (ret x) (ret y)" and alike_fail [alike_intros]: "alike d0 R (fail e) (fail e)"
  by (simp_all add: alike_def ret_def fail_def)

lemma alike_seq:
  assumes "alike d0 R m m'" and "\<And>x y. R x y \<Longrightarrow> alike d0 S (f x) (f' y)"
  shows "alike d0 S (seq m f) (seq m' f')"
  unfolding alike_def
proof (intro allI impI)
  fix d d' assume "merged_into d0 d d'"
  then have "rel_sum (=) R (fst (m d)) (fst (m' d'))" "merged_into d0 (snd (m d)) (snd (m' d'))" using assms(1) by (auto simp: alike_def)
  then show "rel_sum (=) S (fst (seq m f d)) (fst (seq m' f' d')) \<and> merged_into d0 (snd (seq m f d)) (snd (seq m' f' d'))"
    using assms(2) by (cases "m d"; cases "m' d'") (auto simp: seq_def alike_def elim!: rel_sum.cases)
qed

lemma alike_on_error:
  assumes "alike d0 R m m'" and "\<And>e. alike d0 R (h e) (h e)"
  shows "alike d0 R (on_error m h) (on_error m' h)"
  unfolding alike_def
proof (intro allI impI)
  fix d d' assume "merged_into d0 d d'"
  then have "rel_sum (=) R (fst (m d)) (fst (m' d'))" "merged_into d0 (snd (m d)) (snd (m' d'))" using assms(1) by (auto simp: alike_def)
  then show "rel_sum (=) R (fst (on_error m h d)) (fst (on_error m' h d')) \<and> merged_into d0 (snd (on_error m h d)) (snd (on_error m' h d'))"
    using assms(2) by (cases "m d"; cases "m' d'") (auto simp: on_error_def alike_def elim!: rel_sum.cases)
qed

lemma alike_failing [alike_intros]:
  "alike d0 R m m' \<Longrightarrow> alike d0 R (failing x m) (failing x m')" "alike d0 R m m' \<Longrightarrow> alike d0 R (store_failing x m) (store_failing x m')"
  by (simp_all add: failing_def store_failing_def alike_on_error alike_fail)

lemma alike_query [alike_intros]: "(\<And>d d'. merged_into d0 d d' \<Longrightarrow> R (f d) (f' d')) \<Longrightarrow> alike d0 R (report_query f) (report_query f')"
  by (auto simp: alike_def report_query_def merged_into_env Let_def split: option.splits) (auto simp: merged_into_def tables_def)

lemma alike_conn [alike_intros]: "alike d0 (=) db_conn db_conn"
proof -
  have "alike d0 (=) (report_exec (\<lambda>d. d\<lparr>rd_open := True\<rparr>)) (report_exec (\<lambda>d. d\<lparr>rd_open := True\<rparr>))"
    by (auto simp: alike_def report_exec_def merged_into_env Let_def split: option.splits) (auto simp: merged_into_def tables_def)
  then have "alike d0 (=) (seq (failing x (report_query (\<lambda>_. ()))) (\<lambda>_. failing y (report_exec (\<lambda>d. d\<lparr>rd_open := True\<rparr>))))
      (seq (failing x (report_query (\<lambda>_. ()))) (\<lambda>_. failing y (report_exec (\<lambda>d. d\<lparr>rd_open := True\<rparr>))))" for x y
    by (intro alike_seq[where R = "(=)"] alike_intros) auto
  moreover have "rd_open d' = rd_open d" "rd_addr d' = rd_addr d" if "merged_into d0 d d'" for d d' using that by (auto simp: merged_into_def)
  ultimately show ?thesis by (auto simp: alike_def db_conn_def)
qed

lemma tables_cong:
  assumes "tables d' = tables d"
  shows "usage_between a b d' = usage_between a b d" "events_between a b d' = events_between a b d"
  using assms by (simp_all add: tables_def usage_between_def events_between_def)

text \<open>What the reports read is the same in both stores.\<close>

lemma merged_tables:
  assumes "merged_into d0 d d'"
  shows "group_latest p' sn_owner (usage_between a b d') = group_latest p sn_owner (usage_between a b d0)"
    and "group_latest p' sn_bucket (filter (\<lambda>s. sn_owner s = u) (usage_between a b d'))
      = group_latest p sn_bucket (filter (\<lambda>s. sn_owner s = u) (usage_between a b d0))"
    and "events_between a b d' = events_between a b d0"
    and "found_users a b search d' = found_users a b search d0"
    and "foldl (\<lambda>x s. max x (sn_collected s)) z (rd_usage d') = foldl (\<lambda>x s. max x (sn_collected s)) z (rd_usage d0)"
proof -
  have t: "tables d = tables d0" and m: "merged_away (rd_usage d0) (rd_usage d')" "no_ties (rd_usage d0)"
    and e: "rd_events d' = rd_events d0" and b: "rv_bound (rd_env d') = rv_bound (rd_env d0)" "rv_text (rd_env d') = rv_text (rd_env d0)"
    using assms merged_into_env[OF assms] by (auto simp: merged_into_def tables_def)
  show g: "group_latest p' sn_owner (usage_between a b d') = group_latest p sn_owner (usage_between a b d0)" for p p'
    unfolding usage_between_def b by (rule merged_groups[OF m]) auto
  show "group_latest p' sn_bucket (filter (\<lambda>s. sn_owner s = u) (usage_between a b d'))
      = group_latest p sn_bucket (filter (\<lambda>s. sn_owner s = u) (usage_between a b d0))"
    unfolding usage_between_def b filter_filter by (rule merged_groups[OF m]) auto
  show "events_between a b d' = events_between a b d0" by (simp add: events_between_def e b)
  show "found_users a b search d' = found_users a b search d0" unfolding found_users_def b by (subst g[where p = "arg_max_of d0"]) (rule refl)
  have "(\<forall>s\<in>set (rd_usage d'). sn_collected s \<le> x) \<longleftrightarrow> (\<forall>s\<in>set (rd_usage d0). sn_collected s \<le> x)" for x
    using m(1) by (auto simp: merged_away_def list_all_iff list_ex_iff) (meson order_trans)
  moreover have "foldl (\<lambda>x s. max x (sn_collected s)) z us \<le> x \<longleftrightarrow> z \<le> x \<and> (\<forall>s\<in>set us. sn_collected s \<le> x)" for us :: "usage_snapshot list" and x
    by (induction us arbitrary: z) auto
  ultimately have "foldl (\<lambda>x s. max x (sn_collected s)) z (rd_usage d') \<le> x \<longleftrightarrow> foldl (\<lambda>x s. max x (sn_collected s)) z (rd_usage d0) \<le> x" for x
    by simp
  then show "foldl (\<lambda>x s. max x (sn_collected s)) z (rd_usage d') = foldl (\<lambda>x s. max x (sn_collected s)) z (rd_usage d0)"
    by (meson order_antisym order_refl)
qed

lemma merged_into_self: "merged_into d0 d d' \<Longrightarrow> merged_into d0 d d"
  by (simp add: merged_into_def merged_away_refl)

lemma both_read:
  assumes "\<And>d d'. merged_into d0 d d' \<Longrightarrow> f d' = v"
  shows "alike d0 (\<lambda>x y. x = v \<and> y = v) (report_query f) (report_query f)"
  by (rule alike_query) (use assms merged_into_self in blast)

definition same_but_cpu :: "reports_overview \<Rightarrow> reports_overview \<Rightarrow> bool" where
  "same_but_cpu v v' \<longleftrightarrow> v'\<lparr>ov_cpu := 0\<rparr> = v\<lparr>ov_cpu := 0\<rparr>"

text \<open>
  Two pages of users: the same total and the same figures in the column of the order, and the same rows
  when this column tells all users apart.
\<close>

definition same_page :: "(user_usage_item \<Rightarrow> rat) \<Rightarrow> user_usage_item list \<Rightarrow> user_usage_item list \<times> int \<Rightarrow> user_usage_item list \<times> int \<Rightarrow> bool" where
  "same_page column users p p' \<longleftrightarrow> snd p' = snd p \<and> map column (fst p') = map column (fst p)
     \<and> (distinct (map column users) \<longrightarrow> fst p' = fst p)"

lemma alike_overview: "alike d0 same_but_cpu (get_reports_overview cfg t x y) (get_reports_overview cfg t x y)"
proof -
  have same: "same_but_cpu (overview_of a b es g) (overview_of a b es g')" if "mset g = mset g'" for a b es g g'
    using overview_perm[OF that[symmetric]] by (simp add: same_but_cpu_def)
  have q: "alike d0 same_but_cpu (query_overview a b) (query_overview a b)" for a b
    unfolding query_overview_def
  proof (rule alike_seq[OF alike_conn], rule alike_seq[OF alike_failing(1)[OF both_read]])
    show "events_between a b d' = events_between a b d0" if "merged_into d0 d d'" for d d' by (rule merged_tables(3)[OF that])
    let ?q = "report_query (\<lambda>d. sort_key (\<lambda>s. owner_order d (sn_owner s)) (group_latest (arg_max_of d) sn_owner (usage_between a b d)))"
    let ?g = "group_latest (arg_max_of d0) sn_owner (usage_between a b d0)"
    have g: "alike d0 (\<lambda>g g'. mset g = mset ?g \<and> mset g' = mset ?g) ?q ?q"
    proof (rule alike_query, intro conjI)
      fix d d' assume m: "merged_into d0 d d'"
      show "mset (sort_key (\<lambda>s. owner_order d (sn_owner s)) (group_latest (arg_max_of d) sn_owner (usage_between a b d))) = mset ?g"
        by (simp add: merged_tables(1)[OF merged_into_self[OF m], where p = "arg_max_of d0"])
      show "mset (sort_key (\<lambda>s. owner_order d' (sn_owner s)) (group_latest (arg_max_of d') sn_owner (usage_between a b d'))) = mset ?g"
        by (simp add: merged_tables(1)[OF m, where p = "arg_max_of d0"])
    qed
    show "alike d0 same_but_cpu (seq (failing m ?q) (\<lambda>g. ret (overview_of a b es g))) (seq (failing m ?q) (\<lambda>g. ret (overview_of a b es' g)))"
      if "es = events_between a b d0 \<and> es' = events_between a b d0" for es es' m
      by (rule alike_seq[OF alike_failing(1)[OF g]]) (use that in \<open>simp add: alike_ret same\<close>)
  qed
  have l: "alike d0 (=) latest_collected_at latest_collected_at"
    unfolding latest_collected_at_def
  proof (rule alike_seq[OF alike_conn], rule alike_seq[OF alike_failing(1)[OF both_read]])
    show "foldl (\<lambda>x s. max x (sn_collected s)) 0 (rd_usage d') = foldl (\<lambda>x s. max x (sn_collected s)) 0 (rd_usage d0)"
      if "merged_into d0 d d'" for d d' by (rule merged_tables(5)[OF that])
  qed (simp add: alike_ret)
  have up: "same_but_cpu (v\<lparr>ov_latest := l, ov_interval := i\<rparr>) (v'\<lparr>ov_latest := l, ov_interval := i\<rparr>)" if "same_but_cpu v v'" for v v' l i
    using that by (cases v; cases v') (simp add: same_but_cpu_def)
  have "alike d0 same_but_cpu (seq (store_failing m (query_overview a b)) (\<lambda>v. seq (store_failing k latest_collected_at) (\<lambda>l. ret (v\<lparr>ov_latest := l, ov_interval := i\<rparr>))))
      (seq (store_failing m (query_overview a b)) (\<lambda>v. seq (store_failing k latest_collected_at) (\<lambda>l. ret (v\<lparr>ov_latest := l, ov_interval := i\<rparr>))))" for a b m k i
    by (rule alike_seq[OF alike_failing(2)[OF q]], rule alike_seq[OF alike_failing(2)[OF l]]) (simp add: alike_ret up)
  then show ?thesis by (simp add: get_reports_overview_def split: prod.split)
qed

lemma alike_timeline: "alike d0 (=) (get_user_usage_timeline cfg t u x y) (get_user_usage_timeline cfg t u x y)"
proof -
  have "alike d0 (\<lambda>p p'. p = timeline_of u a b n d0 \<and> p' = timeline_of u a b n d0) (report_query (timeline_of u a b n)) (report_query (timeline_of u a b n))" for a b n
  proof (rule both_read)
    fix d d' assume m: "merged_into d0 d d'"
    show "timeline_of u a b n d' = timeline_of u a b n d0"
      by (simp add: timeline_of_def merged_tables(3)[OF m] merged_tables(2)[OF m, where p = "arg_max_of d0"])
  qed
  then have "alike d0 (=) (report_query (timeline_of u a b n)) (report_query (timeline_of u a b n))" for a b n
    by (rule alike_weaken) simp
  then have "alike d0 (=) (query_timeline u a b n) (query_timeline u a b n)" for a b n
    unfolding query_timeline_def Let_def by (intro alike_seq[OF alike_conn] alike_failing)
  then show ?thesis by (simp add: get_user_usage_timeline_def alike_failing split: prod.split)
qed

lemma alike_users:
  assumes "normalize_from_to x y t = (a, b)"
  shows "alike d0 (same_page (report_order sort_by) (map (usage_item (events_between a b d0)) (found_users a b search d0)))
    (list_user_usage_report t x y sort_by search limit offset) (list_user_usage_report t x y sort_by search limit offset)"
proof -
  let ?users = "map (usage_item (events_between a b d0)) (found_users a b search d0)" and ?f = "report_order sort_by"
  have "alike d0 (same_page ?f ?users) (query_user_usage a b sort_by search l k) (query_user_usage a b sort_by search l k)" for l k
    unfolding query_user_usage_def
  proof (rule alike_seq[OF alike_conn], rule alike_seq[OF alike_failing(1)[OF both_read]])
    show "int (length (found_users a b search d')) = int (length (found_users a b search d0))" if "merged_into d0 d d'" for d d'
      by (simp add: merged_tables(4)[OF that])
    let ?q = "report_query (\<lambda>d. limited l k (order_desc (\<lambda>u. owner_order d (uu_owner u)) ?f (map (usage_item (events_between a b d)) (found_users a b search d))))"
    let ?R = "\<lambda>items items'. map ?f items' = map ?f items \<and> (distinct (map ?f ?users) \<longrightarrow> items' = items)"
    have q: "alike d0 ?R ?q ?q"
    proof (rule alike_query)
      fix d d' assume m: "merged_into d0 d d'"
      show "?R (limited l k (order_desc (\<lambda>u. owner_order d (uu_owner u)) ?f (map (usage_item (events_between a b d)) (found_users a b search d))))
          (limited l k (order_desc (\<lambda>u. owner_order d' (uu_owner u)) ?f (map (usage_item (events_between a b d')) (found_users a b search d'))))"
        unfolding merged_tables(3,4)[OF m] merged_tables(3,4)[OF merged_into_self[OF m]] map_limited
        using order_desc_column order_desc_strict by metis
    qed
    show "alike d0 (same_page ?f ?users) (seq (failing m ?q) (\<lambda>items. ret (items, n))) (seq (failing m ?q) (\<lambda>items. ret (items, n')))"
      if "n = int (length (found_users a b search d0)) \<and> n' = int (length (found_users a b search d0))" for n n' m
      by (rule alike_seq[OF alike_failing(1)[OF q]]) (use that in \<open>simp add: alike_ret same_page_def\<close>)
  qed
  then show ?thesis using assms by (simp add: list_user_usage_report_def alike_failing)
qed

text \<open>
  C40. The overview, the list of users and the timeline of a user do not depend on which replaced rows
  ClickHouse has merged away, on the order of the rows, or on the choices it makes where a query leaves
  them open, as long as no owner has two different snapshots of the same moment.  The sum of the CPU
  shares, which rounds in the order of the groups, is left out.  A page of users has the same total and
  the same figures in the column it is ordered by, and is the same page if this column tells all users
  apart; where it does not, the order of their rows is open.
\<close>

theorem merged_rows_invisible:
  assumes "no_ties (rd_usage d)" and "merged_away (rd_usage d) ss"
    and "d' = d\<lparr>rd_usage := ss, rd_env := (rd_env d)\<lparr>rv_arg_max := pick, rv_owner_order := order\<rparr>\<rparr>"
    and "normalize_from_to x y t = (a, b)"
  shows "rel_sum (=) same_but_cpu (fst (get_reports_overview cfg t x y d)) (fst (get_reports_overview cfg t x y d'))
    \<and> fst (get_user_usage_timeline cfg t u x y d') = fst (get_user_usage_timeline cfg t u x y d)
    \<and> rel_sum (=) (same_page (report_order sort_by) (map (usage_item (events_between a b d)) (found_users a b search d)))
        (fst (list_user_usage_report t x y sort_by search limit offset d)) (fst (list_user_usage_report t x y sort_by search limit offset d'))"
proof -
  have "merged_into d d d'" using assms(1-3) by (simp add: merged_into_def tables_def)
  then have "rel_sum (=) (=) (fst (get_user_usage_timeline cfg t u x y d)) (fst (get_user_usage_timeline cfg t u x y d'))"
    using alike_timeline by (simp add: alike_def)
  then have "fst (get_user_usage_timeline cfg t u x y d') = fst (get_user_usage_timeline cfg t u x y d)" by (simp add: sum.rel_eq)
  then show ?thesis using \<open>merged_into d d d'\<close> alike_overview alike_users[OF assms(4)] by (auto simp: alike_def)
qed

lemma failing_Inr: "failing x m d = (Inr r, d') \<longleftrightarrow> m d = (Inr r, d')" "store_failing x m d = (Inr r, d') \<longleftrightarrow> m d = (Inr r, d')"
  by (auto simp: failing_def store_failing_def on_error_Inr)

lemma report_query_Inr: "report_query f d = (Inr x, d') \<Longrightarrow> x = f d \<and> tables d' = tables d"
  by (auto simp: report_query_def tables_def Let_def split: option.splits)

lemma db_conn_tables: "db_conn d = (Inr x, d') \<Longrightarrow> tables d' = tables d"
  by (auto simp: db_conn_def seq_Inr_iff failing_Inr report_exec_def tables_def Let_def dest!: report_query_Inr split: if_splits option.splits)

text \<open>Without ties the groups of a query are those of any other query of the same tables.\<close>

lemma groups_cong:
  assumes "tables w = tables d" "no_ties (rd_usage d)"
  shows "group_latest pick' sn_owner (usage_between a b w) = group_latest pick sn_owner (usage_between a b d)"
    and "found_users a b search w = found_users a b search d"
proof -
  have u: "usage_between a b w = usage_between a b d" by (rule tables_cong(1)[OF assms(1)])
  show g: "group_latest pick' sn_owner (usage_between a b w) = group_latest pick sn_owner (usage_between a b d)" for pick pick'
    unfolding u unfolding usage_between_def by (rule merged_groups[OF merged_away_refl assms(2)]) auto
  show "found_users a b search w = found_users a b search d"
    using assms(1) by (simp add: found_users_def tables_def g[where pick = "arg_max_of d"])
qed

lemma get_reports_overview_Inr:
  assumes "get_reports_overview cfg t x y d = (Inr v, d')" and "normalize_from_to x y t = (a, b)" and "no_ties (rd_usage d)"
  shows "tables d' = tables d \<and> (\<exists>l i g. mset g = mset (group_latest (arg_max_of d) sn_owner (usage_between a b d))
    \<and> v = (overview_of a b (events_between a b d) g)\<lparr>ov_latest := l, ov_interval := i\<rparr>)"
proof -
  obtain o' l d1 where o': "query_overview a b d = (Inr o', d1)" and l: "latest_collected_at d1 = (Inr l, d')"
    and v: "v = o'\<lparr>ov_latest := l, ov_interval := quot (usage_snapshot_interval (g_report_interval cfg)) 1000000000\<rparr>"
    using assms by (auto simp: get_reports_overview_def seq_Inr_iff failing_Inr)
  have d1: "tables d' = tables d1" using l by (auto simp: latest_collected_at_def seq_Inr_iff failing_Inr dest!: report_query_Inr db_conn_tables)
  obtain w1 w2 where w: "tables w1 = tables d" "tables w2 = tables d" "tables d1 = tables d"
    and e: "o' = overview_of a b (events_between a b w1) (sort_key (\<lambda>s. owner_order w2 (sn_owner s)) (group_latest (arg_max_of w2) sn_owner (usage_between a b w2)))"
    using o' by (auto simp: query_overview_def seq_Inr_iff failing_Inr dest!: report_query_Inr db_conn_tables)
  let ?g = "sort_key (\<lambda>s. owner_order w2 (sn_owner s)) (group_latest (arg_max_of w2) sn_owner (usage_between a b w2))"
  have "mset ?g = mset (group_latest (arg_max_of d) sn_owner (usage_between a b d))"
    by (simp add: groups_cong(1)[OF w(2) assms(3), where pick = "arg_max_of d"])
  moreover have "events_between a b w1 = events_between a b d" by (rule tables_cong(2)[OF w(1)])
  ultimately show ?thesis using d1 w(3) v e by (intro conjI exI[of _ l] exI[of _ "quot (usage_snapshot_interval (g_report_interval cfg)) 1000000000"] exI[of _ ?g]) simp_all
qed

lemma list_user_usage_report_Inr:
  assumes "list_user_usage_report t x y sort_by search limit offset d = (Inr (items, n), d')" and "normalize_from_to x y t = (a, b)"
    and "no_ties (rd_usage d)"
  shows "n = int (length (found_users a b search d)) \<and> (\<exists>ties. items = limited (report_limit limit) (report_offset offset)
    (order_desc ties (report_order sort_by) (map (usage_item (events_between a b d)) (found_users a b search d))))"
proof -
  obtain w1 w2 where w: "tables w1 = tables d" "tables w2 = tables d" "n = int (length (found_users a b search w1))"
      "items = limited (report_limit limit) (report_offset offset) (order_desc (\<lambda>u. owner_order w2 (uu_owner u)) (report_order sort_by)
         (map (usage_item (events_between a b w2)) (found_users a b search w2)))"
    using assms(1,2) by (auto simp: list_user_usage_report_def query_user_usage_def seq_Inr_iff failing_Inr dest!: report_query_Inr db_conn_tables)
  then show ?thesis using groups_cong(2)[OF w(1) assms(3)] groups_cong(2)[OF w(2) assms(3)] tables_cong(2)[OF w(2)] by auto
qed

lemma rows_of_some_owners:
  assumes "distinct us"
  shows "sum_list (map (\<lambda>u. rows_affected (\<lambda>x. P x \<and> f x = u) t) us) \<le> length t"
proof (induction t)
  case (Cons x t)
  have "sum_list (map (\<lambda>u. if P x \<and> f x = u then 1 else 0) us) \<le> (1 :: nat)"
    using assms by (cases "P x") (simp_all add: sum_list_distinct_conv_sum_set)
  moreover have "rows_affected (\<lambda>y. P y \<and> f y = u) (x # t) = (if P x \<and> f x = u then 1 else 0) + rows_affected (\<lambda>y. P y \<and> f y = u) t" for u
    by (simp add: rows_affected_def)
  ultimately show ?case using Cons by (simp add: sum_list_addf)
qed (simp add: rows_affected_def)

lemma int_sum_list: "sum_list (map (\<lambda>x. int (f x)) xs) = int (sum_list (map f xs))"
  by (induction xs) simp_all

text \<open>
  When the users of a report fit on one page and no owner has two snapshots of one moment, the totals of the host are the sums over its rows:
  every user is listed once, and no action is counted for two of them.
\<close>

theorem report_adds_up:
  assumes "get_reports_overview cfg t x y d = (Inr v, d1)" and "list_user_usage_report t x y sort_by [] limit 0 d1 = (Inr (items, n), d2)"
    and "n \<le> report_limit limit" and "no_ties (rd_usage d)"
  shows "n = int (length items) \<and> distinct (map uu_owner items)
    \<and> ov_memory v = i64 (sum_list (map uu_memory items)) \<and> ov_reserved v = i64 (sum_list (map uu_reserved items))
    \<and> ov_disk v = i64 (sum_list (map uu_disk items)) \<and> ov_resources v = i64 (sum_list (map uu_resources items))
    \<and> ov_containers v = i64 (sum_list (map uu_containers items)) \<and> ov_running v = i64 (sum_list (map uu_running items))
    \<and> ov_volumes v = i64 (sum_list (map uu_volumes items)) \<and> ov_images v = i64 (sum_list (map uu_images items))
    \<and> ov_builds v = i64 (sum_list (map uu_builds items)) \<and> ov_projects v = i64 (sum_list (map uu_projects items))
    \<and> sum_list (map uu_actions items) \<le> ov_events v"
proof -
  obtain a b where ab: "normalize_from_to x y t = (a, b)" by fastforce
  let ?es = "events_between a b d" and ?g = "group_latest (arg_max_of d) sn_owner (usage_between a b d)"
  obtain l i g where d1: "tables d1 = tables d" and g: "mset g = mset ?g" and v: "v = overview_of a b ?es g \<lparr>ov_latest := l, ov_interval := i\<rparr>"
    using get_reports_overview_Inr[OF assms(1) ab assms(4)] by blast
  have u: "no_ties (rd_usage d1)" using d1 assms(4) by (simp add: tables_def)
  have all: "found_users a b [] d1 = ?g"
    by (simp add: groups_cong(2)[OF d1 assms(4)]) (simp add: found_users_def user_usage_search_def trim_space_def trim_right_def Let_def)
  obtain ties where n: "n = int (length ?g)" and "items = limited (report_limit limit) (report_offset 0)
      (order_desc ties (report_order sort_by) (map (usage_item ?es) ?g))"
    using list_user_usage_report_Inr[OF assms(2) ab u] all tables_cong(2)[OF d1] by auto
  then have items: "items = order_desc ties (report_order sort_by) (map (usage_item ?es) ?g)"
    using assms(3) by (simp add: limited_def report_offset_def order_desc_def)
  have m: "mset items = mset (map (usage_item ?es) ?g)" unfolding items by (rule order_desc_mset)
  have keys: "map sn_owner ?g = sort (remdups (map sn_owner (usage_between a b d)))" by (rule group_latest_keys) simp
  then have dg: "distinct (map sn_owner ?g)" by simp
  have o': "map uu_owner (map (usage_item ?es) ?g) = map sn_owner ?g" by (simp add: usage_item_def)
  have "mset (map uu_owner items) = mset (map sn_owner ?g)" unfolding o'[symmetric] by (simp only: mset_map m)
  then have "distinct (map uu_owner items)" using dg by (metis mset_eq_imp_distinct_iff)
  moreover have sums: "sum_list (map f items) = sum_list (map (\<lambda>s. f (usage_item ?es s)) g)" for f :: "user_usage_item \<Rightarrow> int"
    using sum_list_perm[OF m, of f] sum_list_perm[OF g, of "\<lambda>s. f (usage_item ?es s)"] by (simp add: comp_def)
  moreover have "sum_list (map uu_actions items) \<le> ov_events v"
  proof -
    have "mset (map sn_owner g) = mset (map sn_owner ?g)" using g by simp
    then have "distinct (map sn_owner g)" using dg by (metis mset_eq_imp_distinct_iff)
    from rows_of_some_owners[OF this, where P = "\<lambda>r. fst r \<noteq> nil_id" and f = fst and t = ?es]
    show ?thesis by (simp add: sums v overview_of_def usage_item_def int_sum_list comp_def)
  qed
  moreover have "length items = length ?g" using arg_cong[OF m, of size] by simp
  ultimately show ?thesis using n by (simp add: v overview_of_def usage_item_def sum_of_def comp_def)
qed

lemma event_bucket_eq:
  assumes "0 < n" and "n dvd 86400"
  shows "event_bucket n t = truncate_time t (n * 1000000000)"
proof -
  have "n dvd 719162 * 86400" using assms(2) by (rule dvd_mult)
  then have "n * 1000000000 dvd 62135596800 * 1000000000" using mult_dvd_mono[of n 62135596800 1000000000 1000000000] by simp
  then have "(t + 62135596800 * 1000000000) mod (n * 1000000000) = t mod (n * 1000000000)" by (metis dvd_imp_mod_0 mod_add_right_eq add.right_neutral)
  moreover have "t div (n * 1000000000) = t div 1000000000 div n" using zdiv_zmult2_eq[of n t 1000000000] assms(1) by (simp add: mult.commute)
  moreover have "t - t mod (n * 1000000000) = t div (n * 1000000000) * (n * 1000000000)" by (rule minus_mod_eq_div_mult)
  ultimately show ?thesis by (simp only: event_bucket_def truncate_time_def mult.assoc)
qed

text \<open>
  While the interval of the snapshots divides a day, the timeline of a user has its buckets in order, each
  once, and each point counts exactly the actions of the user that fall into its bucket.
\<close>

theorem timeline_counts_actions:
  assumes "get_user_usage_timeline cfg t u x y d = (Inr ps, d')" and "n = g_report_interval cfg"
    and "min_report_interval \<le> n" "n \<le> max_report_interval" "n dvd 86400"
  shows "sorted (map pt_bucket ps) \<and> distinct (map pt_bucket ps) \<and> list_all (\<lambda>p. pt_actions p = int (rows_affected
      (\<lambda>r. fst r = u \<and> truncate_time (occurred_of r) (n * 1000000000) = pt_bucket p)
      (events_between (fst (normalize_from_to x y t)) (snd (normalize_from_to x y t)) d))) ps"
proof -
  obtain a b where ab: "normalize_from_to x y t = (a, b)" by fastforce
  have n: "0 < n" "usage_snapshot_interval (g_report_interval cfg) = n * 1000000000"
    using assms(2-4) by (auto simp: usage_snapshot_interval_def min_report_interval_def Let_def)
  obtain w where w: "tables w = tables d" and "ps = timeline_of u a b n w"
    using assms(1) n by (auto simp: get_user_usage_timeline_def ab query_timeline_def seq_Inr_iff failing_Inr Let_def quot_def
      dest!: report_query_Inr db_conn_tables)
  then have ps: "ps = map (usage_point n (filter (\<lambda>r. fst r = u) (events_between a b d)))
      (group_latest (arg_max_of w) sn_bucket (filter (\<lambda>s. sn_owner s = u) (usage_between a b d)))"
    by (simp add: timeline_of_def tables_cong[OF w])
  have "map sn_bucket (group_latest p sn_bucket ss) = sort (remdups (map sn_bucket ss))" for p ss by (rule group_latest_keys) simp
  then have "map pt_bucket ps = sort (remdups (map sn_bucket (filter (\<lambda>s. sn_owner s = u) (usage_between a b d))))"
    by (simp add: ps usage_point_def comp_def)
  then have "sorted (map pt_bucket ps)" "distinct (map pt_bucket ps)" by simp_all
  moreover have "list_all (\<lambda>p. pt_actions p = int (rows_affected (\<lambda>r. fst r = u \<and> truncate_time (occurred_of r) (n * 1000000000) = pt_bucket p) (events_between a b d))) ps"
    by (auto simp: ps list_all_iff usage_point_def rows_affected_def filter_filter event_bucket_eq[OF n(1) assms(5)] conj_commute)
  ultimately show ?thesis by (simp add: ab)
qed

text \<open>
  An interval of seven minutes is allowed as well, but its buckets, which count from the first year, never meet
  those of the actions, which count from 1970: the timeline then shows no action at all.
\<close>

lemma uneven_interval_counts_nothing: "event_bucket 420 t \<noteq> truncate_time c (420 * 1000000000)"
proof
  assume e: "event_bucket 420 t = truncate_time c (420 * 1000000000)"
  have "(event_bucket 420 t + 62135596800 * 1000000000) mod 420000000000 = 60000000000"
    by (simp add: event_bucket_def mult.assoc)
  moreover have "truncate_time c 420000000000 + 62135596800 * 1000000000 = 420000000000 * ((c + 62135596800 * 1000000000) div 420000000000)"
    unfolding truncate_time_def using minus_mod_eq_mult_div[of "c + 62135596800 * 1000000000" 420000000000] by simp
  then have "(truncate_time c 420000000000 + 62135596800 * 1000000000) mod 420000000000 = 0" by (simp only: mod_mult_self1_is_0)
  ultimately show False using e by simp
qed


section \<open>Examples\<close>

definition sample_metrics :: host_metrics where
  "sample_metrics = \<lparr> hm_cpu = (\<lambda>n. 5), hm_memory = (\<lambda>n. (100, 200)), hm_disk = (\<lambda>n. (10, 5)) \<rparr>"

lemma sample_queries:
  "get_total_reserved_memory sample_db = Inr 0" "count_active_builds sample_db = Inr 0" "get_total_used_disk sample_db = Inr 0"
  "get_total_volume_bytes sample_db = Inr 0" "is_ok (get_status_counts sample_db)" "is_ok (count_volumes sample_db)"
  "is_ok (count_images sample_db)" "is_ok (count_builds sample_db)"
  by code_simp+

lemma sample_monitoring:
  "\<exists>m w1. get_system_monitoring sample_metrics sample_world = (Inr m, w1) \<and> sm_memory_total m = 17179869184
     \<and> sm_disk_free m = 107374182400 \<and> sm_reserved m = 0 \<and> sm_reserved_builds m = 0
     \<and> sm_admission m = fst (admission_state 17179869184 107374182400 sample_config 0)"
proof -
  obtain a b c d where "get_status_counts sample_db = Inr a" "count_volumes sample_db = Inr b" "count_images sample_db = Inr c"
    "count_builds sample_db = Inr d" using sample_queries(5-8) by (auto simp: is_ok_def split: sum.splits)
  then show ?thesis
    by (simp add: get_system_monitoring_def seq_def ask_def query_def ext_def get_config_def Let_def now_def sample_def ret_def
      sample_metrics_def sample_world_def sample_env_def sample_queries(1-4) i64_id in_i64_def)
qed

lemma monitoring_matches_admission_witness:
  "\<exists>m w1. get_system_monitoring sample_metrics sample_world = (Inr m, w1) \<and> sm_admission m = ''open''
     \<and> fst (check_host_capacity 536870912 sample_world) = Inr ()"
proof -
  obtain m w1 where r: "get_system_monitoring sample_metrics sample_world = (Inr m, w1)"
    and v: "sm_memory_total m = 17179869184" "sm_disk_free m = 107374182400" "sm_reserved m = 0" "sm_reserved_builds m = 0"
    and st: "sm_admission m = fst (admission_state 17179869184 107374182400 sample_config 0)"
    using sample_monitoring by blast
  have "f64_mul (f64_of_int 17179869184) 1 = 17179869184" using f64_of_int_exact[of 17179869184] by (simp add: f64_mul_def f64_of_int_def)
  then have "host_memory_pool 17179869184 0 1 = 17179869184" by (simp add: host_memory_pool_def Let_def i64_id in_i64_def f64_to_int_def)
  then have a: "sm_admission m = ''open''"
    by (simp add: st admission_state_def ensure_host_memory_admission_def Let_def sample_config_def i64_id in_i64_def)
  have cfg: "e_config (w_env sample_world) = sample_config" by (simp add: sample_defs)
  have "fst (check_host_capacity (g_default_memory (e_config (w_env sample_world))) sample_world) = Inr ()"
    using monitoring_matches_admission[OF r refl] v a by (simp add: sample_defs sample_config_def in_i64_def)
  then show ?thesis using r a by (simp add: cfg) (simp add: sample_config_def)
qed

lemma snapshots_count_once_witness:
  "\<exists>ss w'. collect_usage_snapshots (\<lambda>_ _. no_stats) 0 5 (sample_world\<lparr>w_env := sample_env\<lparr>e_fault := \<lambda>n. if n = w_tick sample_world then None else Some (mk_err ErrUnavailable ''down'')\<rparr>\<rparr>)
     = (Inr ss, w') \<and> sum_list (map sn_containers ss) = 1 \<and> list_all (\<lambda>s. sn_bucket s = 0) ss"
proof -
  let ?w = "sample_world\<lparr>w_env := sample_env\<lparr>e_fault := \<lambda>n. if n = w_tick sample_world then None else Some (mk_err ErrUnavailable ''down'')\<rparr>\<rparr>"
  have "is_ok (snapshot_rows (snapshot_row 0 5 sample_db) (snapshot_owners sample_db))" by code_simp
  moreover have "w_db ?w = sample_db" "e_fault (w_env ?w) (w_tick ?w) = None" "length (t_containers sample_db) = 1" by (simp_all add: sample_defs)
  ultimately show ?thesis using snapshots_count_once[of ?w sample_db 0 5 "\<lambda>_ _. no_stats"] by (auto simp: list_all_iff)
qed

lemma audit_event_round_trip_witness:
  "\<exists>e. ar_actor e = Some 7 \<and> audit_event_from_proto (\<lambda>s. if s = [] then None else Some (length s - 1))
     (audit_event_to_proto (\<lambda>u. replicate (Suc u) (CHR ''u'')) e) = Inr e"
proof -
  let ?e = "\<lparr> ar_id = 3, ar_occurred = Some 5000000000, ar_actor = Some 7, ar_actor_name = ''alice'', ar_actor_scope = ''user'',
    ar_action = ''container.start'', ar_outcome = ''success'', ar_rtype = ''container'', ar_rid = ''c'', ar_rname = ''web'', ar_owner = None,
    ar_owner_name = [], ar_request = ''r1'', ar_client = [], ar_agent = [], ar_error = [], ar_details = ''{}'' \<rparr>"
  have "audit_event_from_proto (\<lambda>s. if s = [] then None else Some (length s - 1)) (audit_event_to_proto (\<lambda>u. replicate (Suc u) (CHR ''u'')) ?e) = Inr ?e"
    by (subst audit_event_round_trip[where t = 5000000000]) simp_all
  then show ?thesis by (intro exI[of _ ?e]) simp
qed

definition sample_snapshot :: usage_snapshot where
  "sample_snapshot = \<lparr> sn_owner = 7, sn_username = ''alice'', sn_bucket = 300000000000, sn_collected = 301000000000, sn_memory = 5,
     sn_reserved = 6, sn_cpu = 0, sn_image_disk = 1, sn_volume_disk = 1, sn_total_disk = 2, sn_containers = 2, sn_running = 1,
     sn_volumes = 1, sn_images = 1, sn_builds = 0, sn_projects = 1 \<rparr>"

definition sample_event :: audit_record where
  "sample_event = \<lparr> ar_id = 3, ar_occurred = Some 310000000000, ar_actor = Some 7, ar_actor_name = ''alice'', ar_actor_scope = ''user'',
    ar_action = ''container.start'', ar_outcome = ''success'', ar_rtype = ''container'', ar_rid = ''c'', ar_rname = ''web'', ar_owner = None,
    ar_owner_name = [], ar_request = ''r1'', ar_client = [], ar_agent = [], ar_error = [], ar_details = ''{}'' \<rparr>"

definition sample_reports :: report_db where
  "sample_reports = \<lparr> rd_env = \<lparr> rv_fault = (\<lambda>n. None), rv_now = int, rv_uuid = (\<lambda>n. 100 + n), rv_bound = (\<lambda>t. t), rv_text = (\<lambda>i. ''u''),
       rv_arg_max = (\<lambda>n column ss. n), rv_owner_order = (\<lambda>n i. i), rv_event_order = (\<lambda>n r. n) \<rparr>,
     rd_tick = 0, rd_addr = ''clickhouse:9000'', rd_open = False, rd_events = [row_of_event sample_event],
     rd_usage = [sample_snapshot, sample_snapshot\<lparr>sn_collected := 302000000000\<rparr>] \<rparr>"

lemma sample_reports_no_ties: "no_ties (rd_usage sample_reports)"
  by (simp add: no_ties_def sample_reports_def sample_snapshot_def)

lemma merged_rows_invisible_witness:
  "\<exists>d'. rd_usage d' = [sample_snapshot\<lparr>sn_collected := 302000000000\<rparr>] \<and> rv_arg_max (rd_env d') = (\<lambda>n column ss. 5)
     \<and> fst (get_user_usage_timeline sample_config 400000000000 7 None None d')
       = fst (get_user_usage_timeline sample_config 400000000000 7 None None sample_reports)"
proof -
  let ?ss = "[sample_snapshot\<lparr>sn_collected := 302000000000\<rparr>]"
  let ?d = "sample_reports\<lparr>rd_usage := ?ss, rd_env := (rd_env sample_reports)\<lparr>rv_arg_max := \<lambda>n column ss. 5, rv_owner_order := \<lambda>n i. 9 - i\<rparr>\<rparr>"
  have m: "merged_away (rd_usage sample_reports) ?ss" by (simp add: merged_away_def sample_reports_def sample_snapshot_def)
  have n: "normalize_from_to None None 400000000000 = (-86000000000000, 400000000000)" by (simp add: normalize_from_to_def)
  have "fst (get_user_usage_timeline sample_config 400000000000 7 None None ?d) = fst (get_user_usage_timeline sample_config 400000000000 7 None None sample_reports)"
    using merged_rows_invisible[OF sample_reports_no_ties m refl n] by blast
  moreover have "rd_usage ?d = ?ss \<and> rv_arg_max (rd_env ?d) = (\<lambda>n column ss. 5)" by simp
  ultimately show ?thesis by blast
qed

lemma report_adds_up_witness:
  "\<exists>v d1 items n d2. get_reports_overview sample_config 400000000000 None None sample_reports = (Inr v, d1)
     \<and> list_user_usage_report 400000000000 None None ''disk'' [] 20 0 d1 = (Inr (items, n), d2)
     \<and> ov_containers v = i64 (sum_list (map uu_containers items))"
proof -
  have "is_ok (fst (get_reports_overview sample_config 400000000000 None None sample_reports))" by code_simp
  then obtain v d1 where v: "get_reports_overview sample_config 400000000000 None None sample_reports = (Inr v, d1)"
    by (metis is_ok_def prod.collapse sum.case(1) sum.exhaust_sel)
  let ?r = "list_user_usage_report 400000000000 None None ''disk'' [] 20 0 (snd (get_reports_overview sample_config 400000000000 None None sample_reports))"
  have "case fst ?r of Inl _ \<Rightarrow> False | Inr (items, n) \<Rightarrow> n \<le> 20" by code_simp
  then obtain items n d2 where l: "list_user_usage_report 400000000000 None None ''disk'' [] 20 0 d1 = (Inr (items, n), d2)" "n \<le> 20"
    using v by (auto split: sum.splits prod.splits) (metis prod.collapse)
  show ?thesis using report_adds_up[OF v l(1) _ sample_reports_no_ties] l v by (auto simp: report_limit_def)
qed

lemma timeline_counts_actions_witness:
  "\<exists>ps d'. get_user_usage_timeline sample_config 400000000000 7 None None sample_reports = (Inr ps, d')
     \<and> distinct (map pt_bucket ps) \<and> map pt_actions ps = [1]"
proof -
  let ?r = "get_user_usage_timeline sample_config 400000000000 7 None None sample_reports"
  have v: "case fst ?r of Inl _ \<Rightarrow> False | Inr ps \<Rightarrow> map pt_actions ps = [1]" by code_simp
  then obtain ps d' where r: "?r = (Inr ps, d')" by (cases ?r) (auto split: sum.splits)
  have "distinct (map pt_bucket ps)"
    using timeline_counts_actions[OF r refl] by (simp add: sample_config_def min_report_interval_def max_report_interval_def)
  then show ?thesis using r v by auto
qed

end
