(* ===== verification/Spec2Isabelle.thy ===== *)
theory Spec2Isabelle
  imports OperationProps OutboxWorkers EventProps AdmissionProps RequestProps SystemProps ProjectProps SourceProps UploadProps BuildProps
    ParserProps ComposeProps RollbackProps SsoProps BuilderProps GatewayProps TelemetryProps ApiProps DockerProps ReportProps
begin

text \<open>
  A verification library of the backend of docker-cloud-manager (src/backend), a platform on which
  users run containers, images, volumes and compose projects on one Docker host.

  The program.  A gateway serves the browser: it checks tokens and permissions, hands out telemetry
  tickets and proxies requests.  The core service owns the resources: a request is checked against the
  scope of the caller, the quota of the user and the capacity of the host, and writes a row, an
  operation and an outbox row in one transaction; an outbox worker publishes the message, and a
  worker that receives it drives Docker and completes the operation.  An event worker follows the
  Docker engine, a rebalancer lends what nobody has reserved, coordinators advance projects and
  compose deployments tick by tick.  The builder turns a source archive into an image and reports to
  the core service.  The sign-on service keeps users, tokens and logins through an identity provider.
  The telemetry service streams logs and terminals.

  Conventions.  Every definition is translated from the Go file its theory names; the mapping to
  lines is in the manifest.  A method of a service is a function from the state it can reach to an
  error or a value, together with the state it leaves (theory Method); the combinators seq, on_error,
  attempt, ignore and on_failure are the forms in which the code treats an error, so every early
  return is a branch.  Errors are values of the datatype goerr, and errors.Is and errors.As are
  functions over it.  An int or int64 is an int with the wrap-around of i64 written out, a uint64
  counter is a 64 word, a float64 is a rational rounded to 53 bits at each operation (GoFloat), a
  string is a list of bytes, a uuid a natural number whose nil is 0, an instant a count of
  nanoseconds.  A table is the list of its rows; a unique index, foreign key or check of the
  migrations is a test that refuses a statement (Store).  Everything the code cannot determine itself
  (the answers of Docker, of the broker, of the object store and of other services, the clock, random
  draws, and which call fails) is read from the environment record of the world at a clock of external
  calls, so a theorem about all worlds is about all answers and all patterns of failures.  What
  third-party packages compute (JSON, YAML and compose-go, golang-jwt, bcrypt, archive readers,
  regular expressions, uuid parsing) is a parameter, with what the code relies on as named hypotheses.

  Theories by part of the program.
  Shared: Prelude, Encoding (UTF-8 and base64), Method, AppErrors (pkg/apperrors, pkg/grpcerrors),
  Access (pkg/accessscope, pkg/permissions, the shape of a gRPC handler), Validation (pkg/validation,
  pkg/imageref), GoFloat, GitSource (pkg/gitsource, pkg/buildobjects).
  Store of the core service (internal/core/model, internal/core/repository): Model, Store, World,
  ContainerRepo, OperationRepo, ImageRepo, VolumeRepo, ProjectRepo, and Outbox, where the contract of
  the four transactional outboxes is the locale outbox_store, interpreted on each table by the
  repository that owns it.
  Transitions of that store: RepoInv, CoreStep, Lifecycle, Commits, StartSteps.
  Every service method is shown to follow the relation core_step, whose steps are the transactions of
  the repositories; an invariant of core_step thus holds however requests and workers interleave at
  the granularity of transactions.
  Services of the core (internal/core/service, internal/core/config): SystemConfig, SystemService,
  Admission, ContainerService, ContainerWorker, OutboxWorkers (locale outbox_publisher, interpreted on
  the four workers), EventWorker, Rebalancer, ProjectStatus, ProjectService, ResourceService,
  BuildService, ComposeParser, ComposeSource, ComposeDeploy, ComposeCoordinator, Reports and
  ReportStore (monitoring, snapshots, ClickHouse), DockerAdapter, the HTTP handlers with the cloning
  and packing of repositories in Uploads, and the gRPC surface GrpcCore and ConfigApi.
  RuntimeAdapters holds the Docker adapters of the builder and the telemetry service, the registry
  and the object store.
  Other services: SsoState, Oidc, SignOn, OidcLogin, SsoApi (internal/sso); BuilderFiles, Builder
  (internal/builder); Telemetry, TelemetryHttp (internal/telemetry); InternalAuth
  (internal/internalauth), Tickets, GatewayProxy, GatewayRoutes (internal/gateway), and GatewayApi, which
  holds the requests on resources from the gateway to the core service and back: the handlers and the
  client of the gateway, and the listings of the core's gRPC surface with the messages of its rows.
  The theories named Props hold the properties; Samples and the ends of the Props theories hold the
  concrete states on which each property with hypotheses is applied.

  What the lemmas show.
  Operations (OperationProps): one active operation per resource, bounded attempts,
  finished operations that stay finished, and a delivered start that, when nothing fails, completes
  its operation and brings the project up to date.  Requests (RequestProps, AdmissionProps): other users are
  refused without a trace, a create is all or nothing, an accepted start fits quota and host.  Events
  (EventProps): stale events are ignored and an exit is recorded as what it was.  Distribution of the
  host and configuration (SystemProps): each limit lies between reservation and burst, their sum within
  what the host has left or was reserved, and the published configuration is always valid.  Projects and deployments (ProjectProps, ParserProps,
  ComposeProps, RollbackProps): accepted compose files are well formed, services start in the order
  of their dependencies, the status loop refines its specification, a rollback waits for its
  containers.  Builds (BuildProps, SourceProps, BuilderProps): finished builds are frozen, images fit
  the quota, extraction stays inside the workspace, a build is reported once.  Uploads (UploadProps): a
  form leaves a whole build or nothing, the archive of a repository holds its regular files, git runs
  with harmless arguments only.  Sign-on (SsoProps): an
  administrator remains while requests are served one after another, and the interleaving of two
  deactivations that leaves none is exhibited; a login state is used once, a token identifies its
  account until its expiry in whole seconds.  Gateway and
  telemetry (GatewayProps, TelemetryProps): a ticket is used once, headers of clients do not change
  the identity, administrative routes need an administrator, also those behind a ticket, sessions stay within the
  limits of the service and of the user, the log stream has one frame per line.  Requests through the gateway (ApiProps): a create reaches the core service
  as it was sent and is answered with what the service said, and the pages of a listing are the rows of
  the user, each once with its columns.  Adapters (DockerProps): creating a container and starting a build
  refine all-or-nothing steps, labels bring the identity of a container back, to the events of the
  core as to the targets of the telemetry service, and a range of an object is read exactly.  Reports (ReportProps):
  snapshots count every resource once and under its owner, whatever statistics fail; reports depend
  neither on merged rows nor on the choices ClickHouse leaves open, where no owner has two snapshots of
  one moment; totals are the sums of their rows.

  Loops and bounds.  Loops over lists are structural recursions.  Loops whose end depends on the
  outside (the wait for an exec of the registry, the reading of an upload) are
  partial_function (option) or recursions over what the reader delivers; that they end is proved
  where it holds (wait_exec_returns, upload_limit_exact).  No fuel is used.  Sums are kept on 64 bits
  where the code adds without a check.

  Not modelled.  Generated protobuf code; the wiring of app.go and main.go, logging and metrics; the
  decoding of JSON bodies, and the handlers of the gateway for reports and user management, which copy
  the fields of what Reports and SsoApi model; the declaration of RabbitMQ queues; the goroutines, timers and select
  loops around a tick or a delivery (a tick, a delivery or a history of requests is where the model
  starts); the git command, the zip format and the file system, which are parameters.  Transactions are atomic steps:
  two statements outside of a transaction may be separated by other requests, which the store
  transitions allow for the core service.  The requests of the sign-on service run one at a time, except
  for the check and the write of a deactivation, which SsoProps also takes apart.
\<close>

end
